(* ===== verification/Errors.thy ===== *)
theory Errors
  imports Main
begin

text \<open>
  The error codes of the programs (\<open>shared/src/errors.rs\<close>) and the result type of every
  fallible function. \<open>Ok\<close> and \<open>Err\<close> are Rust's \<open>Result\<close>; \<open>Panic\<close> is the abort of an
  \<open>unwrap\<close> on \<open>None\<close>, of an index out of range, or of an arithmetic overflow (the
  workspace builds with \<open>overflow-checks = true\<close>). \<open>and_then\<close> is the \<open>?\<close> operator and
  \<open>check_condition\<close> the macro of that name.
\<close>

text \<open>
  Anchor numbers the constructors of the error enum from 6000 in their order in the file; the
  number is what a client sees. Each name of the enum stands for its code.
\<close>

datatype error_code = ErrorCode nat

abbreviation "Unauthorized \<equiv> ErrorCode 6000"
abbreviation "InvalidProgramCount \<equiv> ErrorCode 6001"
abbreviation "ProgramNotInRegistrar \<equiv> ErrorCode 6002"
abbreviation "InvalidProgramVersion \<equiv> ErrorCode 6003"
abbreviation "InvalidRole \<equiv> ErrorCode 6004"
abbreviation "InvalidBump \<equiv> ErrorCode 6005"
abbreviation "InvalidPda \<equiv> ErrorCode 6006"
abbreviation "InvalidActorPda \<equiv> ErrorCode 6007"
abbreviation "InvalidTokenMintProgram \<equiv> ErrorCode 6008"
abbreviation "InvalidTokenMint \<equiv> ErrorCode 6009"
abbreviation "InvalidProgram \<equiv> ErrorCode 6010"
abbreviation "InvalidAccountData \<equiv> ErrorCode 6011"
abbreviation "InvalidFeeRecipientCount \<equiv> ErrorCode 6012"
abbreviation "InvalidFeeRecipientContainsDuplicates \<equiv> ErrorCode 6013"
abbreviation "InvalidFeeRecipient \<equiv> ErrorCode 6014"
abbreviation "TVLFeeTooLow \<equiv> ErrorCode 6015"
abbreviation "TVLFeeTooHigh \<equiv> ErrorCode 6016"
abbreviation "InvalidFeeRecipientPortion \<equiv> ErrorCode 6017"
abbreviation "InvalidFolioStatus \<equiv> ErrorCode 6018"
abbreviation "InvalidRecipientTokenAccount \<equiv> ErrorCode 6019"
abbreviation "InvalidSenderTokenAccount \<equiv> ErrorCode 6020"
abbreviation "InvalidDaoFeeRecipient \<equiv> ErrorCode 6021"
abbreviation "InvalidNumberOfRemainingAccounts \<equiv> ErrorCode 6022"
abbreviation "MissingRemainingAccount \<equiv> ErrorCode 6023"
abbreviation "AccountNotSigner \<equiv> ErrorCode 6024"
abbreviation "AccountNotWritable \<equiv> ErrorCode 6025"
abbreviation "AccountNotExecutable \<equiv> ErrorCode 6026"
abbreviation "InvalidAddedTokenMints \<equiv> ErrorCode 6027"
abbreviation "InvalidRemovedTokenMints \<equiv> ErrorCode 6028"
abbreviation "MaxNumberOfTokensReached \<equiv> ErrorCode 6029"
abbreviation "MintMismatch \<equiv> ErrorCode 6030"
abbreviation "InvalidShareAmountProvided \<equiv> ErrorCode 6031"
abbreviation "InvalidTokenAmount \<equiv> ErrorCode 6032"
abbreviation "InvalidFolioTokenMint \<equiv> ErrorCode 6033"
abbreviation "PendingBasketIsNotEmpty \<equiv> ErrorCode 6034"
abbreviation "TokenMintNotInOldFolioBasket \<equiv> ErrorCode 6035"
abbreviation "InvalidMintFee \<equiv> ErrorCode 6036"
abbreviation "InvalidFeeDistribution \<equiv> ErrorCode 6037"
abbreviation "MissingFeeDistributionIndex \<equiv> ErrorCode 6038"
abbreviation "InvalidAuctionLength \<equiv> ErrorCode 6039"
abbreviation "InvalidDistributionIndex \<equiv> ErrorCode 6040"
abbreviation "InvalidCranker \<equiv> ErrorCode 6041"
abbreviation "InvalidAuctionId \<equiv> ErrorCode 6042"
abbreviation "MintCantBeEqual \<equiv> ErrorCode 6043"
abbreviation "InvalidRebalanceLimit \<equiv> ErrorCode 6044"
abbreviation "InvalidRebalanceLimitAllZeroOrAllGreaterThanZero \<equiv> ErrorCode 6045"
abbreviation "InvalidSellLimit \<equiv> ErrorCode 6046"
abbreviation "InvalidBuyLimit \<equiv> ErrorCode 6047"
abbreviation "InvalidPrices \<equiv> ErrorCode 6048"
abbreviation "InvalidTtl \<equiv> ErrorCode 6049"
abbreviation "AuctionCannotBeOpened \<equiv> ErrorCode 6050"
abbreviation "MaxAuctionRunsLimitExceeded \<equiv> ErrorCode 6051"
abbreviation "AuctionMaxRunsReached \<equiv> ErrorCode 6052"
abbreviation "NoRunningAuctionFound \<equiv> ErrorCode 6053"
abbreviation "AuctionTimeout \<equiv> ErrorCode 6054"
abbreviation "AuctionCollision \<equiv> ErrorCode 6055"
abbreviation "AuctionCannotBeOpenedPermissionlesslyYet \<equiv> ErrorCode 6056"
abbreviation "FolioNotRebalancing \<equiv> ErrorCode 6057"
abbreviation "AuctionCannotBeOpenedPermissionlesslyWithDeferredPrice \<equiv> ErrorCode 6058"
abbreviation "AuctionNotOngoing \<equiv> ErrorCode 6059"
abbreviation "SlippageExceeded \<equiv> ErrorCode 6060"
abbreviation "InvalidAuctionSellTokenMint \<equiv> ErrorCode 6061"
abbreviation "InvalidAuctionBuyTokenMint \<equiv> ErrorCode 6062"
abbreviation "InsufficientBalance \<equiv> ErrorCode 6063"
abbreviation "ExcessiveBid \<equiv> ErrorCode 6064"
abbreviation "InsufficientBid \<equiv> ErrorCode 6065"
abbreviation "InvalidRewardToken \<equiv> ErrorCode 6066"
abbreviation "UnsupportedSPLToken \<equiv> ErrorCode 6067"
abbreviation "DisallowedRewardToken \<equiv> ErrorCode 6068"
abbreviation "RewardAlreadyRegistered \<equiv> ErrorCode 6069"
abbreviation "NoMoreRoomForNewRewardToken \<equiv> ErrorCode 6070"
abbreviation "RewardNotRegistered \<equiv> ErrorCode 6071"
abbreviation "InvalidRewardMint \<equiv> ErrorCode 6072"
abbreviation "InvalidRewardHalfLife \<equiv> ErrorCode 6073"
abbreviation "InvalidRewardInfo \<equiv> ErrorCode 6074"
abbreviation "InvalidUserRewardInfo \<equiv> ErrorCode 6075"
abbreviation "InvalidGovernanceAccount \<equiv> ErrorCode 6076"
abbreviation "InvalidCommunityMint \<equiv> ErrorCode 6077"
abbreviation "InvalidFeeRecipientTokenAccount \<equiv> ErrorCode 6078"
abbreviation "InvalidTokenRewardsTokenAccount \<equiv> ErrorCode 6079"
abbreviation "InvalidFolioOwner \<equiv> ErrorCode 6080"
abbreviation "InvalidAccountOwner \<equiv> ErrorCode 6081"
abbreviation "NoRewardsToClaim \<equiv> ErrorCode 6082"
abbreviation "MathOverflow \<equiv> ErrorCode 6083"
abbreviation "InvalidRewardTokenAccount \<equiv> ErrorCode 6084"
abbreviation "InvalidFeeNumerator \<equiv> ErrorCode 6085"
abbreviation "NewFolioNotOwnedByNewFolioProgram \<equiv> ErrorCode 6086"
abbreviation "InvalidNewFolio \<equiv> ErrorCode 6087"
abbreviation "CantMigrateToSameProgram \<equiv> ErrorCode 6088"
abbreviation "FolioNotMigrating \<equiv> ErrorCode 6089"
abbreviation "InvalidFeeFloor \<equiv> ErrorCode 6090"
abbreviation "InvalidMandateLength \<equiv> ErrorCode 6091"
abbreviation "InvalidHoldingTokenAccount \<equiv> ErrorCode 6092"
abbreviation "InvalidCallbackProgram \<equiv> ErrorCode 6093"
abbreviation "RebalanceTTLExceeded \<equiv> ErrorCode 6094"
abbreviation "RebalanceAuctionLauncherWindowTooLong \<equiv> ErrorCode 6095"
abbreviation "RebalanceNotOpenForDetailUpdates \<equiv> ErrorCode 6096"
abbreviation "RebalanceTokenAlreadyAdded \<equiv> ErrorCode 6097"
abbreviation "TokensNotAvailableForRebalance \<equiv> ErrorCode 6098"
abbreviation "SellTokenNotSurplus \<equiv> ErrorCode 6099"
abbreviation "BuyTokenNotDeficit \<equiv> ErrorCode 6100"
abbreviation "InvalidRebalanceNonceAuctionEnded \<equiv> ErrorCode 6101"
abbreviation "BidInvariantViolated \<equiv> ErrorCode 6102"
abbreviation "RebalanceMintsAndPricesAndLimitsLengthMismatch \<equiv> ErrorCode 6103"
abbreviation "MinimumAmountOutNotMet \<equiv> ErrorCode 6104"
abbreviation "InvalidTokenBalance \<equiv> ErrorCode 6105"
abbreviation "MigrationFailedFolioNotPoked \<equiv> ErrorCode 6106"
abbreviation "MigrationFailedDaoPendingFeeSharesTooHigh \<equiv> ErrorCode 6107"
abbreviation "MigrationFailedFeeRecipientsPendingFeeSharesTooHigh \<equiv> ErrorCode 6108"
abbreviation "MigrationFailedFeeRecipientsPendingFeeShareToBeMintedTooHigh \<equiv> ErrorCode 6109"
abbreviation "InvalidTokenProgram \<equiv> ErrorCode 6110"
abbreviation "InvalidUpdateAuthority \<equiv> ErrorCode 6111"

datatype 'a result = Ok 'a | Err error_code | Panic

definition and_then :: "'a result \<Rightarrow> ('a \<Rightarrow> 'b result) \<Rightarrow> 'b result" where
  "and_then r f = (case r of Ok x \<Rightarrow> f x | Err e \<Rightarrow> Err e | Panic \<Rightarrow> Panic)"

definition check_condition :: "bool \<Rightarrow> error_code \<Rightarrow> 'a result \<Rightarrow> 'a result" where
  "check_condition c e r = (if \<not> c then Err e else r)"

definition ok_or :: "'a option \<Rightarrow> error_code \<Rightarrow> 'a result" where
  "ok_or x e = (case x of Some y \<Rightarrow> Ok y | None \<Rightarrow> Err e)"

definition unwrap :: "'a option \<Rightarrow> 'a result" where
  "unwrap x = (case x of Some y \<Rightarrow> Ok y | None \<Rightarrow> Panic)"

text \<open>A \<open>for\<close> loop over a vector whose body may return early with an error.\<close>

fun fold_result :: "('s \<Rightarrow> 'x \<Rightarrow> 's result) \<Rightarrow> 's \<Rightarrow> 'x list \<Rightarrow> 's result" where
  "fold_result f s [] = Ok s"
| "fold_result f s (x # xs) = and_then (f s x) (\<lambda>s'. fold_result f s' xs)"

definition is_ok :: "'a result \<Rightarrow> bool" where
  "is_ok r = (case r of Ok _ \<Rightarrow> True | _ \<Rightarrow> False)"

lemma and_then_simps [simp]:
  "and_then (Ok x) f = f x" "and_then (Err e) f = Err e" "and_then Panic f = Panic"
  by (simp_all add: and_then_def)

lemma and_then_Ok_iff [simp]: "and_then r f = Ok y \<longleftrightarrow> (\<exists>x. r = Ok x \<and> f x = Ok y)"
  by (cases r) auto

text \<open>
  Congruences for evaluation: the rest of a computation is looked at only once the step
  before it is known, as with \<open>if\<close>.
\<close>

lemma and_then_weak_cong: "r = r' \<Longrightarrow> and_then r f = and_then r' f"
  by simp

lemma check_condition_weak_cong:
  "c = c' \<Longrightarrow> check_condition c e r = check_condition c' e r"
  by simp

lemma and_then_fundef_cong [fundef_cong]:
  "r = r' \<Longrightarrow> (\<And>x. r' = Ok x \<Longrightarrow> f x = f' x) \<Longrightarrow> and_then r f = and_then r' f'"
  by (cases r') auto

lemma check_condition_Ok_iff [simp]: "check_condition c e r = Ok y \<longleftrightarrow> c \<and> r = Ok y"
  by (simp add: check_condition_def)

lemma check_condition_simps [simp]:
  "check_condition True e r = r" "check_condition False e r = Err e"
  by (simp_all add: check_condition_def)

lemma ok_or_simps [simp]: "ok_or (Some x) e = Ok x" "ok_or None e = Err e"
  by (simp_all add: ok_or_def)

lemma unwrap_simps [simp]: "unwrap (Some x) = Ok x" "unwrap None = Panic"
  by (simp_all add: unwrap_def)

lemma ok_or_Ok_iff [simp]: "ok_or x e = Ok y \<longleftrightarrow> x = Some y"
  by (cases x) auto

lemma unwrap_Ok_iff [simp]: "unwrap x = Ok y \<longleftrightarrow> x = Some y"
  by (cases x) auto

lemma is_ok_iff: "is_ok r \<longleftrightarrow> (\<exists>x. r = Ok x)"
  by (cases r) (auto simp: is_ok_def)

lemma and_then_assoc: "and_then (and_then r f) g = and_then r (\<lambda>x. and_then (f x) g)"
  by (cases r) auto

lemma fold_result_append:
  "fold_result f s (xs @ ys) = and_then (fold_result f s xs) (\<lambda>s'. fold_result f s' ys)"
  by (induction xs arbitrary: s) (simp_all add: and_then_assoc)

text \<open>An invariant kept by the body of a loop is kept by the loop.\<close>

lemma fold_result_invariant:
  assumes step: "\<And>s x s'. I s \<Longrightarrow> x \<in> set xs \<Longrightarrow> f s x = Ok s' \<Longrightarrow> I s'"
    and "I s" and "fold_result f s xs = Ok t"
  shows "I t"
  using assms
proof (induction xs arbitrary: s)
  case (Cons x xs)
  from Cons.prems(3) obtain s' where s': "f s x = Ok s'" "fold_result f s' xs = Ok t" by auto
  have "I s'" using Cons.prems(1) [OF Cons.prems(2) _ s'(1)] by simp
  from _ this s'(2) show ?case
  proof (rule Cons.IH)
    fix u y u'
    assume "I u" "y \<in> set xs" "f u y = Ok u'"
    then show "I u'" by (intro Cons.prems(1) [of u y u']) simp_all
  qed
next
  case Nil
  then show ?case by simp
qed

end
