(* ===== verification/Prelude.thy ===== *)
theory Prelude
  imports "HOL-Library.Multiset" Errors
begin

text \<open>
  Shared by every component: Rust's unsigned integers (a value is a \<open>nat\<close>, the width is the
  first argument of every checked operation), public keys with the byte order of Solana's
  \<open>Pubkey\<close>, the symbolic seeds of program derived addresses, and fixed-size arrays of slots
  keyed by a mint, which the folio basket, the pending baskets, the rebalance details and the
  reward tokens all are.
\<close>

named_theorems arith_defs \<open>definitions of the checked integer operations\<close>

section \<open>Integers\<close>

definition fits :: "nat \<Rightarrow> nat \<Rightarrow> bool" where
  "fits w n \<longleftrightarrow> n < 2 ^ w"

definition U64_MAX :: nat where "U64_MAX = 18446744073709551615"
definition U128_MAX :: nat where "U128_MAX = 340282366920938463463374607431768211455"

definition checked_add :: "nat \<Rightarrow> nat \<Rightarrow> nat \<Rightarrow> nat option" where
  [arith_defs]: "checked_add w a b = (if a + b < 2 ^ w then Some (a + b) else None)"

definition checked_mul :: "nat \<Rightarrow> nat \<Rightarrow> nat \<Rightarrow> nat option" where
  [arith_defs]: "checked_mul w a b = (if a * b < 2 ^ w then Some (a * b) else None)"

definition checked_sub :: "nat \<Rightarrow> nat \<Rightarrow> nat option" where
  [arith_defs]: "checked_sub a b = (if b \<le> a then Some (a - b) else None)"

definition checked_div :: "nat \<Rightarrow> nat \<Rightarrow> nat option" where
  [arith_defs]: "checked_div a b = (if b = 0 then None else Some (a div b))"

definition checked_pow :: "nat \<Rightarrow> nat \<Rightarrow> nat \<Rightarrow> nat option" where
  [arith_defs]: "checked_pow w a b = (if a ^ b < 2 ^ w then Some (a ^ b) else None)"

definition saturating_sub :: "nat \<Rightarrow> nat \<Rightarrow> nat" where
  "saturating_sub a b = (if b \<le> a then a - b else 0)"

text \<open>The plain operators \<open>+\<close>, \<open>-\<close> and \<open>*\<close> panic when they overflow.\<close>

definition plain_add :: "nat \<Rightarrow> nat \<Rightarrow> nat \<Rightarrow> nat result" where
  "plain_add w a b = unwrap (checked_add w a b)"

definition plain_sub :: "nat \<Rightarrow> nat \<Rightarrow> nat result" where
  "plain_sub a b = unwrap (checked_sub a b)"

definition plain_mul :: "nat \<Rightarrow> nat \<Rightarrow> nat \<Rightarrow> nat result" where
  "plain_mul w a b = unwrap (checked_mul w a b)"

text \<open>\<open>iter().sum()\<close> adds from the left with the plain operator.\<close>

definition plain_sum :: "nat \<Rightarrow> nat list \<Rightarrow> nat result" where
  "plain_sum w xs = fold_result (plain_add w) 0 xs"

text \<open>The cast \<open>as u64\<close> of an \<open>i64\<close>.\<close>

definition as_u64 :: "int \<Rightarrow> nat" where
  "as_u64 t = nat (t mod 2 ^ 64)"

lemma checked_add_Some [simp]: "checked_add w a b = Some c \<longleftrightarrow> a + b < 2 ^ w \<and> c = a + b"
  by (auto simp: checked_add_def)

lemma checked_mul_Some [simp]: "checked_mul w a b = Some c \<longleftrightarrow> a * b < 2 ^ w \<and> c = a * b"
  by (auto simp: checked_mul_def)

lemma checked_sub_Some [simp]: "checked_sub a b = Some c \<longleftrightarrow> b \<le> a \<and> c = a - b"
  by (auto simp: checked_sub_def)

lemma checked_div_Some [simp]: "checked_div a b = Some c \<longleftrightarrow> b \<noteq> 0 \<and> c = a div b"
  by (auto simp: checked_div_def)

lemma plain_add_Ok [simp]: "plain_add w a b = Ok c \<longleftrightarrow> a + b < 2 ^ w \<and> c = a + b"
  by (simp add: plain_add_def)

lemma plain_sub_Ok [simp]: "plain_sub a b = Ok c \<longleftrightarrow> b \<le> a \<and> c = a - b"
  by (simp add: plain_sub_def)

lemma plain_mul_Ok [simp]: "plain_mul w a b = Ok c \<longleftrightarrow> a * b < 2 ^ w \<and> c = a * b"
  by (simp add: plain_mul_def)

lemma fold_plain_add_Ok:
  "fold_result (plain_add w) s xs = Ok t \<Longrightarrow> t = s + sum_list xs \<and> (xs \<noteq> [] \<longrightarrow> fits w t)"
proof (induction xs arbitrary: s)
  case (Cons x xs)
  then have "t = s + x + sum_list xs" by auto
  with Cons show ?case by (cases xs) (auto simp: fits_def)
qed simp

lemma plain_sum_Ok: "plain_sum w xs = Ok t \<Longrightarrow> t = sum_list xs"
  unfolding plain_sum_def using fold_plain_add_Ok by fastforce

lemma fold_plain_add_fits:
  "s + sum_list xs < 2 ^ w \<Longrightarrow> fold_result (plain_add w) s xs = Ok (s + sum_list xs)"
  by (induction xs arbitrary: s) (auto simp: add.assoc)

lemma as_u64_nonneg: "0 \<le> t \<Longrightarrow> t < 2 ^ 63 \<Longrightarrow> as_u64 t = nat t"
  by (simp add: as_u64_def)

section \<open>Public keys and seeds\<close>

text \<open>
  A \<open>Pubkey\<close> is 32 bytes compared lexicographically, that is, as the number they write in
  base 256; \<open>Pubkey::default()\<close> is 32 zero bytes.
\<close>

datatype pubkey = PK nat

primrec pk_bytes :: "pubkey \<Rightarrow> nat" where
  "pk_bytes (PK n) = n"

definition default_pubkey :: pubkey where
  "default_pubkey = PK 0"

instantiation pubkey :: linorder
begin

definition less_eq_pubkey :: "pubkey \<Rightarrow> pubkey \<Rightarrow> bool" where
  "less_eq_pubkey a b \<longleftrightarrow> pk_bytes a \<le> pk_bytes b"

definition less_pubkey :: "pubkey \<Rightarrow> pubkey \<Rightarrow> bool" where
  "less_pubkey a b \<longleftrightarrow> pk_bytes a < pk_bytes b"

instance
proof
  fix x y z :: pubkey
  show "x < y \<longleftrightarrow> x \<le> y \<and> \<not> y \<le> x" by (auto simp: less_eq_pubkey_def less_pubkey_def)
  show "x \<le> x" by (simp add: less_eq_pubkey_def)
  show "x \<le> y \<Longrightarrow> y \<le> z \<Longrightarrow> x \<le> z" by (simp add: less_eq_pubkey_def)
  show "x \<le> y \<Longrightarrow> y \<le> x \<Longrightarrow> x = y"
    by (cases x; cases y) (simp add: less_eq_pubkey_def)
  show "x \<le> y \<or> y \<le> x" by (auto simp: less_eq_pubkey_def)
qed

end

text \<open>
  The seeds of a program derived address: a byte string constant, the bytes of a key, or the
  little-endian bytes of a \<open>u64\<close>. The derivation itself (\<open>find_program_address\<close>, which gives
  the address and its bump) belongs to the Solana SDK and is a parameter wherever it is used.
\<close>

datatype seed = Bytes string | Key pubkey | U64 nat

type_synonym find_pda = "seed list \<Rightarrow> pubkey \<Rightarrow> pubkey \<times> nat"

section \<open>Arrays of slots\<close>

text \<open>\<open>iter_mut().find(p)\<close> followed by an update through the reference it returns.\<close>

primrec update_first :: "('a \<Rightarrow> bool) \<Rightarrow> ('a \<Rightarrow> 'a) \<Rightarrow> 'a list \<Rightarrow> 'a list" where
  "update_first p f [] = []"
| "update_first p f (x # xs) = (if p x then f x # xs else x # update_first p f xs)"

lemma length_update_first [simp]: "length (update_first p f xs) = length xs"
  by (induction xs) auto

lemma update_first_map:
  "(\<And>x. key (f x) = key x) \<Longrightarrow> map key (update_first p f xs) = map key xs"
  by (induction xs) auto

lemma find_split:
  "find p xs = Some x \<Longrightarrow>
    \<exists>ys zs. xs = ys @ x # zs \<and> p x \<and> (\<forall>y \<in> set ys. \<not> p y) \<and>
            update_first p f xs = ys @ f x # zs"
proof (induction xs)
  case (Cons a xs)
  show ?case
  proof (cases "p a")
    case True
    with Cons.prems show ?thesis by (intro exI [of _ "[]"] exI [of _ xs]) simp
  next
    case False
    with Cons obtain ys zs where "xs = ys @ x # zs" "p x" "\<forall>y \<in> set ys. \<not> p y"
      "update_first p f xs = ys @ f x # zs" by auto
    with False show ?thesis by (intro exI [of _ "a # ys"] exI [of _ zs]) simp
  qed
qed simp

lemma find_Some_prop: "find p xs = Some x \<Longrightarrow> p x \<and> x \<in> set xs"
  using find_split by fastforce

lemma find_map_cong: "(\<And>x. x \<in> set xs \<Longrightarrow> p x = q x) \<Longrightarrow> find p xs = find q xs"
  by (induction xs) auto

text \<open>
  The slots of an array that are in use carry pairwise different keys: \<open>slots_wf\<close>. The slot
  of a key is then unique, and an update of one key leaves the lookup of the others alone.
\<close>

definition used_keys :: "('a \<Rightarrow> pubkey) \<Rightarrow> 'a list \<Rightarrow> pubkey list" where
  "used_keys key xs = filter (\<lambda>k. k \<noteq> default_pubkey) (map key xs)"

definition slots_wf :: "('a \<Rightarrow> pubkey) \<Rightarrow> 'a list \<Rightarrow> bool" where
  "slots_wf key xs \<longleftrightarrow> distinct (used_keys key xs)"

definition slot_of :: "('a \<Rightarrow> pubkey) \<Rightarrow> 'a list \<Rightarrow> pubkey \<Rightarrow> 'a option" where
  "slot_of key xs m = find (\<lambda>s. key s = m) xs"

lemma slot_of_key: "slot_of key xs m = Some s \<Longrightarrow> key s = m \<and> s \<in> set xs"
  unfolding slot_of_def using find_Some_prop by fastforce

lemma slot_of_None_iff: "slot_of key xs m = None \<longleftrightarrow> m \<notin> key ` set xs"
  by (auto simp: slot_of_def find_None_iff)

lemma slots_wf_replicate [simp]: "key d = default_pubkey \<Longrightarrow> slots_wf key (replicate n d)"
  by (simp add: slots_wf_def used_keys_def)

text \<open>An update in place keeps the keys, hence the well-formedness.\<close>

lemma slots_wf_update_same:
  "(\<And>x. key (f x) = key x) \<Longrightarrow> slots_wf key (update_first p f xs) = slots_wf key xs"
  by (simp add: slots_wf_def used_keys_def update_first_map)

lemma slot_of_update_same:
  assumes "\<And>x. key (f x) = key x"
  shows "slot_of key (update_first (\<lambda>s. key s = m) f xs) k =
    (if k = m then map_option f (slot_of key xs m) else slot_of key xs k)"
  using assms by (induction xs) (auto simp: slot_of_def)

text \<open>Taking the first free slot for a key that is not there.\<close>

lemma slot_of_claim:
  assumes free: "find (\<lambda>s. key s = default_pubkey) xs = Some s0"
    and m: "m \<noteq> default_pubkey" "slot_of key xs m = None" and f: "\<And>x. key (f x) = m"
  shows "slot_of key (update_first (\<lambda>s. key s = default_pubkey) f xs) m = Some (f s0)"
    and "k \<noteq> m \<Longrightarrow> k \<noteq> default_pubkey \<Longrightarrow>
      slot_of key (update_first (\<lambda>s. key s = default_pubkey) f xs) k = slot_of key xs k"
  using free m f by (induction xs) (auto simp: slot_of_def split: if_splits)

lemma used_keys_claim:
  assumes "find (\<lambda>s. key s = default_pubkey) xs = Some s0" "m \<noteq> default_pubkey"
    "\<And>x. key (f x) = m"
  shows "mset (used_keys key (update_first (\<lambda>s. key s = default_pubkey) f xs)) =
    add_mset m (mset (used_keys key xs))"
  using assms by (induction xs) (auto simp: used_keys_def split: if_splits)

lemma slots_wf_claim:
  assumes "slots_wf key xs" "find (\<lambda>s. key s = default_pubkey) xs = Some s0"
    and "m \<noteq> default_pubkey" "slot_of key xs m = None" "\<And>x. key (f x) = m"
  shows "slots_wf key (update_first (\<lambda>s. key s = default_pubkey) f xs)"
proof -
  let ?ys = "used_keys key (update_first (\<lambda>s. key s = default_pubkey) f xs)"
  have "mset ?ys = mset (m # used_keys key xs)"
    using used_keys_claim [OF assms(2,3,5)] by simp
  moreover have "distinct (m # used_keys key xs)"
    using assms(1,4) by (auto simp: slots_wf_def used_keys_def slot_of_None_iff)
  ultimately show ?thesis unfolding slots_wf_def by (metis mset_eq_imp_distinct_iff)
qed

text \<open>Freeing the slot of a key.\<close>

lemma used_keys_free:
  assumes "slot_of key xs m = Some s0" "m \<noteq> default_pubkey"
    "\<And>x. key (f x) = default_pubkey"
  shows "add_mset m (mset (used_keys key (update_first (\<lambda>s. key s = m) f xs))) =
    mset (used_keys key xs)"
  using assms by (induction xs) (auto simp: used_keys_def slot_of_def split: if_splits)

lemma slots_wf_free:
  assumes "slots_wf key xs" "slot_of key xs m = Some s0" "m \<noteq> default_pubkey"
    and f: "\<And>x. key (f x) = default_pubkey"
  shows "slots_wf key (update_first (\<lambda>s. key s = m) f xs)"
    and "slot_of key (update_first (\<lambda>s. key s = m) f xs) m = None"
    and "k \<noteq> m \<Longrightarrow> k \<noteq> default_pubkey \<Longrightarrow>
      slot_of key (update_first (\<lambda>s. key s = m) f xs) k = slot_of key xs k"
proof -
  let ?ys = "update_first (\<lambda>s. key s = m) f xs"
  have eq: "mset (m # used_keys key ?ys) = mset (used_keys key xs)"
    using used_keys_free [OF assms(2-4)] by simp
  then have d: "distinct (m # used_keys key ?ys)"
    using assms(1) unfolding slots_wf_def by (metis mset_eq_imp_distinct_iff)
  then show "slots_wf key ?ys" by (simp add: slots_wf_def)
  show "slot_of key ?ys m = None"
    using d assms(3) by (auto simp: slot_of_None_iff used_keys_def)
  show "slot_of key ?ys k = slot_of key xs k" if "k \<noteq> m" "k \<noteq> default_pubkey"
    using that f by (induction xs) (auto simp: slot_of_def)
qed

end
