(* ===== verification/MathUtil.thy ===== *)
theory MathUtil
  imports Complex_Main Prelude
begin

text \<open>
  The fixed-point library \<open>shared/src/utils/math_util.rs\<close> and the scaling constants of
  \<open>shared/src/constants/common.rs\<close>. A \<open>Decimal\<close> wraps a \<open>U256\<close>; here it is the \<open>nat\<close>
  the \<open>U256\<close> holds, and every operation checks the width as \<open>checked_add\<close> and the others do.
  \<open>?\<close> after \<open>ok_or(MathOverflow)\<close> is \<open>ok_or ... MathOverflow\<close>.
\<close>

named_theorems const_defs \<open>definitions of the numeric constants\<close>

definition D9 :: nat where [const_defs]: "D9 = 1000000000"
definition D18 :: nat where [const_defs]: "D18 = 1000000000000000000"
definition DAY_IN_SECONDS :: nat where [const_defs]: "DAY_IN_SECONDS = 86400"
definition YEAR_IN_SECONDS :: nat where [const_defs]: "YEAR_IN_SECONDS = 365 * 86400"

type_synonym decimal = nat

datatype rounding = Floor | Ceiling

section \<open>Conversions\<close>

definition from_plain :: "nat \<Rightarrow> decimal result" where
  "from_plain value = ok_or (checked_mul 256 value D18) MathOverflow"

definition from_token_amount :: "nat \<Rightarrow> decimal result" where
  "from_token_amount value = ok_or (checked_mul 256 value D9) MathOverflow"

definition from_scaled :: "nat \<Rightarrow> decimal" where
  "from_scaled value = value"

definition to_token_amount :: "decimal \<Rightarrow> rounding \<Rightarrow> nat result" where
  "to_token_amount self r =
     and_then
       (case r of
          Floor \<Rightarrow> ok_or (checked_div self D9) MathOverflow
        | Ceiling \<Rightarrow>
            (if self mod D9 = 0 then ok_or (checked_div self D9) MathOverflow
             else and_then (ok_or (checked_sub D9 1) MathOverflow) (\<lambda>d.
                  and_then (ok_or (checked_add 256 self d) MathOverflow) (\<lambda>s.
                  ok_or (checked_div s D9) MathOverflow))))
       (\<lambda>value. Ok (if value > U64_MAX then U64_MAX else value))"

definition to_scaled :: "decimal \<Rightarrow> rounding \<Rightarrow> nat result" where
  "to_scaled self r =
     and_then
       (case r of
          Floor \<Rightarrow> Ok self
        | Ceiling \<Rightarrow>
            (if self mod D18 = 0 then Ok self
             else ok_or (checked_add 256 self 1) MathOverflow))
       (\<lambda>value. Ok (if value > U128_MAX then U128_MAX else value))"

section \<open>Arithmetic\<close>

definition dec_add :: "decimal \<Rightarrow> decimal \<Rightarrow> decimal result" where
  "dec_add a b = ok_or (checked_add 256 a b) MathOverflow"

definition dec_sub :: "decimal \<Rightarrow> decimal \<Rightarrow> decimal result" where
  "dec_sub a b = ok_or (checked_sub a b) MathOverflow"

definition dec_mul :: "decimal \<Rightarrow> decimal \<Rightarrow> decimal result" where
  "dec_mul a b = ok_or (checked_mul 256 a b) MathOverflow"

definition dec_div :: "decimal \<Rightarrow> decimal \<Rightarrow> decimal result" where
  "dec_div a b = ok_or (checked_div a b) MathOverflow"

definition is_zero :: "decimal \<Rightarrow> bool" where
  "is_zero a \<longleftrightarrow> a = 0"

text \<open>The idioms \<open>a.mul(&b)?.div(&c)?\<close>, with rounding down and with rounding up.\<close>

definition mul_div :: "decimal \<Rightarrow> decimal \<Rightarrow> decimal \<Rightarrow> decimal result" where
  "mul_div a b c = and_then (dec_mul a b) (\<lambda>m. dec_div m c)"

definition mul_div_up :: "decimal \<Rightarrow> decimal \<Rightarrow> decimal \<Rightarrow> decimal result" where
  "mul_div_up a b c =
     and_then (dec_mul a b) (\<lambda>m.
     and_then (dec_add m c) (\<lambda>s.
     and_then (dec_sub s 1) (\<lambda>t. dec_div t c)))"

text \<open>\<open>pow\<close>: the square-and-multiply loop of the source.\<close>

function pow_loop :: "decimal \<Rightarrow> decimal \<Rightarrow> nat \<Rightarrow> decimal result" where
  "pow_loop base res e =
     (if e > 0 then
        and_then (if e mod 2 = 1 then mul_div res base D18 else Ok res) (\<lambda>res'.
        and_then (if e > 1 then mul_div base base D18 else Ok base) (\<lambda>base'.
        pow_loop base' res' (e div 2)))
      else Ok res)"
  by pat_completeness auto
termination by (relation "measure (\<lambda>(b, r, e). e)") auto

definition pow_dec :: "decimal \<Rightarrow> nat \<Rightarrow> decimal result" where
  "pow_dec self e =
     (if e = 0 then Ok D18
      else if e = 1 then Ok self
      else pow_loop self D18 e)"

section \<open>Roots, logarithm, exponential\<close>

definition NTH_ROOT_UPPER_BOUND :: nat where [const_defs]: "NTH_ROOT_UPPER_BOUND = 1000000"
definition NTH_ROOT_MAX_ITERATIONS :: nat where [const_defs]: "NTH_ROOT_MAX_ITERATIONS = 15"
definition MAX_ITERATIONS :: nat where [const_defs]: "MAX_ITERATIONS = 100"
definition EPSILON :: nat where [const_defs]: "EPSILON = 1"
definition E_D18 :: nat where [const_defs]: "E_D18 = 2718281828459045235"

text \<open>The Taylor branch of \<open>nth_root\<close>, for \<open>n > 1_000_000\<close>.\<close>

definition nth_root_taylor :: "decimal \<Rightarrow> nat \<Rightarrow> decimal result" where
  "nth_root_taylor self n =
     and_then (dec_sub D18 self) (\<lambda>x.
     and_then (dec_div x (from_scaled n)) (\<lambda>first_term.
     and_then (dec_mul x x) (\<lambda>x_squared.
     and_then (ok_or (checked_mul 64 n n) MathOverflow) (\<lambda>n_value.
     and_then (ok_or (checked_sub n 1) MathOverflow) (\<lambda>n_minus_one.
     and_then (and_then (mul_div x_squared (from_scaled n_minus_one) D18) (\<lambda>a.
               and_then (dec_div a (from_scaled n_value)) (\<lambda>b.
               dec_div b (from_scaled 2)))) (\<lambda>second_term.
     and_then (dec_mul x_squared x) (\<lambda>x_cubed.
     and_then (ok_or (checked_sub n 2) MathOverflow) (\<lambda>n_minus_two.
     and_then (ok_or (checked_mul 64 n_minus_one n_minus_two) MathOverflow) (\<lambda>numerator.
     and_then (ok_or (checked_mul 128 n_value n) MathOverflow) (\<lambda>n_cubed.
     and_then (and_then (mul_div x_cubed (from_scaled numerator) D18) (\<lambda>a.
               and_then (dec_div a D18) (\<lambda>b.
               and_then (dec_div b (from_scaled n_cubed)) (\<lambda>c.
               dec_div c (from_scaled 6))))) (\<lambda>third_term.
     and_then (dec_sub D18 first_term) (\<lambda>r1.
     and_then (dec_sub r1 second_term) (\<lambda>r2.
     dec_sub r2 third_term)))))))))))))"

text \<open>The inner loop \<open>for _ in 1..n\<close> of the bisection.\<close>

fun mid_pow_loop :: "nat \<Rightarrow> decimal \<Rightarrow> decimal \<Rightarrow> decimal result" where
  "mid_pow_loop 0 mid mid_pow = Ok mid_pow"
| "mid_pow_loop (Suc k) mid mid_pow =
     and_then (mul_div mid_pow mid D18) (\<lambda>mp. mid_pow_loop k mid mp)"

fun bisect_loop :: "nat \<Rightarrow> nat \<Rightarrow> decimal \<Rightarrow> decimal \<Rightarrow> decimal \<Rightarrow> decimal result" where
  "bisect_loop 0 n target low high = and_then (dec_add low high) (\<lambda>s. dec_div s 2)"
| "bisect_loop (Suc k) n target low high =
     and_then (and_then (dec_add low high) (\<lambda>s. dec_div s 2)) (\<lambda>mid.
     and_then (mid_pow_loop (n - 1) mid mid) (\<lambda>mid_pow.
       if mid_pow > target then bisect_loop k n target low mid
       else if mid_pow < target then bisect_loop k n target mid high
       else Ok mid))"

definition nth_root :: "decimal \<Rightarrow> nat \<Rightarrow> decimal result" where
  "nth_root self n =
     (if self = 0 then Ok 0
      else if self = D18 then Ok D18
      else if n > NTH_ROOT_UPPER_BOUND then nth_root_taylor self n
      else bisect_loop NTH_ROOT_MAX_ITERATIONS n self 0 (if self > D18 then self else D18))"

text \<open>
  The two normalising loops of \<open>ln\<close>. \<open>ln\<close> returns before the first loop when its argument is
  zero, and the loop keeps the value positive (\<open>ln_up_positive\<close> below), so the guard \<open>0 < x\<close>,
  which makes the recursion well-founded, never changes the run.
\<close>

lemma ln_up_grows: "0 < (x::nat) \<Longrightarrow> x < x * E_D18 div D18"
proof -
  assume "0 < x"
  have "2 * x = 2 * D18 * x div D18" by (simp add: const_defs)
  also have "\<dots> \<le> x * E_D18 div D18"
    by (rule div_le_mono) (simp add: const_defs)
  finally show ?thesis using \<open>0 < x\<close> by linarith
qed

function ln_up :: "decimal \<Rightarrow> int \<Rightarrow> (decimal \<times> int) result" where
  "ln_up x p =
     (if x < D18 \<and> 0 < x then
        and_then (mul_div x E_D18 D18) (\<lambda>x'. ln_up x' (p - 1))
      else Ok (x, p))"
  by pat_completeness auto
termination
  by (relation "measure (\<lambda>(x, p). D18 - x)")
     (auto simp: mul_div_def dec_mul_def dec_div_def dest: ln_up_grows intro!: diff_less_mono2)

lemma ln_down_shrinks: "E_D18 \<le> (x::nat) \<Longrightarrow> x * D18 div E_D18 < x"
  by (simp add: less_mult_imp_div_less const_defs)

function ln_down :: "decimal \<Rightarrow> int \<Rightarrow> (decimal \<times> int) result" where
  "ln_down x p =
     (if x \<ge> E_D18 then
        and_then (mul_div x D18 E_D18) (\<lambda>x'. ln_down x' (p + 1))
      else Ok (x, p))"
  by pat_completeness auto
termination
  by (relation "measure (\<lambda>(x, p). x)")
     (auto simp: mul_div_def dec_mul_def dec_div_def dest: ln_down_shrinks)

text \<open>The arctanh series of \<open>ln\<close>: \<open>while n <= MAX_ITERATIONS\<close>, left by \<open>break\<close>.\<close>

function ln_series :: "nat \<Rightarrow> decimal \<Rightarrow> decimal \<Rightarrow> decimal \<Rightarrow> decimal result" where
  "ln_series n z_squared term result =
     (if n \<le> MAX_ITERATIONS then
        and_then (dec_div term (from_scaled (2 * n - 1))) (\<lambda>q.
        and_then (dec_add result q) (\<lambda>result'.
        and_then (mul_div term z_squared D18) (\<lambda>term'.
          if term' < EPSILON then Ok result'
          else ln_series (n + 1) z_squared term' result')))
      else Ok result)"
  by pat_completeness auto
termination by (relation "measure (\<lambda>(n, z, t, r). MAX_ITERATIONS + 1 - n)") auto

definition ln_dec :: "decimal \<Rightarrow> decimal option result" where
  "ln_dec self =
     (if self = D18 then Ok (Some 0)
      else if is_zero self then Ok None
      else
        and_then (ln_up self 0) (\<lambda>(x1, p1).
        and_then (ln_down x1 p1) (\<lambda>(normalized, p).
        and_then (dec_sub normalized D18) (\<lambda>numerator.
        and_then (dec_add normalized D18) (\<lambda>denominator.
        and_then (mul_div numerator D18 denominator) (\<lambda>z.
        and_then (mul_div z z D18) (\<lambda>z_squared.
        and_then (ln_series 1 z_squared z 0) (\<lambda>result.
        and_then (dec_mul result (from_scaled 2)) (\<lambda>final_result.
        and_then
          (if p \<noteq> 0 then
             and_then (dec_mul D18 (from_scaled (nat \<bar>p\<bar>))) (\<lambda>power_term.
               if p > 0 then dec_add final_result power_term
               else dec_sub final_result power_term)
           else Ok final_result) (\<lambda>final. Ok (Some final)))))))))))"

text \<open>The Taylor loop of \<open>exp\<close>.\<close>

function exp_loop :: "nat \<Rightarrow> decimal \<Rightarrow> decimal \<Rightarrow> decimal \<Rightarrow> decimal result" where
  "exp_loop n self term result =
     (if n \<le> MAX_ITERATIONS then
        and_then (and_then (dec_mul term self) (\<lambda>m.
                  and_then (from_plain n) (\<lambda>d. dec_div m d))) (\<lambda>term'.
        and_then (dec_add result term') (\<lambda>result'.
          if term' < EPSILON then Ok result'
          else exp_loop (n + 1) self term' result'))
      else Ok result)"
  by pat_completeness auto
termination by (relation "measure (\<lambda>(n, s, t, r). MAX_ITERATIONS + 1 - n)") auto

definition exp_dec :: "decimal \<Rightarrow> bool \<Rightarrow> decimal option result" where
  "exp_dec self negate_result =
     (if self = 0 then Ok (Some D18)
      else
        and_then (exp_loop 1 self D18 D18) (\<lambda>result.
          if negate_result then
            and_then (ok_or (checked_mul 256 D18 D18) MathOverflow) (\<lambda>d36.
            and_then (ok_or (checked_div d36 result) MathOverflow) (\<lambda>q. Ok (Some q)))
          else Ok (Some result)))"

declare pow_loop.simps [simp del] ln_up.simps [simp del] ln_down.simps [simp del]
  ln_series.simps [simp del] exp_loop.simps [simp del]

section \<open>Inversion of successful operations\<close>

lemma dec_add_Ok [simp]: "dec_add a b = Ok c \<longleftrightarrow> a + b < 2 ^ 256 \<and> c = a + b"
  by (simp add: dec_add_def)

lemma dec_sub_Ok [simp]: "dec_sub a b = Ok c \<longleftrightarrow> b \<le> a \<and> c = a - b"
  by (simp add: dec_sub_def)

lemma dec_mul_Ok [simp]: "dec_mul a b = Ok c \<longleftrightarrow> a * b < 2 ^ 256 \<and> c = a * b"
  by (simp add: dec_mul_def)

lemma dec_div_Ok [simp]: "dec_div a b = Ok c \<longleftrightarrow> b \<noteq> 0 \<and> c = a div b"
  by (simp add: dec_div_def)

lemma mul_div_Ok [simp]:
  "mul_div a b c = Ok d \<longleftrightarrow> a * b < 2 ^ 256 \<and> c \<noteq> 0 \<and> d = a * b div c"
  by (simp add: mul_div_def)

text \<open>The rounded-up quotient.\<close>

definition ceil_div :: "nat \<Rightarrow> nat \<Rightarrow> nat" where
  "ceil_div a b = (a + b - 1) div b"

lemma mul_div_up_Ok [simp]:
  "mul_div_up a b c = Ok d \<longleftrightarrow> a * b + c < 2 ^ 256 \<and> c \<noteq> 0 \<and> d = ceil_div (a * b) c"
  by (auto simp: mul_div_up_def ceil_div_def)

lemma from_token_amount_Ok [simp]:
  "from_token_amount v = Ok d \<longleftrightarrow> v * D9 < 2 ^ 256 \<and> d = v * D9"
  by (simp add: from_token_amount_def)

lemma from_plain_Ok [simp]: "from_plain v = Ok d \<longleftrightarrow> v * D18 < 2 ^ 256 \<and> d = v * D18"
  by (simp add: from_plain_def)

lemma D9_pos [simp]: "0 < D9" "D9 \<noteq> 0" and D18_pos [simp]: "0 < D18" "D18 \<noteq> 0"
  by (simp_all add: const_defs)

lemma D18_eq: "D18 = D9 * D9"
  by (simp add: const_defs)

lemma to_token_amount_Floor [simp]: "to_token_amount x Floor = Ok (min (x div D9) U64_MAX)"
  by (simp add: to_token_amount_def checked_div_def min_def)

lemma to_scaled_Floor [simp]: "to_scaled x Floor = Ok (min x U128_MAX)"
  by (simp add: to_scaled_def min_def)

lemma to_scaled_Ceiling_Ok:
  "to_scaled x Ceiling = Ok y \<Longrightarrow> y = min (if x mod D18 = 0 then x else x + 1) U128_MAX"
  by (auto simp: to_scaled_def min_def split: if_splits)

text \<open>\<open>to_scaled\<close> with \<open>Ceiling\<close>.\<close>

definition scaled_up :: "decimal \<Rightarrow> nat" where
  "scaled_up d = min (if d mod D18 = 0 then d else d + 1) U128_MAX"

lemma to_scaled_Ceiling_eq: "to_scaled d Ceiling = Ok p \<Longrightarrow> p = scaled_up d"
  unfolding scaled_up_def by (rule to_scaled_Ceiling_Ok)

lemma scaled_up_mono: "a \<le> b \<Longrightarrow> scaled_up a \<le> scaled_up b"
  by (cases "a = b") (auto simp: scaled_up_def)

lemma scaled_up_le: "scaled_up d \<le> d + 1"
  by (auto simp: scaled_up_def intro: min.coboundedI1)

text \<open>\<open>to_token_amount\<close> with \<open>Ceiling\<close> is the rounded-up quotient.\<close>

lemma ceil_div_bounds:
  assumes "0 < b" shows "a \<le> ceil_div a b * b" "ceil_div a b * b < a + b"
proof -
  have eq: "(a + b - 1) div b * b + (a + b - 1) mod b = a + b - 1" by simp
  have "(a + b - 1) mod b < b" using assms by simp
  with eq assms show "a \<le> ceil_div a b * b" unfolding ceil_div_def by linarith
  from eq assms show "ceil_div a b * b < a + b" unfolding ceil_div_def by linarith
qed

lemma ceil_div_least: "0 < b \<Longrightarrow> a \<le> k * b \<Longrightarrow> ceil_div a b \<le> k"
  using ceil_div_bounds(2) [of b a] by (metis add_mult_distrib less_Suc_eq_le
    less_le_trans mult_less_cancel2 nat_add_left_cancel_le add.commute mult_Suc)

lemma ceil_div_exact: "0 < b \<Longrightarrow> a mod b = 0 \<Longrightarrow> ceil_div a b = a div b"
  by (metis ceil_div_bounds(1) ceil_div_least le_antisym div_mult_mod_eq add_0_right
    mult_le_cancel2 order_refl)

lemma to_token_amount_Ceiling_Ok:
  "to_token_amount x Ceiling = Ok y \<Longrightarrow> y = min (ceil_div x D9) U64_MAX"
proof -
  assume "to_token_amount x Ceiling = Ok y"
  then have "y = min (if x mod D9 = 0 then x div D9 else (x + (D9 - 1)) div D9) U64_MAX"
    by (auto simp: to_token_amount_def min_def split: if_splits)
  moreover have "(x + (D9 - 1)) div D9 = ceil_div x D9" by (simp add: ceil_div_def const_defs)
  ultimately show ?thesis by (simp add: ceil_div_exact split: if_splits)
qed

lemma to_token_amount_Ceiling_le: "to_token_amount x Ceiling = Ok y \<Longrightarrow> y \<le> ceil_div x D9"
  by (auto dest: to_token_amount_Ceiling_Ok)

section \<open>Powers of numbers up to one\<close>

text \<open>
  Every factor is at most \<open>D18\<close>, so no product overflows, and every step rounds down: the
  result is a lower bound of the exact power.
\<close>

lemma mul_div_unit:
  assumes "a \<le> D18" "b \<le> D18"
  shows "mul_div a b D18 = Ok (a * b div D18)" and "a * b div D18 \<le> b" and "a * b div D18 \<le> a"
    and "real (a * b div D18) / real D18 \<le> real a / real D18 * (real b / real D18)"
proof -
  have "a * b \<le> D18 * D18" using assms by (rule mult_le_mono)
  then have "a * b < 2 ^ 256" by (simp add: const_defs)
  then show "mul_div a b D18 = Ok (a * b div D18)" by simp
  have "a * b div D18 \<le> D18 * b div D18" using assms by (intro div_le_mono mult_le_mono) auto
  then show "a * b div D18 \<le> b" by simp
  have "a * b div D18 \<le> a * D18 div D18" using assms by (intro div_le_mono mult_le_mono) auto
  then show "a * b div D18 \<le> a" by simp
  have "real (a * b div D18) \<le> real (a * b) / real D18" by (rule of_nat_div_le_of_nat)
  then show "real (a * b div D18) / real D18 \<le> real a / real D18 * (real b / real D18)"
    by (simp add: field_simps)
qed

lemma real_square_pow:
  "(x::real) ^ e = (if e mod 2 = 1 then x else 1) * (x * x) ^ (e div 2)"
proof -
  have "x ^ e = x ^ (e mod 2 + 2 * (e div 2))" by simp
  also have "\<dots> = x ^ (e mod 2) * (x * x) ^ (e div 2)"
    by (simp only: power_add power_mult power2_eq_square)
  also have "x ^ (e mod 2) = (if e mod 2 = 1 then x else 1)"
    by (cases "e mod 2 = 1") (auto simp: not_mod_2_eq_1_eq_0)
  finally show ?thesis .
qed

lemma pow_loop_unit:
  assumes "base \<le> D18" "res \<le> D18"
  shows "\<exists>r. pow_loop base res e = Ok r \<and> r \<le> D18 \<and>
    real r / real D18 \<le> real res / real D18 * (real base / real D18) ^ e"
  using assms
proof (induction e arbitrary: base res rule: less_induct)
  case (less e)
  show ?case
  proof (cases "e = 0")
    case True
    with less.prems show ?thesis by (simp add: pow_loop.simps)
  next
    case False
    define res' where "res' = (if e mod 2 = 1 then res * base div D18 else res)"
    define base' where "base' = (if e > 1 then base * base div D18 else base)"
    have steps: "(if e mod 2 = 1 then mul_div res base D18 else Ok res) = Ok res'"
      "(if e > 1 then mul_div base base D18 else Ok base) = Ok base'"
      using mul_div_unit(1) less.prems by (simp_all add: res'_def base'_def)
    have le: "base' \<le> D18" "res' \<le> D18"
      using mul_div_unit(2) [of res base] mul_div_unit(2) [of base base] less.prems
      by (auto simp: res'_def base'_def intro: order_trans)
    have "e div 2 < e" using False by simp
    from less.IH [OF this le] obtain r where r: "pow_loop base' res' (e div 2) = Ok r"
      "r \<le> D18" "real r / D18 \<le> real res' / D18 * (real base' / D18) ^ (e div 2)" by auto
    let ?x = "real base / real D18"
    have "real res' / D18 \<le> real res / D18 * (if e mod 2 = 1 then ?x else 1)"
      using mul_div_unit(4) [OF less.prems(2,1)] by (simp add: res'_def)
    moreover have "(real base' / D18) ^ (e div 2) \<le> (?x * ?x) ^ (e div 2)"
    proof (cases "e > 1")
      case True
      then have "real base' / D18 \<le> ?x * ?x"
        using mul_div_unit(4) [OF less.prems(1,1)] by (simp add: base'_def)
      then show ?thesis by (rule power_mono) simp
    next
      case False
      with \<open>e \<noteq> 0\<close> have "e div 2 = 0" by simp
      then show ?thesis by simp
    qed
    ultimately have "real res' / D18 * (real base' / D18) ^ (e div 2)
        \<le> real res / D18 * (if e mod 2 = 1 then ?x else 1) * (?x * ?x) ^ (e div 2)"
      by (rule mult_mono) auto
    also have "\<dots> = real res / D18 * ?x ^ e"
      by (subst real_square_pow [of ?x e]) simp
    finally have "real r / D18 \<le> real res / D18 * ?x ^ e" using r(3) by linarith
    moreover have "pow_loop base res e = Ok r"
      using False r(1) steps by (subst pow_loop.simps) simp
    ultimately show ?thesis using r(2) by auto
  qed
qed

text \<open>
  The other side: a product loses less than one unit, and a loss in the base is multiplied at
  most by the exponent that is left, so the whole loop loses at most \<open>2 * e\<close> units.
\<close>

lemma power_diff_le:
  fixes a b :: real
  assumes "0 \<le> a" "a \<le> b" "b \<le> 1"
  shows "b ^ h - a ^ h \<le> h * (b - a)"
proof (induction h)
  case (Suc h)
  have "b ^ Suc h - a ^ Suc h = b * (b ^ h - a ^ h) + a ^ h * (b - a)"
    by (simp add: algebra_simps)
  also have "\<dots> \<le> 1 * (b ^ h - a ^ h) + 1 * (b - a)"
    using assms by (intro add_mono mult_right_mono) (auto intro: power_mono power_le_one)
  also have "\<dots> \<le> real (Suc h) * (b - a)" using Suc by (simp add: algebra_simps)
  finally show ?case .
qed simp

lemma mul_div_unit_lower:
  "real a / real D18 * (real b / real D18) - 1 / real D18 \<le> real (a * b div D18) / real D18"
proof -
  have "a * b < (a * b div D18 + 1) * D18"
    using dividend_less_div_times [of D18 "a * b"] by (simp add: algebra_simps)
  then have "real (a * b) < (real (a * b div D18) + 1) * real D18"
    by (metis of_nat_1 of_nat_add of_nat_less_iff of_nat_mult)
  then have *: "real a * real b \<le> (real (a * b div D18) + 1) * real D18"
    by simp
  have "real a / real D18 * (real b / real D18) = real a * real b / (real D18 * real D18)"
    by simp
  also have "\<dots> \<le> (real (a * b div D18) + 1) * real D18 / (real D18 * real D18)"
    using * by (rule divide_right_mono) simp
  also have "\<dots> = real (a * b div D18) / real D18 + 1 / real D18"
    by (simp add: add_divide_distrib)
  finally show ?thesis by simp
qed

lemma pow_loop_unit_lower:
  assumes "base \<le> D18" "res \<le> D18" "pow_loop base res e = Ok r"
  shows "real res / real D18 * (real base / real D18) ^ e - 2 * real e / real D18 \<le> real r / real D18"
  using assms
proof (induction e arbitrary: base res rule: less_induct)
  case (less e)
  show ?case
  proof (cases "e = 0")
    case True
    with less.prems show ?thesis by (simp add: pow_loop.simps)
  next
    case False
    define h where "h = e div 2"
    define res' where "res' = (if e mod 2 = 1 then res * base div D18 else res)"
    define base' where "base' = (if e > 1 then base * base div D18 else base)"
    let ?D = "real D18"
    let ?x = "real base / ?D" and ?f = "if e mod 2 = 1 then real base / ?D else 1"
    have steps: "(if e mod 2 = 1 then mul_div res base D18 else Ok res) = Ok res'"
      "(if e > 1 then mul_div base base D18 else Ok base) = Ok base'"
      using mul_div_unit(1) less.prems by (simp_all add: res'_def base'_def)
    have le: "base' \<le> D18" "res' \<le> D18"
      using mul_div_unit(2) [of res base] mul_div_unit(2) [of base base] less.prems
      by (auto simp: res'_def base'_def intro: order_trans)
    have run: "pow_loop base' res' h = Ok r"
      using less.prems(3) steps False by (subst (asm) pow_loop.simps) (simp add: h_def)
    have IH: "real res' / ?D * (real base' / ?D) ^ h - 2 * real h / ?D \<le> real r / ?D"
      using less.IH [of h, OF _ le run] False by (simp add: h_def)
    have r1: "real res / ?D * ?f - 1 / ?D \<le> real res' / ?D"
      using mul_div_unit_lower [of res base] by (auto simp: res'_def)
    have b: "(?x * ?x) ^ h - real h / ?D \<le> (real base' / ?D) ^ h"
    proof (cases "e > 1")
      case True
      let ?b = "real base' / ?D"
      have "?b \<le> ?x * ?x" "?x * ?x - 1 / ?D \<le> ?b" "?x * ?x \<le> 1"
        using mul_div_unit(4) [OF less.prems(1,1)] mul_div_unit_lower [of base base] less.prems(1) True
        by (simp_all add: base'_def mult_mono)
      then have "(?x * ?x) ^ h - ?b ^ h \<le> h * (?x * ?x - ?b)" by (intro power_diff_le) auto
      also have "\<dots> \<le> h * (1 / ?D)" using \<open>?x * ?x - 1 / ?D \<le> ?b\<close> by (intro mult_left_mono) auto
      finally show ?thesis by simp
    qed (use False in \<open>simp add: h_def\<close>)
    have rle: "0 \<le> real res' / ?D" "real res' / ?D \<le> 1" "0 \<le> (?x * ?x) ^ h" "(?x * ?x) ^ h \<le> 1"
      using le less.prems(1) by (auto intro!: power_le_one mult_mono)
    have "real res / ?D * ?x ^ e = (real res / ?D * ?f) * (?x * ?x) ^ h"
      using real_square_pow [of ?x e] by (simp add: h_def)
    also have "\<dots> \<le> (real res' / ?D + 1 / ?D) * (?x * ?x) ^ h"
      using r1 rle by (intro mult_right_mono) auto
    also have "\<dots> \<le> real res' / ?D * (?x * ?x) ^ h + 1 / ?D"
      using rle mult_left_mono [of "(?x * ?x) ^ h" 1 "1 / ?D"] by (simp add: algebra_simps)
    also have "real res' / ?D * (?x * ?x) ^ h \<le> real res' / ?D * ((real base' / ?D) ^ h + real h / ?D)"
      using b rle by (intro mult_left_mono) auto
    also have "\<dots> \<le> real res' / ?D * (real base' / ?D) ^ h + real h / ?D"
      using rle mult_right_mono [of "real res' / ?D" 1 "real h / ?D"] by (simp add: algebra_simps)
    finally have "real res / ?D * ?x ^ e \<le> real r / ?D + 2 * real h / ?D + real h / ?D + 1 / ?D"
      using IH by linarith
    moreover have "3 * h + 1 \<le> 2 * e" using False by (auto simp: h_def)
    then have "(3 * real h + 1) / ?D \<le> 2 * real e / ?D" by (intro divide_right_mono) auto
    ultimately show ?thesis by (simp add: add_divide_distrib)
  qed
qed

lemma pow_dec_unit_lower:
  assumes "x \<le> D18" "pow_dec x e = Ok r"
  shows "(real x / real D18) ^ e - 2 * real e / real D18 \<le> real r / real D18"
proof -
  consider "e = 0" | "e = 1" | "e \<noteq> 0" "e \<noteq> 1" by blast
  then show ?thesis
  proof cases
    case 3
    then have "pow_loop x D18 e = Ok r" using assms(2) by (simp add: pow_dec_def)
    then show ?thesis using pow_loop_unit_lower [OF assms(1), of D18 e r] by simp
  qed (use assms(2) in \<open>simp_all add: pow_dec_def\<close>)
qed

lemma pow_dec_unit:
  assumes "x \<le> D18"
  shows "\<exists>r. pow_dec x e = Ok r \<and> r \<le> D18 \<and> real r / real D18 \<le> (real x / real D18) ^ e"
  using pow_loop_unit [OF assms, of D18 e] assms by (auto simp: pow_dec_def)

lemma pow_dec_le_base:
  assumes "x \<le> D18" "0 < e" "pow_dec x e = Ok r"
  shows "r \<le> x"
proof -
  have "real r / real D18 \<le> (real x / real D18) ^ e"
    using pow_dec_unit [OF assms(1), of e] assms(3) by auto
  also have "\<dots> \<le> (real x / real D18) ^ 1"
    using assms(1,2) by (intro power_decreasing) auto
  finally show ?thesis by (simp add: field_simps)
qed

section \<open>The yearly root\<close>

text \<open>
  The only root the programs take is the \<open>YEAR_IN_SECONDS\<close>-th root of a number up to one,
  which is the Taylor branch. It never overflows, and the root of a number up to one is
  between the number and one.
\<close>

definition taylor_second :: "nat \<Rightarrow> nat \<Rightarrow> nat" where
  "taylor_second x n = x * x * (n - 1) div D18 div (n * n) div 2"

definition taylor_third :: "nat \<Rightarrow> nat \<Rightarrow> nat" where
  "taylor_third x n = x * x * x * ((n - 1) * (n - 2)) div D18 div D18 div (n * n * n) div 6"

lemma taylor_terms_le:
  assumes "x \<le> D18" "2 \<le> n"
  shows "taylor_second x n \<le> x div n div 2" and "taylor_third x n \<le> x div n div 6"
proof -
  have n: "0 < n" using assms by simp
  have "x * x * (n - 1) div D18 \<le> D18 * (x * n) div D18"
    using assms by (intro div_le_mono) (simp add: mult_le_mono mult.assoc)
  then have "x * x * (n - 1) div D18 \<le> x * n" by simp
  then have "x * x * (n - 1) div D18 div (n * n) \<le> x * n div (n * n)" by (rule div_le_mono)
  also have "\<dots> = x div n" using n by (simp add: div_mult2_eq)
  finally show "taylor_second x n \<le> x div n div 2"
    unfolding taylor_second_def by (rule div_le_mono)
  have "x * x * x * ((n - 1) * (n - 2)) \<le> D18 * D18 * x * (n * n)"
    using assms by (intro mult_le_mono) auto
  then have "x * x * x * ((n - 1) * (n - 2)) div D18 div D18 \<le> D18 * (D18 * (x * (n * n))) div D18 div D18"
    by (intro div_le_mono) (simp add: mult.assoc)
  then have "x * x * x * ((n - 1) * (n - 2)) div D18 div D18 \<le> x * (n * n)" by simp
  then have "x * x * x * ((n - 1) * (n - 2)) div D18 div D18 div (n * n * n) \<le> (n * n) * x div ((n * n) * n)"
    by (intro div_le_mono) (simp add: mult.commute)
  also have "\<dots> = x div n" using n by simp
  finally show "taylor_third x n \<le> x div n div 6"
    unfolding taylor_third_def by (rule div_le_mono)
qed

lemma taylor_sum_le:
  assumes "x \<le> D18" "2 \<le> n"
  shows "x div n + taylor_second x n + taylor_third x n \<le> x"
proof -
  have "x div n + taylor_second x n + taylor_third x n \<le> x div n + x div n div 2 + x div n div 6"
    using taylor_terms_le [OF assms] by linarith
  also have "\<dots> \<le> 2 * (x div n)" by linarith
  also have "\<dots> \<le> n * (x div n)" using assms(2) by simp
  also have "\<dots> \<le> x" by simp
  finally show ?thesis .
qed

lemma nth_root_taylor_Ok:
  assumes x: "self \<le> D18" "x = D18 - self" and n: "2 \<le> n" "n * n < 2 ^ 64"
  shows "nth_root_taylor self n =
    Ok (D18 - x div n - taylor_second x n - taylor_third x n)"
proof -
  have x60: "x < 2 ^ 60" using x by (simp add: const_defs)
  have xx: "x * x < 2 ^ 120" using mult_strict_mono [OF x60 x60] by simp
  have xxx: "x * x * x < 2 ^ 180" using mult_strict_mono [OF xx x60] by simp
  have n1: "(n - 1) * (n - 2) < 2 ^ 64"
    using n by (meson diff_le_self mult_le_mono order_le_less_trans)
  have n32: "n < 2 ^ 64" using n by (metis le_square order_le_less_trans)
  then have n1': "n - 1 < 2 ^ 64" by linarith
  have nnn: "n * n * n < 2 ^ 128" using mult_strict_mono [OF n(2) n32] n by simp
  have big: "x * x * (n - 1) < 2 ^ 256" "x * x * x * ((n - 1) * (n - 2)) < 2 ^ 256"
    using mult_strict_mono [OF xx n1'] mult_strict_mono [OF xxx n1] by simp_all
  have le: "x div n + taylor_second x n + taylor_third x n \<le> D18"
    using taylor_sum_le [of x n] x n by auto
  have x256: "x * x < 2 ^ 256" "x * x * x < 2 ^ 256"
    by (rule order.strict_trans2 [OF xx], simp) (rule order.strict_trans2 [OF xxx], simp)
  have d: "dec_sub D18 self = Ok x" "dec_div x n = Ok (x div n)"
    "\<And>a. dec_div a (n * n) = Ok (a div (n * n))" "\<And>a. dec_div a 2 = Ok (a div 2)"
    "\<And>a. dec_div a D18 = Ok (a div D18)" "\<And>a. dec_div a (n * n * n) = Ok (a div (n * n * n))"
    "\<And>a. dec_div a 6 = Ok (a div 6)"
    using x n(1) by simp_all
  have m: "dec_mul x x = Ok (x * x)" "dec_mul (x * x) x = Ok (x * x * x)"
    "mul_div (x * x) (n - 1) D18 = Ok (x * x * (n - 1) div D18)"
    "mul_div (x * x * x) ((n - 1) * (n - 2)) D18 = Ok (x * x * x * ((n - 1) * (n - 2)) div D18)"
    unfolding dec_mul_Ok mul_div_Ok using x256 big D18_pos by blast+
  have c: "checked_mul 64 n n = Some (n * n)" "checked_sub n 1 = Some (n - 1)"
    "checked_sub n 2 = Some (n - 2)"
    "checked_mul 64 (n - 1) (n - 2) = Some ((n - 1) * (n - 2))"
    "checked_mul 128 (n * n) n = Some (n * n * n)"
    unfolding checked_mul_Some checked_sub_Some using n n1 nnn by (blast | linarith)+
  have t: "dec_sub D18 (x div n) = Ok (D18 - x div n)"
    "dec_sub (D18 - x div n) (taylor_second x n) = Ok (D18 - x div n - taylor_second x n)"
    "dec_sub (D18 - x div n - taylor_second x n) (taylor_third x n) =
      Ok (D18 - x div n - taylor_second x n - taylor_third x n)"
    unfolding dec_sub_Ok using le by linarith+
  note steps = d m c t
  show ?thesis
    unfolding nth_root_taylor_def from_scaled_def
    by (simp only: steps and_then_simps ok_or_simps taylor_second_def [symmetric]
        taylor_third_def [symmetric])
qed

lemma nth_root_year:
  assumes "self \<le> D18" "0 < self"
  defines "x \<equiv> D18 - self" and "n \<equiv> YEAR_IN_SECONDS"
  shows "nth_root self n = Ok (D18 - (x div n + taylor_second x n + taylor_third x n))"
proof (cases "self = D18")
  case True
  then show ?thesis
    by (simp add: nth_root_def x_def taylor_second_def taylor_third_def)
next
  case False
  have n: "2 \<le> n" "n * n < 2 ^ 64" "NTH_ROOT_UPPER_BOUND < n"
    by (simp_all add: n_def const_defs)
  show ?thesis
    using False assms(2) n nth_root_taylor_Ok [OF assms(1) _ n(1,2), of x]
    by (simp add: nth_root_def x_def)
qed

lemma nth_root_year_bounds:
  assumes "self \<le> D18" "0 < self"
  shows "\<exists>r. nth_root self YEAR_IN_SECONDS = Ok r \<and> self \<le> r \<and> r \<le> D18"
proof -
  let ?x = "D18 - self" and ?n = YEAR_IN_SECONDS
  have "?x div ?n + taylor_second ?x ?n + taylor_third ?x ?n \<le> ?x"
    by (rule taylor_sum_le) (simp_all add: const_defs)
  then show ?thesis using nth_root_year [OF assms] assms(1) by auto
qed

section \<open>Exponential and logarithm\<close>

lemma exp_loop_mono: "exp_loop n x term result = Ok r \<Longrightarrow> result \<le> r"
proof (induction n x "term" result rule: exp_loop.induct)
  case (1 n x "term" result)
  then show ?case
    by (subst (asm) (2) exp_loop.simps) (auto split: if_splits dest: add_leD1)
qed

text \<open>\<open>e ^ x\<close> is at least one, \<open>e ^ (- x)\<close> at most one.\<close>

lemma exp_dec_ge_one: "exp_dec x False = Ok (Some r) \<Longrightarrow> D18 \<le> r"
  by (auto simp: exp_dec_def dest: exp_loop_mono split: if_splits)

lemma exp_dec_neg_le_one: "exp_dec x True = Ok (Some r) \<Longrightarrow> r \<le> D18"
proof -
  assume "exp_dec x True = Ok (Some r)"
  then consider "r = D18" | y where "exp_loop 1 x D18 D18 = Ok y" "y \<noteq> 0" "r = D18 * D18 div y"
    by (auto simp: exp_dec_def split: if_splits)
  then show ?thesis
  proof cases
    case 2
    then have "D18 \<le> y" by (auto dest: exp_loop_mono)
    then have "D18 * D18 div y \<le> D18 * y div y" by (intro div_le_mono) simp
    then show ?thesis using 2 by simp
  qed simp
qed

lemma exp_dec_total: "exp_dec x b = Ok s \<Longrightarrow> s \<noteq> None"
  by (auto simp: exp_dec_def split: if_splits)

lemma exp_dec_zero [simp]: "exp_dec 0 b = Ok (Some D18)"
  by (simp add: exp_dec_def)

text \<open>The first loop of \<open>ln\<close> never reaches zero, so its extra guard is never what ends it.\<close>

lemma ln_up_positive: "ln_up x p = Ok (y, q) \<Longrightarrow> 0 < x \<Longrightarrow> D18 \<le> y \<and> q \<le> p"
proof (induction x p arbitrary: y q rule: ln_up.induct)
  case (1 x p)
  show ?case
  proof (cases "x < D18 \<and> 0 < x")
    case True
    with "1.prems" have step: "mul_div x E_D18 D18 = Ok (x * E_D18 div D18)"
      "ln_up (x * E_D18 div D18) (p - 1) = Ok (y, q)"
      by (subst (asm) ln_up.simps; auto)+
    have "0 < x * E_D18 div D18" using ln_up_grows [of x] True by linarith
    with "1.IH" [OF True step] show ?thesis by simp
  next
    case False
    with "1.prems" show ?thesis by (subst (asm) ln_up.simps) auto
  qed
qed

lemma ln_down_below_e: "ln_down x p = Ok (y, q) \<Longrightarrow> D18 \<le> x \<Longrightarrow> D18 \<le> y \<and> y < E_D18 \<and> p \<le> q"
proof (induction x p arbitrary: y q rule: ln_down.induct)
  case (1 x p)
  show ?case
  proof (cases "x \<ge> E_D18")
    case True
    with "1.prems" have step: "mul_div x D18 E_D18 = Ok (x * D18 div E_D18)"
      "ln_down (x * D18 div E_D18) (p + 1) = Ok (y, q)"
      by (subst (asm) ln_down.simps; auto)+
    have "E_D18 * D18 div E_D18 \<le> x * D18 div E_D18" using True by (intro div_le_mono) simp
    then have "D18 \<le> x * D18 div E_D18" by (simp add: const_defs)
    with "1.IH" [OF True step] show ?thesis by simp
  next
    case False
    with "1.prems" show ?thesis by (subst (asm) ln_down.simps) auto
  qed
qed

lemma ln_dec_one [simp]: "ln_dec D18 = Ok (Some 0)"
  by (simp add: ln_dec_def)

lemma ln_dec_None_iff: "ln_dec x = Ok None \<longleftrightarrow> x = 0"
  by (auto simp: ln_dec_def is_zero_def)

section \<open>Properties\<close>

text \<open>
  C33: Square-and-multiply on a base up to one never overflows 256 bits and never returns more
  than one; its result is the exact power rounded down, and is short of it by at most
  \<open>2 * e\<close> units of \<open>10 ^ (- 18)\<close>.
\<close>
theorem pow_dec_accurate:
  assumes "x \<le> D18"
  shows "\<exists>r. pow_dec x e = Ok r \<and> r \<le> D18
    \<and> real r / real D18 \<le> (real x / real D18) ^ e
    \<and> (real x / real D18) ^ e - 2 * real e / real D18 \<le> real r / real D18"
  using pow_dec_unit [OF assms, of e] pow_dec_unit_lower [OF assms, of e] by blast

theorem pow_dec_accurate_witness:
  "\<exists>r. pow_dec (D18 - 3340960028) 86400 = Ok r \<and> r \<le> D18
    \<and> real r / real D18 \<le> (real (D18 - 3340960028) / real D18) ^ 86400
    \<and> (real (D18 - 3340960028) / real D18) ^ 86400 - 2 * real (86400::nat) / real D18
      \<le> real r / real D18"
  by (rule pow_dec_accurate [of "D18 - 3340960028" 86400]) simp

text \<open>
  The yearly root of a number up to one (the per-second rate of an annual fee) never fails;
  it is one minus the three truncated Taylor terms of the source and lies between the number
  and one.
\<close>
theorem yearly_root:
  assumes "self \<le> D18" "0 < self"
  shows "\<exists>r. nth_root self YEAR_IN_SECONDS = Ok r \<and> self \<le> r \<and> r \<le> D18
    \<and> D18 - r = (D18 - self) div YEAR_IN_SECONDS + taylor_second (D18 - self) YEAR_IN_SECONDS
        + taylor_third (D18 - self) YEAR_IN_SECONDS"
proof -
  have "(D18 - self) div YEAR_IN_SECONDS + taylor_second (D18 - self) YEAR_IN_SECONDS
      + taylor_third (D18 - self) YEAR_IN_SECONDS \<le> D18 - self"
    by (rule taylor_sum_le) (simp_all add: const_defs)
  then show ?thesis using nth_root_year [OF assms] assms(1) by auto
qed

theorem yearly_root_witness:
  "nth_root 900000000000000000 YEAR_IN_SECONDS = Ok 999999996665186884"
  using yearly_root [of 900000000000000000]
  by (auto simp: taylor_second_def taylor_third_def const_defs)

end
