(* ===== verification/State.thy ===== *)
theory State
  imports MathUtil "HOL-Library.Word"
begin

text \<open>
  The data of the folio program: the structs of \<open>programs/folio/src/utils/structs\<close> and the
  accounts of \<open>programs/folio/src/state.rs\<close> (without their alignment padding), with the
  limits of \<open>shared/src/constants/common.rs\<close> that bound them. Field names are the source's,
  with a prefix where two structs share one. A CPI to a token program is recorded as the
  instruction that is sent.
\<close>

unbundle bit_operations_syntax

section \<open>Limits\<close>

definition MAX_DAO_FEE :: nat where [const_defs]: "MAX_DAO_FEE = 500000000000000000"
definition MAX_FEE_FLOOR :: nat where [const_defs]: "MAX_FEE_FLOOR = 1500000000000000"
definition FEE_DENOMINATOR :: nat where [const_defs]: "FEE_DENOMINATOR = 1000000000000000000"
definition MAX_TVL_FEE :: nat where [const_defs]: "MAX_TVL_FEE = 100000000000000000"
definition MAX_MINT_FEE :: nat where [const_defs]: "MAX_MINT_FEE = 50000000000000000"
definition MIN_AUCTION_LENGTH :: nat where [const_defs]: "MIN_AUCTION_LENGTH = 60"
definition MAX_AUCTION_LENGTH :: nat where [const_defs]: "MAX_AUCTION_LENGTH = 604800"
definition MAX_TTL :: nat where [const_defs]: "MAX_TTL = 604800 * 4"
definition MAX_RATE :: nat where [const_defs]: "MAX_RATE = 1000000000000000000000000000"
definition MAX_TOKEN_PRICE_RANGE :: nat where [const_defs]: "MAX_TOKEN_PRICE_RANGE = 100"
definition MAX_TOKEN_PRICE :: nat where [const_defs]: "MAX_TOKEN_PRICE = D18 * D18"
definition RESTRICTED_AUCTION_BUFFER :: nat where [const_defs]: "RESTRICTED_AUCTION_BUFFER = 0"
definition MAX_FEE_RECIPIENTS :: nat where [const_defs]: "MAX_FEE_RECIPIENTS = 64"
definition MAX_FEE_RECIPIENTS_PORTION :: nat where
  [const_defs]: "MAX_FEE_RECIPIENTS_PORTION = 1000000000000000000"
definition MAX_FOLIO_TOKEN_AMOUNTS :: nat where [const_defs]: "MAX_FOLIO_TOKEN_AMOUNTS = 100"
definition MAX_USER_PENDING_BASKET_TOKEN_AMOUNTS :: nat where
  [const_defs]: "MAX_USER_PENDING_BASKET_TOKEN_AMOUNTS = 110"
definition MAX_REBALANCE_DETAILS_TOKENS :: nat where
  [const_defs]: "MAX_REBALANCE_DETAILS_TOKENS = 30"
definition MAX_PADDED_STRING_LENGTH :: nat where [const_defs]: "MAX_PADDED_STRING_LENGTH = 128"

datatype pending_basket_type = MintProcess | RedeemProcess

section \<open>Structs\<close>

datatype role = Owner | RebalanceManager | AuctionLauncher | BrandManager

primrec role_bits :: "role \<Rightarrow> 8 word" where
  "role_bits Owner = 1"
| "role_bits RebalanceManager = 2"
| "role_bits AuctionLauncher = 4"
| "role_bits BrandManager = 8"

definition has_role :: "8 word \<Rightarrow> role \<Rightarrow> bool" where
  "has_role roles r \<longleftrightarrow> (roles AND role_bits r) \<noteq> 0"

definition add_role :: "8 word \<Rightarrow> role \<Rightarrow> 8 word" where
  "add_role roles r = roles OR role_bits r"

definition remove_role :: "8 word \<Rightarrow> role \<Rightarrow> 8 word" where
  "remove_role roles r = roles AND NOT (role_bits r)"

datatype folio_status = Initializing | Initialized | Killed | Migrating

primrec status_u8 :: "folio_status \<Rightarrow> nat" where
  "status_u8 Initializing = 0"
| "status_u8 Initialized = 1"
| "status_u8 Killed = 2"
| "status_u8 Migrating = 3"

definition status_from :: "nat \<Rightarrow> folio_status result" where
  "status_from value =
     (if value = 0 then Ok Initializing
      else if value = 1 then Ok Initialized
      else if value = 2 then Ok Killed
      else if value = 3 then Ok Migrating
      else Panic)"

definition status_try_from :: "nat \<Rightarrow> folio_status option" where
  "status_try_from value =
     (if value = 0 then Some Initializing
      else if value = 1 then Some Initialized
      else if value = 2 then Some Killed
      else if value = 3 then Some Migrating
      else None)"

datatype auction_status = APPROVED | Open | Closed

record fee_recipient =
  recipient :: pubkey
  portion :: nat

definition default_fee_recipient :: fee_recipient where
  "default_fee_recipient = \<lparr>recipient = default_pubkey, portion = 0\<rparr>"

record folio_token_amount =
  fta_mint :: pubkey
  fta_amount :: nat

definition default_folio_token_amount :: folio_token_amount where
  "default_folio_token_amount = \<lparr>fta_mint = default_pubkey, fta_amount = 0\<rparr>"

record token_amount =
  ta_mint :: pubkey
  amount_for_minting :: nat
  amount_for_redeeming :: nat

definition default_token_amount :: token_amount where
  "default_token_amount =
     \<lparr>ta_mint = default_pubkey, amount_for_minting = 0, amount_for_redeeming = 0\<rparr>"

record minimum_out_for_token_amount =
  mo_mint :: pubkey
  minimum_out :: nat

record basket_range =
  spot :: nat
  low :: nat
  high :: nat

record prices_in_auction =
  price_start :: nat
  price_end :: nat

record prices_in_rebalance =
  price_low :: nat
  price_high :: nat

record rebalance_details_token =
  rd_mint :: pubkey
  rd_limits :: basket_range
  rd_prices :: prices_in_rebalance

definition default_rebalance_details_token :: rebalance_details_token where
  "default_rebalance_details_token =
     \<lparr>rd_mint = default_pubkey, rd_limits = \<lparr>spot = 0, low = 0, high = 0\<rparr>,
      rd_prices = \<lparr>price_low = 0, price_high = 0\<rparr>\<rparr>"

record rebalance_price_and_limits =
  pl_prices :: prices_in_rebalance
  pl_limits :: basket_range

record open_auction_config =
  cfg_price :: prices_in_auction
  sell_limit_spot :: nat
  buy_limit_spot :: nat

text \<open>A \<open>FixedSizeString\<close> is its 128 bytes; the input is the UTF-8 bytes of the string.\<close>

definition fixed_size_string_new :: "nat list \<Rightarrow> nat list" where
  "fixed_size_string_new bytes =
     (let len = min (length bytes) MAX_PADDED_STRING_LENGTH
      in take len bytes @ replicate (MAX_PADDED_STRING_LENGTH - len) 0)"

section \<open>Accounts\<close>

record actor =
  actor_bump :: nat
  actor_authority :: pubkey
  actor_folio :: pubkey
  actor_roles :: "8 word"

record folio =
  folio_bump :: nat
  folio_status :: nat
  initialized_at :: nat
  folio_token_mint :: pubkey
  tvl_fee :: nat
  mint_fee :: nat
  dao_pending_fee_shares :: nat
  fee_recipients_pending_fee_shares :: nat
  folio_auction_length :: nat
  last_poke :: nat
  mandate :: "nat list"
  fee_recipients_pending_fee_shares_to_be_minted :: nat

record fee_recipients_account =
  fr_bump :: nat
  distribution_index :: nat
  fr_folio :: pubkey
  fee_recipients :: "fee_recipient list"

record fee_distribution =
  fd_bump :: nat
  fd_index :: nat
  fd_folio :: pubkey
  fd_cranker :: pubkey
  amount_to_distribute :: nat
  fee_recipients_state :: "fee_recipient list"

record folio_basket =
  fb_bump :: nat
  fb_folio :: pubkey
  fb_token_amounts :: "folio_token_amount list"

record user_pending_basket =
  upb_bump :: nat
  upb_owner :: pubkey
  upb_folio :: pubkey
  upb_token_amounts :: "token_amount list"

record rebalance =
  rb_bump :: nat
  all_rebalance_details_added :: nat
  rb_folio :: pubkey
  current_auction_id :: nat
  rb_nonce :: nat
  started_at :: nat
  restricted_until :: nat
  available_until :: nat
  rb_tokens :: "rebalance_details_token list"

record auction =
  au_bump :: nat
  au_id :: nat
  au_nonce :: nat
  au_folio :: pubkey
  sell_mint :: pubkey
  buy_mint :: pubkey
  sell_limit :: nat
  buy_limit :: nat
  au_start :: nat
  au_end :: nat
  au_prices :: prices_in_auction

record auction_ends =
  ae_bump :: nat
  ae_rebalance_nonce :: nat
  token_mint_1 :: pubkey
  token_mint_2 :: pubkey
  end_time :: nat

section \<open>Instructions sent to the token programs\<close>

datatype cpi =
    TransferChecked (cpi_from: pubkey) (cpi_to: pubkey) (cpi_authority: pubkey) (cpi_mint: pubkey)
      (cpi_amount: nat)
  | MintTo (cpi_mint: pubkey) (cpi_to: pubkey) (cpi_authority: pubkey) (cpi_amount: nat)
  | Burn (cpi_mint: pubkey) (cpi_from: pubkey) (cpi_authority: pubkey) (cpi_amount: nat)
  | CloseAccount (cpi_from: pubkey) (cpi_to: pubkey) (cpi_authority: pubkey)

section \<open>Lemmas\<close>

lemma status_round_trip:
  "status_from (status_u8 s) = Ok s" "status_try_from (status_u8 s) = Some s"
  by (cases s; simp add: status_from_def status_try_from_def)+

lemma status_from_Ok_iff: "status_from v = Ok s \<longleftrightarrow> v = status_u8 s"
  by (cases s) (auto simp: status_from_def)

lemma role_bits_disjoint: "r \<noteq> s \<Longrightarrow> role_bits r AND role_bits s = 0"
  by (cases r; cases s) simp_all

lemma role_bits_nonzero: "role_bits r \<noteq> 0"
  by (cases r) simp_all

lemma and_role_single: "(w AND role_bits r) = 0 \<or> (w AND role_bits r) = role_bits r"
proof -
  have "\<exists>k. role_bits r = push_bit k 1"
    by (cases r) (auto intro: exI [of _ 0] exI [of _ 1] exI [of _ 2] exI [of _ 3] simp: push_bit_eq_mult)
  then obtain k where k: "role_bits r = push_bit k 1" by blast
  show ?thesis
    by (cases "bit w k") (auto intro!: bit_word_eqI simp: k bit_simps)
qed

lemma has_add_role: "has_role (add_role w r) s \<longleftrightarrow> s = r \<or> has_role w s"
proof (cases "s = r")
  case True
  then show ?thesis
    by (simp add: has_role_def add_role_def bit.conj_disj_distrib2 role_bits_nonzero)
next
  case False
  then show ?thesis
    by (simp add: has_role_def add_role_def bit.conj_disj_distrib2 role_bits_disjoint)
qed

lemma has_remove_role: "has_role (remove_role w r) s \<longleftrightarrow> s \<noteq> r \<and> has_role w s"
proof (cases "s = r")
  case True
  then show ?thesis by (simp add: has_role_def remove_role_def and.assoc)
next
  case False
  then have "NOT (role_bits r) AND role_bits s = role_bits s"
    by (cases r; cases s) simp_all
  with False show ?thesis by (simp add: has_role_def remove_role_def and.assoc)
qed

lemma length_fixed_size_string_new [simp]:
  "length (fixed_size_string_new bytes) = MAX_PADDED_STRING_LENGTH"
  by (simp add: fixed_size_string_new_def Let_def)

end
