(* ===== verification/Accounts.thy ===== *)
theory Accounts
  imports State
begin

text \<open>
  What an instruction sees of the accounts it is given. The Solana SDK and the token programs are
  not part of the repository: the derivation of addresses and the two token program ids are the
  fields of \<open>sdk\<close>, a parameter of every handler, and the data of a token account or a mint is
  given decoded. Modelled here are \<open>shared/src/utils/account_util.rs\<close> (\<open>next_account\<close> and
  \<open>next_token_program\<close>) and \<open>shared/src/utils/token_util.rs\<close> (the extensions a mint or a token
  account may have).
\<close>

section \<open>The SDK\<close>

record sdk =
  find_program_address :: find_pda
  associated_token_address :: "pubkey \<Rightarrow> pubkey \<Rightarrow> pubkey \<Rightarrow> pubkey"
  TOKEN_PROGRAM_ID :: pubkey
  TOKEN_2022_PROGRAM_ID :: pubkey

definition FOLIO_PROGRAM_ID :: pubkey where
  "FOLIO_PROGRAM_ID =
     PK 83687155375056845214403009549704789748619684342212946800205913661552289129879"

definition FOLIO_ADMIN_PROGRAM_ID :: pubkey where
  "FOLIO_ADMIN_PROGRAM_ID =
     PK 2881368033829940462111284958198287113503131493885984210043166688649307667511"

definition REWARDS_PROGRAM_ID :: pubkey where
  "REWARDS_PROGRAM_ID =
     PK 42143896963523314386864892271268216766253932834458483982662835680764186462482"

definition ADMIN :: pubkey where
  "ADMIN = PK 71593288706640896480302811695134708893566005053010048828198931169466035662528"

section \<open>Token extensions\<close>

datatype extension_type =
    UninitializedExtension | InterestBearingConfig | MetadataPointer | TokenMetadata | TokenGroup
  | TokenGroupMember | GroupPointer | ScaledUiAmount | DefaultAccountState | PermanentDelegate
  | Pausable | ConfidentialTransferMint | TransferHook | ImmutableOwner
  | ConfidentialTransferAccount | TransferHookAccount | PausableAccount | OtherExtension nat

text \<open>
  The decoded mint: its extensions, the state that \<open>DefaultAccountState\<close> gives new accounts and
  the program of the \<open>TransferHook\<close>, if these extensions can be read.
\<close>

record mint_data =
  md_decimals :: nat
  md_supply :: nat
  md_extension_types :: "extension_type list"
  md_default_account_state :: "nat option"
  md_transfer_hook :: "pubkey option option"

record token_data =
  td_mint :: pubkey
  td_owner :: pubkey
  td_amount :: nat
  td_extension_types :: "extension_type list"

definition ALLOWED_MINT_EXTENSION_TYPES :: "extension_type list" where
  "ALLOWED_MINT_EXTENSION_TYPES =
     [UninitializedExtension, InterestBearingConfig, MetadataPointer, TokenMetadata, TokenGroup,
      TokenGroupMember, GroupPointer, ScaledUiAmount, DefaultAccountState, PermanentDelegate,
      Pausable, ConfidentialTransferMint, TransferHook]"

definition ALLOWED_TOKEN_EXTENSION_TYPES :: "extension_type list" where
  "ALLOWED_TOKEN_EXTENSION_TYPES =
     [UninitializedExtension, ImmutableOwner, ConfidentialTransferAccount, TransferHookAccount,
      PausableAccount]"

definition mint_extension_allowed :: "mint_data \<Rightarrow> extension_type \<Rightarrow> bool" where
  "mint_extension_allowed mint e \<longleftrightarrow>
     e \<in> set ALLOWED_MINT_EXTENSION_TYPES
     \<and> (if e = DefaultAccountState then
          (case md_default_account_state mint of Some s \<Rightarrow> s = 1 | None \<Rightarrow> False)
        else if e = TransferHook then
          (case md_transfer_hook mint of Some program_id \<Rightarrow> program_id = None | None \<Rightarrow> False)
        else True)"

definition mint_has_extensions :: "mint_data \<Rightarrow> bool" where
  "mint_has_extensions mint = (\<not> list_all (mint_extension_allowed mint) (md_extension_types mint))"

definition token_has_extensions :: "token_data \<Rightarrow> bool" where
  "token_has_extensions tok =
     (\<not> list_all (\<lambda>e. e \<in> set ALLOWED_TOKEN_EXTENSION_TYPES) (td_extension_types tok))"

definition is_supported_spl_token :: "mint_data option \<Rightarrow> token_data option \<Rightarrow> bool" where
  "is_supported_spl_token mint tok =
     (\<not> (case mint of Some m \<Rightarrow> mint_has_extensions m | None \<Rightarrow> False)
      \<and> \<not> (case tok of Some t \<Rightarrow> token_has_extensions t | None \<Rightarrow> False))"

section \<open>Remaining accounts\<close>

record account_info =
  ai_key :: pubkey
  ai_is_signer :: bool
  ai_is_writable :: bool
  ai_data_is_empty :: bool
  ai_owner :: pubkey
  ai_executable :: bool
  ai_mint :: "mint_data option"
  ai_token :: "token_data option"

text \<open>
  The checks of the handlers on accounts given undecoded: an account that does not unpack as a
  mint or a token account fails with the SDK's own \<open>InvalidAccountData\<close> (a built-in error, numbered
  from \<open>2 ^ 32\<close>).
\<close>

definition ProgramInvalidAccountData :: error_code where
  "ProgramInvalidAccountData = ErrorCode (4 * 2 ^ 32)"

definition check_supported_mint :: "account_info \<Rightarrow> unit result" where
  "check_supported_mint a =
     and_then (ok_or (ai_mint a) ProgramInvalidAccountData) (\<lambda>m.
     check_condition (is_supported_spl_token (Some m) None) UnsupportedSPLToken (Ok ()))"

definition check_supported_token_account :: "account_info \<Rightarrow> unit result" where
  "check_supported_token_account a =
     and_then (ok_or (ai_token a) ProgramInvalidAccountData) (\<lambda>t.
     check_condition (is_supported_spl_token None (Some t)) UnsupportedSPLToken (Ok ()))"

definition check_supported_mints :: "account_info list \<Rightarrow> unit result" where
  "check_supported_mints mints = fold_result (\<lambda>_ mint. check_supported_mint mint) () mints"

text \<open>The mint of the folio token, as the handlers read it.\<close>

record mint_account =
  mint_key :: pubkey
  mint_supply :: nat
  mint_program :: pubkey

text \<open>
  What loading an account by its discriminator can find: no data, a discriminator that is still
  zero, data that does not deserialize, or the account.
\<close>

datatype 'a account_data = EmptyData | ZeroDiscriminator | Undecodable error_code | Loaded 'a

definition next_account ::
  "account_info list \<Rightarrow> bool \<Rightarrow> bool \<Rightarrow> pubkey \<Rightarrow> (account_info \<times> account_info list) result" where
  "next_account iter must_be_signer must_be_writable expected_owner =
     (case iter of
        [] \<Rightarrow> Err MissingRemainingAccount
      | account # rest \<Rightarrow>
          check_condition (ai_is_signer account = must_be_signer) AccountNotSigner (
          check_condition (ai_is_writable account = must_be_writable) AccountNotWritable (
          if \<not> ai_data_is_empty account then
            check_condition (ai_owner account = expected_owner) InvalidAccountOwner (
            Ok (account, rest))
          else Ok (account, rest))))"

definition next_token_program ::
  "sdk \<Rightarrow> account_info list \<Rightarrow> (account_info \<times> account_info list) result" where
  "next_token_program sdk iter =
     (case iter of
        [] \<Rightarrow> Err MissingRemainingAccount
      | account # rest \<Rightarrow>
          check_condition (ai_key account = TOKEN_PROGRAM_ID sdk
              \<or> ai_key account = TOKEN_2022_PROGRAM_ID sdk) InvalidTokenProgram (
          check_condition (ai_executable account) AccountNotExecutable (
          Ok (account, rest))))"

lemma next_account_Ok:
  "next_account iter s w ow = Ok (a, rest) \<longleftrightarrow>
     iter = a # rest \<and> ai_is_signer a = s \<and> ai_is_writable a = w
     \<and> (ai_data_is_empty a \<or> ai_owner a = ow)"
  by (auto simp: next_account_def split: list.splits if_splits)

lemma next_token_program_Ok:
  "next_token_program sdk iter = Ok (a, rest) \<longleftrightarrow>
     iter = a # rest \<and> ai_key a \<in> {TOKEN_PROGRAM_ID sdk, TOKEN_2022_PROGRAM_ID sdk}
     \<and> ai_executable a"
  by (auto simp: next_token_program_def split: list.splits)

text \<open>An SDK for the concrete runs: the address of a derived account is its number of seeds.\<close>

definition sample_sdk :: sdk where
  "sample_sdk = \<lparr>find_program_address = (\<lambda>ss p. (PK (1000 + length ss), 255)),
     associated_token_address = (\<lambda>owner mint program. PK (500 + pk_bytes owner)),
     TOKEN_PROGRAM_ID = PK 1, TOKEN_2022_PROGRAM_ID = PK 2\<rparr>"

section \<open>Properties\<close>

text \<open>
  A mint that the programs accept cannot interpose in a transfer: it has no transfer hook
  program, no fee on transfers (an extension outside the list), and if it fixes the state of new
  token accounts that state is initialized, not frozen.
\<close>
theorem supported_mint_is_safe:
  assumes "is_supported_spl_token (Some mint) tok"
  shows "set (md_extension_types mint) \<subseteq> set ALLOWED_MINT_EXTENSION_TYPES
    \<and> (TransferHook \<in> set (md_extension_types mint) \<longrightarrow> md_transfer_hook mint = Some None)
    \<and> (DefaultAccountState \<in> set (md_extension_types mint) \<longrightarrow>
        md_default_account_state mint = Some 1)
    \<and> (\<forall>n. OtherExtension n \<notin> set (md_extension_types mint))"
proof -
  have ok: "mint_extension_allowed mint e" if "e \<in> set (md_extension_types mint)" for e
    using assms that
    by (auto simp: is_supported_spl_token_def mint_has_extensions_def list_all_iff)
  have "set (md_extension_types mint) \<subseteq> set ALLOWED_MINT_EXTENSION_TYPES"
    using ok by (auto simp: mint_extension_allowed_def)
  moreover have "md_transfer_hook mint = Some None" if "TransferHook \<in> set (md_extension_types mint)"
    using ok [OF that] by (simp add: mint_extension_allowed_def split: option.splits)
  moreover have "md_default_account_state mint = Some 1"
    if "DefaultAccountState \<in> set (md_extension_types mint)"
    using ok [OF that] by (simp add: mint_extension_allowed_def split: option.splits)
  moreover have "OtherExtension n \<notin> set ALLOWED_MINT_EXTENSION_TYPES" for n
    by (simp add: ALLOWED_MINT_EXTENSION_TYPES_def)
  ultimately show ?thesis by blast
qed

theorem supported_mint_is_safe_witness:
  "md_transfer_hook \<lparr>md_decimals = 6, md_supply = 100, md_extension_types = [TransferHook],
     md_default_account_state = None, md_transfer_hook = Some None\<rparr> = Some (None :: pubkey option)"
  using supported_mint_is_safe [of "\<lparr>md_decimals = 6, md_supply = 100,
      md_extension_types = [TransferHook], md_default_account_state = None,
      md_transfer_hook = Some None\<rparr>" None]
  by (simp add: is_supported_spl_token_def mint_has_extensions_def mint_extension_allowed_def
      ALLOWED_MINT_EXTENSION_TYPES_def)

end
