(* ===== verification/FolioFees.thy ===== *)
theory FolioFees
  imports Accounts
begin

text \<open>
  \<open>programs/folio/src/utils/accounts/folio.rs\<close> and \<open>actor.rs\<close>: the checks every instruction
  makes on the folio account, and the two fees. The TVL fee is accrued by \<open>poke\<close> once per day,
  the mint fee by \<open>calculate_fees_for_minting\<close>; both are kept as pending shares in D9 until they
  are distributed, and \<open>get_total_supply\<close> counts them.
\<close>

section \<open>Actors\<close>

definition actor_process_init_if_needed ::
  "actor \<Rightarrow> nat \<Rightarrow> nat \<Rightarrow> pubkey \<Rightarrow> pubkey \<Rightarrow> actor result" where
  "actor_process_init_if_needed self account_bump context_bump authority folio =
     (if account_bump \<noteq> 0 then
        check_condition (account_bump = context_bump) InvalidBump (Ok self)
      else Ok (self\<lparr>actor_bump := context_bump, actor_authority := authority,
                    actor_folio := folio, actor_roles := 0\<rparr>))"

definition actor_reset :: "actor \<Rightarrow> actor" where
  "actor_reset self =
     self\<lparr>actor_roles := 0, actor_authority := default_pubkey, actor_folio := default_pubkey\<rparr>"

section \<open>Validation\<close>

fun has_one_of_the_roles :: "8 word \<Rightarrow> role list \<Rightarrow> bool" where
  "has_one_of_the_roles roles [] = False"
| "has_one_of_the_roles roles (r # rs) =
     (if has_role roles r then True else has_one_of_the_roles roles rs)"

definition validate_permission_for_action :: "actor \<Rightarrow> role list \<Rightarrow> unit result" where
  "validate_permission_for_action actor required_roles =
     check_condition (has_one_of_the_roles (actor_roles actor) required_roles) InvalidRole (Ok ())"

definition validate_folio ::
  "find_pda \<Rightarrow> folio \<Rightarrow> pubkey \<Rightarrow> actor option \<Rightarrow> role list option \<Rightarrow> folio_status list option
   \<Rightarrow> unit result" where
  "validate_folio find_pda self folio_pubkey actor required_roles expected_statuses =
     check_condition
       ((folio_pubkey, folio_bump self)
          = find_pda [Bytes ''folio'', Key (folio_token_mint self)] FOLIO_PROGRAM_ID) InvalidPda (
     and_then
       (case (actor, required_roles) of
          (Some a, Some rs) \<Rightarrow> validate_permission_for_action a rs
        | _ \<Rightarrow> Ok ()) (\<lambda>_.
     case expected_statuses of
       None \<Rightarrow> Ok ()
     | Some sts \<Rightarrow>
         and_then (status_from (folio_status self)) (\<lambda>st.
         check_condition (st \<in> set sts) InvalidFolioStatus (Ok ()))))"

section \<open>Fees\<close>

definition set_tvl_fee :: "folio \<Rightarrow> nat \<Rightarrow> folio result" where
  "set_tvl_fee self scaled_new_fee_annually =
     check_condition (scaled_new_fee_annually \<le> MAX_TVL_FEE) TVLFeeTooHigh (
     if scaled_new_fee_annually = 0 then Ok (self\<lparr>tvl_fee := 0\<rparr>)
     else
       and_then (dec_sub D18 (from_scaled scaled_new_fee_annually)) (\<lambda>one_minus_fee.
       and_then (nth_root one_minus_fee YEAR_IN_SECONDS) (\<lambda>result.
       and_then (dec_sub D18 result) (\<lambda>scaled_tvl_fee.
       check_condition (scaled_new_fee_annually = 0 \<or> scaled_tvl_fee \<noteq> 0) TVLFeeTooLow (
       and_then (to_scaled scaled_tvl_fee Floor) (\<lambda>fee.
       Ok (self\<lparr>tvl_fee := fee\<rparr>)))))))"

definition calculate_fees_for_minting ::
  "folio \<Rightarrow> nat \<Rightarrow> nat \<Rightarrow> nat \<Rightarrow> nat \<Rightarrow> (folio \<times> nat) result" where
  "calculate_fees_for_minting self raw_user_shares num den fee_floor =
     and_then (from_token_amount raw_user_shares) (\<lambda>user_shares.
     and_then (mul_div_up user_shares (from_scaled (mint_fee self)) D18) (\<lambda>total0.
     and_then (mul_div_up total0 (from_scaled num) (from_scaled den)) (\<lambda>dao0.
     and_then (mul_div_up user_shares (from_scaled fee_floor) D18) (\<lambda>min_dao.
     let dao = (if dao0 < min_dao then min_dao else dao0);
         total = (if total0 < dao then dao else total0)
     in
       and_then (to_scaled dao Floor) (\<lambda>dao_scaled.
       and_then (ok_or (checked_add 128 (dao_pending_fee_shares self) dao_scaled) MathOverflow)
         (\<lambda>dao_pending.
       and_then (and_then (dec_sub total dao) (\<lambda>d. to_scaled d Floor)) (\<lambda>rest.
       and_then (ok_or (checked_add 128 (fee_recipients_pending_fee_shares self) rest) MathOverflow)
         (\<lambda>fr_pending.
       and_then (to_token_amount total Ceiling) (\<lambda>fee.
       Ok (self\<lparr>dao_pending_fee_shares := dao_pending,
                fee_recipients_pending_fee_shares := fr_pending\<rparr>, fee))))))))))"

definition get_account_fee_until :: "int \<Rightarrow> nat result" where
  "get_account_fee_until current_time =
     and_then (ok_or (checked_div (as_u64 current_time) DAY_IN_SECONDS) MathOverflow) (\<lambda>days.
     ok_or (checked_mul 64 days DAY_IN_SECONDS) MathOverflow)"

definition get_total_supply :: "folio \<Rightarrow> nat \<Rightarrow> decimal result" where
  "get_total_supply self raw_folio_token_supply =
     and_then (from_token_amount raw_folio_token_supply) (\<lambda>s0.
     and_then (dec_add s0 (from_scaled (dao_pending_fee_shares self))) (\<lambda>s1.
     and_then (dec_add s1 (from_scaled (fee_recipients_pending_fee_shares self))) (\<lambda>s2.
     dec_add s2 (from_scaled (fee_recipients_pending_fee_shares_to_be_minted self)))))"

definition get_pending_fee_shares ::
  "folio \<Rightarrow> nat \<Rightarrow> nat \<Rightarrow> nat \<Rightarrow> nat \<Rightarrow> nat \<Rightarrow> (decimal \<times> decimal) result" where
  "get_pending_fee_shares self raw_supply account_until num den dao_fee_floor =
     and_then (get_total_supply self raw_supply) (\<lambda>supply.
     let elapsed = saturating_sub account_until (last_poke self) in
     and_then (dec_sub D18 (from_scaled dao_fee_floor)) (\<lambda>one_minus_fee_floor.
     and_then (and_then (nth_root one_minus_fee_floor YEAR_IN_SECONDS) (\<lambda>r. dec_sub D18 r))
       (\<lambda>fee_floor.
     let tvl_fee_to_use =
           (if fee_floor > from_scaled (tvl_fee self) then fee_floor else from_scaled (tvl_fee self))
     in
     and_then (dec_sub D18 tvl_fee_to_use) (\<lambda>one_minus_tvl_fee.
     and_then (pow_dec one_minus_tvl_fee elapsed) (\<lambda>denominator.
     and_then (and_then (mul_div supply D18 denominator) (\<lambda>q. dec_sub q supply)) (\<lambda>fee_shares.
     and_then
       (and_then (dec_mul fee_floor D18) (\<lambda>m.
        and_then (dec_add m tvl_fee_to_use) (\<lambda>s.
        and_then (dec_sub s 1) (\<lambda>t. dec_div t tvl_fee_to_use)))) (\<lambda>correction.
     and_then (mul_div_up (from_scaled num) D18 (from_scaled den)) (\<lambda>dao_ratio.
     and_then
       (if correction > dao_ratio
        then mul_div_up fee_shares correction D18
        else mul_div_up fee_shares (from_scaled num) (from_scaled den)) (\<lambda>dao_shares.
     and_then (dec_sub fee_shares dao_shares) (\<lambda>fee_recipient_shares.
     Ok (fee_recipient_shares, dao_shares)))))))))))"

definition poke :: "folio \<Rightarrow> nat \<Rightarrow> int \<Rightarrow> nat \<Rightarrow> nat \<Rightarrow> nat \<Rightarrow> folio result" where
  "poke self raw_supply current_time num den dao_fee_floor =
     and_then (get_account_fee_until current_time) (\<lambda>account_fee_until.
     if saturating_sub account_fee_until (last_poke self) = 0 then Ok self
     else
       and_then (get_pending_fee_shares self raw_supply account_fee_until num den dao_fee_floor)
         (\<lambda>(fee_recipients_fee, dao_fee).
       and_then (to_scaled dao_fee Floor) (\<lambda>dao_scaled.
       and_then (ok_or (checked_add 128 (dao_pending_fee_shares self) dao_scaled) MathOverflow)
         (\<lambda>dao_pending.
       and_then (to_scaled fee_recipients_fee Floor) (\<lambda>fr_scaled.
       and_then (ok_or (checked_add 128 (fee_recipients_pending_fee_shares self) fr_scaled)
         MathOverflow) (\<lambda>fr_pending.
       Ok (self\<lparr>dao_pending_fee_shares := dao_pending,
                fee_recipients_pending_fee_shares := fr_pending,
                last_poke := account_fee_until\<rparr>)))))))"

section \<open>Supply\<close>

definition total_supply :: "folio \<Rightarrow> nat \<Rightarrow> nat" where
  "total_supply f raw = raw * D9 + dao_pending_fee_shares f + fee_recipients_pending_fee_shares f
     + fee_recipients_pending_fee_shares_to_be_minted f"

lemma get_total_supply_Ok [simp]:
  "get_total_supply f raw = Ok t \<longleftrightarrow> total_supply f raw < 2 ^ 256 \<and> t = total_supply f raw"
  by (auto simp: get_total_supply_def from_scaled_def total_supply_def)

section \<open>Mint fee\<close>

text \<open>The bounds that the administration programs keep on the parameters of the fees.\<close>

definition fee_params_ok :: "nat \<Rightarrow> nat \<Rightarrow> nat \<Rightarrow> bool" where
  "fee_params_ok num den fl \<longleftrightarrow> num \<le> MAX_DAO_FEE \<and> den = FEE_DENOMINATOR \<and> fl \<le> MAX_FEE_FLOOR"

lemma ceil_div_le_factor: "b \<le> c \<Longrightarrow> 0 < c \<Longrightarrow> ceil_div (a * b) c \<le> a"
  by (rule ceil_div_least) auto

lemma mint_fee_parts:
  assumes ok: "calculate_fees_for_minting f sh num den fl = Ok (f', fee)"
    and sh: "fits 64 sh" and mf: "mint_fee f \<le> MAX_MINT_FEE" and p: "fee_params_ok num den fl"
  obtains total dao where "dao \<le> total" "total \<le> sh * D9" "fee = ceil_div total D9"
    "ceil_div (sh * D9 * fl) D18 \<le> dao" "ceil_div (sh * D9 * mint_fee f) D18 \<le> total"
    "ceil_div (ceil_div (sh * D9 * mint_fee f) D18 * num) den \<le> dao"
    "f' = f\<lparr>dao_pending_fee_shares := dao_pending_fee_shares f + dao,
      fee_recipients_pending_fee_shares := fee_recipients_pending_fee_shares f + (total - dao)\<rparr>"
proof -
  let ?u = "sh * D9"
  define total0 where "total0 = ceil_div (?u * mint_fee f) D18"
  define dao where "dao = max (ceil_div (total0 * num) den) (ceil_div (?u * fl) D18)"
  define total where "total = max total0 dao"
  have le18: "mint_fee f \<le> D18" "num \<le> den" "fl \<le> D18" "0 < den"
    using mf p by (auto simp: fee_params_ok_def const_defs)
  have t0: "total0 \<le> ?u" unfolding total0_def using le18 by (intro ceil_div_le_factor) auto
  have "ceil_div (total0 * num) den \<le> total0" using le18 by (intro ceil_div_le_factor) auto
  moreover have "ceil_div (?u * fl) D18 \<le> ?u" using le18 by (intro ceil_div_le_factor) auto
  ultimately have tu: "total \<le> ?u" using t0 by (auto simp: total_def dao_def)
  have u128: "?u < U128_MAX" using sh by (simp add: fits_def const_defs U128_MAX_def)
  have sat: "min dao U128_MAX = dao" "min (total - dao) U128_MAX = total - dao"
    using tu u128 by (auto simp: total_def)
  have "ceil_div total D9 \<le> sh" using tu by (intro ceil_div_least) auto
  then have fee: "min (ceil_div total D9) U64_MAX = ceil_div total D9"
    using sh by (auto simp: fits_def U64_MAX_def)
  have m: "(if a < b then b else a) = max a (b::nat)" for a b by simp
  note fold = m total0_def [symmetric] dao_def [symmetric] total_def [symmetric]
  from ok have *: "dao_pending_fee_shares f + min dao U128_MAX < 2 ^ 128"
    "to_token_amount total Ceiling = Ok fee"
    "f' = f\<lparr>dao_pending_fee_shares := dao_pending_fee_shares f + min dao U128_MAX,
      fee_recipients_pending_fee_shares :=
        fee_recipients_pending_fee_shares f + min (total - dao) U128_MAX\<rparr>"
    by (clarsimp simp: calculate_fees_for_minting_def Let_def from_scaled_def fold)+
  have "fee = ceil_div total D9 \<and>
    f' = f\<lparr>dao_pending_fee_shares := dao_pending_fee_shares f + dao,
      fee_recipients_pending_fee_shares := fee_recipients_pending_fee_shares f + (total - dao)\<rparr>"
    using to_token_amount_Ceiling_Ok [OF *(2)] *(3) fee sat by simp
  then show ?thesis using tu by (intro that [of dao total]) (auto simp: total_def dao_def total0_def)
qed

section \<open>TVL fee\<close>

definition day_start :: "int \<Rightarrow> nat" where
  "day_start t = as_u64 t div DAY_IN_SECONDS * DAY_IN_SECONDS"

lemma get_account_fee_until_eq [simp]: "get_account_fee_until t = Ok (day_start t)"
proof -
  have "day_start t \<le> as_u64 t" by (simp add: day_start_def)
  moreover have "as_u64 t < 2 ^ 64" by (simp add: as_u64_def nat_less_iff)
  ultimately have "day_start t < 2 ^ 64" by linarith
  then show ?thesis
    by (simp add: get_account_fee_until_def day_start_def) (simp add: const_defs checked_mul_def)
qed

lemma saturating_sub_eq_0 [simp]: "saturating_sub a b = 0 \<longleftrightarrow> a \<le> b"
  by (auto simp: saturating_sub_def)

lemma poke_same_day [simp]:
  "day_start t \<le> last_poke f \<Longrightarrow> poke f raw t num den fl = Ok f"
  by (simp add: poke_def)

text \<open>Everything a successful poke of a later day does to the account.\<close>

lemma poke_new_day:
  assumes "poke f raw t num den fl = Ok f'" "last_poke f < day_start t"
  obtains fr dao where
    "get_pending_fee_shares f raw (day_start t) num den fl = Ok (fr, dao)"
    "f' = f\<lparr>dao_pending_fee_shares := dao_pending_fee_shares f + min dao U128_MAX,
      fee_recipients_pending_fee_shares := fee_recipients_pending_fee_shares f + min fr U128_MAX,
      last_poke := day_start t\<rparr>"
    "fits 128 (dao_pending_fee_shares f')" "fits 128 (fee_recipients_pending_fee_shares f')"
  using assms by (auto simp: poke_def fits_def)

lemma poke_frame:
  assumes "poke f raw t num den fl = Ok f'"
  shows "\<exists>d r. f' = f\<lparr>dao_pending_fee_shares := dao_pending_fee_shares f + d,
      fee_recipients_pending_fee_shares := fee_recipients_pending_fee_shares f + r,
      last_poke := max (last_poke f) (day_start t)\<rparr>"
proof (cases "day_start t \<le> last_poke f")
  case True
  with assms show ?thesis by (intro exI [of _ 0]) simp
next
  case False
  then have l: "last_poke f < day_start t" by simp
  then have "max (last_poke f) (day_start t) = day_start t" by simp
  with poke_new_day [OF assms l] show ?thesis by metis
qed

text \<open>The split: what the two parties get is what the supply grows by.\<close>

lemma get_pending_fee_shares_split:
  assumes "get_pending_fee_shares f raw until num den fl = Ok (fr, dao)"
  obtains rate d where
    "pow_dec (D18 - rate) (saturating_sub until (last_poke f)) = Ok d" "tvl_fee f \<le> rate"
    "0 < rate" "0 < d"
    "fr + dao = total_supply f raw * D18 div d - total_supply f raw"
    "total_supply f raw \<le> total_supply f raw * D18 div d" "rate \<le> D18"
proof -
  have m: "(if b < a then a else b) = max a (b::nat)" for a b by simp
  note eqs = assms [unfolded get_pending_fee_shares_def from_scaled_def Let_def m]
  from eqs obtain r where r: "nth_root (D18 - fl) YEAR_IN_SECONDS = Ok r" by clarsimp
  define rate where "rate = max (D18 - r) (tvl_fee f)"
  let ?S = "total_supply f raw"
  from eqs r obtain d where
    "pow_dec (D18 - rate) (saturating_sub until (last_poke f)) = Ok d"
    "tvl_fee f \<le> D18" "r < D18 \<or> 0 < tvl_fee f" "0 < d" "?S \<le> ?S * D18 div d"
    "dao \<le> ?S * D18 div d - ?S" "fr = ?S * D18 div d - ?S - dao"
    by (clarsimp simp: rate_def [symmetric])
  then show ?thesis by (intro that [of rate d]) (auto simp: rate_def)
qed

lemma validate_folio_Ok:
  "validate_folio find_pda f key a rs sts = Ok u \<Longrightarrow>
     (case (a, rs) of (Some a, Some rs) \<Rightarrow> (\<exists>r \<in> set rs. has_role (actor_roles a) r) | _ \<Rightarrow> True)
     \<and> (case sts of Some sts \<Rightarrow> \<exists>st \<in> set sts. folio_status f = status_u8 st | None \<Rightarrow> True)"
proof -
  have h: "has_one_of_the_roles w rs \<longleftrightarrow> (\<exists>r \<in> set rs. has_role w r)" for w rs
    by (induction rs) auto
  show "validate_folio find_pda f key a rs sts = Ok u \<Longrightarrow> ?thesis"
    by (auto simp: validate_folio_def validate_permission_for_action_def h status_from_Ok_iff
        split: option.splits)
qed

text \<open>The fee per second that \<open>set_tvl_fee\<close> computes.\<close>

definition annual_rate :: "nat \<Rightarrow> nat" where
  "annual_rate annual = annual div YEAR_IN_SECONDS + taylor_second annual YEAR_IN_SECONDS
     + taylor_third annual YEAR_IN_SECONDS"

section \<open>Properties\<close>

text \<open>
  C26: Minting never inflates the supply. With fee parameters in their bounds, the fee that
  \<open>calculate_fees_for_minting\<close> takes is at most the shares minted, and after minting the rest the
  total supply (with the pending fee shares) has grown by at most the shares paid for, and by
  less than one raw share less than that; the DAO gets at least its floor.
\<close>
theorem mint_fee_no_inflation:
  assumes "calculate_fees_for_minting f sh num den fl = Ok (f', fee)"
    and "fits 64 sh" "mint_fee f \<le> MAX_MINT_FEE" "fee_params_ok num den fl"
  shows "fee \<le> sh
    \<and> total_supply f' (raw + (sh - fee)) \<le> total_supply f raw + sh * D9
    \<and> total_supply f raw + sh * D9 < total_supply f' (raw + (sh - fee)) + D9
    \<and> sh * D9 * fl \<le> (dao_pending_fee_shares f' - dao_pending_fee_shares f) * D18"
proof -
  from assms obtain total dao where p: "dao \<le> total" "total \<le> sh * D9" "fee = ceil_div total D9"
    "ceil_div (sh * D9 * fl) D18 \<le> dao"
    "f' = f\<lparr>dao_pending_fee_shares := dao_pending_fee_shares f + dao,
      fee_recipients_pending_fee_shares := fee_recipients_pending_fee_shares f + (total - dao)\<rparr>"
    by (rule mint_fee_parts)
  have c: "total \<le> fee * D9" "fee * D9 < total + D9"
    using ceil_div_bounds [of D9 total] p(3) by simp_all
  have fs: "fee \<le> sh" using p(2,3) by (auto intro: ceil_div_least)
  define k where "k = sh - fee"
  have sh: "sh = fee + k" using fs by (simp add: k_def)
  have t: "total_supply f' (raw + k) = raw * D9 + k * D9 + (dao_pending_fee_shares f + dao)
      + (fee_recipients_pending_fee_shares f + (total - dao))
      + fee_recipients_pending_fee_shares_to_be_minted f"
    using p(5) by (simp add: total_supply_def add_mult_distrib)
  have s: "sh * D9 = fee * D9 + k * D9" by (simp add: sh add_mult_distrib)
  have "total_supply f' (raw + k) = total_supply f raw + k * D9 + total"
    using t p(1) unfolding total_supply_def [of f raw] by linarith
  moreover have "sh * D9 * fl \<le> dao * D18"
    using ceil_div_bounds(1) [of D18 "sh * D9 * fl"] p(4) by (meson D18_pos(1) mult_le_mono1 order_trans)
  ultimately show ?thesis
    using c s fs p(5) by (simp add: k_def)
qed

definition sample_folio :: folio where
  "sample_folio = \<lparr>folio_bump = 255, folio_status = 1, initialized_at = 0, folio_token_mint = PK 7,
     tvl_fee = 3340960028, mint_fee = 50000000000000000, dao_pending_fee_shares = 0,
     fee_recipients_pending_fee_shares = 0, folio_auction_length = 3600, last_poke = 0,
     mandate = [], fee_recipients_pending_fee_shares_to_be_minted = 0\<rparr>"

lemma sample_mint:
  "calculate_fees_for_minting sample_folio 1000000001 500000000000000000 D18 1500000000000000 =
   Ok (sample_folio\<lparr>dao_pending_fee_shares := 25000000025000000,
         fee_recipients_pending_fee_shares := 25000000025000000\<rparr>, 50000001)"
  by (simp add: calculate_fees_for_minting_def sample_folio_def from_token_amount_def mul_div_up_def
      dec_mul_def dec_add_def dec_sub_def dec_div_def from_scaled_def to_token_amount_def
      to_scaled_def arith_defs const_defs U128_MAX_def U64_MAX_def Let_def)

theorem mint_fee_no_inflation_witness:
  "(50000001 :: nat) \<le> 1000000001
    \<and> total_supply (sample_folio\<lparr>dao_pending_fee_shares := 25000000025000000,
         fee_recipients_pending_fee_shares := 25000000025000000\<rparr>) (0 + (1000000001 - 50000001))
       \<le> total_supply sample_folio 0 + 1000000001 * D9"
  using mint_fee_no_inflation [OF sample_mint, of 0]
  by (auto simp: fits_def fee_params_ok_def const_defs sample_folio_def)

text \<open>
  Poking is once per day: after a successful poke a second poke at the same time changes
  nothing, whatever the supply and the fee parameters have become, and pokes never lower the
  pending fees of either party nor touch the shares that wait to be minted.
\<close>
theorem poke_once_per_day:
  assumes "poke f raw t num den fl = Ok f'"
  shows "poke f' raw' t num' den' fl' = Ok f'
    \<and> last_poke f' = max (last_poke f) (day_start t)
    \<and> dao_pending_fee_shares f \<le> dao_pending_fee_shares f'
    \<and> fee_recipients_pending_fee_shares f \<le> fee_recipients_pending_fee_shares f'
    \<and> fee_recipients_pending_fee_shares_to_be_minted f'
        = fee_recipients_pending_fee_shares_to_be_minted f"
  using poke_frame [OF assms] by auto

theorem poke_once_per_day_witness:
  "poke sample_folio 5 100 1 2 3 = Ok sample_folio
    \<and> poke sample_folio 9 100 4 5 6 = Ok sample_folio"
proof -
  have h: "poke sample_folio 5 100 1 2 3 = Ok sample_folio"
    by (simp add: day_start_def as_u64_def const_defs)
  show ?thesis using h poke_once_per_day [OF h, of 9 4 5 6] by simp
qed

text \<open>
  The TVL fee is split exactly. When a poke of a later day succeeds and its fees fit in
  128 bits, the total supply grows to \<open>supply / (1 - rate) ^ elapsed\<close> rounded down, where the
  rate is at least the TVL fee of the folio; nothing is created beyond the two pending shares.
\<close>
theorem poke_supply_growth:
  assumes "poke f raw t num den fl = Ok f'" "last_poke f < day_start t"
    and "total_supply f' raw < total_supply f raw + U128_MAX"
  shows "\<exists>rate d. tvl_fee f \<le> rate \<and> 0 < rate \<and> rate \<le> D18 \<and> 0 < d
    \<and> pow_dec (D18 - rate) (day_start t - last_poke f) = Ok d
    \<and> total_supply f' raw = total_supply f raw * D18 div d"
proof -
  obtain fr dao where g: "get_pending_fee_shares f raw (day_start t) num den fl = Ok (fr, dao)"
    and f': "f' = f\<lparr>dao_pending_fee_shares := dao_pending_fee_shares f + min dao U128_MAX,
      fee_recipients_pending_fee_shares := fee_recipients_pending_fee_shares f + min fr U128_MAX,
      last_poke := day_start t\<rparr>"
    using poke_new_day [OF assms(1,2)] by metis
  obtain rate d where r: "pow_dec (D18 - rate) (saturating_sub (day_start t) (last_poke f)) = Ok d"
    "tvl_fee f \<le> rate" "0 < rate" "0 < d" "rate \<le> D18"
    and s: "fr + dao = total_supply f raw * D18 div d - total_supply f raw"
      "total_supply f raw \<le> total_supply f raw * D18 div d"
    using get_pending_fee_shares_split [OF g] by metis
  have "min dao U128_MAX = dao" "min fr U128_MAX = fr"
    using assms(3) f' by (auto simp: total_supply_def min_def split: if_splits)
  then have "total_supply f' raw = total_supply f raw + (fr + dao)"
    using f' by (simp add: total_supply_def)
  then show ?thesis using r s assms(2)
    by (intro exI [of _ rate] exI [of _ d]) (simp add: saturating_sub_def)
qed

lemma sample_floor_root:
  "nth_root 998500000000000000 YEAR_IN_SECONDS = Ok 999999999952399623"
  using nth_root_year [of 998500000000000000]
  by (simp add: taylor_second_def taylor_third_def const_defs)

lemma sample_poke:
  "poke sample_folio 1000000000 86400 500000000000000000 D18 1500000000000000 =
   Ok (sample_folio\<lparr>dao_pending_fee_shares := 144350306468392,
        fee_recipients_pending_fee_shares := 144350306468391, last_poke := 86400\<rparr>)"
proof -
  have p: "pow_dec 999999996659039972 86400 = Ok 999711382711051440"
    by (simp add: pow_dec_def pow_loop.simps mul_div_def dec_mul_def dec_div_def arith_defs const_defs)
  have s: "get_total_supply sample_folio 1000000000 = Ok 1000000000000000000"
    by (simp add: total_supply_def sample_folio_def const_defs)
  have "get_pending_fee_shares sample_folio 1000000000 86400 500000000000000000 D18
      1500000000000000 = Ok (144350306468391, 144350306468392)"
    by (simp add: get_pending_fee_shares_def from_scaled_def Let_def saturating_sub_def
        sample_folio_def [THEN arg_cong, of tvl_fee] sample_folio_def [THEN arg_cong, of last_poke]
        s p sample_floor_root mul_div_def mul_div_up_def dec_mul_def dec_div_def dec_add_def
        dec_sub_def checked_add_def checked_sub_def checked_mul_def checked_div_def D18_def D9_def)
  then show ?thesis
    by (simp add: poke_def day_start_def as_u64_def sample_folio_def saturating_sub_def)
      (simp add: to_scaled_def arith_defs const_defs U128_MAX_def)
qed

theorem poke_supply_growth_witness:
  "\<exists>rate d. 3340960028 \<le> rate \<and> 0 < rate \<and> rate \<le> D18 \<and> 0 < d
    \<and> pow_dec (D18 - rate) (day_start 86400 - 0) = Ok d
    \<and> 1000288700612936783 = total_supply sample_folio 1000000000 * D18 div d"
proof -
  have "last_poke sample_folio < day_start 86400"
    by (simp add: sample_folio_def day_start_def as_u64_def const_defs)
  moreover have "total_supply (sample_folio\<lparr>dao_pending_fee_shares := 144350306468392,
        fee_recipients_pending_fee_shares := 144350306468391, last_poke := 86400\<rparr>) 1000000000
      = 1000288700612936783"
    by (simp add: total_supply_def sample_folio_def const_defs)
  ultimately show ?thesis
    using poke_supply_growth [OF sample_poke]
    by (simp add: U128_MAX_def) (simp add: sample_folio_def total_supply_def const_defs)
qed

text \<open>
  A folio without a TVL fee cannot be poked when the DAO fee floor is zero: every poke of a
  later day fails with \<open>MathOverflow\<close>, since the correction term subtracts one from zero.
\<close>
theorem poke_zero_rate_fails:
  assumes "tvl_fee f = 0" "last_poke f < day_start t"
  shows "poke f raw t num den 0 = Err MathOverflow"
proof -
  have e: "dec_sub 0 (Suc 0) = Err MathOverflow" "dec_add 0 0 = Ok 0" "dec_mul 0 D18 = Ok 0"
    by (simp_all add: dec_sub_def dec_add_def dec_mul_def checked_sub_def)
  have "get_pending_fee_shares f raw (day_start t) num den 0 = Err MathOverflow"
  proof (cases "get_total_supply f raw")
    case (Ok S)
    obtain d where d: "pow_dec D18 (saturating_sub (day_start t) (last_poke f)) = Ok d"
      using pow_dec_unit [of D18] by blast
    have n: "nth_root D18 YEAR_IN_SECONDS = Ok D18" by (simp add: nth_root_def)
    have m: "and_then (and_then (mul_div S D18 d) (\<lambda>q. dec_sub q S)) (\<lambda>_. Err MathOverflow)
        = (Err MathOverflow :: (nat \<times> nat) result)"
      by (simp add: mul_div_def dec_mul_def dec_div_def dec_sub_def arith_defs)
    have one: "dec_sub D18 0 = Ok D18" "dec_sub D18 D18 = Ok 0" by simp_all
    show ?thesis
      unfolding get_pending_fee_shares_def Let_def from_scaled_def
      by (simp add: Ok n d e one assms(1) m)
  qed (auto simp: get_pending_fee_shares_def get_total_supply_def from_token_amount_def dec_add_def
      arith_defs split: if_splits)
  then show ?thesis using assms(2) by (simp add: poke_def)
qed

theorem poke_zero_rate_fails_witness:
  "poke (sample_folio\<lparr>tvl_fee := 0\<rparr>) 1000 86400 1 2 0 = Err MathOverflow"
  by (rule poke_zero_rate_fails) (simp_all add: sample_folio_def day_start_def as_u64_def const_defs)

lemma set_tvl_fee_cases:
  "case set_tvl_fee f annual of
     Ok f' \<Rightarrow> annual \<le> MAX_TVL_FEE \<and> f' = f\<lparr>tvl_fee := annual_rate annual\<rparr>
       \<and> annual div YEAR_IN_SECONDS \<le> tvl_fee f' \<and> tvl_fee f' \<le> annual
       \<and> (tvl_fee f' = 0 \<longleftrightarrow> annual = 0)
   | Err e \<Rightarrow> e = TVLFeeTooHigh \<and> MAX_TVL_FEE < annual
       \<or> e = TVLFeeTooLow \<and> annual \<le> MAX_TVL_FEE \<and> 0 < annual \<and> annual_rate annual = 0
   | Panic \<Rightarrow> False"
proof (cases "annual \<le> MAX_TVL_FEE \<and> 0 < annual")
  case True
  have b: "annual \<le> D18" "0 < D18 - annual" "D18 - annual \<le> D18" "D18 - (D18 - annual) = annual"
    "annual < U128_MAX"
    using True by (simp_all add: const_defs U128_MAX_def)
  have le: "annual_rate annual \<le> annual"
    unfolding annual_rate_def using b(1) by (rule taylor_sum_le) (simp add: const_defs)
  then have le18: "annual_rate annual \<le> D18" using b(1) by simp
  have r: "nth_root (D18 - annual) YEAR_IN_SECONDS = Ok (D18 - annual_rate annual)"
    using nth_root_year [OF b(3,2)] b(4) by (simp add: annual_rate_def)
  have s: "dec_sub D18 annual = Ok (D18 - annual)"
    "dec_sub D18 (D18 - annual_rate annual) = Ok (annual_rate annual)"
    using b(1) le18 by simp_all
  have "annual div YEAR_IN_SECONDS \<le> annual_rate annual" by (simp add: annual_rate_def)
  then show ?thesis
    using True le b(5)
    by (simp add: set_tvl_fee_def from_scaled_def check_condition_def to_scaled_Floor r s)
next
  case False
  then show ?thesis
    by (cases "annual = 0")
      (simp_all add: set_tvl_fee_def check_condition_def annual_rate_def taylor_second_def
        taylor_third_def const_defs)
qed

lemma set_tvl_fee_spec_Ok:
  "set_tvl_fee f annual = Ok f' \<Longrightarrow> annual \<le> MAX_TVL_FEE \<and> f' = f\<lparr>tvl_fee := annual_rate annual\<rparr>"
  using set_tvl_fee_cases [where f = f and annual = annual] by simp

text \<open>
  C32: \<open>set_tvl_fee\<close> turns an annual fee into the fee per second. It accepts exactly the fees up
  to the maximum whose rate is not lost in the rounding (zero switches the fee off); the rate it
  stores is the truncated series, positive unless the fee is zero, at least the linear share of a
  second and at most the annual fee; nothing else of the account changes.
\<close>
theorem set_tvl_fee_spec:
  "case set_tvl_fee f annual of
     Ok f' \<Rightarrow> annual \<le> MAX_TVL_FEE \<and> f' = f\<lparr>tvl_fee := annual_rate annual\<rparr>
       \<and> annual div YEAR_IN_SECONDS \<le> tvl_fee f' \<and> tvl_fee f' \<le> annual
       \<and> (tvl_fee f' = 0 \<longleftrightarrow> annual = 0)
   | Err e \<Rightarrow> e = TVLFeeTooHigh \<and> MAX_TVL_FEE < annual
       \<or> e = TVLFeeTooLow \<and> annual \<le> MAX_TVL_FEE \<and> 0 < annual \<and> annual_rate annual = 0
   | Panic \<Rightarrow> False"
  by (rule set_tvl_fee_cases)

end
