(* ===== verification/FolioAdmin.thy ===== *)
theory FolioAdmin
  imports FolioFees
begin

text \<open>
  The program \<open>folio-admin\<close>: the DAO fee configuration, the fee configuration of one folio, which
  overrides it, and the registrar of the folio programs that a folio may migrate to. An account
  that is created by the instruction is \<open>None\<close> before it. The CPI of \<open>set_folio_fee_config\<close> to
  the folio program is a parameter of the handler, which FeeDistribution supplies.
\<close>

section \<open>State\<close>

record dao_fee_config =
  dfc_bump :: nat
  dao_fee_recipient :: pubkey
  default_fee_numerator :: nat
  default_fee_floor :: nat

record folio_fee_config =
  ffc_bump :: nat
  fee_numerator :: nat
  fee_floor :: nat

record program_registrar =
  pr_bump :: nat
  accepted_programs :: "pubkey list"

record fee_details =
  fee_recipient_key :: pubkey
  scaled_fee_denominator :: nat
  scaled_fee_numerator :: nat
  scaled_fee_floor :: nat

definition MAX_ACCEPTED_PROGRAMS :: nat where "MAX_ACCEPTED_PROGRAMS = 10"

section \<open>Fee configuration\<close>

definition init_or_update_dao_fee_config ::
  "dao_fee_config option \<Rightarrow> nat \<Rightarrow> pubkey option \<Rightarrow> nat option \<Rightarrow> nat option
   \<Rightarrow> dao_fee_config result" where
  "init_or_update_dao_fee_config account context_bump recip numerator flr =
     (case account of
        None \<Rightarrow>
          and_then (ok_or recip InvalidFeeRecipient) (\<lambda>r.
          Ok \<lparr>dfc_bump = context_bump, dao_fee_recipient = r,
              default_fee_numerator = (case numerator of Some n \<Rightarrow> n | None \<Rightarrow> MAX_DAO_FEE),
              default_fee_floor = (case flr of Some n \<Rightarrow> n | None \<Rightarrow> MAX_FEE_FLOOR)\<rparr>)
      | Some c \<Rightarrow>
          check_condition (dfc_bump c = context_bump) InvalidBump (
          let c1 = (case recip of Some r \<Rightarrow> c\<lparr>dao_fee_recipient := r\<rparr> | None \<Rightarrow> c);
              c2 = (case numerator of Some n \<Rightarrow> c1\<lparr>default_fee_numerator := n\<rparr> | None \<Rightarrow> c1)
          in Ok (case flr of Some n \<Rightarrow> c2\<lparr>default_fee_floor := n\<rparr> | None \<Rightarrow> c2)))"

definition get_fee_details ::
  "dao_fee_config \<Rightarrow> folio_fee_config account_data \<Rightarrow> fee_details result" where
  "get_fee_details self config =
     (let details = \<lparr>fee_recipient_key = dao_fee_recipient self,
            scaled_fee_denominator = FEE_DENOMINATOR,
            scaled_fee_numerator = default_fee_numerator self,
            scaled_fee_floor = default_fee_floor self\<rparr>
      in case config of
        EmptyData \<Rightarrow> Ok details
      | ZeroDiscriminator \<Rightarrow> Ok details
      | Undecodable e \<Rightarrow> Err e
      | Loaded c \<Rightarrow> Ok (details\<lparr>scaled_fee_numerator := fee_numerator c, scaled_fee_floor := fee_floor c\<rparr>))"

definition init_or_update_folio_fee_config ::
  "folio_fee_config option \<Rightarrow> dao_fee_config \<Rightarrow> nat \<Rightarrow> nat option \<Rightarrow> nat option
   \<Rightarrow> folio_fee_config result" where
  "init_or_update_folio_fee_config account dao context_bump numerator flr =
     (case account of
        None \<Rightarrow>
          Ok \<lparr>ffc_bump = context_bump,
              fee_numerator = (case numerator of Some n \<Rightarrow> n | None \<Rightarrow> default_fee_numerator dao),
              fee_floor = (case flr of Some n \<Rightarrow> n | None \<Rightarrow> default_fee_floor dao)\<rparr>
      | Some c \<Rightarrow>
          check_condition (ffc_bump c = context_bump) InvalidBump (
          let c1 = (case numerator of Some n \<Rightarrow> c\<lparr>fee_numerator := n\<rparr> | None \<Rightarrow> c)
          in Ok (case flr of Some n \<Rightarrow> c1\<lparr>fee_floor := n\<rparr> | None \<Rightarrow> c1)))"

definition validate_set_fee_config :: "pubkey \<Rightarrow> nat option \<Rightarrow> nat option \<Rightarrow> unit result" where
  "validate_set_fee_config admin numerator flr =
     check_condition (admin = ADMIN) Unauthorized (
     check_condition (case numerator of Some n \<Rightarrow> n \<le> MAX_DAO_FEE | None \<Rightarrow> True) InvalidFeeNumerator (
     check_condition (case flr of Some n \<Rightarrow> n \<le> MAX_FEE_FLOOR | None \<Rightarrow> True) InvalidFeeFloor (
     Ok ())))"

definition set_dao_fee_config ::
  "dao_fee_config option \<Rightarrow> pubkey \<Rightarrow> nat \<Rightarrow> pubkey option \<Rightarrow> nat option \<Rightarrow> nat option
   \<Rightarrow> dao_fee_config result" where
  "set_dao_fee_config account admin bump recip numerator flr =
     and_then (validate_set_fee_config admin numerator flr) (\<lambda>_.
     init_or_update_dao_fee_config account bump recip numerator flr)"

text \<open>
  \<open>distribute_fees_cpi\<close>: nothing is sent while the fee recipients do not exist; otherwise the
  instruction carries the next index. \<open>invoke\<close> is the folio program.
\<close>

definition distribute_fees_cpi ::
  "nat option \<Rightarrow> (nat \<Rightarrow> 'w result) \<Rightarrow> 'w \<Rightarrow> 'w result" where
  "distribute_fees_cpi fee_recipients_index invoke w =
     (case fee_recipients_index of
        None \<Rightarrow> Ok w
      | Some index \<Rightarrow> and_then (unwrap (checked_add 64 index 1)) invoke)"

definition set_folio_fee_config ::
  "nat option \<Rightarrow> (nat \<Rightarrow> 'w result) \<Rightarrow> 'w \<Rightarrow> folio_fee_config option \<Rightarrow> dao_fee_config \<Rightarrow> pubkey
   \<Rightarrow> nat \<Rightarrow> nat option \<Rightarrow> nat option \<Rightarrow> ('w \<times> folio_fee_config) result" where
  "set_folio_fee_config fee_recipients_index invoke w account dao admin bump numerator flr =
     and_then (validate_set_fee_config admin numerator flr) (\<lambda>_.
     and_then (distribute_fees_cpi fee_recipients_index invoke w) (\<lambda>w'.
     and_then (init_or_update_folio_fee_config account dao bump numerator flr) (\<lambda>c.
     Ok (w', c))))"

section \<open>Program registrar\<close>

text \<open>The loop of \<open>add_to_registrar\<close>: every empty slot takes the last program that is left.\<close>

fun fill_empty_slots :: "pubkey list \<Rightarrow> pubkey list \<Rightarrow> pubkey list" where
  "fill_empty_slots [] ids = []"
| "fill_empty_slots (p # ps) ids =
     (if p = default_pubkey then
        (if ids \<noteq> [] then last ids # fill_empty_slots ps (butlast ids) else p # ps)
      else p # fill_empty_slots ps ids)"

definition add_to_registrar :: "program_registrar \<Rightarrow> pubkey list \<Rightarrow> program_registrar result" where
  "add_to_registrar self program_ids =
     check_condition
       (length (filter (\<lambda>p. p = default_pubkey) (accepted_programs self)) \<ge> length program_ids)
       InvalidProgramCount (
     Ok (self\<lparr>accepted_programs := fill_empty_slots (accepted_programs self) program_ids\<rparr>))"

definition remove_from_registrar :: "program_registrar \<Rightarrow> pubkey list \<Rightarrow> program_registrar result" where
  "remove_from_registrar self program_ids =
     check_condition
       (length (filter (\<lambda>p. p \<in> set program_ids) (accepted_programs self)) = length program_ids)
       ProgramNotInRegistrar (
     Ok (self\<lparr>accepted_programs :=
       map (\<lambda>p. if p \<in> set program_ids then default_pubkey else p) (accepted_programs self)\<rparr>))"

definition is_in_registrar :: "program_registrar \<Rightarrow> pubkey \<Rightarrow> bool" where
  "is_in_registrar self program_id \<longleftrightarrow> program_id \<in> set (accepted_programs self)"

definition init_program_registrar :: "pubkey \<Rightarrow> nat \<Rightarrow> pubkey \<Rightarrow> program_registrar result" where
  "init_program_registrar admin bump program_id =
     check_condition (admin = ADMIN) Unauthorized (
     Ok \<lparr>pr_bump = bump,
         accepted_programs = (replicate MAX_ACCEPTED_PROGRAMS default_pubkey)[0 := program_id]\<rparr>)"

definition update_program_registrar ::
  "program_registrar \<Rightarrow> pubkey \<Rightarrow> pubkey list \<Rightarrow> bool \<Rightarrow> program_registrar result" where
  "update_program_registrar self admin program_ids remove =
     check_condition (admin = ADMIN) Unauthorized (
     if remove then remove_from_registrar self program_ids
     else add_to_registrar self program_ids)"

section \<open>Lemmas\<close>

lemma length_fill_empty_slots [simp]: "length (fill_empty_slots ps ids) = length ps"
  by (induction ps ids rule: fill_empty_slots.induct) auto

lemma set_fill_empty_slots:
  assumes "length ids \<le> length (filter (\<lambda>p. p = default_pubkey) ps)"
  shows "set (fill_empty_slots ps ids) - {default_pubkey} = (set ps \<union> set ids) - {default_pubkey}"
  using assms
proof (induction ps ids rule: fill_empty_slots.induct)
  case (2 p ps ids)
  show ?case
  proof (cases "p = default_pubkey \<and> ids \<noteq> []")
    case True
    then have "set (butlast ids @ [last ids]) = set ids" by simp
    then have s: "set ids = insert (last ids) (set (butlast ids))" by auto
    have "set (fill_empty_slots ps (butlast ids)) - {default_pubkey}
        = (set ps \<union> set (butlast ids)) - {default_pubkey}"
      using 2 True by simp
    then have "insert (last ids) (set (fill_empty_slots ps (butlast ids))) - {default_pubkey}
        = insert (last ids) (set ps \<union> set (butlast ids)) - {default_pubkey}" by blast
    then show ?thesis using True unfolding s by auto
  next
    case False
    then show ?thesis using 2 by (auto split: if_splits)
  qed
qed simp

lemma set_fee_config_Ok:
  "validate_set_fee_config admin n fl = Ok u \<Longrightarrow>
     admin = ADMIN \<and> (\<forall>x. n = Some x \<longrightarrow> x \<le> MAX_DAO_FEE) \<and> (\<forall>x. fl = Some x \<longrightarrow> x \<le> MAX_FEE_FLOOR)"
  by (auto simp: validate_set_fee_config_def)

section \<open>The configuration as a state machine\<close>

text \<open>
  The DAO configuration and the configurations of the folios. A step is one successful
  instruction of the administrator.
\<close>

type_synonym fee_configs = "dao_fee_config option \<times> (pubkey \<Rightarrow> folio_fee_config option)"

inductive fee_config_step :: "fee_configs \<Rightarrow> fee_configs \<Rightarrow> bool" where
  set_dao: "set_dao_fee_config dao admin bump recip n fl = Ok dao' \<Longrightarrow>
     fee_config_step (dao, cs) (Some dao', cs)"
| set_folio: "set_folio_fee_config index invoke () (cs key) dao admin bump n fl = Ok ((), c) \<Longrightarrow>
     fee_config_step (Some dao, cs) (Some dao, cs(key \<mapsto> c))"

definition configs_ok :: "fee_configs \<Rightarrow> bool" where
  "configs_ok s \<longleftrightarrow>
     (\<forall>d. fst s = Some d \<longrightarrow> default_fee_numerator d \<le> MAX_DAO_FEE \<and> default_fee_floor d \<le> MAX_FEE_FLOOR)
     \<and> (\<forall>k c. snd s k = Some c \<longrightarrow> fst s \<noteq> None \<and> fee_numerator c \<le> MAX_DAO_FEE \<and> fee_floor c \<le> MAX_FEE_FLOOR)"

lemma init_or_update_dao_bounds:
  assumes "set_dao_fee_config dao admin bump recip n fl = Ok d"
    and "\<And>d. dao = Some d \<Longrightarrow> default_fee_numerator d \<le> MAX_DAO_FEE \<and> default_fee_floor d \<le> MAX_FEE_FLOOR"
  shows "default_fee_numerator d \<le> MAX_DAO_FEE \<and> default_fee_floor d \<le> MAX_FEE_FLOOR"
  using assms
  by (cases dao; cases recip; cases n; cases fl)
    (auto simp: set_dao_fee_config_def init_or_update_dao_fee_config_def validate_set_fee_config_def
      Let_def)

lemma init_or_update_folio_bounds:
  assumes "set_folio_fee_config index invoke w old dao admin bump n fl = Ok (w', c)"
    and "\<And>c. old = Some c \<Longrightarrow> fee_numerator c \<le> MAX_DAO_FEE \<and> fee_floor c \<le> MAX_FEE_FLOOR"
    and "default_fee_numerator dao \<le> MAX_DAO_FEE \<and> default_fee_floor dao \<le> MAX_FEE_FLOOR"
  shows "fee_numerator c \<le> MAX_DAO_FEE \<and> fee_floor c \<le> MAX_FEE_FLOOR"
  using assms
  by (cases old; cases n; cases fl)
    (auto simp: set_folio_fee_config_def init_or_update_folio_fee_config_def
      validate_set_fee_config_def Let_def)

lemma configs_ok_step: "fee_config_step s s' \<Longrightarrow> configs_ok s \<Longrightarrow> configs_ok s'"
proof (induction rule: fee_config_step.induct)
  case (set_dao dao admin bump recip n fl dao' cs)
  then show ?case using init_or_update_dao_bounds [OF set_dao(1)] by (auto simp: configs_ok_def)
next
  case (set_folio index invoke cs key dao admin bump n fl c)
  then show ?case using init_or_update_folio_bounds [OF set_folio(1)] by (auto simp: configs_ok_def)
qed

section \<open>Properties\<close>

text \<open>
  C31: Whatever sequence of administrator instructions has set up the fees, the fee details that
  the folio program reads are in their bounds: a numerator of at most half, a denominator of one
  in D18, a floor of at most 15 basis points. Every fee computation relies on it.
\<close>
theorem fee_details_in_bounds:
  assumes "fee_config_step\<^sup>*\<^sup>* (None, \<lambda>_. None) (Some dao, cs)"
    and "get_fee_details dao (case cs key of None \<Rightarrow> EmptyData | Some c \<Rightarrow> Loaded c) = Ok d"
  shows "fee_params_ok (scaled_fee_numerator d) (scaled_fee_denominator d) (scaled_fee_floor d)
    \<and> fee_recipient_key d = dao_fee_recipient dao"
proof -
  have "configs_ok (Some dao, cs)"
    using assms(1)
    by (induction rule: rtranclp_induct) (auto simp: configs_ok_def [of "(None, \<lambda>_. None)"] configs_ok_step)
  then show ?thesis
    using assms(2) by (auto simp: configs_ok_def get_fee_details_def fee_params_ok_def Let_def
        split: option.splits)
qed

theorem fee_details_in_bounds_witness:
  "fee_params_ok 400 FEE_DENOMINATOR MAX_FEE_FLOOR"
proof -
  let ?dao = "\<lparr>dfc_bump = 1, dao_fee_recipient = PK 5, default_fee_numerator = 400,
      default_fee_floor = MAX_FEE_FLOOR\<rparr>"
  have "set_dao_fee_config None ADMIN 1 (Some (PK 5)) (Some 400) None = Ok ?dao"
    by (simp add: set_dao_fee_config_def validate_set_fee_config_def
        init_or_update_dao_fee_config_def MAX_DAO_FEE_def)
  then have "fee_config_step\<^sup>*\<^sup>* (None, \<lambda>_. None) (Some ?dao, \<lambda>_. None)"
    by (intro r_into_rtranclp set_dao)
  from fee_details_in_bounds [OF this] show ?thesis
    by (simp add: get_fee_details_def Let_def)
qed

text \<open>
  The registrar is a set of at most ten programs that only the administrator changes: adding
  adds exactly the given programs, removing removes exactly the given ones (all of them must be
  there), the other programs stay accepted, and the array keeps its length.
\<close>
theorem registrar_update:
  assumes "update_program_registrar r admin ids remove = Ok r'" "p \<noteq> default_pubkey"
  shows "admin = ADMIN
    \<and> length (accepted_programs r') = length (accepted_programs r)
    \<and> is_in_registrar r' p
        = (if remove then is_in_registrar r p \<and> p \<notin> set ids else is_in_registrar r p \<or> p \<in> set ids)"
proof (cases remove)
  case True
  then show ?thesis
    using assms by (auto simp: update_program_registrar_def remove_from_registrar_def is_in_registrar_def)
next
  case False
  then have len: "length ids \<le> length (filter (\<lambda>p. p = default_pubkey) (accepted_programs r))"
    and r': "r' = r\<lparr>accepted_programs := fill_empty_slots (accepted_programs r) ids\<rparr>"
    and a: "admin = ADMIN"
    using assms(1) by (simp_all add: update_program_registrar_def add_to_registrar_def)
  have "p \<in> set (fill_empty_slots (accepted_programs r) ids)
      \<longleftrightarrow> p \<in> set (accepted_programs r) \<or> p \<in> set ids"
    using set_fill_empty_slots [OF len] assms(2) by blast
  then show ?thesis using False by (simp add: r' a is_in_registrar_def)
qed

theorem registrar_update_witness:
  "is_in_registrar \<lparr>pr_bump = 1, accepted_programs = [PK 3, PK 8]\<rparr> (PK 8)"
  using registrar_update [of "\<lparr>pr_bump = 1, accepted_programs = [PK 3, default_pubkey]\<rparr>" ADMIN
      "[PK 8]" False "\<lparr>pr_bump = 1, accepted_programs = [PK 3, PK 8]\<rparr>" "PK 8"]
  by (simp add: update_program_registrar_def add_to_registrar_def default_pubkey_def)

end
