(* ===== verification/RebalanceModel.thy ===== *)
theory RebalanceModel
  imports FolioAdmin
begin

text \<open>
  \<open>programs/folio/src/utils/accounts/rebalance.rs\<close> and the instructions \<open>start_rebalance\<close> and
  \<open>add_rebalance_details\<close>: the rebalance manager fixes, for up to 30 mints, the range of amounts
  per share and the range of prices that the auctions of this rebalance may use. The invariant
  \<open>rebalance_wf\<close> says what the auctions rely on.
\<close>

section \<open>The account\<close>

text \<open>An account whose discriminator is zero has not been initialized: \<open>None\<close>.\<close>

definition empty_rebalance :: rebalance where
  "empty_rebalance = \<lparr>rb_bump = 0, all_rebalance_details_added = 0, rb_folio = default_pubkey,
     current_auction_id = 0, rb_nonce = 0, started_at = 0, restricted_until = 0,
     available_until = 0,
     rb_tokens = replicate MAX_REBALANCE_DETAILS_TOKENS default_rebalance_details_token\<rparr>"

definition rebalance_process_init_if_needed ::
  "rebalance option \<Rightarrow> nat \<Rightarrow> pubkey \<Rightarrow> rebalance result" where
  "rebalance_process_init_if_needed account context_bump folio =
     (case account of
        None \<Rightarrow> Ok (empty_rebalance\<lparr>rb_bump := context_bump, rb_folio := folio, rb_nonce := 0\<rparr>)
      | Some self \<Rightarrow> check_condition (rb_bump self = context_bump) InvalidBump (Ok self))"

definition rebalance_clear :: "rebalance \<Rightarrow> rebalance" where
  "rebalance_clear self =
     self\<lparr>all_rebalance_details_added := 0, current_auction_id := 0,
          rb_tokens := replicate MAX_REBALANCE_DETAILS_TOKENS default_rebalance_details_token\<rparr>"

definition open_for_detail_update :: "rebalance \<Rightarrow> bool" where
  "open_for_detail_update self \<longleftrightarrow> all_rebalance_details_added self = 0"

definition rebalance_ready :: "rebalance \<Rightarrow> bool" where
  "rebalance_ready self \<longleftrightarrow> all_rebalance_details_added self = 1"

section \<open>Adding details\<close>

definition limit_in_range :: "basket_range \<Rightarrow> bool" where
  "limit_in_range limit \<longleftrightarrow> high limit \<le> MAX_RATE \<and> low limit \<le> spot limit \<and> spot limit \<le> high limit"

definition limit_all_or_none :: "basket_range \<Rightarrow> bool" where
  "limit_all_or_none limit \<longleftrightarrow> low limit \<noteq> 0 \<or> high limit = 0"

definition prices_in_range :: "bool \<Rightarrow> prices_in_rebalance \<Rightarrow> bool" where
  "prices_in_range is_price_deferred prices \<longleftrightarrow>
     (if is_price_deferred then price_low prices = 0 \<and> price_high prices = 0
      else price_low prices \<noteq> 0 \<and> price_high prices \<noteq> 0 \<and> price_low prices \<le> price_high prices
        \<and> price_high prices \<le> MAX_TOKEN_PRICE
        \<and> price_high prices div price_low prices \<le> MAX_TOKEN_PRICE_RANGE)"

text \<open>
  The loop over the slots. \<open>i\<close> is \<open>mint_to_process_index\<close> and \<open>hash_set\<close> the mints seen so far; a
  slot in use is skipped, a free one takes the next mint of the batch.
\<close>

fun rebalance_slots_loop ::
  "bool \<Rightarrow> pubkey list \<Rightarrow> rebalance_price_and_limits list \<Rightarrow> nat \<Rightarrow> pubkey set
   \<Rightarrow> rebalance_details_token list \<Rightarrow> rebalance_details_token list result" where
  "rebalance_slots_loop is_price_deferred mints pls i hash_set [] = Ok []"
| "rebalance_slots_loop is_price_deferred mints pls i hash_set (slot # slots) =
     (if i \<ge> length mints then Ok (slot # slots)
      else if rd_mint slot \<noteq> default_pubkey then
        and_then (rebalance_slots_loop is_price_deferred mints pls i (insert (rd_mint slot) hash_set) slots)
          (\<lambda>rest. Ok (slot # rest))
      else
        (let mint = mints ! i; limit = pl_limits (pls ! i); prices = pl_prices (pls ! i) in
         check_condition (limit_in_range limit) InvalidRebalanceLimit (
         check_condition (limit_all_or_none limit) InvalidRebalanceLimitAllZeroOrAllGreaterThanZero (
         check_condition (mint \<notin> hash_set) RebalanceTokenAlreadyAdded (
         check_condition (prices_in_range is_price_deferred prices) InvalidPrices (
         and_then (rebalance_slots_loop is_price_deferred mints pls (i + 1) (insert mint hash_set) slots)
           (\<lambda>rest. Ok (\<lparr>rd_mint = mint, rd_limits = limit, rd_prices = prices\<rparr> # rest))))))))"

text \<open>The prices are deferred for all mints of a rebalance or for none: the first one decides.\<close>

definition price_deferred :: "rebalance \<Rightarrow> rebalance_price_and_limits list \<Rightarrow> bool" where
  "price_deferred self pls =
     (if rd_mint (rb_tokens self ! 0) \<noteq> default_pubkey
      then price_low (rd_prices (rb_tokens self ! 0)) = 0
      else pls \<noteq> [] \<and> price_low (pl_prices (pls ! 0)) = 0)"

definition add_rebalance_details ::
  "rebalance \<Rightarrow> pubkey list \<Rightarrow> rebalance_price_and_limits list \<Rightarrow> bool \<Rightarrow> rebalance result" where
  "add_rebalance_details self mints pls all_added =
     check_condition (open_for_detail_update self) RebalanceNotOpenForDetailUpdates (
     check_condition (length mints = length pls) RebalanceMintsAndPricesAndLimitsLengthMismatch (
     and_then (rebalance_slots_loop (price_deferred self pls) mints pls 0 {} (rb_tokens self)) (\<lambda>tokens.
     Ok (self\<lparr>rb_tokens := tokens, all_rebalance_details_added := (if all_added then 1 else 0)\<rparr>))))"

definition start_rebalance ::
  "rebalance \<Rightarrow> nat \<Rightarrow> nat \<Rightarrow> nat \<Rightarrow> pubkey list \<Rightarrow> rebalance_price_and_limits list \<Rightarrow> bool
   \<Rightarrow> rebalance result" where
  "start_rebalance self current_time auction_launcher_window ttl mints pls all_added =
     check_condition (ttl \<le> MAX_TTL) RebalanceTTLExceeded (
     check_condition (ttl \<ge> auction_launcher_window) RebalanceAuctionLauncherWindowTooLong (
     and_then (ok_or (checked_add 64 (rb_nonce self) 1) MathOverflow) (\<lambda>nonce.
     and_then (plain_add 64 current_time auction_launcher_window) (\<lambda>restricted.
     and_then (plain_add 64 current_time ttl) (\<lambda>available.
     add_rebalance_details
       (rebalance_clear (self\<lparr>rb_nonce := nonce, started_at := current_time,
          restricted_until := restricted, available_until := available\<rparr>))
       mints pls all_added)))))"

section \<open>Reading details\<close>

text \<open>The last match wins, and a mint that is both is the sell mint.\<close>

definition pair_step ::
  "pubkey \<Rightarrow> pubkey \<Rightarrow> nat option \<times> nat option \<Rightarrow> nat \<times> rebalance_details_token
   \<Rightarrow> nat option \<times> nat option" where
  "pair_step sell buy acc detail =
     (if rd_mint (snd detail) = sell then (Some (fst detail), snd acc)
      else if rd_mint (snd detail) = buy then (fst acc, Some (fst detail))
      else acc)"

text \<open>The references of \<open>get_token_details_pair_mut\<close> are indices into the array.\<close>

definition get_token_details_pair_mut ::
  "rebalance \<Rightarrow> pubkey \<Rightarrow> pubkey \<Rightarrow> nat option \<times> nat option" where
  "get_token_details_pair_mut self sell buy =
     foldl (pair_step sell buy) (None, None) (enumerate 0 (rb_tokens self))"

definition get_token_details_pair ::
  "rebalance \<Rightarrow> pubkey \<Rightarrow> pubkey \<Rightarrow> rebalance_details_token option \<times> rebalance_details_token option" where
  "get_token_details_pair self sell buy =
     foldl (\<lambda>acc detail. if rd_mint detail = sell then (Some detail, snd acc)
         else if rd_mint detail = buy then (fst acc, Some detail) else acc)
       (None, None) (rb_tokens self)"

definition get_next_auction_id :: "rebalance \<Rightarrow> nat result" where
  "get_next_auction_id self = plain_add 64 (current_auction_id self) 1"

section \<open>Instructions\<close>

record rebalance_accounts =
  ra_actor :: actor
  ra_folio_key :: pubkey
  ra_folio :: folio
  ra_rebalance :: "rebalance option"
  ra_rebalance_bump :: nat
  ra_dao_fee_config :: dao_fee_config
  ra_folio_fee_config :: "folio_fee_config account_data"
  ra_folio_token_mint :: mint_account

definition validate_start_rebalance ::
  "sdk \<Rightarrow> rebalance_accounts \<Rightarrow> account_info list \<Rightarrow> unit result" where
  "validate_start_rebalance sdk a mints =
     and_then (validate_folio (find_program_address sdk) (ra_folio a) (ra_folio_key a)
         (Some (ra_actor a)) (Some [RebalanceManager]) (Some [Initialized])) (\<lambda>_.
     and_then (check_supported_mints mints) (\<lambda>_.
     check_condition (mint_key (ra_folio_token_mint a) = folio_token_mint (ra_folio a))
       InvalidFolioTokenMint (Ok ())))"

definition start_rebalance_handler ::
  "sdk \<Rightarrow> rebalance_accounts \<Rightarrow> account_info list \<Rightarrow> int \<Rightarrow> nat \<Rightarrow> nat
   \<Rightarrow> rebalance_price_and_limits list \<Rightarrow> bool \<Rightarrow> (folio \<times> rebalance) result" where
  "start_rebalance_handler sdk a mints current_time auction_launcher_window ttl pls all_added =
     and_then (validate_start_rebalance sdk a mints) (\<lambda>_.
     and_then (get_fee_details (ra_dao_fee_config a) (ra_folio_fee_config a)) (\<lambda>details.
     and_then (poke (ra_folio a) (mint_supply (ra_folio_token_mint a)) current_time
         (scaled_fee_numerator details) (scaled_fee_denominator details) (scaled_fee_floor details))
       (\<lambda>f.
     and_then (rebalance_process_init_if_needed (ra_rebalance a) (ra_rebalance_bump a) (ra_folio_key a))
       (\<lambda>rb0.
     and_then (start_rebalance rb0 (as_u64 current_time) auction_launcher_window ttl
         (map ai_key mints) pls all_added) (\<lambda>rb.
     Ok (f, rb))))))"

definition validate_add_rebalance_details ::
  "sdk \<Rightarrow> actor \<Rightarrow> pubkey \<Rightarrow> folio \<Rightarrow> account_info list \<Rightarrow> unit result" where
  "validate_add_rebalance_details sdk actor folio_key f mints =
     and_then (validate_folio (find_program_address sdk) f folio_key
         (Some actor) (Some [RebalanceManager]) (Some [Initialized])) (\<lambda>_.
     check_supported_mints mints)"

definition add_rebalance_details_handler ::
  "sdk \<Rightarrow> actor \<Rightarrow> pubkey \<Rightarrow> folio \<Rightarrow> rebalance \<Rightarrow> account_info list
   \<Rightarrow> rebalance_price_and_limits list \<Rightarrow> bool \<Rightarrow> rebalance result" where
  "add_rebalance_details_handler sdk actor folio_key f rb mints pls all_added =
     and_then (validate_add_rebalance_details sdk actor folio_key f mints) (\<lambda>_.
     add_rebalance_details rb (map ai_key mints) pls all_added)"

section \<open>Lemmas: the slots\<close>

definition rd_used :: "rebalance_details_token \<Rightarrow> bool" where
  "rd_used t \<longleftrightarrow> rd_mint t \<noteq> default_pubkey"

definition rd_of :: "pubkey \<times> rebalance_price_and_limits \<Rightarrow> rebalance_details_token" where
  "rd_of x = \<lparr>rd_mint = fst x, rd_limits = pl_limits (snd x), rd_prices = pl_prices (snd x)\<rparr>"

definition pl_ok :: "bool \<Rightarrow> rebalance_price_and_limits \<Rightarrow> bool" where
  "pl_ok deferred pl \<longleftrightarrow> limit_in_range (pl_limits pl) \<and> limit_all_or_none (pl_limits pl)
     \<and> prices_in_range deferred (pl_prices pl)"

lemma rd_of_simps [simp]:
  "rd_mint (rd_of x) = fst x" "rd_limits (rd_of x) = pl_limits (snd x)"
  "rd_prices (rd_of x) = pl_prices (snd x)" "rd_used (rd_of x) \<longleftrightarrow> fst x \<noteq> default_pubkey"
  by (simp_all add: rd_of_def rd_used_def)

text \<open>The loop on free slots: a prefix of the batch is checked and stored.\<close>

definition batch :: "nat \<Rightarrow> nat \<Rightarrow> pubkey list \<Rightarrow> rebalance_price_and_limits list
   \<Rightarrow> (pubkey \<times> rebalance_price_and_limits) list" where
  "batch i free mints pls = take free (drop i (zip mints pls))"

lemma slots_loop_free:
  assumes "length mints = length pls" "\<forall>s \<in> set slots. \<not> rd_used s"
  shows "rebalance_slots_loop d mints pls i S slots = Ok r \<longleftrightarrow>
    (\<forall>x \<in> set (batch i (length slots) mints pls). pl_ok d (snd x))
    \<and> distinct (map fst (batch i (length slots) mints pls))
    \<and> fst ` set (batch i (length slots) mints pls) \<inter> S = {}
    \<and> r = map rd_of (batch i (length slots) mints pls)
         @ drop (length (batch i (length slots) mints pls)) slots"
  using assms
proof (induction slots arbitrary: i S r)
  case (Cons s slots)
  show ?case
  proof (cases "i < length mints")
    case True
    then have z: "drop i (zip mints pls) = (mints ! i, pls ! i) # drop (Suc i) (zip mints pls)"
      using Cons.prems(1) by (simp add: Cons_nth_drop_Suc [symmetric])
    have b: "batch i (length (s # slots)) mints pls
        = (mints ! i, pls ! i) # batch (Suc i) (length slots) mints pls"
      by (simp add: batch_def z)
    have "rd_mint s = default_pubkey" using Cons.prems(2) by (simp add: rd_used_def)
    with True show ?thesis
      using Cons.IH [OF Cons.prems(1), of "Suc i" "insert (mints ! i) S"] Cons.prems(2)
      unfolding b by (auto simp: Let_def pl_ok_def rd_of_def)
  next
    case False
    then have "batch i (length (s # slots)) mints pls = []" using Cons.prems(1) by (simp add: batch_def)
    with False show ?thesis by (simp add: eq_commute)
  qed
qed (auto simp: batch_def)

text \<open>Slots in use are passed over; their mints count as seen.\<close>

lemma slots_loop_skip:
  assumes "\<forall>s \<in> set us. rd_used s" "i < length mints"
  shows "rebalance_slots_loop d mints pls i S (us @ slots) =
    and_then (rebalance_slots_loop d mints pls i (S \<union> rd_mint ` set us) slots) (\<lambda>r. Ok (us @ r))"
  using assms
proof (induction us arbitrary: S)
  case Nil
  then show ?case by (cases "rebalance_slots_loop d mints pls i S slots") auto
next
  case (Cons u us)
  have "insert (rd_mint u) S \<union> rd_mint ` set us = S \<union> rd_mint ` set (u # us)" by auto
  with Cons show ?case by (simp add: rd_used_def and_then_assoc)
qed

text \<open>The slots in use come first.\<close>

definition rd_prefix :: "rebalance_details_token list \<Rightarrow> rebalance_details_token list" where
  "rd_prefix tokens = takeWhile rd_used tokens"

definition used_first :: "rebalance_details_token list \<Rightarrow> bool" where
  "used_first tokens \<longleftrightarrow> list_all (\<lambda>t. \<not> rd_used t) (dropWhile rd_used tokens)"

lemma rd_prefix_used: "\<forall>s \<in> set (rd_prefix tokens). rd_used s"
  using set_takeWhileD by (fastforce simp: rd_prefix_def)

lemma used_first_split:
  assumes "used_first tokens"
  shows "tokens = rd_prefix tokens @ drop (length (rd_prefix tokens)) tokens"
    and "\<forall>s \<in> set (drop (length (rd_prefix tokens)) tokens). \<not> rd_used s"
proof -
  have "drop (length (rd_prefix tokens)) tokens = dropWhile rd_used tokens"
    by (simp add: rd_prefix_def dropWhile_eq_drop)
  then show "\<forall>s \<in> set (drop (length (rd_prefix tokens)) tokens). \<not> rd_used s"
    using assms by (simp add: used_first_def list_all_iff)
  show "tokens = rd_prefix tokens @ drop (length (rd_prefix tokens)) tokens"
    by (simp add: rd_prefix_def dropWhile_eq_drop [symmetric])
qed

definition new_batch :: "rebalance \<Rightarrow> pubkey list \<Rightarrow> rebalance_price_and_limits list
   \<Rightarrow> (pubkey \<times> rebalance_price_and_limits) list" where
  "new_batch rb mints pls =
     batch 0 (length (rb_tokens rb) - length (rd_prefix (rb_tokens rb))) mints pls"

lemma add_details_Ok:
  assumes "used_first (rb_tokens rb)"
  shows "add_rebalance_details rb mints pls b = Ok rb' \<longleftrightarrow>
    open_for_detail_update rb \<and> length mints = length pls
    \<and> (\<forall>x \<in> set (new_batch rb mints pls). pl_ok (price_deferred rb pls) (snd x))
    \<and> distinct (map fst (new_batch rb mints pls))
    \<and> fst ` set (new_batch rb mints pls) \<inter> rd_mint ` set (rd_prefix (rb_tokens rb)) = {}
    \<and> rb' = rb\<lparr>rb_tokens := rd_prefix (rb_tokens rb) @ map rd_of (new_batch rb mints pls)
          @ drop (length (rd_prefix (rb_tokens rb)) + length (new_batch rb mints pls)) (rb_tokens rb),
        all_rebalance_details_added := (if b then 1 else 0)\<rparr>"
proof (cases "length mints = length pls")
  case len: True
  let ?us = "rd_prefix (rb_tokens rb)"
  let ?es = "drop (length ?us) (rb_tokens rb)"
  let ?new = "new_batch rb mints pls"
  let ?d = "price_deferred rb pls"
  note split = used_first_split [OF assms]
  have loop: "rebalance_slots_loop ?d mints pls 0 {} (rb_tokens rb) = Ok r \<longleftrightarrow>
      (\<forall>x \<in> set ?new. pl_ok ?d (snd x)) \<and> distinct (map fst ?new)
      \<and> fst ` set ?new \<inter> rd_mint ` set ?us = {}
      \<and> r = ?us @ map rd_of ?new @ drop (length ?us + length ?new) (rb_tokens rb)" for r
  proof (cases "mints = []")
    case True
    then have "?new = []" using len by (simp add: new_batch_def batch_def)
    moreover have "rebalance_slots_loop ?d mints pls 0 {} (rb_tokens rb) = Ok (rb_tokens rb)"
      using True by (cases "rb_tokens rb") simp_all
    ultimately show ?thesis using split(1) [symmetric] by auto
  next
    case False
    have n: "?new = batch 0 (length ?es) mints pls" by (simp add: new_batch_def)
    have "rebalance_slots_loop ?d mints pls 0 {} (?us @ ?es) =
        and_then (rebalance_slots_loop ?d mints pls 0 (rd_mint ` set ?us) ?es) (\<lambda>r. Ok (?us @ r))"
      using slots_loop_skip [OF rd_prefix_used, of 0 mints _ pls "{}"] False by simp
    then show ?thesis
      using slots_loop_free [OF len split(2), of ?d 0 "rd_mint ` set ?us"]
      unfolding split(1) [symmetric] n [symmetric] by (auto simp: add.commute)
  qed
  show ?thesis
    by (auto simp: add_rebalance_details_def len loop)
qed (simp add: add_rebalance_details_def)

section \<open>The invariant\<close>

definition details_wf :: "rebalance_details_token list \<Rightarrow> bool" where
  "details_wf tokens \<longleftrightarrow>
     length tokens = MAX_REBALANCE_DETAILS_TOKENS \<and> used_first tokens
     \<and> distinct (map rd_mint (rd_prefix tokens))
     \<and> (\<forall>t \<in> set (rd_prefix tokens). limit_in_range (rd_limits t) \<and> limit_all_or_none (rd_limits t))
     \<and> (\<exists>d. \<forall>t \<in> set (rd_prefix tokens). prices_in_range d (rd_prices t))"

definition rebalance_wf :: "rebalance \<Rightarrow> bool" where
  "rebalance_wf rb \<longleftrightarrow> details_wf (rb_tokens rb) \<and> all_rebalance_details_added rb \<le> 1"

lemma details_wf_empty:
  "details_wf (replicate MAX_REBALANCE_DETAILS_TOKENS default_rebalance_details_token)"
  by (simp add: details_wf_def rd_prefix_def used_first_def rd_used_def
      default_rebalance_details_token_def list_all_iff const_defs)

lemma rebalance_wf_clear: "rebalance_wf (rebalance_clear rb)"
  by (simp add: rebalance_wf_def rebalance_clear_def details_wf_empty)

lemma rebalance_wf_empty: "rebalance_wf (empty_rebalance\<lparr>rb_bump := b, rb_folio := f, rb_nonce := n\<rparr>)"
  by (simp add: rebalance_wf_def empty_rebalance_def details_wf_empty)

lemma prices_in_range_low: "prices_in_range d p \<Longrightarrow> d \<longleftrightarrow> price_low p = 0"
  by (auto simp: prices_in_range_def split: if_splits)

lemma price_deferred_uniform:
  assumes "rd_prefix (rb_tokens rb) \<noteq> []" "used_first (rb_tokens rb)"
    and "\<forall>t \<in> set (rd_prefix (rb_tokens rb)). prices_in_range d (rd_prices t)"
  shows "price_deferred rb pls = d"
proof -
  obtain t ts where t: "rd_prefix (rb_tokens rb) = t # ts" using assms(1) by (cases "rd_prefix (rb_tokens rb)") auto
  then have "rb_tokens rb ! 0 = t" using used_first_split(1) [OF assms(2)] by (metis append_Cons nth_Cons_0)
  moreover have "rd_used t" using rd_prefix_used [of "rb_tokens rb"] t by simp
  ultimately show ?thesis
    using assms(3) t prices_in_range_low [of d "rd_prices t"] by (simp add: price_deferred_def rd_used_def)
qed

lemma rd_prefix_extended:
  assumes "\<forall>t \<in> set us. rd_used t" "\<forall>t \<in> set es. \<not> rd_used t"
  shows "rd_prefix (us @ es) = us" "used_first (us @ es)"
proof -
  have "takeWhile rd_used es = []" "dropWhile rd_used es = es" using assms(2) by (cases es; simp)+
  with assms show "rd_prefix (us @ es) = us" "used_first (us @ es)"
    by (simp_all add: rd_prefix_def used_first_def list_all_iff takeWhile_append2 dropWhile_append2)
qed

lemma set_batch: "x \<in> set (batch i n mints pls) \<Longrightarrow> fst x \<in> set mints"
  unfolding batch_def by (metis in_set_dropD in_set_takeD prod.collapse set_zip_leftD)

lemma add_details_wf:
  assumes "rebalance_wf rb" "default_pubkey \<notin> set mints"
    and "add_rebalance_details rb mints pls b = Ok rb'"
  shows "rebalance_wf rb'"
proof -
  let ?us = "rd_prefix (rb_tokens rb)"
  let ?new = "new_batch rb mints pls"
  let ?es = "drop (length ?us + length ?new) (rb_tokens rb)"
  have wf: "details_wf (rb_tokens rb)" using assms(1) by (simp add: rebalance_wf_def)
  then have uf: "used_first (rb_tokens rb)" and len: "length (rb_tokens rb) = MAX_REBALANCE_DETAILS_TOKENS"
    by (simp_all add: details_wf_def)
  note ok = assms(3) [unfolded add_details_Ok [OF uf]]
  have es: "\<forall>t \<in> set ?es. \<not> rd_used t"
    using used_first_split(2) [OF uf] by (metis add.commute drop_drop in_set_dropD)
  have us: "\<forall>t \<in> set (?us @ map rd_of ?new). rd_used t"
    using rd_prefix_used [of "rb_tokens rb"] assms(2) set_batch by (fastforce simp: new_batch_def)
  note ext = rd_prefix_extended [OF us es, simplified]
  have "length ?us + length ?new \<le> length (rb_tokens rb)"
  proof -
    have "length ?us \<le> length (rb_tokens rb)" by (simp add: rd_prefix_def length_takeWhile_le)
    then show ?thesis by (simp add: new_batch_def batch_def)
  qed
  then have l: "length (?us @ map rd_of ?new @ ?es) = MAX_REBALANCE_DETAILS_TOKENS" using len by simp
  obtain d where d: "\<forall>t \<in> set ?us. prices_in_range d (rd_prices t)" using wf by (auto simp: details_wf_def)
  have "\<exists>d. \<forall>t \<in> set (?us @ map rd_of ?new). prices_in_range d (rd_prices t)"
  proof (cases "?us = []")
    case True
    with ok show ?thesis by (auto simp: pl_ok_def)
  next
    case False
    with price_deferred_uniform [OF False uf d] ok d show ?thesis
      by (intro exI [of _ d]) (auto simp: pl_ok_def)
  qed
  moreover have "distinct (map rd_mint (?us @ map rd_of ?new))"
    using ok wf by (auto simp: details_wf_def comp_def)
  moreover have "\<forall>t \<in> set (?us @ map rd_of ?new). limit_in_range (rd_limits t) \<and> limit_all_or_none (rd_limits t)"
    using ok wf by (auto simp: details_wf_def pl_ok_def)
  ultimately have "details_wf (?us @ map rd_of ?new @ ?es)"
    using l ext by (simp add: details_wf_def)
  then show ?thesis using ok by (simp add: rebalance_wf_def)
qed

section \<open>A concrete rebalance\<close>

definition sample_sell_pl :: rebalance_price_and_limits where
  "sample_sell_pl = \<lparr>pl_prices = \<lparr>price_low = 1000000000000000000, price_high = 2000000000000000000\<rparr>,
     pl_limits = \<lparr>spot = 300000000000000000, low = 100000000000000000, high = 400000000000000000\<rparr>\<rparr>"

definition sample_buy_pl :: rebalance_price_and_limits where
  "sample_buy_pl = \<lparr>pl_prices = \<lparr>price_low = 1000000000000000000, price_high = 1000000000000000000\<rparr>,
     pl_limits = \<lparr>spot = 200000000000000000, low = 100000000000000000, high = 300000000000000000\<rparr>\<rparr>"

definition sample_mint_info :: "nat \<Rightarrow> account_info" where
  "sample_mint_info n = \<lparr>ai_key = PK n, ai_is_signer = False, ai_is_writable = False,
     ai_data_is_empty = False, ai_owner = PK 1, ai_executable = False,
     ai_mint = Some \<lparr>md_decimals = 6, md_supply = 100, md_extension_types = [],
       md_default_account_state = None, md_transfer_hook = None\<rparr>,
     ai_token = None\<rparr>"

definition sample_actor :: actor where
  "sample_actor = \<lparr>actor_bump = 255, actor_authority = PK 60, actor_folio = PK 1002, actor_roles = 6\<rparr>"

definition sample_rebalance_accounts :: rebalance_accounts where
  "sample_rebalance_accounts = \<lparr>ra_actor = sample_actor, ra_folio_key = PK 1002,
     ra_folio = sample_folio, ra_rebalance = None, ra_rebalance_bump = 254,
     ra_dao_fee_config = \<lparr>dfc_bump = 1, dao_fee_recipient = PK 5,
       default_fee_numerator = 500000000000000000, default_fee_floor = 1500000000000000\<rparr>,
     ra_folio_fee_config = EmptyData,
     ra_folio_token_mint = \<lparr>mint_key = PK 7, mint_supply = 1000, mint_program = PK 1\<rparr>\<rparr>"

definition sample_rebalance :: rebalance where
  "sample_rebalance = \<lparr>rb_bump = 254, all_rebalance_details_added = 1, rb_folio = PK 1002,
     current_auction_id = 0, rb_nonce = 1, started_at = 50, restricted_until = 60,
     available_until = 100050,
     rb_tokens = [rd_of (PK 11, sample_sell_pl), rd_of (PK 12, sample_buy_pl)]
       @ replicate 28 default_rebalance_details_token\<rparr>"

lemma sample_poke_early: "t = 50 \<or> t = 100 \<or> t = 1900 \<or> t = 5000 \<Longrightarrow> poke sample_folio raw t num den fl = Ok sample_folio"
  by (auto simp: day_start_def as_u64_def const_defs sample_folio_def)

lemma sample_pl_ok: "pl_ok False sample_sell_pl" "pl_ok False sample_buy_pl"
  by (simp_all add: pl_ok_def sample_sell_pl_def sample_buy_pl_def limit_in_range_def
      limit_all_or_none_def prices_in_range_def const_defs)

lemma sample_start:
  "start_rebalance (empty_rebalance\<lparr>rb_bump := 254, rb_folio := PK 1002, rb_nonce := 0\<rparr>) 50 10 100000
     [PK 11, PK 12] [sample_sell_pl, sample_buy_pl] True = Ok sample_rebalance"
proof -
  let ?rb = "rebalance_clear (empty_rebalance\<lparr>rb_bump := 254, rb_folio := PK 1002, rb_nonce := 1,
    started_at := 50, restricted_until := 60, available_until := 100050\<rparr>)"
  have uf: "used_first (rb_tokens ?rb)" "rd_prefix (rb_tokens ?rb) = []"
    by (simp_all add: rebalance_clear_def used_first_def rd_prefix_def rd_used_def
        default_rebalance_details_token_def list_all_iff const_defs)
  have nb: "new_batch ?rb [PK 11, PK 12] [sample_sell_pl, sample_buy_pl]
      = [(PK 11, sample_sell_pl), (PK 12, sample_buy_pl)]"
    unfolding new_batch_def uf by (simp add: batch_def rebalance_clear_def const_defs)
  have pd: "price_deferred ?rb [sample_sell_pl, sample_buy_pl] = False"
    by (simp add: price_deferred_def rebalance_clear_def default_rebalance_details_token_def
        sample_sell_pl_def const_defs)
  have "add_rebalance_details ?rb [PK 11, PK 12] [sample_sell_pl, sample_buy_pl] True = Ok sample_rebalance"
    unfolding add_details_Ok [OF uf(1)] nb uf(2) pd
    by (simp add: sample_pl_ok open_for_detail_update_def rebalance_clear_def empty_rebalance_def
        sample_rebalance_def const_defs)
  then show ?thesis
    by (simp add: start_rebalance_def empty_rebalance_def plain_add_def arith_defs MAX_TTL_def)
qed

lemma sample_start_handler:
  "start_rebalance_handler sample_sdk sample_rebalance_accounts [sample_mint_info 11, sample_mint_info 12]
     50 10 100000 [sample_sell_pl, sample_buy_pl] True = Ok (sample_folio, sample_rebalance)"
proof -
  have v: "validate_start_rebalance sample_sdk sample_rebalance_accounts
      [sample_mint_info 11, sample_mint_info 12] = Ok ()"
    by (simp add: validate_start_rebalance_def validate_folio_def validate_permission_for_action_def
        sample_sdk_def sample_rebalance_accounts_def sample_actor_def sample_folio_def status_from_def
        has_role_def check_supported_mints_def check_supported_mint_def sample_mint_info_def
        is_supported_spl_token_def mint_has_extensions_def)
  show ?thesis
    unfolding start_rebalance_handler_def v and_then_simps
    by (simp add: sample_rebalance_accounts_def get_fee_details_def sample_poke_early
        rebalance_process_init_if_needed_def sample_mint_info_def sample_start as_u64_nonneg)
qed

lemma sample_rebalance_wf: "rebalance_wf sample_rebalance"
proof -
  have "\<forall>t \<in> set [rd_of (PK 11, sample_sell_pl), rd_of (PK 12, sample_buy_pl)]. rd_used t"
    "\<forall>t \<in> set (replicate 28 default_rebalance_details_token). \<not> rd_used t"
    by (simp_all add: default_pubkey_def rd_used_def default_rebalance_details_token_def)
  from rd_prefix_extended [OF this] sample_pl_ok show ?thesis
    by (auto simp: rebalance_wf_def details_wf_def sample_rebalance_def pl_ok_def const_defs)
qed

lemma sample_prefix: "rd_prefix (rb_tokens sample_rebalance)
    = [rd_of (PK 11, sample_sell_pl), rd_of (PK 12, sample_buy_pl)]"
proof -
  have "rb_tokens sample_rebalance = [rd_of (PK 11, sample_sell_pl), rd_of (PK 12, sample_buy_pl)]
      @ replicate 28 default_rebalance_details_token"
    by (simp add: sample_rebalance_def)
  then show ?thesis
    by (simp only:) (rule rd_prefix_extended(1), auto simp: default_pubkey_def rd_used_def
        default_rebalance_details_token_def)
qed

lemma start_rebalance_frame:
  assumes "start_rebalance rb t w ttl mints pls b = Ok rb'" "default_pubkey \<notin> set mints"
  shows "rebalance_wf rb' \<and> rb_nonce rb' = rb_nonce rb + 1 \<and> current_auction_id rb' = 0
    \<and> started_at rb' = t \<and> restricted_until rb' = t + w \<and> available_until rb' = t + ttl
    \<and> w \<le> ttl \<and> ttl \<le> MAX_TTL \<and> rb_folio rb' = rb_folio rb \<and> rb_bump rb' = rb_bump rb
    \<and> rd_prefix (rb_tokens rb') = map rd_of (take MAX_REBALANCE_DETAILS_TOKENS (zip mints pls))"
proof -
  let ?rb = "rebalance_clear (rb\<lparr>rb_nonce := rb_nonce rb + 1, started_at := t,
    restricted_until := t + w, available_until := t + ttl\<rparr>)"
  from assms(1) have g: "ttl \<le> MAX_TTL" "w \<le> ttl" "add_rebalance_details ?rb mints pls b = Ok rb'"
    by (auto simp: start_rebalance_def)
  have uf: "used_first (rb_tokens ?rb)" using rebalance_wf_clear by (simp add: rebalance_wf_def details_wf_def)
  have pre: "rd_prefix (rb_tokens ?rb) = []"
    by (simp add: rebalance_clear_def rd_prefix_def rd_used_def default_rebalance_details_token_def const_defs)
  have nb: "new_batch ?rb mints pls = take MAX_REBALANCE_DETAILS_TOKENS (zip mints pls)"
    unfolding new_batch_def pre by (simp add: batch_def rebalance_clear_def)
  note ok = g(3) [unfolded add_details_Ok [OF uf] nb pre]
  have used: "\<forall>x \<in> set (map rd_of (take MAX_REBALANCE_DETAILS_TOKENS (zip mints pls))). rd_used x"
    using assms(2) by (auto dest!: in_set_takeD set_zip_leftD)
  have free: "\<forall>x \<in> set (drop n (rb_tokens ?rb)). \<not> rd_used x" for n
    by (auto simp: rebalance_clear_def rd_used_def default_rebalance_details_token_def)
  have "rd_prefix (rb_tokens rb') = map rd_of (take MAX_REBALANCE_DETAILS_TOKENS (zip mints pls))"
    using ok rd_prefix_extended(1) [OF used free] by simp
  moreover have "rebalance_wf rb'" by (rule add_details_wf [OF rebalance_wf_clear assms(2) g(3)])
  ultimately show ?thesis using ok g(1,2) by (simp add: rebalance_clear_def)
qed

section \<open>Properties\<close>

text \<open>
  Adding details to a well-formed rebalance succeeds exactly when the rebalance still takes
  details, the two vectors have the same length, and the mints that find a free slot are
  different from each other and from those already there, with limits and prices in range (all
  prices deferred or none); it appends exactly these, in order, and changes nothing else. Mints
  beyond the 30 slots are neither checked nor stored.
\<close>
theorem add_rebalance_details_spec:
  assumes "rebalance_wf rb"
  shows "add_rebalance_details rb mints pls all_added = Ok rb' \<longleftrightarrow>
    open_for_detail_update rb \<and> length mints = length pls
    \<and> (let old = rd_prefix (rb_tokens rb);
           new = take (MAX_REBALANCE_DETAILS_TOKENS - length old) (zip mints pls)
       in (\<forall>x \<in> set new. limit_in_range (pl_limits (snd x)) \<and> limit_all_or_none (pl_limits (snd x))
             \<and> prices_in_range (price_deferred rb pls) (pl_prices (snd x)))
        \<and> distinct (map rd_mint old @ map fst new)
        \<and> rb' = rb\<lparr>rb_tokens := old @ map rd_of new @ drop (length old + length new) (rb_tokens rb),
                  all_rebalance_details_added := (if all_added then 1 else 0)\<rparr>)"
proof -
  have uf: "used_first (rb_tokens rb)" and len: "length (rb_tokens rb) = MAX_REBALANCE_DETAILS_TOKENS"
    and dist: "distinct (map rd_mint (rd_prefix (rb_tokens rb)))"
    using assms by (simp_all add: rebalance_wf_def details_wf_def)
  have nb: "new_batch rb mints pls
      = take (MAX_REBALANCE_DETAILS_TOKENS - length (rd_prefix (rb_tokens rb))) (zip mints pls)"
    by (simp add: new_batch_def batch_def len)
  show ?thesis
    unfolding add_details_Ok [OF uf] nb using dist by (auto simp: Let_def pl_ok_def)
qed

definition open_sample_rebalance :: rebalance where
  "open_sample_rebalance = sample_rebalance\<lparr>all_rebalance_details_added := 0\<rparr>"

lemma open_sample_rebalance_wf: "rebalance_wf open_sample_rebalance"
  using sample_rebalance_wf by (simp add: rebalance_wf_def open_sample_rebalance_def)

lemma open_sample_prefix: "rd_prefix (rb_tokens open_sample_rebalance)
    = [rd_of (PK 11, sample_sell_pl), rd_of (PK 12, sample_buy_pl)]"
  by (simp add: open_sample_rebalance_def sample_prefix)

lemma open_sample_deferred: "price_deferred open_sample_rebalance pls = False"
  by (simp add: price_deferred_def open_sample_rebalance_def sample_rebalance_def default_pubkey_def
      sample_sell_pl_def)

theorem add_rebalance_details_spec_witness:
  "(\<exists>rb'. add_rebalance_details open_sample_rebalance [PK 13] [sample_buy_pl] True = Ok rb')
   \<and> add_rebalance_details open_sample_rebalance [PK 11] [sample_buy_pl] True \<noteq> Ok sample_rebalance"
proof -
  note spec = add_rebalance_details_spec [OF open_sample_rebalance_wf, unfolded open_sample_prefix
    open_sample_deferred Let_def]
  have "open_for_detail_update open_sample_rebalance"
    by (simp add: open_for_detail_update_def open_sample_rebalance_def)
  then have "\<exists>rb'. add_rebalance_details open_sample_rebalance [PK 13] [sample_buy_pl] True = Ok rb'"
    unfolding spec using sample_pl_ok(2) [unfolded pl_ok_def] by (simp add: MAX_REBALANCE_DETAILS_TOKENS_def)
  moreover have "add_rebalance_details open_sample_rebalance [PK 11] [sample_buy_pl] True \<noteq> Ok sample_rebalance"
    unfolding spec by (simp only: MAX_REBALANCE_DETAILS_TOKENS_def) (simp add: numeral_eq_Suc)
  ultimately show ?thesis ..
qed

text \<open>
  Once all 30 slots are taken, further details are accepted and silently ignored: whatever
  the mints, limits and prices are, the call succeeds and only the completion flag changes.
\<close>
theorem full_rebalance_ignores_details:
  assumes "rebalance_wf rb" "length (rd_prefix (rb_tokens rb)) = MAX_REBALANCE_DETAILS_TOKENS"
    and "all_rebalance_details_added rb = 0" "length mints = length pls"
  shows "add_rebalance_details rb mints pls all_added =
    Ok (rb\<lparr>all_rebalance_details_added := (if all_added then 1 else 0)\<rparr>)"
proof -
  have uf: "used_first (rb_tokens rb)" and len: "length (rb_tokens rb) = MAX_REBALANCE_DETAILS_TOKENS"
    using assms by (simp_all add: rebalance_wf_def details_wf_def)
  have nb: "new_batch rb mints pls = []" using assms(2) len by (simp add: new_batch_def batch_def)
  have "rd_prefix (rb_tokens rb) = rb_tokens rb"
    using used_first_split(1) [OF uf] assms(2) len by simp
  then show ?thesis
    unfolding add_details_Ok [OF uf] nb using assms by (simp add: open_for_detail_update_def)
qed

definition full_rebalance :: rebalance where
  "full_rebalance = open_sample_rebalance\<lparr>rb_tokens :=
     map (\<lambda>i. rd_of (PK (Suc i), sample_sell_pl)) [0..<MAX_REBALANCE_DETAILS_TOKENS]\<rparr>"

lemma full_rebalance_prefix: "rd_prefix (rb_tokens full_rebalance) = rb_tokens full_rebalance"
  by (simp add: full_rebalance_def rd_prefix_def default_pubkey_def takeWhile_eq_all_conv)

theorem full_rebalance_ignores_details_witness:
  "add_rebalance_details full_rebalance [PK 99] [\<lparr>pl_prices = \<lparr>price_low = 7, price_high = 3\<rparr>,
       pl_limits = \<lparr>spot = 5, low = 9, high = 1\<rparr>\<rparr>] True =
     Ok (full_rebalance\<lparr>all_rebalance_details_added := 1\<rparr>)"
proof -
  have "used_first (rb_tokens full_rebalance)"
    using full_rebalance_prefix unfolding used_first_def rd_prefix_def
    by (metis append_Nil2 dropWhile_eq_Nil_conv list.pred_inject(1) takeWhile_eq_all_conv)
  then have "rebalance_wf full_rebalance"
    using sample_pl_ok(1) unfolding rebalance_wf_def details_wf_def full_rebalance_prefix
    by (auto simp: full_rebalance_def pl_ok_def distinct_map inj_on_def open_sample_rebalance_def)
  then show ?thesis
    using full_rebalance_ignores_details [of full_rebalance "[PK 99]"] full_rebalance_prefix
    by (simp add: full_rebalance_def open_sample_rebalance_def)
qed

text \<open>
  A rebalance is started by an actor with the rebalance manager role, on an initialized folio,
  with mints the program supports. Whatever was there before, the new rebalance is well formed,
  holds exactly the first 30 mints given, has the next nonce and no auction, and its windows
  follow each other: it starts now, is restricted until at most its end, and ends within the
  maximal time to live.
\<close>
theorem start_rebalance_spec:
  assumes "start_rebalance_handler sdk a mints t window ttl pls all_added = Ok (f', rb')"
    and "default_pubkey \<notin> ai_key ` set mints"
  shows "has_role (actor_roles (ra_actor a)) RebalanceManager
    \<and> folio_status (ra_folio a) = status_u8 Initialized
    \<and> (\<forall>x \<in> set mints. \<exists>m. ai_mint x = Some m \<and> is_supported_spl_token (Some m) None)
    \<and> rebalance_wf rb'
    \<and> map rd_mint (rd_prefix (rb_tokens rb'))
        = take MAX_REBALANCE_DETAILS_TOKENS (take (length pls) (map ai_key mints))
    \<and> rb_nonce rb' = (case ra_rebalance a of None \<Rightarrow> 1 | Some rb \<Rightarrow> rb_nonce rb + 1)
    \<and> current_auction_id rb' = 0
    \<and> started_at rb' = as_u64 t \<and> started_at rb' \<le> restricted_until rb'
    \<and> restricted_until rb' \<le> available_until rb' \<and> available_until rb' \<le> started_at rb' + MAX_TTL"
proof -
  from assms(1) obtain rb0 where v: "validate_start_rebalance sdk a mints = Ok ()"
    and i: "rebalance_process_init_if_needed (ra_rebalance a) (ra_rebalance_bump a) (ra_folio_key a) = Ok rb0"
    and s: "start_rebalance rb0 (as_u64 t) window ttl (map ai_key mints) pls all_added = Ok rb'"
    by (auto simp: start_rebalance_handler_def)
  have m: "fold_result (\<lambda>_ m. check_supported_mint m) () xs = Ok () \<Longrightarrow>
      \<forall>x \<in> set xs. \<exists>m. ai_mint x = Some m \<and> is_supported_spl_token (Some m) None" for xs
    by (induction xs) (auto simp: check_supported_mint_def)
  from v have "validate_folio (find_program_address sdk) (ra_folio a) (ra_folio_key a)
      (Some (ra_actor a)) (Some [RebalanceManager]) (Some [Initialized]) = Ok ()"
    and "check_supported_mints mints = Ok ()"
    by (auto simp: validate_start_rebalance_def)
  from validate_folio_Ok [OF this(1)] m [OF this(2) [unfolded check_supported_mints_def]]
  have "has_role (actor_roles (ra_actor a)) RebalanceManager"
    "folio_status (ra_folio a) = status_u8 Initialized"
    "\<forall>x \<in> set mints. \<exists>m. ai_mint x = Some m \<and> is_supported_spl_token (Some m) None" by auto
  moreover have "rb_nonce rb0 = (case ra_rebalance a of None \<Rightarrow> 0 | Some rb \<Rightarrow> rb_nonce rb)"
    using i by (auto simp: rebalance_process_init_if_needed_def empty_rebalance_def split: option.splits)
  moreover have "map rd_mint (map rd_of (take n (zip xs ys))) = take n (take (length ys) xs)"
    for n xs and ys :: "rebalance_price_and_limits list"
    by (simp add: comp_def take_map [symmetric] map_fst_zip_take)
       (metis min.commute take_all_iff take_take nat_le_linear min.absorb1 min.absorb2)
  moreover have "default_pubkey \<notin> set (map ai_key mints)" using assms(2) by simp
  note start_rebalance_frame [OF s this]
  ultimately show ?thesis by (auto split: option.splits)
qed

theorem start_rebalance_spec_witness:
  "rebalance_wf sample_rebalance \<and> available_until sample_rebalance \<le> 50 + MAX_TTL"
  using start_rebalance_spec [OF sample_start_handler]
  by (simp add: sample_mint_info_def default_pubkey_def as_u64_nonneg)

end
