(* ===== verification/Ledger.thy ===== *)
theory Ledger
  imports Prelude
begin

text \<open>
  The contract of a store of token amounts: what a client (a folio instruction) may rely on when
  it credits and debits a basket mint by mint. \<open>token_ledger\<close> is one store; \<open>dual_ledger\<close> is a
  state with two stores over the same mints, as the pending basket of a user has for minting and
  redeeming. Both are interpreted on the model's own baskets, in Basket and PendingBasket.
\<close>

definition sum_for :: "pubkey \<Rightarrow> (pubkey \<times> nat) list \<Rightarrow> nat" where
  "sum_for m xs = sum_list (map snd (filter (\<lambda>x. fst x = m) xs))"

definition real_mints :: "(pubkey \<times> nat) list \<Rightarrow> bool" where
  "real_mints xs \<longleftrightarrow> default_pubkey \<notin> fst ` set xs"

lemma sum_for_simps [simp]:
  "sum_for m [] = 0" "sum_for m ((k, a) # xs) = (if k = m then a else 0) + sum_for m xs"
  by (simp_all add: sum_for_def)

lemma real_mints_simps [simp]:
  "real_mints []" "real_mints ((k, a) # xs) \<longleftrightarrow> k \<noteq> default_pubkey \<and> real_mints xs"
  by (auto simp: real_mints_def)

lemma sum_for_mset: "mset xs = mset ys \<Longrightarrow> sum_for m xs = sum_for m ys"
  unfolding sum_for_def sum_mset_sum_list [symmetric] mset_map mset_filter by simp

lemma real_mints_mset: "mset xs = mset ys \<Longrightarrow> real_mints xs = real_mints ys"
  unfolding real_mints_def by (metis mset_eq_setD)

locale token_ledger =
  fixes inv :: "'s \<Rightarrow> bool"
    and amt :: "'s \<Rightarrow> pubkey \<Rightarrow> nat"
    and credit :: "'s \<Rightarrow> pubkey \<times> nat \<Rightarrow> 's result"
    and debit :: "'s \<Rightarrow> pubkey \<times> nat \<Rightarrow> 's result"
  assumes credit_law:
      "inv s \<Longrightarrow> m \<noteq> default_pubkey \<Longrightarrow> credit s (m, a) = Ok s' \<Longrightarrow>
         inv s' \<and> amt s' = (amt s)(m := amt s m + a)"
    and debit_law:
      "inv s \<Longrightarrow> m \<noteq> default_pubkey \<Longrightarrow> debit s (m, a) = Ok s' \<Longrightarrow>
         a \<le> amt s m \<and> inv s' \<and> amt s' = (amt s)(m := amt s m - a)"
begin

lemma credits:
  assumes "inv s" "real_mints xs" "fold_result credit s xs = Ok s'"
  shows "inv s' \<and> (\<forall>k. amt s' k = amt s k + sum_for k xs)"
  using assms
proof (induction xs arbitrary: s)
  case (Cons x xs)
  obtain m a where x: "x = (m, a)" by (cases x)
  with Cons.prems obtain t where t: "credit s (m, a) = Ok t" "fold_result credit t xs = Ok s'" by auto
  have "inv t" "amt t = (amt s)(m := amt s m + a)"
    using credit_law [OF Cons.prems(1) _ t(1)] Cons.prems(2) x by auto
  with Cons.IH [OF _ _ t(2)] Cons.prems(2) x show ?case by auto
qed simp

lemma debits:
  assumes "inv s" "real_mints xs" "fold_result debit s xs = Ok s'"
  shows "inv s' \<and> (\<forall>k. amt s' k + sum_for k xs = amt s k)"
  using assms
proof (induction xs arbitrary: s)
  case (Cons x xs)
  obtain m a where x: "x = (m, a)" by (cases x)
  with Cons.prems obtain t where t: "debit s (m, a) = Ok t" "fold_result debit t xs = Ok s'" by auto
  have "inv t" "a \<le> amt s m" "amt t = (amt s)(m := amt s m - a)"
    using debit_law [OF Cons.prems(1) _ t(1)] Cons.prems(2) x by auto
  moreover have "inv s' \<and> (\<forall>k. amt s' k + sum_for k xs = amt t k)"
    using Cons.IH [OF \<open>inv t\<close> _ t(2)] Cons.prems(2) x by auto
  ultimately show ?case by (auto simp: x split: if_splits)
qed simp

text \<open>A withdrawal of what was deposited, in any order, restores every amount.\<close>

lemma deposit_withdraw:
  assumes "inv s" "real_mints xs" "fold_result credit s xs = Ok s'"
    and "mset ys = mset xs" "fold_result debit s' ys = Ok s''"
  shows "inv s'' \<and> amt s'' = amt s"
proof -
  have c: "inv s'" "\<And>k. amt s' k = amt s k + sum_for k xs"
    using credits [OF assms(1-3)] by auto
  have "inv s''" "\<And>k. amt s'' k + sum_for k ys = amt s' k"
    using debits [OF c(1) _ assms(5)] assms(2) real_mints_mset [OF assms(4)] by auto
  then show ?thesis using c(2) sum_for_mset [OF assms(4)] by (auto simp: fun_eq_iff)
qed

text \<open>No sequence of withdrawals takes out more than was there.\<close>

lemma debits_bounded:
  assumes "inv s" "real_mints xs" "fold_result debit s xs = Ok s'"
  shows "sum_for k xs \<le> amt s k"
  using debits [OF assms] by (metis le_add2)

end

locale dual_ledger =
  one: token_ledger inv amt1 credit1 debit1 + two: token_ledger inv amt2 credit2 debit2
  for inv :: "'s \<Rightarrow> bool"
    and amt1 :: "'s \<Rightarrow> pubkey \<Rightarrow> nat" and credit1 debit1 :: "'s \<Rightarrow> pubkey \<times> nat \<Rightarrow> 's result"
    and amt2 :: "'s \<Rightarrow> pubkey \<Rightarrow> nat" and credit2 debit2 :: "'s \<Rightarrow> pubkey \<times> nat \<Rightarrow> 's result" +
  assumes frame1:
      "inv s \<Longrightarrow> m \<noteq> default_pubkey \<Longrightarrow> credit1 s (m, a) = Ok s' \<or> debit1 s (m, a) = Ok s' \<Longrightarrow>
         amt2 s' = amt2 s"
    and frame2:
      "inv s \<Longrightarrow> m \<noteq> default_pubkey \<Longrightarrow> credit2 s (m, a) = Ok s' \<or> debit2 s (m, a) = Ok s' \<Longrightarrow>
         amt1 s' = amt1 s"
begin

lemma frame1_fold:
  assumes "f = credit1 \<or> f = debit1" "inv s" "real_mints xs" "fold_result f s xs = Ok s'"
  shows "amt2 s' = amt2 s"
  using assms
proof (induction xs arbitrary: s)
  case (Cons x xs)
  obtain m a where x: "x = (m, a)" by (cases x)
  with Cons.prems obtain t where t: "f s (m, a) = Ok t" "fold_result f t xs = Ok s'" by auto
  have m: "m \<noteq> default_pubkey" using Cons.prems(3) x by simp
  have "amt2 t = amt2 s" using frame1 [OF Cons.prems(2) m] t(1) Cons.prems(1) by blast
  moreover have "inv t"
    using one.credit_law [OF Cons.prems(2) m] one.debit_law [OF Cons.prems(2) m] t(1) Cons.prems(1)
    by blast
  ultimately show ?case using Cons.IH [OF Cons.prems(1) _ _ t(2)] Cons.prems(3) x by simp
qed simp

lemma frame2_fold:
  assumes "f = credit2 \<or> f = debit2" "inv s" "real_mints xs" "fold_result f s xs = Ok s'"
  shows "amt1 s' = amt1 s"
  using assms
proof (induction xs arbitrary: s)
  case (Cons x xs)
  obtain m a where x: "x = (m, a)" by (cases x)
  with Cons.prems obtain t where t: "f s (m, a) = Ok t" "fold_result f t xs = Ok s'" by auto
  have m: "m \<noteq> default_pubkey" using Cons.prems(3) x by simp
  have "amt1 t = amt1 s" using frame2 [OF Cons.prems(2) m] t(1) Cons.prems(1) by blast
  moreover have "inv t"
    using two.credit_law [OF Cons.prems(2) m] two.debit_law [OF Cons.prems(2) m] t(1) Cons.prems(1)
    by blast
  ultimately show ?case using Cons.IH [OF Cons.prems(1) _ _ t(2)] Cons.prems(3) x by simp
qed simp

text \<open>Deposits on one side and withdrawals on the other do not interfere.\<close>

lemma credit1_then_debit2:
  assumes "inv s" "real_mints xs" "real_mints ys"
    and "fold_result credit1 s xs = Ok s'" "fold_result debit2 s' ys = Ok s''"
  shows "amt1 s'' k = amt1 s k + sum_for k xs" and "amt2 s'' k + sum_for k ys = amt2 s k"
proof -
  have c: "inv s'" "amt1 s' k = amt1 s k + sum_for k xs"
    using one.credits [OF assms(1,2,4)] by auto
  show "amt1 s'' k = amt1 s k + sum_for k xs"
    using frame2_fold [OF _ c(1) assms(3,5)] c(2) by simp
  show "amt2 s'' k + sum_for k ys = amt2 s k"
    using two.debits [OF c(1) assms(3,5)] frame1_fold [OF _ assms(1,2,4)] by simp
qed

end

end
