(* ===== verification/Basket.thy ===== *)
theory Basket
  imports State Ledger
begin

text \<open>
  The basket of a folio, \<open>programs/folio/src/utils/accounts/folio_basket.rs\<close>: an array of 100
  slots of a mint and an amount. The abstract view is a finite map from mints to amounts,
  \<open>basket_map\<close>; every operation refines the operation of the same name on maps. The locale
  \<open>token_ledger\<close> is the contract that the instructions rely on, of this basket and of both sides
  of the pending basket of a user.
\<close>

section \<open>Operations\<close>

definition find_fta :: "pubkey \<Rightarrow> folio_token_amount list \<Rightarrow> folio_token_amount option" where
  "find_fta mint tas = find (\<lambda>ta. fta_mint ta = mint) tas"

definition update_fta ::
  "pubkey \<Rightarrow> (folio_token_amount \<Rightarrow> folio_token_amount) \<Rightarrow> folio_basket \<Rightarrow> folio_basket" where
  "update_fta mint f self =
     self\<lparr>fb_token_amounts := update_first (\<lambda>ta. fta_mint ta = mint) f (fb_token_amounts self)\<rparr>"

definition add_token_to_basket ::
  "folio_basket \<Rightarrow> folio_token_amount \<Rightarrow> folio_basket result" where
  "add_token_to_basket self x =
     check_condition (fta_mint x \<noteq> default_pubkey) InvalidAddedTokenMints (
     case find_fta (fta_mint x) (fb_token_amounts self) of
       Some slot \<Rightarrow>
         and_then (ok_or (checked_add 64 (fta_amount slot) (fta_amount x)) MathOverflow) (\<lambda>amount.
         Ok (update_fta (fta_mint x) (\<lambda>ta. ta\<lparr>fta_amount := amount\<rparr>) self))
     | None \<Rightarrow>
         (case find_fta default_pubkey (fb_token_amounts self) of
            Some slot \<Rightarrow>
              Ok (update_fta default_pubkey
                    (\<lambda>ta. ta\<lparr>fta_mint := fta_mint x, fta_amount := fta_amount x\<rparr>) self)
          | None \<Rightarrow> Err MaxNumberOfTokensReached))"

definition add_tokens_to_basket ::
  "folio_basket \<Rightarrow> folio_token_amount list \<Rightarrow> folio_basket result" where
  "add_tokens_to_basket self folio_token_amounts =
     fold_result add_token_to_basket self folio_token_amounts"

definition remove_token_from_basket ::
  "folio_basket \<Rightarrow> folio_token_amount \<Rightarrow> folio_basket result" where
  "remove_token_from_basket self x =
     (case find_fta (fta_mint x) (fb_token_amounts self) of
        Some slot \<Rightarrow>
          and_then (ok_or (checked_sub (fta_amount slot) (fta_amount x)) MathOverflow) (\<lambda>amount.
          Ok (update_fta (fta_mint x) (\<lambda>ta. ta\<lparr>fta_amount := amount\<rparr>) self))
      | None \<Rightarrow> Err InvalidRemovedTokenMints)"

definition remove_tokens_from_basket ::
  "folio_basket \<Rightarrow> folio_token_amount list \<Rightarrow> folio_basket result" where
  "remove_tokens_from_basket self folio_token_amounts =
     fold_result remove_token_from_basket self folio_token_amounts"

definition remove_token_mint_from_basket :: "folio_basket \<Rightarrow> pubkey \<Rightarrow> folio_basket result" where
  "remove_token_mint_from_basket self mint =
     (case find_fta mint (fb_token_amounts self) of
        Some slot \<Rightarrow>
          Ok (update_fta mint (\<lambda>ta. ta\<lparr>fta_amount := 0, fta_mint := default_pubkey\<rparr>) self)
      | None \<Rightarrow> Err InvalidRemovedTokenMints)"

text \<open>An account whose discriminator is zero has not been initialized: \<open>None\<close>.\<close>

definition folio_basket_process_init_if_needed ::
  "folio_basket option \<Rightarrow> nat \<Rightarrow> pubkey \<Rightarrow> folio_token_amount list \<Rightarrow> folio_basket result" where
  "folio_basket_process_init_if_needed account context_bump folio added =
     (case account of
        None \<Rightarrow>
          add_tokens_to_basket
            \<lparr>fb_bump = context_bump, fb_folio = folio,
             fb_token_amounts = replicate MAX_FOLIO_TOKEN_AMOUNTS default_folio_token_amount\<rparr> added
      | Some self \<Rightarrow>
          check_condition (fb_bump self = context_bump) InvalidBump (
          add_tokens_to_basket self added))"

definition get_total_number_of_mints :: "folio_basket \<Rightarrow> nat" where
  "get_total_number_of_mints self =
     length (filter (\<lambda>ta. fta_mint ta \<noteq> default_pubkey) (fb_token_amounts self)) mod 2 ^ 8"

definition get_token_amount_in_folio_basket :: "folio_basket \<Rightarrow> pubkey \<Rightarrow> nat result" where
  "get_token_amount_in_folio_basket self mint =
     (case find_fta mint (fb_token_amounts self) of
        Some ta \<Rightarrow> Ok (fta_amount ta)
      | None \<Rightarrow> Err TokenMintNotInOldFolioBasket)"

definition get_token_amount_in_folio_basket_or_zero :: "folio_basket \<Rightarrow> pubkey \<Rightarrow> nat" where
  "get_token_amount_in_folio_basket_or_zero self mint =
     (case get_token_amount_in_folio_basket self mint of Ok a \<Rightarrow> a | _ \<Rightarrow> 0)"

definition get_token_presence_per_share_in_basket ::
  "folio_basket \<Rightarrow> pubkey \<Rightarrow> decimal \<Rightarrow> nat result" where
  "get_token_presence_per_share_in_basket self mint supply =
     (let total = get_token_amount_in_folio_basket_or_zero self mint in
      if total = 0 \<or> is_zero supply then Ok 0
      else
        and_then (from_token_amount total) (\<lambda>amount.
        and_then (dec_mul amount D18) (\<lambda>m.
        and_then (dec_div m supply) (\<lambda>q. to_scaled q Ceiling))))"

section \<open>The map of a basket\<close>

definition basket_wf :: "folio_basket \<Rightarrow> bool" where
  "basket_wf fb \<longleftrightarrow> slots_wf fta_mint (fb_token_amounts fb)
     \<and> length (fb_token_amounts fb) = MAX_FOLIO_TOKEN_AMOUNTS"

definition basket_map :: "folio_basket \<Rightarrow> pubkey \<rightharpoonup> nat" where
  "basket_map fb m =
     (if m = default_pubkey then None
      else map_option fta_amount (slot_of fta_mint (fb_token_amounts fb) m))"

definition basket_amount :: "folio_basket \<Rightarrow> pubkey \<Rightarrow> nat" where
  "basket_amount fb m = (case basket_map fb m of Some a \<Rightarrow> a | None \<Rightarrow> 0)"

definition map_add_token :: "(pubkey \<rightharpoonup> nat) \<Rightarrow> folio_token_amount \<Rightarrow> (pubkey \<rightharpoonup> nat) result" where
  "map_add_token b x =
     (if fta_mint x = default_pubkey then Err InvalidAddedTokenMints
      else case b (fta_mint x) of
        Some a \<Rightarrow>
          if a + fta_amount x < 2 ^ 64 then Ok (b(fta_mint x \<mapsto> a + fta_amount x))
          else Err MathOverflow
      | None \<Rightarrow>
          if card (dom b) < MAX_FOLIO_TOKEN_AMOUNTS then Ok (b(fta_mint x \<mapsto> fta_amount x))
          else Err MaxNumberOfTokensReached)"

definition map_remove_token :: "(pubkey \<rightharpoonup> nat) \<Rightarrow> folio_token_amount \<Rightarrow> (pubkey \<rightharpoonup> nat) result" where
  "map_remove_token b x =
     (case b (fta_mint x) of
        Some a \<Rightarrow>
          if fta_amount x \<le> a then Ok (b(fta_mint x \<mapsto> a - fta_amount x)) else Err MathOverflow
      | None \<Rightarrow> Err InvalidRemovedTokenMints)"

lemma find_fta_slot_of: "find_fta m xs = slot_of fta_mint xs m"
  by (simp add: find_fta_def slot_of_def)

lemma basket_map_default [simp]: "basket_map fb default_pubkey = None"
  by (simp add: basket_map_def)

lemma get_token_amount_or_zero_eq:
  "m \<noteq> default_pubkey \<Longrightarrow> get_token_amount_in_folio_basket_or_zero fb m = basket_amount fb m"
  by (simp add: get_token_amount_in_folio_basket_or_zero_def get_token_amount_in_folio_basket_def
      basket_amount_def basket_map_def find_fta_slot_of split: option.splits)

lemma used_keys_set: "set (used_keys key xs) = key ` set xs - {default_pubkey}"
  by (auto simp: used_keys_def)

lemma dom_basket_map: "dom (basket_map fb) = set (used_keys fta_mint (fb_token_amounts fb))"
proof -
  have "m \<in> dom (basket_map fb) \<longleftrightarrow>
      m \<noteq> default_pubkey \<and> slot_of fta_mint (fb_token_amounts fb) m \<noteq> None" for m
    by (auto simp: basket_map_def split: if_splits)
  then show ?thesis by (auto simp: slot_of_None_iff used_keys_set)
qed

lemma card_dom_basket_map:
  "basket_wf fb \<Longrightarrow> card (dom (basket_map fb)) = length (used_keys fta_mint (fb_token_amounts fb))"
  by (simp add: dom_basket_map basket_wf_def slots_wf_def distinct_card)

lemma length_filter_less_iff: "length (filter P xs) < length xs \<longleftrightarrow> (\<exists>x \<in> set xs. \<not> P x)"
proof
  assume "length (filter P xs) < length xs"
  then show "\<exists>x \<in> set xs. \<not> P x" by (metis filter_True less_irrefl)
qed (auto intro: length_filter_less)

lemma used_keys_free_slot:
  "length (used_keys key xs) < length xs \<longleftrightarrow> find (\<lambda>s. key s = default_pubkey) xs \<noteq> None"
proof -
  have "length (used_keys key xs) = length (filter (\<lambda>s. key s \<noteq> default_pubkey) xs)"
    by (simp add: used_keys_def filter_map o_def)
  then show ?thesis
    using length_filter_less_iff [of "\<lambda>s. key s \<noteq> default_pubkey" xs]
    by (auto simp: find_None_iff)
qed

lemma get_total_number_of_mints_eq:
  assumes "basket_wf fb"
  shows "get_total_number_of_mints fb = card (dom (basket_map fb))"
proof -
  have "length (used_keys fta_mint (fb_token_amounts fb))
      = length (filter (\<lambda>ta. fta_mint ta \<noteq> default_pubkey) (fb_token_amounts fb))"
    by (simp add: used_keys_def filter_map o_def)
  moreover have "\<dots> \<le> 100"
    using assms length_filter_le [of _ "fb_token_amounts fb"]
    by (simp add: basket_wf_def MAX_FOLIO_TOKEN_AMOUNTS_def)
  ultimately show ?thesis
    using card_dom_basket_map [OF assms] by (simp add: get_total_number_of_mints_def)
qed

section \<open>Effects of single steps\<close>

lemma update_fta_amount:
  fixes fb m a
  defines "fb' \<equiv> update_fta m (\<lambda>ta. ta\<lparr>fta_amount := a\<rparr>) fb"
  assumes "basket_wf fb" "find_fta m (fb_token_amounts fb) = Some s" "m \<noteq> default_pubkey"
  shows "basket_wf fb'" and "basket_map fb' = (basket_map fb)(m \<mapsto> a)"
  using assms
  by (auto simp: basket_wf_def update_fta_def slots_wf_update_same basket_map_def
      slot_of_update_same find_fta_slot_of fun_eq_iff)

lemma update_fta_claim:
  fixes fb m a
  defines "fb' \<equiv> update_fta default_pubkey (\<lambda>ta. ta\<lparr>fta_mint := m, fta_amount := a\<rparr>) fb"
  assumes "basket_wf fb" "find_fta m (fb_token_amounts fb) = None" "m \<noteq> default_pubkey"
    "find_fta default_pubkey (fb_token_amounts fb) = Some s"
  shows "basket_wf fb'" and "basket_map fb' = (basket_map fb)(m \<mapsto> a)"
proof -
  have free: "find (\<lambda>s. fta_mint s = default_pubkey) (fb_token_amounts fb) = Some s"
    using assms(5) by (simp add: find_fta_def)
  have none: "slot_of fta_mint (fb_token_amounts fb) m = None"
    using assms(3) by (simp add: find_fta_slot_of)
  let ?f = "\<lambda>ta. ta\<lparr>fta_mint := m, fta_amount := a\<rparr>"
  note claim = slot_of_claim [where f = ?f, OF free assms(4) none]
  show "basket_wf fb'"
    using slots_wf_claim [where f = ?f, OF _ free assms(4) none] assms(2)
    by (simp add: fb'_def basket_wf_def update_fta_def)
  show "basket_map fb' = (basket_map fb)(m \<mapsto> a)"
    using claim assms(4)
    by (auto simp: fb'_def basket_map_def update_fta_def fun_eq_iff)
qed

lemma remove_token_mint_effect:
  assumes "basket_wf fb" "m \<noteq> default_pubkey" "remove_token_mint_from_basket fb m = Ok fb'"
  shows "basket_wf fb'" and "basket_map fb' = (basket_map fb)(m := None)"
proof -
  let ?f = "\<lambda>ta. ta\<lparr>fta_amount := 0, fta_mint := default_pubkey\<rparr>"
  from assms(3) obtain s where s: "slot_of fta_mint (fb_token_amounts fb) m = Some s"
    and fb': "fb' = update_fta m ?f fb"
    by (auto simp: remove_token_mint_from_basket_def find_fta_slot_of split: option.splits)
  note free = slots_wf_free [where f = ?f, OF _ s assms(2)]
  have wf: "slots_wf fta_mint (fb_token_amounts fb)" using assms(1) by (simp add: basket_wf_def)
  show "basket_wf fb'"
    using free(1) [OF wf] assms(1) by (simp add: fb' basket_wf_def update_fta_def)
  show "basket_map fb' = (basket_map fb)(m := None)"
    using free(2,3) [OF wf] by (auto simp: fb' basket_map_def update_fta_def fun_eq_iff)
qed

lemma remove_token_mint_amount:
  assumes "remove_token_mint_from_basket fb m = Ok fb'" "basket_wf fb" "m \<noteq> default_pubkey"
  shows "basket_wf fb' \<and> basket_amount fb' = (basket_amount fb)(m := 0)
    \<and> dom (basket_map fb') = dom (basket_map fb) - {m}"
proof -
  note e = remove_token_mint_effect [OF assms(2,3,1)]
  have "basket_amount fb' = (basket_amount fb)(m := 0)" by (simp add: basket_amount_def e(2) fun_eq_iff)
  then show ?thesis using e(1) by (simp add: e(2))
qed

lemma basket_amount_iff:
  "m \<noteq> default_pubkey \<Longrightarrow> get_token_amount_in_folio_basket b m = Ok x \<Longrightarrow> x = basket_amount b m"
  by (simp add: get_token_amount_in_folio_basket_def basket_amount_def basket_map_def find_fta_slot_of
      split: option.splits)

lemma add_token_refines:
  assumes "basket_wf fb"
  shows "map_result basket_map (add_token_to_basket fb x) = map_add_token (basket_map fb) x"
    and "add_token_to_basket fb x = Ok fb' \<Longrightarrow> basket_wf fb'"
proof -
  have card: "card (dom (basket_map fb)) < MAX_FOLIO_TOKEN_AMOUNTS
      \<longleftrightarrow> find_fta default_pubkey (fb_token_amounts fb) \<noteq> None"
    using card_dom_basket_map [OF assms] used_keys_free_slot [of fta_mint "fb_token_amounts fb"]
      assms by (simp add: basket_wf_def find_fta_def)
  have eq: "basket_map fb (fta_mint x) =
      (if fta_mint x = default_pubkey then None
       else map_option fta_amount (find_fta (fta_mint x) (fb_token_amounts fb)))"
    by (simp add: basket_map_def find_fta_slot_of)
  show "map_result basket_map (add_token_to_basket fb x) = map_add_token (basket_map fb) x"
    using assms card
    by (auto simp: add_token_to_basket_def map_add_token_def eq check_condition_def checked_add_def
        update_fta_amount update_fta_claim split: option.splits)
  show "basket_wf fb'" if "add_token_to_basket fb x = Ok fb'"
    using that assms
    by (auto simp: add_token_to_basket_def update_fta_amount update_fta_claim split: option.splits)
qed

lemma remove_token_refines:
  assumes "basket_wf fb" "fta_mint x \<noteq> default_pubkey"
  shows "map_result basket_map (remove_token_from_basket fb x) = map_remove_token (basket_map fb) x"
    and "remove_token_from_basket fb x = Ok fb' \<Longrightarrow> basket_wf fb'"
proof -
  have eq: "basket_map fb (fta_mint x) =
      map_option fta_amount (find_fta (fta_mint x) (fb_token_amounts fb))"
    using assms(2) by (simp add: basket_map_def find_fta_slot_of)
  show "map_result basket_map (remove_token_from_basket fb x) = map_remove_token (basket_map fb) x"
    using assms
    by (auto simp: remove_token_from_basket_def map_remove_token_def eq checked_sub_def
        update_fta_amount split: option.splits)
  show "basket_wf fb'" if "remove_token_from_basket fb x = Ok fb'"
    using that assms
    by (auto simp: remove_token_from_basket_def update_fta_amount split: option.splits)
qed

text \<open>Whole vectors: the fold of a refined step refines the fold.\<close>

lemma fold_refines:
  fixes view :: "'s \<Rightarrow> 't"
  assumes "\<And>s x. I s \<Longrightarrow> x \<in> set xs \<Longrightarrow> map_result view (f s x) = g (view s) x"
    and "\<And>s x s'. I s \<Longrightarrow> x \<in> set xs \<Longrightarrow> f s x = Ok s' \<Longrightarrow> I s'"
    and "I s"
  shows "map_result view (fold_result f s xs) = fold_result g (view s) xs"
  using assms
proof (induction xs arbitrary: s)
  case (Cons x xs)
  have st: "map_result view (f s x) = g (view s) x" using Cons.prems(1,3) by simp
  show ?case
  proof (cases "f s x")
    case (Ok t)
    then have "I t" using Cons.prems(2) [of s x t] Cons.prems(3) by simp
    then have "map_result view (fold_result f t xs) = fold_result g (view t) xs"
      by (intro Cons.IH) (simp_all add: Cons.prems(1), use Cons.prems(2) in \<open>meson list.set_intros(2)\<close>)
    then show ?thesis using Ok st [symmetric] by simp
  qed (use st [symmetric] in simp_all)
qed simp

lemma add_tokens_wf:
  "basket_wf fb \<Longrightarrow> add_tokens_to_basket fb xs = Ok fb' \<Longrightarrow> basket_wf fb'"
  unfolding add_tokens_to_basket_def
  by (rule fold_result_invariant [where I = basket_wf]) (auto dest: add_token_refines(2))

lemma basket_wf_empty:
  "basket_wf \<lparr>fb_bump = b, fb_folio = f,
     fb_token_amounts = replicate MAX_FOLIO_TOKEN_AMOUNTS default_folio_token_amount\<rparr>"
  by (simp add: basket_wf_def default_folio_token_amount_def)

section \<open>The basket as a ledger\<close>

definition basket_credit :: "folio_basket \<Rightarrow> pubkey \<times> nat \<Rightarrow> folio_basket result" where
  "basket_credit fb x = add_token_to_basket fb \<lparr>fta_mint = fst x, fta_amount = snd x\<rparr>"

definition basket_debit :: "folio_basket \<Rightarrow> pubkey \<times> nat \<Rightarrow> folio_basket result" where
  "basket_debit fb x = remove_token_from_basket fb \<lparr>fta_mint = fst x, fta_amount = snd x\<rparr>"

definition fta_pair :: "folio_token_amount \<Rightarrow> pubkey \<times> nat" where
  "fta_pair x = (fta_mint x, fta_amount x)"

lemma fta_eta: "\<lparr>fta_mint = fta_mint x, fta_amount = fta_amount x\<rparr> = (x :: folio_token_amount)"
  by (cases x) simp

lemma basket_fold_eqs:
  "add_tokens_to_basket fb xs = fold_result basket_credit fb (map fta_pair xs)"
  "remove_tokens_from_basket fb xs = fold_result basket_debit fb (map fta_pair xs)"
proof -
  have "fold_result f s xs = fold_result (\<lambda>s x. f s \<lparr>fta_mint = fst x, fta_amount = snd x\<rparr>) s
      (map fta_pair xs)" for f :: "folio_basket \<Rightarrow> folio_token_amount \<Rightarrow> folio_basket result" and s
    by (induction xs arbitrary: s) (simp_all add: fta_pair_def fta_eta)
  then show "add_tokens_to_basket fb xs = fold_result basket_credit fb (map fta_pair xs)"
    "remove_tokens_from_basket fb xs = fold_result basket_debit fb (map fta_pair xs)"
    by (simp_all add: add_tokens_to_basket_def remove_tokens_from_basket_def basket_credit_def [abs_def]
        basket_debit_def [abs_def])
qed

lemma basket_credit_effect:
  assumes "basket_wf fb" "m \<noteq> default_pubkey" "basket_credit fb (m, a) = Ok fb'"
  shows "basket_wf fb' \<and> basket_amount fb' = (basket_amount fb)(m := basket_amount fb m + a)
    \<and> dom (basket_map fb') = insert m (dom (basket_map fb))"
proof -
  let ?x = "\<lparr>fta_mint = m, fta_amount = a\<rparr>"
  have "map_add_token (basket_map fb) ?x = Ok (basket_map fb')"
    using add_token_refines(1) [OF assms(1), of ?x] assms(3) by (simp add: basket_credit_def)
  moreover have "basket_wf fb'"
    using add_token_refines(2) [OF assms(1), of ?x] assms(3) by (simp add: basket_credit_def)
  ultimately show ?thesis
    by (auto simp: map_add_token_def basket_amount_def fun_eq_iff split: option.splits if_splits)
qed

lemma basket_debit_effect:
  assumes "basket_wf fb" "m \<noteq> default_pubkey" "basket_debit fb (m, a) = Ok fb'"
  shows "a \<le> basket_amount fb m \<and> basket_wf fb'
    \<and> basket_amount fb' = (basket_amount fb)(m := basket_amount fb m - a)
    \<and> dom (basket_map fb') = dom (basket_map fb) \<and> m \<in> dom (basket_map fb)"
proof -
  let ?x = "\<lparr>fta_mint = m, fta_amount = a\<rparr>"
  have "map_remove_token (basket_map fb) ?x = Ok (basket_map fb')"
    using remove_token_refines(1) [OF assms(1), of ?x] assms(2,3) by (simp add: basket_debit_def)
  moreover have "basket_wf fb'"
    using remove_token_refines(2) [OF assms(1), of ?x] assms(2,3) by (simp add: basket_debit_def)
  ultimately show ?thesis
    by (auto simp: map_remove_token_def basket_amount_def fun_eq_iff split: option.splits if_splits)
qed

interpretation fb: token_ledger basket_wf basket_amount basket_credit basket_debit
  by unfold_locales (use basket_credit_effect basket_debit_effect in blast)+

section \<open>Properties\<close>

text \<open>
  C14: The basket refines a finite map with at most 100 mints: \<open>add_tokens_to_basket\<close> does to the
  map what the abstract operation does, for every vector of tokens, with the same error (a default
  mint, an amount beyond 64 bits, a 101st mint) in the same cases, and keeps the slots well formed.
\<close>
theorem add_tokens_refines_map:
  assumes "basket_wf fb"
  shows "map_result basket_map (add_tokens_to_basket fb xs) = fold_result map_add_token (basket_map fb) xs
    \<and> (case add_tokens_to_basket fb xs of Ok fb' \<Rightarrow> basket_wf fb' | _ \<Rightarrow> True)"
proof
  show "map_result basket_map (add_tokens_to_basket fb xs) = fold_result map_add_token (basket_map fb) xs"
    unfolding add_tokens_to_basket_def
    by (rule fold_refines [where I = basket_wf]) (use assms add_token_refines in blast)+
  show "case add_tokens_to_basket fb xs of Ok fb' \<Rightarrow> basket_wf fb' | _ \<Rightarrow> True"
    using add_tokens_wf [OF assms] by (auto split: result.split)
qed

definition sample_basket :: folio_basket where
  "sample_basket = \<lparr>fb_bump = 254, fb_folio = PK 9,
     fb_token_amounts = [\<lparr>fta_mint = PK 11, fta_amount = 500\<rparr>, \<lparr>fta_mint = PK 12, fta_amount = 70\<rparr>]
       @ replicate 98 default_folio_token_amount\<rparr>"

lemma sample_basket_wf: "basket_wf sample_basket"
  by (simp add: basket_wf_def sample_basket_def slots_wf_def used_keys_def default_pubkey_def
      default_folio_token_amount_def const_defs)

lemma sample_basket_map: "basket_map sample_basket = [PK 11 \<mapsto> 500, PK 12 \<mapsto> 70]"
proof
  fix m
  have "slot_of fta_mint (replicate 98 default_folio_token_amount) m = None" if "m \<noteq> default_pubkey"
    using that by (auto simp: slot_of_None_iff default_folio_token_amount_def)
  then show "basket_map sample_basket m = [PK 11 \<mapsto> 500, PK 12 \<mapsto> 70] m"
    by (cases "m = default_pubkey")
      (auto simp: basket_map_def sample_basket_def slot_of_def default_pubkey_def)
qed

theorem add_tokens_refines_map_witness:
  "map_result basket_map
     (add_tokens_to_basket sample_basket [\<lparr>fta_mint = PK 12, fta_amount = 5\<rparr>])
   = Ok [PK 11 \<mapsto> 500, PK 12 \<mapsto> 75]"
  using add_tokens_refines_map [OF sample_basket_wf, of "[\<lparr>fta_mint = PK 12, fta_amount = 5\<rparr>]"]
  by (simp add: sample_basket_map map_add_token_def default_pubkey_def)

text \<open>
  Removing tokens is exact: a vector of real mints can be removed only if every mint is in the
  basket with at least the sum asked for, and then every amount goes down by exactly that sum,
  while the slots stay well formed and no mint leaves the basket.
\<close>
theorem remove_tokens_exact:
  assumes "basket_wf fb" "default_pubkey \<notin> fta_mint ` set xs"
    and "remove_tokens_from_basket fb xs = Ok fb'"
  shows "basket_wf fb'
    \<and> basket_amount fb' m + sum_list (map fta_amount (filter (\<lambda>x. fta_mint x = m) xs)) = basket_amount fb m
    \<and> dom (basket_map fb') = dom (basket_map fb)"
proof -
  have r: "real_mints (map fta_pair xs)"
    using assms(2) by (force simp: real_mints_def fta_pair_def)
  have s: "sum_for m (map fta_pair xs) = sum_list (map fta_amount (filter (\<lambda>x. fta_mint x = m) xs))"
    by (induction xs) (simp_all add: fta_pair_def)
  have f: "fold_result basket_debit fb (map fta_pair xs) = Ok fb'"
    using assms(3) by (simp add: basket_fold_eqs)
  have "basket_wf fb' \<and> dom (basket_map fb') = dom (basket_map fb)"
  proof (rule fold_result_invariant [where I = "\<lambda>s. basket_wf s \<and> dom (basket_map s) = dom (basket_map fb)",
        OF _ _ f])
    fix s x s'
    assume a: "basket_wf s \<and> dom (basket_map s) = dom (basket_map fb)"
      "x \<in> set (map fta_pair xs)" "basket_debit s x = Ok s'"
    then have "fst x \<noteq> default_pubkey" using r by (force simp: real_mints_def)
    with a show "basket_wf s' \<and> dom (basket_map s') = dom (basket_map fb)"
      using basket_debit_effect [of s "fst x" "snd x" s'] by simp
  qed (use assms(1) in simp)
  with fb.debits [OF assms(1) r f] show ?thesis unfolding s [symmetric] by simp
qed

theorem remove_tokens_exact_witness:
  "\<exists>fb'. remove_tokens_from_basket sample_basket
        [\<lparr>fta_mint = PK 11, fta_amount = 200\<rparr>, \<lparr>fta_mint = PK 11, fta_amount = 300\<rparr>] = Ok fb'
     \<and> basket_amount fb' (PK 11) + 500 = basket_amount sample_basket (PK 11)"
proof -
  let ?xs = "[\<lparr>fta_mint = PK 11, fta_amount = 200\<rparr>, \<lparr>fta_mint = PK 11, fta_amount = 300\<rparr>]"
  obtain fb' where "remove_tokens_from_basket sample_basket ?xs = Ok fb'"
    by (simp add: remove_tokens_from_basket_def remove_token_from_basket_def find_fta_def
        sample_basket_def update_fta_def)
  with remove_tokens_exact [OF sample_basket_wf _ this, of "PK 11"] show ?thesis
    by (simp add: default_pubkey_def)
qed

end
