(* ===== verification/Auctions.thy ===== *)
theory Auctions
  imports RebalanceModel Basket
begin

text \<open>
  \<open>programs/folio/src/utils/accounts/auction.rs\<close> and \<open>auction_ends.rs\<close>: opening a dutch auction
  for a pair of mints of the running rebalance, its exponentially falling price, and the amounts
  of a bid. One \<open>AuctionEnds\<close> account per nonce and unordered pair of mints remembers when the
  last auction of that pair ends.
\<close>

section \<open>Auction ends\<close>

definition keys_pair_in_order :: "pubkey \<Rightarrow> pubkey \<Rightarrow> pubkey \<times> pubkey" where
  "keys_pair_in_order sell_token buy_token =
     (if sell_token < buy_token then (sell_token, buy_token) else (buy_token, sell_token))"

text \<open>The account that \<open>init_if_needed\<close> has just created.\<close>

definition default_auction_ends :: auction_ends where
  "default_auction_ends = \<lparr>ae_bump = 0, ae_rebalance_nonce = 0, token_mint_1 = default_pubkey,
     token_mint_2 = default_pubkey, end_time = 0\<rparr>"

definition auction_ends_process_init_if_needed ::
  "auction_ends \<Rightarrow> nat \<Rightarrow> pubkey \<Rightarrow> pubkey \<Rightarrow> nat \<Rightarrow> auction_ends result" where
  "auction_ends_process_init_if_needed self bump sell_token buy_token rebalance_nonce =
     (let (m1, m2) = keys_pair_in_order sell_token buy_token in
      if bump = ae_bump self \<and> m1 = token_mint_1 self \<and> m2 = token_mint_2 self then Ok self
      else Ok (self\<lparr>ae_bump := bump, ae_rebalance_nonce := rebalance_nonce, token_mint_1 := m1,
                    token_mint_2 := m2, end_time := 0\<rparr>))"

definition validate_auction_ends_with_keys_and_get_bump ::
  "find_pda \<Rightarrow> auction_ends \<Rightarrow> pubkey \<Rightarrow> pubkey \<Rightarrow> pubkey \<Rightarrow> pubkey \<Rightarrow> nat \<Rightarrow> nat result" where
  "validate_auction_ends_with_keys_and_get_bump find_pda self auction_ends_pubkey folio
       sell_token buy_token rebalance_nonce =
     (let keys = keys_pair_in_order sell_token buy_token;
          pubkey = find_pda [Bytes ''auction_ends'', Key folio, U64 rebalance_nonce,
            Key (fst keys), Key (snd keys)] FOLIO_PROGRAM_ID
      in check_condition (auction_ends_pubkey = fst pubkey) InvalidPda (Ok (ae_bump self)))"

definition validate_auction_ends ::
  "find_pda \<Rightarrow> auction_ends \<Rightarrow> pubkey \<Rightarrow> auction \<Rightarrow> pubkey \<Rightarrow> unit result" where
  "validate_auction_ends find_pda self auction_ends_pubkey auction folio =
     and_then (validate_auction_ends_with_keys_and_get_bump find_pda self auction_ends_pubkey folio
         (sell_mint auction) (buy_mint auction) (au_nonce auction)) (\<lambda>bump.
     check_condition (ae_bump self = bump) InvalidPda (Ok ()))"

section \<open>Validation\<close>

definition validate_auction :: "find_pda \<Rightarrow> auction \<Rightarrow> pubkey \<Rightarrow> pubkey \<Rightarrow> unit result" where
  "validate_auction find_pda self auction_pubkey folio_pubkey =
     check_condition
       ((auction_pubkey, au_bump self)
          = find_pda [Bytes ''auction'', Key folio_pubkey, U64 (au_nonce self), U64 (au_id self)]
              FOLIO_PROGRAM_ID) InvalidPda (Ok ())"

definition validate_auction_approve ::
  "basket_range \<Rightarrow> basket_range \<Rightarrow> prices_in_auction \<Rightarrow> nat \<Rightarrow> unit result" where
  "validate_auction_approve sell buy prices ttl =
     check_condition (high sell \<le> MAX_RATE \<and> low sell \<le> spot sell \<and> high sell \<ge> spot sell)
       InvalidSellLimit (
     check_condition (spot buy \<noteq> 0 \<and> high buy \<le> MAX_RATE \<and> low buy \<le> spot buy \<and> high buy \<ge> spot buy)
       InvalidBuyLimit (
     check_condition (price_start prices \<ge> price_end prices) InvalidPrices (
     check_condition (ttl \<le> MAX_TTL) InvalidTtl (Ok ()))))"

definition auction_length :: "auction \<Rightarrow> nat result" where
  "auction_length self = ok_or (checked_sub (au_end self) (au_start self)) MathOverflow"

definition try_get_status :: "auction \<Rightarrow> nat \<Rightarrow> auction_status option" where
  "try_get_status self current_time =
     (if au_start self = 0 \<and> au_end self = 0 then Some APPROVED
      else if au_start self \<le> current_time \<and> au_end self \<ge> current_time then Some Open
      else if au_end self < current_time then Some Closed
      else None)"

section \<open>Opening\<close>

text \<open>The tokens that the total supply stands for at an amount per share.\<close>

definition tokens_at_limit :: "decimal \<Rightarrow> nat \<Rightarrow> rounding \<Rightarrow> nat result" where
  "tokens_at_limit supply limit r =
     and_then (mul_div supply (from_scaled limit) D18) (\<lambda>d. to_token_amount d r)"

text \<open>\<open>price_ratio\<close>: a price of the sell token in buy tokens, from two prices of the rebalance.\<close>

definition price_ratio :: "nat \<Rightarrow> nat \<Rightarrow> nat result" where
  "price_ratio sell_price buy_price =
     and_then (mul_div (from_scaled sell_price) D18 (from_scaled buy_price)) (\<lambda>d. to_scaled d Ceiling)"

definition check_surplus_and_deficit ::
  "folio \<Rightarrow> folio_basket \<Rightarrow> nat \<Rightarrow> pubkey \<Rightarrow> pubkey \<Rightarrow> nat \<Rightarrow> nat \<Rightarrow> unit result" where
  "check_surplus_and_deficit f basket raw_supply sell buy spot_sell spot_buy =
     and_then (get_total_supply f raw_supply) (\<lambda>supply.
     and_then (tokens_at_limit supply spot_sell Ceiling) (\<lambda>sell_tokens.
     and_then (get_token_amount_in_folio_basket basket sell) (\<lambda>sell_balance.
     check_condition (sell_balance > sell_tokens) SellTokenNotSurplus (
     and_then (tokens_at_limit supply spot_buy Floor) (\<lambda>buy_tokens.
     check_condition (get_token_amount_in_folio_basket_or_zero basket buy < buy_tokens)
       BuyTokenNotDeficit (Ok ()))))))"

definition auction_prices ::
  "rebalance_details_token \<Rightarrow> rebalance_details_token \<Rightarrow> open_auction_config option
   \<Rightarrow> prices_in_auction result" where
  "auction_prices sell_details buy_details config =
     (if price_low (rd_prices buy_details) = 0 then
        (case config of
           None \<Rightarrow> Err AuctionCannotBeOpenedPermissionlesslyWithDeferredPrice
         | Some c \<Rightarrow> Ok (cfg_price c))
      else
        and_then (price_ratio (price_high (rd_prices sell_details)) (price_low (rd_prices buy_details)))
          (\<lambda>old_start.
        and_then (price_ratio (price_low (rd_prices sell_details)) (price_high (rd_prices buy_details)))
          (\<lambda>old_end.
        case config of
          Some c \<Rightarrow>
            and_then
              (if price_start (cfg_price c) \<ge> old_start then
                 and_then (plain_mul 128 100 old_start) (\<lambda>limit.
                 Ok (price_start (cfg_price c) \<le> limit \<and> price_end (cfg_price c) \<ge> old_end))
               else Ok False) (\<lambda>ok.
            check_condition ok InvalidPrices (Ok (cfg_price c)))
        | None \<Rightarrow> Ok \<lparr>price_start = old_start, price_end = old_end\<rparr>)))"

definition set_limits :: "rebalance \<Rightarrow> nat \<Rightarrow> nat \<Rightarrow> nat \<Rightarrow> nat \<Rightarrow> rebalance" where
  "set_limits rb i j spot_sell spot_buy =
     rb\<lparr>rb_tokens :=
       (let tokens = rb_tokens rb;
            sell_details = tokens ! i;
            tokens1 = tokens[i := sell_details\<lparr>rd_limits :=
              (rd_limits sell_details)\<lparr>spot := spot_sell, high := spot_sell\<rparr>\<rparr>];
            buy_details = tokens1 ! j
        in tokens1[j := buy_details\<lparr>rd_limits :=
              (rd_limits buy_details)\<lparr>spot := spot_buy, low := spot_buy\<rparr>\<rparr>])\<rparr>"

definition open_auction ::
  "auction \<Rightarrow> folio \<Rightarrow> pubkey \<Rightarrow> folio_basket \<Rightarrow> auction_ends \<Rightarrow> nat \<Rightarrow> rebalance \<Rightarrow> pubkey \<Rightarrow> pubkey
   \<Rightarrow> nat \<Rightarrow> nat \<Rightarrow> open_auction_config option \<Rightarrow> bool \<Rightarrow> (auction \<times> auction_ends \<times> rebalance) result" where
  "open_auction self f folio_pubkey basket ends raw_supply rb sell buy current_time auction_buffer
       config is_permissionless =
     check_condition (current_time \<le> available_until rb) AuctionTimeout (
     case get_token_details_pair rb sell buy of
       (Some sell_details, Some buy_details) \<Rightarrow>
         check_condition (\<not> is_permissionless
             \<or> (current_time \<ge> restricted_until rb \<and> current_time \<le> available_until rb))
           AuctionCannotBeOpenedPermissionlesslyYet (
         check_condition (\<not> is_permissionless \<or> price_low (rd_prices buy_details) \<noteq> 0)
           AuctionCannotBeOpenedPermissionlesslyWithDeferredPrice (
         and_then (plain_add 64 (started_at rb) auction_buffer) (\<lambda>earliest.
         check_condition (current_time \<ge> earliest \<and> current_time \<le> available_until rb
             \<and> rebalance_ready rb) FolioNotRebalancing (
         and_then (plain_add 64 (end_time ends) auction_buffer) (\<lambda>collision.
         check_condition (current_time > collision) AuctionCollision (
         let spot_sell = (case config of Some c \<Rightarrow> sell_limit_spot c
               | None \<Rightarrow> spot (rd_limits sell_details));
             spot_buy = (case config of Some c \<Rightarrow> buy_limit_spot c
               | None \<Rightarrow> spot (rd_limits buy_details))
         in
         check_condition (spot_sell \<ge> low (rd_limits sell_details)
             \<and> spot_sell \<le> high (rd_limits sell_details)) InvalidSellLimit (
         check_condition (spot_buy \<ge> low (rd_limits buy_details)
             \<and> spot_buy \<le> high (rd_limits buy_details)) InvalidBuyLimit (
         and_then (check_surplus_and_deficit f basket raw_supply sell buy spot_sell spot_buy) (\<lambda>_.
         and_then (auction_prices sell_details buy_details config) (\<lambda>prices.
         case get_token_details_pair_mut rb sell buy of
           (Some i, Some j) \<Rightarrow>
             (let rb1 = set_limits rb i j spot_sell spot_buy in
              and_then (get_next_auction_id rb1) (\<lambda>auction_index.
              and_then (plain_add 64 current_time (folio_auction_length f)) (\<lambda>end_at.
              let self1 = self\<lparr>au_id := auction_index, au_nonce := rb_nonce rb1, sell_mint := sell,
                    buy_mint := buy, au_start := current_time, au_end := end_at,
                    au_prices := prices, sell_limit := spot_sell, buy_limit := spot_buy,
                    au_folio := folio_pubkey\<rparr>
              in
              and_then (auction_length self1) (\<lambda>len.
              and_then (plain_add 64 current_time len) (\<lambda>ends_at.
              Ok (self1, ends\<lparr>end_time := ends_at\<rparr>, rb1\<lparr>current_auction_id := auction_index\<rparr>))))))
         | _ \<Rightarrow> Panic))))))))))
     | _ \<Rightarrow> Err TokensNotAvailableForRebalance)"

section \<open>Price\<close>

definition calculate_k :: "auction \<Rightarrow> nat result" where
  "calculate_k self =
     and_then (auction_length self) (\<lambda>len.
     and_then (mul_div (from_scaled (price_start (au_prices self))) D18
         (from_scaled (price_end (au_prices self)))) (\<lambda>ratio.
     and_then (and_then (ln_dec ratio) unwrap) (\<lambda>l.
     and_then (dec_div l (from_scaled len)) (\<lambda>d. to_scaled d Floor))))"

definition get_price :: "auction \<Rightarrow> nat \<Rightarrow> nat result" where
  "get_price self current_time =
     check_condition (current_time \<ge> au_start self \<and> current_time \<le> au_end self) AuctionNotOngoing (
     if current_time = au_start self then Ok (price_start (au_prices self))
     else if current_time = au_end self then Ok (price_end (au_prices self))
     else
       and_then (ok_or (checked_sub current_time (au_start self)) MathOverflow) (\<lambda>elapsed.
       and_then (calculate_k self) (\<lambda>k.
       and_then (dec_mul (from_scaled k) (from_scaled elapsed)) (\<lambda>time_value.
       and_then (and_then (exp_dec time_value True) unwrap) (\<lambda>exponent.
       and_then (and_then (mul_div (from_scaled (price_start (au_prices self))) exponent D18)
           (\<lambda>d. to_scaled d Ceiling)) (\<lambda>p.
       if p < price_end (au_prices self) then Ok (price_end (au_prices self)) else Ok p))))))"

section \<open>Bids\<close>

definition get_bid ::
  "auction \<Rightarrow> folio \<Rightarrow> folio_basket \<Rightarrow> nat \<Rightarrow> nat \<Rightarrow> nat \<Rightarrow> nat
   \<Rightarrow> (nat \<times> nat \<times> decimal \<times> decimal) result" where
  "get_bid self f basket raw_supply current_time raw_sell_amount raw_max_buy_amount =
     and_then (get_price self current_time) (\<lambda>price.
     and_then (get_total_supply f raw_supply) (\<lambda>supply.
     and_then (get_token_amount_in_folio_basket basket (sell_mint self)) (\<lambda>raw_sell_balance.
     and_then (and_then (mul_div (from_scaled (sell_limit self)) supply D18)
         (\<lambda>d. to_token_amount d Ceiling)) (\<lambda>raw_limit_sell_balance.
     let raw_sell_available = saturating_sub raw_sell_balance raw_limit_sell_balance;
         raw_buy_balance = get_token_amount_in_folio_basket_or_zero basket (buy_mint self)
     in
     and_then (and_then (mul_div (from_scaled (buy_limit self)) supply D18)
         (\<lambda>d. to_token_amount d Floor)) (\<lambda>buy_limit_balance.
     let buy_amount_available = saturating_sub buy_limit_balance raw_buy_balance in
     and_then (from_token_amount buy_amount_available) (\<lambda>buy_available.
     and_then (and_then (mul_div buy_available D18 (from_scaled price))
         (\<lambda>d. to_token_amount d Floor)) (\<lambda>sell_available_from_buy.
     let sell_amount_available = min sell_available_from_buy raw_sell_available in
     check_condition (sell_amount_available \<ge> raw_sell_amount) InsufficientBalance (
     and_then (from_token_amount raw_sell_amount) (\<lambda>sell_amount.
     and_then (and_then (mul_div sell_amount (from_scaled price) D18)
         (\<lambda>d. to_token_amount d Floor)) (\<lambda>bid_amount.
     check_condition (bid_amount \<noteq> 0 \<and> bid_amount \<le> raw_max_buy_amount) SlippageExceeded (
     Ok (sell_amount_available, bid_amount, from_scaled price, supply))))))))))))"

end
