(* ===== verification/PriceCurve.thy ===== *)
theory PriceCurve
  imports Auctions
begin

text \<open>
  The price of a dutch auction as a function of time: it stays in the band of the auction, it
  never rises, and its fixed-point computation (\<open>ln\<close>, then \<open>exp\<close>, on 256 bits) never fails for
  an auction whose prices are within a factor of \<open>2 ^ 20\<close> of each other, which covers what the
  rules for opening an auction allow.
\<close>

section \<open>Monotonicity of the exponential\<close>

lemma exp_loop_step:
  assumes "exp_loop n x t r = Ok a" "n \<le> MAX_ITERATIONS" "0 < n"
  obtains t1 where "t1 = t * x div (n * D18)"
    "if t1 < EPSILON then a = r + t1 else exp_loop (n + 1) x t1 (r + t1) = Ok a"
  using assms by (subst (asm) exp_loop.simps) (auto split: if_splits)

lemma exp_loop_mono_args:
  "exp_loop n x t r = Ok a \<Longrightarrow> exp_loop n x' t' r' = Ok b \<Longrightarrow> 0 < n \<Longrightarrow>
     x \<le> x' \<Longrightarrow> t \<le> t' \<Longrightarrow> r \<le> r' \<Longrightarrow> a \<le> b"
proof (induction "MAX_ITERATIONS + 1 - n" arbitrary: n t r t' r')
  case 0
  then have "\<not> n \<le> MAX_ITERATIONS" by simp
  with 0 show ?case by (subst (asm) exp_loop.simps, subst (asm) exp_loop.simps) simp
next
  case (Suc d)
  then have n: "n \<le> MAX_ITERATIONS" by simp
  obtain t1 where t1: "t1 = t * x div (n * D18)"
    "if t1 < EPSILON then a = r + t1 else exp_loop (n + 1) x t1 (r + t1) = Ok a"
    using exp_loop_step [OF Suc.prems(1) n Suc.prems(3)] .
  obtain t2 where t2: "t2 = t' * x' div (n * D18)"
    "if t2 < EPSILON then b = r' + t2 else exp_loop (n + 1) x' t2 (r' + t2) = Ok b"
    using exp_loop_step [OF Suc.prems(2) n Suc.prems(3)] .
  have le: "t1 \<le> t2" unfolding t1(1) t2(1) using Suc.prems by (intro div_le_mono mult_le_mono)
  show ?case
  proof (cases "t1 < EPSILON")
    case True
    have "r' + t2 \<le> b" using t2(2) exp_loop_mono [of "n + 1" x' t2 "r' + t2" b] by (auto split: if_splits)
    with True t1(2) le Suc.prems(6) show ?thesis by simp
  next
    case False
    then have "exp_loop (n + 1) x t1 (r + t1) = Ok a" "exp_loop (n + 1) x' t2 (r' + t2) = Ok b"
      using t1(2) t2(2) le by auto
    from Suc.hyps(1) [OF _ this] Suc.hyps(2) Suc.prems le show ?thesis by simp
  qed
qed

lemma exp_dec_neg_antimono:
  assumes "exp_dec x True = Ok (Some a)" "exp_dec y True = Ok (Some b)" "x \<le> y"
  shows "b \<le> a"
proof (cases "x = 0")
  case True
  with assms show ?thesis using exp_dec_neg_le_one by auto
next
  case False
  with assms obtain ex ey where e: "exp_loop 1 x D18 D18 = Ok ex" "exp_loop 1 y D18 D18 = Ok ey"
    "a = D18 * D18 div ex" "b = D18 * D18 div ey"
    by (auto simp: exp_dec_def split: if_splits)
  have "ex \<le> ey" using exp_loop_mono_args [OF e(1,2)] assms(3) by simp
  moreover have "D18 \<le> ex" using e(1) by (rule exp_loop_mono)
  then have "0 < ex" using D18_pos(1) by linarith
  ultimately show ?thesis unfolding e(3,4) by (intro div_le_mono2)
qed

section \<open>The price\<close>

lemma get_price_mid:
  assumes "get_price a t = Ok p" "au_start a < t" "t < au_end a"
  obtains k e where "calculate_k a = Ok k" "exp_dec (k * (t - au_start a)) True = Ok (Some e)"
    "e \<le> D18" "p = max (price_end (au_prices a)) (scaled_up (price_start (au_prices a) * e div D18))"
proof -
  from assms obtain k e q where "calculate_k a = Ok k"
    "exp_dec (k * (t - au_start a)) True = Ok (Some e)"
    "to_scaled (price_start (au_prices a) * e div D18) Ceiling = Ok q"
    "p = (if q < price_end (au_prices a) then price_end (au_prices a) else q)"
    by (auto simp: get_price_def from_scaled_def split: if_splits)
  then show ?thesis
    by (intro that [of k e]) (auto dest: exp_dec_neg_le_one to_scaled_Ceiling_eq)
qed

lemma get_price_times: "get_price a t = Ok p \<Longrightarrow> au_start a \<le> t \<and> t \<le> au_end a"
  by (simp add: get_price_def)

lemma get_price_start: "get_price a t = Ok p \<Longrightarrow> t = au_start a \<Longrightarrow> p = price_start (au_prices a)"
  by (simp add: get_price_def)

lemma get_price_end:
  "get_price a t = Ok p \<Longrightarrow> t = au_end a \<Longrightarrow> au_start a < t \<Longrightarrow> p = price_end (au_prices a)"
  by (simp add: get_price_def)

section \<open>Bounds for the logarithm and the exponential\<close>

lemma E_D18_ge: "2 * D18 \<le> E_D18" by (simp add: const_defs)

lemma ln_down_total:
  "x < 2 ^ 190 \<Longrightarrow> D18 \<le> x \<Longrightarrow>
     \<exists>y q. ln_down x p = Ok (y, q) \<and> D18 \<le> y \<and> y < E_D18 \<and> p \<le> q \<and> 2 ^ nat (q - p) * y \<le> x"
proof (induction x p rule: ln_down.induct)
  case (1 x p)
  show ?case
  proof (cases "x \<ge> E_D18")
    case True
    define x' where "x' = x * D18 div E_D18"
    have "x * D18 \<le> 2 ^ 190 * 2 ^ 60"
      using "1.prems"(1) by (intro mult_le_mono) (simp_all add: const_defs)
    also have "\<dots> < (2::nat) ^ 256" by simp
    finally have m: "mul_div x D18 E_D18 = Ok x'" by (simp add: x'_def) (simp add: const_defs)
    have half: "2 * x' \<le> x"
    proof -
      have "x' * E_D18 \<le> x * D18" by (simp add: x'_def)
      moreover have "x' * (2 * D18) \<le> x' * E_D18" using E_D18_ge by (rule mult_le_mono2)
      ultimately have "(2 * x') * D18 \<le> x * D18" by linarith
      then show ?thesis by simp
    qed
    have "E_D18 * D18 div E_D18 \<le> x'" unfolding x'_def using True by (intro div_le_mono) simp
    then have "D18 \<le> x'" by (simp add: const_defs)
    moreover have "x' < 2 ^ 190" using half "1.prems"(1) by linarith
    ultimately obtain y q where IH: "ln_down x' (p + 1) = Ok (y, q)" "D18 \<le> y" "y < E_D18"
      "p + 1 \<le> q" "2 ^ nat (q - (p + 1)) * y \<le> x'"
      using "1.IH" [OF True m] by blast
    have "nat (q - p) = Suc (nat (q - (p + 1)))" using IH(4) by linarith
    then have "2 ^ nat (q - p) * y \<le> x" using IH(5) half by simp
    moreover have "ln_down x p = Ok (y, q)" using True m IH(1) by (subst ln_down.simps) simp
    ultimately show ?thesis using IH by (intro exI [of _ y] exI [of _ q]) simp
  next
    case False
    with "1.prems" show ?thesis by (intro exI [of _ x] exI [of _ p]) (subst ln_down.simps, simp)
  qed
qed

lemma ln_series_total:
  assumes "4 * z2 \<le> D18" "r + 2 * t \<le> 4 * D18" "0 < n"
  shows "\<exists>y. ln_series n z2 t r = Ok y \<and> y \<le> r + 2 * t"
  using assms(2,3)
proof (induction "MAX_ITERATIONS + 1 - n" arbitrary: n t r)
  case 0
  then show ?case by (subst ln_series.simps) simp
next
  case (Suc d)
  then have n: "n \<le> MAX_ITERATIONS" by simp
  define q t1 where "q = t div (2 * n - 1)" and "t1 = t * z2 div D18"
  have q: "q \<le> t" by (simp add: q_def)
  have sh: "4 * t1 \<le> t"
  proof -
    have "t1 * D18 \<le> t * z2" by (simp add: t1_def)
    moreover have "t * (4 * z2) \<le> t * D18" using assms(1) by (rule mult_le_mono2)
    ultimately have "(4 * t1) * D18 \<le> t * D18" by linarith
    then show ?thesis by simp
  qed
  have "t * z2 \<le> (2 * D18) * D18" using Suc.prems(1) assms(1) by (intro mult_le_mono) simp_all
  then have f1: "mul_div t z2 D18 = Ok t1" by (simp add: t1_def) (simp add: const_defs)
  have f2: "dec_div t (from_scaled (2 * n - 1)) = Ok q"
    using Suc.prems(2) by (simp add: q_def from_scaled_def)
  have "r + q \<le> 4 * D18" using q Suc.prems(1) by simp
  then have f3: "dec_add r q = Ok (r + q)" by (simp add: const_defs)
  have unfold: "ln_series n z2 t r =
      (if t1 < EPSILON then Ok (r + q) else ln_series (n + 1) z2 t1 (r + q))"
    by (subst ln_series.simps) (simp only: if_P [OF n] f1 f2 f3 and_then_simps)
  have "\<exists>y. ln_series (n + 1) z2 t1 (r + q) = Ok y \<and> y \<le> (r + q) + 2 * t1"
    using Suc.hyps(2) sh q Suc.prems by (intro Suc.hyps(1)) auto
  then show ?case unfolding unfold using sh q by fastforce
qed

text \<open>\<open>(y - 1) / (y + 1)\<close> below one half for \<open>y < e\<close>.\<close>

lemma ln_z_bounds:
  assumes "D18 \<le> y" "y < E_D18"
  shows "2 * ((y - D18) * D18 div (y + D18)) \<le> D18"
    and "z = (y - D18) * D18 div (y + D18) \<Longrightarrow> 4 * (z * z div D18) \<le> D18"
proof -
  let ?z = "(y - D18) * D18 div (y + D18)"
  have "2 * (y - D18) \<le> y + D18" using assms by (simp add: const_defs)
  then have "(2 * (y - D18)) * D18 \<le> D18 * (y + D18)" by (metis mult.commute mult_le_mono1)
  moreover have "?z * (y + D18) \<le> (y - D18) * D18" by simp
  ultimately have "(2 * ?z) * (y + D18) \<le> D18 * (y + D18)" by linarith
  then show z: "2 * ?z \<le> D18" by simp
  show "4 * (z * z div D18) \<le> D18" if "z = ?z"
  proof -
    have "(2 * z) * (2 * z) \<le> D18 * D18" using z that by (intro mult_le_mono) simp_all
    moreover have "(z * z div D18) * D18 \<le> z * z" by simp
    ultimately have "(4 * (z * z div D18)) * D18 \<le> D18 * D18" by linarith
    then show ?thesis by simp
  qed
qed

text \<open>The logarithm of a number between one and \<open>2 ^ 20\<close> is computed and is at most 22.\<close>

lemma ln_dec_total:
  assumes "D18 \<le> x" "x < 2 ^ 20 * D18"
  shows "\<exists>l. ln_dec x = Ok (Some l) \<and> l \<le> 22 * D18"
proof (cases "x = D18")
  case False
  have x190: "x < 2 ^ 190" using assms(2) by (simp add: const_defs)
  obtain y q where d: "ln_down x 0 = Ok (y, q)" "D18 \<le> y" "y < E_D18" "0 \<le> q" "2 ^ nat q * y \<le> x"
    using ln_down_total [OF x190 assms(1), of 0] by auto
  have "2 ^ nat q * D18 < 2 ^ 20 * D18"
    using d(2,5) assms(2) by (meson le_less_trans mult_le_mono2)
  then have "(2::nat) ^ nat q < 2 ^ 20" by simp
  then have "nat q < 20" by (simp only: power_strict_increasing_iff)
  then have q: "nat \<bar>q\<bar> \<le> 19" using d(4) by simp
  define z where "z = (y - D18) * D18 div (y + D18)"
  note zb = ln_z_bounds [OF d(2,3)]
  have z: "2 * z \<le> D18" "4 * (z * z div D18) \<le> D18" using zb by (simp_all add: z_def)
  obtain r where r: "ln_series 1 (z * z div D18) z 0 = Ok r" "r \<le> 2 * z"
    using ln_series_total [of "z * z div D18" 0 z 1] z by auto
  have up: "ln_up x 0 = Ok (x, 0)" using assms(1) by (subst ln_up.simps) simp
  have "(y - D18) * D18 \<le> E_D18 * D18" using d(3) by (intro mult_le_mono1) simp
  then have f1: "mul_div (y - D18) D18 (y + D18) = Ok z" "dec_add y D18 = Ok (y + D18)"
    "dec_sub y D18 = Ok (y - D18)"
    using d(2,3) by (simp_all add: z_def) (simp_all add: const_defs)
  have "z * z \<le> D18 * D18" using z(1) by (intro mult_le_mono) simp_all
  then have f2: "mul_div z z D18 = Ok (z * z div D18)" by simp (simp add: const_defs)
  have r2: "r * 2 \<le> 2 * D18" using r(2) z(1) by simp
  then have f3: "dec_mul r (from_scaled 2) = Ok (r * 2)" by (simp add: from_scaled_def) (simp add: const_defs)
  have p19: "D18 * nat \<bar>q\<bar> \<le> 19 * D18" using q by simp
  then have f4: "dec_mul D18 (from_scaled (nat \<bar>q\<bar>)) = Ok (D18 * nat \<bar>q\<bar>)"
    by (simp add: from_scaled_def) (simp add: const_defs)
  have f5: "dec_add (r * 2) (D18 * nat \<bar>q\<bar>) = Ok (r * 2 + D18 * nat \<bar>q\<bar>)"
    using p19 r2 by simp (simp add: const_defs)
  have "x \<noteq> 0" using assms(1) D18_pos(1) by linarith
  then have ln: "ln_dec x = and_then (if q \<noteq> 0 then if q > 0 then Ok (r * 2 + D18 * nat \<bar>q\<bar>)
        else dec_sub (r * 2) (D18 * nat \<bar>q\<bar>) else Ok (r * 2)) (\<lambda>f. Ok (Some f))"
    unfolding ln_dec_def is_zero_def if_not_P [OF False]
    by (simp only: if_False up d(1) and_then_simps prod.case f1 f2 r(1) f3 f4 f5)
  have "r * 2 + D18 * nat \<bar>q\<bar> \<le> 22 * D18" using p19 r2 by linarith
  then show ?thesis unfolding ln using d(4) by (cases "q = 0") auto
qed (intro exI [of _ 0], simp)

lemma exp_loop_total:
  assumes "x \<le> 22 * D18" "0 < n" "n \<le> MAX_ITERATIONS + 1"
    and "t \<le> D18 * 22 ^ min (n - 1) 22" "r \<le> n * (D18 * 22 ^ 22)"
  shows "\<exists>y. exp_loop n x t r = Ok y"
  using assms(2-5)
proof (induction "MAX_ITERATIONS + 1 - n" arbitrary: n t r)
  case 0
  then show ?case by (subst exp_loop.simps) simp
next
  case (Suc d)
  then have n: "n \<le> MAX_ITERATIONS" by simp
  define t1 where "t1 = t * x div (n * D18)"
  have t22: "t \<le> D18 * 22 ^ 22"
    using Suc.prems(3) by (rule order_trans) (intro mult_le_mono2 power_increasing, simp_all)
  have tn: "t1 * n \<le> t * 22"
  proof -
    have "t * x \<le> t * (22 * D18)" using assms(1) by (rule mult_le_mono2)
    moreover have "t1 * (n * D18) \<le> t * x" by (simp add: t1_def)
    ultimately have "t1 * (n * D18) \<le> t * (22 * D18)" by (rule order_trans [rotated])
    then have "(t1 * n) * D18 \<le> (t * 22) * D18" by (simp only: mult.assoc)
    then show ?thesis by simp
  qed
  have t1: "t1 \<le> D18 * 22 ^ min n 22"
  proof (cases "n \<le> 22")
    case True
    have "t1 \<le> t1 * n" using Suc.prems(1) by simp
    also have "\<dots> \<le> (D18 * 22 ^ (n - 1)) * 22" using tn Suc.prems(3) True by simp
    also have "\<dots> = D18 * 22 ^ n" using Suc.prems(1) by (cases n) simp_all
    finally show ?thesis using True by simp
  next
    case False
    then have "t1 * 22 \<le> t1 * n" by (intro mult_le_mono2) simp
    then have "t1 * 22 \<le> t * 22" using tn by (rule order_trans)
    then have "t1 \<le> t" by simp
    then show ?thesis using t22 False by simp
  qed
  then have t1': "t1 \<le> D18 * 22 ^ 22" by (rule order_trans) (intro mult_le_mono2 power_increasing, simp_all)
  have "t * x \<le> (D18 * 22 ^ 22) * (22 * D18)" using t22 assms(1) by (rule mult_le_mono)
  then have f1: "dec_mul t x = Ok (t * x)" by simp (simp add: const_defs)
  have "n * D18 \<le> 100 * D18" using n by (intro mult_le_mono1) (simp add: const_defs)
  then have f2: "from_plain n = Ok (n * D18)" by simp (simp add: const_defs)
  have f3: "dec_div (t * x) (n * D18) = Ok t1" using Suc.prems(1) by (simp add: t1_def)
  have r1: "r + t1 \<le> (n + 1) * (D18 * 22 ^ 22)" using Suc.prems(4) t1' by (simp add: add_mult_distrib)
  also have "\<dots> \<le> 101 * (D18 * 22 ^ 22)" using n by (intro mult_le_mono1) (simp add: const_defs)
  finally have f4: "dec_add r t1 = Ok (r + t1)" by simp (simp add: const_defs)
  have unfold: "exp_loop n x t r = (if t1 < EPSILON then Ok (r + t1) else exp_loop (n + 1) x t1 (r + t1))"
    by (subst exp_loop.simps) (simp only: if_P [OF n] f1 f2 f3 f4 and_then_simps)
  have "\<exists>y. exp_loop (n + 1) x t1 (r + t1) = Ok y"
    using Suc.hyps(2) n t1 r1 by (intro Suc.hyps(1)) auto
  then show ?case unfolding unfold by auto
qed

lemma exp_dec_neg_total:
  assumes "x \<le> 22 * D18"
  shows "\<exists>e. exp_dec x True = Ok (Some e) \<and> e \<le> D18"
proof (cases "x = 0")
  case False
  obtain y where y: "exp_loop 1 x D18 D18 = Ok y"
    using exp_loop_total [OF assms, of 1 D18 D18] by (auto simp: MAX_ITERATIONS_def)
  then have "D18 \<le> y" by (rule exp_loop_mono)
  then have "y \<noteq> 0" using D18_pos(1) by linarith
  then have "exp_dec x True = Ok (Some (D18 * D18 div y))"
    using False y by (simp add: exp_dec_def checked_mul_def checked_div_def D18_def)
  then show ?thesis using exp_dec_neg_le_one by blast
qed simp

lemma get_price_total:
  assumes "au_start a \<le> t" "t \<le> au_end a"
    and "0 < price_end (au_prices a)" "price_end (au_prices a) \<le> price_start (au_prices a)"
    and "price_start (au_prices a) < 2 ^ 20 * price_end (au_prices a)"
    and "fits 128 (price_start (au_prices a))" "fits 64 (au_end a)"
  shows "\<exists>p. get_price a t = Ok p"
proof (cases "au_start a < t \<and> t < au_end a")
  case True
  let ?P = "price_start (au_prices a)" and ?Q = "price_end (au_prices a)"
  let ?len = "au_end a - au_start a" and ?el = "t - au_start a"
  have P: "?P < 2 ^ 128" using assms(6) by (simp add: fits_def)
  have "?P * D18 \<le> 2 ^ 128 * 2 ^ 60" using P by (intro mult_le_mono) (simp_all add: const_defs)
  then have m: "mul_div (from_scaled ?P) D18 (from_scaled ?Q) = Ok (?P * D18 div ?Q)"
    using assms(3) by (simp add: from_scaled_def)
  have "?Q * D18 div ?Q \<le> ?P * D18 div ?Q" using assms(4) by (intro div_le_mono mult_le_mono1)
  then have lo: "D18 \<le> ?P * D18 div ?Q" using assms(3) by simp
  have "?P * D18 < (2 ^ 20 * ?Q) * D18" using assms(5) by simp
  then have hi: "?P * D18 div ?Q < 2 ^ 20 * D18" by (simp add: less_mult_imp_div_less mult.commute mult.left_commute)
  obtain l where l: "ln_dec (?P * D18 div ?Q) = Ok (Some l)" "l \<le> 22 * D18"
    using ln_dec_total [OF lo hi] by blast
  define k where "k = l div ?len"
  have kl: "k \<le> 22 * D18" using l(2) unfolding k_def by (meson div_le_dividend le_trans)
  have "22 * D18 \<le> U128_MAX" by (simp add: const_defs U128_MAX_def)
  with kl have "min k U128_MAX = k" by linarith
  then have k: "calculate_k a = Ok k"
    using True unfolding calculate_k_def auction_length_def m and_then_simps l(1)
    by (simp add: checked_sub_def from_scaled_def k_def dec_div_def checked_div_def)
  have "k * ?el \<le> k * ?len" using True by (intro mult_le_mono2 diff_le_mono) simp
  also have "\<dots> \<le> l" by (simp add: k_def)
  finally have kel: "k * ?el \<le> 22 * D18" using l(2) by simp
  then have tv: "dec_mul (from_scaled k) (from_scaled ?el) = Ok (k * ?el)"
    by (simp add: from_scaled_def) (simp add: const_defs)
  obtain e where e: "exp_dec (k * ?el) True = Ok (Some e)" "e \<le> D18"
    using exp_dec_neg_total [OF kel] by blast
  have "?P * e \<le> 2 ^ 128 * D18" using P e(2) by (intro mult_le_mono) simp_all
  then have pe: "mul_div (from_scaled ?P) e D18 = Ok (?P * e div D18)" "?P * e div D18 + 1 < 2 ^ 256"
    by (simp_all add: from_scaled_def const_defs div_less_iff_less_mult)
  then have "\<exists>q. to_scaled (?P * e div D18) Ceiling = Ok q"
    by (simp add: to_scaled_def checked_add_def)
  then show ?thesis
    using True by (auto simp: get_price_def checked_sub_def k tv e(1) pe(1))
next
  case False
  then have "t = au_start a \<or> t = au_end a" using assms(1,2) by auto
  then show ?thesis using assms(1,2) by (auto simp: get_price_def)
qed

section \<open>A concrete auction\<close>

definition sample_auction :: auction where
  "sample_auction = \<lparr>au_bump = 255, au_id = 1, au_nonce = 1, au_folio = PK 1002, sell_mint = PK 11,
     buy_mint = PK 12, sell_limit = 300000000000000000, buy_limit = 200000000000000000,
     au_start = 100, au_end = 3700,
     au_prices = \<lparr>price_start = 2000000000000000000, price_end = 1000000000000000000\<rparr>\<rparr>"

lemma sample_price_total: "100 \<le> t \<Longrightarrow> t \<le> 3700 \<Longrightarrow> \<exists>p. get_price sample_auction t = Ok p"
  by (rule get_price_total) (simp_all add: sample_auction_def fits_def)

section \<open>Properties\<close>

text \<open>
  The price of a running auction stays in its band: never below the end price, and, for
  prices in order, never more than one unit of \<open>10 ^ (- 18)\<close> above the start price; it is the
  start price when the auction starts and the end price when it ends.
\<close>
theorem price_in_band:
  assumes "get_price a t = Ok p" "price_end (au_prices a) \<le> price_start (au_prices a)"
  shows "au_start a \<le> t \<and> t \<le> au_end a
    \<and> price_end (au_prices a) \<le> p \<and> p \<le> price_start (au_prices a) + 1
    \<and> (t = au_start a \<longrightarrow> p = price_start (au_prices a))
    \<and> (t = au_end a \<and> au_start a < au_end a \<longrightarrow> p = price_end (au_prices a))"
proof -
  note tt = get_price_times [OF assms(1)]
  have "price_end (au_prices a) \<le> p \<and> p \<le> price_start (au_prices a) + 1"
  proof (cases "au_start a < t \<and> t < au_end a")
    case True
    with assms(1) obtain e where "e \<le> D18"
      "p = max (price_end (au_prices a)) (scaled_up (price_start (au_prices a) * e div D18))"
      using get_price_mid by blast
    moreover have "price_start (au_prices a) * e div D18 \<le> price_start (au_prices a) * D18 div D18"
      using \<open>e \<le> D18\<close> by (intro div_le_mono mult_le_mono2)
    then have "scaled_up (price_start (au_prices a) * e div D18) \<le> price_start (au_prices a) + 1"
      using scaled_up_le [of "price_start (au_prices a) * e div D18"] by simp
    ultimately show ?thesis using assms(2) by simp
  next
    case False
    then have "t = au_start a \<or> t = au_end a \<and> au_start a < t" using tt by auto
    with get_price_start [OF assms(1)] get_price_end [OF assms(1)] assms(2) show ?thesis by auto
  qed
  with tt get_price_start [OF assms(1)] get_price_end [OF assms(1)] show ?thesis by auto
qed

theorem price_in_band_witness:
  "get_price sample_auction 3700 = Ok 1000000000000000000 \<and> (1000000000000000000::nat) \<le> 2000000000000000001"
proof -
  have "get_price sample_auction 3700 = Ok 1000000000000000000"
    by (simp add: get_price_def sample_auction_def)
  from price_in_band [OF this] this show ?thesis by (simp add: sample_auction_def)
qed

text \<open>
  C35: The price of an auction never rises while it runs: of two times after the start, the later
  one has the lower price, or the same.
\<close>
theorem price_never_rises:
  assumes "get_price a t = Ok p" "get_price a t' = Ok p'"
    and "au_start a < t" "t \<le> t'" "price_end (au_prices a) \<le> price_start (au_prices a)"
  shows "p' \<le> p"
proof (cases "t' < au_end a")
  case True
  let ?P = "price_start (au_prices a)" and ?Q = "price_end (au_prices a)"
  obtain k e where e: "calculate_k a = Ok k" "exp_dec (k * (t - au_start a)) True = Ok (Some e)"
    "p = max ?Q (scaled_up (?P * e div D18))"
    using get_price_mid [OF assms(1,3)] assms(4) True by (metis le_less_trans)
  obtain k' e' where e': "calculate_k a = Ok k'" "exp_dec (k' * (t' - au_start a)) True = Ok (Some e')"
    "p' = max ?Q (scaled_up (?P * e' div D18))"
    using get_price_mid [OF assms(2) _ True] assms(3,4) by (metis less_le_trans)
  have "k * (t - au_start a) \<le> k' * (t' - au_start a)"
    using e(1) e'(1) assms(4) by (simp add: diff_le_mono)
  then have "e' \<le> e" using exp_dec_neg_antimono [OF e(2) e'(2)] by simp
  then have "scaled_up (?P * e' div D18) \<le> scaled_up (?P * e div D18)"
    by (intro scaled_up_mono div_le_mono mult_le_mono2)
  then show ?thesis unfolding e(3) e'(3) by simp
next
  case False
  then have "t' = au_end a" using get_price_times [OF assms(2)] by simp
  then have "p' = price_end (au_prices a)" using get_price_end [OF assms(2)] assms(3,4) by simp
  then show ?thesis using price_in_band [OF assms(1,5)] by simp
qed

theorem price_never_rises_witness:
  "\<exists>p p'. get_price sample_auction 1900 = Ok p \<and> get_price sample_auction 2800 = Ok p' \<and> p' \<le> p"
proof -
  obtain p p' where p: "get_price sample_auction 1900 = Ok p" "get_price sample_auction 2800 = Ok p'"
    using sample_price_total [of 1900] sample_price_total [of 2800] by auto
  moreover have "p' \<le> p" by (rule price_never_rises [OF p]) (simp_all add: sample_auction_def)
  ultimately show ?thesis by blast
qed

text \<open>
  C34: The price of an auction can always be computed: while an auction runs whose start price is
  at least its end price and less than \<open>2 ^ 20\<close> times as high, neither the logarithm nor the
  exponential overflows or gives up.
\<close>
theorem price_always_computable:
  assumes "au_start a \<le> t" "t \<le> au_end a"
    and "0 < price_end (au_prices a)" "price_end (au_prices a) \<le> price_start (au_prices a)"
    and "price_start (au_prices a) < 2 ^ 20 * price_end (au_prices a)"
    and "fits 128 (price_start (au_prices a))" "fits 64 (au_end a)"
  shows "\<exists>p. get_price a t = Ok p"
  by (rule get_price_total [OF assms])

theorem price_always_computable_witness:
  "\<exists>p. get_price sample_auction 1900 = Ok p"
  by (rule price_always_computable)
     (simp_all add: sample_auction_def fits_def)

text \<open>
  A flat auction (start price equal to end price) is more expensive in the middle than at
  either end: the rounding of \<open>to_scaled\<close> adds one unit to a price that needs no rounding, so
  every bid strictly inside the auction is priced above the start price.
\<close>
theorem flat_price_above_start:
  assumes "price_start (au_prices a) = P" "price_end (au_prices a) = P"
    and "0 < P" "P mod D18 \<noteq> 0" "P + 1 < 2 ^ 128" "au_start a < t" "t < au_end a"
  shows "get_price a t = Ok (P + 1)"
proof -
  have "P * D18 \<le> 2 ^ 128 * 2 ^ 60" using assms(5) by (intro mult_le_mono) (simp_all add: const_defs)
  then have m: "mul_div P D18 P = Ok D18" using assms(3) by simp
  have k: "calculate_k a = Ok 0"
    using assms(3,6,7) by (simp add: calculate_k_def auction_length_def assms(1,2) checked_sub_def m
        from_scaled_def dec_div_def checked_div_def)
  have d: "mul_div P D18 D18 = Ok P" using \<open>P * D18 \<le> 2 ^ 128 * 2 ^ 60\<close> by simp
  have c: "to_scaled P Ceiling = Ok (P + 1)"
    using assms(4,5) by (simp add: to_scaled_def checked_add_def U128_MAX_def)
  show ?thesis
    using assms(6,7) by (simp add: get_price_def checked_sub_def k dec_mul_def checked_mul_def
        from_scaled_def assms(1,2) d c)
qed

theorem flat_price_above_start_witness:
  "get_price (sample_auction\<lparr>au_prices := \<lparr>price_start = 1500000000000000000,
     price_end = 1500000000000000000\<rparr>\<rparr>) 1900 = Ok 1500000000000000001"
  using flat_price_above_start [of "sample_auction\<lparr>au_prices := \<lparr>price_start = 1500000000000000000,
     price_end = 1500000000000000000\<rparr>\<rparr>" 1500000000000000000 1900]
  by (simp add: sample_auction_def const_defs)

end
