(* ===== verification/AuctionInstructions.thy ===== *)
theory AuctionInstructions
  imports PriceCurve
begin

text \<open>
  The instructions on auctions: \<open>open_auction\<close>, \<open>open_auction_permissionless\<close>, \<open>bid\<close> and
  \<open>close_auction\<close> of \<open>programs/folio/src/instructions/auction\<close>, and the call back into the
  program of a bidder (\<open>utils/external/callback.rs\<close>). A handler returns the accounts it writes and
  the transfers it sends. What the program of the bidder does to the token account of the folio
  is a parameter.
\<close>

section \<open>Opening\<close>

record open_auction_accounts =
  oa_actor :: actor
  oa_folio_key :: pubkey
  oa_folio :: folio
  oa_auction_bump :: nat
  oa_buy_mint :: pubkey
  oa_sell_mint :: pubkey
  oa_rebalance :: rebalance
  oa_folio_token_mint :: mint_account
  oa_folio_basket :: folio_basket
  oa_auction_ends_key :: pubkey
  oa_auction_ends :: "auction_ends option"
  oa_dao_fee_config :: dao_fee_config
  oa_folio_fee_config :: "folio_fee_config account_data"

text \<open>\<open>init\<close> and \<open>init_if_needed\<close> create accounts whose data is zero.\<close>

definition default_auction :: auction where
  "default_auction = \<lparr>au_bump = 0, au_id = 0, au_nonce = 0, au_folio = default_pubkey,
     sell_mint = default_pubkey, buy_mint = default_pubkey, sell_limit = 0, buy_limit = 0,
     au_start = 0, au_end = 0, au_prices = \<lparr>price_start = 0, price_end = 0\<rparr>\<rparr>"

definition oa_ends :: "open_auction_accounts \<Rightarrow> auction_ends" where
  "oa_ends a = (case oa_auction_ends a of None \<Rightarrow> default_auction_ends | Some e \<Rightarrow> e)"

definition validate_open_auction_keys ::
  "sdk \<Rightarrow> open_auction_accounts \<Rightarrow> pubkey \<Rightarrow> pubkey \<Rightarrow> nat result" where
  "validate_open_auction_keys sdk a token_1 token_2 =
     check_condition (mint_key (oa_folio_token_mint a) = folio_token_mint (oa_folio a))
       InvalidFolioTokenMint (
     and_then (validate_auction_ends_with_keys_and_get_bump (find_program_address sdk) (oa_ends a)
         (oa_auction_ends_key a) (oa_folio_key a) (oa_sell_mint a) (oa_buy_mint a)
         (rb_nonce (oa_rebalance a))) (\<lambda>bump.
     let (token_1_expected, token_2_expected) = keys_pair_in_order (oa_sell_mint a) (oa_buy_mint a) in
     check_condition (token_1 = token_1_expected) InvalidTokenMint (
     check_condition (token_2 = token_2_expected) InvalidTokenMint (Ok bump))))"

definition validate_open_auction ::
  "sdk \<Rightarrow> open_auction_accounts \<Rightarrow> pubkey \<Rightarrow> pubkey \<Rightarrow> nat result" where
  "validate_open_auction sdk a token_1 token_2 =
     and_then (validate_folio (find_program_address sdk) (oa_folio a) (oa_folio_key a)
         (Some (oa_actor a)) (Some [AuctionLauncher]) (Some [Initialized])) (\<lambda>_.
     validate_open_auction_keys sdk a token_1 token_2)"

definition validate_open_auction_permissionless ::
  "sdk \<Rightarrow> open_auction_accounts \<Rightarrow> pubkey \<Rightarrow> pubkey \<Rightarrow> nat result" where
  "validate_open_auction_permissionless sdk a token_1 token_2 =
     and_then (validate_folio (find_program_address sdk) (oa_folio a) (oa_folio_key a)
         None None (Some [Initialized])) (\<lambda>_.
     validate_open_auction_keys sdk a token_1 token_2)"

text \<open>The common part of the two handlers: poke, the end times account, the auction.\<close>

definition open_validated_auction ::
  "open_auction_accounts \<Rightarrow> nat \<Rightarrow> int \<Rightarrow> nat \<Rightarrow> open_auction_config option \<Rightarrow> bool
   \<Rightarrow> (folio \<times> auction \<times> auction_ends \<times> rebalance) result" where
  "open_validated_auction a ends_bump current_time auction_buffer config is_permissionless =
     and_then (get_fee_details (oa_dao_fee_config a) (oa_folio_fee_config a)) (\<lambda>details.
     and_then (poke (oa_folio a) (mint_supply (oa_folio_token_mint a)) current_time
         (scaled_fee_numerator details) (scaled_fee_denominator details) (scaled_fee_floor details))
       (\<lambda>f.
     and_then (auction_ends_process_init_if_needed (oa_ends a) ends_bump (oa_sell_mint a)
         (oa_buy_mint a) (rb_nonce (oa_rebalance a))) (\<lambda>ends.
     and_then (open_auction (default_auction\<lparr>au_bump := oa_auction_bump a\<rparr>) f (oa_folio_key a)
         (oa_folio_basket a) ends (mint_supply (oa_folio_token_mint a)) (oa_rebalance a)
         (oa_sell_mint a) (oa_buy_mint a) (as_u64 current_time) auction_buffer config
         is_permissionless) (\<lambda>(auction, ends', rb').
     Ok (f, auction, ends', rb')))))"

definition open_auction_handler ::
  "sdk \<Rightarrow> open_auction_accounts \<Rightarrow> pubkey \<Rightarrow> pubkey \<Rightarrow> nat \<Rightarrow> nat \<Rightarrow> nat \<Rightarrow> nat \<Rightarrow> int
   \<Rightarrow> (folio \<times> auction \<times> auction_ends \<times> rebalance) result" where
  "open_auction_handler sdk a token_1 token_2 scaled_sell_limit scaled_buy_limit
       scaled_start_price scaled_end_price current_time =
     and_then (validate_open_auction sdk a token_1 token_2) (\<lambda>bump.
     open_validated_auction a bump current_time 0
       (Some \<lparr>cfg_price = \<lparr>price_start = scaled_start_price, price_end = scaled_end_price\<rparr>,
              sell_limit_spot = scaled_sell_limit, buy_limit_spot = scaled_buy_limit\<rparr>) False)"

definition open_auction_permissionless_handler ::
  "sdk \<Rightarrow> open_auction_accounts \<Rightarrow> pubkey \<Rightarrow> pubkey \<Rightarrow> int
   \<Rightarrow> (folio \<times> auction \<times> auction_ends \<times> rebalance) result" where
  "open_auction_permissionless_handler sdk a token_1 token_2 current_time =
     and_then (validate_open_auction_permissionless sdk a token_1 token_2) (\<lambda>bump.
     open_validated_auction a bump current_time RESTRICTED_AUCTION_BUFFER None True)"

section \<open>Bidding\<close>

definition check_callback_account :: "unit \<Rightarrow> account_info \<Rightarrow> unit result" where
  "check_callback_account _ account =
     check_condition (ai_key account \<noteq> FOLIO_PROGRAM_ID) InvalidCallbackProgram (Ok ())"

text \<open>\<open>invoke\<close> is the program of the bidder; it acts on a world \<open>w\<close>.\<close>

definition cpi_call ::
  "(pubkey \<Rightarrow> account_info list \<Rightarrow> nat list \<Rightarrow> 'w \<Rightarrow> 'w result) \<Rightarrow> account_info list \<Rightarrow> nat list
   \<Rightarrow> 'w \<Rightarrow> 'w result" where
  "cpi_call invoke remaining_accounts data w =
     (case remaining_accounts of
        [] \<Rightarrow> Ok w
      | callback_program # callback_accounts \<Rightarrow>
          and_then (check_callback_account () callback_program) (\<lambda>_.
          and_then (fold_result check_callback_account () callback_accounts) (\<lambda>_.
          invoke (ai_key callback_program) callback_accounts data w)))"

record bid_accounts =
  bd_bidder :: pubkey
  bd_folio_key :: pubkey
  bd_folio :: folio
  bd_folio_basket :: folio_basket
  bd_folio_token_mint :: mint_account
  bd_auction :: auction
  bd_sell_mint :: pubkey
  bd_buy_mint :: pubkey
  bd_folio_sell_account :: pubkey
  bd_folio_buy_account :: pubkey
  bd_bidder_sell_account :: pubkey
  bd_bidder_buy_account :: account_info
  bd_rebalance :: rebalance
  bd_auction_ends_key :: pubkey
  bd_auction_ends :: auction_ends
  bd_dao_fee_config :: dao_fee_config
  bd_folio_fee_config :: "folio_fee_config account_data"

definition validate_bid :: "sdk \<Rightarrow> bid_accounts \<Rightarrow> nat \<Rightarrow> unit result" where
  "validate_bid sdk a current_time =
     and_then (validate_folio (find_program_address sdk) (bd_folio a) (bd_folio_key a) None None
         (Some [Initialized])) (\<lambda>_.
     check_condition (mint_key (bd_folio_token_mint a) = folio_token_mint (bd_folio a))
       InvalidFolioTokenMint (
     check_condition (bd_sell_mint a = sell_mint (bd_auction a)) InvalidAuctionSellTokenMint (
     check_condition (bd_buy_mint a = buy_mint (bd_auction a)) InvalidAuctionBuyTokenMint (
     and_then (check_supported_token_account (bd_bidder_buy_account a)) (\<lambda>_.
     and_then (validate_auction_ends (find_program_address sdk) (bd_auction_ends a)
         (bd_auction_ends_key a) (bd_auction a) (bd_folio_key a)) (\<lambda>_.
     check_condition (rb_nonce (bd_rebalance a) = ae_rebalance_nonce (bd_auction_ends a))
       InvalidRebalanceNonceAuctionEnded (
     check_condition (rb_nonce (bd_rebalance a) = au_nonce (bd_auction a))
       InvalidRebalanceNonceAuctionEnded (
     check_condition (try_get_status (bd_auction a) current_time = Some Open) AuctionNotOngoing (
     Ok ())))))))))"

text \<open>Taking the sold tokens out of the basket; the result has the presence that is left.\<close>

definition sell_from_basket ::
  "folio_basket \<Rightarrow> auction \<Rightarrow> nat \<Rightarrow> decimal \<Rightarrow> (folio_basket \<times> nat) result" where
  "sell_from_basket basket auction raw_sell_amount supply =
     and_then (remove_tokens_from_basket basket
         [\<lparr>fta_mint = sell_mint auction, fta_amount = raw_sell_amount\<rparr>]) (\<lambda>basket1.
     and_then (get_token_amount_in_folio_basket basket1 (sell_mint auction)) (\<lambda>sell_balance.
     and_then (if sell_balance = 0 then remove_token_mint_from_basket basket1 (sell_mint auction)
               else Ok basket1) (\<lambda>basket2.
     and_then (get_token_presence_per_share_in_basket basket2 (sell_mint auction) supply) (\<lambda>presence.
     check_condition (presence \<ge> sell_limit auction) BidInvariantViolated (
     Ok (basket2, presence))))))"

text \<open>
  Collecting the payment: with a callback the balance of the folio's account has to have grown by
  the amount bought, else the amount is transferred. The balance is the world of the callback.
\<close>

definition collect_payment ::
  "(pubkey \<Rightarrow> account_info list \<Rightarrow> nat list \<Rightarrow> nat \<Rightarrow> nat result) \<Rightarrow> account_info list \<Rightarrow> bid_accounts
   \<Rightarrow> nat \<Rightarrow> bool \<Rightarrow> nat list \<Rightarrow> nat \<Rightarrow> cpi list result" where
  "collect_payment invoke remaining_accounts a raw_bought_amount with_callback callback_data
       balance_before =
     (if with_callback then
        and_then (cpi_call invoke remaining_accounts callback_data balance_before) (\<lambda>balance_after.
        and_then (ok_or (checked_sub balance_after balance_before) MathOverflow) (\<lambda>received.
        check_condition (received \<ge> raw_bought_amount) InsufficientBid (Ok [])))
      else
        Ok [TransferChecked (ai_key (bd_bidder_buy_account a)) (bd_folio_buy_account a) (bd_bidder a)
              (bd_buy_mint a) raw_bought_amount])"

definition bid ::
  "sdk \<Rightarrow> (pubkey \<Rightarrow> account_info list \<Rightarrow> nat list \<Rightarrow> nat \<Rightarrow> nat result) \<Rightarrow> account_info list
   \<Rightarrow> bid_accounts \<Rightarrow> int \<Rightarrow> nat \<Rightarrow> nat \<Rightarrow> bool \<Rightarrow> nat list \<Rightarrow> nat
   \<Rightarrow> (folio \<times> folio_basket \<times> auction \<times> auction_ends \<times> cpi list) result" where
  "bid sdk invoke remaining_accounts a current_time raw_sell_amount raw_max_buy_amount with_callback
       callback_data buy_balance_before =
     (let auction = bd_auction a; raw_supply = mint_supply (bd_folio_token_mint a) in
     and_then (validate_bid sdk a (as_u64 current_time)) (\<lambda>_.
     and_then (get_fee_details (bd_dao_fee_config a) (bd_folio_fee_config a)) (\<lambda>details.
     and_then (poke (bd_folio a) raw_supply current_time (scaled_fee_numerator details)
         (scaled_fee_denominator details) (scaled_fee_floor details)) (\<lambda>f.
     and_then (get_bid auction f (bd_folio_basket a) raw_supply (as_u64 current_time) raw_sell_amount
         raw_max_buy_amount) (\<lambda>(_, raw_bought_amount, _, supply).
     and_then (sell_from_basket (bd_folio_basket a) auction raw_sell_amount supply)
       (\<lambda>(basket1, sell_presence).
     and_then (collect_payment invoke remaining_accounts a raw_bought_amount with_callback
         callback_data buy_balance_before) (\<lambda>payment.
     and_then (add_tokens_to_basket basket1
         [\<lparr>fta_mint = buy_mint auction, fta_amount = raw_bought_amount\<rparr>]) (\<lambda>basket2.
     and_then (get_token_presence_per_share_in_basket basket2 (buy_mint auction) supply)
       (\<lambda>buy_presence.
     and_then
       (if sell_presence = sell_limit auction \<or> buy_presence \<ge> buy_limit auction then
          and_then (plain_sub (as_u64 current_time) 1) (\<lambda>t.
          Ok (auction\<lparr>au_end := t\<rparr>, (bd_auction_ends a)\<lparr>end_time := t\<rparr>))
        else Ok (auction, bd_auction_ends a)) (\<lambda>(auction', ends').
     Ok (f, basket2, auction', ends',
         TransferChecked (bd_folio_sell_account a) (bd_bidder_sell_account a) (bd_folio_key a)
           (bd_sell_mint a) raw_sell_amount # payment)))))))))))"

section \<open>Closing\<close>

record close_auction_accounts =
  ca_actor :: actor
  ca_folio_key :: pubkey
  ca_folio :: folio
  ca_auction_key :: pubkey
  ca_auction :: auction
  ca_auction_ends_key :: pubkey
  ca_auction_ends :: auction_ends

definition validate_close_auction :: "sdk \<Rightarrow> close_auction_accounts \<Rightarrow> unit result" where
  "validate_close_auction sdk a =
     and_then (validate_folio (find_program_address sdk) (ca_folio a) (ca_folio_key a)
         (Some (ca_actor a)) (Some [RebalanceManager, AuctionLauncher, Owner])
         (Some [Initialized, Initializing])) (\<lambda>_.
     and_then (validate_auction (find_program_address sdk) (ca_auction a) (ca_auction_key a)
         (ca_folio_key a)) (\<lambda>_.
     validate_auction_ends (find_program_address sdk) (ca_auction_ends a) (ca_auction_ends_key a)
       (ca_auction a) (ca_folio_key a)))"

definition close_auction ::
  "sdk \<Rightarrow> close_auction_accounts \<Rightarrow> int \<Rightarrow> (auction \<times> auction_ends) result" where
  "close_auction sdk a current_time =
     and_then (validate_close_auction sdk a) (\<lambda>_.
     if au_end (ca_auction a) > as_u64 current_time then
       and_then (ok_or (checked_sub (as_u64 current_time) 1) MathOverflow) (\<lambda>t.
       Ok ((ca_auction a)\<lparr>au_end := t\<rparr>, (ca_auction_ends a)\<lparr>end_time := t\<rparr>))
     else Ok (ca_auction a, ca_auction_ends a))"

end
