(* ===== verification/Transitions.thy ===== *)
theory Transitions
  imports Main
begin

text \<open>
  The contract of the state machines of the programs: a step relation, an invariant that every
  step keeps, and, where the state has one, an observable that no step lowers. Each component
  with a lifecycle interprets one of these locales on its own step relation.
\<close>

locale invariant_system =
  fixes step :: "'s \<Rightarrow> 's \<Rightarrow> bool" and inv :: "'s \<Rightarrow> bool"
  assumes preserved: "step s s' \<Longrightarrow> inv s \<Longrightarrow> inv s'"
begin

lemma reachable: "step\<^sup>*\<^sup>* s s' \<Longrightarrow> inv s \<Longrightarrow> inv s'"
  by (induction rule: rtranclp_induct) (use preserved in blast)+

end

locale monotone_system = invariant_system step inv
  for step :: "'s \<Rightarrow> 's \<Rightarrow> bool" and inv :: "'s \<Rightarrow> bool" +
  fixes below :: "'s \<Rightarrow> 's \<Rightarrow> bool"
  assumes below_refl: "below s s"
    and below_trans: "below s t \<Longrightarrow> below t u \<Longrightarrow> below s u"
    and rises: "step s s' \<Longrightarrow> inv s \<Longrightarrow> below s s'"
begin

lemma reachable_below: "step\<^sup>*\<^sup>* s s' \<Longrightarrow> inv s \<Longrightarrow> below s s'"
proof (induction rule: rtranclp_induct)
  case base
  show ?case by (rule below_refl)
next
  case (step t u)
  then show ?case using rises [OF step.hyps(2)] reachable [OF step.hyps(1)] below_trans by blast
qed

end

end
