(* ===== verification/AuctionOpening.thy ===== *)
theory AuctionOpening
  imports AuctionInstructions Transitions
begin

text \<open>
  What opening an auction does: the details of the two mints that it uses, the guards it has
  passed, and the way it narrows the limits of the rebalance (\<open>narrowed\<close>), which keeps the
  rebalance well formed.
\<close>

section \<open>The details of a pair\<close>

lemma pair_lookup:
  fixes rb sell buy
  defines "p \<equiv> get_token_details_pair rb sell buy" and "q \<equiv> get_token_details_pair_mut rb sell buy"
  shows "fst p = map_option ((!) (rb_tokens rb)) (fst q)"
    and "snd p = map_option ((!) (rb_tokens rb)) (snd q)"
    and "fst q = Some i \<Longrightarrow> i < length (rb_tokens rb) \<and> rd_mint (rb_tokens rb ! i) = sell"
    and "snd q = Some j \<Longrightarrow> j < length (rb_tokens rb) \<and> rd_mint (rb_tokens rb ! j) = buy \<and> sell \<noteq> buy"
proof -
  define f :: "rebalance_details_token option \<times> rebalance_details_token option \<Rightarrow> rebalance_details_token
      \<Rightarrow> rebalance_details_token option \<times> rebalance_details_token option"
    where "f = (\<lambda>acc detail. if rd_mint detail = sell then (Some detail, snd acc)
      else if rd_mint detail = buy then (fst acc, Some detail) else acc)"
  have f_def_app: "f acc d = (if rd_mint d = sell then (Some d, snd acc)
      else if rd_mint d = buy then (fst acc, Some d) else acc)" for acc d
    by (simp add: f_def)
  let ?g = "foldl (pair_step sell buy) (None, None)"
  have main: "fst (foldl f (None, None) xs) = map_option ((!) xs) (fst (?g (enumerate 0 xs)))
      \<and> snd (foldl f (None, None) xs) = map_option ((!) xs) (snd (?g (enumerate 0 xs)))
      \<and> (\<forall>i. fst (?g (enumerate 0 xs)) = Some i \<longrightarrow> i < length xs \<and> rd_mint (xs ! i) = sell)
      \<and> (\<forall>j. snd (?g (enumerate 0 xs)) = Some j \<longrightarrow> j < length xs \<and> rd_mint (xs ! j) = buy \<and> sell \<noteq> buy)"
    for xs
  proof (induction xs rule: rev_induct)
    case (snoc x xs)
    have nth: "map_option ((!) (xs @ [x])) oi = map_option ((!) xs) oi"
      if "\<forall>i. oi = Some i \<longrightarrow> i < length xs" for oi
      using that by (cases oi) (simp_all add: nth_append)
    from snoc.IH obtain oi oj where g: "?g (enumerate 0 xs) = (oi, oj)"
      and IH: "fst (foldl f (None, None) xs) = map_option ((!) xs) oi"
        "snd (foldl f (None, None) xs) = map_option ((!) xs) oj"
        "\<forall>i. oi = Some i \<longrightarrow> i < length xs \<and> rd_mint (xs ! i) = sell"
        "\<forall>j. oj = Some j \<longrightarrow> j < length xs \<and> rd_mint (xs ! j) = buy \<and> sell \<noteq> buy"
      by (cases "?g (enumerate 0 xs)") auto
    have step: "?g (enumerate 0 (xs @ [x])) = pair_step sell buy (oi, oj) (length xs, x)"
      "foldl f (None, None) (xs @ [x]) = f (foldl f (None, None) xs) x"
      by (simp_all add: enumerate_append_eq g)
    have n: "map_option ((!) (xs @ [x])) oi = map_option ((!) xs) oi"
      "map_option ((!) (xs @ [x])) oj = map_option ((!) xs) oj"
      using IH(3,4) by (blast intro: nth)+
    have i: "\<forall>i. oi = Some i \<longrightarrow> i < Suc (length xs) \<and> rd_mint ((xs @ [x]) ! i) = sell"
      using IH(3) by (auto simp: nth_append)
    have j: "\<forall>j. oj = Some j \<longrightarrow> j < Suc (length xs) \<and> rd_mint ((xs @ [x]) ! j) = buy \<and> sell \<noteq> buy"
      using IH(4) by (auto simp: nth_append)
    consider "rd_mint x = sell" | "rd_mint x \<noteq> sell" "rd_mint x = buy" | "rd_mint x \<noteq> sell" "rd_mint x \<noteq> buy"
      by blast
    then show ?case
      unfolding step using IH(1,2) n i j
      by cases (simp_all add: pair_step_def f_def_app)
  qed simp
  note m = main [of "rb_tokens rb"]
  show "fst p = map_option ((!) (rb_tokens rb)) (fst q)"
    "snd p = map_option ((!) (rb_tokens rb)) (snd q)"
    "fst q = Some i \<Longrightarrow> i < length (rb_tokens rb) \<and> rd_mint (rb_tokens rb ! i) = sell"
    "snd q = Some j \<Longrightarrow> j < length (rb_tokens rb) \<and> rd_mint (rb_tokens rb ! j) = buy \<and> sell \<noteq> buy"
    using m by (simp_all add: p_def q_def get_token_details_pair_def get_token_details_pair_mut_def f_def)
qed

section \<open>Narrowing\<close>

text \<open>
  The same mint and prices, with the range of amounts within the old one, and a range that was in
  order stays so.
\<close>

definition limits_ok :: "basket_range \<Rightarrow> bool" where
  "limits_ok l \<longleftrightarrow> limit_in_range l \<and> limit_all_or_none l"

definition narrowed :: "rebalance_details_token \<Rightarrow> rebalance_details_token \<Rightarrow> bool" where
  "narrowed x y \<longleftrightarrow> rd_mint y = rd_mint x \<and> rd_prices y = rd_prices x
     \<and> low (rd_limits x) \<le> low (rd_limits y) \<and> high (rd_limits y) \<le> high (rd_limits x)
     \<and> (limits_ok (rd_limits x) \<longrightarrow> limits_ok (rd_limits y))"

lemma narrowed_refl: "narrowed x x"
  by (simp add: narrowed_def)

lemma narrowed_trans: "narrowed x y \<Longrightarrow> narrowed y z \<Longrightarrow> narrowed x z"
  by (auto simp: narrowed_def)

lemma narrowed_used: "narrowed x y \<Longrightarrow> rd_used y = rd_used x"
  by (simp add: narrowed_def rd_used_def)

lemma narrowed_prefix:
  "list_all2 narrowed xs ys \<Longrightarrow>
     list_all2 narrowed (rd_prefix xs) (rd_prefix ys) \<and> (used_first xs \<longrightarrow> used_first ys)"
proof (induction rule: list_all2_induct)
  case (Cons x xs y ys)
  have all: "list_all2 narrowed us vs \<Longrightarrow> list_all (\<lambda>t. \<not> rd_used t) us \<Longrightarrow> list_all (\<lambda>t. \<not> rd_used t) vs"
    for us vs by (induction rule: list_all2_induct) (auto dest: narrowed_used)
  show ?case
    using Cons all [OF Cons.hyps(2)] narrowed_used [OF Cons.hyps(1)]
    by (auto simp: rd_prefix_def used_first_def)
qed (simp add: rd_prefix_def used_first_def)

lemma details_wf_narrowed:
  assumes "list_all2 narrowed xs ys" "details_wf xs"
  shows "details_wf ys"
proof -
  note p = narrowed_prefix [OF assms(1)]
  have m: "map rd_mint vs = map rd_mint us" if "list_all2 narrowed us vs" for us vs
    using that by (induction rule: list_all2_induct) (auto simp: narrowed_def)
  have ex: "\<exists>x \<in> set us. narrowed x y" if "list_all2 narrowed us vs" "y \<in> set vs" for us vs y
    using that by (induction rule: list_all2_induct) auto
  obtain d where d: "\<forall>t \<in> set (rd_prefix xs). prices_in_range d (rd_prices t)"
    using assms(2) by (auto simp: details_wf_def)
  have "\<forall>t \<in> set (rd_prefix ys). limits_ok (rd_limits t) \<and> prices_in_range d (rd_prices t)"
  proof
    fix y assume "y \<in> set (rd_prefix ys)"
    with ex p obtain x where x: "x \<in> set (rd_prefix xs)" "narrowed x y" by blast
    then have "limits_ok (rd_limits x)" using assms(2) by (simp add: details_wf_def limits_ok_def)
    then show "limits_ok (rd_limits y) \<and> prices_in_range d (rd_prices y)"
      using x d by (simp add: narrowed_def)
  qed
  then show ?thesis
    using p assms m [of "rd_prefix xs" "rd_prefix ys"] list_all2_lengthD [OF assms(1)]
    by (auto simp: details_wf_def limits_ok_def)
qed

lemma list_all2_update2:
  assumes "i < length xs" "j < length xs" "i \<noteq> j" "narrowed (xs ! i) x" "narrowed (xs ! j) y"
  shows "list_all2 narrowed xs (xs[i := x, j := y])"
  using assms by (auto simp: list_all2_conv_all_nth nth_list_update narrowed_refl)

lemma sell_side_narrowed:
  assumes "low (rd_limits d) \<le> s" "s \<le> high (rd_limits d)"
  shows "narrowed d (d\<lparr>rd_limits := (rd_limits d)\<lparr>spot := s, high := s\<rparr>\<rparr>)"
  using assms by (auto simp: narrowed_def limits_ok_def limit_in_range_def limit_all_or_none_def)

lemma buy_side_narrowed:
  assumes "low (rd_limits d) \<le> s" "s \<le> high (rd_limits d)"
  shows "narrowed d (d\<lparr>rd_limits := (rd_limits d)\<lparr>spot := s, low := s\<rparr>\<rparr>)"
  using assms by (auto simp: narrowed_def limits_ok_def limit_in_range_def limit_all_or_none_def)

section \<open>The effect of opening\<close>

definition chosen_sell :: "open_auction_config option \<Rightarrow> rebalance_details_token \<Rightarrow> nat" where
  "chosen_sell config d = (case config of Some c \<Rightarrow> sell_limit_spot c | None \<Rightarrow> spot (rd_limits d))"

definition chosen_buy :: "open_auction_config option \<Rightarrow> rebalance_details_token \<Rightarrow> nat" where
  "chosen_buy config d = (case config of Some c \<Rightarrow> buy_limit_spot c | None \<Rightarrow> spot (rd_limits d))"

lemma open_auction_effect:
  assumes "open_auction self f key basket ends raw rb sell buy t buffer config permissionless
      = Ok (auction, ends', rb')"
  obtains i j sd bd where
    "i < length (rb_tokens rb)" "j < length (rb_tokens rb)" "i \<noteq> j"
    "sd = rb_tokens rb ! i" "bd = rb_tokens rb ! j" "rd_mint sd = sell" "rd_mint bd = buy" "sell \<noteq> buy"
    "low (rd_limits sd) \<le> chosen_sell config sd" "chosen_sell config sd \<le> high (rd_limits sd)"
    "low (rd_limits bd) \<le> chosen_buy config bd" "chosen_buy config bd \<le> high (rd_limits bd)"
    "check_surplus_and_deficit f basket raw sell buy (chosen_sell config sd) (chosen_buy config bd) = Ok ()"
    "auction_prices sd bd config = Ok (au_prices auction)"
    "started_at rb + buffer \<le> t" "t \<le> available_until rb" "rebalance_ready rb"
    "end_time ends + buffer < t"
    "permissionless \<longrightarrow> restricted_until rb \<le> t \<and> price_low (rd_prices bd) \<noteq> 0"
    "auction = self\<lparr>au_id := current_auction_id rb + 1, au_nonce := rb_nonce rb, sell_mint := sell,
      buy_mint := buy, au_start := t, au_end := t + folio_auction_length f, au_prices := au_prices auction,
      sell_limit := chosen_sell config sd, buy_limit := chosen_buy config bd, au_folio := key\<rparr>"
    "ends' = ends\<lparr>end_time := t + folio_auction_length f\<rparr>"
    "t + folio_auction_length f < 2 ^ 64"
    "rb' = rb\<lparr>current_auction_id := current_auction_id rb + 1,
      rb_tokens := (rb_tokens rb)
        [i := sd\<lparr>rd_limits := (rd_limits sd)\<lparr>spot := chosen_sell config sd, high := chosen_sell config sd\<rparr>\<rparr>,
         j := bd\<lparr>rd_limits := (rd_limits bd)\<lparr>spot := chosen_buy config bd, low := chosen_buy config bd\<rparr>\<rparr>]\<rparr>"
proof -
  note eq = assms [unfolded open_auction_def Let_def chosen_sell_def [symmetric] chosen_buy_def [symmetric]]
  obtain osd obd where p: "get_token_details_pair rb sell buy = (osd, obd)" by (cases "get_token_details_pair rb sell buy")
  obtain oi oj where q: "get_token_details_pair_mut rb sell buy = (oi, oj)"
    by (cases "get_token_details_pair_mut rb sell buy")
  note l = pair_lookup [of rb sell buy, unfolded p q fst_conv snd_conv]
  from eq p obtain sd bd where sb: "osd = Some sd" "obd = Some bd" by (auto split: option.splits)
  with l(1,2) obtain i j where ij: "oi = Some i" "oj = Some j" "sd = rb_tokens rb ! i" "bd = rb_tokens rb ! j"
    by (cases oi; cases oj) auto
  note ij' = l(3) [OF ij(1)] l(4) [OF ij(2)]
  have ne: "i \<noteq> j" using ij' by auto
  show thesis
    using eq p q sb ij ij' ne
    by (intro that [of i j sd bd]) (auto simp: set_limits_def get_next_auction_id_def auction_length_def Let_def)
qed

lemma open_auction_narrowed:
  assumes "open_auction self f key basket ends raw rb sell buy t buffer config permissionless
      = Ok (auction, ends', rb')"
  shows "list_all2 narrowed (rb_tokens rb) (rb_tokens rb')"
  using assms
proof (rule open_auction_effect)
  fix i j sd bd
  assume *: "i < length (rb_tokens rb)" "j < length (rb_tokens rb)" "i \<noteq> j"
    "sd = rb_tokens rb ! i" "bd = rb_tokens rb ! j"
    "low (rd_limits sd) \<le> chosen_sell config sd" "chosen_sell config sd \<le> high (rd_limits sd)"
    "low (rd_limits bd) \<le> chosen_buy config bd" "chosen_buy config bd \<le> high (rd_limits bd)"
    "rb' = rb\<lparr>current_auction_id := current_auction_id rb + 1,
      rb_tokens := (rb_tokens rb)
        [i := sd\<lparr>rd_limits := (rd_limits sd)\<lparr>spot := chosen_sell config sd, high := chosen_sell config sd\<rparr>\<rparr>,
         j := bd\<lparr>rd_limits := (rd_limits bd)\<lparr>spot := chosen_buy config bd, low := chosen_buy config bd\<rparr>\<rparr>]\<rparr>"
  show ?thesis
    unfolding *(10) using *(1-5) sell_side_narrowed [OF *(6,7)] buy_side_narrowed [OF *(8,9)]
    by (simp add: list_all2_update2)
qed

text \<open>After opening, the sell side is capped and the buy side is bounded from below.\<close>

lemma open_auction_pins:
  assumes "open_auction self f key basket ends raw rb sell buy t buffer config permissionless
      = Ok (auction, ends', rb')"
  shows "\<exists>i < length (rb_tokens rb'). rd_mint (rb_tokens rb' ! i) = sell
      \<and> high (rd_limits (rb_tokens rb' ! i)) = sell_limit auction"
    and "\<exists>j < length (rb_tokens rb'). rd_mint (rb_tokens rb' ! j) = buy
      \<and> low (rd_limits (rb_tokens rb' ! j)) = buy_limit auction"
  using assms
proof (atomize (full), rule open_auction_effect)
  fix i j sd bd
  assume *: "i < length (rb_tokens rb)" "j < length (rb_tokens rb)" "i \<noteq> j"
    "rd_mint sd = sell" "rd_mint bd = buy"
    "auction = self\<lparr>au_id := current_auction_id rb + 1, au_nonce := rb_nonce rb, sell_mint := sell,
      buy_mint := buy, au_start := t, au_end := t + folio_auction_length f, au_prices := au_prices auction,
      sell_limit := chosen_sell config sd, buy_limit := chosen_buy config bd, au_folio := key\<rparr>"
    "rb' = rb\<lparr>current_auction_id := current_auction_id rb + 1,
      rb_tokens := (rb_tokens rb)
        [i := sd\<lparr>rd_limits := (rd_limits sd)\<lparr>spot := chosen_sell config sd, high := chosen_sell config sd\<rparr>\<rparr>,
         j := bd\<lparr>rd_limits := (rd_limits bd)\<lparr>spot := chosen_buy config bd, low := chosen_buy config bd\<rparr>\<rparr>]\<rparr>"
  have l: "sell_limit auction = chosen_sell config sd" "buy_limit auction = chosen_buy config bd"
    by (subst *(6), simp)+
  show "(\<exists>i<length (rb_tokens rb'). rd_mint (rb_tokens rb' ! i) = sell
        \<and> high (rd_limits (rb_tokens rb' ! i)) = sell_limit auction)
    \<and> (\<exists>j<length (rb_tokens rb'). rd_mint (rb_tokens rb' ! j) = buy
        \<and> low (rd_limits (rb_tokens rb' ! j)) = buy_limit auction)"
    unfolding l *(7) using *(1-5) by (intro conjI exI [of _ i] exI [of _ j]) simp_all
qed

text \<open>Openings narrow, and a rebalance never widens again until the next one starts.\<close>

inductive opens :: "rebalance \<Rightarrow> rebalance \<Rightarrow> bool" where
  "open_auction self f key basket ends raw rb sell buy t buffer config permissionless
     = Ok (auction, ends', rb') \<Longrightarrow> opens rb rb'"

inductive_cases opensE: "opens rb rb'"

definition narrower :: "rebalance \<Rightarrow> rebalance \<Rightarrow> bool" where
  "narrower rb rb' \<longleftrightarrow> list_all2 narrowed (rb_tokens rb) (rb_tokens rb')"

lemma narrower_wf: "narrower rb rb' \<Longrightarrow> all_rebalance_details_added rb' = all_rebalance_details_added rb \<Longrightarrow>
    rebalance_wf rb \<Longrightarrow> rebalance_wf rb'"
  using details_wf_narrowed by (auto simp: narrower_def rebalance_wf_def)

lemma open_auction_keeps_flags:
  assumes "open_auction self f key basket ends raw rb sell buy t buffer config permissionless
      = Ok (auction, ends', rb')"
  shows "all_rebalance_details_added rb' = all_rebalance_details_added rb \<and> rb_nonce rb' = rb_nonce rb
    \<and> current_auction_id rb' = current_auction_id rb + 1 \<and> available_until rb' = available_until rb
    \<and> started_at rb' = started_at rb \<and> restricted_until rb' = restricted_until rb"
  using assms by (rule open_auction_effect) simp

lemma open_auction_wf:
  assumes "open_auction self f key basket ends raw rb sell buy t buffer config permissionless
      = Ok (auction, ends', rb')" "rebalance_wf rb"
  shows "rebalance_wf rb'"
  using narrower_wf [of rb rb'] open_auction_narrowed [OF assms(1)] open_auction_keeps_flags [OF assms(1)]
    assms(2) by (simp add: narrower_def)

interpretation openings: monotone_system opens rebalance_wf narrower
proof
  fix rb rb' rb'' :: rebalance
  show "opens rb rb' \<Longrightarrow> rebalance_wf rb \<Longrightarrow> rebalance_wf rb'"
    by (elim opensE) (rule open_auction_wf)
  show "narrower rb rb" by (simp add: narrower_def list_all2_refl narrowed_refl)
  show "narrower rb rb' \<Longrightarrow> narrower rb' rb'' \<Longrightarrow> narrower rb rb''"
    unfolding narrower_def using narrowed_trans by (rule list_all2_trans)
  show "opens rb rb' \<Longrightarrow> rebalance_wf rb \<Longrightarrow> narrower rb rb'"
    unfolding narrower_def by (elim opensE) (rule open_auction_narrowed)
qed

text \<open>The slot of a mint in use is unique.\<close>

lemma details_wf_unique:
  assumes "details_wf tokens" "i < length tokens" "j < length tokens"
    and "rd_mint (tokens ! i) = rd_mint (tokens ! j)" "rd_mint (tokens ! i) \<noteq> default_pubkey"
  shows "i = j"
proof -
  let ?n = "length (rd_prefix tokens)"
  have uf: "used_first tokens" using assms(1) by (simp add: details_wf_def)
  have lt: "k < ?n" if "k < length tokens" "rd_mint (tokens ! k) \<noteq> default_pubkey" for k
  proof (rule ccontr)
    assume "\<not> k < ?n"
    then have "drop ?n tokens ! (k - ?n) = tokens ! k" "k - ?n < length (drop ?n tokens)"
      using that(1) by simp_all
    then have "tokens ! k \<in> set (drop ?n tokens)" by (metis nth_mem)
    then show False using used_first_split(2) [OF uf] that(2) by (auto simp: rd_used_def)
  qed
  have nth: "k < ?n \<Longrightarrow> map rd_mint (rd_prefix tokens) ! k = rd_mint (tokens ! k)" for k
    by (simp add: rd_prefix_def takeWhile_nth)
  have "i < ?n" "j < ?n" using lt [OF assms(2)] lt [OF assms(3)] assms(4,5) by simp_all
  moreover have "distinct (map rd_mint (rd_prefix tokens))" using assms(1) by (simp add: details_wf_def)
  ultimately show ?thesis using nth assms(4) by (metis length_map nth_eq_iff_index_eq)
qed

section \<open>The handlers\<close>

lemma auction_ends_init_Ok:
  "auction_ends_process_init_if_needed self bump sell buy nonce = Ok e \<Longrightarrow>
     e = self \<and> token_mint_1 self = fst (keys_pair_in_order sell buy)
       \<and> token_mint_2 self = snd (keys_pair_in_order sell buy)
     \<or> e = self\<lparr>ae_bump := bump, ae_rebalance_nonce := nonce,
          token_mint_1 := fst (keys_pair_in_order sell buy),
          token_mint_2 := snd (keys_pair_in_order sell buy), end_time := 0\<rparr>"
  by (auto simp: auction_ends_process_init_if_needed_def Let_def split: prod.splits if_splits)

lemma open_validated_Ok:
  assumes "open_validated_auction a bump t buffer config permissionless = Ok (f', auction, ends', rb')"
  obtains num den fl ends where
    "poke (oa_folio a) (mint_supply (oa_folio_token_mint a)) t num den fl = Ok f'"
    "auction_ends_process_init_if_needed (oa_ends a) bump (oa_sell_mint a) (oa_buy_mint a)
      (rb_nonce (oa_rebalance a)) = Ok ends"
    "open_auction (default_auction\<lparr>au_bump := oa_auction_bump a\<rparr>) f' (oa_folio_key a)
      (oa_folio_basket a) ends (mint_supply (oa_folio_token_mint a)) (oa_rebalance a)
      (oa_sell_mint a) (oa_buy_mint a) (as_u64 t) buffer config permissionless = Ok (auction, ends', rb')"
  using assms unfolding open_validated_auction_def by auto

lemma open_handler_Ok:
  assumes "open_auction_handler sdk a t1 t2 sl bl ps pe t = Ok r"
  obtains bump where "has_role (actor_roles (oa_actor a)) AuctionLauncher"
    "folio_status (oa_folio a) = status_u8 Initialized"
    "open_validated_auction a bump t 0
       (Some \<lparr>cfg_price = \<lparr>price_start = ps, price_end = pe\<rparr>,
              sell_limit_spot = sl, buy_limit_spot = bl\<rparr>) False = Ok r"
    "(t1, t2) = keys_pair_in_order (oa_sell_mint a) (oa_buy_mint a)" "bump = ae_bump (oa_ends a)"
proof -
  from assms obtain bump where v: "validate_open_auction sdk a t1 t2 = Ok bump"
    and o: "open_validated_auction a bump t 0
       (Some \<lparr>cfg_price = \<lparr>price_start = ps, price_end = pe\<rparr>,
              sell_limit_spot = sl, buy_limit_spot = bl\<rparr>) False = Ok r"
    by (auto simp: open_auction_handler_def)
  from v have vf: "validate_folio (find_program_address sdk) (oa_folio a) (oa_folio_key a)
      (Some (oa_actor a)) (Some [AuctionLauncher]) (Some [Initialized]) = Ok ()"
    by (auto simp: validate_open_auction_def)
  from v have k: "(t1, t2) = keys_pair_in_order (oa_sell_mint a) (oa_buy_mint a)"
    by (cases "keys_pair_in_order (oa_sell_mint a) (oa_buy_mint a)")
       (auto simp: validate_open_auction_def validate_open_auction_keys_def)
  from v have "bump = ae_bump (oa_ends a)"
    by (cases "keys_pair_in_order (oa_sell_mint a) (oa_buy_mint a)")
       (auto simp: validate_open_auction_def validate_open_auction_keys_def
         validate_auction_ends_with_keys_and_get_bump_def Let_def)
  with validate_folio_Ok [OF vf] that [OF _ _ o k] show thesis by auto
qed

lemma open_permissionless_Ok:
  assumes "open_auction_permissionless_handler sdk a t1 t2 t = Ok r"
  obtains bump where "folio_status (oa_folio a) = status_u8 Initialized"
    "open_validated_auction a bump t RESTRICTED_AUCTION_BUFFER None True = Ok r"
    "(t1, t2) = keys_pair_in_order (oa_sell_mint a) (oa_buy_mint a)" "bump = ae_bump (oa_ends a)"
proof -
  from assms obtain bump where v: "validate_open_auction_permissionless sdk a t1 t2 = Ok bump"
    and o: "open_validated_auction a bump t RESTRICTED_AUCTION_BUFFER None True = Ok r"
    by (auto simp: open_auction_permissionless_handler_def)
  from v have vf: "validate_folio (find_program_address sdk) (oa_folio a) (oa_folio_key a)
      None None (Some [Initialized]) = Ok ()"
    by (auto simp: validate_open_auction_permissionless_def)
  from v have k: "(t1, t2) = keys_pair_in_order (oa_sell_mint a) (oa_buy_mint a)"
    by (cases "keys_pair_in_order (oa_sell_mint a) (oa_buy_mint a)")
       (auto simp: validate_open_auction_permissionless_def validate_open_auction_keys_def)
  from v have "bump = ae_bump (oa_ends a)"
    by (cases "keys_pair_in_order (oa_sell_mint a) (oa_buy_mint a)")
       (auto simp: validate_open_auction_permissionless_def validate_open_auction_keys_def
         validate_auction_ends_with_keys_and_get_bump_def Let_def)
  with validate_folio_Ok [OF vf] that [OF _ o k] show thesis by auto
qed

section \<open>A concrete opening\<close>

definition sample_open :: open_auction_accounts where
  "sample_open = \<lparr>oa_actor = sample_actor, oa_folio_key = PK 1002, oa_folio = sample_folio,
     oa_auction_bump = 255, oa_buy_mint = PK 12, oa_sell_mint = PK 11, oa_rebalance = sample_rebalance,
     oa_folio_token_mint = \<lparr>mint_key = PK 7, mint_supply = 1000, mint_program = PK 1\<rparr>,
     oa_folio_basket = sample_basket, oa_auction_ends_key = PK 1005, oa_auction_ends = None,
     oa_dao_fee_config = \<lparr>dfc_bump = 1, dao_fee_recipient = PK 5,
       default_fee_numerator = 500000000000000000, default_fee_floor = 1500000000000000\<rparr>,
     oa_folio_fee_config = EmptyData\<rparr>"

definition sample_ends :: auction_ends where
  "sample_ends = \<lparr>ae_bump = 0, ae_rebalance_nonce = 1, token_mint_1 = PK 11, token_mint_2 = PK 12,
     end_time = 3700\<rparr>"

definition opened_rebalance :: rebalance where
  "opened_rebalance = (set_limits sample_rebalance 0 1 300000000000000000 200000000000000000)
     \<lparr>current_auction_id := 1\<rparr>"

lemma sample_pair:
  "get_token_details_pair_mut sample_rebalance (PK 11) (PK 12) = (Some 0, Some 1)"
  "get_token_details_pair sample_rebalance (PK 11) (PK 12)
     = (Some (rd_of (PK 11, sample_sell_pl)), Some (rd_of (PK 12, sample_buy_pl)))"
proof -
  have skip: "foldl (pair_step (PK 11) (PK 12)) acc (enumerate n (replicate k default_rebalance_details_token)) = acc"
    for acc n k
    by (induction k arbitrary: n) (simp_all add: pair_step_def default_rebalance_details_token_def default_pubkey_def)
  show m: "get_token_details_pair_mut sample_rebalance (PK 11) (PK 12) = (Some 0, Some 1)"
    by (simp add: get_token_details_pair_mut_def sample_rebalance_def skip pair_step_def)
  have "rb_tokens sample_rebalance ! 0 = rd_of (PK 11, sample_sell_pl)"
    "rb_tokens sample_rebalance ! 1 = rd_of (PK 12, sample_buy_pl)"
    by (simp_all add: sample_rebalance_def)
  then show "get_token_details_pair sample_rebalance (PK 11) (PK 12)
     = (Some (rd_of (PK 11, sample_sell_pl)), Some (rd_of (PK 12, sample_buy_pl)))"
    using pair_lookup(1,2) [of sample_rebalance "PK 11" "PK 12"] m by (intro prod_eqI) simp_all
qed

lemma sample_amounts:
  "get_token_amount_in_folio_basket sample_basket (PK 11) = Ok 500"
  "get_token_amount_in_folio_basket_or_zero sample_basket (PK 12) = 70"
  by (simp_all add: get_token_amount_in_folio_basket_def get_token_amount_in_folio_basket_or_zero_def
      find_fta_def sample_basket_def default_pubkey_def)

lemma sample_supply: "get_total_supply sample_folio 1000 = Ok 1000000000000"
  by (simp add: sample_folio_def total_supply_def const_defs)

lemma sample_surplus:
  "check_surplus_and_deficit sample_folio sample_basket 1000 (PK 11) (PK 12) 300000000000000000
     200000000000000000 = Ok ()"
  by (simp add: check_surplus_and_deficit_def sample_supply sample_amounts tokens_at_limit_def
      mul_div_def dec_mul_def dec_div_def from_scaled_def to_token_amount_def arith_defs const_defs U64_MAX_def)

lemma sample_prices:
  "auction_prices (rd_of (PK 11, sample_sell_pl)) (rd_of (PK 12, sample_buy_pl)) None
     = Ok \<lparr>price_start = 2000000000000000000, price_end = 1000000000000000000\<rparr>"
  "auction_prices (rd_of (PK 11, sample_sell_pl)) (rd_of (PK 12, sample_buy_pl))
     (Some \<lparr>cfg_price = \<lparr>price_start = 2000000000000000000, price_end = 1000000000000000000\<rparr>,
       sell_limit_spot = 300000000000000000, buy_limit_spot = 200000000000000000\<rparr>)
     = Ok \<lparr>price_start = 2000000000000000000, price_end = 1000000000000000000\<rparr>"
  by (simp_all add: auction_prices_def price_ratio_def sample_sell_pl_def sample_buy_pl_def mul_div_def
      dec_mul_def dec_div_def from_scaled_def to_scaled_def plain_mul_def arith_defs const_defs U128_MAX_def)

lemma sample_open_auction:
  assumes "config = None \<and> p \<or> config = Some \<lparr>cfg_price = \<lparr>price_start = 2000000000000000000,
      price_end = 1000000000000000000\<rparr>, sell_limit_spot = 300000000000000000,
      buy_limit_spot = 200000000000000000\<rparr> \<and> \<not> p"
  shows "open_auction (default_auction\<lparr>au_bump := 255\<rparr>) sample_folio (PK 1002) sample_basket
      (sample_ends\<lparr>end_time := 0\<rparr>) 1000 sample_rebalance (PK 11) (PK 12) 100 0 config p
    = Ok (sample_auction, sample_ends, opened_rebalance)"
proof -
  have c: "pl_limits sample_sell_pl
      = \<lparr>spot = 300000000000000000, low = 100000000000000000, high = 400000000000000000\<rparr>"
    "pl_limits sample_buy_pl
      = \<lparr>spot = 200000000000000000, low = 100000000000000000, high = 300000000000000000\<rparr>"
    "price_low (pl_prices sample_buy_pl) = 1000000000000000000" "folio_auction_length sample_folio = 3600"
    by (simp_all add: sample_sell_pl_def sample_buy_pl_def sample_folio_def)
  have r: "started_at sample_rebalance = 50" "available_until sample_rebalance = 100050"
    "restricted_until sample_rebalance = 60" "rebalance_ready sample_rebalance"
    "current_auction_id (set_limits sample_rebalance i j x y) = 0"
    "rb_nonce (set_limits sample_rebalance i j x y) = 1" for i j x y
    by (simp_all add: sample_rebalance_def rebalance_ready_def set_limits_def)
  show ?thesis
    using assms
    by (elim disjE conjE)
       (simp_all add: open_auction_def sample_pair r c sample_surplus sample_prices get_next_auction_id_def
         auction_length_def plain_add_def arith_defs Let_def sample_ends_def opened_rebalance_def
         sample_auction_def default_auction_def)
qed

lemma sample_open_validated:
  assumes "config = None \<and> p \<or> config = Some \<lparr>cfg_price = \<lparr>price_start = 2000000000000000000,
      price_end = 1000000000000000000\<rparr>, sell_limit_spot = 300000000000000000,
      buy_limit_spot = 200000000000000000\<rparr> \<and> \<not> p"
  shows "open_validated_auction sample_open 0 100 0 config p
    = Ok (sample_folio, sample_auction, sample_ends, opened_rebalance)"
proof -
  have e: "auction_ends_process_init_if_needed default_auction_ends 0 (PK 11) (PK 12) 1
      = Ok (sample_ends\<lparr>end_time := 0\<rparr>)"
    by (simp add: auction_ends_process_init_if_needed_def keys_pair_in_order_def less_pubkey_def
        default_auction_ends_def sample_ends_def default_pubkey_def)
  have n: "rb_nonce sample_rebalance = 1" by (simp add: sample_rebalance_def)
  show ?thesis
    unfolding open_validated_auction_def
    by (simp add: sample_open_def oa_ends_def get_fee_details_def sample_poke_early n e [unfolded One_nat_def]
        as_u64_nonneg sample_open_auction [OF assms])
qed

lemma sample_validate_keys:
  "validate_open_auction_keys sample_sdk sample_open (PK 11) (PK 12) = Ok 0"
  by (simp add: validate_open_auction_keys_def sample_open_def sample_sdk_def oa_ends_def
      default_auction_ends_def validate_auction_ends_with_keys_and_get_bump_def Let_def
      keys_pair_in_order_def less_pubkey_def sample_folio_def)

lemma sample_open_permissionless:
  "open_auction_permissionless_handler sample_sdk sample_open (PK 11) (PK 12) 100
     = Ok (sample_folio, sample_auction, sample_ends, opened_rebalance)"
proof -
  have "validate_open_auction_permissionless sample_sdk sample_open (PK 11) (PK 12) = Ok 0"
    unfolding validate_open_auction_permissionless_def
    by (simp add: sample_validate_keys) (simp add: sample_open_def sample_sdk_def validate_folio_def
        sample_folio_def status_from_def)
  then show ?thesis
    by (simp add: open_auction_permissionless_handler_def RESTRICTED_AUCTION_BUFFER_def
        sample_open_validated)
qed

lemma sample_open_launcher:
  "open_auction_handler sample_sdk sample_open (PK 11) (PK 12) 300000000000000000 200000000000000000
     2000000000000000000 1000000000000000000 100
     = Ok (sample_folio, sample_auction, sample_ends, opened_rebalance)"
proof -
  have "validate_open_auction sample_sdk sample_open (PK 11) (PK 12) = Ok 0"
    unfolding validate_open_auction_def
    by (simp add: sample_validate_keys) (simp add: sample_open_def sample_sdk_def validate_folio_def
        sample_folio_def status_from_def validate_permission_for_action_def sample_actor_def has_role_def)
  then show ?thesis by (simp add: open_auction_handler_def sample_open_validated)
qed

section \<open>Properties\<close>

text \<open>
  C37: An auction launcher opens an auction only on an initialized folio, inside the window of a
  complete rebalance, for two of its mints, with limits inside their ranges and with a surplus of
  the sell token and a deficit of the buy token at these limits; unless prices are deferred, the
  start price is between the rebalance's start price and a hundred times it and the end price is
  at least the rebalance's. The auction gets the next id, starts now and runs for the folio's
  auction length, which the account of end times records.
\<close>
theorem open_auction_spec:
  assumes "open_auction_handler sdk a t1 t2 sl bl ps pe t = Ok (f', auction, ends', rb')"
  shows "has_role (actor_roles (oa_actor a)) AuctionLauncher
    \<and> folio_status (oa_folio a) = status_u8 Initialized \<and> rebalance_ready (oa_rebalance a)
    \<and> started_at (oa_rebalance a) \<le> as_u64 t \<and> as_u64 t \<le> available_until (oa_rebalance a)
    \<and> au_start auction = as_u64 t \<and> au_end auction = as_u64 t + folio_auction_length (oa_folio a)
    \<and> end_time ends' = au_end auction
    \<and> au_id auction = current_auction_id (oa_rebalance a) + 1 \<and> current_auction_id rb' = au_id auction
    \<and> sell_limit auction = sl \<and> buy_limit auction = bl
    \<and> au_prices auction = \<lparr>price_start = ps, price_end = pe\<rparr>
    \<and> check_surplus_and_deficit f' (oa_folio_basket a) (mint_supply (oa_folio_token_mint a))
        (oa_sell_mint a) (oa_buy_mint a) sl bl = Ok ()
    \<and> (\<exists>sd \<in> set (rb_tokens (oa_rebalance a)). \<exists>bd \<in> set (rb_tokens (oa_rebalance a)).
        rd_mint sd = oa_sell_mint a \<and> rd_mint bd = oa_buy_mint a \<and> rd_mint sd \<noteq> rd_mint bd
        \<and> low (rd_limits sd) \<le> sl \<and> sl \<le> high (rd_limits sd)
        \<and> low (rd_limits bd) \<le> bl \<and> bl \<le> high (rd_limits bd)
        \<and> (price_low (rd_prices bd) = 0
          \<or> (\<exists>old_start old_end.
               price_ratio (price_high (rd_prices sd)) (price_low (rd_prices bd)) = Ok old_start
             \<and> price_ratio (price_low (rd_prices sd)) (price_high (rd_prices bd)) = Ok old_end
             \<and> old_start \<le> ps \<and> ps \<le> 100 * old_start \<and> old_end \<le> pe)))"
proof -
  from assms obtain bump where h: "has_role (actor_roles (oa_actor a)) AuctionLauncher"
    "folio_status (oa_folio a) = status_u8 Initialized"
    and o: "open_validated_auction a bump t 0
       (Some \<lparr>cfg_price = \<lparr>price_start = ps, price_end = pe\<rparr>,
              sell_limit_spot = sl, buy_limit_spot = bl\<rparr>) False = Ok (f', auction, ends', rb')"
    by (rule open_handler_Ok)
  from o obtain num den fl ends where
    p: "poke (oa_folio a) (mint_supply (oa_folio_token_mint a)) t num den fl = Ok f'" and
    au: "open_auction (default_auction\<lparr>au_bump := oa_auction_bump a\<rparr>) f' (oa_folio_key a)
      (oa_folio_basket a) ends (mint_supply (oa_folio_token_mint a)) (oa_rebalance a)
      (oa_sell_mint a) (oa_buy_mint a) (as_u64 t) 0
      (Some \<lparr>cfg_price = \<lparr>price_start = ps, price_end = pe\<rparr>, sell_limit_spot = sl,
        buy_limit_spot = bl\<rparr>) False = Ok (auction, ends', rb')"
    by (rule open_validated_Ok)
  have len: "folio_auction_length f' = folio_auction_length (oa_folio a)" using poke_frame [OF p] by auto
  show ?thesis
    using au
  proof (rule open_auction_effect, goal_cases)
    case (1 i j sd bd)
    have "auction_prices sd bd (Some \<lparr>cfg_price = \<lparr>price_start = ps, price_end = pe\<rparr>, sell_limit_spot = sl,
        buy_limit_spot = bl\<rparr>) = Ok (au_prices auction)" by (rule 1(14))
    then have pr: "au_prices auction = \<lparr>price_start = ps, price_end = pe\<rparr>"
      "price_low (rd_prices bd) = 0
          \<or> (\<exists>old_start old_end.
               price_ratio (price_high (rd_prices sd)) (price_low (rd_prices bd)) = Ok old_start
             \<and> price_ratio (price_low (rd_prices sd)) (price_high (rd_prices bd)) = Ok old_end
             \<and> old_start \<le> ps \<and> ps \<le> 100 * old_start \<and> old_end \<le> pe)"
      by (auto simp: auction_prices_def split: if_splits)
    have fields: "au_start auction = as_u64 t" "au_end auction = as_u64 t + folio_auction_length f'"
      "au_id auction = current_auction_id (oa_rebalance a) + 1" "sell_limit auction = sl" "buy_limit auction = bl"
      by (subst 1(20), simp add: chosen_sell_def chosen_buy_def)+
    have mem: "sd \<in> set (rb_tokens (oa_rebalance a))" "bd \<in> set (rb_tokens (oa_rebalance a))"
      using 1(1,2,4,5) by simp_all
    have ch: "chosen_sell (Some \<lparr>cfg_price = \<lparr>price_start = ps, price_end = pe\<rparr>, sell_limit_spot = sl,
        buy_limit_spot = bl\<rparr>) sd = sl" "chosen_buy (Some \<lparr>cfg_price = \<lparr>price_start = ps, price_end = pe\<rparr>,
        sell_limit_spot = sl, buy_limit_spot = bl\<rparr>) bd = bl"
      by (simp_all add: chosen_sell_def chosen_buy_def)
    note lims = 1(9-13) [unfolded ch]
    have ends: "end_time ends' = au_end auction" "current_auction_id rb' = au_id auction"
      unfolding fields by (subst 1(21), simp) (subst 1(23), simp)
    show ?thesis
      using h 1(15-17) fields pr(1) ends len lims(5)
      by (intro conjI bexI [OF _ mem(1)] bexI [OF _ mem(2)] 1(6,7) lims(1-4) pr(2))
         (simp_all add: 1(6-8))
  qed
qed

theorem open_auction_spec_witness:
  "au_end sample_auction = 3700 \<and> end_time sample_ends = au_end sample_auction"
  using open_auction_spec [OF sample_open_launcher]
  by (simp add: sample_open_def sample_folio_def as_u64_nonneg)

text \<open>
  Without the launcher an auction can only be opened after the restricted window, for tokens
  whose prices are not deferred, at the limits and prices that the rebalance holds; the caller
  chooses nothing but the pair.
\<close>
theorem open_permissionless_spec:
  assumes "open_auction_permissionless_handler sdk a t1 t2 t = Ok (f', auction, ends', rb')"
  shows "folio_status (oa_folio a) = status_u8 Initialized
    \<and> restricted_until (oa_rebalance a) \<le> as_u64 t \<and> as_u64 t \<le> available_until (oa_rebalance a)
    \<and> (\<exists>sd \<in> set (rb_tokens (oa_rebalance a)). \<exists>bd \<in> set (rb_tokens (oa_rebalance a)).
        rd_mint sd = oa_sell_mint a \<and> rd_mint bd = oa_buy_mint a
        \<and> sell_limit auction = spot (rd_limits sd) \<and> buy_limit auction = spot (rd_limits bd)
        \<and> price_low (rd_prices bd) \<noteq> 0
        \<and> price_ratio (price_high (rd_prices sd)) (price_low (rd_prices bd))
            = Ok (price_start (au_prices auction))
        \<and> price_ratio (price_low (rd_prices sd)) (price_high (rd_prices bd))
            = Ok (price_end (au_prices auction)))"
proof -
  from assms obtain bump where h: "folio_status (oa_folio a) = status_u8 Initialized"
    and o: "open_validated_auction a bump t RESTRICTED_AUCTION_BUFFER None True = Ok (f', auction, ends', rb')"
    by (rule open_permissionless_Ok)
  from o obtain ends where
    au: "open_auction (default_auction\<lparr>au_bump := oa_auction_bump a\<rparr>) f' (oa_folio_key a)
      (oa_folio_basket a) ends (mint_supply (oa_folio_token_mint a)) (oa_rebalance a)
      (oa_sell_mint a) (oa_buy_mint a) (as_u64 t) RESTRICTED_AUCTION_BUFFER None True = Ok (auction, ends', rb')"
    by (rule open_validated_Ok)
  show ?thesis
    using au
  proof (rule open_auction_effect, goal_cases)
    case (1 i j sd bd)
    have "auction_prices sd bd None = Ok (au_prices auction)" by (rule 1(14))
    then have pr: "price_low (rd_prices bd) \<noteq> 0"
      "price_ratio (price_high (rd_prices sd)) (price_low (rd_prices bd)) = Ok (price_start (au_prices auction))"
      "price_ratio (price_low (rd_prices sd)) (price_high (rd_prices bd)) = Ok (price_end (au_prices auction))"
      by (auto simp: auction_prices_def split: if_splits dest: sym [of _ "au_prices auction"])
    have fields: "sell_limit auction = spot (rd_limits sd)" "buy_limit auction = spot (rd_limits bd)"
      by (subst 1(20), simp add: chosen_sell_def chosen_buy_def)+
    have mem: "sd \<in> set (rb_tokens (oa_rebalance a))" "bd \<in> set (rb_tokens (oa_rebalance a))"
      using 1(1,2,4,5) by simp_all
    show ?thesis
      using h 1(16,19)
      by (intro conjI bexI [OF _ mem(1)] bexI [OF _ mem(2)] 1(6,7) fields pr) simp_all
  qed
qed

theorem open_permissionless_spec_witness:
  "restricted_until sample_rebalance \<le> 100 \<and> folio_status sample_folio = 1"
  using open_permissionless_spec [OF sample_open_permissionless]
  by (simp add: sample_open_def as_u64_nonneg)

text \<open>
  C5: A rebalance never trades back and forth. Once an auction has sold a token down to its sell
  limit, no later auction of the same rebalance buys that token above this limit; once it has
  bought a token up to its buy limit, no later auction sells that token below it.
\<close>
theorem auctions_never_backtrack:
  assumes "rebalance_wf rb" "sell \<noteq> default_pubkey" "buy \<noteq> default_pubkey"
    and first: "open_auction self f key basket ends raw rb sell buy t buffer config permissionless
      = Ok (auction, ends1, rb1)"
    and between: "opens\<^sup>*\<^sup>* rb1 rb2"
    and later: "open_auction self' f' key' basket' ends' raw' rb2 sell' buy' t' buffer' config' permissionless'
      = Ok (auction', ends2, rb3)"
  shows "(buy' = sell \<longrightarrow> buy_limit auction' \<le> sell_limit auction)
    \<and> (sell' = buy \<longrightarrow> buy_limit auction \<le> sell_limit auction')"
proof -
  have wf1: "rebalance_wf rb1" by (rule open_auction_wf [OF first assms(1)])
  have wf2: "rebalance_wf rb2" by (rule openings.reachable [OF between wf1])
  have n: "list_all2 narrowed (rb_tokens rb1) (rb_tokens rb2)"
    using openings.reachable_below [OF between wf1] by (simp add: narrower_def)
  obtain i where i: "i < length (rb_tokens rb1)" "rd_mint (rb_tokens rb1 ! i) = sell"
    "high (rd_limits (rb_tokens rb1 ! i)) = sell_limit auction"
    using open_auction_pins(1) [OF first] by blast
  obtain j where j: "j < length (rb_tokens rb1)" "rd_mint (rb_tokens rb1 ! j) = buy"
    "low (rd_limits (rb_tokens rb1 ! j)) = buy_limit auction"
    using open_auction_pins(2) [OF first] by blast
  have n12: "narrowed (rb_tokens rb1 ! k) (rb_tokens rb2 ! k)" if "k < length (rb_tokens rb1)" for k
    using n that by (rule list_all2_nthD)
  have len: "length (rb_tokens rb2) = length (rb_tokens rb1)" using list_all2_lengthD [OF n] by simp
  have i2: "rd_mint (rb_tokens rb2 ! i) = sell" "high (rd_limits (rb_tokens rb2 ! i)) \<le> sell_limit auction"
    using n12 [OF i(1)] i(2,3) by (simp_all add: narrowed_def)
  have j2: "rd_mint (rb_tokens rb2 ! j) = buy" "buy_limit auction \<le> low (rd_limits (rb_tokens rb2 ! j))"
    using n12 [OF j(1)] j(2,3) by (simp_all add: narrowed_def)
  have dw: "details_wf (rb_tokens rb2)" using wf2 by (simp add: rebalance_wf_def)
  show ?thesis
    using later
  proof (rule open_auction_effect, goal_cases)
    case (1 i' j' sd bd)
    have lims: "sell_limit auction' = chosen_sell config' sd" "buy_limit auction' = chosen_buy config' bd"
      by (subst 1(20), simp)+
    have b: "buy_limit auction' \<le> sell_limit auction" if "buy' = sell"
    proof -
      have "j' = i"
        using details_wf_unique [OF dw 1(2), of i] 1(5,7) i(1) i2(1) len that assms(2) by simp
      then show ?thesis using i2(2) 1(5,12) lims(2) by simp
    qed
    have s: "buy_limit auction \<le> sell_limit auction'" if "sell' = buy"
    proof -
      have "i' = j"
        using details_wf_unique [OF dw 1(1), of j] 1(4,6) j(1) j2(1) len that assms(3) by simp
      then show ?thesis using j2(2) 1(4,9) lims(1) by simp
    qed
    show ?thesis using b s by blast
  qed
qed

definition swapped_basket :: folio_basket where
  "swapped_basket = sample_basket\<lparr>fb_token_amounts :=
     [\<lparr>fta_mint = PK 11, fta_amount = 200\<rparr>, \<lparr>fta_mint = PK 12, fta_amount = 250\<rparr>]\<rparr>"

lemma opened_tokens: "rb_tokens opened_rebalance =
    [\<lparr>rd_mint = PK 11, rd_limits = \<lparr>spot = 300000000000000000, low = 100000000000000000,
        high = 300000000000000000\<rparr>, rd_prices = pl_prices sample_sell_pl\<rparr>,
     \<lparr>rd_mint = PK 12, rd_limits = \<lparr>spot = 200000000000000000, low = 200000000000000000,
        high = 300000000000000000\<rparr>, rd_prices = pl_prices sample_buy_pl\<rparr>]
    @ replicate 28 default_rebalance_details_token"
  by (simp add: opened_rebalance_def set_limits_def sample_rebalance_def rd_of_def sample_sell_pl_def
      sample_buy_pl_def)

lemma opened_pair:
  "get_token_details_pair_mut opened_rebalance (PK 12) (PK 11) = (Some 1, Some 0)"
  "get_token_details_pair opened_rebalance (PK 12) (PK 11)
     = (Some (rb_tokens opened_rebalance ! 1), Some (rb_tokens opened_rebalance ! 0))"
proof -
  have skip: "foldl (pair_step (PK 12) (PK 11)) acc (enumerate n (replicate k default_rebalance_details_token)) = acc"
    for acc n k
    by (induction k arbitrary: n) (simp_all add: pair_step_def default_rebalance_details_token_def default_pubkey_def)
  show m: "get_token_details_pair_mut opened_rebalance (PK 12) (PK 11) = (Some 1, Some 0)"
    by (simp add: get_token_details_pair_mut_def opened_tokens skip pair_step_def)
  show "get_token_details_pair opened_rebalance (PK 12) (PK 11)
     = (Some (rb_tokens opened_rebalance ! 1), Some (rb_tokens opened_rebalance ! 0))"
    using pair_lookup(1,2) [of opened_rebalance "PK 12" "PK 11"] m by (intro prod_eqI) simp_all
qed

lemma swapped_amounts:
  "get_token_amount_in_folio_basket swapped_basket (PK 12) = Ok 250"
  "get_token_amount_in_folio_basket_or_zero swapped_basket (PK 11) = 200"
  by (simp_all add: get_token_amount_in_folio_basket_def get_token_amount_in_folio_basket_or_zero_def
      find_fta_def swapped_basket_def default_pubkey_def)

text \<open>The opposite auction, opened by anyone at the time \<open>t\<close>.\<close>

definition swapped_auction :: "nat \<Rightarrow> auction" where
  "swapped_auction t = default_auction\<lparr>au_id := 2, au_nonce := 1, sell_mint := PK 12, buy_mint := PK 11,
     au_start := t, au_end := t + 3600,
     au_prices := \<lparr>price_start = 1000000000000000000, price_end = 500000000000000001\<rparr>,
     sell_limit := 200000000000000000, buy_limit := 300000000000000000, au_folio := PK 1002\<rparr>"

lemma swapped_open_at:
  assumes b: "get_token_amount_in_folio_basket b (PK 12) = Ok 250"
      "get_token_amount_in_folio_basket_or_zero b (PK 11) = 200"
    and t: "60 \<le> t" "t \<le> 100050" "e < t"
  shows "\<exists>rb3. open_auction default_auction sample_folio (PK 1002) b (sample_ends\<lparr>end_time := e\<rparr>) 1000
     opened_rebalance (PK 12) (PK 11) t 0 None True
   = Ok (swapped_auction t, sample_ends\<lparr>end_time := t + 3600\<rparr>, rb3)"
proof -
  have s: "check_surplus_and_deficit sample_folio b 1000 (PK 12) (PK 11) 200000000000000000
     300000000000000000 = Ok ()"
    using b by (simp add: check_surplus_and_deficit_def sample_supply tokens_at_limit_def
        mul_div_def dec_mul_def dec_div_def from_scaled_def to_token_amount_def arith_defs const_defs U64_MAX_def)
  have p: "auction_prices (rb_tokens opened_rebalance ! 1) (rb_tokens opened_rebalance ! 0) None
      = Ok \<lparr>price_start = 1000000000000000000, price_end = 500000000000000001\<rparr>"
    by (simp add: opened_tokens auction_prices_def price_ratio_def sample_sell_pl_def sample_buy_pl_def
        mul_div_def dec_mul_def dec_div_def from_scaled_def to_scaled_def plain_mul_def arith_defs
        const_defs U128_MAX_def)
  have l: "rd_limits (rb_tokens opened_rebalance ! 1)
      = \<lparr>spot = 200000000000000000, low = 200000000000000000, high = 300000000000000000\<rparr>"
    "rd_limits (rb_tokens opened_rebalance ! 0)
      = \<lparr>spot = 300000000000000000, low = 100000000000000000, high = 300000000000000000\<rparr>"
    "price_low (rd_prices (rb_tokens opened_rebalance ! 0)) = 1000000000000000000"
    by (simp_all add: opened_tokens sample_sell_pl_def)
  have r: "started_at opened_rebalance = 50" "available_until opened_rebalance = 100050"
    "restricted_until opened_rebalance = 60" "rebalance_ready opened_rebalance"
    "current_auction_id (set_limits opened_rebalance i j x y) = 1"
    "rb_nonce (set_limits opened_rebalance i j x y) = 1" "folio_auction_length sample_folio = 3600" for i j x y
    by (simp_all add: opened_rebalance_def sample_rebalance_def rebalance_ready_def set_limits_def
        sample_folio_def)
  show ?thesis
    using t
    by (simp add: open_auction_def opened_pair [unfolded One_nat_def] r l [unfolded One_nat_def]
        s p [unfolded One_nat_def] swapped_auction_def
        get_next_auction_id_def auction_length_def plain_add_def arith_defs Let_def default_auction_def)
qed

lemma swapped_open:
  "\<exists>rb3. open_auction default_auction sample_folio (PK 1002) swapped_basket sample_ends 1000
     opened_rebalance (PK 12) (PK 11) 5000 0 None True
   = Ok (swapped_auction 5000, sample_ends\<lparr>end_time := 8600\<rparr>, rb3)"
proof -
  have "sample_ends\<lparr>end_time := 3700\<rparr> = sample_ends" by (simp add: sample_ends_def)
  then show ?thesis using swapped_open_at [OF swapped_amounts, of 5000 3700] by simp
qed

theorem auctions_never_backtrack_witness:
  "(300000000000000000::nat) \<le> sell_limit sample_auction \<and> buy_limit sample_auction \<le> 200000000000000000"
proof -
  obtain rb3 where s: "open_auction default_auction sample_folio (PK 1002) swapped_basket sample_ends 1000
     opened_rebalance (PK 12) (PK 11) 5000 0 None True
   = Ok (swapped_auction 5000, sample_ends\<lparr>end_time := 8600\<rparr>, rb3)"
    using swapped_open by blast
  have "None = None \<and> True \<or> None = Some c \<and> \<not> True" for c :: open_auction_config by simp
  note f = sample_open_auction [OF this]
  show ?thesis
    using auctions_never_backtrack [OF sample_rebalance_wf _ _ f rtranclp.rtrancl_refl s]
    by (simp add: default_pubkey_def swapped_auction_def)
qed

end
