(* ===== verification/PendingBasket.thy ===== *)
theory PendingBasket
  imports Basket FolioFees
begin

text \<open>
  The pending basket of a user, \<open>programs/folio/src/utils/accounts/user_pending_basket.rs\<close>: 110
  slots with an amount waiting to be minted with and an amount waiting to be redeemed. A mint
  instruction moves amounts from the minting side into the basket of the folio, a burn moves
  amounts from the basket to the redeeming side (\<open>to_assets\<close>).
\<close>

section \<open>Operations\<close>

definition find_ta :: "pubkey \<Rightarrow> token_amount list \<Rightarrow> token_amount option" where
  "find_ta mint tas = find (\<lambda>ta. ta_mint ta = mint) tas"

definition update_ta ::
  "pubkey \<Rightarrow> (token_amount \<Rightarrow> token_amount) \<Rightarrow> token_amount list \<Rightarrow> token_amount list" where
  "update_ta mint f tas = update_first (\<lambda>ta. ta_mint ta = mint) f tas"

definition add_token_amount ::
  "bool \<Rightarrow> pending_basket_type \<Rightarrow> token_amount list \<Rightarrow> token_amount \<Rightarrow> token_amount list result" where
  "add_token_amount can_add_new_mints kind tas x =
     (case kind of
        MintProcess \<Rightarrow>
          (case find_ta (ta_mint x) tas of
             Some slot \<Rightarrow>
               and_then (ok_or (checked_add 64 (amount_for_minting x) (amount_for_minting slot))
                 MathOverflow) (\<lambda>a.
               Ok (update_ta (ta_mint x) (\<lambda>ta. ta\<lparr>amount_for_minting := a\<rparr>) tas))
           | None \<Rightarrow>
               if can_add_new_mints then
                 (case find_ta default_pubkey tas of
                    Some slot \<Rightarrow>
                      Ok (update_ta default_pubkey
                        (\<lambda>ta. ta\<lparr>ta_mint := ta_mint x, amount_for_minting := amount_for_minting x\<rparr>) tas)
                  | None \<Rightarrow> Err InvalidAddedTokenMints)
               else Err InvalidAddedTokenMints)
      | RedeemProcess \<Rightarrow>
          (case find_ta (ta_mint x) tas of
             Some slot \<Rightarrow>
               and_then (ok_or (checked_add 64 (amount_for_redeeming x) (amount_for_redeeming slot))
                 MathOverflow) (\<lambda>a.
               Ok (update_ta (ta_mint x) (\<lambda>ta. ta\<lparr>amount_for_redeeming := a\<rparr>) tas))
           | None \<Rightarrow>
               if can_add_new_mints then
                 (case find_ta default_pubkey tas of
                    Some slot \<Rightarrow>
                      Ok (update_ta default_pubkey
                        (\<lambda>ta. ta\<lparr>ta_mint := ta_mint x, amount_for_redeeming := amount_for_redeeming x\<rparr>) tas)
                  | None \<Rightarrow> Err InvalidAddedTokenMints)
               else Err InvalidAddedTokenMints))"

definition add_token_amounts_to_folio ::
  "user_pending_basket \<Rightarrow> token_amount list \<Rightarrow> bool \<Rightarrow> pending_basket_type
   \<Rightarrow> user_pending_basket result" where
  "add_token_amounts_to_folio self token_amounts can_add_new_mints kind =
     and_then (fold_result (add_token_amount can_add_new_mints kind) (upb_token_amounts self)
       token_amounts) (\<lambda>tas. Ok (self\<lparr>upb_token_amounts := tas\<rparr>))"

definition clear_if_empty :: "token_amount \<Rightarrow> token_amount" where
  "clear_if_empty ta =
     (if amount_for_minting ta = 0 \<and> amount_for_redeeming ta = 0
      then ta\<lparr>ta_mint := default_pubkey\<rparr> else ta)"

definition remove_token_amount ::
  "bool \<Rightarrow> pending_basket_type \<Rightarrow> token_amount list \<Rightarrow> token_amount \<Rightarrow> token_amount list result" where
  "remove_token_amount needs_to_validate_mint_existence kind tas x =
     (case find_ta (ta_mint x) tas of
        Some slot \<Rightarrow>
          (case kind of
             MintProcess \<Rightarrow>
               and_then (ok_or (checked_sub (amount_for_minting slot) (amount_for_minting x))
                 InvalidShareAmountProvided) (\<lambda>a.
               Ok (update_ta (ta_mint x) (\<lambda>ta. clear_if_empty (ta\<lparr>amount_for_minting := a\<rparr>)) tas))
           | RedeemProcess \<Rightarrow>
               and_then (ok_or (checked_sub (amount_for_redeeming slot) (amount_for_redeeming x))
                 InvalidShareAmountProvided) (\<lambda>a.
               Ok (update_ta (ta_mint x) (\<lambda>ta. clear_if_empty (ta\<lparr>amount_for_redeeming := a\<rparr>)) tas)))
      | None \<Rightarrow> if needs_to_validate_mint_existence then Err InvalidRemovedTokenMints else Ok tas)"

definition remove_token_amounts_from_folio ::
  "user_pending_basket \<Rightarrow> token_amount list \<Rightarrow> bool \<Rightarrow> pending_basket_type
   \<Rightarrow> user_pending_basket result" where
  "remove_token_amounts_from_folio self token_amounts needs_to_validate_mint_existence kind =
     and_then (fold_result (remove_token_amount needs_to_validate_mint_existence kind)
       (upb_token_amounts self) token_amounts) (\<lambda>tas. Ok (self\<lparr>upb_token_amounts := tas\<rparr>))"

definition pending_process_init_if_needed ::
  "user_pending_basket option \<Rightarrow> nat \<Rightarrow> pubkey \<Rightarrow> pubkey \<Rightarrow> token_amount list \<Rightarrow> bool
   \<Rightarrow> user_pending_basket result" where
  "pending_process_init_if_needed account context_bump owner folio added can_add_new_mints =
     (case account of
        None \<Rightarrow>
          add_token_amounts_to_folio
            \<lparr>upb_bump = context_bump, upb_owner = owner, upb_folio = folio,
             upb_token_amounts =
               replicate MAX_USER_PENDING_BASKET_TOKEN_AMOUNTS default_token_amount\<rparr>
            added can_add_new_mints MintProcess
      | Some self \<Rightarrow>
          check_condition (upb_bump self = context_bump) InvalidBump (
          add_token_amounts_to_folio self added can_add_new_mints MintProcess))"

definition pending_is_empty :: "user_pending_basket \<Rightarrow> bool" where
  "pending_is_empty self =
     list_all (\<lambda>ta. amount_for_minting ta = 0 \<and> amount_for_redeeming ta = 0)
       (upb_token_amounts self)"

definition pending_reset :: "user_pending_basket \<Rightarrow> user_pending_basket" where
  "pending_reset self =
     self\<lparr>upb_token_amounts := replicate MAX_USER_PENDING_BASKET_TOKEN_AMOUNTS default_token_amount\<rparr>"

definition to_assets_for_minting ::
  "token_amount \<Rightarrow> folio_token_amount \<Rightarrow> decimal \<Rightarrow> decimal \<Rightarrow> decimal
   \<Rightarrow> (token_amount \<times> folio_token_amount) result" where
  "to_assets_for_minting user fta total_shares balance shares =
     and_then (from_token_amount (amount_for_minting user)) (\<lambda>amount.
     and_then (dec_mul amount total_shares) (\<lambda>m.
     and_then (dec_div m balance) (\<lambda>calculated_shares.
     check_condition (calculated_shares \<ge> shares) InvalidShareAmountProvided (
     and_then (dec_mul shares balance) (\<lambda>m'.
     and_then (dec_div m' total_shares) (\<lambda>q.
     and_then (to_token_amount q Ceiling) (\<lambda>taken.
     and_then (ok_or (checked_sub (amount_for_minting user) taken) MathOverflow) (\<lambda>rest.
     and_then (ok_or (checked_add 64 (fta_amount fta) taken) MathOverflow) (\<lambda>new_amount.
     Ok (user\<lparr>amount_for_minting := rest\<rparr>, fta\<lparr>fta_amount := new_amount\<rparr>))))))))))"

definition to_assets_for_redeeming ::
  "token_amount \<Rightarrow> folio_token_amount \<Rightarrow> decimal \<Rightarrow> decimal \<Rightarrow> decimal \<Rightarrow> nat option
   \<Rightarrow> (token_amount \<times> folio_token_amount) result" where
  "to_assets_for_redeeming user fta total_shares balance shares minimum_amount_out =
     and_then (dec_mul shares balance) (\<lambda>m.
     and_then (dec_div m total_shares) (\<lambda>q.
     and_then (to_token_amount q Floor) (\<lambda>given.
     and_then (ok_or (checked_add 64 (amount_for_redeeming user) given) MathOverflow) (\<lambda>new_amount.
     and_then (ok_or (checked_sub (fta_amount fta) given) MathOverflow) (\<lambda>rest.
     case minimum_amount_out of
       Some minimum \<Rightarrow>
         check_condition (given \<ge> minimum) MinimumAmountOutNotMet (
         Ok (user\<lparr>amount_for_redeeming := new_amount\<rparr>, fta\<lparr>fta_amount := rest\<rparr>))
     | None \<Rightarrow> Ok (user\<lparr>amount_for_redeeming := new_amount\<rparr>, fta\<lparr>fta_amount := rest\<rparr>))))))"

text \<open>The slot of the user for a mint of the basket; a redeem may claim an empty one.\<close>

definition to_assets_slot ::
  "pending_basket_type \<Rightarrow> token_amount list \<Rightarrow> pubkey \<Rightarrow> token_amount list result" where
  "to_assets_slot kind user mint =
     (case find_ta mint user of
        Some ta \<Rightarrow> Ok user
      | None \<Rightarrow>
          if kind = RedeemProcess then
            (case find_ta default_pubkey user of
               Some slot \<Rightarrow> Ok (update_ta default_pubkey (\<lambda>ta. ta\<lparr>ta_mint := mint\<rparr>) user)
             | None \<Rightarrow> Err MintMismatch)
          else Err MintMismatch)"

definition find_minimum_out ::
  "minimum_out_for_token_amount list \<Rightarrow> pubkey \<Rightarrow> nat option" where
  "find_minimum_out mins mint = map_option minimum_out (find (\<lambda>m. mo_mint m = mint) mins)"

definition to_assets_token ::
  "pending_basket_type \<Rightarrow> decimal \<Rightarrow> decimal \<Rightarrow> minimum_out_for_token_amount list
   \<Rightarrow> token_amount \<Rightarrow> folio_token_amount \<Rightarrow> (token_amount \<times> folio_token_amount) result" where
  "to_assets_token kind total_shares shares mins ta fta =
     and_then (from_token_amount (fta_amount fta)) (\<lambda>balance.
     case kind of
       MintProcess \<Rightarrow> to_assets_for_minting ta fta total_shares balance shares
     | RedeemProcess \<Rightarrow>
         to_assets_for_redeeming ta fta total_shares balance shares (find_minimum_out mins (fta_mint fta)))"

fun to_assets_loop ::
  "pending_basket_type \<Rightarrow> decimal \<Rightarrow> decimal \<Rightarrow> minimum_out_for_token_amount list
   \<Rightarrow> token_amount list \<Rightarrow> folio_token_amount list
   \<Rightarrow> (token_amount list \<times> folio_token_amount list) result" where
  "to_assets_loop kind total_shares shares mins user [] = Ok (user, [])"
| "to_assets_loop kind total_shares shares mins user (fta # rest) =
     (if fta_mint fta = default_pubkey then
        and_then (to_assets_loop kind total_shares shares mins user rest) (\<lambda>(user', rest').
        Ok (user', fta # rest'))
      else
        and_then (to_assets_slot kind user (fta_mint fta)) (\<lambda>user1.
        and_then (unwrap (find_ta (fta_mint fta) user1)) (\<lambda>ta.
        and_then (to_assets_token kind total_shares shares mins ta fta) (\<lambda>(ta', fta').
        and_then (to_assets_loop kind total_shares shares mins
          (update_ta (fta_mint fta) (\<lambda>_. ta') user1) rest) (\<lambda>(user', rest').
        Ok (user', fta' # rest'))))))"

definition to_assets ::
  "user_pending_basket \<Rightarrow> nat \<Rightarrow> nat \<Rightarrow> folio_basket \<Rightarrow> folio \<Rightarrow> pending_basket_type \<Rightarrow> int
   \<Rightarrow> nat \<Rightarrow> nat \<Rightarrow> nat \<Rightarrow> minimum_out_for_token_amount list
   \<Rightarrow> (user_pending_basket \<times> folio_basket \<times> folio) result" where
  "to_assets self raw_shares raw_supply basket f kind current_time num den fee_floor mins =
     and_then (poke f raw_supply current_time num den fee_floor) (\<lambda>f'.
     and_then (get_total_supply f' raw_supply) (\<lambda>total_shares.
     and_then (from_token_amount raw_shares) (\<lambda>shares.
     and_then (to_assets_loop kind total_shares shares mins (upb_token_amounts self)
       (fb_token_amounts basket)) (\<lambda>(user', tas').
     Ok (self\<lparr>upb_token_amounts := user'\<rparr>, basket\<lparr>fb_token_amounts := tas'\<rparr>, f')))))"

section \<open>The amounts of a pending basket\<close>

primrec side :: "pending_basket_type \<Rightarrow> token_amount \<Rightarrow> nat" where
  "side MintProcess ta = amount_for_minting ta"
| "side RedeemProcess ta = amount_for_redeeming ta"

definition pending_amount :: "pending_basket_type \<Rightarrow> token_amount list \<Rightarrow> pubkey \<Rightarrow> nat" where
  "pending_amount kind tas m =
     (if m = default_pubkey then 0
      else case slot_of ta_mint tas m of Some ta \<Rightarrow> side kind ta | None \<Rightarrow> 0)"

text \<open>Well formed: no mint twice, and a free slot holds nothing.\<close>

definition pending_wf :: "token_amount list \<Rightarrow> bool" where
  "pending_wf tas \<longleftrightarrow> slots_wf ta_mint tas \<and> length tas = MAX_USER_PENDING_BASKET_TOKEN_AMOUNTS
     \<and> (\<forall>ta \<in> set tas. ta_mint ta = default_pubkey \<longrightarrow>
          amount_for_minting ta = 0 \<and> amount_for_redeeming ta = 0)"

lemma find_ta_slot_of: "find_ta m xs = slot_of ta_mint xs m"
  by (simp add: find_ta_def slot_of_def)

lemma set_update_first: "x \<in> set (update_first p f xs) \<Longrightarrow> x \<in> set xs \<or> (\<exists>y \<in> set xs. p y \<and> x = f y)"
  by (induction xs) (auto split: if_splits)

lemma pending_wf_init: "pending_wf (replicate MAX_USER_PENDING_BASKET_TOKEN_AMOUNTS default_token_amount)"
  by (simp add: pending_wf_def default_token_amount_def)

text \<open>The three changes of a slot: in place, claimed, freed.\<close>

lemma pending_update_same:
  assumes "pending_wf tas" "m \<noteq> default_pubkey" "find_ta m tas = Some s"
    and f: "\<And>x. ta_mint (f x) = ta_mint x"
  shows "pending_wf (update_ta m f tas)"
    and "pending_amount kind (update_ta m f tas) = (pending_amount kind tas)(m := side kind (f s))"
proof -
  show "pending_wf (update_ta m f tas)"
    using assms(1,2) f slots_wf_update_same [of ta_mint f]
    by (auto simp: pending_wf_def update_ta_def dest: set_update_first)
  show "pending_amount kind (update_ta m f tas) = (pending_amount kind tas)(m := side kind (f s))"
    using assms(2,3) slot_of_update_same [of ta_mint f m tas, OF f]
    by (auto simp: pending_amount_def update_ta_def find_ta_slot_of fun_eq_iff)
qed

lemma pending_claim:
  assumes "pending_wf tas" "m \<noteq> default_pubkey" "find_ta m tas = None"
    "find_ta default_pubkey tas = Some s" and f: "\<And>x. ta_mint (f x) = m"
  shows "pending_wf (update_ta default_pubkey f tas)"
    and "find_ta m (update_ta default_pubkey f tas) = Some (f s)"
    and "pending_amount kind (update_ta default_pubkey f tas)
      = (pending_amount kind tas)(m := side kind (f s))"
    and "amount_for_minting s = 0" "amount_for_redeeming s = 0"
proof -
  have free: "find (\<lambda>s. ta_mint s = default_pubkey) tas = Some s"
    using assms(4) by (simp add: find_ta_def)
  have none: "slot_of ta_mint tas m = None" using assms(3) by (simp add: find_ta_slot_of)
  show "pending_wf (update_ta default_pubkey f tas)"
    using slots_wf_claim [OF _ free assms(2) none f] assms(1,2) f
    by (auto simp: pending_wf_def update_ta_def dest: set_update_first)
  note claim = slot_of_claim [OF free assms(2) none f]
  show "find_ta m (update_ta default_pubkey f tas) = Some (f s)"
    using claim(1) by (simp add: find_ta_slot_of update_ta_def)
  show "pending_amount kind (update_ta default_pubkey f tas)
      = (pending_amount kind tas)(m := side kind (f s))"
    using claim assms(2) by (auto simp: pending_amount_def update_ta_def fun_eq_iff)
  show "amount_for_minting s = 0" "amount_for_redeeming s = 0"
    using find_Some_prop [OF free] assms(1) by (auto simp: pending_wf_def)
qed

lemma pending_free:
  assumes "pending_wf tas" "m \<noteq> default_pubkey" "find_ta m tas = Some s"
    and f: "\<And>x. ta_mint (f x) = default_pubkey" "\<And>x. x \<in> set tas \<Longrightarrow> ta_mint x = m \<Longrightarrow>
      amount_for_minting (f x) = 0 \<and> amount_for_redeeming (f x) = 0"
  shows "pending_wf (update_ta m f tas)"
    and "pending_amount kind (update_ta m f tas) = (pending_amount kind tas)(m := 0)"
proof -
  have s: "slot_of ta_mint tas m = Some s" using assms(3) by (simp add: find_ta_slot_of)
  have wf: "slots_wf ta_mint tas" using assms(1) by (simp add: pending_wf_def)
  note free = slots_wf_free [OF wf s assms(2) f(1)]
  show "pending_wf (update_ta m f tas)"
    using free(1) assms(1,2) f by (auto simp: pending_wf_def update_ta_def dest: set_update_first)
  show "pending_amount kind (update_ta m f tas) = (pending_amount kind tas)(m := 0)"
    using free(2,3) by (auto simp: pending_amount_def update_ta_def fun_eq_iff)
qed

lemma pending_amount_found:
  "m \<noteq> default_pubkey \<Longrightarrow> find_ta m tas = Some s \<Longrightarrow> pending_amount kind tas m = side kind s"
  by (simp add: pending_amount_def find_ta_slot_of)

lemma pending_amount_absent: "find_ta m tas = None \<Longrightarrow> pending_amount kind tas m = 0"
  by (simp add: pending_amount_def find_ta_slot_of)

lemma update_ta_const:
  "find_ta m tas = Some s \<Longrightarrow> update_ta m f tas = update_ta m (\<lambda>_. f s) tas"
  by (induction tas) (auto simp: find_ta_def update_ta_def)

text \<open>Adding and removing one amount changes one entry of one side.\<close>

lemma add_token_amount_effect:
  assumes "pending_wf tas" "ta_mint x \<noteq> default_pubkey" "add_token_amount can kind tas x = Ok tas'"
  shows "pending_wf tas' \<and> pending_amount t tas' =
    (if t = kind then (pending_amount t tas)(ta_mint x := pending_amount t tas (ta_mint x) + side t x)
     else pending_amount t tas)"
proof (cases "find_ta (ta_mint x) tas")
  case (Some s)
  then show ?thesis
    using assms
    by (cases kind; cases t) (auto simp: add_token_amount_def pending_update_same
        pending_amount_found add.commute fun_upd_idem)
next
  case None
  then obtain s where "find_ta default_pubkey tas = Some s"
    using assms(3) by (cases kind) (auto simp: add_token_amount_def split: option.splits if_splits)
  note free = this
  define f :: "token_amount \<Rightarrow> token_amount" where "f = (\<lambda>ta. case kind of
      MintProcess \<Rightarrow> ta\<lparr>ta_mint := ta_mint x, amount_for_minting := amount_for_minting x\<rparr>
    | RedeemProcess \<Rightarrow> ta\<lparr>ta_mint := ta_mint x, amount_for_redeeming := amount_for_redeeming x\<rparr>)"
  have f: "ta_mint (f y) = ta_mint x" for y by (cases kind) (simp_all add: f_def)
  have tas': "tas' = update_ta default_pubkey f tas"
    using assms(3) None free
    by (cases kind) (simp_all add: add_token_amount_def f_def split: if_splits)
  note c = pending_claim [OF assms(1,2) None free, of f, OF f]
  have "side t (f s) = (if t = kind then side t x else 0)"
    using c(4,5) by (cases kind; cases t) (simp_all add: f_def)
  then show ?thesis
    using c(1) c(3) [of t] pending_amount_absent [OF None, of t]
    by (cases "t = kind") (simp_all add: tas' fun_upd_idem)
qed

lemma remove_token_amount_effect:
  assumes "pending_wf tas" "ta_mint x \<noteq> default_pubkey" "remove_token_amount v kind tas x = Ok tas'"
    and "v \<or> find_ta (ta_mint x) tas \<noteq> None"
  shows "side kind x \<le> pending_amount kind tas (ta_mint x) \<and> pending_wf tas' \<and> pending_amount t tas' =
    (if t = kind then (pending_amount t tas)(ta_mint x := pending_amount t tas (ta_mint x) - side t x)
     else pending_amount t tas)"
proof -
  obtain s where s: "find_ta (ta_mint x) tas = Some s"
    using assms(3,4) by (auto simp: remove_token_amount_def split: option.splits if_splits)
  define s' where "s' = (case kind of
      MintProcess \<Rightarrow> s\<lparr>amount_for_minting := amount_for_minting s - amount_for_minting x\<rparr>
    | RedeemProcess \<Rightarrow> s\<lparr>amount_for_redeeming := amount_for_redeeming s - amount_for_redeeming x\<rparr>)"
  have sm: "ta_mint s = ta_mint x" using s by (simp add: find_ta_slot_of slot_of_key)
  have le: "side kind x \<le> side kind s"
    and tas': "tas' = update_ta (ta_mint x) (\<lambda>_. clear_if_empty s') tas"
    using assms(3) s
      update_ta_const [OF s, of "\<lambda>ta. clear_if_empty (ta\<lparr>amount_for_minting
        := amount_for_minting s - amount_for_minting x\<rparr>)"]
      update_ta_const [OF s, of "\<lambda>ta. clear_if_empty (ta\<lparr>amount_for_redeeming
        := amount_for_redeeming s - amount_for_redeeming x\<rparr>)"]
    by (cases kind; clarsimp simp: remove_token_amount_def s'_def)+
  have amt: "pending_amount t tas (ta_mint x) = side t s" for t
    using s assms(2) by (simp add: pending_amount_found)
  have side: "side t s' = (if t = kind then side t s - side t x else side t s)" for t
    by (cases kind; cases t) (simp_all add: s'_def)
  show ?thesis
  proof (cases "amount_for_minting s' = 0 \<and> amount_for_redeeming s' = 0")
    case True
    then have z: "side t s' = 0" for t by (cases t) simp_all
    have "pending_wf tas'" "pending_amount t tas' = (pending_amount t tas)(ta_mint x := 0)"
      unfolding tas' using pending_free [OF assms(1,2) s, of "\<lambda>_. clear_if_empty s'"] True
      by (simp_all add: clear_if_empty_def)
    then show ?thesis using le z [of t] amt side [of t] by (auto simp: fun_upd_idem)
  next
    case False
    then have c: "clear_if_empty s' = s'" unfolding clear_if_empty_def by (rule if_not_P)
    have m: "ta_mint s' = ta_mint x" using sm by (cases kind) (simp_all add: s'_def)
    have e: "s'\<lparr>ta_mint := ta_mint x\<rparr> = s'" using m by (cases s') simp
    have u: "update_ta (ta_mint x) (\<lambda>_. s') tas = update_ta (ta_mint x) (\<lambda>y. s'\<lparr>ta_mint := ta_mint y\<rparr>) tas"
      using update_ta_const [OF s, of "\<lambda>y. s'\<lparr>ta_mint := ta_mint y\<rparr>"] sm e by simp
    have "pending_wf tas'" "pending_amount t tas' = (pending_amount t tas)(ta_mint x := side t s')"
      unfolding tas' c u
      using pending_update_same [OF assms(1,2) s, of "\<lambda>y. s'\<lparr>ta_mint := ta_mint y\<rparr>"]
      by (auto, cases t) auto
    then show ?thesis using le amt side [of t] by (auto simp: fun_upd_idem)
  qed
qed

section \<open>Both sides as ledgers\<close>

definition ta_of :: "pubkey \<times> nat \<Rightarrow> token_amount" where
  "ta_of x = \<lparr>ta_mint = fst x, amount_for_minting = snd x, amount_for_redeeming = snd x\<rparr>"

definition pending_credit ::
  "pending_basket_type \<Rightarrow> token_amount list \<Rightarrow> pubkey \<times> nat \<Rightarrow> token_amount list result" where
  "pending_credit kind tas x = add_token_amount True kind tas (ta_of x)"

definition pending_debit ::
  "pending_basket_type \<Rightarrow> token_amount list \<Rightarrow> pubkey \<times> nat \<Rightarrow> token_amount list result" where
  "pending_debit kind tas x = remove_token_amount True kind tas (ta_of x)"

lemma ta_of_simps [simp]: "ta_mint (ta_of x) = fst x" "side kind (ta_of x) = snd x"
  by (cases kind; simp add: ta_of_def)+

lemma pending_credit_effect:
  assumes "pending_wf s" "m \<noteq> default_pubkey" "pending_credit kind s (m, a) = Ok s'"
  shows "pending_wf s' \<and> pending_amount t s' =
    (if t = kind then (pending_amount t s)(m := pending_amount t s m + a) else pending_amount t s)"
  using add_token_amount_effect [of s "ta_of (m, a)" True kind s' t] assms
  by (simp add: pending_credit_def)

lemma pending_debit_effect:
  assumes "pending_wf s" "m \<noteq> default_pubkey" "pending_debit kind s (m, a) = Ok s'"
  shows "a \<le> pending_amount kind s m \<and> pending_wf s' \<and> pending_amount t s' =
    (if t = kind then (pending_amount t s)(m := pending_amount t s m - a) else pending_amount t s)"
  using remove_token_amount_effect [of s "ta_of (m, a)" True kind s' t] assms
  by (simp add: pending_debit_def)

interpretation pending: dual_ledger pending_wf
  "pending_amount MintProcess" "pending_credit MintProcess" "pending_debit MintProcess"
  "pending_amount RedeemProcess" "pending_credit RedeemProcess" "pending_debit RedeemProcess"
proof unfold_locales
  fix s m a s'
  assume s: "pending_wf s" "m \<noteq> default_pubkey"
  show "pending_credit MintProcess s (m, a) = Ok s' \<Longrightarrow> pending_wf s' \<and>
      pending_amount MintProcess s' = (pending_amount MintProcess s)(m := pending_amount MintProcess s m + a)"
    "pending_credit RedeemProcess s (m, a) = Ok s' \<Longrightarrow> pending_wf s' \<and>
      pending_amount RedeemProcess s' = (pending_amount RedeemProcess s)(m := pending_amount RedeemProcess s m + a)"
    using pending_credit_effect [OF s] by metis+
  show "pending_debit MintProcess s (m, a) = Ok s' \<Longrightarrow> a \<le> pending_amount MintProcess s m \<and>
      pending_wf s' \<and>
      pending_amount MintProcess s' = (pending_amount MintProcess s)(m := pending_amount MintProcess s m - a)"
    "pending_debit RedeemProcess s (m, a) = Ok s' \<Longrightarrow> a \<le> pending_amount RedeemProcess s m \<and>
      pending_wf s' \<and>
      pending_amount RedeemProcess s' = (pending_amount RedeemProcess s)(m := pending_amount RedeemProcess s m - a)"
    using pending_debit_effect [OF s] by metis+
  show "pending_credit MintProcess s (m, a) = Ok s' \<or> pending_debit MintProcess s (m, a) = Ok s' \<Longrightarrow>
      pending_amount RedeemProcess s' = pending_amount RedeemProcess s"
    "pending_credit RedeemProcess s (m, a) = Ok s' \<or> pending_debit RedeemProcess s (m, a) = Ok s' \<Longrightarrow>
      pending_amount MintProcess s' = pending_amount MintProcess s"
    using pending_credit_effect [OF s] pending_debit_effect [OF s]
    by (metis pending_basket_type.distinct(1))+
qed

section \<open>What a mint takes and a burn gives\<close>

primrec asset_share :: "pending_basket_type \<Rightarrow> decimal \<Rightarrow> decimal \<Rightarrow> nat \<Rightarrow> nat" where
  "asset_share MintProcess total_shares shares amount =
     min (ceil_div (shares * (amount * D9) div total_shares) D9) U64_MAX"
| "asset_share RedeemProcess total_shares shares amount =
     min (shares * (amount * D9) div total_shares div D9) U64_MAX"

primrec after_assets ::
  "pending_basket_type \<Rightarrow> decimal \<Rightarrow> decimal \<Rightarrow> folio_token_amount \<Rightarrow> folio_token_amount" where
  "after_assets MintProcess total_shares shares fta =
     (if fta_mint fta = default_pubkey then fta
      else fta\<lparr>fta_amount := fta_amount fta + asset_share MintProcess total_shares shares (fta_amount fta)\<rparr>)"
| "after_assets RedeemProcess total_shares shares fta =
     (if fta_mint fta = default_pubkey then fta
      else fta\<lparr>fta_amount := fta_amount fta - asset_share RedeemProcess total_shares shares (fta_amount fta)\<rparr>)"

definition moved_for ::
  "pending_basket_type \<Rightarrow> decimal \<Rightarrow> decimal \<Rightarrow> folio_token_amount list \<Rightarrow> pubkey \<Rightarrow> nat" where
  "moved_for kind total_shares shares tas m =
     (if m = default_pubkey then 0
      else case slot_of fta_mint tas m of
        Some fta \<Rightarrow> asset_share kind total_shares shares (fta_amount fta) | None \<Rightarrow> 0)"

primrec asset_guard ::
  "pending_basket_type \<Rightarrow> decimal \<Rightarrow> decimal \<Rightarrow> minimum_out_for_token_amount list
   \<Rightarrow> folio_token_amount \<Rightarrow> bool" where
  "asset_guard MintProcess total_shares shares mins fta \<longleftrightarrow>
     fta_amount fta + asset_share MintProcess total_shares shares (fta_amount fta) < 2 ^ 64"
| "asset_guard RedeemProcess total_shares shares mins fta \<longleftrightarrow>
     asset_share RedeemProcess total_shares shares (fta_amount fta) \<le> fta_amount fta
     \<and> (case find_minimum_out mins (fta_mint fta) of
          Some minimum \<Rightarrow> minimum \<le> asset_share RedeemProcess total_shares shares (fta_amount fta)
        | None \<Rightarrow> True)"

lemma minting_step_Ok:
  assumes "to_assets_for_minting ta fta total_shares (fta_amount fta * D9) shares = Ok (ta', fta')"
  shows "asset_share MintProcess total_shares shares (fta_amount fta) \<le> amount_for_minting ta
    \<and> ta' = ta\<lparr>amount_for_minting :=
        amount_for_minting ta - asset_share MintProcess total_shares shares (fta_amount fta)\<rparr>
    \<and> fta' = fta\<lparr>fta_amount :=
        fta_amount fta + asset_share MintProcess total_shares shares (fta_amount fta)\<rparr>
    \<and> asset_guard MintProcess total_shares shares mins fta \<and> 0 < total_shares
    \<and> shares * (fta_amount fta * D9) \<le> amount_for_minting ta * D9 * total_shares"
proof -
  from assms obtain taken where
    t: "to_token_amount (shares * (fta_amount fta * D9) div total_shares) Ceiling = Ok taken"
    and r: "taken \<le> amount_for_minting ta" "fta_amount fta + taken < 2 ^ 64" "0 < total_shares"
      "ta' = ta\<lparr>amount_for_minting := amount_for_minting ta - taken\<rparr>"
      "fta' = fta\<lparr>fta_amount := fta_amount fta + taken\<rparr>"
    and c: "shares \<le> amount_for_minting ta * D9 * total_shares div (fta_amount fta * D9)"
      "0 < fta_amount fta * D9"
    by (clarsimp simp: to_assets_for_minting_def)
  have "taken = asset_share MintProcess total_shares shares (fta_amount fta)"
    using to_token_amount_Ceiling_Ok [OF t] by simp
  moreover have "shares * (fta_amount fta * D9) \<le> amount_for_minting ta * D9 * total_shares"
    using c by (metis less_eq_div_iff_mult_less_eq)
  ultimately show ?thesis using r by simp
qed

lemma redeeming_step_Ok:
  assumes "to_assets_for_redeeming ta fta total_shares (fta_amount fta * D9) shares
      (find_minimum_out mins (fta_mint fta)) = Ok (ta', fta')"
  shows "ta' = ta\<lparr>amount_for_redeeming :=
        amount_for_redeeming ta + asset_share RedeemProcess total_shares shares (fta_amount fta)\<rparr>
    \<and> fta' = fta\<lparr>fta_amount :=
        fta_amount fta - asset_share RedeemProcess total_shares shares (fta_amount fta)\<rparr>
    \<and> asset_guard RedeemProcess total_shares shares mins fta \<and> 0 < total_shares"
  using assms
  by (clarsimp simp: to_assets_for_redeeming_def to_token_amount_Floor split: option.splits)

text \<open>One token of the loop, for either kind.\<close>

lemma to_assets_token_Ok:
  assumes "to_assets_token kind total_shares shares mins ta fta = Ok (ta', fta')"
    "fta_mint fta \<noteq> default_pubkey"
  defines "d \<equiv> asset_share kind total_shares shares (fta_amount fta)"
  shows "ta_mint ta' = ta_mint ta" "fta' = after_assets kind total_shares shares fta"
    "asset_guard kind total_shares shares mins fta"
    "kind = MintProcess \<Longrightarrow> side MintProcess ta' + d = side MintProcess ta
       \<and> side RedeemProcess ta' = side RedeemProcess ta"
    "kind = RedeemProcess \<Longrightarrow> side RedeemProcess ta' = side RedeemProcess ta + d
       \<and> side MintProcess ta' = side MintProcess ta"
proof -
  have h: "case kind of
      MintProcess \<Rightarrow> to_assets_for_minting ta fta total_shares (fta_amount fta * D9) shares = Ok (ta', fta')
    | RedeemProcess \<Rightarrow> to_assets_for_redeeming ta fta total_shares (fta_amount fta * D9) shares
        (find_minimum_out mins (fta_mint fta)) = Ok (ta', fta')"
    using assms(1) by (cases kind) (auto simp: to_assets_token_def)
  show "ta_mint ta' = ta_mint ta" "fta' = after_assets kind total_shares shares fta"
    "asset_guard kind total_shares shares mins fta"
    "kind = MintProcess \<Longrightarrow> side MintProcess ta' + d = side MintProcess ta
       \<and> side RedeemProcess ta' = side RedeemProcess ta"
    "kind = RedeemProcess \<Longrightarrow> side RedeemProcess ta' = side RedeemProcess ta + d
       \<and> side MintProcess ta' = side MintProcess ta"
    using h assms(2) minting_step_Ok [of ta fta total_shares shares ta' fta' mins]
      redeeming_step_Ok [of ta fta total_shares shares mins ta' fta']
    by (cases kind; simp add: d_def)+
qed

lemma to_assets_slot_Ok:
  assumes "to_assets_slot kind user m = Ok user1" "pending_wf user" "m \<noteq> default_pubkey"
  shows "pending_wf user1 \<and> (\<forall>k. pending_amount k user1 = pending_amount k user)"
proof (cases "find_ta m user")
  case (Some s)
  then show ?thesis using assms by (auto simp: to_assets_slot_def)
next
  case None
  then obtain s where s: "find_ta default_pubkey user = Some s"
    and u: "user1 = update_ta default_pubkey (\<lambda>ta. ta\<lparr>ta_mint := m\<rparr>) user"
    using assms(1) by (auto simp: to_assets_slot_def split: if_splits option.splits)
  note c = pending_claim [OF assms(2,3) None s, of "\<lambda>ta. ta\<lparr>ta_mint := m\<rparr>"]
  have "side k (s\<lparr>ta_mint := m\<rparr>) = 0" for k using c(4,5) by (cases k) simp_all
  then show ?thesis
    using c(1,3) pending_amount_absent [OF None] by (simp add: u fun_upd_idem)
qed

lemma to_assets_loop_effect:
  assumes "to_assets_loop kind total_shares shares mins user fs = Ok (user', fs')"
    "slots_wf fta_mint fs" "pending_wf user"
  shows "pending_wf user' \<and> fs' = map (after_assets kind total_shares shares) fs
    \<and> (\<forall>fta \<in> set fs. fta_mint fta \<noteq> default_pubkey \<longrightarrow> asset_guard kind total_shares shares mins fta)
    \<and> (kind = MintProcess \<longrightarrow> (\<forall>m. pending_amount MintProcess user' m
          + moved_for kind total_shares shares fs m = pending_amount MintProcess user m)
        \<and> pending_amount RedeemProcess user' = pending_amount RedeemProcess user)
    \<and> (kind = RedeemProcess \<longrightarrow> (\<forall>m. pending_amount RedeemProcess user' m
          = pending_amount RedeemProcess user m + moved_for kind total_shares shares fs m)
        \<and> pending_amount MintProcess user' = pending_amount MintProcess user)"
  using assms
proof (induction fs arbitrary: user fs')
  case Nil
  then show ?case by (simp add: moved_for_def slot_of_def)
next
  case (Cons fta rest)
  let ?m = "fta_mint fta"
  show ?case
  proof (cases "?m = default_pubkey")
    case True
    then obtain rest' where "to_assets_loop kind total_shares shares mins user rest = Ok (user', rest')"
      "fs' = fta # rest'" using Cons.prems(1) by auto
    moreover have "moved_for kind total_shares shares (fta # rest) = moved_for kind total_shares shares rest"
      using True by (auto simp: moved_for_def slot_of_def fun_eq_iff)
    moreover have "slots_wf fta_mint rest" using Cons.prems(2) True by (simp add: slots_wf_def used_keys_def)
    ultimately show ?thesis
      using Cons.IH [of user rest'] Cons.prems(3) True by (cases kind) simp_all
  next
    case False
    then obtain user1 ta ta' fta' rest' where
      u1: "to_assets_slot kind user ?m = Ok user1" and ta: "find_ta ?m user1 = Some ta"
      and st: "to_assets_token kind total_shares shares mins ta fta = Ok (ta', fta')"
      and rec: "to_assets_loop kind total_shares shares mins (update_ta ?m (\<lambda>_. ta') user1) rest = Ok (user', rest')"
      and fs': "fs' = fta' # rest'"
      using Cons.prems(1) by (auto split: prod.splits)
    define user2 where "user2 = update_ta ?m (\<lambda>_. ta') user1"
    have slot: "pending_wf user1" "\<And>k. pending_amount k user1 = pending_amount k user"
      using to_assets_slot_Ok [OF u1 Cons.prems(3) False] by auto
    note tok = to_assets_token_Ok [OF st False]
    have tam: "ta_mint ta = ?m" using ta by (simp add: find_ta_slot_of slot_of_key)
    have e: "ta'\<lparr>ta_mint := ?m\<rparr> = ta'" using tok(1) tam by (cases ta') simp
    have u2: "user2 = update_ta ?m (\<lambda>y. ta'\<lparr>ta_mint := ta_mint y\<rparr>) user1"
      using update_ta_const [OF ta, of "\<lambda>y. ta'\<lparr>ta_mint := ta_mint y\<rparr>"] tam e
      by (simp add: user2_def)
    have wf2: "pending_wf user2"
      unfolding u2 by (rule pending_update_same(1) [OF slot(1) False ta]) simp
    have amt2: "pending_amount k user2 = (pending_amount k user)(?m := side k ta')" for k
    proof -
      have "side k (ta'\<lparr>ta_mint := ta_mint ta\<rparr>) = side k ta'" by (cases k) simp_all
      then show ?thesis
        unfolding u2 using pending_update_same(2) [OF slot(1) False ta,
          of "\<lambda>y. ta'\<lparr>ta_mint := ta_mint y\<rparr>" k] slot(2) by simp
    qed
    have amt: "pending_amount k user ?m = side k ta" for k
      using pending_amount_found [OF False ta, of k] slot(2) by simp
    have wfr: "slots_wf fta_mint rest" and nr: "slot_of fta_mint rest ?m = None"
      using Cons.prems(2) False by (auto simp: slots_wf_def used_keys_def slot_of_None_iff)
    have mv: "moved_for kind total_shares shares (fta # rest) m =
        (if m = ?m then asset_share kind total_shares shares (fta_amount fta)
         else moved_for kind total_shares shares rest m)"
      "moved_for kind total_shares shares rest ?m = 0" for m
      using False nr by (auto simp: moved_for_def slot_of_def)
    have IH: "pending_wf user' \<and> rest' = map (after_assets kind total_shares shares) rest
      \<and> (\<forall>fta \<in> set rest. fta_mint fta \<noteq> default_pubkey \<longrightarrow> asset_guard kind total_shares shares mins fta)
      \<and> (kind = MintProcess \<longrightarrow> (\<forall>m. pending_amount MintProcess user' m
            + moved_for kind total_shares shares rest m = pending_amount MintProcess user2 m)
          \<and> pending_amount RedeemProcess user' = pending_amount RedeemProcess user2)
      \<and> (kind = RedeemProcess \<longrightarrow> (\<forall>m. pending_amount RedeemProcess user' m
            = pending_amount RedeemProcess user2 m + moved_for kind total_shares shares rest m)
          \<and> pending_amount MintProcess user' = pending_amount MintProcess user2)"
      using Cons.IH [of user2 rest'] rec wfr wf2 by (simp add: user2_def)
    have mint: "(\<forall>m. pending_amount MintProcess user' m + moved_for kind total_shares shares (fta # rest) m
          = pending_amount MintProcess user m)
        \<and> pending_amount RedeemProcess user' = pending_amount RedeemProcess user"
      if k: "kind = MintProcess"
    proof (intro conjI allI)
      fix m
      have "pending_amount MintProcess user' m + moved_for kind total_shares shares rest m
          = pending_amount MintProcess user2 m" using IH k by blast
      then show "pending_amount MintProcess user' m + moved_for kind total_shares shares (fta # rest) m
          = pending_amount MintProcess user m"
        using tok(4) [OF k] mv(2) by (cases "m = ?m") (simp_all add: mv(1) amt2 amt)
      show "pending_amount RedeemProcess user' = pending_amount RedeemProcess user"
        using IH k tok(4) [OF k] amt [of RedeemProcess] by (simp add: amt2 fun_upd_idem)
    qed
    have redeem: "(\<forall>m. pending_amount RedeemProcess user' m
          = pending_amount RedeemProcess user m + moved_for kind total_shares shares (fta # rest) m)
        \<and> pending_amount MintProcess user' = pending_amount MintProcess user"
      if k: "kind = RedeemProcess"
    proof (intro conjI allI)
      fix m
      have "pending_amount RedeemProcess user' m
          = pending_amount RedeemProcess user2 m + moved_for kind total_shares shares rest m"
        using IH k by blast
      then show "pending_amount RedeemProcess user' m
          = pending_amount RedeemProcess user m + moved_for kind total_shares shares (fta # rest) m"
        using tok(5) [OF k] mv(2) by (cases "m = ?m") (simp_all add: mv(1) amt2 amt)
      show "pending_amount MintProcess user' = pending_amount MintProcess user"
        using IH k tok(5) [OF k] amt [of MintProcess] by (simp add: amt2 fun_upd_idem)
    qed
    show ?thesis using IH mint redeem tok(2,3) by (simp add: fs')
  qed
qed

section \<open>Whole baskets\<close>

lemma to_assets_Ok:
  assumes "to_assets upb sh raw basket f kind t num den fl mins = Ok (upb', basket', f')"
  obtains user' tas' where "poke f raw t num den fl = Ok f'"
    "to_assets_loop kind (total_supply f' raw) (sh * D9) mins (upb_token_amounts upb)
       (fb_token_amounts basket) = Ok (user', tas')"
    "upb' = upb\<lparr>upb_token_amounts := user'\<rparr>" "basket' = basket\<lparr>fb_token_amounts := tas'\<rparr>"
  using assms by (clarsimp simp: to_assets_def split: prod.splits)

lemma moved_for_eq:
  "moved_for kind total_shares shares (fb_token_amounts fb) m =
     (case basket_map fb m of Some a \<Rightarrow> asset_share kind total_shares shares a | None \<Rightarrow> 0)"
  by (simp add: moved_for_def basket_map_def split: option.splits)

lemma slot_of_map:
  "(\<And>x. key (f x) = key x) \<Longrightarrow> slot_of key (map f xs) m = map_option f (slot_of key xs m)"
  by (induction xs) (auto simp: slot_of_def)

lemma after_assets_mint [simp]: "fta_mint (after_assets kind total_shares shares fta) = fta_mint fta"
  by (cases kind) simp_all

text \<open>The effect on the basket and on the user, mint by mint.\<close>

lemma to_assets_effect:
  assumes "to_assets upb sh raw basket f kind t num den fl mins = Ok (upb', basket', f')"
    and "basket_wf basket" "pending_wf (upb_token_amounts upb)"
  defines "d \<equiv> moved_for kind (total_supply f' raw) (sh * D9) (fb_token_amounts basket)"
  shows "pending_wf (upb_token_amounts upb') \<and> basket_wf basket'
    \<and> dom (basket_map basket') = dom (basket_map basket)
    \<and> (kind = MintProcess \<longrightarrow>
        (\<forall>m. pending_amount MintProcess (upb_token_amounts upb') m + d m
            = pending_amount MintProcess (upb_token_amounts upb) m
          \<and> basket_amount basket' m = basket_amount basket m + d m)
        \<and> pending_amount RedeemProcess (upb_token_amounts upb')
            = pending_amount RedeemProcess (upb_token_amounts upb))
    \<and> (kind = RedeemProcess \<longrightarrow>
        (\<forall>m. pending_amount RedeemProcess (upb_token_amounts upb') m
            = pending_amount RedeemProcess (upb_token_amounts upb) m + d m
          \<and> basket_amount basket' m + d m = basket_amount basket m)
        \<and> pending_amount MintProcess (upb_token_amounts upb')
            = pending_amount MintProcess (upb_token_amounts upb))"
proof -
  let ?S = "total_supply f' raw"
  obtain user' tas' where loop: "to_assets_loop kind ?S (sh * D9) mins (upb_token_amounts upb)
       (fb_token_amounts basket) = Ok (user', tas')"
    and upb': "upb' = upb\<lparr>upb_token_amounts := user'\<rparr>"
    and basket': "basket' = basket\<lparr>fb_token_amounts := tas'\<rparr>"
    using to_assets_Ok [OF assms(1)] by metis
  have wf: "slots_wf fta_mint (fb_token_amounts basket)" using assms(2) by (simp add: basket_wf_def)
  note eff = to_assets_loop_effect [OF loop wf assms(3)]
  have keys: "map fta_mint tas' = map fta_mint (fb_token_amounts basket)" using eff by simp
  have bwf: "basket_wf basket'"
  proof -
    have "length tas' = length (fb_token_amounts basket)" using keys by (metis length_map)
    then show ?thesis using assms(2) keys by (simp add: basket' basket_wf_def slots_wf_def used_keys_def)
  qed
  have slot: "slot_of fta_mint (fb_token_amounts basket') m =
      map_option (after_assets kind ?S (sh * D9)) (slot_of fta_mint (fb_token_amounts basket) m)" for m
    using eff by (simp add: basket' slot_of_map)
  have dm: "dom (basket_map basket') = dom (basket_map basket)"
    using slot by (auto simp: basket_map_def split: if_splits)
  have guard: "asset_guard kind ?S (sh * D9) mins fta"
    if "slot_of fta_mint (fb_token_amounts basket) m = Some fta" "m \<noteq> default_pubkey" for m fta
    using eff slot_of_key [OF that(1)] that(2) by auto
  have bal: "kind = MintProcess \<longrightarrow> basket_amount basket' m = basket_amount basket m + d m"
    "kind = RedeemProcess \<longrightarrow> basket_amount basket' m + d m = basket_amount basket m" for m
    using slot [of m] guard [of m] slot_of_key [of fta_mint "fb_token_amounts basket" m]
    by (auto simp: basket_amount_def basket_map_def d_def moved_for_def split: option.splits)
  show ?thesis using eff bwf dm bal by (simp add: upb' d_def)
qed

text \<open>Arithmetic of the two roundings.\<close>

lemma redeem_share_le:
  "asset_share RedeemProcess S (sh * D9) a * S \<le> sh * D9 * a"
proof -
  define X where "X = sh * D9 * a"
  define g where "g = X * D9 div S div D9"
  have "g * D9 \<le> X * D9 div S" by (simp add: g_def)
  then have "g * D9 * S \<le> X * D9 div S * S" by (rule mult_le_mono1)
  also have "\<dots> \<le> X * D9" by simp
  finally have "(g * S) * D9 \<le> X * D9" by (simp only: mult_ac)
  then have g: "g * S \<le> X" by simp
  have "asset_share RedeemProcess S (sh * D9) a = min g U64_MAX"
    by (simp add: g_def X_def mult.assoc)
  then have "asset_share RedeemProcess S (sh * D9) a * S \<le> g * S" by (metis min.cobounded1 mult_le_mono1)
  from order_trans [OF this g] show ?thesis unfolding X_def .
qed

lemma mint_share_ge:
  assumes "0 < S" "asset_share MintProcess S (sh * D9) a < U64_MAX"
  shows "sh * D9 * (a * D9) < asset_share MintProcess S (sh * D9) a * D9 * S + S"
proof -
  define X where "X = sh * D9 * (a * D9)"
  define t where "t = asset_share MintProcess S (sh * D9) a"
  have "t = ceil_div (X div S) D9" using assms(2) by (auto simp: t_def X_def)
  then have "X div S \<le> t * D9"
    using ceil_div_bounds(1) [of D9 "X div S"] by simp
  then have "(X div S + 1) * S \<le> (t * D9 + 1) * S" by (intro mult_le_mono1) simp
  moreover have "X < (X div S + 1) * S"
    using dividend_less_div_times [OF assms(1), of X] by (simp add: algebra_simps)
  ultimately have "X < (t * D9 + 1) * S" by (rule less_le_trans [rotated])
  then have "X < t * D9 * S + S" by (simp only: add_mult_distrib mult_1)
  then show ?thesis by (simp only: X_def t_def)
qed

lemma share_round_trip:
  assumes "0 < S1" "asset_share MintProcess S1 (sh * D9) a < U64_MAX" "r \<le> sh" "S1 + r * D9 \<le> S2"
  defines "taken \<equiv> asset_share MintProcess S1 (sh * D9) a"
  shows "asset_share RedeemProcess S2 (r * D9) (a + taken) \<le> taken"
proof (rule ccontr)
  define given where "given = asset_share RedeemProcess S2 (r * D9) (a + taken)"
  define R where "R = r * D9"
  assume "\<not> asset_share RedeemProcess S2 (r * D9) (a + taken) \<le> taken"
  then have "(taken + 1) * (S1 + R) \<le> given * S2"
    using assms(4) by (intro mult_le_mono) (auto simp: given_def R_def)
  also have "\<dots> \<le> R * (a + taken)" unfolding given_def R_def by (rule redeem_share_le)
  finally have "taken * S1 + S1 \<le> R * a" by (simp add: algebra_simps)
  also have "\<dots> \<le> sh * D9 * a" using assms(3) by (simp add: R_def)
  finally have "(taken * S1 + S1) * D9 \<le> sh * D9 * a * D9" by (rule mult_le_mono1)
  also have "\<dots> = sh * D9 * (a * D9)" by (simp only: mult.assoc)
  also have "\<dots> < taken * D9 * S1 + S1" unfolding taken_def by (rule mint_share_ge [OF assms(1,2)])
  finally have "taken * S1 * D9 + S1 * D9 < taken * S1 * D9 + S1"
    by (simp only: add_mult_distrib mult.assoc mult.commute [of D9 S1])
  then show False using assms(1) by (simp add: D9_def)
qed

lemma to_assets_supply_positive:
  assumes "to_assets_loop kind S shares mins user fs = Ok (user', fs')"
    "slot_of fta_mint fs m = Some fta" "m \<noteq> default_pubkey"
  shows "0 < S"
  using assms
proof (induction fs arbitrary: user fs')
  case (Cons x rest)
  show ?case
  proof (cases "fta_mint x = default_pubkey")
    case True
    then show ?thesis using Cons by (auto simp: slot_of_def split: prod.splits)
  next
    case False
    then obtain ta p where "to_assets_token kind S shares mins ta x = Ok p"
      using Cons.prems(1) by auto
    then show ?thesis
      by (cases kind) (auto simp: to_assets_token_def to_assets_for_minting_def
          to_assets_for_redeeming_def)
  qed
qed (simp add: slot_of_def)

lemma to_assets_loop_skip:
  "\<forall>fta \<in> set fs. fta_mint fta = default_pubkey \<Longrightarrow>
     to_assets_loop kind S shares mins user fs = Ok (user, fs)"
  by (induction fs) auto

section \<open>A concrete run\<close>

definition sample_pending :: user_pending_basket where
  "sample_pending = \<lparr>upb_bump = 253, upb_owner = PK 30, upb_folio = PK 9,
     upb_token_amounts = [\<lparr>ta_mint = PK 11, amount_for_minting = 60, amount_for_redeeming = 0\<rparr>,
       \<lparr>ta_mint = PK 12, amount_for_minting = 7, amount_for_redeeming = 3\<rparr>]
       @ replicate 108 default_token_amount\<rparr>"

definition minted_pending :: user_pending_basket where
  "minted_pending = \<lparr>upb_bump = 253, upb_owner = PK 30, upb_folio = PK 9,
     upb_token_amounts = [\<lparr>ta_mint = PK 11, amount_for_minting = 10, amount_for_redeeming = 0\<rparr>,
       \<lparr>ta_mint = PK 12, amount_for_minting = 0, amount_for_redeeming = 3\<rparr>]
       @ replicate 108 default_token_amount\<rparr>"

definition minted_basket :: folio_basket where
  "minted_basket = \<lparr>fb_bump = 254, fb_folio = PK 9,
     fb_token_amounts = [\<lparr>fta_mint = PK 11, fta_amount = 550\<rparr>, \<lparr>fta_mint = PK 12, fta_amount = 77\<rparr>]
       @ replicate 98 default_folio_token_amount\<rparr>"

definition burned_pending :: user_pending_basket where
  "burned_pending = \<lparr>upb_bump = 253, upb_owner = PK 30, upb_folio = PK 9,
     upb_token_amounts = [\<lparr>ta_mint = PK 11, amount_for_minting = 10, amount_for_redeeming = 50\<rparr>,
       \<lparr>ta_mint = PK 12, amount_for_minting = 0, amount_for_redeeming = 10\<rparr>]
       @ replicate 108 default_token_amount\<rparr>"

lemma sample_pending_wf:
  "pending_wf (upb_token_amounts sample_pending)" "pending_wf (upb_token_amounts minted_pending)"
  by (simp_all add: pending_wf_def sample_pending_def minted_pending_def slots_wf_def used_keys_def
      default_pubkey_def default_token_amount_def const_defs)

lemma minted_basket_wf: "basket_wf minted_basket"
  by (simp add: basket_wf_def minted_basket_def slots_wf_def used_keys_def default_pubkey_def
      default_folio_token_amount_def const_defs)

lemma sample_poke_same_day: "poke sample_folio raw 100 num den fl = Ok sample_folio"
  by (simp add: day_start_def as_u64_def const_defs)

lemma sample_tail [simp]:
  "to_assets_loop kind S shares mins user (replicate 98 default_folio_token_amount)
     = Ok (user, replicate 98 default_folio_token_amount)"
  by (rule to_assets_loop_skip) (simp add: default_folio_token_amount_def)

lemmas sample_eval = to_assets_def sample_poke_same_day get_total_supply_def sample_folio_def
  from_token_amount_def from_scaled_def dec_add_def dec_mul_def dec_div_def to_assets_slot_def
  find_ta_def update_ta_def to_assets_token_def to_assets_for_minting_def
  to_assets_for_redeeming_def to_token_amount_def arith_defs find_minimum_out_def
  default_pubkey_def D9_def U64_MAX_def

lemma sample_mint_assets:
  "to_assets sample_pending 100 1000 sample_basket sample_folio MintProcess 100 0 1 0 [] =
     Ok (minted_pending, minted_basket, sample_folio)"
  unfolding to_assets_def sample_poke_same_day and_then_simps
  by (simp add: sample_eval sample_pending_def sample_basket_def minted_pending_def minted_basket_def)

lemma sample_burn_assets:
  "to_assets minted_pending 100 1100 minted_basket sample_folio RedeemProcess 100 0 1 0
       [\<lparr>mo_mint = PK 12, minimum_out = 7\<rparr>] =
     Ok (burned_pending, sample_basket, sample_folio)"
  unfolding to_assets_def sample_poke_same_day and_then_simps
  by (simp add: sample_eval minted_pending_def sample_basket_def minted_basket_def burned_pending_def)

section \<open>Properties\<close>

text \<open>
  C29: Assets are conserved. Whatever the kind, a successful \<open>to_assets\<close> moves amounts between the
  side of the pending basket it is about and the basket of the folio, and for every mint the sum of
  the two is the same before and after; the other side of the pending basket, the mints of the
  basket and the well-formedness of both are untouched.
\<close>
theorem to_assets_conserves:
  assumes "to_assets upb sh raw basket f kind t num den fl mins = Ok (upb', basket', f')"
    and "basket_wf basket" "pending_wf (upb_token_amounts upb)"
  shows "pending_wf (upb_token_amounts upb') \<and> basket_wf basket'
    \<and> dom (basket_map basket') = dom (basket_map basket)
    \<and> pending_amount kind (upb_token_amounts upb') m + basket_amount basket' m
        = pending_amount kind (upb_token_amounts upb) m + basket_amount basket m
    \<and> (other = kind
        \<or> pending_amount other (upb_token_amounts upb') = pending_amount other (upb_token_amounts upb))"
proof (cases kind)
  case MintProcess
  then show ?thesis using to_assets_effect [OF assms] by (cases other) auto
next
  case RedeemProcess
  then show ?thesis
    using to_assets_effect [OF assms] by (cases other) (auto simp: add.assoc add.commute)
qed

theorem to_assets_conserves_witness:
  "pending_amount MintProcess (upb_token_amounts minted_pending) (PK 11) + basket_amount minted_basket (PK 11)
     = pending_amount MintProcess (upb_token_amounts sample_pending) (PK 11)
       + basket_amount sample_basket (PK 11)"
  using to_assets_conserves [OF sample_mint_assets sample_basket_wf sample_pending_wf(1), of "PK 11"]
  by simp

text \<open>
  C12: Burning never dilutes the holders that stay: for every mint, what is left in the basket is at
  least its proportional part of what was there, \<open>left / (supply - shares) \<ge> amount / supply\<close>. The
  user gets at least the minimum asked for of every mint that is in the basket. For a mint that is
  not in the basket, one that was sold meanwhile for instance, the minimum is not looked at: the burn
  goes through and the user gets none of it, whatever was asked for.
\<close>
theorem burn_no_dilution:
  assumes "to_assets upb sh raw basket f RedeemProcess t num den fl mins = Ok (upb', basket', f')"
    and "basket_wf basket" "pending_wf (upb_token_amounts upb)"
  shows "basket_amount basket m * (total_supply f' raw - sh * D9)
      \<le> basket_amount basket' m * total_supply f' raw
    \<and> (if m \<in> dom (basket_map basket)
       then pending_amount RedeemProcess (upb_token_amounts upb) m
           + (case find_minimum_out mins m of Some minimum \<Rightarrow> minimum | None \<Rightarrow> 0)
         \<le> pending_amount RedeemProcess (upb_token_amounts upb') m
       else pending_amount RedeemProcess (upb_token_amounts upb') m
         = pending_amount RedeemProcess (upb_token_amounts upb) m)"
proof -
  define S where "S = total_supply f' raw"
  define d where "d = moved_for RedeemProcess S (sh * D9) (fb_token_amounts basket) m"
  have eff: "pending_amount RedeemProcess (upb_token_amounts upb') m
      = pending_amount RedeemProcess (upb_token_amounts upb) m + d"
    "basket_amount basket' m + d = basket_amount basket m"
    using to_assets_effect [OF assms] by (auto simp: d_def S_def)
  have dS: "d * S \<le> sh * D9 * basket_amount basket m"
    using redeem_share_le by (simp add: d_def moved_for_eq basket_amount_def split: option.split)
  have "basket_amount basket m * (S - sh * D9) + d * S
      \<le> basket_amount basket m * (S - sh * D9) + basket_amount basket m * (sh * D9)"
    using dS by (simp add: mult.commute)
  moreover have "basket_amount basket m * (S - sh * D9) \<le> basket_amount basket' m * S" if "S \<le> sh * D9"
    using that by simp
  moreover have "basket_amount basket m * (S - sh * D9) + basket_amount basket m * (sh * D9)
      = basket_amount basket m * S" if "sh * D9 \<le> S"
    by (metis add_mult_distrib2 le_add_diff_inverse2 that)
  moreover have "basket_amount basket m * S = basket_amount basket' m * S + d * S"
    by (metis add_mult_distrib eff(2))
  ultimately have "basket_amount basket m * (S - sh * D9) \<le> basket_amount basket' m * S"
    by linarith
  moreover have "the (find_minimum_out mins m) \<le> d"
    if m: "m \<in> dom (basket_map basket)" "find_minimum_out mins m \<noteq> None"
  proof -
    from m(1) obtain fta where fta: "slot_of fta_mint (fb_token_amounts basket) m = Some fta"
      "m \<noteq> default_pubkey" by (auto simp: basket_map_def split: if_splits)
    obtain user' tas' where "to_assets_loop RedeemProcess S (sh * D9) mins (upb_token_amounts upb)
       (fb_token_amounts basket) = Ok (user', tas')"
      using to_assets_Ok [OF assms(1)] by (metis S_def)
    from to_assets_loop_effect [OF this _ assms(3)] assms(2)
    have "asset_guard RedeemProcess S (sh * D9) mins fta"
      using slot_of_key [OF fta(1)] fta(2) by (auto simp: basket_wf_def)
    then show ?thesis
      using fta slot_of_key [OF fta(1)] m(2) by (auto simp: d_def moved_for_def)
  qed
  moreover have "d = 0" if "m \<notin> dom (basket_map basket)"
    using that by (auto simp: d_def moved_for_eq domIff)
  ultimately show ?thesis
    using eff(1) unfolding S_def
    by (cases "m \<in> dom (basket_map basket)"; cases "find_minimum_out mins m") simp_all
qed

theorem burn_no_dilution_witness:
  "basket_amount minted_basket (PK 12) * (total_supply sample_folio 1100 - 100 * D9)
      \<le> basket_amount sample_basket (PK 12) * total_supply sample_folio 1100
    \<and> pending_amount RedeemProcess (upb_token_amounts minted_pending) (PK 12) + 7
      \<le> pending_amount RedeemProcess (upb_token_amounts burned_pending) (PK 12)"
proof -
  have "PK 12 \<in> dom (basket_map minted_basket)"
    by (simp add: domIff basket_map_def minted_basket_def slot_of_def default_pubkey_def)
  then show ?thesis
    using burn_no_dilution [OF sample_burn_assets minted_basket_wf sample_pending_wf(2), of "PK 12"]
    by (simp add: find_minimum_out_def)
qed

text \<open>
  C30: A mint takes from the user what the new shares are worth, rounded up to a whole raw unit of
  the token up to the floor of a scaled division: the amount taken misses the exact proportional
  price by less than one billionth of a raw unit, and the shares never cost more than the price
  rounded up.
\<close>
theorem mint_price:
  assumes "to_assets upb sh raw basket f MintProcess t num den fl mins = Ok (upb', basket', f')"
    and "basket_wf basket" "pending_wf (upb_token_amounts upb)"
    and "pending_amount MintProcess (upb_token_amounts upb) m < U64_MAX" "m \<in> dom (basket_map basket)"
  defines "taken \<equiv> basket_amount basket' m - basket_amount basket m"
  shows "sh * D9 * (basket_amount basket m * D9)
        < taken * D9 * total_supply f' raw + total_supply f' raw
    \<and> taken = ceil_div (sh * D9 * (basket_amount basket m * D9) div total_supply f' raw) D9"
proof -
  define S where "S = total_supply f' raw"
  define d where "d = moved_for MintProcess S (sh * D9) (fb_token_amounts basket) m"
  have eff: "pending_amount MintProcess (upb_token_amounts upb') m + d
      = pending_amount MintProcess (upb_token_amounts upb) m"
    "basket_amount basket' m = basket_amount basket m + d"
    using to_assets_effect [OF assms(1-3)] by (auto simp: d_def S_def)
  then have t: "taken = d" by (simp add: taken_def)
  have d: "d = asset_share MintProcess S (sh * D9) (basket_amount basket m)"
    using assms(5) by (auto simp: d_def moved_for_eq basket_amount_def)
  have lt: "d < U64_MAX" using eff(1) assms(4) by linarith
  from assms(5) obtain fta where fta: "slot_of fta_mint (fb_token_amounts basket) m = Some fta"
    "m \<noteq> default_pubkey" by (auto simp: basket_map_def split: if_splits)
  obtain user' tas' where loop: "to_assets_loop MintProcess S (sh * D9) mins (upb_token_amounts upb)
       (fb_token_amounts basket) = Ok (user', tas')"
    using to_assets_Ok [OF assms(1)] by (metis S_def)
  have S: "0 < S" by (rule to_assets_supply_positive [OF loop fta])
  have "d = ceil_div (sh * D9 * (basket_amount basket m * D9) div S) D9"
    using d lt by auto
  moreover have "sh * D9 * (basket_amount basket m * D9) < d * D9 * S + S"
    using mint_share_ge [OF S, of sh "basket_amount basket m"] lt d by simp
  ultimately show ?thesis by (simp add: t S_def)
qed

theorem mint_price_witness:
  "100 * D9 * (basket_amount sample_basket (PK 11) * D9)
      < (basket_amount minted_basket (PK 11) - basket_amount sample_basket (PK 11)) * D9
        * total_supply sample_folio 1000 + total_supply sample_folio 1000"
proof -
  have "PK 11 \<in> dom (basket_map sample_basket)" by (simp add: sample_basket_map)
  moreover have "pending_amount MintProcess (upb_token_amounts sample_pending) (PK 11) < U64_MAX"
    by (simp add: pending_amount_def sample_pending_def slot_of_def default_pubkey_def U64_MAX_def)
  ultimately show ?thesis
    using mint_price [OF sample_mint_assets sample_basket_wf sample_pending_wf(1), of "PK 11"]
    by blast
qed

text \<open>
  C3: Minting and burning cannot make a profit. After a mint of \<open>sh\<close> shares, a burn of \<open>r \<le> sh\<close>
  shares from the basket that the mint left, at a total supply that counts them, gives the user for
  every mint at most what the mint took.
\<close>
theorem mint_then_burn_no_profit:
  assumes mint: "to_assets upb sh raw basket f MintProcess t num den fl mins = Ok (upb1, basket1, f1)"
    and burn: "to_assets upb1 r raw2 basket1 f2 RedeemProcess t2 num2 den2 fl2 mins2 = Ok (upb2, basket2, f3)"
    and wf: "basket_wf basket" "pending_wf (upb_token_amounts upb)"
    and "r \<le> sh" "total_supply f1 raw + r * D9 \<le> total_supply f3 raw2"
    and "pending_amount MintProcess (upb_token_amounts upb) m < U64_MAX"
  shows "pending_amount RedeemProcess (upb_token_amounts upb2) m
        - pending_amount RedeemProcess (upb_token_amounts upb) m
      \<le> pending_amount MintProcess (upb_token_amounts upb) m
        - pending_amount MintProcess (upb_token_amounts upb2) m"
proof -
  define S1 where "S1 = total_supply f1 raw"
  define S2 where "S2 = total_supply f3 raw2"
  define d where "d = moved_for MintProcess S1 (sh * D9) (fb_token_amounts basket) m"
  define g where "g = moved_for RedeemProcess S2 (r * D9) (fb_token_amounts basket1) m"
  note e1 = to_assets_effect [OF mint wf]
  have wf1: "basket_wf basket1" "pending_wf (upb_token_amounts upb1)" using e1 by auto
  note e2 = to_assets_effect [OF burn wf1]
  have d: "pending_amount MintProcess (upb_token_amounts upb1) m + d
      = pending_amount MintProcess (upb_token_amounts upb) m"
    "basket_amount basket1 m = basket_amount basket m + d"
    using e1 by (auto simp: d_def S1_def)
  have g: "pending_amount RedeemProcess (upb_token_amounts upb2) m
      = pending_amount RedeemProcess (upb_token_amounts upb) m + g"
    using e1 e2 by (auto simp: g_def S2_def)
  have m: "pending_amount MintProcess (upb_token_amounts upb2) m
      = pending_amount MintProcess (upb_token_amounts upb1) m" using e2 by auto
  have "g \<le> d"
  proof (cases "basket_map basket m")
    case None
    have "dom (basket_map basket1) = dom (basket_map basket)" using e1 by blast
    then have "basket_map basket1 m = None" using None by (metis domIff)
    then show ?thesis by (simp add: g_def moved_for_eq)
  next
    case (Some a)
    then have a: "basket_amount basket m = a" "m \<noteq> default_pubkey"
      by (auto simp: basket_amount_def basket_map_def split: if_splits)
    have "dom (basket_map basket1) = dom (basket_map basket)" using e1 by blast
    then obtain a1 where a1: "basket_map basket1 m = Some a1" using Some by blast
    then have a1d: "a1 = a + d" using d(2) a(1) by (simp add: basket_amount_def)
    have da: "d = asset_share MintProcess S1 (sh * D9) a" using Some by (simp add: d_def moved_for_eq)
    obtain fta where fta: "slot_of fta_mint (fb_token_amounts basket) m = Some fta"
      using Some by (auto simp: basket_map_def split: if_splits)
    obtain user' tas' where loop: "to_assets_loop MintProcess S1 (sh * D9) mins (upb_token_amounts upb)
       (fb_token_amounts basket) = Ok (user', tas')"
      using to_assets_Ok [OF mint] by (metis S1_def)
    have "d < U64_MAX" using d(1) assms(7) by linarith
    then have "asset_share RedeemProcess S2 (r * D9) (a + d) \<le> d"
      using share_round_trip [OF to_assets_supply_positive [OF loop fta a(2)], of sh a r S2]
        assms(5,6) by (simp add: da S1_def S2_def)
    then show ?thesis using a1 a1d by (simp add: g_def moved_for_eq)
  qed
  then show ?thesis using d(1) g m by linarith
qed

theorem mint_then_burn_no_profit_witness:
  "pending_amount RedeemProcess (upb_token_amounts burned_pending) (PK 11)
        - pending_amount RedeemProcess (upb_token_amounts sample_pending) (PK 11)
      \<le> pending_amount MintProcess (upb_token_amounts sample_pending) (PK 11)
        - pending_amount MintProcess (upb_token_amounts burned_pending) (PK 11)"
proof -
  have "total_supply sample_folio 1000 + 100 * D9 \<le> total_supply sample_folio 1100"
    by (simp add: total_supply_def)
  moreover have "pending_amount MintProcess (upb_token_amounts sample_pending) (PK 11) < U64_MAX"
    by (simp add: pending_amount_def sample_pending_def slot_of_def default_pubkey_def U64_MAX_def)
  ultimately show ?thesis
    by (intro mint_then_burn_no_profit [OF sample_mint_assets sample_burn_assets sample_basket_wf
          sample_pending_wf(1)]) simp_all
qed

end
