(* ===== verification/Bidding.thy ===== *)
theory Bidding
  imports AuctionOpening PendingBasket
begin

text \<open>
  What a bid and a close do: the amounts of \<open>get_bid\<close>, their effect on the basket of the folio,
  the transfers sent, and the end of an auction. Two theorems show where the code falls short:
  \<open>bid_ignores_auction_folio\<close> and \<open>close_in_last_second\<close>.
\<close>

section \<open>The amounts of a bid\<close>

lemma bought_within_room:
  assumes "s \<le> room * D9 * D18 div p div D9"
  shows "s * D9 * p div D18 div D9 \<le> room"
proof -
  define X where "X = room * D9 * D18 div p"
  have "s * D9 \<le> X div D9 * D9" using assms unfolding X_def by (rule mult_le_mono1)
  also have "\<dots> \<le> X" by simp
  finally have "s * D9 * p \<le> X * p" by (rule mult_le_mono1)
  also have "\<dots> \<le> room * D9 * D18" by (simp add: X_def)
  finally have "s * D9 * p div D18 div D9 \<le> room * D9 * D18 div D18 div D9" by (intro div_le_mono)
  then show ?thesis by simp
qed

lemma get_bid_Ok:
  assumes "get_bid au f b raw t s mx = Ok (avail, bought, price, supply)"
  obtains bal where
    "get_price au t = Ok price" "price \<noteq> 0" "supply = total_supply f raw"
    "get_token_amount_in_folio_basket b (sell_mint au) = Ok bal"
    "s \<le> saturating_sub bal (min (ceil_div (sell_limit au * supply div D18) D9) U64_MAX)"
    "bought = min (s * D9 * price div D18 div D9) U64_MAX" "bought \<noteq> 0" "bought \<le> mx"
    "bought \<le> saturating_sub (min (buy_limit au * supply div D18 div D9) U64_MAX)
      (get_token_amount_in_folio_basket_or_zero b (buy_mint au))"
proof -
  define room where "room = saturating_sub (min (buy_limit au * supply div D18 div D9) U64_MAX)
      (get_token_amount_in_folio_basket_or_zero b (buy_mint au))"
  note eq = assms [unfolded get_bid_def Let_def from_scaled_def]
  from eq obtain bal q where g: "get_price au t = Ok price" "supply = total_supply f raw"
    "get_token_amount_in_folio_basket b (sell_mint au) = Ok bal" "price \<noteq> 0"
    "to_token_amount (sell_limit au * supply div D18) Ceiling = Ok q"
    "s \<le> min (min (room * D9 * D18 div price div D9) U64_MAX) (saturating_sub bal q)"
    "bought = min (s * D9 * price div D18 div D9) U64_MAX" "bought \<noteq> 0" "bought \<le> mx"
    by (auto simp: room_def)
  have "q = min (ceil_div (sell_limit au * supply div D18) D9) U64_MAX"
    using g(5) by (rule to_token_amount_Ceiling_Ok)
  moreover have "s \<le> room * D9 * D18 div price div D9" using g(6) by simp
  then have "bought \<le> room" unfolding g(7) using bought_within_room [of s room price] by simp
  ultimately show thesis using g by (intro that [of bal]) (simp_all add: room_def)
qed

section \<open>The effect on the basket\<close>

lemma sell_from_basket_effect:
  assumes "sell_from_basket b au s supply = Ok (b', presence)" "basket_wf b" "sell_mint au \<noteq> default_pubkey"
  shows "basket_wf b' \<and> basket_amount b' = (basket_amount b)(sell_mint au := basket_amount b (sell_mint au) - s)
    \<and> s \<le> basket_amount b (sell_mint au) \<and> sell_limit au \<le> presence"
proof -
  let ?m = "sell_mint au"
  from assms(1) obtain b1 bal where
    r: "remove_tokens_from_basket b [\<lparr>fta_mint = ?m, fta_amount = s\<rparr>] = Ok b1"
    and bal: "get_token_amount_in_folio_basket b1 ?m = Ok bal"
    and c: "(if bal = 0 then remove_token_mint_from_basket b1 ?m else Ok b1) = Ok b'"
    and l: "sell_limit au \<le> presence"
    by (auto simp: sell_from_basket_def)
  have "basket_debit b (?m, s) = Ok b1" using r by (simp add: remove_tokens_from_basket_def basket_debit_def)
  from basket_debit_effect [OF assms(2,3) this]
  have d: "s \<le> basket_amount b ?m" "basket_wf b1"
    "basket_amount b1 = (basket_amount b)(?m := basket_amount b ?m - s)" by auto
  have bl: "bal = basket_amount b1 ?m" by (rule basket_amount_iff [OF assms(3) bal])
  show ?thesis
  proof (cases "bal = 0")
    case True
    then have rm: "remove_token_mint_from_basket b1 ?m = Ok b'" using c by simp
    note e = remove_token_mint_effect [OF d(2) assms(3) rm]
    have "basket_amount b' = basket_amount b1"
      using True bl e(2) by (auto simp: basket_amount_def fun_eq_iff)
    then show ?thesis using d e(1) l by simp
  next
    case False
    then show ?thesis using c d l by simp
  qed
qed

lemma collect_payment_Ok:
  assumes "collect_payment invoke accs a bought wc data before = Ok payment"
  shows "if wc then payment = [] \<and> (\<exists>after. cpi_call invoke accs data before = Ok after \<and> before + bought \<le> after)
    else payment = [TransferChecked (ai_key (bd_bidder_buy_account a)) (bd_folio_buy_account a)
      (bd_bidder a) (bd_buy_mint a) bought]"
  using assms by (auto simp: collect_payment_def split: if_splits)

lemma validate_bid_Ok:
  assumes "validate_bid sdk a t = Ok u"
  shows "folio_status (bd_folio a) = status_u8 Initialized
    \<and> bd_sell_mint a = sell_mint (bd_auction a) \<and> bd_buy_mint a = buy_mint (bd_auction a)
    \<and> rb_nonce (bd_rebalance a) = au_nonce (bd_auction a)
    \<and> rb_nonce (bd_rebalance a) = ae_rebalance_nonce (bd_auction_ends a)
    \<and> au_start (bd_auction a) \<le> t \<and> t \<le> au_end (bd_auction a)"
proof -
  from assms have v: "validate_folio (find_program_address sdk) (bd_folio a) (bd_folio_key a) None None
      (Some [Initialized]) = Ok ()"
    and s: "try_get_status (bd_auction a) t = Some Open"
    and r: "bd_sell_mint a = sell_mint (bd_auction a) \<and> bd_buy_mint a = buy_mint (bd_auction a)
      \<and> rb_nonce (bd_rebalance a) = au_nonce (bd_auction a)
      \<and> rb_nonce (bd_rebalance a) = ae_rebalance_nonce (bd_auction_ends a)"
    by (auto simp: validate_bid_def)
  show ?thesis using validate_folio_Ok [OF v] s r by (auto simp: try_get_status_def split: if_splits)
qed

text \<open>Every fact about a bid that went through.\<close>

lemma bid_Ok:
  assumes "bid sdk invoke accs a t s mx wc data before = Ok (f', b', au', ends', cpis)"
  obtains num den fl avail bought price "supply" b1 presence payment buy_presence where
    "validate_bid sdk a (as_u64 t) = Ok ()"
    "poke (bd_folio a) (mint_supply (bd_folio_token_mint a)) t num den fl = Ok f'"
    "get_bid (bd_auction a) f' (bd_folio_basket a) (mint_supply (bd_folio_token_mint a)) (as_u64 t) s mx
      = Ok (avail, bought, price, supply)"
    "sell_from_basket (bd_folio_basket a) (bd_auction a) s supply = Ok (b1, presence)"
    "collect_payment invoke accs a bought wc data before = Ok payment"
    "add_tokens_to_basket b1 [\<lparr>fta_mint = buy_mint (bd_auction a), fta_amount = bought\<rparr>] = Ok b'"
    "get_token_presence_per_share_in_basket b' (buy_mint (bd_auction a)) supply = Ok buy_presence"
    "if presence = sell_limit (bd_auction a) \<or> buy_presence \<ge> buy_limit (bd_auction a)
     then 1 \<le> as_u64 t \<and> au' = (bd_auction a)\<lparr>au_end := as_u64 t - 1\<rparr>
       \<and> ends' = (bd_auction_ends a)\<lparr>end_time := as_u64 t - 1\<rparr>
     else au' = bd_auction a \<and> ends' = bd_auction_ends a"
    "cpis = TransferChecked (bd_folio_sell_account a) (bd_bidder_sell_account a) (bd_folio_key a)
       (bd_sell_mint a) s # payment"
proof -
  from assms obtain num den fl avail bought price "supply" b1 presence payment buy_presence where
    1: "validate_bid sdk a (as_u64 t) = Ok ()"
    "poke (bd_folio a) (mint_supply (bd_folio_token_mint a)) t num den fl = Ok f'"
    "get_bid (bd_auction a) f' (bd_folio_basket a) (mint_supply (bd_folio_token_mint a)) (as_u64 t) s mx
      = Ok (avail, bought, price, supply)"
    "sell_from_basket (bd_folio_basket a) (bd_auction a) s supply = Ok (b1, presence)"
    "collect_payment invoke accs a bought wc data before = Ok payment"
    "add_tokens_to_basket b1 [\<lparr>fta_mint = buy_mint (bd_auction a), fta_amount = bought\<rparr>] = Ok b'"
    "get_token_presence_per_share_in_basket b' (buy_mint (bd_auction a)) supply = Ok buy_presence"
    and 2: "(if presence = sell_limit (bd_auction a) \<or> buy_presence \<ge> buy_limit (bd_auction a) then
          and_then (plain_sub (as_u64 t) 1) (\<lambda>e.
          Ok ((bd_auction a)\<lparr>au_end := e\<rparr>, (bd_auction_ends a)\<lparr>end_time := e\<rparr>))
        else Ok (bd_auction a, bd_auction_ends a)) = Ok (au', ends')"
    and 3: "cpis = TransferChecked (bd_folio_sell_account a) (bd_bidder_sell_account a) (bd_folio_key a)
       (bd_sell_mint a) s # payment"
    unfolding bid_def Let_def by auto
  from 2 have "if presence = sell_limit (bd_auction a) \<or> buy_presence \<ge> buy_limit (bd_auction a)
     then 1 \<le> as_u64 t \<and> au' = (bd_auction a)\<lparr>au_end := as_u64 t - 1\<rparr>
       \<and> ends' = (bd_auction_ends a)\<lparr>end_time := as_u64 t - 1\<rparr>
     else au' = bd_auction a \<and> ends' = bd_auction_ends a"
    by (auto split: if_splits)
  with 1 3 show thesis by (intro that)
qed

section \<open>What a bid does not look at\<close>

lemma map_result_and_then: "map_result g (and_then r f) = and_then r (\<lambda>x. map_result g (f x))"
  by (cases r) simp_all

definition relabel :: "pubkey \<Rightarrow> nat \<Rightarrow> nat \<Rightarrow> auction \<Rightarrow> auction" where
  "relabel x i b au = au\<lparr>au_folio := x, au_id := i, au_bump := b\<rparr>"

lemma relabel_fields [simp]:
  "sell_mint (relabel x i b au) = sell_mint au" "buy_mint (relabel x i b au) = buy_mint au"
  "sell_limit (relabel x i b au) = sell_limit au" "buy_limit (relabel x i b au) = buy_limit au"
  "au_start (relabel x i b au) = au_start au" "au_end (relabel x i b au) = au_end au"
  "au_nonce (relabel x i b au) = au_nonce au" "au_prices (relabel x i b au) = au_prices au"
  by (simp_all add: relabel_def)

lemma relabel_end: "(relabel x i b au)\<lparr>au_end := e\<rparr> = relabel x i b (au\<lparr>au_end := e\<rparr>)"
  by (simp add: relabel_def)

lemma and_then_map_result: "and_then (map_result h r) f = and_then r (\<lambda>x. f (h x))"
  by (cases r) simp_all

lemma relabel_result:
  "(if c then and_then (plain_sub n k) (\<lambda>e. Ok (relabel x i b (au\<lparr>au_end := e\<rparr>), f e))
    else Ok (relabel x i b au, y))
   = map_result (\<lambda>(u, e). (relabel x i b u, e))
       (if c then and_then (plain_sub n k) (\<lambda>e. Ok (au\<lparr>au_end := e\<rparr>, f e)) else Ok (au, y))"
  by (cases "k \<le> n") (simp_all add: plain_sub_def checked_sub_def)

lemma relabel_reads [simp]:
  "get_price (relabel x i b au) t = get_price au t"
  "sell_from_basket bs (relabel x i b au) s ts = sell_from_basket bs au s ts"
  "try_get_status (relabel x i b au) t = try_get_status au t"
  "validate_auction_ends find_pda e k (relabel x i b au) f = validate_auction_ends find_pda e k au f"
  unfolding get_price_def calculate_k_def auction_length_def sell_from_basket_def
      try_get_status_def validate_auction_ends_def relabel_fields by (rule refl)+

lemma relabel_bid [simp]: "get_bid (relabel x i b au) f bs raw t s mx = get_bid au f bs raw t s mx"
  unfolding get_bid_def relabel_fields relabel_reads by (rule refl)

section \<open>A concrete bid\<close>

definition sample_bid :: bid_accounts where
  "sample_bid = \<lparr>bd_bidder = PK 61, bd_folio_key = PK 1002, bd_folio = sample_folio,
     bd_folio_basket = sample_basket,
     bd_folio_token_mint = \<lparr>mint_key = PK 7, mint_supply = 1000, mint_program = PK 1\<rparr>,
     bd_auction = sample_auction, bd_sell_mint = PK 11, bd_buy_mint = PK 12,
     bd_folio_sell_account = PK 201, bd_folio_buy_account = PK 202, bd_bidder_sell_account = PK 203,
     bd_bidder_buy_account = \<lparr>ai_key = PK 204, ai_is_signer = False, ai_is_writable = True,
       ai_data_is_empty = False, ai_owner = PK 1, ai_executable = False, ai_mint = None,
       ai_token = Some \<lparr>td_mint = PK 12, td_owner = PK 61, td_amount = 1000, td_extension_types = []\<rparr>\<rparr>,
     bd_rebalance = opened_rebalance, bd_auction_ends_key = PK 1005, bd_auction_ends = sample_ends,
     bd_dao_fee_config = \<lparr>dfc_bump = 1, dao_fee_recipient = PK 5,
       default_fee_numerator = 500000000000000000, default_fee_floor = 1500000000000000\<rparr>,
     bd_folio_fee_config = EmptyData\<rparr>"

definition bid_basket :: folio_basket where
  "bid_basket = sample_basket\<lparr>fb_token_amounts :=
     [\<lparr>fta_mint = PK 11, fta_amount = 490\<rparr>, \<lparr>fta_mint = PK 12, fta_amount = 90\<rparr>]
       @ replicate 98 default_folio_token_amount\<rparr>"

lemma sample_validate_bid: "validate_bid sample_sdk sample_bid 100 = Ok ()"
  by (simp add: validate_bid_def sample_bid_def sample_sdk_def validate_folio_def sample_folio_def
      status_from_def sample_auction_def check_supported_token_account_def is_supported_spl_token_def
      token_has_extensions_def validate_auction_ends_def validate_auction_ends_with_keys_and_get_bump_def
      Let_def sample_ends_def opened_rebalance_def set_limits_def sample_rebalance_def try_get_status_def)

lemma sample_get_bid:
  "get_bid sample_auction sample_folio sample_basket 1000 100 10 25
     = Ok (65, 20, 2000000000000000000, 1000000000000)"
proof -
  have "get_price sample_auction 100 = Ok 2000000000000000000" by (simp add: get_price_def sample_auction_def)
  then show ?thesis
    by (simp add: get_bid_def sample_supply sample_auction_def sample_amounts Let_def mul_div_def
        dec_mul_def dec_div_def from_scaled_def to_token_amount_def from_token_amount_def
        saturating_sub_def arith_defs const_defs U64_MAX_def)
qed

lemma sample_sell:
  "sell_from_basket sample_basket sample_auction 10 1000000000000
     = Ok (sample_basket\<lparr>fb_token_amounts :=
         [\<lparr>fta_mint = PK 11, fta_amount = 490\<rparr>, \<lparr>fta_mint = PK 12, fta_amount = 70\<rparr>]
           @ replicate 98 default_folio_token_amount\<rparr>, 490000000000000001)"
  by (simp add: sell_from_basket_def sample_auction_def remove_tokens_from_basket_def
      remove_token_from_basket_def find_fta_def sample_basket_def update_fta_def
      get_token_amount_in_folio_basket_def get_token_amount_in_folio_basket_or_zero_def
      get_token_presence_per_share_in_basket_def Let_def is_zero_def from_token_amount_def dec_mul_def
      dec_div_def to_scaled_def arith_defs const_defs U128_MAX_def)

lemma sample_buy:
  "add_tokens_to_basket (sample_basket\<lparr>fb_token_amounts :=
       [\<lparr>fta_mint = PK 11, fta_amount = 490\<rparr>, \<lparr>fta_mint = PK 12, fta_amount = 70\<rparr>]
         @ replicate 98 default_folio_token_amount\<rparr>) [\<lparr>fta_mint = PK 12, fta_amount = 20\<rparr>]
     = Ok bid_basket"
  "get_token_presence_per_share_in_basket bid_basket (PK 12) 1000000000000 = Ok 90000000000000001"
  by (simp_all add: add_tokens_to_basket_def add_token_to_basket_def find_fta_def update_fta_def
      default_pubkey_def bid_basket_def get_token_amount_in_folio_basket_def
      get_token_amount_in_folio_basket_or_zero_def get_token_presence_per_share_in_basket_def Let_def
      is_zero_def from_token_amount_def dec_mul_def dec_div_def to_scaled_def arith_defs const_defs U128_MAX_def)

lemma sample_bid_run:
  "bid sample_sdk invoke accs sample_bid 100 10 25 False data 0 = Ok (sample_folio, bid_basket, sample_auction,
     sample_ends, [TransferChecked (PK 201) (PK 203) (PK 1002) (PK 11) 10,
       TransferChecked (PK 204) (PK 202) (PK 61) (PK 12) 20])"
proof -
  have f: "bd_auction sample_bid = sample_auction" "bd_folio sample_bid = sample_folio"
    "bd_folio_basket sample_bid = sample_basket" "mint_supply (bd_folio_token_mint sample_bid) = 1000"
    "bd_auction_ends sample_bid = sample_ends"
    by (simp_all add: sample_bid_def)
  have g: "sell_limit sample_auction = 300000000000000000" "buy_limit sample_auction = 200000000000000000"
    "buy_mint sample_auction = PK 12"
    by (simp_all add: sample_auction_def)
  obtain d where d: "get_fee_details (bd_dao_fee_config sample_bid) (bd_folio_fee_config sample_bid) = Ok d"
    by (simp add: sample_bid_def get_fee_details_def)
  show ?thesis
    unfolding bid_def Let_def f
    by (simp add: as_u64_nonneg sample_validate_bid d sample_poke_early sample_get_bid sample_sell
        collect_payment_def g sample_buy [simplified]) (simp add: sample_bid_def)
qed

definition sample_close :: close_auction_accounts where
  "sample_close = \<lparr>ca_actor = sample_actor, ca_folio_key = PK 1002, ca_folio = sample_folio,
     ca_auction_key = PK 1004, ca_auction = sample_auction, ca_auction_ends_key = PK 1005,
     ca_auction_ends = sample_ends\<rparr>"

lemma sample_validate_close: "validate_close_auction sample_sdk sample_close = Ok ()"
  by (simp add: validate_close_auction_def sample_close_def sample_sdk_def validate_folio_def
      sample_folio_def status_from_def validate_permission_for_action_def sample_actor_def has_role_def
      validate_auction_def sample_auction_def validate_auction_ends_def
      validate_auction_ends_with_keys_and_get_bump_def Let_def)

lemma sample_close_run:
  "close_auction sample_sdk sample_close 1900
     = Ok (sample_auction\<lparr>au_end := 1899\<rparr>, sample_ends\<lparr>end_time := 1899\<rparr>)"
proof -
  have "ca_auction sample_close = sample_auction" "ca_auction_ends sample_close = sample_ends"
    "au_end sample_auction = 3700"
    by (simp_all add: sample_close_def sample_auction_def)
  then show ?thesis by (simp add: close_auction_def sample_validate_close as_u64_nonneg checked_sub_def)
qed

section \<open>Properties\<close>

text \<open>
  C4: A bid that goes through trades inside a running auction of the current rebalance, at the
  auction's price rounded in the bidder's favour by less than one unit, within the bidder's
  maximum. The basket loses exactly the tokens sold and gains exactly the tokens bought, the sold
  token keeps at least what the sell limit reserves, the bought token does not exceed what the buy
  limit asks for, and the transfers sent (or, with a callback, the balance received) are these
  amounts.
\<close>
theorem bid_spec:
  assumes "bid sdk invoke accs a t s mx wc data before = Ok (f', b', au', ends', cpis)"
    and "basket_wf (bd_folio_basket a)" "sell_mint (bd_auction a) \<noteq> default_pubkey"
    and "buy_mint (bd_auction a) \<noteq> default_pubkey" "sell_mint (bd_auction a) \<noteq> buy_mint (bd_auction a)"
  shows "\<exists>price bought.
      get_price (bd_auction a) (as_u64 t) = Ok price
    \<and> rb_nonce (bd_rebalance a) = au_nonce (bd_auction a)
    \<and> au_start (bd_auction a) \<le> as_u64 t \<and> as_u64 t \<le> au_end (bd_auction a)
    \<and> bought = min (s * D9 * price div D18 div D9) U64_MAX \<and> 0 < bought \<and> bought \<le> mx
    \<and> basket_wf b'
    \<and> basket_amount b' = (basket_amount (bd_folio_basket a))
        (sell_mint (bd_auction a) := basket_amount (bd_folio_basket a) (sell_mint (bd_auction a)) - s,
         buy_mint (bd_auction a) := basket_amount (bd_folio_basket a) (buy_mint (bd_auction a)) + bought)
    \<and> s \<le> basket_amount (bd_folio_basket a) (sell_mint (bd_auction a))
    \<and> (0 < s \<longrightarrow> min (ceil_div (sell_limit (bd_auction a)
            * total_supply f' (mint_supply (bd_folio_token_mint a)) div D18) D9) U64_MAX
          \<le> basket_amount b' (sell_mint (bd_auction a)))
    \<and> basket_amount b' (buy_mint (bd_auction a)) \<le> buy_limit (bd_auction a)
          * total_supply f' (mint_supply (bd_folio_token_mint a)) div D18 div D9
    \<and> TransferChecked (bd_folio_sell_account a) (bd_bidder_sell_account a) (bd_folio_key a)
        (sell_mint (bd_auction a)) s \<in> set cpis
    \<and> (if wc then \<exists>after. cpi_call invoke accs data before = Ok after \<and> before + bought \<le> after
       else TransferChecked (ai_key (bd_bidder_buy_account a)) (bd_folio_buy_account a) (bd_bidder a)
          (buy_mint (bd_auction a)) bought \<in> set cpis)"
  using assms(1)
proof (rule bid_Ok, goal_cases)
  case (1 num den fl avail bought price ts b1 presence payment buy_presence)
  let ?au = "bd_auction a" and ?b = "bd_folio_basket a" and ?raw = "mint_supply (bd_folio_token_mint a)"
  note v = validate_bid_Ok [OF 1(1)]
  obtain bal where g: "get_price ?au (as_u64 t) = Ok price" "ts = total_supply f' ?raw"
    "get_token_amount_in_folio_basket ?b (sell_mint ?au) = Ok bal"
    "s \<le> saturating_sub bal (min (ceil_div (sell_limit ?au * ts div D18) D9) U64_MAX)"
    "bought = min (s * D9 * price div D18 div D9) U64_MAX" "bought \<noteq> 0" "bought \<le> mx"
    "bought \<le> saturating_sub (min (buy_limit ?au * ts div D18 div D9) U64_MAX)
      (get_token_amount_in_folio_basket_or_zero ?b (buy_mint ?au))"
    using get_bid_Ok [OF 1(3)] by metis
  note se = sell_from_basket_effect [OF 1(4) assms(2,3)]
  have "basket_credit b1 (buy_mint ?au, bought) = Ok b'"
    using 1(6) by (simp add: add_tokens_to_basket_def basket_credit_def)
  with se assms(4) have be: "basket_wf b'"
    "basket_amount b' = (basket_amount b1)(buy_mint ?au := basket_amount b1 (buy_mint ?au) + bought)"
    using basket_credit_effect by blast+
  have bal: "bal = basket_amount ?b (sell_mint ?au)" by (rule basket_amount_iff [OF assms(3) g(3)])
  have eff: "basket_amount b' = (basket_amount ?b)
        (sell_mint ?au := basket_amount ?b (sell_mint ?au) - s,
         buy_mint ?au := basket_amount ?b (buy_mint ?au) + bought)"
    using be(2) se assms(5) by (simp add: fun_upd_def fun_eq_iff)
  have sold: "min (ceil_div (sell_limit ?au * ts div D18) D9) U64_MAX \<le> basket_amount b' (sell_mint ?au)"
    if "0 < s"
  proof -
    define K where "K = min (ceil_div (sell_limit ?au * ts div D18) D9) U64_MAX"
    have "s \<le> saturating_sub bal K" using g(4) by (simp add: K_def)
    then have "K \<le> bal - s" using that by (auto simp: saturating_sub_def split: if_splits)
    then show ?thesis using eff assms(5) bal by (simp add: K_def [symmetric])
  qed
  have room: "basket_amount b' (buy_mint ?au) \<le> buy_limit ?au * ts div D18 div D9"
  proof -
    define M where "M = min (buy_limit ?au * ts div D18 div D9) U64_MAX"
    have "bought \<le> saturating_sub M (basket_amount ?b (buy_mint ?au))"
      using g(8) get_token_amount_or_zero_eq [OF assms(4)] by (simp add: M_def)
    then have "basket_amount ?b (buy_mint ?au) + bought \<le> M"
      using g(6) by (auto simp: saturating_sub_def split: if_splits)
    moreover have "M \<le> buy_limit ?au * ts div D18 div D9" by (simp add: M_def)
    ultimately show ?thesis using eff by simp
  qed
  note pay = collect_payment_Ok [OF 1(5)]
  have "TransferChecked (bd_folio_sell_account a) (bd_bidder_sell_account a) (bd_folio_key a)
        (sell_mint ?au) s \<in> set cpis"
    using 1(9) v by simp
  moreover have "if wc then \<exists>after. cpi_call invoke accs data before = Ok after \<and> before + bought \<le> after
       else TransferChecked (ai_key (bd_bidder_buy_account a)) (bd_folio_buy_account a) (bd_bidder a)
          (buy_mint ?au) bought \<in> set cpis"
    using pay 1(9) v by (auto split: if_splits)
  ultimately show ?case
    using v g(1,5,6,7) be(1) eff se sold room unfolding g(2)
    by (intro exI [of _ price] exI [of _ bought]) simp
qed

theorem bid_spec_witness:
  "basket_amount bid_basket (PK 12) \<le> 200 \<and> 300 \<le> basket_amount bid_basket (PK 11)"
proof -
  have "basket_wf (bd_folio_basket sample_bid)" using sample_basket_wf by (simp add: sample_bid_def)
  moreover have m: "sell_mint (bd_auction sample_bid) = PK 11" "buy_mint (bd_auction sample_bid) = PK 12"
    by (simp_all add: sample_bid_def sample_auction_def)
  ultimately have "min (ceil_div (sell_limit sample_auction * total_supply sample_folio 1000 div D18) D9) U64_MAX
        \<le> basket_amount bid_basket (PK 11)"
    "basket_amount bid_basket (PK 12) \<le> buy_limit sample_auction * total_supply sample_folio 1000 div D18 div D9"
    using bid_spec [OF sample_bid_run] by (auto simp: m default_pubkey_def sample_bid_def sample_auction_def)
  then show ?thesis
    by (simp add: sample_auction_def total_supply_def sample_folio_def const_defs ceil_div_def U64_MAX_def)
qed

text \<open>
  C24: A bid does not look at which folio its auction belongs to. The owner, the id and the bump of
  the auction account can be anything: the bid on the folio has the same outcome, so the limits
  and prices of an auction of another folio, with the same nonce and pair, decide what the folio
  sells its tokens for.
\<close>
theorem bid_ignores_auction_folio:
  "bid sdk invoke accs (a\<lparr>bd_auction := relabel other_folio i bump (bd_auction a)\<rparr>) t s mx wc data before
   = map_result (\<lambda>(f', b', au', ends', cpis). (f', b', relabel other_folio i bump au', ends', cpis))
       (bid sdk invoke accs a t s mx wc data before)"
proof -
  let ?a = "a\<lparr>bd_auction := relabel other_folio i bump (bd_auction a)\<rparr>"
  have v: "validate_bid sdk ?a tt = validate_bid sdk a tt" for tt
    by (simp add: validate_bid_def)
  have p: "collect_payment invoke accs ?a x wc data before = collect_payment invoke accs a x wc data before" for x
    by (simp add: collect_payment_def)
  show ?thesis
    unfolding bid_def Let_def v p
    by (simp add: relabel_end relabel_result map_result_and_then and_then_map_result split_def
        del: if_split cong: if_cong)
qed

text \<open>
  C38: Closing an auction needs one of the three roles and the accounts of this folio and auction.
  If the auction ends later than now, it ends one second ago, the account of end times follows,
  and from now on no bid on it goes through.
\<close>
theorem close_auction_spec:
  assumes "close_auction sdk a t = Ok (au', ends')" "as_u64 t < au_end (ca_auction a)"
  shows "(\<exists>r \<in> {RebalanceManager, AuctionLauncher, Owner}. has_role (actor_roles (ca_actor a)) r)
    \<and> (ca_auction_key a, au_bump (ca_auction a)) = find_program_address sdk [Bytes ''auction'',
        Key (ca_folio_key a), U64 (au_nonce (ca_auction a)), U64 (au_id (ca_auction a))] FOLIO_PROGRAM_ID
    \<and> au' = (ca_auction a)\<lparr>au_end := as_u64 t - 1\<rparr> \<and> au_end au' < as_u64 t
    \<and> ends' = (ca_auction_ends a)\<lparr>end_time := au_end au'\<rparr>
    \<and> (\<forall>b t' invoke accs s mx wc data before r. bd_auction b = au' \<and> as_u64 t \<le> as_u64 t'
         \<longrightarrow> bid sdk invoke accs b t' s mx wc data before \<noteq> Ok r)"
proof -
  from assms have v: "validate_close_auction sdk a = Ok ()" and o: "1 \<le> as_u64 t"
    "au' = (ca_auction a)\<lparr>au_end := as_u64 t - 1\<rparr>" "ends' = (ca_auction_ends a)\<lparr>end_time := as_u64 t - 1\<rparr>"
    by (auto simp: close_auction_def)
  from v have vf: "validate_folio (find_program_address sdk) (ca_folio a) (ca_folio_key a)
      (Some (ca_actor a)) (Some [RebalanceManager, AuctionLauncher, Owner])
      (Some [Initialized, Initializing]) = Ok ()"
    and va: "validate_auction (find_program_address sdk) (ca_auction a) (ca_auction_key a) (ca_folio_key a) = Ok ()"
    by (auto simp: validate_close_auction_def)
  have end_lt: "au_end au' < as_u64 t" using o(1,2) by simp
  have nb: "bid sdk invoke accs b t' s mx wc data before \<noteq> Ok r"
    if "bd_auction b = au'" "as_u64 t \<le> as_u64 t'" for b t' invoke accs s mx wc data before r
  proof
    assume bid_ok: "bid sdk invoke accs b t' s mx wc data before = Ok r"
    obtain f' b' au'' ends'' cpis where "r = (f', b', au'', ends'', cpis)" by (cases r)
    with bid_ok have "validate_bid sdk b (as_u64 t') = Ok ()" by (auto elim: bid_Ok)
    then have "as_u64 t' \<le> au_end au'" using validate_bid_Ok that(1) by blast
    then show False using end_lt that(2) by simp
  qed
  show ?thesis
    using validate_folio_Ok [OF vf] va o end_lt nb by (auto simp: validate_auction_def)
qed

theorem close_auction_spec_witness:
  "bid sample_sdk (\<lambda>p accs d w. Ok w) [] (sample_bid\<lparr>bd_auction := sample_auction\<lparr>au_end := 1899\<rparr>\<rparr>)
     1900 10 25 False [] 0 \<noteq> Ok (sample_folio, bid_basket, sample_auction, sample_ends, [])"
proof -
  have "as_u64 1900 < au_end (ca_auction sample_close)"
    by (simp add: as_u64_nonneg sample_close_def sample_auction_def)
  note closed = close_auction_spec [OF sample_close_run this]
  have "bid sample_sdk invoke accs b t' s mx wc data before \<noteq> Ok r"
    if "bd_auction b = sample_auction\<lparr>au_end := 1899\<rparr>" "as_u64 1900 \<le> as_u64 t'"
    for b t' invoke accs s mx wc data before r
    using closed that by blast
  from this [of "sample_bid\<lparr>bd_auction := sample_auction\<lparr>au_end := 1899\<rparr>\<rparr>"] show ?thesis by simp
qed

text \<open>
  In the last second of an auction closing it has no effect: the call succeeds, but the
  auction still counts as open at that time, so a bid in the same second can still go through.
\<close>
theorem close_in_last_second:
  assumes "validate_close_auction sdk a = Ok ()" "as_u64 t = au_end (ca_auction a)"
    and "au_start (ca_auction a) \<le> as_u64 t" "0 < as_u64 t"
  shows "close_auction sdk a t = Ok (ca_auction a, ca_auction_ends a)
    \<and> try_get_status (ca_auction a) (as_u64 t) = Some Open"
  using assms by (simp add: close_auction_def try_get_status_def)

theorem close_in_last_second_witness:
  "close_auction sample_sdk sample_close 3700 = Ok (sample_auction, sample_ends)
    \<and> try_get_status sample_auction 3700 = Some Open"
  using close_in_last_second [OF sample_validate_close, of 3700]
  by (simp add: as_u64_nonneg sample_close_def sample_auction_def)

end
