(* ===== verification/UserInstructions.thy ===== *)
theory UserInstructions
  imports PendingBasket FolioAdmin
begin

text \<open>
  The instructions of the users of a folio, \<open>programs/folio/src/instructions/user\<close>: adding tokens
  to the pending basket, taking them back, minting and burning shares, redeeming, and closing the
  pending basket. A handler returns the accounts it changes and the instructions it sends to the
  token programs. \<open>amount_of\<close> is the amount in a token account after the instructions sent so far.
\<close>

section \<open>Adding to the pending basket\<close>

record pending_accounts =
  pd_token_program :: pubkey
  pd_user :: pubkey
  pd_folio_key :: pubkey
  pd_folio :: folio
  pd_user_pending_basket_key :: pubkey

text \<open>The state of the loops over the amounts.\<close>

record pending_loop =
  pd_iter :: "account_info list"
  pd_amounts :: "token_amount list"
  pd_cpis :: "cpi list"

definition start_pending_loop :: "account_info list \<Rightarrow> pending_loop" where
  "start_pending_loop remaining_accounts = \<lparr>pd_iter = remaining_accounts, pd_amounts = [], pd_cpis = []\<rparr>"

definition add_pending_round ::
  "sdk \<Rightarrow> pending_accounts \<Rightarrow> (cpi list \<Rightarrow> pubkey \<Rightarrow> nat option) \<Rightarrow> pending_loop \<Rightarrow> nat
   \<Rightarrow> pending_loop result" where
  "add_pending_round sdk a amount_of st raw_amount =
     (let tp = pd_token_program a in
     and_then (next_account (pd_iter st) False False tp) (\<lambda>(token_mint, i1).
     and_then (next_account i1 False True tp) (\<lambda>(sender, i2).
     and_then (next_account i2 False True tp) (\<lambda>(recipient, i3).
     check_condition (ai_key recipient = associated_token_address sdk (pd_folio_key a) (ai_key token_mint) tp)
       InvalidRecipientTokenAccount (
     and_then (ok_or (ai_mint token_mint) ProgramInvalidAccountData) (\<lambda>_.
     if associated_token_address sdk (pd_user_pending_basket_key a) (ai_key token_mint) tp = ai_key sender then
       and_then (ok_or (amount_of (pd_cpis st) (ai_key sender)) ProgramInvalidAccountData) (\<lambda>sender_amount.
       let amount = max sender_amount raw_amount in
       Ok \<lparr>pd_iter = i3,
           pd_amounts = pd_amounts st @ [\<lparr>ta_mint = ai_key token_mint, amount_for_minting = amount,
             amount_for_redeeming = 0\<rparr>],
           pd_cpis = pd_cpis st
             @ [TransferChecked (ai_key sender) (ai_key recipient) (pd_user_pending_basket_key a)
                  (ai_key token_mint) amount,
                CloseAccount (ai_key sender) (pd_user a) (pd_user_pending_basket_key a)]\<rparr>)
     else
       Ok \<lparr>pd_iter = i3,
           pd_amounts = pd_amounts st @ [\<lparr>ta_mint = ai_key token_mint, amount_for_minting = raw_amount,
             amount_for_redeeming = 0\<rparr>],
           pd_cpis = pd_cpis st
             @ [TransferChecked (ai_key sender) (ai_key recipient) (pd_user a) (ai_key token_mint)
                  raw_amount]\<rparr>))))))"

definition check_remaining_accounts :: "nat \<Rightarrow> account_info list \<Rightarrow> nat list \<Rightarrow> unit result" where
  "check_remaining_accounts divider remaining_accounts raw_amounts =
     check_condition (length remaining_accounts mod divider = 0) InvalidNumberOfRemainingAccounts (
     check_condition (length remaining_accounts div divider = length raw_amounts)
       InvalidNumberOfRemainingAccounts (Ok ()))"

definition add_to_pending_basket ::
  "sdk \<Rightarrow> pending_accounts \<Rightarrow> user_pending_basket option \<Rightarrow> nat \<Rightarrow> account_info list \<Rightarrow> nat list
   \<Rightarrow> (cpi list \<Rightarrow> pubkey \<Rightarrow> nat option) \<Rightarrow> (user_pending_basket \<times> cpi list) result" where
  "add_to_pending_basket sdk a account bump remaining_accounts raw_amounts amount_of =
     and_then (validate_folio (find_program_address sdk) (pd_folio a) (pd_folio_key a) None None
         (Some [Initialized])) (\<lambda>_.
     and_then (check_remaining_accounts 3 remaining_accounts raw_amounts) (\<lambda>_.
     and_then (fold_result (add_pending_round sdk a amount_of) (start_pending_loop remaining_accounts)
         raw_amounts) (\<lambda>st.
     and_then (pending_process_init_if_needed account bump (pd_user a) (pd_folio_key a) (pd_amounts st) True)
       (\<lambda>pending. Ok (pending, pd_cpis st)))))"

section \<open>Taking pending tokens back\<close>

definition remove_pending_round ::
  "sdk \<Rightarrow> pending_accounts \<Rightarrow> pending_loop \<Rightarrow> nat \<Rightarrow> pending_loop result" where
  "remove_pending_round sdk a st raw_amount =
     (let tp = pd_token_program a in
     and_then (next_account (pd_iter st) False False tp) (\<lambda>(token_mint, i1).
     and_then (next_account i1 False True tp) (\<lambda>(sender, i2).
     and_then (next_account i2 False True tp) (\<lambda>(recipient, i3).
     check_condition (ai_key recipient = associated_token_address sdk (pd_user a) (ai_key token_mint) tp)
       InvalidRecipientTokenAccount (
     and_then (ok_or (ai_mint token_mint) ProgramInvalidAccountData) (\<lambda>_.
     Ok \<lparr>pd_iter = i3,
         pd_amounts = pd_amounts st @ [\<lparr>ta_mint = ai_key token_mint, amount_for_minting = raw_amount,
           amount_for_redeeming = 0\<rparr>],
         pd_cpis = pd_cpis st @ [TransferChecked (ai_key sender) (ai_key recipient) (pd_folio_key a)
           (ai_key token_mint) raw_amount]\<rparr>))))))"

definition remove_from_pending_basket ::
  "sdk \<Rightarrow> pending_accounts \<Rightarrow> user_pending_basket \<Rightarrow> account_info list \<Rightarrow> nat list
   \<Rightarrow> (user_pending_basket \<times> cpi list) result" where
  "remove_from_pending_basket sdk a pending remaining_accounts raw_amounts =
     and_then (validate_folio (find_program_address sdk) (pd_folio a) (pd_folio_key a) None None None) (\<lambda>_.
     and_then (check_remaining_accounts 3 remaining_accounts raw_amounts) (\<lambda>_.
     and_then (fold_result (remove_pending_round sdk a) (start_pending_loop remaining_accounts) raw_amounts)
       (\<lambda>st.
     and_then (remove_token_amounts_from_folio pending (pd_amounts st) True MintProcess) (\<lambda>pending'.
     Ok (pending', pd_cpis st)))))"

section \<open>Redeeming\<close>

definition redeem_pending_round ::
  "sdk \<Rightarrow> pending_accounts \<Rightarrow> pending_loop \<Rightarrow> nat \<Rightarrow> pending_loop result" where
  "redeem_pending_round sdk a st raw_amount =
     (let tp = pd_token_program a in
     and_then (next_account (pd_iter st) False False tp) (\<lambda>(token_mint, i1).
     and_then (next_account i1 False True tp) (\<lambda>(sender, i2).
     and_then (next_account i2 False True tp) (\<lambda>(recipient, i3).
     check_condition (ai_key recipient = associated_token_address sdk (pd_user a) (ai_key token_mint) tp)
       InvalidRecipientTokenAccount (
     and_then (ok_or (ai_mint token_mint) ProgramInvalidAccountData) (\<lambda>_.
     Ok \<lparr>pd_iter = i3,
         pd_amounts = pd_amounts st @ [\<lparr>ta_mint = ai_key token_mint, amount_for_minting = 0,
           amount_for_redeeming = raw_amount\<rparr>],
         pd_cpis = pd_cpis st @ [TransferChecked (ai_key sender) (ai_key recipient) (pd_folio_key a)
           (ai_key token_mint) raw_amount]\<rparr>))))))"

definition redeem_from_pending_basket ::
  "sdk \<Rightarrow> pending_accounts \<Rightarrow> user_pending_basket \<Rightarrow> account_info list \<Rightarrow> nat list
   \<Rightarrow> (user_pending_basket \<times> cpi list) result" where
  "redeem_from_pending_basket sdk a pending remaining_accounts raw_amounts =
     and_then (validate_folio (find_program_address sdk) (pd_folio a) (pd_folio_key a) None None None) (\<lambda>_.
     and_then (check_remaining_accounts 3 remaining_accounts raw_amounts) (\<lambda>_.
     and_then (fold_result (redeem_pending_round sdk a) (start_pending_loop remaining_accounts) raw_amounts)
       (\<lambda>st.
     and_then (remove_token_amounts_from_folio pending (pd_amounts st) True RedeemProcess) (\<lambda>pending'.
     Ok (pending', pd_cpis st)))))"

section \<open>Minting and burning shares\<close>

record share_accounts =
  sh_user :: pubkey
  sh_dao_fee_config :: dao_fee_config
  sh_folio_fee_config :: "folio_fee_config account_data"
  sh_folio_key :: pubkey
  sh_folio :: folio
  sh_folio_token_mint :: mint_account
  sh_folio_basket :: folio_basket
  sh_user_pending_basket :: user_pending_basket
  sh_user_folio_token_account :: pubkey

definition validate_share_accounts :: "sdk \<Rightarrow> share_accounts \<Rightarrow> folio_status list \<Rightarrow> unit result" where
  "validate_share_accounts sdk a statuses =
     and_then (validate_folio (find_program_address sdk) (sh_folio a) (sh_folio_key a) None None
         (Some statuses)) (\<lambda>_.
     check_condition (mint_key (sh_folio_token_mint a) = folio_token_mint (sh_folio a))
       InvalidFolioTokenMint (Ok ()))"

definition mint_folio_token ::
  "sdk \<Rightarrow> share_accounts \<Rightarrow> int \<Rightarrow> nat \<Rightarrow> nat option
   \<Rightarrow> (folio \<times> folio_basket \<times> user_pending_basket \<times> cpi list) result" where
  "mint_folio_token sdk a current_time raw_shares min_raw_shares =
     and_then (validate_share_accounts sdk a [Initialized]) (\<lambda>_.
     and_then (get_fee_details (sh_dao_fee_config a) (sh_folio_fee_config a)) (\<lambda>details.
     and_then (to_assets (sh_user_pending_basket a) raw_shares (mint_supply (sh_folio_token_mint a))
         (sh_folio_basket a) (sh_folio a) MintProcess current_time (scaled_fee_numerator details)
         (scaled_fee_denominator details) (scaled_fee_floor details) []) (\<lambda>(pending, basket, f).
     and_then (calculate_fees_for_minting f raw_shares (scaled_fee_numerator details)
         (scaled_fee_denominator details) (scaled_fee_floor details)) (\<lambda>(f', fee_shares).
     and_then (ok_or (checked_sub raw_shares fee_shares) MathOverflow) (\<lambda>raw_to_mint.
     and_then
       (case min_raw_shares of
          Some minimum \<Rightarrow> check_condition (raw_to_mint \<ge> minimum) SlippageExceeded (Ok ())
        | None \<Rightarrow> Ok ()) (\<lambda>_.
     Ok (f', basket, pending,
         [MintTo (mint_key (sh_folio_token_mint a)) (sh_user_folio_token_account a) (sh_folio_key a)
            raw_to_mint])))))))"

definition burn_folio_token ::
  "sdk \<Rightarrow> share_accounts \<Rightarrow> int \<Rightarrow> nat \<Rightarrow> minimum_out_for_token_amount list
   \<Rightarrow> (folio \<times> folio_basket \<times> user_pending_basket \<times> cpi list) result" where
  "burn_folio_token sdk a current_time raw_shares minimum_outs =
     and_then (validate_share_accounts sdk a [Initialized, Killed]) (\<lambda>_.
     and_then (get_fee_details (sh_dao_fee_config a) (sh_folio_fee_config a)) (\<lambda>details.
     and_then (to_assets (sh_user_pending_basket a) raw_shares (mint_supply (sh_folio_token_mint a))
         (sh_folio_basket a) (sh_folio a) RedeemProcess current_time (scaled_fee_numerator details)
         (scaled_fee_denominator details) (scaled_fee_floor details) minimum_outs) (\<lambda>(pending, basket, f).
     Ok (f, basket, pending,
         [Burn (mint_key (sh_folio_token_mint a)) (sh_user_folio_token_account a) (sh_user a)
            raw_shares]))))"

section \<open>Closing\<close>

text \<open>The account that is closed is \<open>None\<close>; its last contents are the default ones.\<close>

definition close_user_pending_token_amount ::
  "sdk \<Rightarrow> folio \<Rightarrow> pubkey \<Rightarrow> user_pending_basket
   \<Rightarrow> (user_pending_basket \<times> user_pending_basket option) result" where
  "close_user_pending_token_amount sdk f folio_key pending =
     and_then (validate_folio (find_program_address sdk) f folio_key None None None) (\<lambda>_.
     check_condition (pending_is_empty pending) PendingBasketIsNotEmpty (
     Ok (pending_reset pending, None)))"

definition transfer_from_user_pending_basket_ata ::
  "sdk \<Rightarrow> pubkey \<Rightarrow> pubkey \<Rightarrow> pubkey \<Rightarrow> pubkey \<Rightarrow> nat \<Rightarrow> cpi list result" where
  "transfer_from_user_pending_basket_ata sdk user user_pending_basket_key token_mint token_program amount =
     (let user_token_account = associated_token_address sdk user token_mint token_program;
          pending_token_account = associated_token_address sdk user_pending_basket_key token_mint token_program
      in Ok [TransferChecked pending_token_account user_token_account user_pending_basket_key token_mint amount,
             CloseAccount pending_token_account user user_pending_basket_key])"

end
