(* ===== verification/FeeDistribution.thy ===== *)
theory FeeDistribution
  imports FolioAdmin Transitions
begin

text \<open>
  Fees from pending shares to minted tokens: the list of fee recipients
  (\<open>utils/accounts/fee_recipients.rs\<close>), and the instructions \<open>distribute_fees\<close>,
  \<open>crank_fee_distribution\<close> and \<open>poke_folio\<close> of \<open>programs/folio/src/instructions/crank\<close>. A
  distribution mints the share of the DAO and sets the rest aside; cranking mints it recipient by
  recipient. An account that an instruction closes is \<open>None\<close> after it.
\<close>

section \<open>Fee recipients\<close>

definition fee_recipients_process_init_if_needed ::
  "fee_recipients_account option \<Rightarrow> nat \<Rightarrow> pubkey \<Rightarrow> (fee_recipients_account \<times> bool) result" where
  "fee_recipients_process_init_if_needed account context_bump folio_key =
     (case account of
        None \<Rightarrow>
          Ok (\<lparr>fr_bump = context_bump, distribution_index = 0, fr_folio = folio_key,
               fee_recipients = replicate MAX_FEE_RECIPIENTS default_fee_recipient\<rparr>, True)
      | Some self \<Rightarrow> check_condition (fr_bump self = context_bump) InvalidBump (Ok (self, False)))"

text \<open>\<open>new_recipients[add_index] = x; add_index += 1\<close>\<close>

definition put_recipient :: "fee_recipient list \<times> nat \<Rightarrow> fee_recipient \<Rightarrow> fee_recipient list \<times> nat" where
  "put_recipient s x = ((fst s)[snd s := x], snd s + 1)"

definition keep_recipient ::
  "pubkey list \<Rightarrow> fee_recipient list \<times> nat \<Rightarrow> fee_recipient \<Rightarrow> fee_recipient list \<times> nat" where
  "keep_recipient remove s x =
     (if recipient x \<notin> set remove \<and> recipient x \<noteq> default_pubkey then put_recipient s x else s)"

definition add_recipient ::
  "fee_recipient list \<times> nat \<Rightarrow> fee_recipient \<Rightarrow> (fee_recipient list \<times> nat) result" where
  "add_recipient s x =
     check_condition (snd s < MAX_FEE_RECIPIENTS) InvalidFeeRecipientCount (Ok (put_recipient s x))"

fun all_inserted :: "pubkey list \<Rightarrow> pubkey list \<Rightarrow> bool" where
  "all_inserted seen [] = True"
| "all_inserted seen (k # ks) = (if k \<in> set seen then False else all_inserted (k # seen) ks)"

definition validate_fee_recipient_total_portions_and_check_for_duplicates ::
  "fee_recipient list \<Rightarrow> unit result" where
  "validate_fee_recipient_total_portions_and_check_for_duplicates rs =
     and_then (plain_sum 128 (map portion rs)) (\<lambda>total.
     check_condition (total = MAX_FEE_RECIPIENTS_PORTION) InvalidFeeRecipientPortion (
     if \<not> all_inserted [] (map recipient (filter (\<lambda>r. recipient r \<noteq> default_pubkey) rs))
     then Err InvalidFeeRecipientContainsDuplicates
     else Ok ()))"

definition update_fee_recipients ::
  "fee_recipients_account \<Rightarrow> fee_recipient list \<Rightarrow> pubkey list \<Rightarrow> fee_recipients_account result" where
  "update_fee_recipients self to_add to_remove =
     (let kept = foldl (keep_recipient to_remove)
            (replicate MAX_FEE_RECIPIENTS default_fee_recipient, 0) (fee_recipients self);
          filtered = filter (\<lambda>r. recipient r \<notin> set to_remove) to_add
      in
       and_then (fold_result add_recipient kept filtered) (\<lambda>(new_recipients, _).
       and_then (validate_fee_recipient_total_portions_and_check_for_duplicates new_recipients) (\<lambda>_.
       Ok (self\<lparr>fee_recipients := new_recipients\<rparr>))))"

definition fee_recipients_is_empty :: "fee_recipients_account \<Rightarrow> bool" where
  "fee_recipients_is_empty self = list_all (\<lambda>r. recipient r = default_pubkey) (fee_recipients self)"

definition is_fully_distributed :: "fee_distribution \<Rightarrow> bool" where
  "is_fully_distributed self =
     list_all (\<lambda>f. recipient f = default_pubkey) (fee_recipients_state self)"

section \<open>Distribute fees\<close>

record distribute_fees_accounts =
  df_token_program :: pubkey
  df_user :: pubkey
  df_dao_fee_config_key :: pubkey
  df_dao_fee_config :: dao_fee_config
  df_folio_fee_config_key :: pubkey
  df_folio_fee_config :: "folio_fee_config account_data"
  df_folio_key :: pubkey
  df_folio :: folio
  df_folio_token_mint :: mint_account
  df_fee_recipients_key :: pubkey
  df_fee_recipients :: fee_recipients_account
  df_fee_distribution_key :: pubkey
  df_dao_fee_recipient_key :: pubkey

definition validate_distribute_fees :: "sdk \<Rightarrow> distribute_fees_accounts \<Rightarrow> nat \<Rightarrow> unit result" where
  "validate_distribute_fees sdk a index =
     (let pda = find_program_address sdk; f = df_folio a in
      and_then (validate_folio pda f (df_folio_key a) None None (Some [Initialized, Killed])) (\<lambda>_.
      and_then (plain_add 64 (distribution_index (df_fee_recipients a)) 1) (\<lambda>next.
      check_condition (next = index) InvalidDistributionIndex (
      check_condition (mint_key (df_folio_token_mint a) = folio_token_mint f) InvalidFolioTokenMint (
      check_condition (mint_program (df_folio_token_mint a) = df_token_program a) InvalidTokenMintProgram (
      check_condition (df_dao_fee_config_key a = fst (pda [Bytes ''dao_fee_config''] FOLIO_ADMIN_PROGRAM_ID)) InvalidPda (
      check_condition (df_folio_fee_config_key a
          = fst (pda [Bytes ''folio_fee_config'', Key (df_folio_key a)] FOLIO_ADMIN_PROGRAM_ID)) InvalidPda (
      check_condition (df_fee_recipients_key a
          = fst (pda [Bytes ''fee_recipients'', Key (df_folio_key a)] FOLIO_PROGRAM_ID)) InvalidPda (
      check_condition (df_fee_distribution_key a
          = fst (pda [Bytes ''fee_distribution'', Key (df_folio_key a), U64 index] FOLIO_PROGRAM_ID))
        InvalidFeeDistribution (
      check_condition (df_token_program a \<in> {TOKEN_PROGRAM_ID sdk, TOKEN_2022_PROGRAM_ID sdk}) InvalidProgram (
      Ok ())))))))))))"

definition distribute_fees ::
  "sdk \<Rightarrow> distribute_fees_accounts \<Rightarrow> int \<Rightarrow> nat
   \<Rightarrow> (folio \<times> fee_recipients_account \<times> fee_distribution option \<times> cpi list) result" where
  "distribute_fees sdk a current_time index =
     and_then (validate_distribute_fees sdk a index) (\<lambda>_.
     and_then (get_fee_details (df_dao_fee_config a) (df_folio_fee_config a)) (\<lambda>details.
     check_condition (df_dao_fee_recipient_key a
         = associated_token_address sdk (fee_recipient_key details) (mint_key (df_folio_token_mint a))
             (df_token_program a)) InvalidDaoFeeRecipient (
     and_then (poke (df_folio a) (mint_supply (df_folio_token_mint a)) current_time
         (scaled_fee_numerator details) (scaled_fee_denominator details) (scaled_fee_floor details))
       (\<lambda>f.
     let has_fee_recipients = (\<not> fee_recipients_is_empty (df_fee_recipients a)) in
     and_then (to_token_amount (from_scaled (fee_recipients_pending_fee_shares f)) Floor) (\<lambda>raw_recipients.
     and_then (ok_or (checked_mul 128 raw_recipients D9) MathOverflow) (\<lambda>minus_dust.
     and_then (to_token_amount (from_scaled (dao_pending_fee_shares f)) Floor) (\<lambda>raw_dao0.
     and_then (if \<not> has_fee_recipients
         then ok_or (checked_add 64 raw_dao0 raw_recipients) MathOverflow else Ok raw_dao0) (\<lambda>raw_dao.
     let cpis = [MintTo (mint_key (df_folio_token_mint a)) (df_dao_fee_recipient_key a) (df_folio_key a) raw_dao];
         derived = find_program_address sdk
           [Bytes ''fee_distribution'', Key (df_folio_key a), U64 index] FOLIO_PROGRAM_ID
     in
     and_then (if has_fee_recipients then
         check_condition (fst derived = df_fee_distribution_key a) InvalidFeeDistribution (
         Ok (Some \<lparr>fd_bump = snd derived, fd_index = index, fd_folio = df_folio_key a,
             fd_cranker = df_user a, amount_to_distribute = minus_dust,
             fee_recipients_state = fee_recipients (df_fee_recipients a)\<rparr>))
       else Ok None) (\<lambda>distribution.
     and_then (ok_or (checked_mul 128 raw_dao D9) MathOverflow) (\<lambda>scaled_dao.
     and_then (if has_fee_recipients
         then ok_or (checked_sub (dao_pending_fee_shares f) scaled_dao) MathOverflow
         else Ok (saturating_sub (dao_pending_fee_shares f) scaled_dao)) (\<lambda>dao_pending.
     and_then (unwrap (checked_sub (fee_recipients_pending_fee_shares f) minus_dust)) (\<lambda>fr_pending.
     and_then (if has_fee_recipients
         then ok_or (checked_add 128 (fee_recipients_pending_fee_shares_to_be_minted f) minus_dust) MathOverflow
         else Ok (fee_recipients_pending_fee_shares_to_be_minted f)) (\<lambda>to_be_minted.
     Ok (f\<lparr>dao_pending_fee_shares := dao_pending,
           fee_recipients_pending_fee_shares := fr_pending,
           fee_recipients_pending_fee_shares_to_be_minted := to_be_minted\<rparr>,
         (df_fee_recipients a)\<lparr>distribution_index := index\<rparr>, distribution, cpis))))))))))))))"

section \<open>Crank fee distribution\<close>

record crank_accounts =
  cr_token_program :: pubkey
  cr_cranker :: pubkey
  cr_folio_key :: pubkey
  cr_folio :: folio
  cr_folio_token_mint :: mint_account
  cr_fee_distribution_key :: pubkey
  cr_fee_distribution :: fee_distribution

definition validate_crank :: "sdk \<Rightarrow> crank_accounts \<Rightarrow> unit result" where
  "validate_crank sdk a =
     (let pda = find_program_address sdk; f = cr_folio a; fd = cr_fee_distribution a in
      and_then (validate_folio pda f (cr_folio_key a) None None (Some [Initialized, Killed])) (\<lambda>_.
      check_condition (cr_fee_distribution_key a
          = fst (pda [Bytes ''fee_distribution'', Key (cr_folio_key a), U64 (fd_index fd)] FOLIO_PROGRAM_ID))
        InvalidFeeDistribution (
      check_condition (mint_key (cr_folio_token_mint a) = folio_token_mint f) InvalidFolioTokenMint (
      check_condition (cr_cranker a = fd_cranker fd) InvalidCranker (
      Ok ())))))"

text \<open>
  The state of the loop: the accounts that are left, the recipients, the amount minted so far, the
  mint instructions and the \<open>TVLFeePaid\<close> events.
\<close>

record crank_state =
  cs_accounts :: "account_info list"
  cs_recipients :: "fee_recipient list"
  cs_amount :: nat
  cs_cpis :: "cpi list"
  cs_events :: "(pubkey \<times> nat) list"

definition crank_one :: "sdk \<Rightarrow> crank_accounts \<Rightarrow> crank_state \<Rightarrow> nat \<Rightarrow> crank_state result" where
  "crank_one sdk a s index =
     and_then (next_account (cs_accounts s) False True (cr_token_program a)) (\<lambda>(account, rest).
     if index < length (cs_recipients s) then
       let related = cs_recipients s ! index in
       if recipient related = default_pubkey then Ok (s\<lparr>cs_accounts := rest\<rparr>)
       else
         check_condition (ai_key account = associated_token_address sdk (recipient related)
             (mint_key (cr_folio_token_mint a)) (cr_token_program a)) InvalidFeeRecipient (
         let paid = related\<lparr>recipient := default_pubkey\<rparr> in
         and_then (dec_mul (from_scaled (amount_to_distribute (cr_fee_distribution a)))
             (from_scaled (portion paid))) (\<lambda>m.
         and_then (dec_div m (from_scaled MAX_FEE_RECIPIENTS_PORTION)) (\<lambda>q.
         and_then (to_token_amount q Floor) (\<lambda>raw.
         and_then (ok_or (checked_add 128 (cs_amount s) raw) MathOverflow) (\<lambda>amount.
         Ok \<lparr>cs_accounts = rest, cs_recipients = (cs_recipients s)[index := paid],
             cs_amount = amount,
             cs_cpis = cs_cpis s @ [MintTo (mint_key (cr_folio_token_mint a)) (ai_key account) (cr_folio_key a) raw],
             cs_events = cs_events s @ [(recipient paid, raw)]\<rparr>)))))
     else Panic)"

definition crank_fee_distribution ::
  "sdk \<Rightarrow> crank_accounts \<Rightarrow> account_info list \<Rightarrow> nat list
   \<Rightarrow> (folio \<times> fee_distribution option \<times> cpi list \<times> (pubkey \<times> nat) list) result" where
  "crank_fee_distribution sdk a remaining indices =
     and_then (validate_crank sdk a) (\<lambda>_.
     and_then (fold_result (crank_one sdk a)
         \<lparr>cs_accounts = remaining, cs_recipients = fee_recipients_state (cr_fee_distribution a),
          cs_amount = 0, cs_cpis = [], cs_events = []\<rparr> indices) (\<lambda>s.
     let fd = (cr_fee_distribution a)\<lparr>fee_recipients_state := cs_recipients s\<rparr>;
         can_close = is_fully_distributed fd
     in
     and_then (and_then (from_token_amount (cs_amount s)) (\<lambda>d. to_scaled d Floor)) (\<lambda>scaled.
     and_then (ok_or (checked_sub (fee_recipients_pending_fee_shares_to_be_minted (cr_folio a)) scaled)
         MathOverflow) (\<lambda>rest.
     Ok ((cr_folio a)\<lparr>fee_recipients_pending_fee_shares_to_be_minted := rest\<rparr>,
         (if can_close then None else Some fd), cs_cpis s, cs_events s)))))"

section \<open>Poke folio\<close>

definition poke_folio ::
  "sdk \<Rightarrow> folio \<Rightarrow> pubkey \<Rightarrow> mint_account \<Rightarrow> dao_fee_config \<Rightarrow> folio_fee_config account_data \<Rightarrow> int
   \<Rightarrow> folio result" where
  "poke_folio sdk f folio_key mint dao config current_time =
     and_then (validate_folio (find_program_address sdk) f folio_key None None
         (Some [Initialized, Killed])) (\<lambda>_.
     check_condition (mint_key mint = folio_token_mint f) InvalidFolioTokenMint (
     and_then (get_fee_details dao config) (\<lambda>details.
     poke f (mint_supply mint) current_time (scaled_fee_numerator details)
       (scaled_fee_denominator details) (scaled_fee_floor details))))"

section \<open>Lemmas: the list of recipients\<close>

definition pad_recipients :: "fee_recipient list \<Rightarrow> fee_recipient list" where
  "pad_recipients xs = xs @ replicate (MAX_FEE_RECIPIENTS - length xs) default_fee_recipient"

definition kept_recipients :: "pubkey list \<Rightarrow> fee_recipient list \<Rightarrow> fee_recipient list" where
  "kept_recipients remove xs =
     filter (\<lambda>r. recipient r \<notin> set remove \<and> recipient r \<noteq> default_pubkey) xs"

lemma put_pad:
  assumes "length xs < MAX_FEE_RECIPIENTS"
  shows "put_recipient (pad_recipients xs, length xs) x = (pad_recipients (xs @ [x]), length (xs @ [x]))"
proof -
  obtain n where n: "MAX_FEE_RECIPIENTS - length xs = Suc n" using assms by (cases "MAX_FEE_RECIPIENTS - length xs") auto
  then have "MAX_FEE_RECIPIENTS - Suc (length xs) = n" by simp
  with n show ?thesis by (simp add: put_recipient_def pad_recipients_def list_update_append)
qed

lemma keep_fold:
  "length xs + length rs \<le> MAX_FEE_RECIPIENTS \<Longrightarrow>
     foldl (keep_recipient remove) (pad_recipients xs, length xs) rs
       = (pad_recipients (xs @ kept_recipients remove rs), length (xs @ kept_recipients remove rs))"
proof (induction rs arbitrary: xs)
  case (Cons r rs)
  have "foldl (keep_recipient remove) (pad_recipients (xs @ [r]), length (xs @ [r])) rs
      = (pad_recipients ((xs @ [r]) @ kept_recipients remove rs), length ((xs @ [r]) @ kept_recipients remove rs))"
    using Cons.prems by (intro Cons.IH) simp
  with Cons show ?case
    by (simp add: keep_recipient_def [of remove "(pad_recipients xs, length xs)" r]
        kept_recipients_def put_pad)
qed (simp add: kept_recipients_def)

lemma add_fold:
  "length xs \<le> MAX_FEE_RECIPIENTS \<Longrightarrow>
     fold_result add_recipient (pad_recipients xs, length xs) ys
       = (if length xs + length ys \<le> MAX_FEE_RECIPIENTS
          then Ok (pad_recipients (xs @ ys), length (xs @ ys)) else Err InvalidFeeRecipientCount)"
proof (induction ys arbitrary: xs)
  case (Cons y ys)
  show ?case
  proof (cases "length xs < MAX_FEE_RECIPIENTS")
    case True
    with Cons.IH [of "xs @ [y]"] show ?thesis by (simp add: add_recipient_def put_pad)
  qed (simp add: add_recipient_def)
qed simp

lemma all_inserted_iff: "all_inserted seen ks \<longleftrightarrow> distinct ks \<and> set ks \<inter> set seen = {}"
  by (induction ks arbitrary: seen) auto

lemma plain_sum_eq: "plain_sum w xs = (if sum_list xs < 2 ^ w then Ok (sum_list xs) else Panic)"
proof -
  have "s < 2 ^ w \<Longrightarrow> fold_result (plain_add w) s xs
      = (if s + sum_list xs < 2 ^ w then Ok (s + sum_list xs) else Panic)" for s
  proof (induction xs arbitrary: s)
    case (Cons x xs)
    show ?case
    proof (cases "s + x < 2 ^ w")
      case True
      then show ?thesis using Cons.IH [OF True] by (simp add: plain_add_def checked_add_def add.assoc)
    next
      case False
      then show ?thesis by (simp add: plain_add_def checked_add_def)
    qed
  qed simp
  from this [of 0] show ?thesis by (simp add: plain_sum_def)
qed

definition portions :: "fee_recipient list \<Rightarrow> nat" where
  "portions xs = sum_list (map portion xs)"

lemma pad_recipients_simps [simp]:
  "portions (pad_recipients xs) = portions xs"
  "filter (\<lambda>r. recipient r \<noteq> default_pubkey) (pad_recipients xs)
     = filter (\<lambda>r. recipient r \<noteq> default_pubkey) xs"
  "length (pad_recipients xs) = max (length xs) MAX_FEE_RECIPIENTS"
  by (simp_all add: pad_recipients_def portions_def default_fee_recipient_def sum_list_replicate)

definition recipients_wf :: "fee_recipients_account \<Rightarrow> bool" where
  "recipients_wf self \<longleftrightarrow> length (fee_recipients self) = MAX_FEE_RECIPIENTS
     \<and> portions (fee_recipients self) \<le> MAX_FEE_RECIPIENTS_PORTION"

section \<open>Properties of the recipients\<close>

text \<open>
  Updating the fee recipients computes the recipients that are kept followed by those that are
  added and not removed, padded with empty slots. It accepts the result exactly if there are at
  most 64 of them, their portions add up to one in D18 and no recipient occurs twice; every failure
  has its error, and a sum of portions beyond 128 bits panics.
\<close>
theorem update_fee_recipients_spec:
  assumes "length (fee_recipients self) \<le> MAX_FEE_RECIPIENTS"
  defines "new \<equiv> \<lambda>add remove. kept_recipients remove (fee_recipients self)
      @ filter (\<lambda>r. recipient r \<notin> set remove) add"
  shows "update_fee_recipients self add remove =
    (if MAX_FEE_RECIPIENTS < length (new add remove) then Err InvalidFeeRecipientCount
     else if 2 ^ 128 \<le> portions (new add remove) then Panic
     else if portions (new add remove) \<noteq> MAX_FEE_RECIPIENTS_PORTION then Err InvalidFeeRecipientPortion
     else if \<not> distinct (map recipient (filter (\<lambda>r. recipient r \<noteq> default_pubkey) (new add remove)))
     then Err InvalidFeeRecipientContainsDuplicates
     else Ok (self\<lparr>fee_recipients := pad_recipients (new add remove)\<rparr>))"
proof -
  have start: "(replicate MAX_FEE_RECIPIENTS default_fee_recipient, 0)
      = (pad_recipients [], length ([] :: fee_recipient list))"
    by (simp add: pad_recipients_def)
  let ?k = "kept_recipients remove (fee_recipients self)"
  have "length ?k \<le> length (fee_recipients self)" by (simp add: kept_recipients_def)
  then have k: "length ?k \<le> MAX_FEE_RECIPIENTS" using assms(1) by simp
  have fold: "fold_result add_recipient (foldl (keep_recipient remove)
        (replicate MAX_FEE_RECIPIENTS default_fee_recipient, 0) (fee_recipients self))
        (filter (\<lambda>r. recipient r \<notin> set remove) add)
      = (if length (new add remove) \<le> MAX_FEE_RECIPIENTS
         then Ok (pad_recipients (new add remove), length (new add remove)) else Err InvalidFeeRecipientCount)"
    unfolding start using assms(1) keep_fold [of "[]"] add_fold [OF k] by (simp add: new_def)
  show ?thesis
    unfolding update_fee_recipients_def Let_def fold
    using pad_recipients_simps(1) [of "new add remove"]
    by (simp add: validate_fee_recipient_total_portions_and_check_for_duplicates_def plain_sum_eq
        all_inserted_iff portions_def check_condition_def not_less not_le)
qed

definition sample_recipients :: fee_recipients_account where
  "sample_recipients = \<lparr>fr_bump = 1, distribution_index = 0, fr_folio = PK 9,
     fee_recipients = \<lparr>recipient = PK 41, portion = 300000000000000000\<rparr>
       # \<lparr>recipient = PK 42, portion = 700000000000000000\<rparr> # replicate 62 default_fee_recipient\<rparr>"

theorem update_fee_recipients_spec_witness:
  "update_fee_recipients sample_recipients
     [\<lparr>recipient = PK 43, portion = 700000000000000000\<rparr>] [PK 42]
   = Ok (sample_recipients\<lparr>fee_recipients := pad_recipients
       [\<lparr>recipient = PK 41, portion = 300000000000000000\<rparr>,
        \<lparr>recipient = PK 43, portion = 700000000000000000\<rparr>]\<rparr>)"
proof -
  have k: "kept_recipients [PK 42] (fee_recipients sample_recipients)
      = [\<lparr>recipient = PK 41, portion = 300000000000000000\<rparr>]"
    by (simp add: kept_recipients_def sample_recipients_def default_fee_recipient_def default_pubkey_def)
  have "length (fee_recipients sample_recipients) \<le> MAX_FEE_RECIPIENTS"
    by (simp add: sample_recipients_def const_defs)
  from update_fee_recipients_spec [OF this, of "[\<lparr>recipient = PK 43, portion = 700000000000000000\<rparr>]" "[PK 42]"]
  show ?thesis by (simp add: k portions_def default_pubkey_def const_defs)
qed

section \<open>Lemmas: distribution\<close>

lemma min_add_sub_le: "min (x div D9) U64_MAX * D9 \<le> x"
proof -
  have "min (x div D9) U64_MAX * D9 \<le> x div D9 * D9" by (rule mult_le_mono1) simp
  also have "\<dots> \<le> x" by simp
  finally show ?thesis .
qed

text \<open>What a successful distribution did, with and without fee recipients.\<close>

lemma distribute_fees_Ok:
  assumes "distribute_fees sdk a t index = Ok (f', fr', fd, cpis)"
  obtains details f raw_dao raw_fr where
    "get_fee_details (df_dao_fee_config a) (df_folio_fee_config a) = Ok details"
    "poke (df_folio a) (mint_supply (df_folio_token_mint a)) t (scaled_fee_numerator details)
       (scaled_fee_denominator details) (scaled_fee_floor details) = Ok f"
    "raw_dao = min (dao_pending_fee_shares f div D9) U64_MAX"
    "raw_fr = min (fee_recipients_pending_fee_shares f div D9) U64_MAX"
    "index = distribution_index (df_fee_recipients a) + 1"
    "fr' = (df_fee_recipients a)\<lparr>distribution_index := index\<rparr>"
    "if fee_recipients_is_empty (df_fee_recipients a)
     then fd = None \<and> raw_dao + raw_fr < 2 ^ 64 \<and> cpis = [MintTo (mint_key (df_folio_token_mint a)) (df_dao_fee_recipient_key a)
         (df_folio_key a) (raw_dao + raw_fr)]
       \<and> f' = f\<lparr>dao_pending_fee_shares := saturating_sub (dao_pending_fee_shares f) ((raw_dao + raw_fr) * D9),
           fee_recipients_pending_fee_shares := fee_recipients_pending_fee_shares f - raw_fr * D9\<rparr>
     else cpis = [MintTo (mint_key (df_folio_token_mint a)) (df_dao_fee_recipient_key a)
         (df_folio_key a) raw_dao]
       \<and> f' = f\<lparr>dao_pending_fee_shares := dao_pending_fee_shares f - raw_dao * D9,
           fee_recipients_pending_fee_shares := fee_recipients_pending_fee_shares f - raw_fr * D9,
           fee_recipients_pending_fee_shares_to_be_minted
             := fee_recipients_pending_fee_shares_to_be_minted f + raw_fr * D9\<rparr>
       \<and> (\<exists>b. fd = Some \<lparr>fd_bump = b, fd_index = index, fd_folio = df_folio_key a,
             fd_cranker = df_user a, amount_to_distribute = raw_fr * D9,
             fee_recipients_state = fee_recipients (df_fee_recipients a)\<rparr>)"
proof -
  note eqs = assms [unfolded distribute_fees_def Let_def from_scaled_def]
  from eqs obtain details where d: "get_fee_details (df_dao_fee_config a) (df_folio_fee_config a) = Ok details"
    by clarsimp
  from eqs d obtain f where f: "poke (df_folio a) (mint_supply (df_folio_token_mint a)) t
      (scaled_fee_numerator details) (scaled_fee_denominator details) (scaled_fee_floor details) = Ok f"
    by clarsimp
  from eqs have idx: "index = distribution_index (df_fee_recipients a) + 1"
    by (clarsimp simp: validate_distribute_fees_def Let_def)
  show ?thesis
  proof (cases "fee_recipients_is_empty (df_fee_recipients a)")
    case True
    then show ?thesis
      using eqs d f idx by (intro that [OF d f refl refl idx]) (clarsimp, clarsimp)
  next
    case False
    then show ?thesis
      using eqs d f idx by (intro that [OF d f refl refl idx]) (clarsimp, clarsimp)
  qed
qed

definition share_raw :: "nat \<Rightarrow> nat \<Rightarrow> nat" where
  "share_raw amount p = min (amount * p div MAX_FEE_RECIPIENTS_PORTION div D9) U64_MAX"

definition remaining :: "nat \<Rightarrow> fee_recipient list \<Rightarrow> nat" where
  "remaining amount rs =
     sum_list (map (\<lambda>r. if recipient r = default_pubkey then 0 else share_raw amount (portion r)) rs)"

lemma sum_list_map_update:
  "i < length xs \<Longrightarrow>
     sum_list (map g (xs[i := y])) + g (xs ! i) = sum_list (map g xs) + (g y :: nat)"
proof (induction xs arbitrary: i)
  case (Cons x xs)
  then show ?case by (cases i) (auto simp: algebra_simps)
qed simp

lemma remaining_le:
  assumes "portions rs \<le> MAX_FEE_RECIPIENTS_PORTION"
  shows "remaining amount rs * D9 \<le> amount"
proof -
  have one: "share_raw amount p * D9 * MAX_FEE_RECIPIENTS_PORTION \<le> amount * p" for p
  proof -
    have "share_raw amount p * D9 \<le> amount * p div MAX_FEE_RECIPIENTS_PORTION"
      unfolding share_raw_def by (rule min_add_sub_le)
    then have "share_raw amount p * D9 * MAX_FEE_RECIPIENTS_PORTION
        \<le> amount * p div MAX_FEE_RECIPIENTS_PORTION * MAX_FEE_RECIPIENTS_PORTION"
      by (rule mult_le_mono1)
    also have "\<dots> \<le> amount * p" by simp
    finally show ?thesis .
  qed
  have "remaining amount rs * D9 * MAX_FEE_RECIPIENTS_PORTION \<le> amount * portions rs"
  proof (induction rs)
    case (Cons r rs)
    have c: "remaining amount (r # rs)
        = (if recipient r = default_pubkey then 0 else share_raw amount (portion r)) + remaining amount rs"
      "portions (r # rs) = portion r + portions rs"
      by (simp_all add: remaining_def portions_def)
    show ?case using Cons one [of "portion r"] unfolding c by (simp add: add_mult_distrib add_mult_distrib2)
  qed (simp add: remaining_def)
  also have "\<dots> \<le> amount * MAX_FEE_RECIPIENTS_PORTION" using assms by simp
  finally show ?thesis by (simp add: MAX_FEE_RECIPIENTS_PORTION_def)
qed

text \<open>One index of the crank moves the share of its recipient from what remains to what is paid.\<close>

definition crank_rel :: "nat \<Rightarrow> crank_state \<Rightarrow> crank_state \<Rightarrow> bool" where
  "crank_rel amount s s' \<longleftrightarrow>
     remaining amount (cs_recipients s') + cs_amount s' = remaining amount (cs_recipients s) + cs_amount s
     \<and> map portion (cs_recipients s') = map portion (cs_recipients s)
     \<and> sum_list (map cpi_amount (cs_cpis s')) + cs_amount s
         = sum_list (map cpi_amount (cs_cpis s)) + cs_amount s'
     \<and> (\<forall>e \<in> set (cs_events s') - set (cs_events s). fst e = default_pubkey)"

lemma crank_one_rel:
  assumes "crank_one sdk a s i = Ok s'"
  shows "crank_rel (amount_to_distribute (cr_fee_distribution a)) s s'"
proof -
  let ?r = "cs_recipients s ! i" and ?A = "amount_to_distribute (cr_fee_distribution a)"
  note eqs = assms [unfolded crank_one_def Let_def from_scaled_def]
  from eqs have i: "i < length (cs_recipients s)" by (clarsimp split: if_splits)
  show ?thesis
  proof (cases "recipient ?r = default_pubkey")
    case True
    then show ?thesis using eqs i by (clarsimp simp: crank_rel_def)
  next
    case False
    let ?p = "?r\<lparr>recipient := default_pubkey\<rparr>"
    from eqs i False have s': "cs_recipients s' = (cs_recipients s)[i := ?p]"
      "cs_amount s' = cs_amount s + share_raw ?A (portion ?r)"
      "cs_events s' = cs_events s @ [(default_pubkey, share_raw ?A (portion ?r))]"
      "\<exists>m k o'. cs_cpis s' = cs_cpis s @ [MintTo m k o' (share_raw ?A (portion ?r))]"
      by (clarsimp simp: share_raw_def)+
    have "remaining ?A (cs_recipients s') + share_raw ?A (portion ?r) = remaining ?A (cs_recipients s)"
      using sum_list_map_update [OF i, where y = ?p and g =
          "\<lambda>r. if recipient r = default_pubkey then 0 else share_raw ?A (portion r)"] False
      by (simp add: remaining_def s'(1))
    moreover have "map portion (cs_recipients s') = map portion (cs_recipients s)"
      using i by (simp add: s'(1) map_update list_update_same_conv)
    ultimately show ?thesis using s'(2-4) by (auto simp: crank_rel_def)
  qed
qed

lemma crank_rel_trans: "crank_rel A s t \<Longrightarrow> crank_rel A t u \<Longrightarrow> crank_rel A s u"
  unfolding crank_rel_def by (intro conjI) (simp, simp, simp, blast)

lemma crank_fold_rel:
  "fold_result (crank_one sdk a) s is = Ok s' \<Longrightarrow>
     crank_rel (amount_to_distribute (cr_fee_distribution a)) s s'"
proof (induction "is" arbitrary: s)
  case (Cons i "is")
  then show ?case by (auto intro: crank_rel_trans crank_one_rel)
qed (simp add: crank_rel_def)

lemma portions_map: "map portion xs = map portion ys \<Longrightarrow> portions xs = portions ys"
  by (simp add: portions_def)

lemma crank_one_clears:
  assumes "crank_one sdk a s i = Ok s'"
  shows "recipient (cs_recipients s' ! i) = default_pubkey"
    and "recipient (cs_recipients s ! j) = default_pubkey \<Longrightarrow>
      recipient (cs_recipients s' ! j) = default_pubkey"
proof -
  note eqs = assms [unfolded crank_one_def Let_def from_scaled_def]
  from eqs have "i < length (cs_recipients s)" by (clarsimp split: if_splits)
  then have "recipient (cs_recipients s' ! i) = default_pubkey \<and>
      (recipient (cs_recipients s ! j) = default_pubkey \<longrightarrow> recipient (cs_recipients s' ! j) = default_pubkey)"
    using eqs by (cases "recipient (cs_recipients s ! i) = default_pubkey"; cases "i = j") clarsimp+
  then show "recipient (cs_recipients s' ! i) = default_pubkey"
    "recipient (cs_recipients s ! j) = default_pubkey \<Longrightarrow> recipient (cs_recipients s' ! j) = default_pubkey"
    by blast+
qed

lemma crank_fold_clears:
  "fold_result (crank_one sdk a) s is = Ok s' \<Longrightarrow>
     j \<in> set is \<or> recipient (cs_recipients s ! j) = default_pubkey \<Longrightarrow>
     recipient (cs_recipients s' ! j) = default_pubkey"
proof (induction "is" arbitrary: s)
  case (Cons i "is")
  then obtain t where t: "crank_one sdk a s i = Ok t" "fold_result (crank_one sdk a) t is = Ok s'" by auto
  have "j \<in> set is \<or> recipient (cs_recipients t ! j) = default_pubkey"
    using Cons.prems(2) crank_one_clears [OF t(1)] by auto
  with Cons.IH [OF t(2)] show ?case .
qed simp

text \<open>A successful crank of a distribution whose portions add up to at most one.\<close>

lemma crank_Ok:
  assumes "crank_fee_distribution sdk a accs is = Ok (f', fd', cpis, events)"
    and "portions (fee_recipients_state (cr_fee_distribution a)) \<le> MAX_FEE_RECIPIENTS_PORTION"
    and "fits 128 (amount_to_distribute (cr_fee_distribution a))"
  obtains rs paid where
    "remaining (amount_to_distribute (cr_fee_distribution a)) rs + paid
      = remaining (amount_to_distribute (cr_fee_distribution a)) (fee_recipients_state (cr_fee_distribution a))"
    "map portion rs = map portion (fee_recipients_state (cr_fee_distribution a))"
    "paid = sum_list (map cpi_amount cpis)" "\<forall>e \<in> set events. fst e = default_pubkey"
    "fee_recipients_pending_fee_shares_to_be_minted f' + paid * D9
      = fee_recipients_pending_fee_shares_to_be_minted (cr_folio a)"
    "f' = (cr_folio a)\<lparr>fee_recipients_pending_fee_shares_to_be_minted
      := fee_recipients_pending_fee_shares_to_be_minted f'\<rparr>"
    "fd' = (if list_all (\<lambda>r. recipient r = default_pubkey) rs then None
      else Some ((cr_fee_distribution a)\<lparr>fee_recipients_state := rs\<rparr>))"
    "\<forall>i \<in> set is. recipient (rs ! i) = default_pubkey"
proof -
  let ?fd = "cr_fee_distribution a"
  let ?A = "amount_to_distribute ?fd"
  note eqs = assms(1) [unfolded crank_fee_distribution_def Let_def]
  from eqs obtain s where s: "fold_result (crank_one sdk a)
      \<lparr>cs_accounts = accs, cs_recipients = fee_recipients_state ?fd, cs_amount = 0, cs_cpis = [],
       cs_events = []\<rparr> is = Ok s" by clarsimp
  note rel = crank_fold_rel [OF s, unfolded crank_rel_def]
  have "cs_amount s * D9 \<le> remaining ?A (fee_recipients_state ?fd) * D9"
    using rel by (intro mult_le_mono1) simp
  also have "\<dots> \<le> ?A" by (rule remaining_le [OF assms(2)])
  finally have "cs_amount s * D9 \<le> U128_MAX" using assms(3) by (simp add: fits_def U128_MAX_def)
  then have m: "min (cs_amount s * D9) U128_MAX = cs_amount s * D9" by simp
  show ?thesis
    using eqs s rel m crank_fold_clears [OF s]
    by (intro that [of "cs_recipients s" "cs_amount s"])
      (clarsimp simp: is_fully_distributed_def; fastforce)+
qed

section \<open>Distributions over time\<close>

text \<open>
  The fee accounts of a folio: the folio, its recipients and the distributions that are open. The
  total that waits to be minted covers what the open distributions still have to pay.
\<close>

record fee_world =
  fw_folio :: folio
  fw_recipients :: fee_recipients_account
  fw_open :: "fee_distribution list"

inductive fee_step :: "fee_world \<Rightarrow> fee_world \<Rightarrow> bool" where
  distribute: "distribute_fees sdk a t index = Ok (f', fr', fd, cpis) \<Longrightarrow>
     df_folio a = fw_folio w \<Longrightarrow> df_fee_recipients a = fw_recipients w \<Longrightarrow>
     fee_step w \<lparr>fw_folio = f', fw_recipients = fr',
       fw_open = fw_open w @ (case fd of None \<Rightarrow> [] | Some d \<Rightarrow> [d])\<rparr>"
| crank: "crank_fee_distribution sdk a accs is = Ok (f', fd', cpis, events) \<Longrightarrow>
     i < length (fw_open w) \<Longrightarrow> cr_folio a = fw_folio w \<Longrightarrow> cr_fee_distribution a = fw_open w ! i \<Longrightarrow>
     fee_step w (w\<lparr>fw_folio := f',
       fw_open := take i (fw_open w) @ (case fd' of None \<Rightarrow> [] | Some d \<Rightarrow> [d]) @ drop (Suc i) (fw_open w)\<rparr>)"
| recipients: "update_fee_recipients (fw_recipients w) add remove = Ok fr' \<Longrightarrow>
     fee_step w (w\<lparr>fw_recipients := fr'\<rparr>)"
| mint: "calculate_fees_for_minting (fw_folio w) sh num den fl = Ok (f', fee) \<Longrightarrow>
     fee_step w (w\<lparr>fw_folio := f'\<rparr>)"
| poke: "poke (fw_folio w) supp t num den fl = Ok f' \<Longrightarrow> fee_step w (w\<lparr>fw_folio := f'\<rparr>)"

definition open_amount :: "fee_distribution \<Rightarrow> nat" where
  "open_amount d = remaining (amount_to_distribute d) (fee_recipients_state d) * D9"

definition distribution_ok :: "fee_distribution \<Rightarrow> bool" where
  "distribution_ok d \<longleftrightarrow> portions (fee_recipients_state d) \<le> MAX_FEE_RECIPIENTS_PORTION
     \<and> fits 128 (amount_to_distribute d)"

definition fee_world_ok :: "fee_world \<Rightarrow> bool" where
  "fee_world_ok w \<longleftrightarrow> recipients_wf (fw_recipients w) \<and> list_all distribution_ok (fw_open w)
     \<and> sum_list (map open_amount (fw_open w))
         \<le> fee_recipients_pending_fee_shares_to_be_minted (fw_folio w)"

inductive_cases fee_stepE: "fee_step w w'"

lemma update_recipients_wf:
  assumes "recipients_wf self" "update_fee_recipients self add remove = Ok self'"
  shows "recipients_wf self'"
proof -
  from assms(2) obtain xs k where v: "fold_result add_recipient (foldl (keep_recipient remove)
        (replicate MAX_FEE_RECIPIENTS default_fee_recipient, 0) (fee_recipients self))
        (filter (\<lambda>r. recipient r \<notin> set remove) add) = Ok (xs, k)"
    and p: "portions xs = MAX_FEE_RECIPIENTS_PORTION" and s: "self' = self\<lparr>fee_recipients := xs\<rparr>"
    by (auto simp: update_fee_recipients_def Let_def plain_sum_eq portions_def
        validate_fee_recipient_total_portions_and_check_for_duplicates_def split: prod.splits if_splits)
  have len: "add_recipient u x = Ok u' \<Longrightarrow> length (fst u') = length (fst u)"
    "length (fst (keep_recipient remove u x)) = length (fst u)" for u u' x
    by (auto simp: add_recipient_def keep_recipient_def put_recipient_def)
  have "length (fst (foldl (keep_recipient remove) u rs)) = length (fst u)" for u rs
    by (induction rs arbitrary: u) (simp_all add: len(2))
  then have "length (fst (xs, k)) = MAX_FEE_RECIPIENTS"
    by (intro fold_result_invariant [where I = "\<lambda>u. length (fst u) = MAX_FEE_RECIPIENTS", OF _ _ v])
      (simp_all add: len(1))
  then show ?thesis by (simp add: recipients_wf_def s p)
qed

lemma poke_to_be_minted:
  "poke f supp t num den fl = Ok f' \<Longrightarrow>
     fee_recipients_pending_fee_shares_to_be_minted f' = fee_recipients_pending_fee_shares_to_be_minted f"
  using poke_frame [of f supp t num den fl f'] by auto

lemma mint_to_be_minted:
  "calculate_fees_for_minting f sh num den fl = Ok (f', fee) \<Longrightarrow>
     fee_recipients_pending_fee_shares_to_be_minted f' = fee_recipients_pending_fee_shares_to_be_minted f"
  by (clarsimp simp: calculate_fees_for_minting_def Let_def)

lemma fee_world_ok_distribute:
  assumes "distribute_fees sdk a t index = Ok (f', fr', fd, cpis)"
    and w: "df_folio a = fw_folio w" "df_fee_recipients a = fw_recipients w" and ok: "fee_world_ok w"
  shows "fee_world_ok \<lparr>fw_folio = f', fw_recipients = fr',
       fw_open = fw_open w @ (case fd of None \<Rightarrow> [] | Some d \<Rightarrow> [d])\<rparr>"
  using assms(1)
proof (rule distribute_fees_Ok)
  fix details f raw_dao raw_fr
  assume p: "poke (df_folio a) (mint_supply (df_folio_token_mint a)) t (scaled_fee_numerator details)
      (scaled_fee_denominator details) (scaled_fee_floor details) = Ok f"
    and raw: "raw_fr = min (fee_recipients_pending_fee_shares f div D9) U64_MAX"
    and fr': "fr' = (df_fee_recipients a)\<lparr>distribution_index := index\<rparr>"
    and eff: "if fee_recipients_is_empty (df_fee_recipients a)
     then fd = None \<and> raw_dao + raw_fr < 2 ^ 64 \<and> cpis = [MintTo (mint_key (df_folio_token_mint a)) (df_dao_fee_recipient_key a)
         (df_folio_key a) (raw_dao + raw_fr)]
       \<and> f' = f\<lparr>dao_pending_fee_shares := saturating_sub (dao_pending_fee_shares f) ((raw_dao + raw_fr) * D9),
           fee_recipients_pending_fee_shares := fee_recipients_pending_fee_shares f - raw_fr * D9\<rparr>
     else cpis = [MintTo (mint_key (df_folio_token_mint a)) (df_dao_fee_recipient_key a)
         (df_folio_key a) raw_dao]
       \<and> f' = f\<lparr>dao_pending_fee_shares := dao_pending_fee_shares f - raw_dao * D9,
           fee_recipients_pending_fee_shares := fee_recipients_pending_fee_shares f - raw_fr * D9,
           fee_recipients_pending_fee_shares_to_be_minted
             := fee_recipients_pending_fee_shares_to_be_minted f + raw_fr * D9\<rparr>
       \<and> (\<exists>b. fd = Some \<lparr>fd_bump = b, fd_index = index, fd_folio = df_folio_key a,
             fd_cranker = df_user a, amount_to_distribute = raw_fr * D9,
             fee_recipients_state = fee_recipients (df_fee_recipients a)\<rparr>)"
  have t: "fee_recipients_pending_fee_shares_to_be_minted f
      = fee_recipients_pending_fee_shares_to_be_minted (fw_folio w)"
    using poke_to_be_minted [OF p] w(1) by simp
  have wf: "recipients_wf (fw_recipients w)" using ok by (simp add: fee_world_ok_def)
  then have po: "portions (fee_recipients (fw_recipients w)) \<le> MAX_FEE_RECIPIENTS_PORTION"
    by (simp add: recipients_wf_def)
  have "raw_fr * D9 \<le> U64_MAX * D9" unfolding raw by (rule mult_le_mono1) simp
  then have fits: "fits 128 (raw_fr * D9)" by (simp add: fits_def U64_MAX_def D9_def)
  show ?thesis
    using eff ok wf t po fits remaining_le [OF po, of "raw_fr * D9"] w
    by (auto simp: fee_world_ok_def fr' recipients_wf_def distribution_ok_def open_amount_def
        intro!: add_mono mult_le_mono1 split: if_splits)
qed

lemma fee_world_ok_crank:
  assumes "crank_fee_distribution sdk a accs is = Ok (f', fd', cpis, events)"
    and i: "i < length (fw_open w)" and w: "cr_folio a = fw_folio w" "cr_fee_distribution a = fw_open w ! i"
    and ok: "fee_world_ok w"
  shows "fee_world_ok (w\<lparr>fw_folio := f',
       fw_open := take i (fw_open w) @ (case fd' of None \<Rightarrow> [] | Some d \<Rightarrow> [d]) @ drop (Suc i) (fw_open w)\<rparr>)"
proof -
  let ?fd = "fw_open w ! i"
  have split: "fw_open w = take i (fw_open w) @ ?fd # drop (Suc i) (fw_open w)"
    by (rule id_take_nth_drop [OF i])
  have d: "distribution_ok ?fd"
    using ok i by (simp add: fee_world_ok_def list_all_length)
  obtain rs paid where c: "remaining (amount_to_distribute ?fd) rs + paid
      = remaining (amount_to_distribute ?fd) (fee_recipients_state ?fd)"
    "map portion rs = map portion (fee_recipients_state ?fd)"
    "fee_recipients_pending_fee_shares_to_be_minted f' + paid * D9
      = fee_recipients_pending_fee_shares_to_be_minted (fw_folio w)"
    "fd' = (if list_all (\<lambda>r. recipient r = default_pubkey) rs then None
      else Some (?fd\<lparr>fee_recipients_state := rs\<rparr>))"
    using crank_Ok [OF assms(1)] d w by (metis distribution_ok_def)
  have new: "list_all distribution_ok (case fd' of None \<Rightarrow> [] | Some d \<Rightarrow> [d])"
    using d portions_map [OF c(2)] by (simp add: c(4) distribution_ok_def)
  have z: "list_all (\<lambda>r. recipient r = default_pubkey) rs \<Longrightarrow> remaining A rs = 0" for A
    by (induction rs) (auto simp: remaining_def)
  have "sum_list (map open_amount (case fd' of None \<Rightarrow> [] | Some d \<Rightarrow> [d])) + paid * D9 = open_amount ?fd"
    using z [of "amount_to_distribute ?fd"] c(1) [symmetric]
    by (simp add: c(4) open_amount_def add_mult_distrib)
  moreover have "sum_list (map open_amount (take i (fw_open w))) + open_amount ?fd
      + sum_list (map open_amount (drop (Suc i) (fw_open w)))
      \<le> fee_recipients_pending_fee_shares_to_be_minted (fw_folio w)"
    using ok arg_cong [OF split, of "\<lambda>l. sum_list (map open_amount l)"]
    by (simp add: fee_world_ok_def)
  moreover have "list_all distribution_ok (take i (fw_open w))" "list_all distribution_ok (drop (Suc i) (fw_open w))"
    using ok by (auto simp: fee_world_ok_def list_all_iff dest: in_set_takeD in_set_dropD)
  ultimately show ?thesis using ok c(3) new by (simp add: fee_world_ok_def)
qed

lemma fee_world_ok_step: "fee_step w w' \<Longrightarrow> fee_world_ok w \<Longrightarrow> fee_world_ok w'"
proof (induction rule: fee_step.induct)
  case (distribute sdk a t index f' fr' fd cpis w)
  then show ?case by (intro fee_world_ok_distribute)
next
  case (crank sdk a accs "is" f' fd' cpis events i w)
  then show ?case by (intro fee_world_ok_crank)
next
  case (recipients w add remove fr')
  then show ?case using update_recipients_wf [OF _ recipients(1)] by (simp add: fee_world_ok_def)
next
  case (mint w sh num den fl f' fee)
  then show ?case by (simp add: fee_world_ok_def mint_to_be_minted [OF mint(1)])
next
  case (poke w supp t num den fl f')
  then show ?case by (simp add: fee_world_ok_def poke_to_be_minted [OF poke(1)])
qed

interpretation fees: invariant_system fee_step fee_world_ok
  by unfold_locales (rule fee_world_ok_step)

section \<open>A concrete run\<close>

definition pending_folio :: folio where
  "pending_folio = sample_folio\<lparr>dao_pending_fee_shares := 25000000025000000,
     fee_recipients_pending_fee_shares := 25000000025000000\<rparr>"

definition sample_distribute :: distribute_fees_accounts where
  "sample_distribute = \<lparr>df_token_program = PK 1, df_user = PK 60, df_dao_fee_config_key = PK 1001,
     df_dao_fee_config = \<lparr>dfc_bump = 1, dao_fee_recipient = PK 5,
       default_fee_numerator = 500000000000000000, default_fee_floor = 1500000000000000\<rparr>,
     df_folio_fee_config_key = PK 1002, df_folio_fee_config = EmptyData,
     df_folio_key = PK 1002, df_folio = pending_folio,
     df_folio_token_mint = \<lparr>mint_key = PK 7, mint_supply = 1000, mint_program = PK 1\<rparr>,
     df_fee_recipients_key = PK 1002, df_fee_recipients = sample_recipients,
     df_fee_distribution_key = PK 1003, df_dao_fee_recipient_key = PK 505\<rparr>"

definition distributed_folio :: folio where
  "distributed_folio = sample_folio\<lparr>dao_pending_fee_shares := 25000000,
     fee_recipients_pending_fee_shares := 25000000,
     fee_recipients_pending_fee_shares_to_be_minted := 25000000000000000\<rparr>"

definition sample_distribution :: fee_distribution where
  "sample_distribution = \<lparr>fd_bump = 255, fd_index = 1, fd_folio = PK 1002, fd_cranker = PK 60,
     amount_to_distribute = 25000000000000000, fee_recipients_state = fee_recipients sample_recipients\<rparr>"

lemma pending_poke_same_day: "poke pending_folio raw 100 num den fl = Ok pending_folio"
  by (simp add: day_start_def as_u64_def const_defs)

lemma sample_distribute_run:
  "distribute_fees sample_sdk sample_distribute 100 1 =
     Ok (distributed_folio, sample_recipients\<lparr>distribution_index := 1\<rparr>, Some sample_distribution,
         [MintTo (PK 7) (PK 505) (PK 1002) 25000000])"
proof -
  have v: "validate_distribute_fees sample_sdk sample_distribute 1 = Ok ()"
    by (simp add: validate_distribute_fees_def sample_sdk_def sample_distribute_def
        sample_recipients_def pending_folio_def sample_folio_def Let_def validate_folio_def
        status_from_def plain_add_def arith_defs)
  have e: "fee_recipients_is_empty sample_recipients = False"
    by (simp add: fee_recipients_is_empty_def sample_recipients_def default_pubkey_def)
  have d: "get_fee_details (df_dao_fee_config sample_distribute) (df_folio_fee_config sample_distribute)
      = Ok \<lparr>fee_recipient_key = PK 5, scaled_fee_denominator = FEE_DENOMINATOR,
          scaled_fee_numerator = 500000000000000000, scaled_fee_floor = 1500000000000000\<rparr>"
    by (simp add: get_fee_details_def sample_distribute_def Let_def)
  have p: "poke (df_folio sample_distribute) raw 100 num den fl = Ok pending_folio" for raw num den fl
    by (simp add: sample_distribute_def pending_poke_same_day)
  have r: "fee_recipients_is_empty (df_fee_recipients sample_distribute) = False"
    using e by (simp add: sample_distribute_def)
  have q: "dao_pending_fee_shares pending_folio = 25000000025000000"
    "fee_recipients_pending_fee_shares pending_folio = 25000000025000000"
    "fee_recipients_pending_fee_shares_to_be_minted pending_folio = 0"
    by (simp_all add: pending_folio_def sample_folio_def)
  show ?thesis
    unfolding distribute_fees_def v d and_then_simps p
    by (simp add: r q Let_def from_scaled_def checked_mul_def checked_sub_def checked_add_def
        U64_MAX_def D9_def)
      (simp add: sample_distribute_def sample_sdk_def sample_distribution_def pending_folio_def
        distributed_folio_def sample_folio_def)
qed

definition sample_crank :: crank_accounts where
  "sample_crank = \<lparr>cr_token_program = PK 1, cr_cranker = PK 60, cr_folio_key = PK 1002,
     cr_folio = distributed_folio,
     cr_folio_token_mint = \<lparr>mint_key = PK 7, mint_supply = 1000, mint_program = PK 1\<rparr>,
     cr_fee_distribution_key = PK 1003, cr_fee_distribution = sample_distribution\<rparr>"

definition sample_account :: "nat \<Rightarrow> account_info" where
  "sample_account k = \<lparr>ai_key = PK k, ai_is_signer = False, ai_is_writable = True,
     ai_data_is_empty = False, ai_owner = PK 1, ai_executable = False, ai_mint = None, ai_token = None\<rparr>"

definition cranked_state :: crank_state where
  "cranked_state = \<lparr>cs_accounts = [],
     cs_recipients = \<lparr>recipient = PK 41, portion = 300000000000000000\<rparr>
       # \<lparr>recipient = default_pubkey, portion = 700000000000000000\<rparr> # replicate 62 default_fee_recipient,
     cs_amount = 17500000, cs_cpis = [MintTo (PK 7) (PK 542) (PK 1002) 17500000],
     cs_events = [(default_pubkey, 17500000)]\<rparr>"

lemma sample_crank_loop:
  "fold_result (crank_one sample_sdk sample_crank)
      \<lparr>cs_accounts = [sample_account 542],
       cs_recipients = fee_recipients_state (cr_fee_distribution sample_crank),
       cs_amount = 0, cs_cpis = [], cs_events = []\<rparr> [1] = Ok cranked_state"
  by (simp add: crank_one_def next_account_def sample_account_def sample_crank_def
      sample_distribution_def sample_recipients_def sample_sdk_def Let_def default_pubkey_def
      from_scaled_def dec_mul_def dec_div_def to_token_amount_def arith_defs D9_def
      MAX_FEE_RECIPIENTS_PORTION_def U64_MAX_def cranked_state_def)

lemma sample_crank_valid: "validate_crank sample_sdk sample_crank = Ok ()"
  by (simp add: validate_crank_def sample_crank_def sample_sdk_def distributed_folio_def
      sample_folio_def sample_distribution_def Let_def validate_folio_def status_from_def)

lemma sample_crank_run:
  "crank_fee_distribution sample_sdk sample_crank [sample_account 542] [1] =
     Ok (distributed_folio\<lparr>fee_recipients_pending_fee_shares_to_be_minted := 7500000000000000\<rparr>,
         Some (sample_distribution\<lparr>fee_recipients_state := cs_recipients cranked_state\<rparr>),
         [MintTo (PK 7) (PK 542) (PK 1002) 17500000], [(default_pubkey, 17500000)])"
  unfolding crank_fee_distribution_def sample_crank_valid and_then_simps sample_crank_loop
  by (simp add: Let_def cranked_state_def is_fully_distributed_def default_pubkey_def
      from_token_amount_def to_scaled_def arith_defs D9_def U128_MAX_def sample_crank_def
      distributed_folio_def)

lemma sample_portions: "portions (fee_recipients sample_recipients) = MAX_FEE_RECIPIENTS_PORTION"
  by (simp add: portions_def sample_recipients_def default_fee_recipient_def const_defs
      sum_list_replicate)

section \<open>Properties of distributions\<close>

text \<open>
  C27: Distributing fees creates no supply. After the poke that it starts with, the shares it mints
  are exactly the pending shares it takes off the books when there are fee recipients; without
  recipients the DAO gets everything and less than one raw share of dust is dropped. The index goes
  up by one, the only instruction sent mints to the DAO, and the amount set aside for the
  recipients is the amount that is added to the shares to be minted.
\<close>
theorem distribute_conserves_supply:
  assumes "distribute_fees sdk a t index = Ok (f', fr', fd, cpis)"
  shows "\<exists>d f amount. get_fee_details (df_dao_fee_config a) (df_folio_fee_config a) = Ok d
    \<and> poke (df_folio a) (mint_supply (df_folio_token_mint a)) t (scaled_fee_numerator d)
        (scaled_fee_denominator d) (scaled_fee_floor d) = Ok f
    \<and> cpis = [MintTo (mint_key (df_folio_token_mint a)) (df_dao_fee_recipient_key a) (df_folio_key a) amount]
    \<and> total_supply f' (raw + amount) \<le> total_supply f raw
    \<and> total_supply f raw < total_supply f' (raw + amount) + D9
    \<and> distribution_index fr' = index \<and> index = distribution_index (df_fee_recipients a) + 1
    \<and> (case fd of
        None \<Rightarrow> fee_recipients_is_empty (df_fee_recipients a)
          \<and> fee_recipients_pending_fee_shares_to_be_minted f' = fee_recipients_pending_fee_shares_to_be_minted f
      | Some fdist \<Rightarrow> \<not> fee_recipients_is_empty (df_fee_recipients a)
          \<and> total_supply f' (raw + amount) = total_supply f raw
          \<and> fee_recipients_state fdist = fee_recipients (df_fee_recipients a)
          \<and> fee_recipients_pending_fee_shares_to_be_minted f'
              = fee_recipients_pending_fee_shares_to_be_minted f + amount_to_distribute fdist)"
  using assms
proof (rule distribute_fees_Ok)
  fix d f raw_dao raw_fr
  assume h: "get_fee_details (df_dao_fee_config a) (df_folio_fee_config a) = Ok d"
    "poke (df_folio a) (mint_supply (df_folio_token_mint a)) t (scaled_fee_numerator d)
        (scaled_fee_denominator d) (scaled_fee_floor d) = Ok f"
    and raw: "raw_dao = min (dao_pending_fee_shares f div D9) U64_MAX"
    "raw_fr = min (fee_recipients_pending_fee_shares f div D9) U64_MAX"
    and i: "index = distribution_index (df_fee_recipients a) + 1"
      "fr' = (df_fee_recipients a)\<lparr>distribution_index := index\<rparr>"
    and eff: "if fee_recipients_is_empty (df_fee_recipients a)
     then fd = None \<and> raw_dao + raw_fr < 2 ^ 64 \<and> cpis = [MintTo (mint_key (df_folio_token_mint a)) (df_dao_fee_recipient_key a)
         (df_folio_key a) (raw_dao + raw_fr)]
       \<and> f' = f\<lparr>dao_pending_fee_shares := saturating_sub (dao_pending_fee_shares f) ((raw_dao + raw_fr) * D9),
           fee_recipients_pending_fee_shares := fee_recipients_pending_fee_shares f - raw_fr * D9\<rparr>
     else cpis = [MintTo (mint_key (df_folio_token_mint a)) (df_dao_fee_recipient_key a)
         (df_folio_key a) raw_dao]
       \<and> f' = f\<lparr>dao_pending_fee_shares := dao_pending_fee_shares f - raw_dao * D9,
           fee_recipients_pending_fee_shares := fee_recipients_pending_fee_shares f - raw_fr * D9,
           fee_recipients_pending_fee_shares_to_be_minted
             := fee_recipients_pending_fee_shares_to_be_minted f + raw_fr * D9\<rparr>
       \<and> (\<exists>b. fd = Some \<lparr>fd_bump = b, fd_index = index, fd_folio = df_folio_key a,
             fd_cranker = df_user a, amount_to_distribute = raw_fr * D9,
             fee_recipients_state = fee_recipients (df_fee_recipients a)\<rparr>)"
  have le: "raw_dao * D9 \<le> dao_pending_fee_shares f" "raw_fr * D9 \<le> fee_recipients_pending_fee_shares f"
    unfolding raw by (rule min_add_sub_le)+
  define left where "left = saturating_sub (dao_pending_fee_shares f) (raw_dao * D9 + raw_fr * D9)"
  have left: "raw_dao * D9 + left \<le> dao_pending_fee_shares f \<and>
      dao_pending_fee_shares f < raw_dao * D9 + (left + D9)" if "raw_dao + raw_fr < 2 ^ 64"
  proof (cases "raw_fr = 0")
    case True
    then show ?thesis using le by (simp add: left_def saturating_sub_def)
  next
    case False
    then have "raw_dao = dao_pending_fee_shares f div D9" using that raw(1) by (auto simp: U64_MAX_def)
    then have "dao_pending_fee_shares f < raw_dao * D9 + D9"
      using dividend_less_div_times [of D9 "dao_pending_fee_shares f"] by (simp add: add.commute)
    moreover have "D9 \<le> raw_fr * D9" using False by simp
    ultimately show ?thesis using le by (simp add: left_def saturating_sub_def)
  qed
  show ?thesis
    using h i eff le left [folded left_def] by (intro exI [of _ d] exI [of _ f] exI [of _ "if fee_recipients_is_empty (df_fee_recipients a) then raw_dao + raw_fr else raw_dao"])
      (auto simp: total_supply_def add_mult_distrib left_def split: if_splits)
qed

theorem distribute_conserves_supply_witness:
  "\<exists>amount. [MintTo (PK 7) (PK 505) (PK 1002) 25000000] = [MintTo (PK 7) (PK 505) (PK 1002) amount]
    \<and> total_supply distributed_folio (1000 + amount) = total_supply pending_folio 1000"
  using distribute_conserves_supply [OF sample_distribute_run, of 1000]
  by (simp add: sample_distribute_def pending_poke_same_day)

text \<open>
  C28: A crank pays recipients out of what was set aside, and nobody twice. The shares it mints are
  taken off the shares to be minted, so the total supply does not change; they are the shares of
  the recipients that the crank clears, at most the amount of the distribution; every index it was
  given is cleared afterwards, and the account is closed exactly when no recipient is left.
\<close>
theorem crank_pays_once:
  assumes "crank_fee_distribution sdk a accs is = Ok (f', fd', cpis, events)"
    and "portions (fee_recipients_state (cr_fee_distribution a)) \<le> MAX_FEE_RECIPIENTS_PORTION"
    and "fits 128 (amount_to_distribute (cr_fee_distribution a))"
  defines "paid \<equiv> sum_list (map cpi_amount cpis)" and "d \<equiv> cr_fee_distribution a"
  shows "total_supply f' (raw + paid) = total_supply (cr_folio a) raw
    \<and> paid * D9 \<le> amount_to_distribute d
    \<and> remaining (amount_to_distribute d) (fee_recipients_state d)
        = paid + (case fd' of None \<Rightarrow> 0
            | Some d' \<Rightarrow> remaining (amount_to_distribute d) (fee_recipients_state d'))
    \<and> (case fd' of None \<Rightarrow> True
        | Some d' \<Rightarrow> \<not> is_fully_distributed d' \<and> amount_to_distribute d' = amount_to_distribute d
            \<and> map portion (fee_recipients_state d') = map portion (fee_recipients_state d)
            \<and> (\<forall>i \<in> set is. recipient (fee_recipients_state d' ! i) = default_pubkey))"
proof -
  obtain rs p where c: "remaining (amount_to_distribute d) rs + p
      = remaining (amount_to_distribute d) (fee_recipients_state d)"
    "map portion rs = map portion (fee_recipients_state d)" "p = paid"
    "fee_recipients_pending_fee_shares_to_be_minted f' + p * D9
      = fee_recipients_pending_fee_shares_to_be_minted (cr_folio a)"
    "f' = (cr_folio a)\<lparr>fee_recipients_pending_fee_shares_to_be_minted
      := fee_recipients_pending_fee_shares_to_be_minted f'\<rparr>"
    "fd' = (if list_all (\<lambda>r. recipient r = default_pubkey) rs then None
      else Some (d\<lparr>fee_recipients_state := rs\<rparr>))"
    "\<forall>i \<in> set is. recipient (rs ! i) = default_pubkey"
    using crank_Ok [OF assms(1-3)] by (metis d_def paid_def)
  have z: "list_all (\<lambda>r. recipient r = default_pubkey) rs \<Longrightarrow> remaining A rs = 0" for A
    by (induction rs) (auto simp: remaining_def)
  have same: "dao_pending_fee_shares f' = dao_pending_fee_shares (cr_folio a)"
    "fee_recipients_pending_fee_shares f' = fee_recipients_pending_fee_shares (cr_folio a)"
    by (subst c(5), simp)+
  have sup: "total_supply f' (raw + paid) = total_supply (cr_folio a) raw"
    unfolding total_supply_def same using c(3,4) by (simp add: add_mult_distrib)
  have "paid * D9 \<le> remaining (amount_to_distribute d) (fee_recipients_state d) * D9"
    using c(1,3) by (intro mult_le_mono1) simp
  also have "\<dots> \<le> amount_to_distribute d" unfolding d_def by (rule remaining_le [OF assms(2)])
  finally show ?thesis
    using sup c(1-3,6,7) z [of "amount_to_distribute d"]
    by (cases "list_all (\<lambda>r. recipient r = default_pubkey) rs") (simp_all add: is_fully_distributed_def)
qed

theorem crank_pays_once_witness:
  "17500000 * D9 \<le> amount_to_distribute sample_distribution
    \<and> total_supply (distributed_folio\<lparr>fee_recipients_pending_fee_shares_to_be_minted := 7500000000000000\<rparr>)
        (1000 + 17500000) = total_supply distributed_folio 1000"
proof -
  have "portions (fee_recipients_state (cr_fee_distribution sample_crank)) \<le> MAX_FEE_RECIPIENTS_PORTION"
    by (simp add: sample_crank_def sample_distribution_def sample_portions)
  moreover have "fits 128 (amount_to_distribute (cr_fee_distribution sample_crank))"
    by (simp add: sample_crank_def sample_distribution_def fits_def)
  ultimately show ?thesis
    using crank_pays_once [OF sample_crank_run, of 1000] by (simp add: sample_crank_def)
qed

text \<open>
  C11: The shares to be minted always cover the distributions that are open, over any sequence of
  distributions, cranks, changes of the recipients, mints and pokes. So the last step of a crank
  cannot fail for lack of shares: once its loop went through, the crank succeeds.
\<close>
theorem crank_always_covered:
  assumes "fee_step\<^sup>*\<^sup>* w0 w" "recipients_wf (fw_recipients w0)" "fw_open w0 = []"
    and "i < length (fw_open w)" "cr_folio a = fw_folio w" "cr_fee_distribution a = fw_open w ! i"
    and "validate_crank sdk a = Ok ()"
    and "fold_result (crank_one sdk a)
      \<lparr>cs_accounts = accs, cs_recipients = fee_recipients_state (cr_fee_distribution a),
       cs_amount = 0, cs_cpis = [], cs_events = []\<rparr> is = Ok s"
  shows "is_ok (crank_fee_distribution sdk a accs is)
    \<and> sum_list (map open_amount (fw_open w)) \<le> fee_recipients_pending_fee_shares_to_be_minted (fw_folio w)"
proof -
  have "fee_world_ok w"
    using fees.reachable [OF assms(1)] assms(2,3) by (simp add: fee_world_ok_def)
  then have sum: "sum_list (map open_amount (fw_open w))
      \<le> fee_recipients_pending_fee_shares_to_be_minted (fw_folio w)"
    and d: "distribution_ok (fw_open w ! i)"
    using assms(4) by (simp_all add: fee_world_ok_def list_all_length)
  let ?A = "amount_to_distribute (cr_fee_distribution a)"
  have "cs_amount s * D9 \<le> open_amount (fw_open w ! i)"
    using crank_fold_rel [OF assms(8), unfolded crank_rel_def] assms(6)
    by (simp add: open_amount_def)
  moreover have "open_amount (fw_open w ! i) \<le> sum_list (map open_amount (fw_open w))"
    using assms(4) by (intro member_le_sum_list) auto
  moreover have "open_amount (fw_open w ! i) < 2 ^ 128"
    using d remaining_le [of "fee_recipients_state (fw_open w ! i)" "amount_to_distribute (fw_open w ! i)"]
    by (simp add: distribution_ok_def open_amount_def fits_def)
  ultimately have le: "cs_amount s * D9 \<le> fee_recipients_pending_fee_shares_to_be_minted (fw_folio w)"
    "cs_amount s * D9 < 2 ^ 128" using sum by linarith+
  then have "from_token_amount (cs_amount s) = Ok (cs_amount s * D9)" "cs_amount s * D9 \<le> U128_MAX"
    by (simp_all add: U128_MAX_def)
  then have "is_ok (crank_fee_distribution sdk a accs is)"
    using le(1) assms(5)
    by (simp add: crank_fee_distribution_def assms(7,8) Let_def is_ok_iff checked_sub_def min_def)
  with sum show ?thesis by blast
qed

theorem crank_always_covered_witness:
  "is_ok (crank_fee_distribution sample_sdk sample_crank [sample_account 542] [1])"
proof -
  let ?start = "\<lparr>fw_folio = pending_folio, fw_recipients = sample_recipients, fw_open = []\<rparr>"
  let ?w = "\<lparr>fw_folio = distributed_folio, fw_recipients = sample_recipients\<lparr>distribution_index := 1\<rparr>,
      fw_open = fw_open ?start @ [sample_distribution]\<rparr>"
  have "fee_step ?start ?w"
    using fee_step.distribute [OF sample_distribute_run, of ?start] by (simp add: sample_distribute_def)
  then have "fee_step\<^sup>*\<^sup>* ?start ?w" by (rule r_into_rtranclp)
  moreover have "recipients_wf sample_recipients"
    using sample_portions by (simp add: recipients_wf_def) (simp add: sample_recipients_def const_defs)
  moreover have "cr_folio sample_crank = distributed_folio"
    "cr_fee_distribution sample_crank = sample_distribution" by (simp_all add: sample_crank_def)
  ultimately show ?thesis
    using crank_always_covered [where w = ?w and i = 0, OF _ _ _ _ _ _ sample_crank_valid
          sample_crank_loop, of ?start] by simp
qed

end
