(* ===== verification/OwnerInstructions.thy ===== *)
theory OwnerInstructions
  imports Basket FeeDistribution
begin

text \<open>
  The instructions of the owner of a folio, \<open>programs/folio/src/instructions/owner\<close>: creating the
  folio, filling and changing its basket, giving and taking roles, updating the fees and killing
  the folio. The metadata of the folio token is kept by another program: whether the call to it
  succeeds is an argument.
\<close>

section \<open>Creating a folio\<close>

text \<open>An account that \<open>init\<close> has just created: all fields zero.\<close>

definition zero_folio :: folio where
  "zero_folio = \<lparr>folio_bump = 0, folio_status = 0, initialized_at = 0, folio_token_mint = default_pubkey,
     tvl_fee = 0, mint_fee = 0, dao_pending_fee_shares = 0, fee_recipients_pending_fee_shares = 0,
     folio_auction_length = 0, last_poke = 0, mandate = replicate MAX_PADDED_STRING_LENGTH 0,
     fee_recipients_pending_fee_shares_to_be_minted = 0\<rparr>"

definition zero_actor :: actor where
  "zero_actor = \<lparr>actor_bump = 0, actor_authority = default_pubkey, actor_folio = default_pubkey,
     actor_roles = 0\<rparr>"

definition validate_init_folio :: "nat \<Rightarrow> nat \<Rightarrow> nat \<Rightarrow> nat list \<Rightarrow> unit result" where
  "validate_init_folio scaled_tvl_fee scaled_mint_fee auction_length mandate_bytes =
     check_condition (scaled_tvl_fee \<le> MAX_TVL_FEE) TVLFeeTooHigh (
     check_condition (scaled_mint_fee \<le> MAX_MINT_FEE) InvalidMintFee (
     check_condition (MIN_AUCTION_LENGTH \<le> auction_length \<and> auction_length \<le> MAX_AUCTION_LENGTH)
       InvalidAuctionLength (
     check_condition (length mandate_bytes \<le> MAX_PADDED_STRING_LENGTH) InvalidMandateLength (Ok ()))))"

record init_accounts =
  in_folio_owner :: pubkey
  in_folio_key :: pubkey
  in_folio_bump :: nat
  in_folio_token_mint_key :: pubkey
  in_actor_bump :: nat

definition init_folio ::
  "init_accounts \<Rightarrow> nat \<Rightarrow> nat \<Rightarrow> nat \<Rightarrow> nat list \<Rightarrow> int \<Rightarrow> unit result \<Rightarrow> (folio \<times> actor) result" where
  "init_folio a scaled_tvl_fee scaled_mint_fee auction_length mandate_bytes current_time metadata =
     and_then (validate_init_folio scaled_tvl_fee scaled_mint_fee auction_length mandate_bytes) (\<lambda>_.
     and_then (set_tvl_fee (zero_folio\<lparr>folio_bump := in_folio_bump a,
         folio_token_mint := in_folio_token_mint_key a\<rparr>) scaled_tvl_fee) (\<lambda>f.
     and_then metadata (\<lambda>_.
     Ok (f\<lparr>mint_fee := scaled_mint_fee, folio_status := status_u8 Initializing,
           last_poke := as_u64 current_time, dao_pending_fee_shares := 0,
           fee_recipients_pending_fee_shares := 0, folio_auction_length := auction_length,
           mandate := fixed_size_string_new mandate_bytes,
           fee_recipients_pending_fee_shares_to_be_minted := 0\<rparr>,
         zero_actor\<lparr>actor_bump := in_actor_bump a, actor_authority := in_folio_owner a,
           actor_folio := in_folio_key a, actor_roles := add_role 0 Owner\<rparr>))))"

definition init_folio_2022 ::
  "init_accounts \<Rightarrow> nat \<Rightarrow> nat \<Rightarrow> nat \<Rightarrow> nat list \<Rightarrow> int \<Rightarrow> unit result \<Rightarrow> (folio \<times> actor) result" where
  "init_folio_2022 a scaled_tvl_fee scaled_mint_fee auction_length mandate_bytes current_time metadata =
     and_then (validate_init_folio scaled_tvl_fee scaled_mint_fee auction_length mandate_bytes) (\<lambda>_.
     and_then (set_tvl_fee (zero_folio\<lparr>folio_bump := in_folio_bump a,
         folio_token_mint := in_folio_token_mint_key a\<rparr>) scaled_tvl_fee) (\<lambda>f.
     check_condition (in_folio_key a \<noteq> default_pubkey) InvalidUpdateAuthority (
     and_then metadata (\<lambda>_.
     Ok (f\<lparr>mint_fee := scaled_mint_fee, folio_status := status_u8 Initializing,
           last_poke := as_u64 current_time, dao_pending_fee_shares := 0,
           fee_recipients_pending_fee_shares := 0, folio_auction_length := auction_length,
           mandate := fixed_size_string_new mandate_bytes\<rparr>,
         zero_actor\<lparr>actor_bump := in_actor_bump a, actor_authority := in_folio_owner a,
           actor_folio := in_folio_key a, actor_roles := add_role 0 Owner\<rparr>)))))"

section \<open>The basket\<close>

record basket_accounts =
  ba_token_program :: pubkey
  ba_folio_owner :: pubkey
  ba_actor :: actor
  ba_folio_key :: pubkey
  ba_folio :: folio
  ba_folio_basket :: "folio_basket option"
  ba_folio_basket_bump :: nat
  ba_folio_token_mint :: mint_account
  ba_owner_folio_token_account :: pubkey
  ba_user_pending_basket_key :: pubkey

definition validate_add_to_basket :: "sdk \<Rightarrow> basket_accounts \<Rightarrow> nat option \<Rightarrow> unit result" where
  "validate_add_to_basket sdk a raw_initial_shares =
     and_then (validate_folio (find_program_address sdk) (ba_folio a) (ba_folio_key a) (Some (ba_actor a))
         (Some [Owner]) (Some [Initializing, Initialized])) (\<lambda>_.
     if raw_initial_shares \<noteq> None then
       check_condition (mint_program (ba_folio_token_mint a) = ba_token_program a) InvalidTokenMintProgram
         (Ok ())
     else Ok ())"

definition mint_initial_shares ::
  "basket_accounts \<Rightarrow> int \<Rightarrow> nat option \<Rightarrow> (folio \<times> cpi list) result" where
  "mint_initial_shares a current_time raw_initial_shares =
     (let f = ba_folio a in
     and_then
       (if folio_status f = status_u8 Initializing then
          and_then (ok_or raw_initial_shares MathOverflow) (\<lambda>shares.
          Ok [MintTo (mint_key (ba_folio_token_mint a)) (ba_owner_folio_token_account a) (ba_folio_key a)
                shares])
        else Ok []) (\<lambda>cpis.
     Ok (f\<lparr>folio_status := status_u8 Initialized, initialized_at := as_u64 current_time\<rparr>, cpis)))"

record basket_loop =
  bl_iter :: "account_info list"
  bl_amounts :: "folio_token_amount list"
  bl_cpis :: "cpi list"

definition add_basket_round ::
  "sdk \<Rightarrow> basket_accounts \<Rightarrow> basket_loop \<Rightarrow> nat \<Rightarrow> basket_loop result" where
  "add_basket_round sdk a st raw_amount =
     and_then (next_token_program sdk (bl_iter st)) (\<lambda>(token_program, i0).
     let tp = ai_key token_program in
     and_then (next_account i0 False False tp) (\<lambda>(token_mint, i1).
     and_then (next_account i1 False True tp) (\<lambda>(sender, i2).
     and_then (next_account i2 False True tp) (\<lambda>(recipient, i3).
     check_condition (ai_key recipient = associated_token_address sdk (ba_folio_key a) (ai_key token_mint) tp)
       InvalidRecipientTokenAccount (
     and_then (ok_or (ai_mint token_mint) ProgramInvalidAccountData) (\<lambda>mint.
     and_then (ok_or (ai_token sender) ProgramInvalidAccountData) (\<lambda>token.
     check_condition (is_supported_spl_token (Some mint) (Some token)) UnsupportedSPLToken (
     let authority =
           (if associated_token_address sdk (ba_user_pending_basket_key a) (ai_key token_mint) tp = ai_key sender
            then ba_user_pending_basket_key a else ba_folio_owner a)
     in
     Ok \<lparr>bl_iter = i3,
         bl_amounts = bl_amounts st @ [\<lparr>fta_mint = ai_key token_mint, fta_amount = raw_amount\<rparr>],
         bl_cpis = bl_cpis st @ [TransferChecked (ai_key sender) (ai_key recipient) authority
           (ai_key token_mint) raw_amount]\<rparr>))))))))"

definition add_to_basket ::
  "sdk \<Rightarrow> basket_accounts \<Rightarrow> account_info list \<Rightarrow> nat list \<Rightarrow> nat option \<Rightarrow> int
   \<Rightarrow> (folio \<times> folio_basket \<times> cpi list) result" where
  "add_to_basket sdk a remaining_accounts raw_amounts raw_initial_shares current_time =
     and_then (validate_add_to_basket sdk a raw_initial_shares) (\<lambda>_.
     check_condition (length remaining_accounts mod 4 = 0) InvalidNumberOfRemainingAccounts (
     check_condition (length remaining_accounts div 4 = length raw_amounts) InvalidNumberOfRemainingAccounts (
     and_then (fold_result (add_basket_round sdk a)
         \<lparr>bl_iter = remaining_accounts, bl_amounts = [], bl_cpis = []\<rparr> raw_amounts) (\<lambda>st.
     and_then (folio_basket_process_init_if_needed (ba_folio_basket a) (ba_folio_basket_bump a)
         (ba_folio_key a) (bl_amounts st)) (\<lambda>basket.
     if raw_initial_shares \<noteq> None then
       and_then (mint_initial_shares a current_time raw_initial_shares) (\<lambda>(f, cpis).
       Ok (f, basket, bl_cpis st @ cpis))
     else Ok (ba_folio a, basket, bl_cpis st))))))"

definition remove_from_basket ::
  "sdk \<Rightarrow> actor \<Rightarrow> pubkey \<Rightarrow> folio \<Rightarrow> folio_basket \<Rightarrow> mint_account \<Rightarrow> pubkey \<Rightarrow> folio_basket result" where
  "remove_from_basket sdk actor folio_key f basket folio_token_mint_account mint_to_remove =
     and_then (validate_folio (find_program_address sdk) f folio_key (Some actor) (Some [Owner])
         (Some [Initializing, Initialized])) (\<lambda>_.
     check_condition (mint_key folio_token_mint_account = folio_token_mint f) InvalidFolioTokenMint (
     and_then (get_total_supply f (mint_supply folio_token_mint_account)) (\<lambda>_.
     remove_token_mint_from_basket basket mint_to_remove)))"

section \<open>Killing and roles\<close>

definition kill_folio :: "sdk \<Rightarrow> actor \<Rightarrow> pubkey \<Rightarrow> folio \<Rightarrow> folio result" where
  "kill_folio sdk actor folio_key f =
     and_then (validate_folio (find_program_address sdk) f folio_key (Some actor) (Some [Owner])
         (Some [Initialized, Initializing])) (\<lambda>_.
     Ok (f\<lparr>folio_status := status_u8 Killed\<rparr>))"

definition init_or_update_actor ::
  "sdk \<Rightarrow> actor \<Rightarrow> pubkey \<Rightarrow> folio \<Rightarrow> actor option \<Rightarrow> nat \<Rightarrow> pubkey \<Rightarrow> role \<Rightarrow> actor result" where
  "init_or_update_actor sdk owner_actor folio_key f account context_bump new_actor_authority r =
     and_then (validate_folio (find_program_address sdk) f folio_key (Some owner_actor) (Some [Owner]) None)
       (\<lambda>_.
     let new_actor = (case account of None \<Rightarrow> zero_actor | Some x \<Rightarrow> x) in
     and_then (actor_process_init_if_needed new_actor (actor_bump new_actor) context_bump
         new_actor_authority (actor_folio owner_actor)) (\<lambda>x.
     Ok (x\<lparr>actor_roles := add_role (actor_roles x) r\<rparr>)))"

text \<open>A closed actor is \<open>None\<close>.\<close>

definition remove_actor ::
  "sdk \<Rightarrow> actor \<Rightarrow> pubkey \<Rightarrow> folio \<Rightarrow> actor \<Rightarrow> role \<Rightarrow> bool \<Rightarrow> actor option result" where
  "remove_actor sdk owner_actor folio_key f actor_to_remove r close_actor =
     and_then (validate_folio (find_program_address sdk) f folio_key (Some owner_actor) (Some [Owner]) None)
       (\<lambda>_.
     if \<not> close_actor then
       Ok (Some (actor_to_remove\<lparr>actor_roles := remove_role (actor_roles actor_to_remove) r\<rparr>))
     else Ok None)"

section \<open>Updating a folio\<close>

record update_accounts =
  up_folio_owner :: pubkey
  up_actor :: actor
  up_folio_key :: pubkey
  up_folio :: folio
  up_fee_recipients_key :: pubkey
  up_fee_recipients :: "fee_recipients_account option"
  up_fee_recipients_bump :: nat

text \<open>What the steps of an update change, and whether fees are still to be distributed.\<close>

record update_state =
  us_folio :: folio
  us_fee_recipients :: fee_recipients_account
  us_fee_distribution :: "fee_distribution option"
  us_cpis :: "cpi list"
  us_should_distribute :: bool

text \<open>
  \<open>extras\<close> holds the remaining accounts, decoded; indexing into too few of them panics. Nothing
  is distributed while the folio is neither initialized nor killed.
\<close>

definition update_distribute_fees ::
  "sdk \<Rightarrow> update_accounts \<Rightarrow> distribute_fees_accounts option \<Rightarrow> nat option \<Rightarrow> int \<Rightarrow> update_state
   \<Rightarrow> update_state result" where
  "update_distribute_fees sdk a extras index current_time s =
     and_then (status_from (folio_status (us_folio s))) (\<lambda>st.
     if st \<notin> {Killed, Initialized} then Ok s
     else
       case index of
         None \<Rightarrow> Err MissingFeeDistributionIndex
       | Some i \<Rightarrow>
           (case extras of
              None \<Rightarrow> Panic
            | Some r \<Rightarrow>
                check_condition (fst (find_program_address sdk
                    [Bytes ''fee_distribution'', Key (up_folio_key a), U64 i] FOLIO_PROGRAM_ID)
                    = df_fee_distribution_key r) InvalidFeeDistribution (
                and_then (distribute_fees sdk (r\<lparr>df_user := up_folio_owner a, df_folio_key := up_folio_key a,
                    df_folio := us_folio s, df_fee_recipients_key := up_fee_recipients_key a,
                    df_fee_recipients := us_fee_recipients s\<rparr>) current_time i)
                  (\<lambda>(f, recipients, distribution, cpis).
                Ok (s\<lparr>us_folio := f, us_fee_recipients := recipients, us_fee_distribution := distribution,
                      us_cpis := cpis\<rparr>)))))"

definition distribute_once ::
  "sdk \<Rightarrow> update_accounts \<Rightarrow> distribute_fees_accounts option \<Rightarrow> nat option \<Rightarrow> int \<Rightarrow> update_state
   \<Rightarrow> update_state result" where
  "distribute_once sdk a extras index current_time s =
     (if us_should_distribute s then
        and_then (update_distribute_fees sdk a extras index current_time s) (\<lambda>s'.
        Ok (s'\<lparr>us_should_distribute := False\<rparr>))
      else Ok s)"

definition update_tvl_fee ::
  "sdk \<Rightarrow> update_accounts \<Rightarrow> distribute_fees_accounts option \<Rightarrow> nat option \<Rightarrow> int \<Rightarrow> nat option
   \<Rightarrow> update_state \<Rightarrow> update_state result" where
  "update_tvl_fee sdk a extras index current_time scaled_tvl_fee s =
     (case scaled_tvl_fee of
        None \<Rightarrow> Ok s
      | Some fee \<Rightarrow>
          check_condition (fee \<le> MAX_TVL_FEE) TVLFeeTooHigh (
          and_then (distribute_once sdk a extras index current_time s) (\<lambda>s1.
          and_then (set_tvl_fee (us_folio s1) fee) (\<lambda>f.
          Ok (s1\<lparr>us_folio := f\<rparr>)))))"

definition update_mint_fee ::
  "sdk \<Rightarrow> update_accounts \<Rightarrow> distribute_fees_accounts option \<Rightarrow> nat option \<Rightarrow> int \<Rightarrow> nat option
   \<Rightarrow> update_state \<Rightarrow> update_state result" where
  "update_mint_fee sdk a extras index current_time scaled_mint_fee s =
     (case scaled_mint_fee of
        None \<Rightarrow> Ok s
      | Some fee \<Rightarrow>
          check_condition (fee \<le> MAX_MINT_FEE) InvalidMintFee (
          and_then (distribute_once sdk a extras index current_time s) (\<lambda>s1.
          Ok (s1\<lparr>us_folio := (us_folio s1)\<lparr>mint_fee := fee\<rparr>\<rparr>))))"

definition update_recipients ::
  "sdk \<Rightarrow> update_accounts \<Rightarrow> distribute_fees_accounts option \<Rightarrow> nat option \<Rightarrow> int
   \<Rightarrow> fee_recipient list \<Rightarrow> pubkey list \<Rightarrow> update_state \<Rightarrow> update_state result" where
  "update_recipients sdk a extras index current_time to_add to_remove s =
     (if to_add \<noteq> [] \<or> to_remove \<noteq> [] then
        and_then
          (if us_should_distribute s then update_distribute_fees sdk a extras index current_time s
           else Ok s) (\<lambda>s1.
        and_then (update_fee_recipients (us_fee_recipients s1) to_add to_remove) (\<lambda>recipients.
        Ok (s1\<lparr>us_fee_recipients := recipients\<rparr>)))
      else Ok s)"

definition update_auction_length :: "nat option \<Rightarrow> update_state \<Rightarrow> update_state result" where
  "update_auction_length auction_length s =
     (case auction_length of
        None \<Rightarrow> Ok s
      | Some len \<Rightarrow>
          check_condition (MIN_AUCTION_LENGTH \<le> len \<and> len \<le> MAX_AUCTION_LENGTH) InvalidAuctionLength (
          Ok (s\<lparr>us_folio := (us_folio s)\<lparr>folio_auction_length := len\<rparr>\<rparr>)))"

definition update_mandate :: "nat list option \<Rightarrow> update_state \<Rightarrow> update_state result" where
  "update_mandate new_mandate s =
     (case new_mandate of
        None \<Rightarrow> Ok s
      | Some bytes \<Rightarrow>
          check_condition (length bytes \<le> MAX_PADDED_STRING_LENGTH) InvalidMandateLength (
          Ok (s\<lparr>us_folio := (us_folio s)\<lparr>mandate := fixed_size_string_new bytes\<rparr>\<rparr>)))"

definition update_folio ::
  "sdk \<Rightarrow> update_accounts \<Rightarrow> distribute_fees_accounts option \<Rightarrow> int \<Rightarrow> nat option \<Rightarrow> nat option
   \<Rightarrow> nat option \<Rightarrow> nat option \<Rightarrow> fee_recipient list \<Rightarrow> pubkey list \<Rightarrow> nat list option
   \<Rightarrow> update_state result" where
  "update_folio sdk a extras current_time scaled_tvl_fee index scaled_mint_fee auction_length to_add
       to_remove new_mandate =
     and_then (validate_folio (find_program_address sdk) (up_folio a) (up_folio_key a) (Some (up_actor a))
         (Some [Owner]) None) (\<lambda>_.
     and_then (fee_recipients_process_init_if_needed (up_fee_recipients a) (up_fee_recipients_bump a)
         (up_folio_key a)) (\<lambda>(recipients, is_new).
     and_then (update_tvl_fee sdk a extras index current_time scaled_tvl_fee
         \<lparr>us_folio = up_folio a, us_fee_recipients = recipients, us_fee_distribution = None, us_cpis = [],
          us_should_distribute = \<not> is_new\<rparr>) (\<lambda>s1.
     and_then (update_mint_fee sdk a extras index current_time scaled_mint_fee s1) (\<lambda>s2.
     and_then (update_recipients sdk a extras index current_time to_add to_remove s2) (\<lambda>s3.
     and_then (update_auction_length auction_length s3) (\<lambda>s4.
     update_mandate new_mandate s4))))))"

end
