(* ===== verification/Migration.thy ===== *)
theory Migration
  imports OwnerInstructions
begin

text \<open>
  Moving a folio to a new version of the program: \<open>start_folio_migration\<close> and
  \<open>migrate_folio_tokens\<close> of the old program, \<open>create_folio_from_old_program\<close> and
  \<open>update_basket_in_new_folio_program\<close> of the new one, which only a build with the feature
  \<open>test\<close> carries out, and the calls between them (\<open>utils/external/folio_program.rs\<close>). The program
  that is called is an argument that acts on the accounts \<open>'w\<close> of the new folio.
\<close>

section \<open>Starting\<close>

datatype authority_type = MintTokens | FreezeAccount

datatype authority_cpi =
    UpdateMetadataAuthority (new_authority: pubkey)
  | SetAuthority (authority_mint: pubkey) (authority_kind: authority_type) (new_authority: pubkey)

record start_migration_accounts =
  sm_program_registrar :: program_registrar
  sm_new_folio_program :: pubkey
  sm_new_folio_key :: pubkey
  sm_actor :: actor
  sm_old_folio_key :: pubkey
  sm_old_folio :: folio
  sm_folio_token_mint_key :: pubkey

definition validate_start_migration ::
  "sdk \<Rightarrow> start_migration_accounts \<Rightarrow> int \<Rightarrow> nat \<Rightarrow> unit result" where
  "validate_start_migration sdk a current_time max_allowed_pending_fees =
     (let f = sm_old_folio a in
     and_then (validate_folio (find_program_address sdk) f (sm_old_folio_key a) (Some (sm_actor a))
         (Some [Owner]) (Some [Initialized, Killed])) (\<lambda>_.
     check_condition (folio_token_mint f = sm_folio_token_mint_key a) InvalidFolioTokenMint (
     and_then (get_account_fee_until current_time) (\<lambda>account_fee_until.
     check_condition (account_fee_until \<le> last_poke f) MigrationFailedFolioNotPoked (
     check_condition (dao_pending_fee_shares f < max_allowed_pending_fees)
       MigrationFailedDaoPendingFeeSharesTooHigh (
     check_condition (fee_recipients_pending_fee_shares f < max_allowed_pending_fees)
       MigrationFailedFeeRecipientsPendingFeeSharesTooHigh (
     check_condition (fee_recipients_pending_fee_shares_to_be_minted f < max_allowed_pending_fees)
       MigrationFailedFeeRecipientsPendingFeeShareToBeMintedTooHigh (
     check_condition (is_in_registrar (sm_program_registrar a) (sm_new_folio_program a)) ProgramNotInRegistrar (
     check_condition (is_in_registrar (sm_program_registrar a) FOLIO_PROGRAM_ID) ProgramNotInRegistrar (
     check_condition (sm_new_folio_program a \<noteq> FOLIO_PROGRAM_ID) CantMigrateToSameProgram (
     Ok ())))))))))))"

definition check_migration_account :: "unit \<Rightarrow> account_info \<Rightarrow> unit result" where
  "check_migration_account _ account =
     check_condition (ai_key account \<noteq> FOLIO_PROGRAM_ID) InvalidCallbackProgram (Ok ())"

text \<open>\<open>NewFolioProgram::create_folio_from_old_program\<close>: the call, on the old folio as it is then.\<close>

definition call_create_folio ::
  "(pubkey \<Rightarrow> folio \<Rightarrow> account_info list \<Rightarrow> 'w \<Rightarrow> 'w result) \<Rightarrow> pubkey \<Rightarrow> folio \<Rightarrow> account_info list
   \<Rightarrow> 'w \<Rightarrow> 'w result" where
  "call_create_folio invoke new_folio_program old_folio remaining_accounts w =
     and_then (fold_result check_migration_account () remaining_accounts) (\<lambda>_.
     invoke new_folio_program old_folio remaining_accounts w)"

definition start_folio_migration ::
  "sdk \<Rightarrow> (pubkey \<Rightarrow> folio \<Rightarrow> account_info list \<Rightarrow> 'w \<Rightarrow> 'w result) \<Rightarrow> start_migration_accounts
   \<Rightarrow> account_info list \<Rightarrow> int \<Rightarrow> nat \<Rightarrow> 'w \<Rightarrow> (folio \<times> authority_cpi list \<times> 'w) result" where
  "start_folio_migration sdk invoke a remaining_accounts current_time max_allowed_pending_fees w =
     and_then (validate_start_migration sdk a current_time max_allowed_pending_fees) (\<lambda>_.
     let f = (sm_old_folio a)\<lparr>folio_status := status_u8 Migrating\<rparr>;
         cpis = [UpdateMetadataAuthority (sm_new_folio_key a),
                 SetAuthority (sm_folio_token_mint_key a) MintTokens (sm_new_folio_key a),
                 SetAuthority (sm_folio_token_mint_key a) FreezeAccount (sm_new_folio_key a)]
     in
     and_then (call_create_folio invoke (sm_new_folio_program a) f remaining_accounts w) (\<lambda>w'.
     Ok (f, cpis, w')))"

section \<open>The new program\<close>

text \<open>The new folio, its basket and its actor, as the transaction creates them.\<close>

record new_folio_accounts =
  nf_folio_key :: pubkey
  nf_folio_bump :: nat
  nf_folio :: folio
  nf_basket_bump :: nat
  nf_basket :: "folio_basket option"

definition validate_create_folio :: "pubkey \<Rightarrow> folio \<Rightarrow> unit result" where
  "validate_create_folio folio_token_mint_key old_folio =
     check_condition (folio_status old_folio = status_u8 Migrating) InvalidFolioStatus (
     check_condition (folio_token_mint_key = folio_token_mint old_folio) InvalidFolioTokenMint (Ok ()))"

definition create_folio_from_old_program ::
  "bool \<Rightarrow> folio \<Rightarrow> pubkey \<Rightarrow> new_folio_accounts \<Rightarrow> new_folio_accounts result" where
  "create_folio_from_old_program feature_test old_folio folio_token_mint_key a =
     (if \<not> feature_test then Ok a
      else
        and_then (validate_create_folio folio_token_mint_key old_folio) (\<lambda>_.
        and_then (set_tvl_fee ((nf_folio a)\<lparr>folio_bump := nf_folio_bump a,
            folio_token_mint := folio_token_mint_key\<rparr>) (tvl_fee old_folio)) (\<lambda>f.
        let f' = f\<lparr>mint_fee := mint_fee old_folio, last_poke := last_poke old_folio,
              folio_auction_length := folio_auction_length old_folio, mandate := mandate old_folio,
              initialized_at := initialized_at old_folio, dao_pending_fee_shares := 0,
              fee_recipients_pending_fee_shares := 0, fee_recipients_pending_fee_shares_to_be_minted := 0,
              folio_status := status_u8 Migrating\<rparr>
        in
        and_then (folio_basket_process_init_if_needed (nf_basket a) (nf_basket_bump a) (nf_folio_key a) [])
          (\<lambda>basket.
        Ok (a\<lparr>nf_folio := f', nf_basket := Some basket\<rparr>)))))"

text \<open>\<open>old_program\<close> is the owner of the old folio's account.\<close>

definition validate_update_basket ::
  "program_registrar \<Rightarrow> pubkey \<Rightarrow> folio \<Rightarrow> folio \<Rightarrow> unit result" where
  "validate_update_basket registrar old_program old_folio new_folio =
     check_condition (folio_status old_folio = status_u8 Migrating) InvalidFolioStatus (
     check_condition (folio_token_mint new_folio = folio_token_mint old_folio) InvalidFolioTokenMint (
     check_condition (is_in_registrar registrar old_program) ProgramNotInRegistrar (Ok ())))"

definition tokens_left :: "folio_basket \<Rightarrow> pubkey \<Rightarrow> nat" where
  "tokens_left basket mint =
     length (filter (\<lambda>ta. fta_mint ta \<noteq> default_pubkey \<and> fta_mint ta \<noteq> mint) (fb_token_amounts basket))"

definition update_basket_in_new_folio_program ::
  "bool \<Rightarrow> program_registrar \<Rightarrow> pubkey \<Rightarrow> folio \<Rightarrow> folio_basket \<Rightarrow> pubkey \<Rightarrow> nat
   \<Rightarrow> folio \<times> folio_basket \<Rightarrow> (folio \<times> folio_basket) result" where
  "update_basket_in_new_folio_program feature_test registrar old_program old_folio old_basket mint
       folio_token_account_amount new =
     (if \<not> feature_test then Ok new
      else
        let (new_folio, new_basket) = new in
        and_then (validate_update_basket registrar old_program old_folio new_folio) (\<lambda>_.
        and_then (get_token_amount_in_folio_basket old_basket mint) (\<lambda>balance.
        and_then (add_tokens_to_basket new_basket [\<lparr>fta_mint = mint, fta_amount = balance\<rparr>]) (\<lambda>basket.
        check_condition (folio_token_account_amount \<ge> balance) InvalidTokenBalance (
        Ok (new_folio\<lparr>folio_status :=
              (if tokens_left old_basket mint > 0 then status_u8 Migrating else status_u8 Initialized)\<rparr>,
            basket))))))"

section \<open>Moving the tokens\<close>

record migrate_accounts =
  mg_token_program :: pubkey
  mg_program_registrar :: program_registrar
  mg_new_folio_program :: pubkey
  mg_old_folio_key :: pubkey
  mg_old_folio :: folio
  mg_new_folio_key :: pubkey
  mg_new_folio_owner :: pubkey
  mg_new_folio_is_folio :: bool
  mg_folio_token_mint_key :: pubkey

text \<open>\<open>mg_new_folio_is_folio\<close>: the data of the new folio starts with the discriminator of a folio.\<close>

definition validate_migrate :: "sdk \<Rightarrow> migrate_accounts \<Rightarrow> unit result" where
  "validate_migrate sdk a =
     and_then (validate_folio (find_program_address sdk) (mg_old_folio a) (mg_old_folio_key a) None None
         (Some [Migrating])) (\<lambda>_.
     check_condition (folio_token_mint (mg_old_folio a) = mg_folio_token_mint_key a) InvalidFolioTokenMint (
     check_condition (is_in_registrar (mg_program_registrar a) (mg_new_folio_program a)) ProgramNotInRegistrar (
     check_condition (mg_new_folio_owner a = mg_new_folio_program a) NewFolioNotOwnedByNewFolioProgram (
     check_condition (mg_new_folio_program a \<noteq> FOLIO_PROGRAM_ID) CantMigrateToSameProgram (
     check_condition (mg_new_folio_is_folio a) InvalidNewFolio (Ok ()))))))"

record 'w migrate_loop =
  ml_iter :: "account_info list"
  ml_basket :: folio_basket
  ml_cpis :: "cpi list"
  ml_world :: 'w

text \<open>
  One token: the transfer, then the call \<open>update_basket\<close> to the new program (on the old basket, the
  mint and the transfers sent), then the removal from the old basket.
\<close>

definition migrate_round ::
  "sdk \<Rightarrow> (folio_basket \<Rightarrow> pubkey \<Rightarrow> cpi list \<Rightarrow> 'w \<Rightarrow> 'w result) \<Rightarrow> migrate_accounts \<Rightarrow> 'w migrate_loop
   \<Rightarrow> 'w migrate_loop result" where
  "migrate_round sdk update_basket a st =
     (let tp = mg_token_program a in
     and_then (next_account (ml_iter st) False False tp) (\<lambda>(token_mint, i1).
     and_then (next_account i1 False True tp) (\<lambda>(sender, i2).
     and_then (next_account i2 False True tp) (\<lambda>(recipient, i3).
     check_condition (ai_key sender = associated_token_address sdk (mg_old_folio_key a) (ai_key token_mint) tp)
       InvalidSenderTokenAccount (
     check_condition (ai_key recipient
         = associated_token_address sdk (mg_new_folio_key a) (ai_key token_mint) tp)
       InvalidRecipientTokenAccount (
     and_then (get_token_amount_in_folio_basket (ml_basket st) (ai_key token_mint)) (\<lambda>balance.
     and_then (ok_or (ai_mint token_mint) ProgramInvalidAccountData) (\<lambda>_.
     let cpis = ml_cpis st @ [TransferChecked (ai_key sender) (ai_key recipient) (mg_old_folio_key a)
           (ai_key token_mint) balance]
     in
     and_then (update_basket (ml_basket st) (ai_key token_mint) cpis (ml_world st)) (\<lambda>w'.
     and_then (remove_token_mint_from_basket (ml_basket st) (ai_key token_mint)) (\<lambda>basket.
     Ok \<lparr>ml_iter = i3, ml_basket = basket, ml_cpis = cpis, ml_world = w'\<rparr>))))))))))"

fun migrate_rounds ::
  "nat \<Rightarrow> sdk \<Rightarrow> (folio_basket \<Rightarrow> pubkey \<Rightarrow> cpi list \<Rightarrow> 'w \<Rightarrow> 'w result) \<Rightarrow> migrate_accounts
   \<Rightarrow> 'w migrate_loop \<Rightarrow> 'w migrate_loop result" where
  "migrate_rounds 0 sdk update_basket a st = Ok st"
| "migrate_rounds (Suc n) sdk update_basket a st =
     and_then (migrate_round sdk update_basket a st) (migrate_rounds n sdk update_basket a)"

definition migrate_folio_tokens ::
  "sdk \<Rightarrow> (folio_basket \<Rightarrow> pubkey \<Rightarrow> cpi list \<Rightarrow> 'w \<Rightarrow> 'w result) \<Rightarrow> migrate_accounts
   \<Rightarrow> account_info list \<Rightarrow> folio_basket \<Rightarrow> 'w \<Rightarrow> (folio_basket \<times> cpi list \<times> 'w) result" where
  "migrate_folio_tokens sdk update_basket a remaining_accounts old_basket w =
     and_then (validate_migrate sdk a) (\<lambda>_.
     check_condition (length remaining_accounts mod 3 = 0) InvalidNumberOfRemainingAccounts (
     and_then (migrate_rounds (length remaining_accounts div 3) sdk update_basket a
         \<lparr>ml_iter = remaining_accounts, ml_basket = old_basket, ml_cpis = [], ml_world = w\<rparr>) (\<lambda>st.
     Ok (ml_basket st, ml_cpis st, ml_world st))))"

section \<open>Both programs together\<close>

text \<open>
  The call \<open>update_basket\<close> as the new program carries it out, on the new folio and its basket;
  \<open>amount_of\<close> is the amount in the token account of the new folio after the transfers sent so far, and
  \<open>feature_test\<close> whether the new program was built with the feature \<open>test\<close>.
\<close>

definition new_program ::
  "bool \<Rightarrow> program_registrar \<Rightarrow> pubkey \<Rightarrow> folio \<Rightarrow> (cpi list \<Rightarrow> pubkey \<Rightarrow> nat) \<Rightarrow> folio_basket \<Rightarrow> pubkey \<Rightarrow> cpi list
   \<Rightarrow> folio \<times> folio_basket \<Rightarrow> (folio \<times> folio_basket) result" where
  "new_program feature_test registrar old_program old_folio amount_of old_basket mint cpis new =
     update_basket_in_new_folio_program feature_test registrar old_program old_folio old_basket mint
       (amount_of cpis mint) new"

definition real_mint_accounts :: "account_info list \<Rightarrow> bool" where
  "real_mint_accounts accounts \<longleftrightarrow> list_all (\<lambda>a. ai_mint a \<noteq> None \<longrightarrow> ai_key a \<noteq> default_pubkey) accounts"

lemma tokens_left_iff: "tokens_left fb m > 0 \<longleftrightarrow> dom (basket_map fb) - {m} \<noteq> {}"
proof -
  have "tokens_left fb m > 0 \<longleftrightarrow>
      (\<exists>ta \<in> set (fb_token_amounts fb). fta_mint ta \<noteq> default_pubkey \<and> fta_mint ta \<noteq> m)"
    by (auto simp: tokens_left_def filter_empty_conv)
  then show ?thesis by (auto simp: dom_basket_map used_keys_set)
qed

lemma update_basket_Ok:
  assumes "update_basket_in_new_folio_program True registrar old_program old_folio old m amount (nf, nb)
      = Ok (nf', nb')"
    and "basket_wf nb" "m \<noteq> default_pubkey"
  shows "basket_wf nb' \<and> basket_amount nb' = (basket_amount nb)(m := basket_amount nb m + basket_amount old m)
    \<and> folio_status nf' = (if dom (basket_map old) - {m} = {} then status_u8 Initialized else status_u8 Migrating)"
proof -
  from assms(1) obtain x where x: "get_token_amount_in_folio_basket old m = Ok x"
    and nb': "add_tokens_to_basket nb [\<lparr>fta_mint = m, fta_amount = x\<rparr>] = Ok nb'"
    and nf': "nf' = nf\<lparr>folio_status := (if tokens_left old m > 0 then status_u8 Migrating else status_u8 Initialized)\<rparr>"
    by (auto simp: update_basket_in_new_folio_program_def)
  have "basket_credit nb (m, x) = Ok nb'" using nb' by (simp add: add_tokens_to_basket_def basket_credit_def)
  from basket_credit_effect [OF assms(2,3) this] basket_amount_iff [OF assms(3) x]
  show ?thesis using tokens_left_iff [of old m] by (simp add: nf')
qed

text \<open>
  What one round moves from the old basket to the new one. Without the feature \<open>test\<close> the new program
  returns at once, and the new folio and basket stay.
\<close>

definition booked :: "bool \<Rightarrow> nat \<Rightarrow> nat" where
  "booked feature_test x = (if feature_test then x else 0)"

lemma new_program_Ok:
  assumes "new_program feature_test registrar old_program old_folio amount_of old m cpis (nf, nb) = Ok (nf', nb')"
    and "basket_wf nb" "m \<noteq> default_pubkey"
  shows "basket_wf nb'
    \<and> basket_amount nb' = (basket_amount nb)(m := basket_amount nb m + booked feature_test (basket_amount old m))
    \<and> (if feature_test
       then folio_status nf' = (if dom (basket_map old) - {m} = {} then status_u8 Initialized else status_u8 Migrating)
       else nf' = nf \<and> nb' = nb)"
proof (cases feature_test)
  case True
  then have "update_basket_in_new_folio_program True registrar old_program old_folio old m (amount_of cpis m) (nf, nb)
      = Ok (nf', nb')"
    using assms(1) by (simp add: new_program_def)
  from update_basket_Ok [OF this assms(2,3)] True show ?thesis by (simp add: booked_def)
next
  case False
  then show ?thesis
    using assms(1,2) by (simp add: new_program_def update_basket_in_new_folio_program_def booked_def)
qed

lemma migrate_round_moves:
  assumes "migrate_round sdk (new_program feature_test registrar old_program old_folio amount_of) a st = Ok st'"
    and "real_mint_accounts (ml_iter st)" "basket_wf (ml_basket st)" "basket_wf (snd (ml_world st))"
  shows "\<exists>m s r. m \<noteq> default_pubkey \<and> real_mint_accounts (ml_iter st')
    \<and> basket_wf (ml_basket st') \<and> basket_wf (snd (ml_world st'))
    \<and> m \<in> dom (basket_map (ml_basket st))
    \<and> dom (basket_map (ml_basket st')) = dom (basket_map (ml_basket st)) - {m}
    \<and> basket_amount (ml_basket st') = (basket_amount (ml_basket st))(m := 0)
    \<and> basket_amount (snd (ml_world st')) = (basket_amount (snd (ml_world st)))
        (m := basket_amount (snd (ml_world st)) m + booked feature_test (basket_amount (ml_basket st) m))
    \<and> ml_cpis st' = ml_cpis st @ [TransferChecked s r (mg_old_folio_key a) m (basket_amount (ml_basket st) m)]
    \<and> (if feature_test then folio_status (fst (ml_world st')) =
          (if dom (basket_map (ml_basket st')) = {} then status_u8 Initialized else status_u8 Migrating)
       else ml_world st' = ml_world st)"
proof -
  from assms(1) obtain token_mint sender recipient rest balance where
    it: "ml_iter st = token_mint # sender # recipient # rest" and tm: "ai_mint token_mint \<noteq> None"
    and bal: "get_token_amount_in_folio_basket (ml_basket st) (ai_key token_mint) = Ok balance"
    and st': "ml_iter st' = rest" "ml_cpis st' = ml_cpis st
        @ [TransferChecked (ai_key sender) (ai_key recipient) (mg_old_folio_key a) (ai_key token_mint) balance]"
    and up: "new_program feature_test registrar old_program old_folio amount_of (ml_basket st) (ai_key token_mint) (ml_cpis st')
        (ml_world st) = Ok (ml_world st')"
    and rm: "remove_token_mint_from_basket (ml_basket st) (ai_key token_mint) = Ok (ml_basket st')"
    by (auto simp: migrate_round_def Let_def next_account_Ok)
  have m: "ai_key token_mint \<noteq> default_pubkey" and rest: "real_mint_accounts rest"
    using assms(2) it tm by (auto simp: real_mint_accounts_def)
  have "ai_key token_mint \<in> dom (basket_map (ml_basket st))"
    using bal m by (auto simp: get_token_amount_in_folio_basket_def basket_map_def find_fta_slot_of split: option.splits)
  moreover note remove_token_mint_amount [OF rm assms(3) m] basket_amount_iff [OF m bal]
  moreover obtain nf nb where w: "ml_world st = (nf, nb)" by (cases "ml_world st")
  moreover obtain nf' nb' where w': "ml_world st' = (nf', nb')" by (cases "ml_world st'")
  moreover have "basket_wf nb" using assms(4) w by simp
  note new_program_Ok [OF up [unfolded w w'] this m]
  ultimately show ?thesis unfolding st' using m rest by (intro exI [of _ "ai_key token_mint"] exI conjI) auto
qed

text \<open>What becomes of one mint: it leaves the old basket with all there is of it, or it stays.\<close>

definition mint_moved ::
  "bool \<Rightarrow> pubkey \<Rightarrow> cpi list \<Rightarrow> folio_basket \<Rightarrow> folio_basket \<Rightarrow> folio_basket \<Rightarrow> folio_basket \<Rightarrow> pubkey \<Rightarrow> bool" where
  "mint_moved feature_test k cpis old nb old' nb' m \<longleftrightarrow>
     (if m \<in> dom (basket_map old) - dom (basket_map old')
      then basket_amount old' m = 0 \<and> basket_amount nb' m = basket_amount nb m + booked feature_test (basket_amount old m)
        \<and> (\<exists>s r. TransferChecked s r k m (basket_amount old m) \<in> set cpis)
      else basket_amount old' m = basket_amount old m \<and> basket_amount nb' m = basket_amount nb m)"

lemma mint_moved_first:
  assumes "mint_moved feature_test k cpis old1 nb1 old' nb' m'" "dom (basket_map old') \<subseteq> dom (basket_map old1)"
    and "m \<in> dom (basket_map old)" "dom (basket_map old1) = dom (basket_map old) - {m}"
    and "basket_amount old1 = (basket_amount old)(m := 0)"
    and "basket_amount nb1 = (basket_amount nb)(m := basket_amount nb m + booked feature_test (basket_amount old m))"
    and "TransferChecked s r k m (basket_amount old m) \<in> set cpis"
  shows "mint_moved feature_test k cpis old nb old' nb' m'"
proof (cases "m' = m")
  case True
  then have out: "m' \<notin> dom (basket_map old1)" "m' \<notin> dom (basket_map old')" using assms(2,4) by auto
  then have "basket_amount old' m' = 0" "basket_amount nb' m' = basket_amount nb1 m'"
    using assms(1,5) True by (simp_all add: mint_moved_def)
  then show ?thesis using True out assms(3,6,7) by (auto simp: mint_moved_def)
next
  case False
  then have "m' \<in> dom (basket_map old) - dom (basket_map old') \<longleftrightarrow> m' \<in> dom (basket_map old1) - dom (basket_map old')"
    "basket_amount old1 m' = basket_amount old m'" "basket_amount nb1 m' = basket_amount nb m'"
    using assms(4-6) by auto
  then show ?thesis using assms(1) unfolding mint_moved_def by presburger
qed

lemma migrate_rounds_move:
  assumes "migrate_rounds n sdk (new_program feature_test registrar old_program old_folio amount_of) a st = Ok st'"
    and "real_mint_accounts (ml_iter st)" "basket_wf (ml_basket st)" "basket_wf (snd (ml_world st))"
  shows "basket_wf (ml_basket st') \<and> basket_wf (snd (ml_world st'))
    \<and> dom (basket_map (ml_basket st')) \<subseteq> dom (basket_map (ml_basket st)) \<and> set (ml_cpis st) \<subseteq> set (ml_cpis st')
    \<and> (\<forall>m. mint_moved feature_test (mg_old_folio_key a) (ml_cpis st') (ml_basket st) (snd (ml_world st))
         (ml_basket st') (snd (ml_world st')) m)
    \<and> (if feature_test then 0 < n \<longrightarrow> folio_status (fst (ml_world st')) =
          (if dom (basket_map (ml_basket st')) = {} then status_u8 Initialized else status_u8 Migrating)
       else ml_world st' = ml_world st)"
  using assms
proof (induction n arbitrary: st)
  case 0
  then show ?case by (simp add: mint_moved_def)
next
  case (Suc n)
  from Suc.prems(1) obtain t where
    t: "migrate_round sdk (new_program feature_test registrar old_program old_folio amount_of) a st = Ok t"
      "migrate_rounds n sdk (new_program feature_test registrar old_program old_folio amount_of) a t = Ok st'" by auto
  from migrate_round_moves [OF t(1) Suc.prems(2-4)] obtain m s' r' where
    r: "m \<noteq> default_pubkey" "real_mint_accounts (ml_iter t)" "basket_wf (ml_basket t)" "basket_wf (snd (ml_world t))"
      "m \<in> dom (basket_map (ml_basket st))"
      "dom (basket_map (ml_basket t)) = dom (basket_map (ml_basket st)) - {m}"
      "basket_amount (ml_basket t) = (basket_amount (ml_basket st))(m := 0)"
      "basket_amount (snd (ml_world t)) = (basket_amount (snd (ml_world st)))
        (m := basket_amount (snd (ml_world st)) m + booked feature_test (basket_amount (ml_basket st) m))"
      "ml_cpis t = ml_cpis st @ [TransferChecked s' r' (mg_old_folio_key a) m (basket_amount (ml_basket st) m)]"
    and status: "if feature_test then folio_status (fst (ml_world t)) =
          (if dom (basket_map (ml_basket t)) = {} then status_u8 Initialized else status_u8 Migrating)
       else ml_world t = ml_world st"
    by blast
  have IH: "basket_wf (ml_basket st')" "basket_wf (snd (ml_world st'))"
      "dom (basket_map (ml_basket st')) \<subseteq> dom (basket_map (ml_basket t))" "set (ml_cpis t) \<subseteq> set (ml_cpis st')"
      "\<And>m. mint_moved feature_test (mg_old_folio_key a) (ml_cpis st') (ml_basket t) (snd (ml_world t))
         (ml_basket st') (snd (ml_world st')) m"
    and later: "if feature_test then 0 < n \<longrightarrow> folio_status (fst (ml_world st')) =
          (if dom (basket_map (ml_basket st')) = {} then status_u8 Initialized else status_u8 Migrating)
       else ml_world st' = ml_world t"
    using Suc.IH [OF t(2) r(2-4)] by blast+
  have "TransferChecked s' r' (mg_old_folio_key a) m (basket_amount (ml_basket st) m) \<in> set (ml_cpis st')"
    using IH(4) r(9) by auto
  note moved = mint_moved_first [OF IH(5,3) r(5-8) this]
  have "if feature_test then 0 < Suc n \<longrightarrow> folio_status (fst (ml_world st')) =
          (if dom (basket_map (ml_basket st')) = {} then status_u8 Initialized else status_u8 Migrating)
       else ml_world st' = ml_world st"
  proof (cases n)
    case 0
    then have "st' = t" using t(2) by simp
    then show ?thesis using status by simp
  next
    case (Suc k)
    then have "0 < n" by simp
    then show ?thesis using status later by (cases feature_test) (simp_all only: if_True if_False simp_thms)
  qed
  moreover have "dom (basket_map (ml_basket st')) \<subseteq> dom (basket_map (ml_basket st))" using IH(3) r(6) by blast
  moreover have "set (ml_cpis st) \<subseteq> set (ml_cpis st')" using IH(4) r(9) by simp
  ultimately show ?case using IH(1,2) moved by blast
qed

section \<open>A concrete migration\<close>

definition token_mint_info :: account_info where
  "token_mint_info = \<lparr>ai_key = PK 12, ai_is_signer = False, ai_is_writable = False, ai_data_is_empty = False,
     ai_owner = PK 1, ai_executable = False,
     ai_mint = Some \<lparr>md_decimals = 6, md_supply = 1000, md_extension_types = [],
       md_default_account_state = None, md_transfer_hook = None\<rparr>, ai_token = None\<rparr>"

definition sample_token_info :: "pubkey \<Rightarrow> pubkey \<Rightarrow> account_info" where
  "sample_token_info key owner = \<lparr>ai_key = key, ai_is_signer = False, ai_is_writable = True,
     ai_data_is_empty = False, ai_owner = PK 1, ai_executable = False, ai_mint = None,
     ai_token = Some \<lparr>td_mint = PK 12, td_owner = owner, td_amount = 100, td_extension_types = []\<rparr>\<rparr>"

definition sample_program_info :: account_info where
  "sample_program_info = \<lparr>ai_key = PK 1, ai_is_signer = False, ai_is_writable = False, ai_data_is_empty = False,
     ai_owner = PK 3, ai_executable = True, ai_mint = None, ai_token = None\<rparr>"

definition filled_basket :: folio_basket where
  "filled_basket = \<lparr>fb_bump = 254, fb_folio = PK 1002,
     fb_token_amounts = \<lparr>fta_mint = PK 12, fta_amount = 70\<rparr> # replicate 99 default_folio_token_amount\<rparr>"

lemma replicate_first:
  "replicate MAX_FOLIO_TOKEN_AMOUNTS x = x # replicate 99 x"
  "replicate MAX_USER_PENDING_BASKET_TOKEN_AMOUNTS y = y # replicate 109 y"
  by (simp_all add: const_defs numeral_eq_Suc)

lemma no_slot [simp]:
  "m \<noteq> default_pubkey \<Longrightarrow> find (\<lambda>ta. fta_mint ta = m) (replicate n default_folio_token_amount) = None"
  "m \<noteq> default_pubkey \<Longrightarrow> find (\<lambda>ta. ta_mint ta = m) (replicate n default_token_amount) = None"
  "fta_mint default_folio_token_amount = default_pubkey" "ta_mint default_token_amount = default_pubkey"
  by (auto simp: find_None_iff default_folio_token_amount_def default_token_amount_def)

lemmas sample_infos = token_mint_info_def sample_token_info_def sample_program_info_def

lemma sample_keys [simp]: "PK 12 \<noteq> default_pubkey" "default_pubkey \<noteq> PK 12"
  by (simp_all add: default_pubkey_def)

lemma filled_basket_wf: "basket_wf filled_basket"
  by (simp add: basket_wf_def filled_basket_def slots_wf_def used_keys_def default_folio_token_amount_def const_defs)

definition sample_migrate :: migrate_accounts where
  "sample_migrate = \<lparr>mg_token_program = PK 1,
     mg_program_registrar = \<lparr>pr_bump = 1, accepted_programs = [FOLIO_PROGRAM_ID, PK 90]\<rparr>,
     mg_new_folio_program = PK 90, mg_old_folio_key = PK 1002,
     mg_old_folio = sample_folio\<lparr>folio_status := status_u8 Migrating\<rparr>, mg_new_folio_key = PK 91,
     mg_new_folio_owner = PK 90, mg_new_folio_is_folio = True, mg_folio_token_mint_key = PK 7\<rparr>"

definition empty_basket :: folio_basket where
  "empty_basket = \<lparr>fb_bump = 254, fb_folio = PK 91,
     fb_token_amounts = replicate MAX_FOLIO_TOKEN_AMOUNTS default_folio_token_amount\<rparr>"

definition migrated_folio :: folio where
  "migrated_folio = sample_folio\<lparr>folio_status := status_u8 Initialized\<rparr>"

lemma sample_update_basket:
  "update_basket_in_new_folio_program True (mg_program_registrar sample_migrate) FOLIO_PROGRAM_ID
     (mg_old_folio sample_migrate) filled_basket (PK 12) 70
     (sample_folio\<lparr>folio_status := status_u8 Migrating\<rparr>, empty_basket)
   = Ok (migrated_folio, filled_basket\<lparr>fb_folio := PK 91\<rparr>)"
  by (simp add: update_basket_in_new_folio_program_def validate_update_basket_def sample_migrate_def
      is_in_registrar_def sample_folio_def get_token_amount_in_folio_basket_def find_fta_def filled_basket_def
      tokens_left_def add_tokens_to_basket_def add_token_to_basket_def empty_basket_def update_fta_def
      replicate_first migrated_folio_def)

lemma sample_migrate_run:
  "migrate_folio_tokens sample_sdk (new_program True (mg_program_registrar sample_migrate) FOLIO_PROGRAM_ID
       (mg_old_folio sample_migrate) (\<lambda>_ _. 70)) sample_migrate
       [token_mint_info, sample_token_info (PK 1502) (PK 1002), sample_token_info (PK 591) (PK 91)] filled_basket
       (sample_folio\<lparr>folio_status := status_u8 Migrating\<rparr>, empty_basket)
   = Ok (empty_basket\<lparr>fb_folio := PK 1002\<rparr>, [TransferChecked (PK 1502) (PK 591) (PK 1002) (PK 12) 70],
       (migrated_folio, filled_basket\<lparr>fb_folio := PK 91\<rparr>))"
proof -
  have v: "validate_migrate sample_sdk sample_migrate = Ok ()"
    by (simp add: validate_migrate_def sample_migrate_def validate_folio_def sample_folio_def sample_sdk_def
        status_from_def is_in_registrar_def FOLIO_PROGRAM_ID_def)
  have b: "get_token_amount_in_folio_basket filled_basket (PK 12) = Ok 70"
    "remove_token_mint_from_basket filled_basket (PK 12) = Ok (empty_basket\<lparr>fb_folio := PK 1002\<rparr>)"
    by (simp_all add: get_token_amount_in_folio_basket_def remove_token_mint_from_basket_def find_fta_def
        update_fta_def filled_basket_def empty_basket_def replicate_first default_folio_token_amount_def)
  have k: "mg_token_program sample_migrate = PK 1" "mg_old_folio_key sample_migrate = PK 1002"
    "mg_new_folio_key sample_migrate = PK 91" by (simp_all add: sample_migrate_def)
  have ata: "associated_token_address sample_sdk = (\<lambda>owner mint program. PK (500 + pk_bytes owner))"
    by (simp add: sample_sdk_def)
  show ?thesis
    by (simp add: migrate_folio_tokens_def v migrate_round_def Let_def next_account_def sample_infos k [simplified]
        ata b new_program_def sample_update_basket [simplified])
qed

section \<open>Properties\<close>

text \<open>
  C16: A migration moves tokens, it neither loses nor makes any: when \<open>migrate_folio_tokens\<close> of the old
  program runs with a new program behind it that was built with the feature \<open>test\<close>, the amounts of the
  two baskets together stay what they were for every mint, and the new folio is open for business
  exactly when nothing is left in the old basket. In other builds the handler of the new program is
  only an example and returns at once: the old basket gives its tokens away all the same, and the
  new folio and basket stay as they were. In both builds a mint is moved as a whole or not at all, what
  leaves the old basket is sent with a transfer of the whole amount, and both baskets stay well formed.
\<close>
theorem migration_moves_basket:
  assumes "migrate_folio_tokens sdk (new_program feature_test registrar FOLIO_PROGRAM_ID (mg_old_folio a) amount_of) a
      accounts old (nf, nb) = Ok (old', cpis, (nf', nb'))"
    and "basket_wf old" "basket_wf nb" "real_mint_accounts accounts"
  shows "folio_status (mg_old_folio a) = status_u8 Migrating \<and> basket_wf old' \<and> basket_wf nb'
    \<and> (basket_amount old' m = basket_amount old m
       \<or> basket_amount old' m = 0
         \<and> (\<exists>s r. TransferChecked s r (mg_old_folio_key a) m (basket_amount old m) \<in> set cpis))
    \<and> (if feature_test
       then basket_amount old' m + basket_amount nb' m = basket_amount old m + basket_amount nb m
         \<and> (accounts \<noteq> [] \<longrightarrow> folio_status nf' =
             (if dom (basket_map old') = {} then status_u8 Initialized else status_u8 Migrating))
       else nf' = nf \<and> nb' = nb)"
proof -
  let ?st = "\<lparr>ml_iter = accounts, ml_basket = old, ml_cpis = [], ml_world = (nf, nb)\<rparr>"
  from assms(1) obtain st' where v: "validate_migrate sdk a = Ok ()" and d: "length accounts mod 3 = 0"
    and run: "migrate_rounds (length accounts div 3) sdk
        (new_program feature_test registrar FOLIO_PROGRAM_ID (mg_old_folio a) amount_of) a ?st = Ok st'"
    and st': "ml_basket st' = old'" "ml_cpis st' = cpis" "ml_world st' = (nf', nb')"
    by (auto simp: migrate_folio_tokens_def)
  have "folio_status (mg_old_folio a) = status_u8 Migrating"
    using v validate_folio_Ok [of "find_program_address sdk" "mg_old_folio a" "mg_old_folio_key a" None None
        "Some [Migrating]"] by (auto simp: validate_migrate_def)
  moreover have "0 < length accounts div 3" if "accounts \<noteq> []"
    using that d by (cases "length accounts < 3") (auto simp: div_greater_zero_iff)
  moreover have mv: "basket_wf old' \<and> basket_wf nb'"
    "mint_moved feature_test (mg_old_folio_key a) cpis old nb old' nb' m"
    "if feature_test then 0 < length accounts div 3 \<longrightarrow> folio_status nf' =
        (if dom (basket_map old') = {} then status_u8 Initialized else status_u8 Migrating)
       else (nf', nb') = (nf, nb)"
    using migrate_rounds_move [OF run] assms(2-4) st' by (simp_all cong: if_cong)
  moreover have "(basket_amount old' m = basket_amount old m
       \<or> basket_amount old' m = 0
         \<and> (\<exists>s r. TransferChecked s r (mg_old_folio_key a) m (basket_amount old m) \<in> set cpis))
    \<and> (feature_test \<longrightarrow> basket_amount old' m + basket_amount nb' m = basket_amount old m + basket_amount nb m)"
    using mv(2) unfolding mint_moved_def
    by (cases "m \<in> dom (basket_map old) - dom (basket_map old')") (simp_all only: if_True if_False booked_def, auto)
  ultimately show ?thesis by (cases feature_test) simp_all
qed

theorem migration_moves_basket_witness:
  "basket_amount (empty_basket\<lparr>fb_folio := PK 1002\<rparr>) (PK 12) + basket_amount (filled_basket\<lparr>fb_folio := PK 91\<rparr>) (PK 12)
     = basket_amount filled_basket (PK 12) + basket_amount empty_basket (PK 12)"
  using migration_moves_basket [OF sample_migrate_run filled_basket_wf, of "PK 12"]
  by (simp add: empty_basket_def basket_wf_empty real_mint_accounts_def sample_infos)

end
