(* ===== verification/Custody.thy ===== *)
theory Custody
  imports Bidding UserInstructions Migration Transitions
begin

text \<open>
  Custody: the tokens that a folio holds for its holders (the basket) and for its users (the pending
  baskets) are in its token account. The token programs are not part of the repository: what is used
  of them is \<open>settles\<close>, that a token account pays only under the authority of its owner, that a
  transfer is between accounts of its mint, and that it moves exactly its amount; anybody may pay
  into an account at any time.
\<close>

section \<open>The token account of a folio\<close>

fun into_account :: "pubkey \<Rightarrow> cpi \<Rightarrow> nat" where
  "into_account v (TransferChecked _ t _ _ n) = (if t = v then n else 0)"
| "into_account v (MintTo _ t _ n) = (if t = v then n else 0)"
| "into_account v _ = 0"

fun out_of_account :: "pubkey \<Rightarrow> cpi \<Rightarrow> nat" where
  "out_of_account v (TransferChecked s _ _ _ n) = (if s = v then n else 0)"
| "out_of_account v (Burn _ s _ n) = (if s = v then n else 0)"
| "out_of_account v _ = 0"

definition paid_in :: "pubkey \<Rightarrow> cpi list \<Rightarrow> nat" where
  "paid_in v cpis = sum_list (map (into_account v) cpis)"

definition paid_out :: "pubkey \<Rightarrow> cpi list \<Rightarrow> nat" where
  "paid_out v cpis = sum_list (map (out_of_account v) cpis)"

text \<open>The instructions that can succeed for the account \<open>v\<close> of the mint \<open>m\<close>, owned by \<open>k\<close>.\<close>

fun executable_on :: "pubkey \<Rightarrow> pubkey \<Rightarrow> pubkey \<Rightarrow> cpi \<Rightarrow> bool" where
  "executable_on v m k (TransferChecked s t auth mint n) \<longleftrightarrow>
     (s = v \<longrightarrow> auth = k \<and> mint = m) \<and> (t = v \<longrightarrow> mint = m)"
| "executable_on v m k (MintTo mint t auth n) \<longleftrightarrow> (t = v \<longrightarrow> mint = m)"
| "executable_on v m k (Burn mint s auth n) \<longleftrightarrow> (s = v \<longrightarrow> auth = k \<and> mint = m)"
| "executable_on v m k (CloseAccount s t auth) \<longleftrightarrow> (s = v \<longrightarrow> auth = k)"

definition settles :: "pubkey \<Rightarrow> pubkey \<Rightarrow> pubkey \<Rightarrow> cpi list \<Rightarrow> nat \<Rightarrow> nat \<Rightarrow> bool" where
  "settles v m k cpis before after \<longleftrightarrow>
     list_all (executable_on v m k) cpis \<and> before + paid_in v cpis \<le> after + paid_out v cpis"

lemma paid_simps [simp]:
  "paid_in v [] = 0" "paid_in v (c # cs) = into_account v c + paid_in v cs"
  "paid_in v (cs @ ds) = paid_in v cs + paid_in v ds"
  "paid_out v [] = 0" "paid_out v (c # cs) = out_of_account v c + paid_out v cs"
  "paid_out v (cs @ ds) = paid_out v cs + paid_out v ds"
  by (simp_all add: paid_in_def paid_out_def)

text \<open>
  The accounts handed to an instruction: an account that decodes as a mint is not the default key,
  has data, and the mint \<open>m\<close> belongs to its token program \<open>tp\<close>.
\<close>

definition mints_decode :: "pubkey \<Rightarrow> pubkey \<Rightarrow> account_info list \<Rightarrow> bool" where
  "mints_decode m tp accounts \<longleftrightarrow>
     list_all (\<lambda>a. ai_mint a \<noteq> None \<longrightarrow>
       ai_key a \<noteq> default_pubkey \<and> \<not> ai_data_is_empty a \<and> (ai_key a = m \<longrightarrow> ai_owner a = tp)) accounts"

lemma mints_decodeD:
  assumes "mints_decode m tp accounts" "a \<in> set accounts" "ai_mint a \<noteq> None"
  shows "ai_key a \<noteq> default_pubkey \<and> \<not> ai_data_is_empty a \<and> (ai_key a = m \<longrightarrow> ai_owner a = tp)"
  using assms by (auto simp: mints_decode_def list_all_iff)

section \<open>The rounds of the loops\<close>

definition asked_for :: "pending_basket_type \<Rightarrow> pubkey \<Rightarrow> token_amount list \<Rightarrow> nat" where
  "asked_for kind m xs = sum_for m (map (\<lambda>x. (ta_mint x, side kind x)) xs)"

definition named_mints :: "token_amount list \<Rightarrow> bool" where
  "named_mints xs \<longleftrightarrow> default_pubkey \<notin> ta_mint ` set xs"

lemma asked_for_simps [simp]:
  "asked_for kind m [] = 0"
  "asked_for kind m (xs @ [x]) = asked_for kind m xs + (if ta_mint x = m then side kind x else 0)"
  "asked_for kind m (x # xs) = (if ta_mint x = m then side kind x else 0) + asked_for kind m xs"
  by (simp_all add: asked_for_def sum_for_def)

lemma named_mints_simps [simp]:
  "named_mints []" "named_mints (xs @ [x]) \<longleftrightarrow> named_mints xs \<and> ta_mint x \<noteq> default_pubkey"
  "named_mints (x # xs) \<longleftrightarrow> named_mints xs \<and> ta_mint x \<noteq> default_pubkey"
  by (auto simp: named_mints_def)

text \<open>What a round of \<open>add_to_pending_basket\<close> books for the mint \<open>m\<close> it pays into the folio's account.\<close>

lemma add_pending_round_pays:
  assumes "add_pending_round sdk a amount_of st raw = Ok st'" "mints_decode m tp (pd_iter st)"
    and "v = associated_token_address sdk (pd_folio_key a) m tp"
    and "pd_user a \<noteq> pd_folio_key a" "pd_user_pending_basket_key a \<noteq> pd_folio_key a"
  shows "\<exists>x cs. pd_amounts st' = pd_amounts st @ [x] \<and> pd_cpis st' = pd_cpis st @ cs
    \<and> ta_mint x \<noteq> default_pubkey \<and> mints_decode m tp (pd_iter st')
    \<and> (list_all (executable_on v m (pd_folio_key a)) cs \<longrightarrow>
        (if ta_mint x = m then amount_for_minting x else 0) \<le> paid_in v cs \<and> paid_out v cs = 0)"
proof -
  from assms(1) obtain token_mint sender recipient rest where
    it: "pd_iter st = token_mint # sender # recipient # rest"
    and tm: "ai_mint token_mint \<noteq> None" "ai_data_is_empty token_mint \<or> ai_owner token_mint = pd_token_program a"
    and rc: "ai_key recipient = associated_token_address sdk (pd_folio_key a) (ai_key token_mint) (pd_token_program a)"
    by (auto simp: add_pending_round_def Let_def next_account_Ok split: if_splits)
  have d: "ai_key token_mint \<noteq> default_pubkey" "ai_key token_mint = m \<longrightarrow> pd_token_program a = tp"
    using mints_decodeD [OF assms(2) _ tm(1)] tm(2) it by auto
  have rest: "pd_iter st' = rest" "mints_decode m tp rest"
    using assms(1,2) it by (auto simp: add_pending_round_def Let_def next_account_Ok mints_decode_def split: if_splits)
  have "\<exists>auth n cs. pd_amounts st' = pd_amounts st
        @ [\<lparr>ta_mint = ai_key token_mint, amount_for_minting = n, amount_for_redeeming = 0\<rparr>]
      \<and> pd_cpis st' = pd_cpis st
        @ TransferChecked (ai_key sender) (ai_key recipient) auth (ai_key token_mint) n # cs
      \<and> auth \<in> {pd_user a, pd_user_pending_basket_key a}
      \<and> set cs \<subseteq> {CloseAccount (ai_key sender) (pd_user a) (pd_user_pending_basket_key a)}"
  proof (cases "associated_token_address sdk (pd_user_pending_basket_key a) (ai_key token_mint)
      (pd_token_program a) = ai_key sender")
    case True
    with assms(1) it tm show ?thesis
      by (auto simp: add_pending_round_def Let_def next_account_Ok)
  next
    case False
    with assms(1) it tm show ?thesis
      by (auto simp: add_pending_round_def Let_def next_account_Ok)
  qed
  then obtain auth n cs where st': "pd_amounts st' = pd_amounts st
        @ [\<lparr>ta_mint = ai_key token_mint, amount_for_minting = n, amount_for_redeeming = 0\<rparr>]"
      "pd_cpis st' = pd_cpis st
        @ TransferChecked (ai_key sender) (ai_key recipient) auth (ai_key token_mint) n # cs"
    and auth: "auth \<in> {pd_user a, pd_user_pending_basket_key a}"
    and cs: "set cs \<subseteq> {CloseAccount (ai_key sender) (pd_user a) (pd_user_pending_basket_key a)}"
    by blast
  have "paid_in v cs = 0 \<and> paid_out v cs = 0" using cs by (induction cs) auto
  moreover have "ai_key recipient = v" if "ai_key token_mint = m" using rc d(2) that assms(3) by simp
  ultimately show ?thesis
    unfolding st' using auth assms(4,5) d(1) rest by (intro exI conjI, auto)
qed

text \<open>What a round of the two withdrawals takes out of it.\<close>

lemma withdrawal_round_pays:
  assumes "remove_pending_round sdk a st raw = Ok st' \<and> kind = MintProcess
      \<or> redeem_pending_round sdk a st raw = Ok st' \<and> kind = RedeemProcess"
    and "mints_decode m tp (pd_iter st)"
  shows "\<exists>x cs. pd_amounts st' = pd_amounts st @ [x] \<and> pd_cpis st' = pd_cpis st @ cs
    \<and> ta_mint x \<noteq> default_pubkey \<and> mints_decode m tp (pd_iter st')
    \<and> (list_all (executable_on v m k) cs \<longrightarrow> paid_out v cs \<le> (if ta_mint x = m then side kind x else 0))"
proof -
  let ?x = "\<lambda>mint. \<lparr>ta_mint = mint, amount_for_minting = (if kind = MintProcess then raw else 0),
    amount_for_redeeming = (if kind = RedeemProcess then raw else 0)\<rparr>"
  from assms(1) obtain token_mint sender recipient rest where
    it: "pd_iter st = token_mint # sender # recipient # rest" and tm: "ai_mint token_mint \<noteq> None"
    and rest: "pd_iter st' = rest"
    and st': "pd_amounts st' = pd_amounts st @ [?x (ai_key token_mint)]"
      "pd_cpis st' = pd_cpis st
        @ [TransferChecked (ai_key sender) (ai_key recipient) (pd_folio_key a) (ai_key token_mint) raw]"
    by (auto simp: remove_pending_round_def redeem_pending_round_def Let_def next_account_Ok)
  have x: "side kind (?x mint) = raw" for mint by (cases kind) simp_all
  have "ai_key token_mint \<noteq> default_pubkey" using mints_decodeD [OF assms(2) _ tm] it by simp
  moreover have "mints_decode m tp rest" using assms(2) it by (simp add: mints_decode_def)
  ultimately show ?thesis unfolding st' rest using x by (intro exI conjI) auto
qed

text \<open>A relation between booked, received and paid amounts that holds of every round holds of the loop.\<close>

lemma pending_loop_pays:
  fixes Q :: "nat \<Rightarrow> nat \<Rightarrow> nat \<Rightarrow> bool"
  assumes each: "\<And>st raw st'. do_round st raw = Ok st' \<Longrightarrow> mints_decode m tp (pd_iter st) \<Longrightarrow>
      \<exists>x cs. pd_amounts st' = pd_amounts st @ [x] \<and> pd_cpis st' = pd_cpis st @ cs
        \<and> ta_mint x \<noteq> default_pubkey \<and> mints_decode m tp (pd_iter st')
        \<and> (list_all (executable_on v m k) cs \<longrightarrow>
            Q (if ta_mint x = m then side kind x else 0) (paid_in v cs) (paid_out v cs))"
    and Q: "Q 0 0 0" "\<And>a i u b j w. Q a i u \<Longrightarrow> Q b j w \<Longrightarrow> Q (a + b) (i + j) (u + w)"
    and run: "fold_result do_round (start_pending_loop accounts) raws = Ok st"
    and accounts: "mints_decode m tp accounts"
  shows "named_mints (pd_amounts st)
    \<and> (list_all (executable_on v m k) (pd_cpis st) \<longrightarrow>
        Q (asked_for kind m (pd_amounts st)) (paid_in v (pd_cpis st)) (paid_out v (pd_cpis st)))"
proof -
  let ?I = "\<lambda>st. named_mints (pd_amounts st) \<and> mints_decode m tp (pd_iter st)
    \<and> (list_all (executable_on v m k) (pd_cpis st) \<longrightarrow>
        Q (asked_for kind m (pd_amounts st)) (paid_in v (pd_cpis st)) (paid_out v (pd_cpis st)))"
  have "?I st"
  proof (rule fold_result_invariant [where I = ?I, OF _ _ run])
    fix s raw s'
    assume "?I s" "do_round s raw = Ok s'"
    moreover from this obtain x cs where "pd_amounts s' = pd_amounts s @ [x]" "pd_cpis s' = pd_cpis s @ cs"
      "ta_mint x \<noteq> default_pubkey" "mints_decode m tp (pd_iter s')"
      "list_all (executable_on v m k) cs \<longrightarrow>
        Q (if ta_mint x = m then side kind x else 0) (paid_in v cs) (paid_out v cs)"
      using each by blast
    ultimately show "?I s'" using Q(2) by simp
  qed (use Q(1) accounts in \<open>simp add: start_pending_loop_def\<close>)
  then show ?thesis by blast
qed

section \<open>What the handlers book\<close>

definition pending_total :: "user_pending_basket \<Rightarrow> pubkey \<Rightarrow> nat" where
  "pending_total p m = pending_amount MintProcess (upb_token_amounts p) m
     + pending_amount RedeemProcess (upb_token_amounts p) m"

definition pending_total_option :: "user_pending_basket option \<Rightarrow> pubkey \<Rightarrow> nat" where
  "pending_total_option p m = (case p of Some p \<Rightarrow> pending_total p m | None \<Rightarrow> 0)"

lemma pending_total_option_simps [simp]:
  "pending_total_option None m = 0" "pending_total_option (Some p) m = pending_total p m"
  by (simp_all add: pending_total_option_def)

lemma add_token_amounts_credits:
  "fold_result (add_token_amount True kind) tas xs
     = fold_result (pending_credit kind) tas (map (\<lambda>x. (ta_mint x, side kind x)) xs)"
proof -
  have "add_token_amount True kind tas x = pending_credit kind tas (ta_mint x, side kind x)" for tas x
    by (cases kind) (simp_all add: pending_credit_def add_token_amount_def ta_of_def cong: option.case_cong)
  then show ?thesis by (induction xs arbitrary: tas) simp_all
qed

lemma remove_token_amounts_debits:
  "fold_result (remove_token_amount True kind) tas xs
     = fold_result (pending_debit kind) tas (map (\<lambda>x. (ta_mint x, side kind x)) xs)"
proof -
  have "remove_token_amount True kind tas x = pending_debit kind tas (ta_mint x, side kind x)" for tas x
    by (cases kind) (simp_all add: pending_debit_def remove_token_amount_def ta_of_def cong: option.case_cong)
  then show ?thesis by (induction xs arbitrary: tas) simp_all
qed

lemma named_mints_real: "named_mints xs \<Longrightarrow> real_mints (map (\<lambda>x. (ta_mint x, side kind x)) xs)"
  by (auto simp: named_mints_def real_mints_def)

lemma add_token_amounts_books:
  assumes "add_token_amounts_to_folio p xs True kind = Ok p'" "pending_wf (upb_token_amounts p)"
    and "named_mints xs"
  shows "pending_wf (upb_token_amounts p') \<and> pending_total p' m = pending_total p m + asked_for kind m xs"
proof -
  from assms(1) obtain tas where
    f: "fold_result (pending_credit kind) (upb_token_amounts p) (map (\<lambda>x. (ta_mint x, side kind x)) xs) = Ok tas"
    and p': "p' = p\<lparr>upb_token_amounts := tas\<rparr>"
    by (auto simp: add_token_amounts_to_folio_def add_token_amounts_credits)
  note r = named_mints_real [OF assms(3)]
  show ?thesis
  proof (cases kind)
    case MintProcess
    note f = f [unfolded MintProcess]
    show ?thesis using pending.one.credits [OF assms(2) r f] pending.frame1_fold [OF _ assms(2) r f]
      by (simp add: p' pending_total_def asked_for_def MintProcess)
  next
    case RedeemProcess
    note f = f [unfolded RedeemProcess]
    show ?thesis using pending.two.credits [OF assms(2) r f] pending.frame2_fold [OF _ assms(2) r f]
      by (simp add: p' pending_total_def asked_for_def RedeemProcess)
  qed
qed

lemma remove_token_amounts_books:
  assumes "remove_token_amounts_from_folio p xs True kind = Ok p'" "pending_wf (upb_token_amounts p)"
    and "named_mints xs"
  shows "pending_wf (upb_token_amounts p') \<and> pending_total p' m + asked_for kind m xs = pending_total p m"
proof -
  from assms(1) obtain tas where
    f: "fold_result (pending_debit kind) (upb_token_amounts p) (map (\<lambda>x. (ta_mint x, side kind x)) xs) = Ok tas"
    and p': "p' = p\<lparr>upb_token_amounts := tas\<rparr>"
    by (auto simp: remove_token_amounts_from_folio_def remove_token_amounts_debits)
  note r = named_mints_real [OF assms(3)]
  show ?thesis
  proof (cases kind)
    case MintProcess
    note f = f [unfolded MintProcess]
    show ?thesis using pending.one.debits [OF assms(2) r f] pending.frame1_fold [OF _ assms(2) r f]
      by (simp add: p' pending_total_def asked_for_def MintProcess)
  next
    case RedeemProcess
    note f = f [unfolded RedeemProcess]
    show ?thesis using pending.two.debits [OF assms(2) r f] pending.frame2_fold [OF _ assms(2) r f]
      by (simp add: p' pending_total_def asked_for_def RedeemProcess)
  qed
qed

text \<open>The basket of a folio may not exist yet.\<close>

definition held :: "folio_basket option \<Rightarrow> pubkey \<Rightarrow> nat" where
  "held basket m = (case basket of Some fb \<Rightarrow> basket_amount fb m | None \<Rightarrow> 0)"

lemma held_simps [simp]: "held None m = 0" "held (Some fb) m = basket_amount fb m"
  by (simp_all add: held_def)

lemma pending_total_fresh:
  "pending_total \<lparr>upb_bump = b, upb_owner = u, upb_folio = f,
     upb_token_amounts = replicate MAX_USER_PENDING_BASKET_TOKEN_AMOUNTS default_token_amount\<rparr> m = 0"
proof -
  have "slot_of ta_mint (replicate n default_token_amount) m = None" if "m \<noteq> default_pubkey" for n
    using that by (auto simp: slot_of_None_iff default_token_amount_def)
  then show ?thesis by (simp add: pending_total_def pending_amount_def)
qed

lemma basket_amount_fresh:
  "basket_amount \<lparr>fb_bump = b, fb_folio = f,
     fb_token_amounts = replicate MAX_FOLIO_TOKEN_AMOUNTS default_folio_token_amount\<rparr> m = 0"
proof -
  have "slot_of fta_mint (replicate n default_folio_token_amount) m = None" if "m \<noteq> default_pubkey" for n
    using that by (auto simp: slot_of_None_iff default_folio_token_amount_def)
  then show ?thesis by (simp add: basket_amount_def basket_map_def)
qed

text \<open>Every handler books at most what the folio's token account receives less what it pays.\<close>

lemma add_to_pending_basket_books:
  assumes "add_to_pending_basket sdk a account bump accounts raws amount_of = Ok (p', cpis)"
    and "mints_decode m tp accounts" "v = associated_token_address sdk (pd_folio_key a) m tp"
    and "pd_user a \<noteq> pd_folio_key a" "pd_user_pending_basket_key a \<noteq> pd_folio_key a"
    and "pred_option (\<lambda>p. pending_wf (upb_token_amounts p)) account"
    and "list_all (executable_on v m (pd_folio_key a)) cpis"
  shows "pending_wf (upb_token_amounts p')
    \<and> pending_total p' m + paid_out v cpis \<le> pending_total_option account m + paid_in v cpis"
proof -
  from assms(1) obtain st where
    run: "fold_result (add_pending_round sdk a amount_of) (start_pending_loop accounts) raws = Ok st"
    and p': "pending_process_init_if_needed account bump (pd_user a) (pd_folio_key a) (pd_amounts st) True = Ok p'"
    and cpis: "cpis = pd_cpis st"
    by (auto simp: add_to_pending_basket_def)
  have "named_mints (pd_amounts st) \<and> (list_all (executable_on v m (pd_folio_key a)) (pd_cpis st) \<longrightarrow>
      asked_for MintProcess m (pd_amounts st) \<le> paid_in v (pd_cpis st) \<and> paid_out v (pd_cpis st) = 0)"
  proof (rule pending_loop_pays [where Q = "\<lambda>a i u. a \<le> i \<and> u = 0", OF _ _ _ run assms(2)])
    fix st raw st'
    assume "add_pending_round sdk a amount_of st raw = Ok st'" "mints_decode m tp (pd_iter st)"
    from add_pending_round_pays [OF this assms(3-5)]
    show "\<exists>x cs. pd_amounts st' = pd_amounts st @ [x] \<and> pd_cpis st' = pd_cpis st @ cs
        \<and> ta_mint x \<noteq> default_pubkey \<and> mints_decode m tp (pd_iter st')
        \<and> (list_all (executable_on v m (pd_folio_key a)) cs \<longrightarrow>
            (if ta_mint x = m then side MintProcess x else 0) \<le> paid_in v cs \<and> paid_out v cs = 0)"
      unfolding side.simps .
  qed auto
  then have n: "named_mints (pd_amounts st)"
    and q: "asked_for MintProcess m (pd_amounts st) \<le> paid_in v cpis" "paid_out v cpis = 0"
    using assms(7) cpis by auto
  obtain p where "add_token_amounts_to_folio p (pd_amounts st) True MintProcess = Ok p'"
    "pending_wf (upb_token_amounts p)" "pending_total p m = pending_total_option account m"
    using p' assms(6) pending_total_fresh pending_wf_init
    by (cases account) (auto simp: pending_process_init_if_needed_def)
  with add_token_amounts_books [OF this(1,2) n, of m] q show ?thesis by simp
qed

lemma withdrawal_books:
  assumes "remove_from_pending_basket sdk a p accounts raws = Ok (p', cpis)
      \<or> redeem_from_pending_basket sdk a p accounts raws = Ok (p', cpis)"
    and "mints_decode m tp accounts" "pending_wf (upb_token_amounts p)"
    and "list_all (executable_on v m k) cpis"
  shows "pending_wf (upb_token_amounts p')
    \<and> pending_total p' m + paid_out v cpis \<le> pending_total p m + paid_in v cpis"
proof -
  from assms(1) obtain kind do_round st where
    kind: "do_round = remove_pending_round sdk a \<and> kind = MintProcess
      \<or> do_round = redeem_pending_round sdk a \<and> kind = RedeemProcess"
    and run: "fold_result do_round (start_pending_loop accounts) raws = Ok st"
    and p': "remove_token_amounts_from_folio p (pd_amounts st) True kind = Ok p'" "cpis = pd_cpis st"
    by (auto simp: remove_from_pending_basket_def redeem_from_pending_basket_def)
  have "named_mints (pd_amounts st) \<and> (list_all (executable_on v m k) (pd_cpis st) \<longrightarrow>
      paid_out v (pd_cpis st) \<le> asked_for kind m (pd_amounts st))"
  proof (rule pending_loop_pays [where Q = "\<lambda>a i u. u \<le> a", OF _ _ _ run assms(2)])
    fix st raw st'
    assume "do_round st raw = Ok st'" and d: "mints_decode m tp (pd_iter st)"
    then have "remove_pending_round sdk a st raw = Ok st' \<and> kind = MintProcess
        \<or> redeem_pending_round sdk a st raw = Ok st' \<and> kind = RedeemProcess" using kind by auto
    from withdrawal_round_pays [OF this d]
    show "\<exists>x cs. pd_amounts st' = pd_amounts st @ [x] \<and> pd_cpis st' = pd_cpis st @ cs
        \<and> ta_mint x \<noteq> default_pubkey \<and> mints_decode m tp (pd_iter st')
        \<and> (list_all (executable_on v m k) cs \<longrightarrow> paid_out v cs \<le> (if ta_mint x = m then side kind x else 0))" .
  qed auto
  then have "named_mints (pd_amounts st)" "paid_out v cpis \<le> asked_for kind m (pd_amounts st)"
    using assms(4) p'(2) by auto
  with remove_token_amounts_books [OF p'(1) assms(3), of m] show ?thesis by simp
qed

lemma shares_book:
  assumes "(\<exists>t sh least f'. mint_folio_token sdk a t sh least = Ok (f', fb', p', cpis))
      \<or> (\<exists>t sh mins f'. burn_folio_token sdk a t sh mins = Ok (f', fb', p', cpis))"
    and "sh_user a \<noteq> k" "basket_wf (sh_folio_basket a)" "pending_wf (upb_token_amounts (sh_user_pending_basket a))"
    and "list_all (executable_on v m k) cpis"
  shows "basket_wf fb' \<and> pending_wf (upb_token_amounts p')
    \<and> basket_amount fb' m + pending_total p' m + paid_out v cpis
      \<le> basket_amount (sh_folio_basket a) m + pending_total (sh_user_pending_basket a) m"
proof -
  from assms(1) obtain sh raw f kind t num den fl mins f1 where
    A: "to_assets (sh_user_pending_basket a) sh raw (sh_folio_basket a) f kind t num den fl mins
      = Ok (p', fb', f1)"
    and "(\<exists>mint acc n. cpis = [MintTo mint acc (sh_folio_key a) n]) \<or> (\<exists>mint acc n. cpis = [Burn mint acc (sh_user a) n])"
    by (fastforce simp: mint_folio_token_def burn_folio_token_def)
  then have "paid_out v cpis = 0" using assms(2,5) by auto
  moreover note eff = to_assets_effect [OF A assms(3,4)]
  moreover have "basket_amount fb' m + pending_total p' m
      = basket_amount (sh_folio_basket a) m + pending_total (sh_user_pending_basket a) m"
  proof (cases kind)
    case MintProcess
    with eff obtain d where "pending_amount MintProcess (upb_token_amounts p') m + d
        = pending_amount MintProcess (upb_token_amounts (sh_user_pending_basket a)) m"
      "basket_amount fb' m = basket_amount (sh_folio_basket a) m + d" by blast
    with MintProcess eff show ?thesis by (simp add: pending_total_def)
  next
    case RedeemProcess
    with eff obtain d where "pending_amount RedeemProcess (upb_token_amounts p') m
        = pending_amount RedeemProcess (upb_token_amounts (sh_user_pending_basket a)) m + d"
      "basket_amount fb' m + d = basket_amount (sh_folio_basket a) m" by blast
    with RedeemProcess eff show ?thesis by (simp add: pending_total_def)
  qed
  ultimately show ?thesis by simp
qed

lemma add_basket_round_pays:
  assumes "add_basket_round sdk a st raw = Ok st'" "mints_decode m tp (bl_iter st)"
    and "v = associated_token_address sdk (ba_folio_key a) m tp"
    and "ba_folio_owner a \<noteq> ba_folio_key a" "ba_user_pending_basket_key a \<noteq> ba_folio_key a"
  shows "\<exists>x c. bl_amounts st' = bl_amounts st @ [x] \<and> bl_cpis st' = bl_cpis st @ [c]
    \<and> fta_mint x \<noteq> default_pubkey \<and> mints_decode m tp (bl_iter st')
    \<and> (executable_on v m (ba_folio_key a) c \<longrightarrow>
        (if fta_mint x = m then fta_amount x else 0) \<le> into_account v c \<and> out_of_account v c = 0)"
proof -
  let ?auth = "\<lambda>sender mint tp. if associated_token_address sdk (ba_user_pending_basket_key a) mint tp = sender
    then ba_user_pending_basket_key a else ba_folio_owner a"
  from assms(1) obtain program token_mint sender recipient rest where
    it: "bl_iter st = program # token_mint # sender # recipient # rest"
    and tm: "ai_mint token_mint \<noteq> None" "ai_data_is_empty token_mint \<or> ai_owner token_mint = ai_key program"
    and rc: "ai_key recipient = associated_token_address sdk (ba_folio_key a) (ai_key token_mint) (ai_key program)"
    and rest: "bl_iter st' = rest"
    and st': "bl_amounts st' = bl_amounts st @ [\<lparr>fta_mint = ai_key token_mint, fta_amount = raw\<rparr>]"
      "bl_cpis st' = bl_cpis st @ [TransferChecked (ai_key sender) (ai_key recipient)
        (?auth (ai_key sender) (ai_key token_mint) (ai_key program)) (ai_key token_mint) raw]"
    by (auto simp: add_basket_round_def Let_def next_account_Ok next_token_program_Ok)
  have d: "ai_key token_mint \<noteq> default_pubkey" "ai_key token_mint = m \<longrightarrow> ai_key program = tp"
    using mints_decodeD [OF assms(2) _ tm(1)] tm(2) it by auto
  have "mints_decode m tp rest" using assms(2) it by (simp add: mints_decode_def)
  moreover have "ai_key recipient = v" if "ai_key token_mint = m" using rc d(2) that assms(3) by simp
  ultimately show ?thesis unfolding st' rest using d assms(4,5) by (intro exI conjI) (auto split: if_splits)
qed

lemma add_to_basket_books:
  assumes "add_to_basket sdk a accounts raws shares t = Ok (f', fb', cpis)"
    and "mints_decode m tp accounts" "v = associated_token_address sdk (ba_folio_key a) m tp"
    and "ba_folio_owner a \<noteq> ba_folio_key a" "ba_user_pending_basket_key a \<noteq> ba_folio_key a"
    and "pred_option basket_wf (ba_folio_basket a)" "list_all (executable_on v m (ba_folio_key a)) cpis"
  shows "basket_wf fb' \<and> basket_amount fb' m + paid_out v cpis \<le> held (ba_folio_basket a) m + paid_in v cpis"
proof -
  let ?booked = "\<lambda>st. sum_for m (map fta_pair (bl_amounts st))"
  let ?I = "\<lambda>st. real_mints (map fta_pair (bl_amounts st)) \<and> mints_decode m tp (bl_iter st)
    \<and> (list_all (executable_on v m (ba_folio_key a)) (bl_cpis st) \<longrightarrow>
        ?booked st \<le> paid_in v (bl_cpis st) \<and> paid_out v (bl_cpis st) = 0)"
  from assms(1) obtain st extra where
    run: "fold_result (add_basket_round sdk a) \<lparr>bl_iter = accounts, bl_amounts = [], bl_cpis = []\<rparr> raws = Ok st"
    and fb': "folio_basket_process_init_if_needed (ba_folio_basket a) (ba_folio_basket_bump a) (ba_folio_key a)
        (bl_amounts st) = Ok fb'"
    and cpis: "cpis = bl_cpis st @ extra" and extra: "paid_out v extra = 0"
    by (auto simp: add_to_basket_def mint_initial_shares_def Let_def split: if_splits)
  have "?I st"
  proof (rule fold_result_invariant [where I = ?I, OF _ _ run])
    fix s raw s'
    assume I: "?I s" and "add_basket_round sdk a s raw = Ok s'"
    then obtain x c where "bl_amounts s' = bl_amounts s @ [x]" "bl_cpis s' = bl_cpis s @ [c]"
      "fta_mint x \<noteq> default_pubkey" "mints_decode m tp (bl_iter s')"
      "executable_on v m (ba_folio_key a) c \<longrightarrow>
        (if fta_mint x = m then fta_amount x else 0) \<le> into_account v c \<and> out_of_account v c = 0"
      using add_basket_round_pays [OF _ _ assms(3-5)] by blast
    with I show "?I s'" by (auto simp: fta_pair_def sum_for_def real_mints_def)
  qed (use assms(2) in simp)
  then have r: "real_mints (map fta_pair (bl_amounts st))" and q: "?booked st \<le> paid_in v cpis" "paid_out v cpis = 0"
    using assms(7) extra by (auto simp: cpis)
  obtain fb where f: "fold_result basket_credit fb (map fta_pair (bl_amounts st)) = Ok fb'"
    and fb: "basket_wf fb" "basket_amount fb m = held (ba_folio_basket a) m"
    using fb' assms(6) basket_amount_fresh basket_wf_empty
    by (cases "ba_folio_basket a") (auto simp: folio_basket_process_init_if_needed_def basket_fold_eqs)
  from fb.credits [OF fb(1) r f] q fb(2) show ?thesis by simp
qed

lemma bid_books:
  assumes "bid sdk invoke accounts a t s mx wc data before = Ok (f', fb', au', ends', cpis)"
    and "basket_wf (bd_folio_basket a)" "bd_sell_mint a \<noteq> default_pubkey" "bd_buy_mint a \<noteq> default_pubkey"
    and "bd_buy_mint a = m \<Longrightarrow> bd_folio_buy_account a = v" "bd_bidder a \<noteq> k"
    and sold: "settles v m k [hd cpis] b b1"
    and paid: "if wc then (if bd_buy_mint a = m then before = b1 \<and> cpi_call invoke accounts data b1 = Ok b'
        else b1 \<le> b') else settles v m k (tl cpis) b1 b'"
  shows "basket_wf fb' \<and> basket_amount fb' m + b \<le> basket_amount (bd_folio_basket a) m + b'"
  using assms(1)
proof (cases rule: bid_Ok)
  case (1 num den fl avail bought price "supply" fb1 presence payment buy_presence)
  have mints: "sell_mint (bd_auction a) = bd_sell_mint a" "buy_mint (bd_auction a) = bd_buy_mint a"
    using validate_bid_Ok [OF 1(1)] by simp_all
  have sell: "basket_wf fb1" "s \<le> basket_amount (bd_folio_basket a) (bd_sell_mint a)"
    "basket_amount fb1 = (basket_amount (bd_folio_basket a))
      (bd_sell_mint a := basket_amount (bd_folio_basket a) (bd_sell_mint a) - s)"
    using sell_from_basket_effect [OF 1(4) assms(2)] assms(3) mints by auto
  have "basket_credit fb1 (bd_buy_mint a, bought) = Ok fb'"
    using 1(6) mints by (simp add: add_tokens_to_basket_def basket_credit_def)
  from basket_credit_effect [OF sell(1) assms(4) this]
  have buy: "basket_wf fb'" "basket_amount fb' = (basket_amount fb1)
      (bd_buy_mint a := basket_amount fb1 (bd_buy_mint a) + bought)" by auto
  have out: "b \<le> b1 + (if bd_sell_mint a = m then s else 0)"
    using sold 1(9) by (auto simp: settles_def split: if_splits)
  have "b1 + (if bd_buy_mint a = m then bought else 0) \<le> b'"
    using paid collect_payment_Ok [OF 1(5)] assms(5,6) 1(9)
    by (auto simp: settles_def split: if_splits)
  with out sell(2,3) buy show ?thesis by (auto split: if_splits)
qed

text \<open>A migration pays a token out and takes it off the basket.\<close>

lemma migrate_round_books:
  assumes "migrate_round sdk update a st = Ok st'" "mints_decode m tp (ml_iter st)" "basket_wf (ml_basket st)"
  shows "\<exists>c. ml_cpis st' = ml_cpis st @ [c] \<and> mints_decode m tp (ml_iter st') \<and> basket_wf (ml_basket st')
    \<and> (executable_on v m k c \<longrightarrow>
        basket_amount (ml_basket st') m + out_of_account v c \<le> basket_amount (ml_basket st) m)"
proof -
  from assms(1) obtain token_mint sender recipient rest balance where
    it: "ml_iter st = token_mint # sender # recipient # rest" and tm: "ai_mint token_mint \<noteq> None"
    and bal: "get_token_amount_in_folio_basket (ml_basket st) (ai_key token_mint) = Ok balance"
    and rm: "remove_token_mint_from_basket (ml_basket st) (ai_key token_mint) = Ok (ml_basket st')"
    and st': "ml_iter st' = rest" "ml_cpis st' = ml_cpis st
        @ [TransferChecked (ai_key sender) (ai_key recipient) (mg_old_folio_key a) (ai_key token_mint) balance]"
    by (auto simp: migrate_round_def Let_def next_account_Ok)
  have d: "ai_key token_mint \<noteq> default_pubkey" using mints_decodeD [OF assms(2) _ tm] it by simp
  have "mints_decode m tp rest" using assms(2) it by (simp add: mints_decode_def)
  moreover note remove_token_mint_amount [OF rm assms(3) d] basket_amount_iff [OF d bal]
  ultimately show ?thesis unfolding st' by (intro exI conjI) auto
qed

lemma migrate_rounds_book:
  assumes "migrate_rounds n sdk update a st = Ok st'" "mints_decode m tp (ml_iter st)" "basket_wf (ml_basket st)"
    and "list_all (executable_on v m k) (ml_cpis st')"
  shows "basket_wf (ml_basket st') \<and> basket_amount (ml_basket st') m + paid_out v (ml_cpis st')
    \<le> basket_amount (ml_basket st) m + paid_out v (ml_cpis st) \<and> (\<exists>cs. ml_cpis st' = ml_cpis st @ cs)"
  using assms
proof (induction n arbitrary: st)
  case (Suc n)
  from Suc.prems(1) obtain s where s: "migrate_round sdk update a st = Ok s" "migrate_rounds n sdk update a s = Ok st'"
    by auto
  from migrate_round_books [OF s(1) Suc.prems(2,3)] obtain c where
    c: "ml_cpis s = ml_cpis st @ [c]" "mints_decode m tp (ml_iter s)" "basket_wf (ml_basket s)"
      "executable_on v m k c \<longrightarrow>
        basket_amount (ml_basket s) m + out_of_account v c \<le> basket_amount (ml_basket st) m" by blast
  from Suc.IH [OF s(2) c(2,3) Suc.prems(4)] c(1,4) Suc.prems(4) show ?case by auto
qed simp

lemma migrate_folio_tokens_books:
  assumes "migrate_folio_tokens sdk update a accounts fb w = Ok (fb', cpis, w')"
    and "mints_decode m tp accounts" "basket_wf fb" "list_all (executable_on v m k) cpis"
  shows "basket_wf fb' \<and> basket_amount fb' m + paid_out v cpis \<le> basket_amount fb m"
  using assms migrate_rounds_book [where st = "\<lparr>ml_iter = accounts, ml_basket = fb, ml_cpis = [], ml_world = w\<rparr>"
      and m = m and tp = tp and v = v and k = k]
  by (fastforce simp: migrate_folio_tokens_def)

section \<open>The history of a folio\<close>

text \<open>
  What is in the custody of the folio: its basket, the pending baskets of its users and, for one
  mint, the amount in its token account.
\<close>

record custody =
  cu_basket :: "folio_basket option"
  cu_pending :: "pubkey \<Rightarrow> user_pending_basket option"
  cu_vault :: nat

text \<open>
  One instruction on the folio \<open>k\<close> as the mint \<open>m\<close> of the token program \<open>tp\<close> sees it. The folio
  itself is what it happens to be in the accounts, in any status. A user, a bidder and the owner
  sign with a key that is not the address of the folio, which has no private key, and the program
  signs for it only in its own transfers. The last step is every instruction of any program that
  touches none of the baskets.
\<close>

inductive custody_step :: "sdk \<Rightarrow> pubkey \<Rightarrow> pubkey \<Rightarrow> pubkey \<Rightarrow> custody \<Rightarrow> custody \<Rightarrow> bool"
  for sdk k m tp where
  add_pending: "add_to_pending_basket sdk a (cu_pending w (pd_user a)) bump accounts raws amount_of = Ok (p', cpis) \<Longrightarrow>
     pd_folio_key a = k \<Longrightarrow> pd_user a \<noteq> k \<Longrightarrow> pd_user_pending_basket_key a \<noteq> k \<Longrightarrow>
     mints_decode m tp accounts \<Longrightarrow>
     settles (associated_token_address sdk k m tp) m k cpis (cu_vault w) vault' \<Longrightarrow>
     custody_step sdk k m tp w (w\<lparr>cu_pending := (cu_pending w)(pd_user a \<mapsto> p'), cu_vault := vault'\<rparr>)"
| take_back: "remove_from_pending_basket sdk a p accounts raws = Ok (p', cpis) \<Longrightarrow>
     cu_pending w (pd_user a) = Some p \<Longrightarrow> mints_decode m tp accounts \<Longrightarrow>
     settles (associated_token_address sdk k m tp) m k cpis (cu_vault w) vault' \<Longrightarrow>
     custody_step sdk k m tp w (w\<lparr>cu_pending := (cu_pending w)(pd_user a \<mapsto> p'), cu_vault := vault'\<rparr>)"
| redeem: "redeem_from_pending_basket sdk a p accounts raws = Ok (p', cpis) \<Longrightarrow>
     cu_pending w (pd_user a) = Some p \<Longrightarrow> mints_decode m tp accounts \<Longrightarrow>
     settles (associated_token_address sdk k m tp) m k cpis (cu_vault w) vault' \<Longrightarrow>
     custody_step sdk k m tp w (w\<lparr>cu_pending := (cu_pending w)(pd_user a \<mapsto> p'), cu_vault := vault'\<rparr>)"
| mint_shares: "mint_folio_token sdk a t shares least = Ok (f', fb', p', cpis) \<Longrightarrow>
     cu_basket w = Some (sh_folio_basket a) \<Longrightarrow> sh_user a \<noteq> k \<Longrightarrow>
     cu_pending w (sh_user a) = Some (sh_user_pending_basket a) \<Longrightarrow>
     settles (associated_token_address sdk k m tp) m k cpis (cu_vault w) vault' \<Longrightarrow>
     custody_step sdk k m tp w (w\<lparr>cu_basket := Some fb', cu_pending := (cu_pending w)(sh_user a \<mapsto> p'),
       cu_vault := vault'\<rparr>)"
| burn_shares: "burn_folio_token sdk a t shares mins = Ok (f', fb', p', cpis) \<Longrightarrow>
     cu_basket w = Some (sh_folio_basket a) \<Longrightarrow> sh_user a \<noteq> k \<Longrightarrow>
     cu_pending w (sh_user a) = Some (sh_user_pending_basket a) \<Longrightarrow>
     settles (associated_token_address sdk k m tp) m k cpis (cu_vault w) vault' \<Longrightarrow>
     custody_step sdk k m tp w (w\<lparr>cu_basket := Some fb', cu_pending := (cu_pending w)(sh_user a \<mapsto> p'),
       cu_vault := vault'\<rparr>)"
| close_pending: "close_user_pending_token_amount sdk f k p = Ok (final, p') \<Longrightarrow> cu_pending w u = Some p \<Longrightarrow>
     custody_step sdk k m tp w (w\<lparr>cu_pending := (cu_pending w)(u := p')\<rparr>)"
| fill_basket: "add_to_basket sdk a accounts raws shares t = Ok (f', fb', cpis) \<Longrightarrow>
     cu_basket w = ba_folio_basket a \<Longrightarrow> ba_folio_key a = k \<Longrightarrow> ba_folio_owner a \<noteq> k \<Longrightarrow>
     ba_user_pending_basket_key a \<noteq> k \<Longrightarrow> mints_decode m tp accounts \<Longrightarrow>
     settles (associated_token_address sdk k m tp) m k cpis (cu_vault w) vault' \<Longrightarrow>
     custody_step sdk k m tp w (w\<lparr>cu_basket := Some fb', cu_vault := vault'\<rparr>)"
| drop_mint: "remove_from_basket sdk actor k f fb token mint = Ok fb' \<Longrightarrow> cu_basket w = Some fb \<Longrightarrow>
     mint \<noteq> default_pubkey \<Longrightarrow>
     custody_step sdk k m tp w (w\<lparr>cu_basket := Some fb'\<rparr>)"
| trade: "bid sdk invoke accounts a t s mx wc data before = Ok (f', fb', au', ends', cpis) \<Longrightarrow>
     cu_basket w = Some (bd_folio_basket a) \<Longrightarrow>
     bd_sell_mint a \<noteq> default_pubkey \<Longrightarrow> bd_buy_mint a \<noteq> default_pubkey \<Longrightarrow> bd_bidder a \<noteq> k \<Longrightarrow>
     (bd_buy_mint a = m \<longrightarrow> bd_folio_buy_account a = associated_token_address sdk k m tp) \<Longrightarrow>
     settles (associated_token_address sdk k m tp) m k [hd cpis] (cu_vault w) between \<Longrightarrow>
     (if wc then (if bd_buy_mint a = m then before = between \<and> cpi_call invoke accounts data between = Ok vault'
         else between \<le> vault')
      else settles (associated_token_address sdk k m tp) m k (tl cpis) between vault') \<Longrightarrow>
     custody_step sdk k m tp w (w\<lparr>cu_basket := Some fb', cu_vault := vault'\<rparr>)"
| migrate: "migrate_folio_tokens sdk update a accounts fb (x :: folio \<times> folio_basket) = Ok (fb', cpis, x') \<Longrightarrow> cu_basket w = Some fb \<Longrightarrow>
     mints_decode m tp accounts \<Longrightarrow>
     settles (associated_token_address sdk k m tp) m k cpis (cu_vault w) vault' \<Longrightarrow>
     custody_step sdk k m tp w (w\<lparr>cu_basket := Some fb', cu_vault := vault'\<rparr>)"
| elsewhere: "cu_vault w \<le> vault' \<Longrightarrow> custody_step sdk k m tp w (w\<lparr>cu_vault := vault'\<rparr>)"

definition owed_to_users :: "(pubkey \<Rightarrow> user_pending_basket option) \<Rightarrow> pubkey \<Rightarrow> nat" where
  "owed_to_users pending m = (\<Sum>u \<in> dom pending. pending_total_option (pending u) m)"

text \<open>The account covers what the basket holds together with what is owed to all users.\<close>

definition custody_ok :: "pubkey \<Rightarrow> custody \<Rightarrow> bool" where
  "custody_ok m w \<longleftrightarrow> finite (dom (cu_pending w))
     \<and> (\<forall>p \<in> ran (cu_pending w). pending_wf (upb_token_amounts p))
     \<and> pred_option basket_wf (cu_basket w)
     \<and> held (cu_basket w) m + owed_to_users (cu_pending w) m \<le> cu_vault w"

lemma owed_to_users_upd:
  assumes "finite (dom pending)"
  shows "owed_to_users (pending(u := p)) m + pending_total_option (pending u) m
    = owed_to_users pending m + pending_total_option p m"
proof -
  let ?g = "\<lambda>pending u. pending_total_option (pending u) m"
  have all: "owed_to_users q m = ?g q u + sum (?g q) (D - {u})"
    if "dom q \<subseteq> D" "finite D" "u \<in> D" for q D
  proof -
    have "owed_to_users q m = sum (?g q) D"
      unfolding owed_to_users_def
      by (rule sum.mono_neutral_left) (use that in \<open>auto simp: pending_total_option_def split: option.splits\<close>)
    then show ?thesis using sum.remove [OF that(2,3)] by simp
  qed
  define D where "D = insert u (dom pending)"
  have D: "finite D" "u \<in> D" "dom pending \<subseteq> D" "dom (pending(u := p)) \<subseteq> D"
    using assms by (auto simp: D_def)
  have "sum (?g (pending(u := p))) (D - {u}) = sum (?g pending) (D - {u})" by (rule sum.cong) auto
  with all [OF D(3,1,2)] all [OF D(4,1,2)] show ?thesis by simp
qed

text \<open>A step that books at most what the account receives keeps the account covering.\<close>

lemma custody_ok_upd:
  assumes "custody_ok m w" "settles v m k cpis (cu_vault w) (cu_vault w')"
    and "cu_pending w' = (cu_pending w)(u := p')"
    and "pred_option (\<lambda>p. pending_wf (upb_token_amounts p)) p'" "pred_option basket_wf (cu_basket w')"
    and "held (cu_basket w') m + pending_total_option p' m + paid_out v cpis
      \<le> held (cu_basket w) m + pending_total_option (cu_pending w u) m + paid_in v cpis"
  shows "custody_ok m w'"
proof -
  have f: "finite (dom (cu_pending w))" using assms(1) by (simp add: custody_ok_def)
  have "\<forall>p \<in> ran ((cu_pending w)(u := p')). pending_wf (upb_token_amounts p)"
    using assms(1,4) by (auto simp: custody_ok_def ran_def split: if_splits)
  moreover have "finite (dom ((cu_pending w)(u := p')))" using f by (cases p') simp_all
  moreover have "held (cu_basket w') m + owed_to_users ((cu_pending w)(u := p')) m \<le> cu_vault w'"
    using assms(1,2,6) owed_to_users_upd [OF f, of u p' m]
    unfolding custody_ok_def settles_def by linarith
  ultimately show ?thesis using assms(3,5) by (simp add: custody_ok_def)
qed

lemma custody_pending_wf: "custody_ok m w \<Longrightarrow> cu_pending w u = Some p \<Longrightarrow> pending_wf (upb_token_amounts p)"
  by (auto simp: custody_ok_def ran_def)

lemma custody_basket_wf: "custody_ok m w \<Longrightarrow> cu_basket w = Some fb \<Longrightarrow> basket_wf fb"
  by (auto simp: custody_ok_def)

lemma custody_pending_option_wf:
  "custody_ok m w \<Longrightarrow> pred_option (\<lambda>p. pending_wf (upb_token_amounts p)) (cu_pending w u)"
  by (cases "cu_pending w u") (auto dest: custody_pending_wf)

lemma settles_nothing: "settles v m k [] b b' \<longleftrightarrow> b \<le> b'"
  by (simp add: settles_def)

lemma settles_executable: "settles v m k cpis b b' \<Longrightarrow> list_all (executable_on v m k) cpis"
  by (simp add: settles_def)

lemma pending_empty_total:
  "pending_is_empty p \<Longrightarrow> pending_total p m = 0"
  by (auto simp: pending_is_empty_def pending_total_def pending_amount_def list_all_iff slot_of_def
      find_Some_iff split: option.splits)

lemma custody_preserved:
  assumes "custody_step sdk k m tp w w'" "custody_ok m w"
  shows "custody_ok m w'"
  using assms(1)
proof cases
  case (add_pending a bump accounts raws amount_of p' cpis vault')
  from add_to_pending_basket_books [OF add_pending(2) add_pending(6) _ _ _
      custody_pending_option_wf [OF assms(2)], of "associated_token_address sdk k m tp"]
  show ?thesis using add_pending settles_executable [OF add_pending(7)] assms(2)
    by (intro custody_ok_upd [OF assms(2), where u = "pd_user a"]) (auto simp: custody_ok_def)
next
  case (take_back a p accounts raws p' cpis vault')
  show ?thesis
    using withdrawal_books [OF disjI1 [OF take_back(2)] take_back(4) custody_pending_wf [OF assms(2) take_back(3)]
        settles_executable [OF take_back(5)]] take_back assms(2)
    by (intro custody_ok_upd [OF assms(2), where u = "pd_user a"]) (auto simp: custody_ok_def)
next
  case (redeem a p accounts raws p' cpis vault')
  show ?thesis
    using withdrawal_books [OF disjI2 [OF redeem(2)] redeem(4) custody_pending_wf [OF assms(2) redeem(3)]
        settles_executable [OF redeem(5)]] redeem assms(2)
    by (intro custody_ok_upd [OF assms(2), where u = "pd_user a"]) (auto simp: custody_ok_def)
next
  case (mint_shares a t shares least f' fb' p' cpis vault')
  have "(\<exists>t sh least f'. mint_folio_token sdk a t sh least = Ok (f', fb', p', cpis))
      \<or> (\<exists>t sh mins f'. burn_folio_token sdk a t sh mins = Ok (f', fb', p', cpis))"
    using mint_shares(2) by blast
  from shares_book [OF this mint_shares(4) custody_basket_wf [OF assms(2) mint_shares(3)]
        custody_pending_wf [OF assms(2) mint_shares(5)] settles_executable [OF mint_shares(6)]]
  show ?thesis using mint_shares by (intro custody_ok_upd [OF assms(2), where u = "sh_user a"]) auto
next
  case (burn_shares a t shares mins f' fb' p' cpis vault')
  have "(\<exists>t sh least f'. mint_folio_token sdk a t sh least = Ok (f', fb', p', cpis))
      \<or> (\<exists>t sh mins f'. burn_folio_token sdk a t sh mins = Ok (f', fb', p', cpis))"
    using burn_shares(2) by blast
  from shares_book [OF this burn_shares(4) custody_basket_wf [OF assms(2) burn_shares(3)]
        custody_pending_wf [OF assms(2) burn_shares(5)] settles_executable [OF burn_shares(6)]]
  show ?thesis using burn_shares by (intro custody_ok_upd [OF assms(2), where u = "sh_user a"]) auto
next
  case (close_pending f p final p' u)
  then have "p' = None" "pending_total p m = 0"
    using pending_empty_total by (auto simp: close_user_pending_token_amount_def)
  with close_pending assms(2) show ?thesis
    by (intro custody_ok_upd [OF assms(2), where u = u and cpis = "[]" and v = k and k = k])
      (auto simp: custody_ok_def settles_nothing)
next
  case (fill_basket a accounts raws shares t f' fb' cpis vault')
  have "pred_option basket_wf (ba_folio_basket a)" using assms(2) fill_basket(3) by (simp add: custody_ok_def)
  from add_to_basket_books [OF fill_basket(2) fill_basket(7) _ _ _ this, of "associated_token_address sdk k m tp"]
  show ?thesis
    using fill_basket settles_executable [OF fill_basket(8)] custody_pending_option_wf [OF assms(2), of k]
    by (intro custody_ok_upd [OF assms(2), where u = k and p' = "cu_pending w k"])
      (auto simp: custody_ok_def)
next
  case (drop_mint actor f fb token mint fb')
  then have "remove_token_mint_from_basket fb mint = Ok fb'" by (auto simp: remove_from_basket_def)
  from remove_token_mint_amount [OF this custody_basket_wf [OF assms(2) drop_mint(3)] drop_mint(4)]
  show ?thesis using drop_mint assms(2) custody_pending_option_wf [OF assms(2), of k]
    by (intro custody_ok_upd [OF assms(2), where u = k and p' = "cu_pending w k" and cpis = "[]" and v = k and k = k])
      (auto simp: custody_ok_def settles_nothing ran_def)
next
  case (trade invoke accounts a t s mx wc data before f' fb' au' ends' cpis between vault')
  have "basket_wf fb' \<and> basket_amount fb' m + cu_vault w \<le> basket_amount (bd_folio_basket a) m + vault'"
    using trade by (intro bid_books [OF trade(2) custody_basket_wf [OF assms(2) trade(3)]]) auto
  with trade assms(2) show ?thesis by (auto simp: custody_ok_def)
next
  case (migrate update a accounts fb x fb' cpis x' vault')
  from migrate_folio_tokens_books [OF migrate(2,4) custody_basket_wf [OF assms(2) migrate(3)]
      settles_executable [OF migrate(5)]]
  show ?thesis using migrate assms(2) custody_pending_option_wf [OF assms(2), of k]
    by (intro custody_ok_upd [OF assms(2), where u = k and p' = "cu_pending w k"])
      (auto simp: custody_ok_def ran_def)
next
  case (elsewhere vault')
  with assms(2) show ?thesis by (simp add: custody_ok_def)
qed

interpretation custody: invariant_system "custody_step sdk k m tp" "custody_ok m" for sdk k m tp
  by unfold_locales (rule custody_preserved)

section \<open>A concrete history\<close>

definition sample_pending_accounts :: pending_accounts where
  "sample_pending_accounts = \<lparr>pd_token_program = PK 1, pd_user = PK 30, pd_folio_key = PK 1002,
     pd_folio = sample_folio, pd_user_pending_basket_key = PK 31\<rparr>"

definition sample_fill_accounts :: basket_accounts where
  "sample_fill_accounts = \<lparr>ba_token_program = PK 1, ba_folio_owner = PK 60,
     ba_actor = zero_actor\<lparr>actor_roles := 1\<rparr>, ba_folio_key = PK 1002, ba_folio = sample_folio,
     ba_folio_basket = None, ba_folio_basket_bump = 254,
     ba_folio_token_mint = \<lparr>mint_key = PK 7, mint_supply = 0, mint_program = PK 1\<rparr>,
     ba_owner_folio_token_account = PK 62, ba_user_pending_basket_key = PK 63\<rparr>"

definition waiting_basket :: "nat \<Rightarrow> user_pending_basket" where
  "waiting_basket n = \<lparr>upb_bump = 253, upb_owner = PK 30, upb_folio = PK 1002,
     upb_token_amounts = \<lparr>ta_mint = PK 12, amount_for_minting = n, amount_for_redeeming = 0\<rparr>
       # replicate 109 default_token_amount\<rparr>"

definition sample_back_accounts :: "account_info list" where
  "sample_back_accounts = [token_mint_info, sample_token_info (PK 1502) (PK 1002), sample_token_info (PK 530) (PK 30)]"

definition sample_in_accounts :: "account_info list" where
  "sample_in_accounts = [token_mint_info, sample_token_info (PK 530) (PK 30), sample_token_info (PK 1502) (PK 1002)]"

lemmas sample_calls = sample_infos sample_back_accounts_def sample_in_accounts_def

lemma sample_waiting:
  "pending_process_init_if_needed None 253 (PK 30) (PK 1002)
     [\<lparr>ta_mint = PK 12, amount_for_minting = 7, amount_for_redeeming = 0\<rparr>] True = Ok (waiting_basket 7)"
  by (simp add: pending_process_init_if_needed_def add_token_amounts_to_folio_def add_token_amount_def
      find_ta_def update_ta_def replicate_first waiting_basket_def) (simp add: default_token_amount_def)

lemma sample_fill_run:
  "add_to_basket sample_sdk sample_fill_accounts (sample_program_info # token_mint_info
       # [sample_token_info (PK 560) (PK 60), sample_token_info (PK 1502) (PK 1002)]) [70] None 100
     = Ok (sample_folio, filled_basket, [TransferChecked (PK 560) (PK 1502) (PK 60) (PK 12) 70])"
  by (simp add: add_to_basket_def validate_add_to_basket_def sample_fill_accounts_def validate_folio_def
      sample_sdk_def sample_folio_def status_from_def validate_permission_for_action_def has_role_def
      zero_actor_def add_basket_round_def next_token_program_def next_account_def sample_calls
      is_supported_spl_token_def mint_has_extensions_def token_has_extensions_def
      folio_basket_process_init_if_needed_def add_tokens_to_basket_def add_token_to_basket_def
      find_fta_def update_fta_def replicate_first sample_keys filled_basket_def)

lemma sample_add_run:
  "add_to_pending_basket sample_sdk sample_pending_accounts None 253 sample_in_accounts [7] (\<lambda>_ _. None)
     = Ok (waiting_basket 7, [TransferChecked (PK 530) (PK 1502) (PK 30) (PK 12) 7])"
  by (simp add: add_to_pending_basket_def sample_pending_accounts_def validate_folio_def sample_folio_def
      status_from_def check_remaining_accounts_def start_pending_loop_def add_pending_round_def
      next_account_def Let_def sample_calls sample_sdk_def sample_waiting)

lemma sample_back_run:
  "remove_from_pending_basket sample_sdk sample_pending_accounts (waiting_basket 7) sample_back_accounts [3]
     = Ok (waiting_basket 4, [TransferChecked (PK 1502) (PK 530) (PK 1002) (PK 12) 3])"
  by (simp add: remove_from_pending_basket_def sample_pending_accounts_def validate_folio_def sample_folio_def
      check_remaining_accounts_def start_pending_loop_def remove_pending_round_def next_account_def Let_def
      sample_calls sample_sdk_def remove_token_amounts_from_folio_def remove_token_amount_def find_ta_def
      update_ta_def clear_if_empty_def waiting_basket_def)

definition no_custody :: custody where
  "no_custody = \<lparr>cu_basket = None, cu_pending = (\<lambda>_. None), cu_vault = 0\<rparr>"

lemma no_custody_ok: "custody_ok m no_custody"
  by (simp add: custody_ok_def no_custody_def owed_to_users_def)

definition sample_custody :: "nat \<Rightarrow> nat \<Rightarrow> custody" where
  "sample_custody n v = \<lparr>cu_basket = Some filled_basket, cu_pending = [PK 30 \<mapsto> waiting_basket n], cu_vault = v\<rparr>"

lemma sample_decode:
  "mints_decode (PK 12) (PK 1) sample_in_accounts" "mints_decode (PK 12) (PK 1) sample_back_accounts"
  "mints_decode (PK 12) (PK 1) (sample_program_info # token_mint_info
       # [sample_token_info (PK 560) (PK 60), sample_token_info (PK 1502) (PK 1002)])"
  by (simp_all add: mints_decode_def sample_calls)

lemma sample_vault: "associated_token_address sample_sdk (PK 1002) (PK 12) (PK 1) = PK 1502"
  by (simp add: sample_sdk_def)

text \<open>The owner fills the basket, a user adds 7 tokens and takes 3 of them back.\<close>

lemma custody_history:
  "(custody_step sample_sdk (PK 1002) (PK 12) (PK 1))\<^sup>*\<^sup>* no_custody (sample_custody 7 77)"
  "(custody_step sample_sdk (PK 1002) (PK 12) (PK 1))\<^sup>*\<^sup>* no_custody (sample_custody 4 74)"
proof -
  let ?step = "custody_step sample_sdk (PK 1002) (PK 12) (PK 1)"
  define w1 where "w1 = \<lparr>cu_basket = Some filled_basket, cu_pending = (\<lambda>_. None), cu_vault = 70\<rparr>"
  have "?step no_custody (no_custody\<lparr>cu_basket := Some filled_basket, cu_vault := 70\<rparr>)"
    by (rule custody_step.fill_basket [OF sample_fill_run])
      (simp_all add: no_custody_def sample_fill_accounts_def sample_decode [simplified] sample_vault [simplified] settles_def)
  then have 1: "?step no_custody w1" by (simp add: no_custody_def w1_def)
  have "?step w1 (w1\<lparr>cu_pending := (cu_pending w1)(pd_user sample_pending_accounts \<mapsto> waiting_basket 7),
      cu_vault := 77\<rparr>)"
  proof (rule custody_step.add_pending)
    show "add_to_pending_basket sample_sdk sample_pending_accounts (cu_pending w1 (pd_user sample_pending_accounts))
        253 sample_in_accounts [7] (\<lambda>_ _. None)
        = Ok (waiting_basket 7, [TransferChecked (PK 530) (PK 1502) (PK 30) (PK 12) 7])"
      using sample_add_run by (simp add: w1_def)
  qed (simp_all add: w1_def sample_pending_accounts_def sample_decode [simplified] sample_vault [simplified] settles_def)
  then have 2: "?step w1 (sample_custody 7 77)"
    by (simp add: w1_def sample_custody_def sample_pending_accounts_def)
  have "?step (sample_custody 7 77) ((sample_custody 7 77)\<lparr>cu_pending :=
      (cu_pending (sample_custody 7 77))(pd_user sample_pending_accounts \<mapsto> waiting_basket 4), cu_vault := 74\<rparr>)"
    by (rule custody_step.take_back [OF sample_back_run])
      (simp_all add: sample_custody_def sample_pending_accounts_def sample_decode [simplified] sample_vault [simplified] settles_def)
  then have 3: "?step (sample_custody 7 77) (sample_custody 4 74)"
    by (simp add: sample_custody_def sample_pending_accounts_def)
  from 1 2 show "?step\<^sup>*\<^sup>* no_custody (sample_custody 7 77)" by (rule converse_rtranclp_into_rtranclp [OF _ r_into_rtranclp])
  then show "?step\<^sup>*\<^sup>* no_custody (sample_custody 4 74)" using 3 by (rule rtranclp.rtrancl_into_rtrancl)
qed

section \<open>Properties\<close>

text \<open>
  C1: Nothing is owed that is not there. From the creation of a folio on, after every sequence of
  its instructions (filling and emptying the basket, adding to a pending basket, taking back,
  minting, burning, redeeming, closing, bids with and without callback, migration) and of anything
  else that happens on the chain, the token account of the folio for a mint holds at least what the
  basket records of that mint together with the pending amounts of all users, for minting and for
  redeeming, provided that the token program moves exactly what it is told to.
\<close>
theorem tokens_in_custody:
  assumes "(custody_step sdk k m tp)\<^sup>*\<^sup>* no_custody w"
  shows "held (cu_basket w) m + (\<Sum>u \<in> dom (cu_pending w). pending_total_option (cu_pending w u) m) \<le> cu_vault w
    \<and> finite (dom (cu_pending w))"
  using custody.reachable [OF assms no_custody_ok] by (simp add: custody_ok_def owed_to_users_def)

theorem tokens_in_custody_witness:
  "held (Some filled_basket) (PK 12) + (\<Sum>u \<in> {PK 30}. pending_total (waiting_basket 4) (PK 12)) \<le> 74"
  using tokens_in_custody [OF custody_history(2)] by (simp add: sample_custody_def)

text \<open>
  C10: A user can always take pending tokens back. Whatever has happened to the folio and whatever
  its status (killed, migrating or still initializing), a user with an amount of a mint waiting in
  the pending basket can take any part of it back: the handler succeeds on well-formed accounts,
  the only instruction it sends is the transfer of that amount out of the folio's token account,
  and that account holds enough for it.
\<close>
theorem pending_withdrawable:
  assumes "(custody_step sdk k m tp)\<^sup>*\<^sup>* no_custody w" "cu_pending w (pd_user a) = Some p"
    and "0 < n" "n \<le> pending_amount MintProcess (upb_token_amounts p) m"
    and "(pd_folio_key a, folio_bump (pd_folio a))
      = find_program_address sdk [Bytes ''folio'', Key (folio_token_mint (pd_folio a))] FOLIO_PROGRAM_ID"
    and "pd_folio_key a = k" "pd_token_program a = tp"
    and "ai_key mint = m" "ai_mint mint \<noteq> None" "\<not> ai_is_signer mint" "\<not> ai_is_writable mint" "ai_owner mint = tp"
    and "ai_key vault = associated_token_address sdk k m tp" "\<not> ai_is_signer vault" "ai_is_writable vault"
      "ai_owner vault = tp"
    and "ai_key own = associated_token_address sdk (pd_user a) m tp" "\<not> ai_is_signer own" "ai_is_writable own"
      "ai_owner own = tp"
  shows "\<exists>p'. remove_from_pending_basket sdk a p [mint, vault, own] [n]
      = Ok (p', [TransferChecked (ai_key vault) (ai_key own) k m n])
    \<and> pending_amount MintProcess (upb_token_amounts p') m + n = pending_amount MintProcess (upb_token_amounts p) m
    \<and> n \<le> cu_vault w"
proof -
  let ?tas = "upb_token_amounts p" and ?x = "\<lparr>ta_mint = m, amount_for_minting = n, amount_for_redeeming = 0\<rparr>"
  have ok: "custody_ok m w" by (rule custody.reachable [OF assms(1) no_custody_ok])
  have wf: "pending_wf ?tas" by (rule custody_pending_wf [OF ok assms(2)])
  have m: "m \<noteq> default_pubkey" using assms(3,4) by (auto simp: pending_amount_def)
  obtain slot where slot: "find_ta m ?tas = Some slot"
    using assms(3,4) pending_amount_absent by (cases "find_ta m ?tas") fastforce+
  then have le: "n \<le> amount_for_minting slot" using pending_amount_found [OF m slot, of MintProcess] assms(4) by simp
  then obtain tas where tas: "remove_token_amount True MintProcess ?tas ?x = Ok tas"
    using slot by (simp add: remove_token_amount_def checked_sub_def)
  have "pending_total_option (cu_pending w (pd_user a)) m \<le> owed_to_users (cu_pending w) m"
    unfolding owed_to_users_def using ok assms(2) by (intro member_le_sum) (auto simp: custody_ok_def)
  then have "n \<le> cu_vault w" using ok assms(2,4) by (simp add: custody_ok_def pending_total_def)
  moreover have "pending_amount MintProcess tas m + n = pending_amount MintProcess ?tas m"
    using remove_token_amount_effect [OF wf _ tas, of MintProcess] m assms(4) by simp
  moreover have "remove_from_pending_basket sdk a p [mint, vault, own] [n]
      = Ok (p\<lparr>upb_token_amounts := tas\<rparr>, [TransferChecked (ai_key vault) (ai_key own) k m n])"
    using assms(5-) tas by (auto simp: remove_from_pending_basket_def validate_folio_def
        check_remaining_accounts_def start_pending_loop_def remove_pending_round_def next_account_def Let_def
        remove_token_amounts_from_folio_def)
  ultimately show ?thesis by (intro exI [of _ "p\<lparr>upb_token_amounts := tas\<rparr>"]) simp
qed

theorem pending_withdrawable_witness:
  "\<exists>p'. remove_from_pending_basket sample_sdk sample_pending_accounts (waiting_basket 7) sample_back_accounts [5]
    = Ok (p', [TransferChecked (PK 1502) (PK 530) (PK 1002) (PK 12) 5])"
proof -
  have "pending_amount MintProcess (upb_token_amounts (waiting_basket 7)) (PK 12) = 7"
    by (simp add: pending_amount_def waiting_basket_def slot_of_def)
  with pending_withdrawable [OF custody_history(1), of sample_pending_accounts "waiting_basket 7" 5
      token_mint_info "sample_token_info (PK 1502) (PK 1002)" "sample_token_info (PK 530) (PK 30)"]
  show ?thesis
    by (auto simp: sample_custody_def sample_pending_accounts_def sample_calls sample_sdk_def sample_folio_def)
qed

lemma pending_debits_succeed:
  assumes "pending_wf tas" "real_mints xs" "\<forall>x \<in> set xs. 0 < snd x"
    and "\<And>m. sum_for m xs \<le> pending_amount kind tas m"
  shows "\<exists>tas'. fold_result (pending_debit kind) tas xs = Ok tas'"
  using assms
proof (induction xs arbitrary: tas)
  case (Cons x xs)
  obtain m a where x: "x = (m, a)" by (cases x)
  have m: "m \<noteq> default_pubkey" "0 < a" "a + sum_for m xs \<le> pending_amount kind tas m"
    using Cons.prems(2,3) Cons.prems(4) [of m] x by auto
  then obtain s where s: "find_ta m tas = Some s"
    using pending_amount_absent [of m tas kind] by (cases "find_ta m tas") auto
  have "a \<le> side kind s" using pending_amount_found [OF m(1) s, of kind] m(3) by simp
  then obtain t where t: "pending_debit kind tas (m, a) = Ok t"
    using s by (cases kind) (simp_all add: pending_debit_def remove_token_amount_def ta_of_def checked_sub_def)
  note e = pending_debit_effect [OF Cons.prems(1) m(1) t, of kind]
  have "sum_for k xs \<le> pending_amount kind t k" for k
    using Cons.prems(4) [of k] e m(3) x by (auto split: if_splits)
  with Cons.IH [of t] e Cons.prems(2,3) x obtain t' where "fold_result (pending_debit kind) t xs = Ok t'" by auto
  then show ?case using t x by simp
qed simp

text \<open>
  C40: What was added to a pending basket can be taken out again, in any order: if adding a vector of
  positive amounts succeeded, removing the same amounts in any order succeeds, and afterwards every
  amount of both sides is what it was before.
\<close>
theorem deposit_withdraw_round_trip:
  assumes "add_token_amounts_to_folio p xs True kind = Ok p1" "pending_wf (upb_token_amounts p)"
    and "\<forall>x \<in> set xs. ta_mint x \<noteq> default_pubkey \<and> 0 < side kind x" "mset ys = mset xs"
  shows "\<exists>p2. remove_token_amounts_from_folio p1 ys True kind = Ok p2 \<and> pending_wf (upb_token_amounts p2)
    \<and> pending_amount t (upb_token_amounts p2) = pending_amount t (upb_token_amounts p)"
proof -
  let ?pairs = "map (\<lambda>x. (ta_mint x, side kind x))" and ?tas = "upb_token_amounts p" and ?tas1 = "upb_token_amounts p1"
  have c: "fold_result (pending_credit kind) ?tas (?pairs xs) = Ok ?tas1"
    using assms(1) by (auto simp: add_token_amounts_to_folio_def add_token_amounts_credits)
  have set_ys: "set ys = set xs" using assms(4) by (rule mset_eq_setD)
  have r: "real_mints (?pairs xs)" "real_mints (?pairs ys)" "\<forall>x \<in> set (?pairs ys). 0 < snd x"
    using assms(3) set_ys by (auto simp: real_mints_def)
  have m: "mset (?pairs ys) = mset (?pairs xs)" using assms(4) by simp
  have wf: "pending_wf ?tas1" and a: "pending_amount kind ?tas1 k = pending_amount kind ?tas k + sum_for k (?pairs xs)" for k
    using pending.one.credits [OF assms(2) r(1)] pending.two.credits [OF assms(2) r(1)] c by (cases kind; simp)+
  have "sum_for k (?pairs ys) \<le> pending_amount kind ?tas1 k" for k using a [of k] sum_for_mset [OF m] by simp
  then obtain tas2 where d: "fold_result (pending_debit kind) ?tas1 (?pairs ys) = Ok tas2"
    using pending_debits_succeed [OF wf r(2,3)] by blast
  have "pending_wf tas2 \<and> pending_amount t tas2 = pending_amount t ?tas"
  proof (cases kind)
    case MintProcess
    note c = c [unfolded MintProcess] and d = d [unfolded MintProcess]
    note r = r [unfolded MintProcess] and m = m [unfolded MintProcess]
    show ?thesis
      using pending.one.deposit_withdraw [OF assms(2) r(1) c m d] pending.frame1_fold [OF _ assms(2) r(1) c]
        pending.frame1_fold [OF _ wf r(2) d] by (cases t) auto
  next
    case RedeemProcess
    note c = c [unfolded RedeemProcess] and d = d [unfolded RedeemProcess]
    note r = r [unfolded RedeemProcess] and m = m [unfolded RedeemProcess]
    show ?thesis
      using pending.two.deposit_withdraw [OF assms(2) r(1) c m d] pending.frame2_fold [OF _ assms(2) r(1) c]
        pending.frame2_fold [OF _ wf r(2) d] by (cases t) auto
  qed
  then show ?thesis
    by (intro exI [of _ "p1\<lparr>upb_token_amounts := tas2\<rparr>"])
      (simp add: remove_token_amounts_from_folio_def remove_token_amounts_debits d)
qed

theorem deposit_withdraw_round_trip_witness:
  "\<exists>p2. remove_token_amounts_from_folio (waiting_basket 7)
      [\<lparr>ta_mint = PK 12, amount_for_minting = 7, amount_for_redeeming = 0\<rparr>] True MintProcess = Ok p2
    \<and> pending_amount MintProcess (upb_token_amounts p2) (PK 12) = 0"
proof -
  let ?x = "\<lparr>ta_mint = PK 12, amount_for_minting = 7, amount_for_redeeming = 0\<rparr>"
  let ?p = "\<lparr>upb_bump = 253, upb_owner = PK 30, upb_folio = PK 1002,
     upb_token_amounts = replicate MAX_USER_PENDING_BASKET_TOKEN_AMOUNTS default_token_amount\<rparr>"
  have "add_token_amounts_to_folio ?p [?x] True MintProcess = Ok (waiting_basket 7)"
    using sample_waiting by (simp add: pending_process_init_if_needed_def)
  from deposit_withdraw_round_trip [OF this, of "[?x]" MintProcess]
  show ?thesis using pending_wf_init pending_total_fresh [of 253 "PK 30" "PK 1002" "PK 12"]
    by (auto simp: pending_total_def)
qed

end
