(* ===== verification/AuctionLifecycle.thy ===== *)
theory AuctionLifecycle
  imports Bidding
begin

text \<open>
  The auctions of one folio over time: starting rebalances, adding details, opening, bidding and
  closing, in any order, at times that do not go back. The auctions are kept in the order in
  which they were opened. An account of end times lives at the address derived from the nonce and
  the ordered pair of mints, which the handlers check, so it is identified by them here.

  A bid does not check whose auction it names (\<open>bid_ignores_auction_folio\<close>), so there are three kinds
  of bids: on this folio with its own auction, on this folio with an auction of another one, and on
  another folio with an auction of this one. The second kind can end an auction that is not this
  folio's in the account of end times of this folio; \<open>aw_foreign_end\<close> records that it has happened.
\<close>

section \<open>The state machine\<close>

type_synonym ends_key = "nat \<times> pubkey \<times> pubkey"

definition ends_key_of :: "nat \<Rightarrow> pubkey \<Rightarrow> pubkey \<Rightarrow> ends_key" where
  "ends_key_of nonce sell buy = (nonce, keys_pair_in_order sell buy)"

definition auction_key :: "auction \<Rightarrow> ends_key" where
  "auction_key au = ends_key_of (au_nonce au) (sell_mint au) (buy_mint au)"

record auction_world =
  aw_folio_key :: pubkey
  aw_rebalance :: "rebalance option"
  aw_auctions :: "auction list"
  aw_ends :: "ends_key \<Rightarrow> auction_ends option"
  aw_now :: nat
  aw_foreign_end :: bool

definition opened_world :: "auction_world \<Rightarrow> int \<Rightarrow> auction \<Rightarrow> auction_ends \<Rightarrow> rebalance \<Rightarrow> auction_world" where
  "opened_world w t au ends rb =
     w\<lparr>aw_rebalance := Some rb, aw_auctions := aw_auctions w @ [au],
       aw_ends := (aw_ends w)(auction_key au := Some ends), aw_now := as_u64 t\<rparr>"

definition ended_world :: "auction_world \<Rightarrow> int \<Rightarrow> nat \<Rightarrow> auction \<Rightarrow> auction_ends \<Rightarrow> auction_world" where
  "ended_world w t i au ends =
     w\<lparr>aw_auctions := (aw_auctions w)[i := au],
       aw_ends := (aw_ends w)(auction_key (aw_auctions w ! i) := Some ends), aw_now := as_u64 t\<rparr>"

definition foreign_bid_world :: "auction_world \<Rightarrow> int \<Rightarrow> auction \<Rightarrow> auction_ends \<Rightarrow> auction_ends \<Rightarrow> auction_world" where
  "foreign_bid_world w t au ends ends' =
     w\<lparr>aw_ends := (aw_ends w)(auction_key au := Some ends'), aw_now := as_u64 t,
       aw_foreign_end := aw_foreign_end w \<or> ends' \<noteq> ends\<rparr>"

text \<open>No mint lives at the default key, which is the address of the system program.\<close>

inductive auction_step :: "auction_world \<Rightarrow> auction_world \<Rightarrow> bool" where
  start: "start_rebalance_handler sdk a mints t window ttl pls all_added = Ok (f', rb') \<Longrightarrow>
     ra_rebalance a = aw_rebalance w \<Longrightarrow> ra_folio_key a = aw_folio_key w \<Longrightarrow>
     default_pubkey \<notin> ai_key ` set mints \<Longrightarrow> aw_now w \<le> as_u64 t \<Longrightarrow>
     auction_step w (w\<lparr>aw_rebalance := Some rb', aw_now := as_u64 t\<rparr>)"
| add_details: "add_rebalance_details_handler sdk actor key f rb mints pls all_added = Ok rb' \<Longrightarrow>
     aw_rebalance w = Some rb \<Longrightarrow> default_pubkey \<notin> ai_key ` set mints \<Longrightarrow>
     auction_step w (w\<lparr>aw_rebalance := Some rb'\<rparr>)"
| open_launcher: "open_auction_handler sdk a t1 t2 sl bl ps pe t = Ok (f', au, ends, rb') \<Longrightarrow>
     aw_rebalance w = Some (oa_rebalance a) \<Longrightarrow> oa_folio_key a = aw_folio_key w \<Longrightarrow>
     oa_auction_ends a = aw_ends w (ends_key_of (rb_nonce (oa_rebalance a)) (oa_sell_mint a) (oa_buy_mint a)) \<Longrightarrow>
     aw_now w \<le> as_u64 t \<Longrightarrow>
     auction_step w (opened_world w t au ends rb')"
| open_anyone: "open_auction_permissionless_handler sdk a t1 t2 t = Ok (f', au, ends, rb') \<Longrightarrow>
     aw_rebalance w = Some (oa_rebalance a) \<Longrightarrow> oa_folio_key a = aw_folio_key w \<Longrightarrow>
     oa_auction_ends a = aw_ends w (ends_key_of (rb_nonce (oa_rebalance a)) (oa_sell_mint a) (oa_buy_mint a)) \<Longrightarrow>
     aw_now w \<le> as_u64 t \<Longrightarrow>
     auction_step w (opened_world w t au ends rb')"
| bid: "bid sdk invoke accs a t s mx wc data before = Ok (f', b', au', ends', cpis) \<Longrightarrow>
     i < length (aw_auctions w) \<Longrightarrow> bd_auction a = aw_auctions w ! i \<Longrightarrow>
     bd_folio_key a = aw_folio_key w \<Longrightarrow> aw_rebalance w = Some (bd_rebalance a) \<Longrightarrow>
     aw_ends w (auction_key (bd_auction a)) = Some (bd_auction_ends a) \<Longrightarrow>
     aw_now w \<le> as_u64 t \<Longrightarrow>
     auction_step w (ended_world w t i au' ends')"
| bid_with_foreign_auction: "bid sdk invoke accs a t s mx wc data before = Ok (f', b', au', ends', cpis) \<Longrightarrow>
     au_folio (bd_auction a) \<noteq> aw_folio_key w \<Longrightarrow>
     bd_folio_key a = aw_folio_key w \<Longrightarrow> aw_rebalance w = Some (bd_rebalance a) \<Longrightarrow>
     aw_ends w (auction_key (bd_auction a)) = Some (bd_auction_ends a) \<Longrightarrow>
     aw_now w \<le> as_u64 t \<Longrightarrow>
     auction_step w (foreign_bid_world w t (bd_auction a) (bd_auction_ends a) ends')"
| bid_on_other_folio: "bid sdk invoke accs a t s mx wc data before = Ok (f', b', au', ends', cpis) \<Longrightarrow>
     i < length (aw_auctions w) \<Longrightarrow> bd_auction a = aw_auctions w ! i \<Longrightarrow>
     bd_folio_key a \<noteq> aw_folio_key w \<Longrightarrow> aw_now w \<le> as_u64 t \<Longrightarrow>
     auction_step w (w\<lparr>aw_auctions := (aw_auctions w)[i := au'], aw_now := as_u64 t\<rparr>)"
| close: "close_auction sdk a t = Ok (au', ends') \<Longrightarrow>
     i < length (aw_auctions w) \<Longrightarrow> ca_auction a = aw_auctions w ! i \<Longrightarrow>
     aw_ends w (auction_key (ca_auction a)) = Some (ca_auction_ends a) \<Longrightarrow>
     aw_now w \<le> as_u64 t \<Longrightarrow>
     auction_step w (ended_world w t i au' ends')"

inductive_cases auction_stepE: "auction_step w w'"

section \<open>The invariant\<close>

text \<open>
  An account of end times carries the nonce and pair of its address (\<open>keys_ok\<close>), and no auction
  with this nonce and pair ends after it (\<open>ends_ok\<close>).
\<close>

definition keys_ok :: "auction_world \<Rightarrow> bool" where
  "keys_ok w \<longleftrightarrow> (\<forall>k e. aw_ends w k = Some e \<longrightarrow> (ae_rebalance_nonce e, token_mint_1 e, token_mint_2 e) = k)"

definition ends_ok :: "auction_world \<Rightarrow> bool" where
  "ends_ok w \<longleftrightarrow>
     (\<forall>au \<in> set (aw_auctions w). \<exists>e. aw_ends w (auction_key au) = Some e \<and> au_end au \<le> end_time e)"

text \<open>Auctions of the same nonce and pair follow one another, and none starts in the future.\<close>

definition in_sequence :: "auction list \<Rightarrow> bool" where
  "in_sequence aus \<longleftrightarrow> (\<forall>i j. i < j \<longrightarrow> j < length aus \<longrightarrow> auction_key (aus ! i) = auction_key (aus ! j)
     \<longrightarrow> au_end (aus ! i) < au_start (aus ! j))"

definition ids_ok :: "auction list \<Rightarrow> nat \<Rightarrow> nat \<Rightarrow> bool" where
  "ids_ok aus nonce last_id \<longleftrightarrow>
     (\<forall>au \<in> set aus. au_nonce au < nonce \<or> au_nonce au = nonce \<and> au_id au \<le> last_id)
     \<and> distinct (map (\<lambda>au. (au_nonce au, au_id au)) aus)"

definition auction_world_ok :: "auction_world \<Rightarrow> bool" where
  "auction_world_ok w \<longleftrightarrow> keys_ok w \<and> (\<not> aw_foreign_end w \<longrightarrow> ends_ok w \<and> in_sequence (aw_auctions w))
     \<and> (\<forall>au \<in> set (aw_auctions w). au_start au \<le> aw_now w)
     \<and> (case aw_rebalance w of None \<Rightarrow> aw_auctions w = []
        | Some rb \<Rightarrow> rebalance_wf rb \<and> ids_ok (aw_auctions w) (rb_nonce rb) (current_auction_id rb))"

text \<open>An auction that only ends earlier.\<close>

lemma in_sequence_update:
  assumes "in_sequence aus" "i < length aus" "auction_key au = auction_key (aus ! i)"
    and "au_start au = au_start (aus ! i)" "au_end au \<le> au_end (aus ! i)"
  shows "in_sequence (aus[i := au])"
  unfolding in_sequence_def
proof (intro allI impI)
  fix j k assume *: "j < k" "k < length (aus[i := au])"
    "auction_key (aus[i := au] ! j) = auction_key (aus[i := au] ! k)"
  then have "auction_key (aus ! j) = auction_key (aus ! k)"
    using assms(2,3) by (auto simp: nth_list_update split: if_splits)
  then have "au_end (aus ! j) < au_start (aus ! k)" using assms(1) * by (auto simp: in_sequence_def)
  then show "au_end (aus[i := au] ! j) < au_start (aus[i := au] ! k)"
    using assms * by (auto simp: nth_list_update)
qed

lemma in_sequence_append:
  assumes "in_sequence aus"
    and "\<And>au'. au' \<in> set aus \<Longrightarrow> auction_key au' = auction_key au \<Longrightarrow> au_end au' < au_start au"
  shows "in_sequence (aus @ [au])"
  unfolding in_sequence_def
proof (intro allI impI)
  fix i j assume *: "i < j" "j < length (aus @ [au])"
    "auction_key ((aus @ [au]) ! i) = auction_key ((aus @ [au]) ! j)"
  show "au_end ((aus @ [au]) ! i) < au_start ((aus @ [au]) ! j)"
  proof (cases "j = length aus")
    case True
    then show ?thesis using * assms(2) [of "aus ! i"] by (simp add: nth_append)
  next
    case False
    then show ?thesis using * assms(1) by (simp add: nth_append in_sequence_def)
  qed
qed

lemma ids_ok_append:
  assumes "ids_ok aus nonce n" "au_nonce au = nonce" "au_id au = n + 1"
  shows "ids_ok (aus @ [au]) nonce (n + 1)"
proof -
  have "(au_nonce au, au_id au) \<notin> (\<lambda>au. (au_nonce au, au_id au)) ` set aus"
  proof
    assume "(au_nonce au, au_id au) \<in> (\<lambda>au. (au_nonce au, au_id au)) ` set aus"
    then obtain x where "x \<in> set aus" "au_nonce x = nonce" "au_id x = n + 1" using assms(2,3) by auto
    then show False using assms(1) by (auto simp: ids_ok_def)
  qed
  moreover have "\<forall>x \<in> set aus. au_nonce x < nonce \<or> au_nonce x = nonce \<and> au_id x \<le> n + 1"
    using assms(1) unfolding ids_ok_def by (meson le_SucI le_add1 le_trans)
  ultimately show ?thesis using assms by (simp add: ids_ok_def)
qed

lemma ids_ok_update:
  assumes "ids_ok aus nonce n" "i < length aus" "au_nonce au = au_nonce (aus ! i)" "au_id au = au_id (aus ! i)"
  shows "ids_ok (aus[i := au]) nonce n"
proof -
  have "map (\<lambda>au. (au_nonce au, au_id au)) (aus[i := au]) = map (\<lambda>au. (au_nonce au, au_id au)) aus"
    using assms(3,4) by (simp add: map_update)
       (metis (mono_tags, lifting) assms(2) list_update_id nth_map)
  moreover have "\<forall>x \<in> set (aus[i := au]). \<exists>y \<in> set aus. au_nonce x = au_nonce y \<and> au_id x = au_id y"
    using set_update_subset_insert assms(2-4) nth_mem by fastforce
  ultimately show ?thesis using assms(1) unfolding ids_ok_def by metis
qed

lemma ids_ok_next: "ids_ok aus nonce n \<Longrightarrow> ids_ok aus (nonce + 1) 0"
  by (auto simp: ids_ok_def)

section \<open>Every step keeps it\<close>

lemma keys_okD:
  "keys_ok w \<Longrightarrow> aw_ends w k = Some e \<Longrightarrow> (ae_rebalance_nonce e, token_mint_1 e, token_mint_2 e) = k"
  unfolding keys_ok_def by blast

lemma keys_ok_upd:
  assumes "keys_ok w" "(ae_rebalance_nonce e, token_mint_1 e, token_mint_2 e) = k"
    and "aw_ends w' = (aw_ends w)(k := Some e)"
  shows "keys_ok w'"
  unfolding keys_ok_def
proof (intro allI impI)
  fix k' x assume "aw_ends w' k' = Some x"
  then show "(ae_rebalance_nonce x, token_mint_1 x, token_mint_2 x) = k'"
    using keys_okD [OF assms(1), of k' x] assms(2) by (cases "k' = k") (simp_all add: assms(3))
qed

lemma ends_ok_end:
  "ends_ok w \<Longrightarrow> x \<in> set (aw_auctions w) \<Longrightarrow>
     \<exists>e. aw_ends w (auction_key x) = Some e \<and> au_end x \<le> end_time e"
  unfolding ends_ok_def by blast

lemma opened_ok:
  assumes w: "auction_world_ok w" "aw_rebalance w = Some (oa_rebalance a)"
    and k: "oa_auction_ends a
      = aw_ends w (ends_key_of (rb_nonce (oa_rebalance a)) (oa_sell_mint a) (oa_buy_mint a))"
    and now: "aw_now w \<le> as_u64 t"
    and run: "open_validated_auction a (ae_bump (oa_ends a)) t buffer config p = Ok (f', au, ends', rb')"
  shows "auction_world_ok (opened_world w t au ends' rb')"
proof -
  let ?k = "ends_key_of (rb_nonce (oa_rebalance a)) (oa_sell_mint a) (oa_buy_mint a)"
  from run obtain ends where
    i: "auction_ends_process_init_if_needed (oa_ends a) (ae_bump (oa_ends a)) (oa_sell_mint a)
      (oa_buy_mint a) (rb_nonce (oa_rebalance a)) = Ok ends" and
    o: "open_auction (default_auction\<lparr>au_bump := oa_auction_bump a\<rparr>) f' (oa_folio_key a)
      (oa_folio_basket a) ends (mint_supply (oa_folio_token_mint a)) (oa_rebalance a)
      (oa_sell_mint a) (oa_buy_mint a) (as_u64 t) buffer config p = Ok (au, ends', rb')"
    by (rule open_validated_Ok)
  have au: "au_id au = current_auction_id (oa_rebalance a) + 1" "au_nonce au = rb_nonce (oa_rebalance a)"
    "au_start au = as_u64 t" "auction_key au = ?k" "au_end au = end_time ends'" "as_u64 t \<le> end_time ends'"
    and e': "ends' = ends\<lparr>end_time := end_time ends'\<rparr>" "end_time ends < as_u64 t"
    and ne: "oa_sell_mint a \<noteq> oa_buy_mint a"
    using o
  proof (atomize (full), rule open_auction_effect, goal_cases)
    case (1 i j sd bd)
    have "au_id au = current_auction_id (oa_rebalance a) + 1" "au_nonce au = rb_nonce (oa_rebalance a)"
      "au_start au = as_u64 t" "sell_mint au = oa_sell_mint a" "buy_mint au = oa_buy_mint a"
      "au_end au = as_u64 t + folio_auction_length f'"
      by (subst 1(20), simp)+
    then show ?case using 1(8,18,21) by (simp add: auction_key_def)
  qed
  note flags = open_auction_keeps_flags [OF o]
  have wf: "rebalance_wf (oa_rebalance a)" and ids: "ids_ok (aw_auctions w) (rb_nonce (oa_rebalance a))
      (current_auction_id (oa_rebalance a))" and ko: "keys_ok w"
    and eo: "\<not> aw_foreign_end w \<Longrightarrow> ends_ok w" and sq: "\<not> aw_foreign_end w \<Longrightarrow> in_sequence (aw_auctions w)"
    and st: "\<forall>au \<in> set (aw_auctions w). au_start au \<le> aw_now w"
    using w by (simp_all add: auction_world_ok_def)
  have fields: "(ae_rebalance_nonce ends, token_mint_1 ends, token_mint_2 ends) = ?k
      \<and> (\<forall>e. aw_ends w ?k = Some e \<longrightarrow> ends = e)"
  proof (cases "aw_ends w ?k")
    case None
    then have oe: "oa_ends a = default_auction_ends" using k by (simp add: oa_ends_def)
    have "keys_pair_in_order (oa_sell_mint a) (oa_buy_mint a) \<noteq> (default_pubkey, default_pubkey)"
      using ne by (auto simp: keys_pair_in_order_def)
    then show ?thesis
      using auction_ends_init_Ok [OF i] oe None
      by (auto simp: default_auction_ends_def ends_key_of_def prod_eq_iff)
  next
    case (Some e)
    then have oe: "oa_ends a = e" using k by (simp add: oa_ends_def)
    have "(ae_rebalance_nonce e, token_mint_1 e, token_mint_2 e) = ?k" by (rule keys_okD [OF ko Some])
    moreover from this have "ends = e"
      using i oe by (auto simp: auction_ends_process_init_if_needed_def ends_key_of_def Let_def split: prod.splits)
    ultimately show ?thesis using Some by simp
  qed
  have before: "au_end x < as_u64 t" if own: "\<not> aw_foreign_end w" and x: "x \<in> set (aw_auctions w)" "auction_key x = ?k" for x
  proof -
    from eo [OF own] x obtain e where "aw_ends w ?k = Some e" "au_end x \<le> end_time e" by (auto simp: ends_ok_def)
    then show ?thesis using fields e'(2) by auto
  qed
  have "in_sequence (aw_auctions w @ [au])" if own: "\<not> aw_foreign_end w"
    using sq [OF own] by (rule in_sequence_append) (use before [OF own] au in simp)
  moreover have "ids_ok (aw_auctions w @ [au]) (rb_nonce rb') (current_auction_id rb')"
    using ids_ok_append [OF ids au(2,1)] flags by simp
  moreover have "rebalance_wf rb'" by (rule open_auction_wf [OF o wf])
  moreover have k': "(ae_rebalance_nonce ends', token_mint_1 ends', token_mint_2 ends') = ?k"
    using fields by (subst (1 2 3) e'(1)) simp
  have "keys_ok (opened_world w t au ends' rb')"
    by (rule keys_ok_upd [OF ko k']) (simp add: opened_world_def au(4))
  moreover have "ends_ok (opened_world w t au ends' rb')" if own: "\<not> aw_foreign_end w"
    unfolding ends_ok_def
  proof (intro ballI)
    fix x assume "x \<in> set (aw_auctions (opened_world w t au ends' rb'))"
    then consider "x = au" | "x \<in> set (aw_auctions w)" "auction_key x = ?k"
      | "x \<in> set (aw_auctions w)" "auction_key x \<noteq> ?k"
      by (auto simp: opened_world_def)
    then show "\<exists>e. aw_ends (opened_world w t au ends' rb') (auction_key x) = Some e \<and> au_end x \<le> end_time e"
    proof cases
      case 2
      then show ?thesis using before [OF own 2] au(4,6) by (simp add: opened_world_def)
    next
      case 3
      then show ?thesis using ends_ok_end [OF eo [OF own]] au(4) by (simp add: opened_world_def)
    qed (simp add: opened_world_def au(5))
  qed
  moreover have "\<forall>x \<in> set (aw_auctions w @ [au]). au_start x \<le> as_u64 t" using st now au(3) by fastforce
  ultimately show ?thesis by (simp add: auction_world_ok_def opened_world_def)
qed

text \<open>Ending the auction \<open>i\<close> earlier: its end and the account of end times move to \<open>t - 1\<close>.\<close>

lemma updated_started:
  assumes "\<forall>au \<in> set aus. au_start au \<le> n" "i < length aus" "au_start au' = au_start (aus ! i)" "n \<le> m"
  shows "\<forall>x \<in> set (aus[i := au']). au_start x \<le> m"
proof
  fix x assume "x \<in> set (aus[i := au'])"
  then have "x \<in> set aus \<or> x = au'" using set_update_subset_insert by fastforce
  then have "au_start x \<le> n" using assms(1-3) nth_mem by metis
  then show "au_start x \<le> m" using assms(4) by simp
qed

lemma ended_ok:
  assumes w: "auction_world_ok w" and i: "i < length (aw_auctions w)"
    and e: "aw_ends w (auction_key (aw_auctions w ! i)) = Some e"
    and now: "aw_now w \<le> as_u64 t"
    and au: "au' = aw_auctions w ! i \<and> e' = e
      \<or> 1 \<le> as_u64 t \<and> as_u64 t \<le> au_end (aw_auctions w ! i)
         \<and> au' = (aw_auctions w ! i)\<lparr>au_end := as_u64 t - 1\<rparr> \<and> e' = e\<lparr>end_time := as_u64 t - 1\<rparr>"
  shows "auction_world_ok (ended_world w t i au' e')"
proof -
  let ?aus = "aw_auctions w" and ?k = "auction_key (aw_auctions w ! i)"
  have ko: "keys_ok w" and eo: "\<not> aw_foreign_end w \<Longrightarrow> ends_ok w"
    and sq: "\<not> aw_foreign_end w \<Longrightarrow> in_sequence ?aus" and st: "\<forall>au \<in> set ?aus. au_start au \<le> aw_now w"
    using w by (simp_all add: auction_world_ok_def)
  have same: "au_nonce au' = au_nonce (?aus ! i)" "au_id au' = au_id (?aus ! i)"
    "au_start au' = au_start (?aus ! i)" "auction_key au' = ?k" "au_end au' \<le> au_end (?aus ! i)"
    using au by (auto simp: auction_key_def)
  have e'f: "(ae_rebalance_nonce e', token_mint_1 e', token_mint_2 e') = ?k"
    using au keys_okD [OF ko e] by auto
  have others: "au_end x \<le> end_time e'"
    if own: "\<not> aw_foreign_end w" and x: "x \<in> set (?aus[i := au'])" "auction_key x = ?k" for x
  proof -
    from x(1) obtain j where j: "j < length ?aus" "x = ?aus[i := au'] ! j" by (auto simp: in_set_conv_nth)
    show ?thesis
      using au
    proof (elim disjE conjE)
      assume "au' = ?aus ! i" "e' = e"
      then show ?thesis using ends_ok_end [OF eo [OF own], of x] j e x(2) i by (auto simp: nth_list_update)
    next
      assume *: "1 \<le> as_u64 t" "as_u64 t \<le> au_end (?aus ! i)"
        "au' = (?aus ! i)\<lparr>au_end := as_u64 t - 1\<rparr>" "e' = e\<lparr>end_time := as_u64 t - 1\<rparr>"
      consider "j = i" | "j < i" | "i < j" by linarith
      then show ?thesis
      proof cases
        case 2
        then have "au_end x < au_start (?aus ! i)" using sq [OF own] i j x(2) by (simp add: in_sequence_def)
        moreover have "au_start (?aus ! i) \<le> as_u64 t" using st i now by (meson nth_mem order_trans)
        ultimately show ?thesis using *(4) by simp
      next
        case 3
        then have "au_end (?aus ! i) < au_start x" using sq [OF own] i j x(2) by (simp add: in_sequence_def)
        moreover have "au_start x \<le> as_u64 t" using st j 3 now by (simp) (meson nth_mem order_trans)
        ultimately show ?thesis using *(2) by simp
      qed (use * i j in simp)
    qed
  qed
  have sq': "in_sequence (?aus[i := au'])" if own: "\<not> aw_foreign_end w"
    by (rule in_sequence_update [OF sq [OF own] i]) (use same in simp_all)
  have st': "\<forall>x \<in> set (?aus[i := au']). au_start x \<le> as_u64 t"
    by (rule updated_started [OF st i same(3) now])
  have ko': "keys_ok (ended_world w t i au' e')"
    by (rule keys_ok_upd [OF ko e'f]) (simp add: ended_world_def)
  have eo': "ends_ok (ended_world w t i au' e')" if own: "\<not> aw_foreign_end w"
    unfolding ends_ok_def
  proof (intro ballI)
    fix x assume "x \<in> set (aw_auctions (ended_world w t i au' e'))"
    then have x: "x \<in> set (?aus[i := au'])" by (simp add: ended_world_def)
    show "\<exists>y. aw_ends (ended_world w t i au' e') (auction_key x) = Some y \<and> au_end x \<le> end_time y"
    proof (cases "auction_key x = ?k")
      case True
      then show ?thesis using others [OF own x] by (simp add: ended_world_def)
    next
      case False
      then have "x \<noteq> au'" using same(4) by auto
      then have "x \<in> set ?aus" using x set_update_subset_insert by fastforce
      then show ?thesis using ends_ok_end [OF eo [OF own]] False by (simp add: ended_world_def)
    qed
  qed
  show ?thesis
    using w ko' eo' sq' st' ids_ok_update [OF _ i same(1,2)] i
    by (auto simp: auction_world_ok_def ended_world_def split: option.splits)
qed

text \<open>A bid on another folio ends an auction of this one, its end times stay.\<close>

lemma ended_elsewhere_ok:
  assumes w: "auction_world_ok w" and i: "i < length (aw_auctions w)" and now: "aw_now w \<le> as_u64 t"
    and au: "au' = aw_auctions w ! i
      \<or> as_u64 t \<le> au_end (aw_auctions w ! i) \<and> au' = (aw_auctions w ! i)\<lparr>au_end := as_u64 t - 1\<rparr>"
  shows "auction_world_ok (w\<lparr>aw_auctions := (aw_auctions w)[i := au'], aw_now := as_u64 t\<rparr>)"
proof -
  let ?aus = "aw_auctions w"
  have same: "au_nonce au' = au_nonce (?aus ! i)" "au_id au' = au_id (?aus ! i)"
    "au_start au' = au_start (?aus ! i)" "auction_key au' = auction_key (?aus ! i)" "au_end au' \<le> au_end (?aus ! i)"
    using au by (auto simp: auction_key_def)
  have "ends_ok (w\<lparr>aw_auctions := ?aus[i := au'], aw_now := as_u64 t\<rparr>)" if own: "ends_ok w"
    unfolding ends_ok_def
  proof (intro ballI)
    fix x assume "x \<in> set (aw_auctions (w\<lparr>aw_auctions := ?aus[i := au'], aw_now := as_u64 t\<rparr>))"
    then have "x \<in> set ?aus \<or> x = au'" using set_update_subset_insert by fastforce
    then obtain y where "y \<in> set ?aus" "auction_key x = auction_key y" "au_end x \<le> au_end y"
      using same(4,5) nth_mem [OF i] by auto
    then show "\<exists>e. aw_ends (w\<lparr>aw_auctions := ?aus[i := au'], aw_now := as_u64 t\<rparr>) (auction_key x) = Some e
        \<and> au_end x \<le> end_time e"
      using ends_ok_end [OF own, of y] by auto
  qed
  moreover have "in_sequence (?aus[i := au'])" if "in_sequence ?aus"
    by (rule in_sequence_update [OF that i]) (use same in simp_all)
  moreover have "\<forall>x \<in> set (?aus[i := au']). au_start x \<le> as_u64 t"
    by (rule updated_started [OF _ i same(3) now]) (use w in \<open>simp add: auction_world_ok_def\<close>)
  ultimately show ?thesis
    using w ids_ok_update [OF _ i same(1,2)] i
    by (auto simp: auction_world_ok_def keys_ok_def split: option.splits)
qed

lemma foreign_bid_ok:
  assumes w: "auction_world_ok w" and e: "aw_ends w (auction_key au) = Some e" and now: "aw_now w \<le> as_u64 t"
    and e': "e' = e \<or> e' = e\<lparr>end_time := n\<rparr>"
  shows "auction_world_ok (foreign_bid_world w t au e e')"
proof -
  have ko: "keys_ok w" using w by (simp add: auction_world_ok_def)
  have "keys_ok (foreign_bid_world w t au e e')"
    by (rule keys_ok_upd [OF ko, where k = "auction_key au"])
      (use keys_okD [OF ko e] e' in \<open>auto simp: foreign_bid_world_def\<close>)
  moreover have "(aw_ends w)(auction_key au \<mapsto> e) = aw_ends w" using e by (simp add: fun_upd_idem)
  moreover have "\<forall>x \<in> set (aw_auctions w). au_start x \<le> as_u64 t"
    using w now by (auto simp: auction_world_ok_def)
  ultimately show ?thesis
    using w by (auto simp: auction_world_ok_def ends_ok_def foreign_bid_world_def split: option.splits)
qed

lemma add_details_frame:
  "add_rebalance_details rb mints pls b = Ok rb' \<Longrightarrow>
     rb_nonce rb' = rb_nonce rb \<and> current_auction_id rb' = current_auction_id rb"
  by (auto simp: add_rebalance_details_def)

lemma auction_world_ok_step: "auction_step w w' \<Longrightarrow> auction_world_ok w \<Longrightarrow> auction_world_ok w'"
proof (induction rule: auction_step.induct)
  case (start sdk a mints t window ttl pls all_added f' rb' w)
  obtain rb0 where i: "rebalance_process_init_if_needed (ra_rebalance a) (ra_rebalance_bump a) (ra_folio_key a) = Ok rb0"
    and s: "start_rebalance rb0 (as_u64 t) window ttl (map ai_key mints) pls all_added = Ok rb'"
    using start.hyps(1) by (auto simp: start_rebalance_handler_def)
  have fr: "rebalance_wf rb'" "rb_nonce rb' = rb_nonce rb0 + 1" "current_auction_id rb' = 0"
    using start_rebalance_frame [OF s] start.hyps(4) by simp_all
  have "ids_ok (aw_auctions w) (rb_nonce rb0 + 1) 0"
  proof (cases "aw_rebalance w")
    case None
    then show ?thesis using start.prems by (simp add: auction_world_ok_def ids_ok_def)
  next
    case (Some rb)
    then have "rb0 = rb" using i start.hyps(2)
      by (simp add: rebalance_process_init_if_needed_def)
    then show ?thesis
      using start.prems Some ids_ok_next [of "aw_auctions w" "rb_nonce rb"] by (auto simp: auction_world_ok_def)
  qed
  moreover have "\<forall>au \<in> set (aw_auctions w). au_start au \<le> as_u64 t"
    using start.prems start.hyps(5) by (fastforce simp: auction_world_ok_def)
  ultimately show ?case using start.prems fr by (simp add: auction_world_ok_def ends_ok_def keys_ok_def)
next
  case (add_details sdk actor key f rb mints pls all_added rb' w)
  have d: "add_rebalance_details rb (map ai_key mints) pls all_added = Ok rb'"
    using add_details.hyps(1) by (simp add: add_rebalance_details_handler_def)
  have "rebalance_wf rb'"
    using add_details_wf [OF _ _ d] add_details.hyps(2,3) add_details.prems by (simp add: auction_world_ok_def)
  then show ?case
    using add_details.prems add_details.hyps(2) add_details_frame [OF d]
    by (simp add: auction_world_ok_def ends_ok_def keys_ok_def)
next
  case (open_launcher sdk a t1 t2 sl bl ps pe t f' au ends rb' w)
  then show ?case by (elim open_handler_Ok) (auto intro!: opened_ok)
next
  case (open_anyone sdk a t1 t2 t f' au ends rb' w)
  then show ?case by (elim open_permissionless_Ok) (auto intro!: opened_ok)
next
  case (bid sdk invoke accs a t s mx wc data before f' b' au' ends' cpis i w)
  from bid.hyps(1) show ?case
  proof (rule bid_Ok, goal_cases)
    case (1 num den fl avail bought price ts b1 presence payment buy_presence)
    have "as_u64 t \<le> au_end (bd_auction a)" using validate_bid_Ok [OF 1(1)] by blast
    then show ?case
      using bid.prems bid.hyps 1(8) by (intro ended_ok) (auto split: if_splits)
  qed
next
  case (bid_with_foreign_auction sdk invoke accs a t s mx wc data before f' b' au' ends' cpis w)
  from bid_with_foreign_auction.hyps(1) show ?case
  proof (rule bid_Ok, goal_cases)
    case (1 num den fl avail bought price ts b1 presence payment buy_presence)
    show ?case
      by (rule foreign_bid_ok [where n = "as_u64 t - 1", OF bid_with_foreign_auction.prems
            bid_with_foreign_auction.hyps(5,6)]) (use 1(8) in \<open>auto split: if_splits\<close>)
  qed
next
  case (bid_on_other_folio sdk invoke accs a t s mx wc data before f' b' au' ends' cpis i w)
  from bid_on_other_folio.hyps(1) show ?case
  proof (rule bid_Ok, goal_cases)
    case (1 num den fl avail bought price ts b1 presence payment buy_presence)
    have "as_u64 t \<le> au_end (bd_auction a)" using validate_bid_Ok [OF 1(1)] by blast
    then show ?case
      using bid_on_other_folio.hyps(3) 1(8)
      by (intro ended_elsewhere_ok bid_on_other_folio.prems bid_on_other_folio.hyps(2,5)) (auto split: if_splits)
  qed
next
  case (close sdk a t au' ends' i w)
  have "au' = ca_auction a \<and> ends' = ca_auction_ends a
      \<or> 1 \<le> as_u64 t \<and> as_u64 t \<le> au_end (ca_auction a)
        \<and> au' = (ca_auction a)\<lparr>au_end := as_u64 t - 1\<rparr> \<and> ends' = (ca_auction_ends a)\<lparr>end_time := as_u64 t - 1\<rparr>"
    using close.hyps(1) by (auto simp: close_auction_def split: if_splits)
  then show ?case using close.prems close.hyps by (intro ended_ok) auto
qed

interpretation auctions: invariant_system auction_step auction_world_ok
  by unfold_locales (rule auction_world_ok_step)

section \<open>A concrete history\<close>

definition empty_world :: auction_world where
  "empty_world = \<lparr>aw_folio_key = PK 1002, aw_rebalance = None, aw_auctions = [], aw_ends = (\<lambda>_. None),
     aw_now = 0, aw_foreign_end = False\<rparr>"

lemma empty_world_ok: "auction_world_ok empty_world"
  by (simp add: auction_world_ok_def empty_world_def ends_ok_def keys_ok_def in_sequence_def)

lemma sample_poke_first_day:
  assumes "t < 86400"
  shows "poke sample_folio raw (int t) num den fl = Ok sample_folio"
proof -
  have "as_u64 (int t) = t" using assms by (simp add: as_u64_def)
  then show ?thesis using assms by (simp add: day_start_def const_defs sample_folio_def)
qed

text \<open>The opposite auction after the first, in the basket \<open>b\<close>, when the account of end times says \<open>e\<close>.\<close>

definition second_open :: "folio_basket \<Rightarrow> nat \<Rightarrow> open_auction_accounts" where
  "second_open b e = sample_open\<lparr>oa_auction_bump := 0, oa_sell_mint := PK 12, oa_buy_mint := PK 11,
     oa_rebalance := opened_rebalance, oa_folio_basket := b,
     oa_auction_ends := Some (sample_ends\<lparr>end_time := e\<rparr>)\<rparr>"

lemma second_open_run:
  assumes b: "get_token_amount_in_folio_basket b (PK 12) = Ok 250"
      "get_token_amount_in_folio_basket_or_zero b (PK 11) = 200"
    and t: "60 \<le> t" "t \<le> 86000" "e < t"
  shows "\<exists>rb. open_auction_permissionless_handler sample_sdk (second_open b e) (PK 11) (PK 12) (int t)
     = Ok (sample_folio, swapped_auction t, sample_ends\<lparr>end_time := t + 3600\<rparr>, rb)"
proof -
  obtain rb where o: "open_auction default_auction sample_folio (PK 1002) b (sample_ends\<lparr>end_time := e\<rparr>) 1000
     opened_rebalance (PK 12) (PK 11) t 0 None True
   = Ok (swapped_auction t, sample_ends\<lparr>end_time := t + 3600\<rparr>, rb)"
    using swapped_open_at [OF b, of t e] t by auto
  have d: "default_auction\<lparr>au_bump := 0\<rparr> = default_auction" by (simp add: default_auction_def)
  have v: "validate_open_auction_permissionless sample_sdk (second_open b e) (PK 11) (PK 12) = Ok 0"
    by (simp add: validate_open_auction_permissionless_def validate_open_auction_keys_def second_open_def
        sample_open_def sample_sdk_def oa_ends_def sample_ends_def validate_folio_def sample_folio_def
        status_from_def validate_auction_ends_with_keys_and_get_bump_def Let_def keys_pair_in_order_def
        less_pubkey_def)
  have i: "auction_ends_process_init_if_needed (sample_ends\<lparr>end_time := e\<rparr>) 0 (PK 12) (PK 11) n
      = Ok (sample_ends\<lparr>end_time := e\<rparr>)" for n
    by (simp add: auction_ends_process_init_if_needed_def keys_pair_in_order_def less_pubkey_def sample_ends_def)
  have "as_u64 (int t) = t" using t by (simp add: as_u64_def)
  moreover have "poke sample_folio 1000 (int t) n d' fl = Ok sample_folio" for n d' fl
    using t by (intro sample_poke_first_day) simp
  ultimately show ?thesis
    unfolding open_auction_permissionless_handler_def v and_then_simps open_validated_auction_def
    by (simp add: second_open_def sample_open_def get_fee_details_def oa_ends_def i d
        RESTRICTED_AUCTION_BUFFER_def o)
qed

text \<open>The rebalance is started and the first auction opened.\<close>

definition first_open :: auction_world where
  "first_open = opened_world (empty_world\<lparr>aw_rebalance := Some sample_rebalance, aw_now := 50\<rparr>) 100
     sample_auction sample_ends opened_rebalance"

lemma first_open_reached: "auction_step\<^sup>*\<^sup>* empty_world first_open"
proof -
  let ?w = "empty_world\<lparr>aw_rebalance := Some sample_rebalance, aw_now := 50\<rparr>"
  have "auction_step empty_world ?w"
    using auction_step.start [OF sample_start_handler, of empty_world]
    by (simp add: empty_world_def sample_rebalance_accounts_def sample_mint_info_def default_pubkey_def
        as_u64_nonneg)
  moreover have "auction_step ?w first_open"
    unfolding first_open_def
    by (rule auction_step.open_anyone [OF sample_open_permissionless])
       (simp_all add: empty_world_def sample_open_def as_u64_nonneg)
  ultimately show ?thesis by (meson rtranclp.rtrancl_into_rtrancl rtranclp.rtrancl_refl)
qed

lemma sample_key: "ends_key_of 1 (PK 12) (PK 11) = (1, PK 11, PK 12)"
  "auction_key sample_auction = (1, PK 11, PK 12)" "auction_key (swapped_auction t) = (1, PK 11, PK 12)"
  by (simp_all add: auction_key_def ends_key_of_def keys_pair_in_order_def less_pubkey_def sample_auction_def
      swapped_auction_def default_auction_def)

lemma second_open_step:
  assumes run: "open_auction_permissionless_handler sample_sdk (second_open b e) (PK 11) (PK 12) (int t)
     = Ok (f', au, ends, rb)"
    and w: "aw_rebalance w = Some opened_rebalance" "aw_folio_key w = PK 1002" "aw_now w \<le> t" "t \<le> 86000"
      "aw_ends w (1, PK 11, PK 12) = Some (sample_ends\<lparr>end_time := e\<rparr>)"
  shows "auction_step w (opened_world w (int t) au ends rb)"
proof -
  have n: "rb_nonce opened_rebalance = 1" by (simp add: opened_rebalance_def set_limits_def sample_rebalance_def)
  have "as_u64 (int t) = t" using w(4) by (simp add: as_u64_def)
  then show ?thesis
    by (intro auction_step.open_anyone [OF run])
      (simp_all add: w [unfolded One_nat_def] second_open_def sample_open_def n sample_key [unfolded One_nat_def])
qed

lemma sample_history:
  "\<exists>w. auction_step\<^sup>*\<^sup>* empty_world w \<and> aw_auctions w = [sample_auction, swapped_auction 5000]
     \<and> \<not> aw_foreign_end w"
proof -
  have e: "sample_ends\<lparr>end_time := 3700\<rparr> = sample_ends" by (simp add: sample_ends_def)
  obtain rb where run: "open_auction_permissionless_handler sample_sdk (second_open swapped_basket 3700)
      (PK 11) (PK 12) (int 5000) = Ok (sample_folio, swapped_auction 5000, sample_ends\<lparr>end_time := 5000 + 3600\<rparr>, rb)"
    using second_open_run [OF swapped_amounts, of 5000 3700] by auto
  have "auction_step first_open (opened_world first_open (int 5000) (swapped_auction 5000)
      (sample_ends\<lparr>end_time := 5000 + 3600\<rparr>) rb)"
    by (rule second_open_step [OF run])
      (simp_all add: first_open_def opened_world_def empty_world_def as_u64_nonneg sample_key e)
  then show ?thesis
    using first_open_reached
    by (intro exI [of _ "opened_world first_open (int 5000) (swapped_auction 5000)
        (sample_ends\<lparr>end_time := 5000 + 3600\<rparr>) rb"])
      (auto simp: opened_world_def first_open_def empty_world_def intro: rtranclp.rtrancl_into_rtrancl)
qed

text \<open>
  A bid on the folio at the time 150 that names an auction of another folio over the same two tokens:
  it sells 300 tokens, down to the limit of that auction.
\<close>

definition foreign_auction :: auction where
  "foreign_auction = sample_auction\<lparr>au_folio := PK 2002, au_start := 150,
     au_prices := \<lparr>price_start = 600000000000000000, price_end = 500000000000000000\<rparr>,
     sell_limit := 200000000000000001, buy_limit := 300000000000000000\<rparr>"

definition foreign_bid :: bid_accounts where
  "foreign_bid = sample_bid\<lparr>bd_auction := foreign_auction\<rparr>"

definition foreign_basket :: "nat \<Rightarrow> folio_basket" where
  "foreign_basket x = sample_basket\<lparr>fb_token_amounts :=
     [\<lparr>fta_mint = PK 11, fta_amount = 200\<rparr>, \<lparr>fta_mint = PK 12, fta_amount = x\<rparr>]
       @ replicate 98 default_folio_token_amount\<rparr>"

lemma foreign_amounts:
  "get_token_amount_in_folio_basket (foreign_basket 250) (PK 12) = Ok 250"
  "get_token_amount_in_folio_basket_or_zero (foreign_basket 250) (PK 11) = 200"
  by (simp_all add: get_token_amount_in_folio_basket_def get_token_amount_in_folio_basket_or_zero_def
      find_fta_def foreign_basket_def default_pubkey_def)

lemma foreign_validate: "validate_bid sample_sdk foreign_bid 150 = Ok ()"
  by (simp add: validate_bid_def foreign_bid_def foreign_auction_def sample_bid_def sample_sdk_def
      validate_folio_def sample_folio_def
      status_from_def sample_auction_def check_supported_token_account_def is_supported_spl_token_def
      token_has_extensions_def validate_auction_ends_def validate_auction_ends_with_keys_and_get_bump_def
      Let_def sample_ends_def opened_rebalance_def set_limits_def sample_rebalance_def try_get_status_def)

lemma foreign_get_bid:
  "get_bid foreign_auction sample_folio sample_basket 1000 150 300 200
     = Ok (300, 180, 600000000000000000, 1000000000000)"
proof -
  have "get_price foreign_auction 150 = Ok 600000000000000000"
    by (simp add: get_price_def foreign_auction_def sample_auction_def)
  then show ?thesis
    by (simp add: get_bid_def sample_supply foreign_auction_def sample_auction_def sample_amounts Let_def mul_div_def
        dec_mul_def dec_div_def from_scaled_def to_token_amount_def from_token_amount_def
        saturating_sub_def arith_defs const_defs U64_MAX_def)
qed

lemma foreign_sell:
  "sell_from_basket sample_basket foreign_auction 300 1000000000000 = Ok (foreign_basket 70, 200000000000000001)"
  by (simp add: sell_from_basket_def foreign_auction_def sample_auction_def remove_tokens_from_basket_def
      remove_token_from_basket_def find_fta_def sample_basket_def update_fta_def foreign_basket_def
      get_token_amount_in_folio_basket_def get_token_amount_in_folio_basket_or_zero_def
      get_token_presence_per_share_in_basket_def Let_def is_zero_def from_token_amount_def dec_mul_def
      dec_div_def to_scaled_def arith_defs const_defs U128_MAX_def)

lemma foreign_buy:
  "add_tokens_to_basket (foreign_basket 70) [\<lparr>fta_mint = PK 12, fta_amount = 180\<rparr>] = Ok (foreign_basket 250)"
  "\<exists>x. get_token_presence_per_share_in_basket (foreign_basket 250) (PK 12) 1000000000000 = Ok x"
  by (simp_all add: add_tokens_to_basket_def add_token_to_basket_def find_fta_def update_fta_def
      default_pubkey_def foreign_basket_def get_token_amount_in_folio_basket_def
      get_token_amount_in_folio_basket_or_zero_def get_token_presence_per_share_in_basket_def Let_def
      is_zero_def from_token_amount_def dec_mul_def dec_div_def to_scaled_def arith_defs const_defs U128_MAX_def)

lemma foreign_bid_run:
  "\<exists>cpis. bid sample_sdk invoke accs foreign_bid 150 300 200 False data 0 = Ok (sample_folio, foreign_basket 250,
     foreign_auction\<lparr>au_end := 149\<rparr>, sample_ends\<lparr>end_time := 149\<rparr>, cpis)"
proof -
  have f: "bd_auction foreign_bid = foreign_auction" "bd_folio foreign_bid = sample_folio"
    "bd_folio_basket foreign_bid = sample_basket" "mint_supply (bd_folio_token_mint foreign_bid) = 1000"
    "bd_auction_ends foreign_bid = sample_ends"
    by (simp_all add: foreign_bid_def sample_bid_def)
  have g: "sell_limit foreign_auction = 200000000000000001" "buy_mint foreign_auction = PK 12"
    by (simp_all add: foreign_auction_def sample_auction_def)
  obtain d where d: "get_fee_details (bd_dao_fee_config foreign_bid) (bd_folio_fee_config foreign_bid) = Ok d"
    by (simp add: foreign_bid_def sample_bid_def get_fee_details_def)
  obtain x where x: "get_token_presence_per_share_in_basket (foreign_basket 250) (PK 12) 1000000000000 = Ok x"
    using foreign_buy(2) by blast
  show ?thesis
    unfolding bid_def Let_def f
    by (simp add: as_u64_nonneg foreign_validate d sample_poke_first_day [of 150, simplified] foreign_get_bid foreign_sell
        collect_payment_def g foreign_buy(1) x plain_sub_def checked_sub_def)
qed

section \<open>Properties\<close>

text \<open>
  C2: In every history of a folio in which no bid made with another folio's auction moved an end time
  of this folio, two different auctions of the same rebalance over the same two tokens, in either
  direction, are never open at the same time, whatever other bids and closings happened in between.
  The exception is a defect of the code, \<open>foreign_bid_reopens_pair\<close>: the bid accepts such an auction.
\<close>
theorem one_open_auction_per_pair:
  assumes "auction_step\<^sup>*\<^sup>* w0 w" "aw_rebalance w0 = None" "aw_auctions w0 = []" "aw_ends w0 = (\<lambda>_. None)"
    and "\<not> aw_foreign_end w" "i < length (aw_auctions w)" "j < length (aw_auctions w)" "i \<noteq> j"
    and "au_nonce (aw_auctions w ! i) = au_nonce (aw_auctions w ! j)"
    and "keys_pair_in_order (sell_mint (aw_auctions w ! i)) (buy_mint (aw_auctions w ! i))
      = keys_pair_in_order (sell_mint (aw_auctions w ! j)) (buy_mint (aw_auctions w ! j))"
  shows "\<not> (try_get_status (aw_auctions w ! i) t = Some Open \<and> try_get_status (aw_auctions w ! j) t = Some Open)"
proof -
  have "auction_world_ok w0" using assms(2-4) by (simp add: auction_world_ok_def ends_ok_def keys_ok_def in_sequence_def)
  then have "in_sequence (aw_auctions w)"
    using auctions.reachable [OF assms(1)] assms(5) by (simp add: auction_world_ok_def)
  moreover have "auction_key (aw_auctions w ! i) = auction_key (aw_auctions w ! j)"
    using assms(9,10) by (simp add: auction_key_def ends_key_of_def)
  ultimately have "au_end (aw_auctions w ! i) < au_start (aw_auctions w ! j)
      \<or> au_end (aw_auctions w ! j) < au_start (aw_auctions w ! i)"
    using assms(6-8) unfolding in_sequence_def by (metis nat_neq_iff)
  then show ?thesis by (auto simp: try_get_status_def split: if_splits)
qed

theorem one_open_auction_per_pair_witness:
  "\<not> (try_get_status sample_auction 5000 = Some Open \<and> try_get_status (swapped_auction 5000) 5000 = Some Open)"
proof -
  obtain w where w: "auction_step\<^sup>*\<^sup>* empty_world w" "aw_auctions w = [sample_auction, swapped_auction 5000]"
      "\<not> aw_foreign_end w"
    using sample_history by blast
  show ?thesis
    using one_open_auction_per_pair [OF w(1) _ _ _ w(3), of 0 1 5000] w(2)
    by (simp add: empty_world_def keys_pair_in_order_def less_pubkey_def sample_auction_def swapped_auction_def
        default_auction_def)
qed

text \<open>
  C25: A bid on the folio that names another folio's auction, with the same nonce and tokens, and reaches a
  limit of that auction sets back the end time of this folio's pair, while this folio's own auction of
  the pair runs on. Anyone can then open a second one: here both are open at the time 151.
\<close>
theorem foreign_bid_reopens_pair:
  "\<exists>w au1 au2. auction_step\<^sup>*\<^sup>* empty_world w \<and> aw_auctions w = [au1, au2]
     \<and> au_folio au1 = aw_folio_key w \<and> au_folio au2 = aw_folio_key w
     \<and> auction_key au1 = auction_key au2
     \<and> try_get_status au1 151 = Some Open \<and> try_get_status au2 151 = Some Open"
proof -
  obtain cpis where bid: "bid sample_sdk (\<lambda>p accs d w. Ok w) [] foreign_bid 150 300 200 False [] 0
    = Ok (sample_folio, foreign_basket 250, foreign_auction\<lparr>au_end := 149\<rparr>, sample_ends\<lparr>end_time := 149\<rparr>, cpis)"
    using foreign_bid_run by blast
  let ?w = "foreign_bid_world first_open 150 foreign_auction sample_ends (sample_ends\<lparr>end_time := 149\<rparr>)"
  have key: "auction_key foreign_auction = (1, PK 11, PK 12)"
    using sample_key(2) by (simp add: foreign_auction_def auction_key_def)
  have fb: "bd_auction foreign_bid = foreign_auction" "bd_auction_ends foreign_bid = sample_ends"
      "bd_folio_key foreign_bid = PK 1002" "bd_rebalance foreign_bid = opened_rebalance"
    by (simp_all add: foreign_bid_def sample_bid_def)
  have "auction_step first_open (foreign_bid_world first_open 150 (bd_auction foreign_bid)
      (bd_auction_ends foreign_bid) (sample_ends\<lparr>end_time := 149\<rparr>))"
  proof (rule auction_step.bid_with_foreign_auction [OF bid])
    show "au_folio (bd_auction foreign_bid) \<noteq> aw_folio_key first_open"
      unfolding fb by (simp add: foreign_auction_def first_open_def opened_world_def empty_world_def)
    show "aw_ends first_open (auction_key (bd_auction foreign_bid)) = Some (bd_auction_ends foreign_bid)"
      unfolding fb key by (simp add: first_open_def opened_world_def sample_key)
  qed (simp_all add: fb first_open_def opened_world_def empty_world_def as_u64_nonneg)
  then have "auction_step first_open ?w" unfolding fb .
  moreover obtain rb where run: "open_auction_permissionless_handler sample_sdk (second_open (foreign_basket 250) 149)
      (PK 11) (PK 12) (int 151) = Ok (sample_folio, swapped_auction 151, sample_ends\<lparr>end_time := 151 + 3600\<rparr>, rb)"
    using second_open_run [OF foreign_amounts, of 151 149] by auto
  let ?w' = "opened_world ?w (int 151) (swapped_auction 151) (sample_ends\<lparr>end_time := 151 + 3600\<rparr>) rb"
  have "auction_step ?w ?w'"
    by (rule second_open_step [OF run])
      (simp_all add: first_open_def opened_world_def foreign_bid_world_def empty_world_def as_u64_nonneg key)
  ultimately have "auction_step\<^sup>*\<^sup>* empty_world ?w'"
    using first_open_reached by (meson rtranclp.rtrancl_into_rtrancl)
  moreover have "aw_auctions ?w' = [sample_auction, swapped_auction 151]" "aw_folio_key ?w' = PK 1002"
    by (simp_all add: opened_world_def foreign_bid_world_def first_open_def empty_world_def)
  moreover have "au_folio sample_auction = PK 1002" "au_folio (swapped_auction 151) = PK 1002"
      "try_get_status sample_auction 151 = Some Open" "try_get_status (swapped_auction 151) 151 = Some Open"
    by (simp_all add: sample_auction_def swapped_auction_def default_auction_def try_get_status_def)
  ultimately show ?thesis
    using sample_key(2) sample_key(3) [of 151] by (intro exI [of _ ?w']) auto
qed

text \<open>
  C36: In every history of a folio the current rebalance is well formed (different mints, limits in
  order and up to the maximal rate, prices all deferred or all in range), and every auction ever
  opened has its own nonce and id, so that the address of a new auction is never taken.
\<close>
theorem rebalance_history_wf:
  assumes "auction_step\<^sup>*\<^sup>* w0 w" "aw_rebalance w0 = None" "aw_auctions w0 = []" "aw_ends w0 = (\<lambda>_. None)"
    and "aw_rebalance w = Some rb"
  shows "rebalance_wf rb \<and> distinct (map (\<lambda>au. (au_nonce au, au_id au)) (aw_auctions w))
    \<and> (rb_nonce rb, current_auction_id rb + 1) \<notin> (\<lambda>au. (au_nonce au, au_id au)) ` set (aw_auctions w)"
proof -
  have "auction_world_ok w0" using assms(2-4) by (simp add: auction_world_ok_def ends_ok_def keys_ok_def in_sequence_def)
  then have ok: "auction_world_ok w" by (rule auctions.reachable [OF assms(1)])
  then have ids: "ids_ok (aw_auctions w) (rb_nonce rb) (current_auction_id rb)" and "rebalance_wf rb"
    using assms(5) by (simp_all add: auction_world_ok_def)
  moreover have "(rb_nonce rb, current_auction_id rb + 1) \<notin> (\<lambda>au. (au_nonce au, au_id au)) ` set (aw_auctions w)"
  proof
    assume "(rb_nonce rb, current_auction_id rb + 1) \<in> (\<lambda>au. (au_nonce au, au_id au)) ` set (aw_auctions w)"
    then obtain x where "x \<in> set (aw_auctions w)" "au_nonce x = rb_nonce rb" "au_id x = current_auction_id rb + 1"
      by auto
    then show False using ids by (auto simp: ids_ok_def)
  qed
  ultimately show ?thesis by (simp add: ids_ok_def)
qed

theorem rebalance_history_wf_witness: "rebalance_wf sample_rebalance"
proof -
  have "auction_step empty_world (empty_world\<lparr>aw_rebalance := Some sample_rebalance, aw_now := 50\<rparr>)"
    using auction_step.start [OF sample_start_handler, of empty_world]
    by (simp add: empty_world_def sample_rebalance_accounts_def sample_mint_info_def default_pubkey_def
        as_u64_nonneg)
  from rebalance_history_wf [OF r_into_rtranclp [of auction_step, OF this]] show ?thesis by (simp add: empty_world_def)
qed

end
