(* ===== verification/FolioLifecycle.thy ===== *)
theory FolioLifecycle
  imports Custody AuctionLifecycle
begin

text \<open>
  The life of a folio account over all instructions that write it: what may change its terms (fees,
  auction length, mandate, status) and who may do it. Only \<open>update_folio\<close>, \<open>kill_folio\<close>,
  \<open>add_to_basket\<close> and \<open>start_folio_migration\<close> do, all four for an owner only; the others move pending
  fees and the time of the last poke.
\<close>

section \<open>Terms\<close>

definition same_terms :: "folio \<Rightarrow> folio \<Rightarrow> bool" where
  "same_terms f f' \<longleftrightarrow> folio_bump f' = folio_bump f \<and> folio_status f' = folio_status f
     \<and> initialized_at f' = initialized_at f \<and> folio_token_mint f' = folio_token_mint f
     \<and> tvl_fee f' = tvl_fee f \<and> mint_fee f' = mint_fee f
     \<and> folio_auction_length f' = folio_auction_length f \<and> mandate f' = mandate f"

named_theorems terms

lemma same_terms_refl [simp]: "same_terms f f"
  by (simp add: same_terms_def)

lemma same_terms_trans: "same_terms f g \<Longrightarrow> same_terms g h \<Longrightarrow> same_terms f h"
  by (simp add: same_terms_def)

lemma poke_terms [terms]: "poke f raw t num den fl = Ok f' \<Longrightarrow> same_terms f f'"
  using poke_frame [of f raw t num den fl f'] by (auto simp: same_terms_def)

lemma minting_fee_terms [terms]: "calculate_fees_for_minting f sh num den fl = Ok (f', fee) \<Longrightarrow> same_terms f f'"
  by (clarsimp simp: calculate_fees_for_minting_def Let_def same_terms_def)

lemma distribute_terms [terms]:
  assumes "distribute_fees sdk a t index = Ok (f', fr', fd, cpis)"
  shows "same_terms (df_folio a) f'"
  using assms
proof (cases rule: distribute_fees_Ok)
  case (1 details f raw_dao raw_fr)
  have "same_terms f f'" using 1(7) by (auto simp: same_terms_def split: if_splits)
  with poke_terms [OF 1(2)] show ?thesis by (rule same_terms_trans)
qed

lemma crank_terms [terms]:
  "crank_fee_distribution sdk a accounts indices = Ok (f', fd', cpis, events) \<Longrightarrow> same_terms (cr_folio a) f'"
  by (auto simp: crank_fee_distribution_def Let_def same_terms_def split: if_splits)

lemma to_assets_terms [terms]:
  "to_assets upb sh raw basket f kind t num den fl mins = Ok (upb', basket', f') \<Longrightarrow> same_terms f f'"
  by (erule to_assets_Ok) (rule poke_terms)

lemma mint_terms [terms]:
  assumes "mint_folio_token sdk a t shares least = Ok (f', fb', p', cpis)"
  shows "same_terms (sh_folio a) f'"
proof -
  from assms obtain p fb f n and d :: fee_details where
    1: "to_assets (sh_user_pending_basket a) shares (mint_supply (sh_folio_token_mint a)) (sh_folio_basket a)
       (sh_folio a) MintProcess t (scaled_fee_numerator d) (scaled_fee_denominator d) (scaled_fee_floor d) []
       = Ok (p, fb, f)"
    and 2: "calculate_fees_for_minting f shares (scaled_fee_numerator d) (scaled_fee_denominator d)
       (scaled_fee_floor d) = Ok (f', n)"
    by (auto simp: mint_folio_token_def)
  show ?thesis by (rule same_terms_trans [OF to_assets_terms [OF 1] minting_fee_terms [OF 2]])
qed

lemma burn_terms [terms]:
  "burn_folio_token sdk a t shares mins = Ok (f', fb', p', cpis) \<Longrightarrow> same_terms (sh_folio a) f'"
  by (auto simp: burn_folio_token_def dest: to_assets_terms)

lemma bid_terms [terms]:
  assumes "bid sdk invoke accounts a t s mx wc data before = Ok (f', fb', au', ends', cpis)"
  shows "same_terms (bd_folio a) f'"
  using assms by (cases rule: bid_Ok) (erule poke_terms)

lemma poke_folio_terms [terms]: "poke_folio sdk f k mint dao config t = Ok f' \<Longrightarrow> same_terms f f'"
  by (auto simp: poke_folio_def dest: poke_terms)

lemma start_rebalance_terms [terms]:
  "start_rebalance_handler sdk a mints t window ttl pls all_added = Ok (f', rb) \<Longrightarrow> same_terms (ra_folio a) f'"
  by (auto simp: start_rebalance_handler_def dest: poke_terms)

lemma open_validated_terms:
  "open_validated_auction a bump t buffer config p = Ok (f', au, ends, rb) \<Longrightarrow> same_terms (oa_folio a) f'"
  by (auto simp: open_validated_auction_def dest: poke_terms)

lemma open_auction_terms [terms]:
  "open_auction_handler sdk a t1 t2 sl bl ps pe t = Ok (f', au, ends, rb) \<Longrightarrow> same_terms (oa_folio a) f'"
  "open_auction_permissionless_handler sdk a t1 t2 t = Ok (f', au, ends, rb) \<Longrightarrow> same_terms (oa_folio a) f'"
  by (auto simp: open_auction_handler_def open_auction_permissionless_handler_def dest: open_validated_terms)

section \<open>Updating a folio\<close>

definition pending_fees :: "folio \<Rightarrow> nat \<times> nat \<times> nat" where
  "pending_fees f = (dao_pending_fee_shares f, fee_recipients_pending_fee_shares f,
     fee_recipients_pending_fee_shares_to_be_minted f)"

text \<open>
  The distribution that precedes a change: of the folio and the recipients as they were before the
  update, and the only thing of the update that mints or moves pending fees.
\<close>

definition fees_settled ::
  "sdk \<Rightarrow> update_accounts \<Rightarrow> fee_recipients_account \<Rightarrow> int \<Rightarrow> update_state \<Rightarrow> bool" where
  "fees_settled sdk a recipients t s \<longleftrightarrow>
     (if folio_status (up_folio a) \<in> {status_u8 Initialized, status_u8 Killed} then
        (\<exists>r index f fr. df_folio r = up_folio a \<and> df_fee_recipients r = recipients
          \<and> distribute_fees sdk r t index = Ok (f, fr, us_fee_distribution s, us_cpis s)
          \<and> pending_fees (us_folio s) = pending_fees f)
      else us_cpis s = [] \<and> us_fee_distribution s = None \<and> pending_fees (us_folio s) = pending_fees (up_folio a))"

lemma update_distribute_fees_settles:
  assumes "update_distribute_fees sdk a extras index t s = Ok s'"
    and "us_folio s = up_folio a" "us_fee_recipients s = recipients" "us_cpis s = []" "us_fee_distribution s = None"
  shows "fees_settled sdk a recipients t s' \<and> same_terms (up_folio a) (us_folio s')
    \<and> us_should_distribute s' = us_should_distribute s"
proof -
  from assms(1,2) obtain st where st: "folio_status (up_folio a) = status_u8 st"
    by (auto simp: update_distribute_fees_def status_from_Ok_iff)
  show ?thesis
  proof (cases "st \<in> {Killed, Initialized}")
    case True
    with assms st obtain r i f fr d cpis where
      "distribute_fees sdk (r\<lparr>df_user := up_folio_owner a, df_folio_key := up_folio_key a,
         df_folio := us_folio s, df_fee_recipients_key := up_fee_recipients_key a,
         df_fee_recipients := us_fee_recipients s\<rparr>) t i = Ok (f, fr, d, cpis)"
      "s' = s\<lparr>us_folio := f, us_fee_recipients := fr, us_fee_distribution := d, us_cpis := cpis\<rparr>"
      by (auto simp: update_distribute_fees_def status_round_trip split: option.splits)
    note run = this
    define q where "q = r\<lparr>df_user := up_folio_owner a, df_folio_key := up_folio_key a,
      df_folio := us_folio s, df_fee_recipients_key := up_fee_recipients_key a,
      df_fee_recipients := us_fee_recipients s\<rparr>"
    have q: "df_folio q = up_folio a" "df_fee_recipients q = recipients" using assms(2,3) by (simp_all add: q_def)
    have d: "distribute_fees sdk q t i = Ok (f, fr, us_fee_distribution s', us_cpis s')" "us_folio s' = f"
      using run by (simp_all add: q_def)
    have "folio_status (up_folio a) \<in> {status_u8 Initialized, status_u8 Killed}" using True st by auto
    then have "fees_settled sdk a recipients t s'"
      unfolding fees_settled_def d(2) using q d(1) by auto
    then show ?thesis using distribute_terms [OF d(1)] q(1) run(2) by simp
  next
    case False
    then have "s' = s" using assms(1,2) st by (auto simp: update_distribute_fees_def status_round_trip)
    moreover have "folio_status (up_folio a) \<notin> {status_u8 Initialized, status_u8 Killed}"
      using False st by (cases st) auto
    ultimately show ?thesis using assms(2-5) by (auto simp: fees_settled_def)
  qed
qed

definition nothing_settled :: "update_accounts \<Rightarrow> update_state \<Rightarrow> bool" where
  "nothing_settled a s \<longleftrightarrow> us_cpis s = [] \<and> us_fee_distribution s = None
     \<and> pending_fees (us_folio s) = pending_fees (up_folio a)"

text \<open>While fees are still to be distributed nothing has changed; \<open>known\<close>: there were recipients before.\<close>

definition update_ok ::
  "sdk \<Rightarrow> update_accounts \<Rightarrow> fee_recipients_account \<Rightarrow> int \<Rightarrow> bool \<Rightarrow> update_state \<Rightarrow> bool" where
  "update_ok sdk a recipients t known s \<longleftrightarrow>
     (if us_should_distribute s then known \<and> us_folio s = up_folio a \<and> us_fee_recipients s = recipients
        \<and> nothing_settled a s
      else if known then fees_settled sdk a recipients t s else nothing_settled a s)"

lemma settled_cong:
  assumes "pending_fees (us_folio s') = pending_fees (us_folio s)" "us_cpis s' = us_cpis s"
    "us_fee_distribution s' = us_fee_distribution s"
  shows "fees_settled sdk a recipients t s' = fees_settled sdk a recipients t s"
    "nothing_settled a s' = nothing_settled a s"
  by (simp_all add: fees_settled_def nothing_settled_def assms)

lemma distribute_once_ok:
  assumes "distribute_once sdk a extras index t s = Ok s'" "update_ok sdk a recipients t known s"
  shows "update_ok sdk a recipients t known s' \<and> \<not> us_should_distribute s' \<and> same_terms (us_folio s) (us_folio s')"
proof (cases "us_should_distribute s")
  case True
  with assms obtain u where u: "update_distribute_fees sdk a extras index t s = Ok u"
    and s': "s' = u\<lparr>us_should_distribute := False\<rparr>"
    by (auto simp: distribute_once_def)
  have k: known "us_folio s = up_folio a" "us_fee_recipients s = recipients" "nothing_settled a s"
    using assms(2) True by (simp_all add: update_ok_def)
  note d = update_distribute_fees_settles [OF u k(2,3)]
  show ?thesis using d k s' settled_cong(1) [of s' u] by (simp add: update_ok_def nothing_settled_def)
next
  case False
  with assms show ?thesis by (auto simp: distribute_once_def)
qed

lemma set_tvl_fee_frame:
  "set_tvl_fee f x = Ok f' \<Longrightarrow> x \<le> MAX_TVL_FEE \<and> f' = f\<lparr>tvl_fee := tvl_fee f'\<rparr>"
  by (auto simp: set_tvl_fee_def split: if_splits)

lemma set_tvl_fee_terms: "set_tvl_fee f x = Ok f' \<Longrightarrow> set_tvl_fee g x = Ok (g\<lparr>tvl_fee := tvl_fee f'\<rparr>)"
  by (auto simp: set_tvl_fee_def split: if_splits)

lemma set_tvl_fee_keeps:
  "set_tvl_fee f x = Ok f' \<Longrightarrow> folio_token_mint f' = folio_token_mint f \<and> folio_bump f' = folio_bump f"
  by (auto simp: set_tvl_fee_def split: if_splits)

text \<open>The terms that a part of an update leaves alone.\<close>

definition terms_but_tvl :: "folio \<Rightarrow> folio \<Rightarrow> bool" where
  "terms_but_tvl f f' \<longleftrightarrow> same_terms (f\<lparr>tvl_fee := tvl_fee f'\<rparr>) f'"

lemma update_tvl_fee_ok:
  assumes "update_tvl_fee sdk a extras index t fee s = Ok s'" "update_ok sdk a recipients t known s"
  shows "update_ok sdk a recipients t known s' \<and> (if fee = None then s' = s
    else \<not> us_should_distribute s' \<and> terms_but_tvl (us_folio s) (us_folio s')
      \<and> set_tvl_fee (us_folio s) (the fee) = Ok ((us_folio s)\<lparr>tvl_fee := tvl_fee (us_folio s')\<rparr>))"
proof (cases fee)
  case (Some x)
  with assms(1) obtain u f where u: "distribute_once sdk a extras index t s = Ok u"
    and f: "set_tvl_fee (us_folio u) x = Ok f" and s': "s' = u\<lparr>us_folio := f\<rparr>"
    by (auto simp: update_tvl_fee_def)
  note d = distribute_once_ok [OF u assms(2)]
  obtain r where r: "f = (us_folio u)\<lparr>tvl_fee := r\<rparr>" using set_tvl_fee_frame [OF f] by blast
  have "pending_fees (us_folio s') = pending_fees (us_folio u)" using r s' by (simp add: pending_fees_def)
  note c = settled_cong [OF this] 
  have "update_ok sdk a recipients t known s'" using d c s' by (auto simp: update_ok_def)
  moreover have "terms_but_tvl (us_folio s) (us_folio s')"
    using d r s' by (simp add: terms_but_tvl_def same_terms_def)
  ultimately show ?thesis using d Some set_tvl_fee_terms [OF f, of "us_folio s"] s' by simp
qed (use assms in \<open>simp add: update_tvl_fee_def\<close>)

lemma update_mint_fee_ok:
  assumes "update_mint_fee sdk a extras index t fee s = Ok s'" "update_ok sdk a recipients t known s"
  shows "update_ok sdk a recipients t known s' \<and> (case fee of None \<Rightarrow> s' = s
    | Some x \<Rightarrow> x \<le> MAX_MINT_FEE \<and> \<not> us_should_distribute s'
        \<and> same_terms ((us_folio s)\<lparr>mint_fee := x\<rparr>) (us_folio s'))"
proof (cases fee)
  case (Some x)
  with assms(1) obtain u where x: "x \<le> MAX_MINT_FEE" and u: "distribute_once sdk a extras index t s = Ok u"
    and s': "s' = u\<lparr>us_folio := (us_folio u)\<lparr>mint_fee := x\<rparr>\<rparr>"
    by (auto simp: update_mint_fee_def)
  note d = distribute_once_ok [OF u assms(2)]
  have "pending_fees (us_folio s') = pending_fees (us_folio u)" using s' by (simp add: pending_fees_def)
  note c = settled_cong [OF this]
  have "update_ok sdk a recipients t known s'" using d c s' by (auto simp: update_ok_def)
  then show ?thesis using d Some s' x by (simp add: same_terms_def)
qed (use assms in \<open>simp add: update_mint_fee_def\<close>)

text \<open>The distribution for new recipients leaves the flag alone, so it ends the part about fees.\<close>

lemma update_recipients_ok:
  assumes "update_recipients sdk a extras index t added removed s = Ok s'" "update_ok sdk a recipients t known s"
  shows "same_terms (us_folio s) (us_folio s')
    \<and> (if added = [] \<and> removed = [] then s' = s
      else if known then fees_settled sdk a recipients t s' else nothing_settled a s')"
proof (cases "added = [] \<and> removed = []")
  case False
  with assms(1) obtain u where
    u: "(if us_should_distribute s then update_distribute_fees sdk a extras index t s else Ok s) = Ok u"
    and s': "us_folio s' = us_folio u" "us_cpis s' = us_cpis u" "us_fee_distribution s' = us_fee_distribution u"
    by (auto simp: update_recipients_def)
  note c = settled_cong [of s' u, OF _ s'(2,3)]
  show ?thesis
  proof (cases "us_should_distribute s")
    case True
    with assms(2) have k: known "us_folio s = up_folio a" "us_fee_recipients s = recipients" "nothing_settled a s"
      by (simp_all add: update_ok_def)
    have "update_distribute_fees sdk a extras index t s = Ok u" using u True by simp
    from update_distribute_fees_settles [OF this k(2,3)] show ?thesis
      using k False c s' by (auto simp: nothing_settled_def)
  next
    case F: False
    then show ?thesis using u assms(2) False c s' by (auto simp: update_ok_def)
  qed
qed (use assms in \<open>simp add: update_recipients_def\<close>)

lemma update_tail_ok:
  assumes "update_auction_length len s = Ok s1" "update_mandate bytes s1 = Ok s'"
  shows "(case len of None \<Rightarrow> True | Some n \<Rightarrow> MIN_AUCTION_LENGTH \<le> n \<and> n \<le> MAX_AUCTION_LENGTH)
    \<and> (case bytes of None \<Rightarrow> True | Some b \<Rightarrow> length b \<le> MAX_PADDED_STRING_LENGTH)
    \<and> us_folio s' = (us_folio s)\<lparr>
        folio_auction_length := (case len of None \<Rightarrow> folio_auction_length (us_folio s) | Some n \<Rightarrow> n),
        mandate := (case bytes of None \<Rightarrow> mandate (us_folio s) | Some b \<Rightarrow> fixed_size_string_new b)\<rparr>
    \<and> us_cpis s' = us_cpis s \<and> us_fee_distribution s' = us_fee_distribution s
    \<and> us_fee_recipients s' = us_fee_recipients s"
  using assms by (auto simp: update_auction_length_def update_mandate_def split: option.splits)

text \<open>What an update did, from the folio before to the folio after.\<close>

lemma update_folio_effect:
  assumes "update_folio sdk a extras t tvl index mint len added removed bytes = Ok s"
  obtains recipients where
    "has_role (actor_roles (up_actor a)) Owner"
    "up_fee_recipients a \<noteq> None \<Longrightarrow> recipients = the (up_fee_recipients a)"
    "if up_fee_recipients a \<noteq> None \<and> (tvl \<noteq> None \<or> mint \<noteq> None \<or> added \<noteq> [] \<or> removed \<noteq> [])
     then fees_settled sdk a recipients t s else nothing_settled a s"
    "same_terms ((up_folio a)\<lparr>
        tvl_fee := tvl_fee (us_folio s),
        mint_fee := (case mint of None \<Rightarrow> mint_fee (up_folio a) | Some x \<Rightarrow> x),
        folio_auction_length := (case len of None \<Rightarrow> folio_auction_length (up_folio a) | Some n \<Rightarrow> n),
        mandate := (case bytes of None \<Rightarrow> mandate (up_folio a) | Some b \<Rightarrow> fixed_size_string_new b)\<rparr>)
      (us_folio s)"
    "case tvl of None \<Rightarrow> tvl_fee (us_folio s) = tvl_fee (up_folio a)
     | Some x \<Rightarrow> set_tvl_fee (up_folio a) x = Ok ((up_folio a)\<lparr>tvl_fee := tvl_fee (us_folio s)\<rparr>)"
    "case mint of None \<Rightarrow> True | Some x \<Rightarrow> x \<le> MAX_MINT_FEE"
    "case len of None \<Rightarrow> True | Some n \<Rightarrow> MIN_AUCTION_LENGTH \<le> n \<and> n \<le> MAX_AUCTION_LENGTH"
    "case bytes of None \<Rightarrow> True | Some b \<Rightarrow> length b \<le> MAX_PADDED_STRING_LENGTH"
proof -
  from assms obtain recipients is_new s1 s2 s3 s4 where
    v: "validate_folio (find_program_address sdk) (up_folio a) (up_folio_key a) (Some (up_actor a))
      (Some [Owner]) None = Ok ()"
    and r: "fee_recipients_process_init_if_needed (up_fee_recipients a) (up_fee_recipients_bump a)
      (up_folio_key a) = Ok (recipients, is_new)"
    and 1: "update_tvl_fee sdk a extras index t tvl \<lparr>us_folio = up_folio a, us_fee_recipients = recipients,
      us_fee_distribution = None, us_cpis = [], us_should_distribute = \<not> is_new\<rparr> = Ok s1"
    and 2: "update_mint_fee sdk a extras index t mint s1 = Ok s2"
    and 3: "update_recipients sdk a extras index t added removed s2 = Ok s3"
    and 4: "update_auction_length len s3 = Ok s4" "update_mandate bytes s4 = Ok s"
    by (auto simp: update_folio_def)
  have new: "is_new \<longleftrightarrow> up_fee_recipients a = None" "up_fee_recipients a \<noteq> None \<Longrightarrow> recipients = the (up_fee_recipients a)"
    using r by (auto simp: fee_recipients_process_init_if_needed_def split: option.splits)
  let ?known = "up_fee_recipients a \<noteq> None" and ?ok = "update_ok sdk a recipients t"
  have "?ok ?known \<lparr>us_folio = up_folio a, us_fee_recipients = recipients, us_fee_distribution = None,
      us_cpis = [], us_should_distribute = \<not> is_new\<rparr>"
    using new by (simp add: update_ok_def nothing_settled_def)
  note t1 = update_tvl_fee_ok [OF 1 this, simplified]
  then have o1: "?ok ?known s1" by simp
  note t2 = update_mint_fee_ok [OF 2 o1]
  then have o2: "?ok ?known s2" by simp
  note t3 = update_recipients_ok [OF 3 o2]
  note t4 = update_tail_ok [OF 4]
  have p: "pending_fees (us_folio s) = pending_fees (us_folio s3)" using t4 by (simp add: pending_fees_def)
  note c = settled_cong [OF p]
  have flag: "us_should_distribute s2 \<longleftrightarrow> ?known \<and> tvl = None \<and> mint = None"
    using t1 t2 new by (auto split: option.splits if_splits)
  have fees: "if ?known \<and> (tvl \<noteq> None \<or> mint \<noteq> None \<or> added \<noteq> [] \<or> removed \<noteq> [])
     then fees_settled sdk a recipients t s else nothing_settled a s"
    using t3 t4 c o2 flag by (auto simp: update_ok_def split: if_splits)
  show thesis
    using validate_folio_Ok [OF v] new(2) fees t1 t2 t3 t4
    by (intro that) (auto simp: same_terms_def terms_but_tvl_def split: option.splits if_splits)
qed

section \<open>Histories of a folio\<close>

inductive folio_step :: "sdk \<Rightarrow> folio \<Rightarrow> folio \<Rightarrow> bool" for sdk where
  update: "update_folio sdk a extras t tvl index mint len added removed bytes = Ok s \<Longrightarrow>
     folio_step sdk (up_folio a) (us_folio s)"
| kill: "kill_folio sdk actor k f = Ok f' \<Longrightarrow> folio_step sdk f f'"
| fill: "add_to_basket sdk a accounts raws shares t = Ok (f', fb', cpis) \<Longrightarrow> folio_step sdk (ba_folio a) f'"
| start_migration: "start_folio_migration sdk invoke a accounts t mx (w :: new_folio_accounts) = Ok (f', cpis, w') \<Longrightarrow>
     folio_step sdk (sm_old_folio a) f'"
| mint: "mint_folio_token sdk a t shares least = Ok (f', fb', p', cpis) \<Longrightarrow> folio_step sdk (sh_folio a) f'"
| burn: "burn_folio_token sdk a t shares mins = Ok (f', fb', p', cpis) \<Longrightarrow> folio_step sdk (sh_folio a) f'"
| trade: "bid sdk invoke accounts a t sell mx wc data before = Ok (f', fb', au', ends', cpis) \<Longrightarrow>
     folio_step sdk (bd_folio a) f'"
| start_rebalance: "start_rebalance_handler sdk a mints t window ttl pls all_added = Ok (f', rb) \<Longrightarrow>
     folio_step sdk (ra_folio a) f'"
| open_launcher: "open_auction_handler sdk a t1 t2 sl bl ps pe t = Ok (f', au, ends, rb) \<Longrightarrow>
     folio_step sdk (oa_folio a) f'"
| open_anyone: "open_auction_permissionless_handler sdk a t1 t2 t = Ok (f', au, ends, rb) \<Longrightarrow>
     folio_step sdk (oa_folio a) f'"
| poke: "poke_folio sdk f k supply dao config t = Ok f' \<Longrightarrow> folio_step sdk f f'"
| distribute: "distribute_fees sdk a t index = Ok (f', fr', fd, cpis) \<Longrightarrow> folio_step sdk (df_folio a) f'"
| crank: "crank_fee_distribution sdk a accounts indices = Ok (f', fd', cpis, events) \<Longrightarrow>
     folio_step sdk (cr_folio a) f'"

text \<open>The TVL fee is stored as the rate per second of an annual fee.\<close>

definition folio_ok :: "folio \<Rightarrow> bool" where
  "folio_ok f \<longleftrightarrow> tvl_fee f \<in> annual_rate ` {..MAX_TVL_FEE} \<and> mint_fee f \<le> MAX_MINT_FEE
     \<and> MIN_AUCTION_LENGTH \<le> folio_auction_length f \<and> folio_auction_length f \<le> MAX_AUCTION_LENGTH
     \<and> length (mandate f) = MAX_PADDED_STRING_LENGTH \<and> folio_status f \<le> status_u8 Migrating"

text \<open>The numbers of the statuses are the order in which a folio passes through them.\<close>

definition folio_later :: "folio \<Rightarrow> folio \<Rightarrow> bool" where
  "folio_later f f' \<longleftrightarrow> folio_token_mint f' = folio_token_mint f \<and> folio_bump f' = folio_bump f
     \<and> folio_status f \<le> folio_status f'"

lemma same_terms_ok: "same_terms f f' \<Longrightarrow> (folio_ok f \<longrightarrow> folio_ok f') \<and> folio_later f f'"
  by (simp add: same_terms_def folio_ok_def folio_later_def)

lemma set_tvl_fee_rate: "set_tvl_fee f x = Ok f' \<Longrightarrow> tvl_fee f' \<in> annual_rate ` {..MAX_TVL_FEE}"
  using set_tvl_fee_spec_Ok [of f x] by auto

lemma folio_step_ok:
  assumes "folio_step sdk f f'"
  shows "(folio_ok f \<longrightarrow> folio_ok f') \<and> folio_later f f'"
  using assms
proof cases
  case (update a extras t tvl index mint len added removed bytes s)
  from update(3) show ?thesis
  proof (rule update_folio_effect)
    assume terms: "same_terms ((up_folio a)\<lparr>
        tvl_fee := tvl_fee (us_folio s),
        mint_fee := (case mint of None \<Rightarrow> mint_fee (up_folio a) | Some x \<Rightarrow> x),
        folio_auction_length := (case len of None \<Rightarrow> folio_auction_length (up_folio a) | Some n \<Rightarrow> n),
        mandate := (case bytes of None \<Rightarrow> mandate (up_folio a) | Some b \<Rightarrow> fixed_size_string_new b)\<rparr>)
      (us_folio s)"
      and tvl: "case tvl of None \<Rightarrow> tvl_fee (us_folio s) = tvl_fee (up_folio a)
       | Some x \<Rightarrow> set_tvl_fee (up_folio a) x = Ok ((up_folio a)\<lparr>tvl_fee := tvl_fee (us_folio s)\<rparr>)"
      and bounds: "case mint of None \<Rightarrow> True | Some x \<Rightarrow> x \<le> MAX_MINT_FEE"
        "case len of None \<Rightarrow> True | Some n \<Rightarrow> MIN_AUCTION_LENGTH \<le> n \<and> n \<le> MAX_AUCTION_LENGTH"
    have "tvl_fee (us_folio s) \<in> annual_rate ` {..MAX_TVL_FEE}" if "folio_ok (up_folio a)"
    proof (cases tvl)
      case None
      then show ?thesis using tvl that by (simp add: folio_ok_def)
    next
      case (Some x)
      then show ?thesis using set_tvl_fee_rate [of "up_folio a" x] tvl by simp
    qed
    then show ?thesis
      unfolding update(1,2) using terms bounds
      by (auto simp: same_terms_def folio_ok_def folio_later_def simp del: image_iff split: option.splits)
  qed
next
  case (kill actor k)
  then obtain u where "validate_folio (find_program_address sdk) f k (Some actor) (Some [Owner])
      (Some [Initialized, Initializing]) = Ok u" and f': "f' = f\<lparr>folio_status := status_u8 Killed\<rparr>"
    by (auto simp: kill_folio_def)
  with validate_folio_Ok [OF this(1)] show ?thesis by (auto simp: folio_ok_def folio_later_def)
next
  case (fill a accounts raws shares t fb' cpis)
  then obtain u where "validate_folio (find_program_address sdk) (ba_folio a) (ba_folio_key a) (Some (ba_actor a))
      (Some [Owner]) (Some [Initializing, Initialized]) = Ok u"
    by (auto simp: add_to_basket_def validate_add_to_basket_def)
  moreover from fill have "f' = ba_folio a \<or>
      f' = (ba_folio a)\<lparr>folio_status := status_u8 Initialized, initialized_at := as_u64 t\<rparr>"
    by (auto simp: add_to_basket_def mint_initial_shares_def Let_def split: if_splits)
  ultimately show ?thesis
    using validate_folio_Ok fill(1) by (fastforce simp: folio_ok_def folio_later_def)
next
  case (start_migration invoke a accounts t mx w cpis w')
  then have "f' = f\<lparr>folio_status := status_u8 Migrating\<rparr>"
    and "validate_folio (find_program_address sdk) f (sm_old_folio_key a) (Some (sm_actor a))
      (Some [Owner]) (Some [Initialized, Killed]) = Ok ()"
    by (auto simp: start_folio_migration_def validate_start_migration_def Let_def)
  with validate_folio_Ok [OF this(2)] show ?thesis by (auto simp: folio_ok_def folio_later_def)
qed (auto dest: terms intro: same_terms_ok [THEN conjunct1, THEN mp] same_terms_ok [THEN conjunct2])

interpretation folio: monotone_system "folio_step sdk" folio_ok folio_later for sdk
  by unfold_locales (use folio_step_ok in \<open>auto simp: folio_later_def\<close>)

text \<open>What a folio that is not open any more refuses.\<close>

lemma closed_folio:
  assumes "folio_status f \<notin> {status_u8 Initializing, status_u8 Initialized}"
  shows "sh_folio a = f \<Longrightarrow> mint_folio_token sdk a t shares least \<noteq> Ok x"
    and "ba_folio b = f \<Longrightarrow> add_to_basket sdk b accounts raws init t \<noteq> Ok y"
    and "bd_folio c = f \<Longrightarrow> bid sdk invoke accounts c t sell mx wc data before \<noteq> Ok z"
    and "pd_folio p = f \<Longrightarrow> add_to_pending_basket sdk p account bump accs amounts amount_of \<noteq> Ok u"
    and "ra_folio q = f \<Longrightarrow> start_rebalance_handler sdk q mints t window ttl pls all_added \<noteq> Ok v"
    and "oa_folio d = f \<Longrightarrow> open_auction_handler sdk d t1 t2 sl bl ps pe t \<noteq> Ok w"
    and "oa_folio d = f \<Longrightarrow> open_auction_permissionless_handler sdk d t1 t2 t \<noteq> Ok w"
proof -
  note st = validate_folio_Ok [of "find_program_address sdk" f]
  show "mint_folio_token sdk a t shares least \<noteq> Ok x" if "sh_folio a = f"
    using that assms st [of "sh_folio_key a" None None "Some [Initialized]"]
    by (auto simp: mint_folio_token_def validate_share_accounts_def)
  show "add_to_basket sdk b accounts raws init t \<noteq> Ok y" if "ba_folio b = f"
    using that assms st [of "ba_folio_key b" "Some (ba_actor b)" "Some [Owner]" "Some [Initializing, Initialized]"]
    by (auto simp: add_to_basket_def validate_add_to_basket_def)
  show "bid sdk invoke accounts c t sell mx wc data before \<noteq> Ok z" if "bd_folio c = f"
    using that assms validate_bid_Ok [of sdk c "as_u64 t"] by (auto simp: bid_def Let_def)
  show "add_to_pending_basket sdk p account bump accs amounts amount_of \<noteq> Ok u" if "pd_folio p = f"
    using that assms st [of "pd_folio_key p" None None "Some [Initialized]"]
    by (auto simp: add_to_pending_basket_def)
  show "start_rebalance_handler sdk q mints t window ttl pls all_added \<noteq> Ok v" if "ra_folio q = f"
    using that assms st [of "ra_folio_key q" "Some (ra_actor q)" "Some [RebalanceManager]" "Some [Initialized]"]
    by (auto simp: start_rebalance_handler_def validate_start_rebalance_def)
  show "open_auction_handler sdk d t1 t2 sl bl ps pe t \<noteq> Ok w" if "oa_folio d = f"
    using that assms by (auto elim!: open_handler_Ok)
  show "open_auction_permissionless_handler sdk d t1 t2 t \<noteq> Ok w" if "oa_folio d = f"
    using that assms by (auto elim!: open_permissionless_Ok)
qed

section \<open>A concrete history\<close>

definition sample_init_accounts :: init_accounts where
  "sample_init_accounts = \<lparr>in_folio_owner = PK 60, in_folio_key = PK 1002, in_folio_bump = 255,
     in_folio_token_mint_key = PK 7, in_actor_bump = 254\<rparr>"

definition fresh_folio :: folio where
  "fresh_folio = zero_folio\<lparr>folio_bump := 255, folio_token_mint := PK 7, mint_fee := 50000000000000000,
     folio_auction_length := 3600\<rparr>"

definition fresh_actor :: actor where
  "fresh_actor = zero_actor\<lparr>actor_bump := 254, actor_authority := PK 60, actor_folio := PK 1002,
     actor_roles := 1\<rparr>"

lemma sample_init_run:
  "init_folio sample_init_accounts 0 50000000000000000 3600 [] 0 (Ok ()) = Ok (fresh_folio, fresh_actor)"
  by (simp add: init_folio_def validate_init_folio_def set_tvl_fee_def sample_init_accounts_def const_defs
      fixed_size_string_new_def as_u64_def add_role_def zero_folio_def zero_actor_def fresh_folio_def fresh_actor_def)

lemma sample_kill_run:
  "kill_folio sample_sdk fresh_actor (PK 1002) fresh_folio = Ok (fresh_folio\<lparr>folio_status := 2\<rparr>)"
  by (simp add: kill_folio_def validate_folio_def sample_sdk_def fresh_folio_def zero_folio_def fresh_actor_def
      zero_actor_def validate_permission_for_action_def has_role_def status_from_def)

section \<open>Properties\<close>

text \<open>
  C15: An update of a folio needs the owner and does what it is asked to and nothing else. The
  TVL fee becomes the rate of the new annual fee, the mint fee, auction length and mandate the new
  ones, all within their bounds, and what is not mentioned stays. Before a change of a fee or of the
  recipients everything earned so far is distributed, once, under the old fees and to the old
  recipients, if the folio has had recipients and is initialized or killed; otherwise nothing is
  minted and no pending fee moves.
\<close>
theorem update_folio_spec:
  assumes "update_folio sdk a extras t tvl index mint len added removed bytes = Ok s"
  shows "has_role (actor_roles (up_actor a)) Owner
    \<and> same_terms ((up_folio a)\<lparr>
        tvl_fee := tvl_fee (us_folio s),
        mint_fee := (case mint of None \<Rightarrow> mint_fee (up_folio a) | Some x \<Rightarrow> x),
        folio_auction_length := (case len of None \<Rightarrow> folio_auction_length (up_folio a) | Some n \<Rightarrow> n),
        mandate := (case bytes of None \<Rightarrow> mandate (up_folio a) | Some b \<Rightarrow> fixed_size_string_new b)\<rparr>)
      (us_folio s)
    \<and> (case tvl of None \<Rightarrow> tvl_fee (us_folio s) = tvl_fee (up_folio a)
       | Some x \<Rightarrow> set_tvl_fee (up_folio a) x = Ok ((up_folio a)\<lparr>tvl_fee := tvl_fee (us_folio s)\<rparr>))
    \<and> pred_option (\<lambda>x. x \<le> MAX_MINT_FEE) mint
    \<and> pred_option (\<lambda>n. MIN_AUCTION_LENGTH \<le> n \<and> n \<le> MAX_AUCTION_LENGTH) len
    \<and> pred_option (\<lambda>b. length b \<le> MAX_PADDED_STRING_LENGTH) bytes
    \<and> (if up_fee_recipients a \<noteq> None \<and> (tvl \<noteq> None \<or> mint \<noteq> None \<or> added \<noteq> [] \<or> removed \<noteq> [])
          \<and> folio_status (up_folio a) \<in> {status_u8 Initialized, status_u8 Killed}
       then \<exists>r i f fr. df_folio r = up_folio a \<and> df_fee_recipients r = the (up_fee_recipients a)
          \<and> distribute_fees sdk r t i = Ok (f, fr, us_fee_distribution s, us_cpis s)
          \<and> pending_fees (us_folio s) = pending_fees f
       else us_cpis s = [] \<and> us_fee_distribution s = None
          \<and> pending_fees (us_folio s) = pending_fees (up_folio a))"
  using assms
proof (rule update_folio_effect)
  fix recipients
  assume "has_role (actor_roles (up_actor a)) Owner"
    "up_fee_recipients a \<noteq> None \<Longrightarrow> recipients = the (up_fee_recipients a)"
    "if up_fee_recipients a \<noteq> None \<and> (tvl \<noteq> None \<or> mint \<noteq> None \<or> added \<noteq> [] \<or> removed \<noteq> [])
     then fees_settled sdk a recipients t s else nothing_settled a s"
    and terms: "same_terms ((up_folio a)\<lparr>
        tvl_fee := tvl_fee (us_folio s),
        mint_fee := (case mint of None \<Rightarrow> mint_fee (up_folio a) | Some x \<Rightarrow> x),
        folio_auction_length := (case len of None \<Rightarrow> folio_auction_length (up_folio a) | Some n \<Rightarrow> n),
        mandate := (case bytes of None \<Rightarrow> mandate (up_folio a) | Some b \<Rightarrow> fixed_size_string_new b)\<rparr>)
      (us_folio s)"
    "case tvl of None \<Rightarrow> tvl_fee (us_folio s) = tvl_fee (up_folio a)
     | Some x \<Rightarrow> set_tvl_fee (up_folio a) x = Ok ((up_folio a)\<lparr>tvl_fee := tvl_fee (us_folio s)\<rparr>)"
    and bounds: "case mint of None \<Rightarrow> True | Some x \<Rightarrow> x \<le> MAX_MINT_FEE"
    "case len of None \<Rightarrow> True | Some n \<Rightarrow> MIN_AUCTION_LENGTH \<le> n \<and> n \<le> MAX_AUCTION_LENGTH"
    "case bytes of None \<Rightarrow> True | Some b \<Rightarrow> length b \<le> MAX_PADDED_STRING_LENGTH"
  moreover from bounds have "pred_option (\<lambda>x. x \<le> MAX_MINT_FEE) mint"
    "pred_option (\<lambda>n. MIN_AUCTION_LENGTH \<le> n \<and> n \<le> MAX_AUCTION_LENGTH) len"
    "pred_option (\<lambda>b. length b \<le> MAX_PADDED_STRING_LENGTH) bytes"
    by (simp_all split: option.splits)
  ultimately show ?thesis unfolding fees_settled_def nothing_settled_def by (auto split: if_splits)
qed

definition sample_update_accounts :: update_accounts where
  "sample_update_accounts = \<lparr>up_folio_owner = PK 60, up_actor = fresh_actor, up_folio_key = PK 1002,
     up_folio = fresh_folio, up_fee_recipients_key = PK 1003, up_fee_recipients = None,
     up_fee_recipients_bump = 250\<rparr>"

lemma sample_update_run:
  "\<exists>s. update_folio sample_sdk sample_update_accounts None 0 None None (Some 100) (Some 7200) [] [] None = Ok s
     \<and> folio_auction_length (us_folio s) = 7200"
  by (simp add: update_folio_def validate_folio_def sample_sdk_def sample_update_accounts_def fresh_folio_def
      zero_folio_def fresh_actor_def zero_actor_def validate_permission_for_action_def has_role_def
      fee_recipients_process_init_if_needed_def update_tvl_fee_def update_mint_fee_def distribute_once_def
      update_recipients_def update_auction_length_def update_mandate_def const_defs)

theorem update_folio_spec_witness:
  "\<exists>s. update_folio sample_sdk sample_update_accounts None 0 None None (Some 100) (Some 7200) [] [] None = Ok s
     \<and> mint_fee (us_folio s) = 100 \<and> us_cpis s = []"
proof -
  obtain s where "update_folio sample_sdk sample_update_accounts None 0 None None (Some 100) (Some 7200) [] [] None = Ok s"
    using sample_update_run by blast
  with update_folio_spec [OF this] show ?thesis
    by (auto simp: same_terms_def sample_update_accounts_def)
qed

text \<open>
  C13: The life of a folio goes one way. However it was created, by the program for SPL tokens or
  the one for Token-2022, in every history of a build without the feature \<open>test\<close> (with it two example
  instructions, \<open>create_folio_from_old_program\<close> and \<open>update_basket_in_new_folio_program\<close>, write a folio
  too) its TVL fee is the rate of an annual fee up to the maximum,
  its mint fee, auction length and mandate stay within their bounds, its mint and bump never change, and
  its status only moves forward: initializing, initialized, killed, migrating. In particular, once it
  is killed or migrating, no instruction of the program brings it back, and nobody mints shares, adds
  tokens to its basket or a pending basket, starts a rebalance, opens an auction or bids any more.
\<close>
theorem folio_lifecycle:
  assumes "init_folio i tvl fee len bytes now md = Ok (f0, actor)
      \<or> init_folio_2022 i tvl fee len bytes now md = Ok (f0, actor)"
    and "(folio_step sdk)\<^sup>*\<^sup>* f0 f" "(folio_step sdk)\<^sup>*\<^sup>* f f'"
  shows "folio_ok f' \<and> folio_token_mint f' = in_folio_token_mint_key i \<and> folio_bump f' = in_folio_bump i
    \<and> has_role (actor_roles actor) Owner \<and> folio_status f0 = status_u8 Initializing
    \<and> folio_status f \<le> folio_status f'
    \<and> (folio_status f \<in> {status_u8 Killed, status_u8 Migrating} \<longrightarrow>
        (\<forall>a t sh least r. sh_folio a = f' \<longrightarrow> mint_folio_token sdk a t sh least \<noteq> Ok r)
        \<and> (\<forall>a accs raws sh t r. ba_folio a = f' \<longrightarrow> add_to_basket sdk a accs raws sh t \<noteq> Ok r)
        \<and> (\<forall>invoke accs a t s mx wc data b r. bd_folio a = f' \<longrightarrow> bid sdk invoke accs a t s mx wc data b \<noteq> Ok r)
        \<and> (\<forall>a acc bump accs raws am r. pd_folio a = f' \<longrightarrow> add_to_pending_basket sdk a acc bump accs raws am \<noteq> Ok r)
        \<and> (\<forall>a ms t w ttl pls fin r. ra_folio a = f' \<longrightarrow> start_rebalance_handler sdk a ms t w ttl pls fin \<noteq> Ok r)
        \<and> (\<forall>a m1 m2 sl bl ps pe t r. oa_folio a = f' \<longrightarrow> open_auction_handler sdk a m1 m2 sl bl ps pe t \<noteq> Ok r)
        \<and> (\<forall>a m1 m2 t r. oa_folio a = f' \<longrightarrow> open_auction_permissionless_handler sdk a m1 m2 t \<noteq> Ok r))"
proof -
  have f0: "folio_ok f0" "folio_token_mint f0 = in_folio_token_mint_key i" "folio_bump f0 = in_folio_bump i"
    "has_role (actor_roles actor) Owner" "folio_status f0 = status_u8 Initializing"
    using assms(1) by (auto simp: init_folio_def init_folio_2022_def validate_init_folio_def folio_ok_def
        has_add_role simp del: image_iff dest: set_tvl_fee_keeps set_tvl_fee_rate split: if_splits)
  have ok: "folio_ok f" using folio.reachable [OF assms(2) f0(1)] .
  have l: "folio_later f0 f" "folio_later f f'"
    using folio.reachable_below [OF assms(2) f0(1)] folio.reachable_below [OF assms(3) ok] by auto
  have "folio_ok f'" using folio.reachable [OF assms(3) ok] .
  moreover have "folio_status f' \<notin> {status_u8 Initializing, status_u8 Initialized}"
    if "folio_status f \<in> {status_u8 Killed, status_u8 Migrating}"
    using that l(2) by (auto simp: folio_later_def)
  note closed_folio [OF this]
  ultimately show ?thesis using f0 l unfolding folio_later_def by auto
qed

theorem folio_lifecycle_witness:
  "\<forall>dao supply t n r. mint_folio_token sample_sdk \<lparr>sh_user = PK 30, sh_dao_fee_config = dao,
      sh_folio_fee_config = EmptyData, sh_folio_key = PK 1002, sh_folio = fresh_folio\<lparr>folio_status := 2\<rparr>,
      sh_folio_token_mint = supply, sh_folio_basket = sample_basket, sh_user_pending_basket = sample_pending,
      sh_user_folio_token_account = PK 31\<rparr> t n None \<noteq> Ok r"
proof -
  have "folio_step sample_sdk fresh_folio (fresh_folio\<lparr>folio_status := 2\<rparr>)"
    by (rule folio_step.kill [OF sample_kill_run])
  then have "(folio_step sample_sdk)\<^sup>*\<^sup>* fresh_folio (fresh_folio\<lparr>folio_status := 2\<rparr>)"
    by (rule r_into_rtranclp)
  from folio_lifecycle [OF disjI1 [OF sample_init_run] this rtranclp.rtrancl_refl] show ?thesis by simp
qed

lemma remove_add_role: "w AND role_bits r = 0 \<Longrightarrow> remove_role (add_role w r) r = w"
  by (metis (no_types) add_role_def remove_role_def bit.conj_disj_distrib2 bit.conj_cancel_right bit.disj_zero_right
      bit.conj_disj_distrib bit.disj_cancel_right bit.conj_one_right)

text \<open>
  Only an owner gives and takes roles, and taking a role undoes giving it. After
  \<open>init_or_update_actor\<close> an actor has exactly the roles it had and the new one, and a role that it did
  not have before is gone after \<open>remove_actor\<close> with all the bits of the roles as they were; a new
  actor (whose bump is still zero) starts without any.
\<close>
theorem grant_revoke_round_trip:
  assumes "init_or_update_actor sdk owner k f account bump authority r = Ok x"
    and "remove_actor sdk owner' k f x r False = Ok y"
  defines "old \<equiv> (case account of None \<Rightarrow> 0 | Some u \<Rightarrow> if actor_bump u = 0 then 0 else actor_roles u)"
  shows "has_role (actor_roles owner) Owner \<and> has_role (actor_roles owner') Owner
    \<and> has_role (actor_roles x) r' = (r' = r \<or> has_role old r')
    \<and> (\<exists>z. y = Some z \<and> has_role (actor_roles z) r' = (r' \<noteq> r \<and> has_role old r')
        \<and> (has_role old r \<or> actor_roles z = old))"
proof -
  from assms(1,2) have v: "validate_folio (find_program_address sdk) f k (Some owner) (Some [Owner]) None = Ok ()"
    "validate_folio (find_program_address sdk) f k (Some owner') (Some [Owner]) None = Ok ()"
    and y: "y = Some (x\<lparr>actor_roles := remove_role (actor_roles x) r\<rparr>)"
    by (auto simp: init_or_update_actor_def remove_actor_def Let_def)
  have x: "actor_roles x = add_role old r"
    using assms(1) by (auto simp: init_or_update_actor_def actor_process_init_if_needed_def Let_def old_def
        zero_actor_def split: option.splits if_splits)
  have "remove_role (add_role old r) r = old" if "\<not> has_role old r"
    using that by (simp add: has_role_def remove_add_role)
  then show ?thesis
    using validate_folio_Ok [OF v(1)] validate_folio_Ok [OF v(2)] by (auto simp: y x has_add_role has_remove_role)
qed

theorem grant_revoke_round_trip_witness:
  "\<exists>x y. init_or_update_actor sample_sdk fresh_actor (PK 1002) fresh_folio (Some sample_actor) 255 (PK 61)
        RebalanceManager = Ok x
     \<and> remove_actor sample_sdk fresh_actor (PK 1002) fresh_folio x RebalanceManager False = Ok (Some y)
     \<and> \<not> has_role (actor_roles y) RebalanceManager"
proof -
  have v: "validate_folio (find_program_address sample_sdk) fresh_folio (PK 1002) (Some fresh_actor) (Some [Owner]) None
      = Ok ()"
    by (simp add: validate_folio_def sample_sdk_def fresh_folio_def zero_folio_def fresh_actor_def zero_actor_def
        validate_permission_for_action_def has_role_def)
  obtain x where x: "init_or_update_actor sample_sdk fresh_actor (PK 1002) fresh_folio (Some sample_actor) 255 (PK 61)
      RebalanceManager = Ok x"
    by (simp add: init_or_update_actor_def v actor_process_init_if_needed_def sample_actor_def)
  moreover obtain y where y: "remove_actor sample_sdk fresh_actor (PK 1002) fresh_folio x RebalanceManager False = Ok (Some y)"
    by (simp add: remove_actor_def v)
  ultimately show ?thesis
    using grant_revoke_round_trip [OF x y, of RebalanceManager] by auto
qed

end
