(* ===== verification/RewardAccounts.thy ===== *)
theory RewardAccounts
  imports Accounts
begin

text \<open>
  The accounts of the rewards program (\<open>programs/rewards/src/state.rs\<close> and \<open>utils/accounts\<close>): the
  reward tokens of a realm, the global index of each reward token, and what each staker has
  accrued. Rewards are handed out exponentially: per second the share \<open>reward_ratio\<close> of what has
  not been accounted for yet; the index is what one staked token has earned so far.
\<close>

definition MAX_REWARD_TOKENS :: nat where [const_defs]: "MAX_REWARD_TOKENS = 4"
definition MAX_REWARD_HALF_LIFE :: nat where [const_defs]: "MAX_REWARD_HALF_LIFE = 604800 * 2"
definition MIN_REWARD_HALF_LIFE :: nat where [const_defs]: "MIN_REWARD_HALF_LIFE = 86400"
definition LN_2 :: nat where [const_defs]: "LN_2 = 693147180559945309"

section \<open>Accounts\<close>

record reward_tokens =
  rt_bump :: nat
  rt_realm :: pubkey
  rewards_admin :: pubkey
  reward_ratio :: nat
  rt_tokens :: "pubkey list"

record reward_info =
  ri_bump :: nat
  ri_realm :: pubkey
  ri_reward_token :: pubkey
  payout_last_paid :: nat
  reward_index :: nat
  balance_accounted :: nat
  balance_last_known :: nat
  total_claimed :: nat
  is_disallowed :: bool

record user_reward_info =
  ur_bump :: nat
  ur_realm :: pubkey
  ur_reward_token :: pubkey
  last_reward_index :: nat
  accrued_rewards :: nat

text \<open>What \<open>init_if_needed\<close> creates: all fields zero.\<close>

definition default_reward_info :: reward_info where
  "default_reward_info = \<lparr>ri_bump = 0, ri_realm = default_pubkey, ri_reward_token = default_pubkey,
     payout_last_paid = 0, reward_index = 0, balance_accounted = 0, balance_last_known = 0,
     total_claimed = 0, is_disallowed = False\<rparr>"

section \<open>Reward info\<close>

definition reward_info_process_init_if_needed ::
  "reward_info \<Rightarrow> nat \<Rightarrow> pubkey \<Rightarrow> pubkey \<Rightarrow> nat \<Rightarrow> int \<Rightarrow> reward_info result" where
  "reward_info_process_init_if_needed self context_bump realm reward_token raw_last_known_balance
       current_time =
     (if ri_bump self \<noteq> 0 then check_condition (ri_bump self = context_bump) InvalidBump (Ok self)
      else Ok (self\<lparr>ri_bump := context_bump, ri_realm := realm, ri_reward_token := reward_token,
        payout_last_paid := as_u64 current_time, reward_index := 0, balance_accounted := 0,
        balance_last_known := raw_last_known_balance, total_claimed := 0\<rparr>))"

definition calculate_delta_index :: "reward_info \<Rightarrow> decimal \<Rightarrow> nat \<Rightarrow> nat \<Rightarrow> reward_info result" where
  "calculate_delta_index self tokens_to_handout raw_supply decimals =
     and_then (ok_or (checked_pow 128 10 decimals) MathOverflow) (\<lambda>exponent.
     and_then (and_then (dec_mul D18 tokens_to_handout) (\<lambda>a.
               and_then (dec_mul a (from_scaled exponent)) (\<lambda>b.
               and_then (dec_div b (from_scaled raw_supply)) (\<lambda>c.
               dec_div c D18)))) (\<lambda>delta.
     and_then (to_scaled delta Ceiling) (\<lambda>scaled.
     and_then (ok_or (checked_add 128 (reward_index self) scaled) MathOverflow) (\<lambda>index.
     Ok (self\<lparr>reward_index := index\<rparr>)))))"

definition reward_info_accrue ::
  "reward_info \<Rightarrow> nat \<Rightarrow> nat \<Rightarrow> nat \<Rightarrow> nat \<Rightarrow> nat \<Rightarrow> reward_info result" where
  "reward_info_accrue self scaled_reward_ratio raw_reward_balance raw_staked_balance decimals
       current_time =
     (if is_disallowed self then Ok self
      else if current_time \<le> payout_last_paid self then Ok self
      else
        let elapsed = current_time - payout_last_paid self in
        and_then (and_then (from_token_amount raw_reward_balance) (\<lambda>b.
                  and_then (dec_add b (from_scaled (total_claimed self))) (\<lambda>s.
                  to_scaled s Ceiling))) (\<lambda>last_known.
        and_then (ok_or (checked_sub (balance_last_known self) (balance_accounted self)) MathOverflow)
          (\<lambda>unaccounted.
        and_then (dec_sub D18 (from_scaled scaled_reward_ratio)) (\<lambda>base.
        and_then (pow_dec base elapsed) (\<lambda>pow_result.
        and_then (and_then (dec_sub D18 pow_result) (\<lambda>d. dec_sub d 1)) (\<lambda>percentage.
        and_then (and_then (dec_mul (from_scaled unaccounted) percentage) (\<lambda>m. dec_div m D18)) (\<lambda>handout.
        let self1 = self\<lparr>balance_last_known := last_known\<rparr> in
        and_then
          (if raw_staked_balance > 0 then
             and_then (calculate_delta_index self1 handout raw_staked_balance decimals) (\<lambda>self2.
             and_then (to_scaled handout Ceiling) (\<lambda>h.
             and_then (ok_or (checked_add 128 (balance_accounted self2) h) MathOverflow) (\<lambda>accounted.
             Ok (self2\<lparr>balance_accounted := accounted\<rparr>))))
           else Ok self1) (\<lambda>self3.
        Ok (self3\<lparr>payout_last_paid := current_time\<rparr>)))))))))"

section \<open>Reward tokens\<close>

definition reward_tokens_process_init_if_needed ::
  "reward_tokens option \<Rightarrow> nat \<Rightarrow> pubkey \<Rightarrow> pubkey \<Rightarrow> reward_tokens result" where
  "reward_tokens_process_init_if_needed account context_bump realm admin =
     (case account of
        None \<Rightarrow> Ok \<lparr>rt_bump = context_bump, rt_realm = realm, rewards_admin = admin, reward_ratio = 0,
                    rt_tokens = replicate MAX_REWARD_TOKENS default_pubkey\<rparr>
      | Some self \<Rightarrow>
          check_condition (rt_bump self = context_bump) InvalidBump (Ok (self\<lparr>rewards_admin := admin\<rparr>)))"

text \<open>The loop of \<open>add_reward_token\<close>: the first free slot, unless the token is found.\<close>

fun find_reward_slot :: "pubkey \<Rightarrow> nat \<Rightarrow> nat option \<Rightarrow> pubkey list \<Rightarrow> nat option result" where
  "find_reward_slot new index next_index [] = Ok next_index"
| "find_reward_slot new index next_index (token # tokens) =
     check_condition (token \<noteq> new) RewardAlreadyRegistered (
     find_reward_slot new (index + 1)
       (if next_index = None \<and> token = default_pubkey then Some index else next_index) tokens)"

definition rt_add_reward_token :: "reward_tokens \<Rightarrow> pubkey \<Rightarrow> reward_info \<Rightarrow> reward_tokens result" where
  "rt_add_reward_token self new_reward_token new_reward_info =
     check_condition (\<not> is_disallowed new_reward_info) DisallowedRewardToken (
     and_then (find_reward_slot new_reward_token 0 None (rt_tokens self)) (\<lambda>next_index.
     case next_index of
       None \<Rightarrow> Err NoMoreRoomForNewRewardToken
     | Some i \<Rightarrow> Ok (self\<lparr>rt_tokens := (rt_tokens self)[i := new_reward_token]\<rparr>)))"

fun position :: "('a \<Rightarrow> bool) \<Rightarrow> 'a list \<Rightarrow> nat option" where
  "position p [] = None"
| "position p (x # xs) = (if p x then Some 0 else map_option Suc (position p xs))"

text \<open>The staked balance and the decimals come from the realm (\<open>GovernanceUtil\<close>).\<close>

definition rt_remove_reward_token ::
  "reward_tokens \<Rightarrow> pubkey \<Rightarrow> (nat \<times> nat) result \<Rightarrow> reward_info \<Rightarrow> nat \<Rightarrow> nat
   \<Rightarrow> (reward_tokens \<times> reward_info) result" where
  "rt_remove_reward_token self reward_token staked_and_decimals info raw_reward_balance current_time =
     and_then staked_and_decimals (\<lambda>(staked, decimals).
     and_then (reward_info_accrue info (reward_ratio self) raw_reward_balance staked decimals current_time)
       (\<lambda>info'.
     case position (\<lambda>t. t = reward_token) (rt_tokens self) of
       None \<Rightarrow> Err RewardNotRegistered
     | Some i \<Rightarrow> Ok (self\<lparr>rt_tokens := (rt_tokens self)[i := default_pubkey]\<rparr>, info'\<lparr>is_disallowed := True\<rparr>)))"

definition set_reward_ratio :: "reward_tokens \<Rightarrow> nat \<Rightarrow> reward_tokens result" where
  "set_reward_ratio self reward_half_life =
     check_condition (MIN_REWARD_HALF_LIFE \<le> reward_half_life \<and> reward_half_life \<le> MAX_REWARD_HALF_LIFE)
       InvalidRewardHalfLife (
     and_then (dec_div (from_scaled LN_2) (from_scaled reward_half_life)) (\<lambda>ratio.
     and_then (to_scaled ratio Floor) (\<lambda>r.
     Ok (self\<lparr>reward_ratio := r\<rparr>))))"

section \<open>User reward info\<close>

definition calculate_and_update_accrued_rewards ::
  "user_reward_info \<Rightarrow> nat \<Rightarrow> nat \<Rightarrow> user_reward_info result" where
  "calculate_and_update_accrued_rewards self raw_user_balance scaled_delta =
     and_then (from_token_amount raw_user_balance) (\<lambda>balance.
     and_then (and_then (dec_mul balance (from_scaled scaled_delta)) (\<lambda>m. dec_div m D18)) (\<lambda>supplier_delta.
     and_then (to_scaled supplier_delta Floor) (\<lambda>d.
     and_then (ok_or (checked_add 128 (accrued_rewards self) d) MathOverflow) (\<lambda>accrued.
     Ok (self\<lparr>accrued_rewards := accrued\<rparr>)))))"

definition user_accrue :: "user_reward_info \<Rightarrow> reward_info \<Rightarrow> nat \<Rightarrow> user_reward_info result" where
  "user_accrue self info raw_user_balance =
     (if reward_index info \<ge> last_reward_index self \<and> reward_index info - last_reward_index self \<noteq> 0 then
        and_then (calculate_and_update_accrued_rewards self raw_user_balance
            (reward_index info - last_reward_index self)) (\<lambda>self'.
        Ok (self'\<lparr>last_reward_index := reward_index info\<rparr>))
      else Ok self)"

text \<open>An account without data is created with a zero index and zero rewards.\<close>

definition user_process_init_if_needed ::
  "user_reward_info option \<Rightarrow> nat \<Rightarrow> pubkey \<Rightarrow> pubkey \<Rightarrow> reward_info \<Rightarrow> nat \<Rightarrow> user_reward_info result" where
  "user_process_init_if_needed account context_bump realm reward_token info raw_user_balance =
     (case account of
        None \<Rightarrow> user_accrue \<lparr>ur_bump = context_bump, ur_realm = realm, ur_reward_token = reward_token,
                  last_reward_index = 0, accrued_rewards = 0\<rparr> info raw_user_balance
      | Some self \<Rightarrow>
          check_condition (ur_bump self = context_bump) InvalidBump (
          user_accrue self info raw_user_balance))"

section \<open>Lemmas\<close>

lemma scaled_up_ge: "d \<le> U128_MAX \<Longrightarrow> d \<le> scaled_up d"
  by (simp add: scaled_up_def)

text \<open>The share of the rest that is handed out is less than all of it.\<close>

lemma handout_less:
  assumes "pct < D18"
  shows "scaled_up (u * pct div D18) \<le> u"
proof (cases "u = 0")
  case False
  have "u * pct < u * D18" using assms False by simp
  then have "u * pct div D18 < u" by (simp add: less_mult_imp_div_less)
  then show ?thesis using scaled_up_le [of "u * pct div D18"] by linarith
qed (simp add: scaled_up_def)

text \<open>Every fact about an accrual that is not skipped.\<close>

lemma reward_info_accrue_Ok:
  assumes "reward_info_accrue ri ratio B staked dec t = Ok ri'"
    and "\<not> is_disallowed ri" "payout_last_paid ri < t"
  obtains pct h delta where
    "pct < D18" "h = (balance_last_known ri - balance_accounted ri) * pct div D18"
    "balance_accounted ri \<le> balance_last_known ri"
    "pow_dec (D18 - ratio) (t - payout_last_paid ri) = Ok (D18 - 1 - pct)" "ratio \<le> D18"
    "delta = D18 * h * 10 ^ dec div staked div D18"
    "ri' = ri\<lparr>balance_last_known := scaled_up (B * D9 + total_claimed ri),
       reward_index := reward_index ri + (if 0 < staked then scaled_up delta else 0),
       balance_accounted := balance_accounted ri + (if 0 < staked then scaled_up h else 0),
       payout_last_paid := t\<rparr>"
    "fits 128 (balance_accounted ri') \<or> staked = 0"
proof -
  note eq = assms(1) [unfolded reward_info_accrue_def Let_def from_scaled_def]
  from eq assms(2,3) obtain lk p x where
    0: "to_scaled (B * D9 + total_claimed ri) Ceiling = Ok lk" "ratio \<le> D18"
    "pow_dec (D18 - ratio) (t - payout_last_paid ri) = Ok p" "Suc 0 \<le> D18 - p"
    "balance_accounted ri \<le> balance_last_known ri"
    "(if 0 < staked
      then and_then (calculate_delta_index (ri\<lparr>balance_last_known := lk\<rparr>)
          ((balance_last_known ri - balance_accounted ri) * (D18 - Suc p) div D18) staked dec) (\<lambda>self2.
        and_then (to_scaled ((balance_last_known ri - balance_accounted ri) * (D18 - Suc p) div D18) Ceiling)
          (\<lambda>h.
        and_then (ok_or (checked_add 128 (balance_accounted self2) h) MathOverflow) (\<lambda>accounted.
        Ok (self2\<lparr>balance_accounted := accounted\<rparr>))))
      else Ok (ri\<lparr>balance_last_known := lk\<rparr>)) = Ok x"
    "x\<lparr>payout_last_paid := t\<rparr> = ri'"
    by (clarsimp simp del: checked_add_Some)
  define h where "h = (balance_last_known ri - balance_accounted ri) * (D18 - Suc p) div D18"
  note 1 = 0(1-3) 0(4) 0(5) h_def and 2 = 0(6) [folded h_def]
  have lk: "lk = scaled_up (B * D9 + total_claimed ri)" using 1(1) by (rule to_scaled_Ceiling_eq)
  define delta where "delta = D18 * h * 10 ^ dec div staked div D18"
  have p: "pow_dec (D18 - ratio) (t - payout_last_paid ri) = Ok (D18 - 1 - (D18 - Suc p))"
    "D18 - Suc p < D18" using 1(3,4) by simp_all
  show thesis
  proof (cases "0 < staked")
    case True
    from 2 True obtain s hh where d: "calculate_delta_index (ri\<lparr>balance_last_known := lk\<rparr>) h staked dec = Ok s"
      and hh: "to_scaled h Ceiling = Ok hh" "balance_accounted s + hh < 2 ^ 128"
      "ri' = s\<lparr>balance_accounted := balance_accounted s + hh, payout_last_paid := t\<rparr>"
      using 0(7) by auto
    from d obtain sc where sc: "to_scaled delta Ceiling = Ok sc"
      "s = ri\<lparr>balance_last_known := lk, reward_index := reward_index ri + sc\<rparr>"
      by (auto simp: calculate_delta_index_def from_scaled_def checked_pow_def delta_def split: if_splits)
    have "sc = scaled_up delta" "hh = scaled_up h"
      using sc(1) hh(1) by (simp_all add: to_scaled_Ceiling_eq)
    then show thesis
      using that [OF p(2) 1(6,5) p(1) 1(2) delta_def] True hh sc(2) lk by (simp add: fits_def)
  next
    case False
    then have "ri' = ri\<lparr>balance_last_known := lk, payout_last_paid := t\<rparr>" using 2 0(7) by auto
    then show thesis
      using that [OF p(2) 1(6,5) p(1) 1(2) delta_def] False lk by simp
  qed
qed

lemma reward_info_accrue_skip:
  "is_disallowed ri \<or> t \<le> payout_last_paid ri \<Longrightarrow> reward_info_accrue ri ratio B staked dec t = Ok ri"
  by (auto simp: reward_info_accrue_def)

lemma user_accrue_Ok:
  assumes "user_accrue u ri bal = Ok u'"
  shows "u' = (if last_reward_index u < reward_index ri
    then u\<lparr>accrued_rewards := accrued_rewards u
          + min (bal * D9 * (reward_index ri - last_reward_index u) div D18) U128_MAX,
        last_reward_index := reward_index ri\<rparr>
    else u)"
  using assms
  by (auto simp: user_accrue_def calculate_and_update_accrued_rewards_def from_scaled_def split: if_splits)

end
