(* ===== verification/RewardInstructions.thy ===== *)
theory RewardInstructions
  imports RewardAccounts
begin

text \<open>
  The instructions of the rewards program (\<open>programs/rewards/src/instructions\<close>), the reading of
  governance accounts by their bytes (\<open>utils/external/governance.rs\<close>), and the call that the
  governance program makes before a stake changes (\<open>governance/program/src/tools/rewards_program.rs\<close>).
  The accounts that are passed as remaining accounts live in a store by their address; the amount
  of a token account is a function of the transfers that the instruction has already sent.
\<close>

definition SPL_GOVERNANCE_PROGRAM_ID :: pubkey where
  "SPL_GOVERNANCE_PROGRAM_ID = default_pubkey"

abbreviation "AccountNotInitialized \<equiv> ErrorCode 3012"
abbreviation "InvalidRewardsProgram \<equiv> ErrorCode 632"

section \<open>Governance accounts\<close>

record governance_account =
  ga_key :: pubkey
  ga_owner :: pubkey
  ga_data :: "nat list"

definition pubkey_from_bytes :: "nat list \<Rightarrow> pubkey" where
  "pubkey_from_bytes bs = PK (foldl (\<lambda>a b. a * 256 + b) 0 bs)"

definition u64_from_le_bytes :: "nat list \<Rightarrow> nat" where
  "u64_from_le_bytes bs = foldr (\<lambda>b a. a * 256 + b) bs 0"

text \<open>\<open>data[start..start + len]\<close> panics when the data is shorter.\<close>

definition slice :: "nat \<Rightarrow> nat \<Rightarrow> nat list \<Rightarrow> nat list result" where
  "slice start len data =
     (if length data < start + len then Panic else Ok (take len (drop start data)))"

definition get_governance_account_balance ::
  "sdk \<Rightarrow> governance_account \<Rightarrow> governance_account \<Rightarrow> pubkey \<Rightarrow> pubkey \<Rightarrow> nat result" where
  "get_governance_account_balance sdk token_owner_record realm governing_token_mint user =
     check_condition
       (ga_key token_owner_record = fst (find_program_address sdk
          [Bytes ''governance'', Key (ga_key realm), Key governing_token_mint, Key user]
          SPL_GOVERNANCE_PROGRAM_ID)) InvalidGovernanceAccount (
     and_then (slice 1 32 (ga_data realm)) (\<lambda>mint_bytes.
     check_condition (pubkey_from_bytes mint_bytes = governing_token_mint) InvalidCommunityMint (
     if length (ga_data token_owner_record) < 97 + 8 then Err InvalidAccountData
     else
       and_then (slice 97 8 (ga_data token_owner_record)) (\<lambda>bytes.
       Ok (u64_from_le_bytes bytes)))))"

text \<open>The governance mint and the account that holds all staked tokens, given decoded.\<close>

definition get_realm_staked_balance_and_mint_decimals ::
  "sdk \<Rightarrow> pubkey \<Rightarrow> pubkey \<times> mint_data option \<Rightarrow> pubkey \<times> token_data option \<Rightarrow> (nat \<times> nat) result" where
  "get_realm_staked_balance_and_mint_decimals sdk realm_key mint holding =
     check_condition
       (fst holding = fst (find_program_address sdk
          [Bytes ''governance'', Key realm_key, Key (fst mint)] SPL_GOVERNANCE_PROGRAM_ID))
       InvalidHoldingTokenAccount (
     and_then (ok_or (snd mint) ProgramInvalidAccountData) (\<lambda>m.
     and_then (ok_or (snd holding) ProgramInvalidAccountData) (\<lambda>t.
     Ok (td_amount t, md_decimals m))))"

definition validate_realm_is_valid :: "sdk \<Rightarrow> pubkey \<Rightarrow> governance_account \<Rightarrow> unit result" where
  "validate_realm_is_valid sdk realm_key governance =
     (if length (ga_data governance) < 33 + 32 then Err InvalidAccountData
      else
        and_then (slice 33 32 (ga_data governance)) (\<lambda>bytes.
        check_condition
          (ga_key governance = fst (find_program_address sdk
             [Bytes ''account-governance'', Key realm_key, Key (pubkey_from_bytes bytes)]
             SPL_GOVERNANCE_PROGRAM_ID)) InvalidGovernanceAccount (Ok ())))"

section \<open>Accruing\<close>

record reward_store =
  infos :: "pubkey \<Rightarrow> reward_info option"
  users :: "pubkey \<Rightarrow> user_reward_info option"

record accrue_accounts =
  ac_token_program :: pubkey
  ac_caller :: pubkey
  ac_realm :: governance_account
  ac_reward_tokens_key :: pubkey
  ac_reward_tokens :: reward_tokens
  ac_governance_token_mint :: "pubkey \<times> mint_data option"
  ac_governance_staked_token_account :: "pubkey \<times> token_data option"
  ac_caller_governance_token_account :: governance_account
  ac_user :: pubkey
  ac_user_governance_token_account :: governance_account

definition reward_info_pda :: "sdk \<Rightarrow> pubkey \<Rightarrow> pubkey \<Rightarrow> pubkey \<times> nat" where
  "reward_info_pda sdk realm_key token =
     find_program_address sdk [Bytes ''reward_info'', Key realm_key, Key token] REWARDS_PROGRAM_ID"

definition user_reward_info_pda :: "sdk \<Rightarrow> pubkey \<Rightarrow> pubkey \<Rightarrow> pubkey \<Rightarrow> pubkey \<times> nat" where
  "user_reward_info_pda sdk realm_key token user =
     find_program_address sdk [Bytes ''user_reward_info'', Key realm_key, Key token, Key user]
       REWARDS_PROGRAM_ID"

text \<open>Accruing on the reward info of one user of a token.\<close>

definition accrue_user ::
  "sdk \<Rightarrow> accrue_accounts \<Rightarrow> pubkey \<Rightarrow> governance_account \<Rightarrow> pubkey \<Rightarrow> pubkey \<Rightarrow> reward_info
   \<Rightarrow> reward_store \<Rightarrow> reward_store result" where
  "accrue_user sdk a user record_account user_info_key token info store =
     and_then (get_governance_account_balance sdk record_account (ac_realm a)
         (fst (ac_governance_token_mint a)) user) (\<lambda>balance.
     and_then (user_process_init_if_needed (users store user_info_key)
         (snd (user_reward_info_pda sdk (ga_key (ac_realm a)) token user))
         (ga_key (ac_realm a)) token info balance) (\<lambda>u.
     Ok (store\<lparr>users := (users store)(user_info_key := Some u)\<rparr>)))"

text \<open>One round of the loop: the accounts of one reward token.\<close>

definition accrue_round ::
  "sdk \<Rightarrow> accrue_accounts \<Rightarrow> bool \<Rightarrow> nat \<Rightarrow> nat \<times> nat \<Rightarrow> (pubkey \<Rightarrow> nat option)
   \<Rightarrow> account_info list \<times> reward_store \<Rightarrow> (account_info list \<times> reward_store) result" where
  "accrue_round sdk a is_mutable current_time staked amount_of st =
     (let realm_key = ga_key (ac_realm a); (iter, store) = st in
     and_then (next_account iter False False (ac_token_program a)) (\<lambda>(reward_token, i1).
     and_then (next_account i1 False True REWARDS_PROGRAM_ID) (\<lambda>(info_account, i2).
     and_then (next_account i2 False is_mutable (ac_token_program a)) (\<lambda>(rewards_account, i3).
     and_then (next_account i3 False True REWARDS_PROGRAM_ID) (\<lambda>(caller_info, i4).
     check_condition (ai_key info_account = fst (reward_info_pda sdk realm_key (ai_key reward_token)))
       InvalidRewardInfo (
     check_condition (ai_key caller_info
         = fst (user_reward_info_pda sdk realm_key (ai_key reward_token) (ac_caller a)))
       InvalidUserRewardInfo (
     and_then (ok_or (amount_of (ai_key rewards_account)) ProgramInvalidAccountData) (\<lambda>amount.
     check_condition (ai_key rewards_account = associated_token_address sdk (ac_reward_tokens_key a)
         (ai_key reward_token) (ac_token_program a)) InvalidTokenRewardsTokenAccount (
     and_then (ok_or (infos store (ai_key info_account)) AccountNotInitialized) (\<lambda>info.
     and_then (reward_info_accrue info (reward_ratio (ac_reward_tokens a)) amount (fst staked)
         (snd staked) current_time) (\<lambda>info'.
     and_then (accrue_user sdk a (ac_caller a) (ac_caller_governance_token_account a)
         (ai_key caller_info) (ai_key reward_token) info' store) (\<lambda>store1.
     and_then
       (if ac_user a = ac_caller a then Ok (i4, store1)
        else
          and_then (next_account i4 False True REWARDS_PROGRAM_ID) (\<lambda>(user_info, i5).
          check_condition (ai_key user_info
              = fst (user_reward_info_pda sdk realm_key (ai_key reward_token) (ac_user a)))
            InvalidUserRewardInfo (
          and_then (accrue_user sdk a (ac_user a) (ac_user_governance_token_account a)
              (ai_key user_info) (ai_key reward_token) info' store1) (\<lambda>store2.
          Ok (i5, store2))))) (\<lambda>(rest, store3).
     Ok (rest, store3\<lparr>infos := (infos store3)(ai_key info_account := Some info')\<rparr>))))))))))))))"

fun repeat_result :: "nat \<Rightarrow> ('s \<Rightarrow> 's result) \<Rightarrow> 's \<Rightarrow> 's result" where
  "repeat_result 0 f s = Ok s"
| "repeat_result (Suc n) f s = and_then (f s) (repeat_result n f)"

definition accrue_rewards ::
  "sdk \<Rightarrow> accrue_accounts \<Rightarrow> account_info list \<Rightarrow> bool \<Rightarrow> int \<Rightarrow> (pubkey \<Rightarrow> nat option)
   \<Rightarrow> reward_store \<Rightarrow> reward_store result" where
  "accrue_rewards sdk a remaining_accounts is_mutable current_time amount_of store =
     and_then (get_realm_staked_balance_and_mint_decimals sdk (ga_key (ac_realm a))
         (ac_governance_token_mint a) (ac_governance_staked_token_account a)) (\<lambda>staked.
     let divider = (if ac_user a = ac_caller a then 4 else 5) in
     check_condition (length remaining_accounts mod divider = 0) InvalidNumberOfRemainingAccounts (
     and_then (repeat_result (length remaining_accounts div divider)
         (accrue_round sdk a is_mutable (as_u64 current_time) staked amount_of)
         (remaining_accounts, store)) (\<lambda>(_, store').
     Ok store')))"

text \<open>
  The governance program calls it for the owner of a stake, as caller and as user, with the groups
  of four accounts that came with its own instruction; of the accounts before them it only checks
  that the program to call is the rewards program. The call names the mint and the account of the
  rewards as accounts to read and the two infos as accounts to write; the runtime aborts it when an
  account to write was not writable for the governance program.
\<close>

fun reward_account_metas :: "account_info list \<Rightarrow> account_info list result" where
  "reward_account_metas (mint # info # rewards # user_info # others) =
     (if \<not> (ai_is_writable info \<and> ai_is_writable user_info) then Panic
      else
        and_then (reward_account_metas others) (\<lambda>metas.
        Ok (mint\<lparr>ai_is_signer := False, ai_is_writable := False\<rparr>
            # info\<lparr>ai_is_signer := False, ai_is_writable := True\<rparr>
            # rewards\<lparr>ai_is_signer := False, ai_is_writable := False\<rparr>
            # user_info\<lparr>ai_is_signer := False, ai_is_writable := True\<rparr> # metas)))"
| "reward_account_metas _ = Ok []"

definition governance_accrue_rewards ::
  "sdk \<Rightarrow> account_info \<Rightarrow> accrue_accounts \<Rightarrow> governance_account \<Rightarrow> account_info list \<Rightarrow> int
   \<Rightarrow> (pubkey \<Rightarrow> nat option) \<Rightarrow> reward_store \<Rightarrow> reward_store result" where
  "governance_accrue_rewards sdk rewards_program a governing_token_owner reward_token_accounts
       current_time amount_of store =
     check_condition (ai_key rewards_program = REWARDS_PROGRAM_ID \<and> ai_executable rewards_program)
       InvalidRewardsProgram (
     and_then (reward_account_metas reward_token_accounts) (\<lambda>metas.
     accrue_rewards sdk
       (a\<lparr>ac_user := ac_caller a, ac_user_governance_token_account := governing_token_owner\<rparr>)
       metas False current_time amount_of store))"

section \<open>Claiming\<close>

text \<open>What a claim takes: the accrued rewards in whole units; the rest stays accrued.\<close>

definition claim_amounts ::
  "reward_info \<Rightarrow> user_reward_info \<Rightarrow> (reward_info \<times> user_reward_info \<times> nat) result" where
  "claim_amounts info user =
     and_then (to_token_amount (from_scaled (accrued_rewards user)) Floor) (\<lambda>raw.
     and_then (ok_or (checked_mul 128 raw D9) MathOverflow) (\<lambda>claimable.
     and_then (ok_or (checked_add 128 (total_claimed info) claimable) MathOverflow) (\<lambda>claimed.
     and_then (ok_or (checked_sub (accrued_rewards user) claimable) MathOverflow) (\<lambda>accrued.
     check_condition (raw > 0) NoRewardsToClaim (
     Ok (info\<lparr>total_claimed := claimed\<rparr>, user\<lparr>accrued_rewards := accrued\<rparr>, raw))))))"

record claim_state =
  cl_iter :: "account_info list"
  cl_index :: nat
  cl_store :: reward_store
  cl_cpis :: "cpi list"

definition claim_round ::
  "sdk \<Rightarrow> accrue_accounts \<Rightarrow> account_info list \<Rightarrow> int \<Rightarrow> (cpi list \<Rightarrow> pubkey \<Rightarrow> nat option)
   \<Rightarrow> claim_state \<Rightarrow> claim_state result" where
  "claim_round sdk a remaining_accounts current_time amount_after st =
     (let realm_key = ga_key (ac_realm a); tp = ac_token_program a in
     and_then (accrue_rewards sdk a (take 4 (drop (cl_index st * 5) remaining_accounts)) True
         current_time (amount_after (cl_cpis st)) (cl_store st)) (\<lambda>store.
     and_then (next_account (cl_iter st) False False tp) (\<lambda>(reward_token, i1).
     and_then (next_account i1 False True REWARDS_PROGRAM_ID) (\<lambda>(info_account, i2).
     and_then (next_account i2 False True tp) (\<lambda>(rewards_account, i3).
     and_then (next_account i3 False True REWARDS_PROGRAM_ID) (\<lambda>(user_info, i4).
     and_then (next_account i4 False True tp) (\<lambda>(user_token_account, i5).
     check_condition (ai_key info_account = fst (reward_info_pda sdk realm_key (ai_key reward_token)))
       InvalidRewardInfo (
     check_condition (ai_key user_info
         = fst (user_reward_info_pda sdk realm_key (ai_key reward_token) (ac_user a)))
       InvalidUserRewardInfo (
     and_then (ok_or (ai_mint reward_token) ProgramInvalidAccountData) (\<lambda>_.
     check_condition (ai_key rewards_account = associated_token_address sdk (ac_reward_tokens_key a)
         (ai_key reward_token) tp) InvalidTokenRewardsTokenAccount (
     and_then (ok_or (infos store (ai_key info_account)) AccountNotInitialized) (\<lambda>info.
     and_then (ok_or (users store (ai_key user_info)) AccountNotInitialized) (\<lambda>user.
     and_then (claim_amounts info user) (\<lambda>(info', user', raw).
     Ok \<lparr>cl_iter = i5, cl_index = cl_index st + 1,
         cl_store = store\<lparr>infos := (infos store)(ai_key info_account := Some info'),
                          users := (users store)(ai_key user_info := Some user')\<rparr>,
         cl_cpis = cl_cpis st @ [TransferChecked (ai_key rewards_account) (ai_key user_token_account)
           (ac_reward_tokens_key a) (ai_key reward_token) raw]\<rparr>))))))))))))))"

definition claim_rewards ::
  "sdk \<Rightarrow> accrue_accounts \<Rightarrow> account_info list \<Rightarrow> int \<Rightarrow> (cpi list \<Rightarrow> pubkey \<Rightarrow> nat option)
   \<Rightarrow> reward_store \<Rightarrow> (reward_store \<times> cpi list) result" where
  "claim_rewards sdk a remaining_accounts current_time amount_after store =
     check_condition (length remaining_accounts mod 5 = 0) InvalidNumberOfRemainingAccounts (
     and_then (repeat_result (length remaining_accounts div 5)
         (claim_round sdk (a\<lparr>ac_caller := ac_user a,
              ac_user_governance_token_account := ac_caller_governance_token_account a\<rparr>)
            remaining_accounts current_time amount_after)
         \<lparr>cl_iter = remaining_accounts, cl_index = 0, cl_store = store, cl_cpis = []\<rparr>) (\<lambda>st.
     Ok (cl_store st, cl_cpis st)))"

section \<open>Administration\<close>

definition check_rewards_admin :: "pubkey \<Rightarrow> pubkey \<Rightarrow> reward_tokens \<Rightarrow> unit result" where
  "check_rewards_admin reward_admin realm_key rt =
     check_condition (reward_admin = rewards_admin rt) InvalidGovernanceAccount (
     check_condition (rt_realm rt = realm_key) InvalidGovernanceAccount (Ok ()))"

definition set_rewards_admin ::
  "sdk \<Rightarrow> governance_account \<Rightarrow> governance_account \<Rightarrow> reward_tokens option \<Rightarrow> nat \<Rightarrow> reward_tokens result" where
  "set_rewards_admin sdk realm reward_admin account bump =
     check_condition (ga_owner realm = SPL_GOVERNANCE_PROGRAM_ID) InvalidGovernanceAccount (
     check_condition (ga_owner reward_admin = SPL_GOVERNANCE_PROGRAM_ID) InvalidGovernanceAccount (
     and_then (validate_realm_is_valid sdk (ga_key realm) reward_admin) (\<lambda>_.
     reward_tokens_process_init_if_needed account bump (ga_key realm) (ga_key reward_admin))))"

definition validate_add_reward_token ::
  "pubkey \<Rightarrow> pubkey \<Rightarrow> pubkey \<Rightarrow> reward_tokens \<Rightarrow> pubkey \<Rightarrow> mint_data \<Rightarrow> token_data \<Rightarrow> unit result" where
  "validate_add_reward_token reward_admin realm_key reward_tokens_key rt reward_token mint token_account =
     check_condition (td_mint token_account = reward_token) InvalidRewardMint (
     check_condition (td_owner token_account = reward_tokens_key) InvalidRewardTokenAccount (
     check_condition (is_supported_spl_token (Some mint) (Some token_account)) UnsupportedSPLToken (
     check_rewards_admin reward_admin realm_key rt)))"

definition add_reward_token ::
  "pubkey \<Rightarrow> pubkey \<Rightarrow> pubkey \<Rightarrow> reward_tokens \<Rightarrow> pubkey \<Rightarrow> mint_data \<Rightarrow> token_data
   \<Rightarrow> reward_info option \<Rightarrow> nat \<Rightarrow> int \<Rightarrow> (reward_tokens \<times> reward_info) result" where
  "add_reward_token reward_admin realm_key reward_tokens_key rt reward_token mint token_account info
       info_bump current_time =
     and_then (validate_add_reward_token reward_admin realm_key reward_tokens_key rt reward_token mint
         token_account) (\<lambda>_.
     and_then (reward_info_process_init_if_needed
         (case info of None \<Rightarrow> default_reward_info | Some i \<Rightarrow> i) info_bump realm_key reward_token
         (td_amount token_account) current_time) (\<lambda>info'.
     and_then (rt_add_reward_token rt reward_token info') (\<lambda>rt'.
     Ok (rt', info'))))"

definition remove_reward_token ::
  "sdk \<Rightarrow> pubkey \<Rightarrow> pubkey \<Rightarrow> reward_tokens \<Rightarrow> pubkey \<Rightarrow> pubkey \<times> mint_data option
   \<Rightarrow> pubkey \<times> token_data option \<Rightarrow> reward_info \<Rightarrow> nat \<Rightarrow> int
   \<Rightarrow> (reward_tokens \<times> reward_info) result" where
  "remove_reward_token sdk reward_admin realm_key rt reward_token governance_mint staked_account info
       raw_reward_balance current_time =
     and_then (check_rewards_admin reward_admin realm_key rt) (\<lambda>_.
     rt_remove_reward_token rt reward_token
       (get_realm_staked_balance_and_mint_decimals sdk realm_key governance_mint staked_account) info
       raw_reward_balance (as_u64 current_time))"

definition init_or_set_reward_ratio ::
  "sdk \<Rightarrow> pubkey \<Rightarrow> accrue_accounts \<Rightarrow> account_info list \<Rightarrow> int \<Rightarrow> (pubkey \<Rightarrow> nat option)
   \<Rightarrow> reward_store \<Rightarrow> nat \<Rightarrow> (reward_tokens \<times> reward_store) result" where
  "init_or_set_reward_ratio sdk reward_admin a remaining_accounts current_time amount_of store
       reward_period =
     and_then (check_rewards_admin reward_admin (ga_key (ac_realm a)) (ac_reward_tokens a)) (\<lambda>_.
     and_then (accrue_rewards sdk (a\<lparr>ac_user := ac_caller a,
           ac_user_governance_token_account := ac_caller_governance_token_account a\<rparr>)
         remaining_accounts False current_time amount_of store) (\<lambda>store'.
     and_then (set_reward_ratio (ac_reward_tokens a) reward_period) (\<lambda>rt.
     Ok (rt, store'))))"

end
