(* ===== verification/RewardSolvency.thy ===== *)
theory RewardSolvency
  imports RewardInstructions Transitions
begin

text \<open>
  The books of one reward token of a realm over any sequence of accruals, claims, deposits of
  rewards and changes of stake, each made of the operations of the rewards program. What the
  stakers are owed, accrued or not, is at every time covered by the tokens in the rewards
  account, but for one index unit per accrual, because the index is rounded up, and for what stakers
  gain who add to their stake without accruing first.
\<close>

section \<open>The world of one reward token\<close>

record staker =
  st_stake :: nat
  st_info :: "user_reward_info option"

record reward_world =
  rw_info :: reward_info
  rw_ratio :: nat
  rw_balance :: nat
  rw_stakers :: "staker list"
  rw_slack :: nat
  rw_unearned :: nat

definition total_staked :: "reward_world \<Rightarrow> nat" where
  "total_staked w = sum_list (map st_stake (rw_stakers w))"

text \<open>
  What a staker has accrued and what the index has grown by since, in units of
  \<open>1 / (D9 * D18)\<close> of a raw unit. A staker without an account will get one with index zero.
\<close>

definition due :: "nat \<Rightarrow> staker \<Rightarrow> nat" where
  "due index s =
     (case st_info s of
        None \<Rightarrow> st_stake s * D9 * index
      | Some u \<Rightarrow> accrued_rewards u * D18 + st_stake s * D9 * (index - last_reward_index u))"

definition owed :: "reward_world \<Rightarrow> nat" where
  "owed w = sum_list (map (due (reward_index (rw_info w))) (rw_stakers w))"

text \<open>
  What a staker gains on tokens added to the stake for the time before: the growth of the index that
  the staker has not accrued, the whole index for one without an account. It is nothing for a staker
  who has just accrued, and nothing when the stake falls.
\<close>

definition unaccrued_growth :: "nat \<Rightarrow> staker \<Rightarrow> nat" where
  "unaccrued_growth index s = (case st_info s of None \<Rightarrow> index | Some u \<Rightarrow> index - last_reward_index u)"

definition unearned :: "nat \<Rightarrow> staker \<Rightarrow> nat \<Rightarrow> nat" where
  "unearned index s x = (x - st_stake s) * D9 * unaccrued_growth index s"

text \<open>
  The steps: \<open>accrues\<close> is the accrual of the reward info with the whole stake of the realm,
  \<open>user_accrues\<close> that of one staker, \<open>claims\<close> a claim that the token program can pay. A stake changes
  to any value at any time: the governance program calls the rewards program before it changes one,
  but only for the tokens whose accounts the caller passes, and not at all when it revokes. Two sums
  run along: \<open>rw_slack\<close>, one index unit for each staked token per accrual that raised the index, and
  \<open>rw_unearned\<close>, what the changes of stake gave to those who had not accrued.
\<close>

inductive reward_step :: "nat \<Rightarrow> reward_world \<Rightarrow> reward_world \<Rightarrow> bool" for decimals :: nat where
  accrues: "reward_info_accrue (rw_info w) (rw_ratio w) (rw_balance w) (total_staked w) decimals t = Ok info'
    \<Longrightarrow> reward_step decimals w (w\<lparr>rw_info := info',
          rw_slack := rw_slack w
            + (if reward_index info' = reward_index (rw_info w) then 0 else total_staked w * D9)\<rparr>)"
| user_accrues: "i < length (rw_stakers w) \<Longrightarrow>
    user_process_init_if_needed (st_info (rw_stakers w ! i)) bump realm token (rw_info w)
      (st_stake (rw_stakers w ! i)) = Ok u
    \<Longrightarrow> reward_step decimals w
          (w\<lparr>rw_stakers := (rw_stakers w)[i := (rw_stakers w ! i)\<lparr>st_info := Some u\<rparr>]\<rparr>)"
| claims: "i < length (rw_stakers w) \<Longrightarrow> st_info (rw_stakers w ! i) = Some u \<Longrightarrow>
    claim_amounts (rw_info w) u = Ok (info', u', raw) \<Longrightarrow> raw \<le> rw_balance w
    \<Longrightarrow> reward_step decimals w
          (w\<lparr>rw_info := info', rw_balance := rw_balance w - raw,
             rw_stakers := (rw_stakers w)[i := (rw_stakers w ! i)\<lparr>st_info := Some u'\<rparr>]\<rparr>)"
| funds: "reward_step decimals w (w\<lparr>rw_balance := rw_balance w + x\<rparr>)"
| restakes: "i < length (rw_stakers w)
    \<Longrightarrow> reward_step decimals w
          (w\<lparr>rw_stakers := (rw_stakers w)[i := (rw_stakers w ! i)\<lparr>st_stake := x\<rparr>],
             rw_unearned := rw_unearned w + unearned (reward_index (rw_info w)) (rw_stakers w ! i) x\<rparr>)"
| joins: "reward_step decimals w (w\<lparr>rw_stakers := rw_stakers w @ [\<lparr>st_stake = 0, st_info = None\<rparr>]\<rparr>)"
| sets_ratio: "set_reward_ratio rt half_life = Ok rt'
    \<Longrightarrow> reward_step decimals w (w\<lparr>rw_ratio := reward_ratio rt'\<rparr>)"

text \<open>A token that has just been added, with the stakes the realm has then.\<close>

definition new_reward_world :: "nat \<Rightarrow> pubkey \<Rightarrow> pubkey \<Rightarrow> nat \<Rightarrow> int \<Rightarrow> nat list \<Rightarrow> reward_world result" where
  "new_reward_world bump realm token balance current_time stakes =
     and_then (reward_info_process_init_if_needed default_reward_info bump realm token balance current_time)
       (\<lambda>info. Ok \<lparr>rw_info = info, rw_ratio = 0, rw_balance = balance,
         rw_stakers = map (\<lambda>x. \<lparr>st_stake = x, st_info = None\<rparr>) stakes, rw_slack = 0, rw_unearned = 0\<rparr>)"

section \<open>The invariant\<close>

definition staker_ok :: "nat \<Rightarrow> staker \<Rightarrow> bool" where
  "staker_ok index s = (case st_info s of None \<Rightarrow> True | Some u \<Rightarrow> last_reward_index u \<le> index)"

definition reward_books_ok :: "reward_world \<Rightarrow> bool" where
  "reward_books_ok w \<longleftrightarrow>
     (\<forall>s\<in>set (rw_stakers w). staker_ok (reward_index (rw_info w)) s)
   \<and> balance_accounted (rw_info w) \<le> balance_last_known (rw_info w)
   \<and> balance_last_known (rw_info w) \<le> scaled_up (rw_balance w * D9 + total_claimed (rw_info w))
   \<and> owed w + total_claimed (rw_info w) * D18 \<le> balance_accounted (rw_info w) * D18 + rw_slack w + rw_unearned w"

lemma sum_list_update_nat:
  "i < length xs \<Longrightarrow> sum_list (map f (xs[i := y])) + f (xs ! i) = sum_list (map f xs) + (f y :: nat)"
  by (induction xs arbitrary: i) (auto split: nat.split simp: nth_Cons')

text \<open>Raising the index by \<open>d\<close> makes everyone together due \<open>d\<close> for each token staked.\<close>

lemma owed_raise:
  assumes "\<forall>s\<in>set ss. staker_ok index s"
  shows "sum_list (map (due (index + d)) ss)
    = sum_list (map (due index) ss) + sum_list (map st_stake ss) * D9 * d"
  using assms
proof (induction ss)
  case (Cons s ss)
  have "due (index + d) s = due index s + st_stake s * D9 * d"
    using Cons.prems by (auto simp: due_def staker_ok_def algebra_simps split: option.splits)
  then show ?case using Cons by (simp add: algebra_simps)
qed simp

text \<open>The stakers get no more of a handout than it holds, for at most nine decimals.\<close>

lemma handout_covers:
  assumes "decimals \<le> 9" "delta = D18 * h * 10 ^ decimals div staked div D18"
  shows "staked * D9 * delta \<le> h * D18"
proof -
  have "delta = D18 * (h * 10 ^ decimals) div (staked * D18)"
    unfolding div_mult2_eq mult.assoc [symmetric] by (rule assms(2))
  then have "delta = h * 10 ^ decimals * D18 div (staked * D18)" by (simp only: mult.commute)
  then have "delta = h * 10 ^ decimals div staked"
    by (simp only: div_mult_mult2 [OF D18_pos(2)])
  then have "staked * delta \<le> h * 10 ^ decimals" by (simp add: mult.commute)
  also have "\<dots> \<le> h * D9"
    using power_increasing [OF assms(1), of "10 :: nat"] by (simp add: D9_def)
  finally have "staked * delta * D9 \<le> h * D9 * D9" by (rule mult_right_mono) simp
  moreover have "D9 * D9 = D18" by (simp add: D9_def D18_def)
  ultimately show ?thesis by (metis mult.assoc mult.commute)
qed

lemma accrual_keeps_books:
  assumes ok: "reward_books_ok w" and dec: "decimals \<le> 9"
    and acc: "reward_info_accrue (rw_info w) (rw_ratio w) (rw_balance w) (total_staked w) decimals t = Ok info'"
  shows "reward_books_ok (w\<lparr>rw_info := info',
      rw_slack := rw_slack w
        + (if reward_index info' = reward_index (rw_info w) then 0 else total_staked w * D9)\<rparr>)
    \<and> reward_index (rw_info w) \<le> reward_index info' \<and> total_claimed info' = total_claimed (rw_info w)"
proof (cases "is_disallowed (rw_info w) \<or> t \<le> payout_last_paid (rw_info w)")
  case True
  then have "info' = rw_info w" using acc by (simp add: reward_info_accrue_skip)
  then show ?thesis using ok by (simp add: reward_books_ok_def owed_def)
next
  case False
  let ?i = "rw_info w" and ?n = "total_staked w"
  from False have skip: "\<not> is_disallowed ?i" "payout_last_paid ?i < t" by simp_all
  from acc skip obtain pct h delta where pct: "pct < D18"
    and h: "h = (balance_last_known ?i - balance_accounted ?i) * pct div D18"
    and delta: "delta = D18 * h * 10 ^ decimals div ?n div D18"
    and info': "info' = ?i\<lparr>balance_last_known := scaled_up (rw_balance w * D9 + total_claimed ?i),
       reward_index := reward_index ?i + (if 0 < ?n then scaled_up delta else 0),
       balance_accounted := balance_accounted ?i + (if 0 < ?n then scaled_up h else 0),
       payout_last_paid := t\<rparr>"
    by (rule reward_info_accrue_Ok)
  have stakers: "\<forall>s\<in>set (rw_stakers w). staker_ok (reward_index ?i) s"
    and books: "balance_accounted ?i \<le> balance_last_known ?i"
      "balance_last_known ?i \<le> scaled_up (rw_balance w * D9 + total_claimed ?i)"
      "owed w + total_claimed ?i * D18 \<le> balance_accounted ?i * D18 + rw_slack w + rw_unearned w"
    using ok by (simp_all add: reward_books_ok_def)
  have h_up: "scaled_up h \<le> balance_last_known ?i - balance_accounted ?i"
    unfolding h by (rule handout_less [OF pct])
  have known: "balance_last_known ?i \<le> U128_MAX" using books(2) by (simp add: scaled_up_def)
  have stakers': "\<forall>s\<in>set (rw_stakers w). staker_ok (reward_index info') s"
    using stakers by (auto simp: info' staker_ok_def split: option.splits intro: trans_le_add1)
  have accounted: "balance_accounted info' \<le> balance_last_known info'"
    unfolding info' by simp (use books(1,2) h_up in linarith)
  define d where "d = (if 0 < ?n then scaled_up delta else 0)"
  have owed': "owed (w\<lparr>rw_info := info'\<rparr>) = owed w + ?n * D9 * d"
    using owed_raise [OF stakers, of d] by (simp add: owed_def total_staked_def info' d_def)
  have "?n * D9 * d + balance_accounted ?i * D18
      \<le> balance_accounted info' * D18 + (if d = 0 then 0 else ?n * D9)"
  proof (cases "0 < ?n \<and> d \<noteq> 0")
    case True
    then have d: "d \<le> delta + 1" using scaled_up_le by (simp add: d_def)
    have "?n * D9 * d \<le> ?n * D9 * delta + ?n * D9"
      using mult_le_mono2 [OF d, of "?n * D9"] by simp
    also have "\<dots> \<le> h * D18 + ?n * D9" using handout_covers [OF dec delta] by simp
    also have "\<dots> \<le> scaled_up h * D18 + ?n * D9"
    proof -
      have "pct \<le> D18" using pct by simp
      then have "h \<le> balance_last_known ?i - balance_accounted ?i"
        unfolding h using div_le_mono [OF mult_le_mono2, of pct D18 _ D18] by (simp add: D18_def)
      then have "h \<le> U128_MAX" using known by simp
      then show ?thesis using scaled_up_ge by simp
    qed
    finally show ?thesis using True by (simp add: info' algebra_simps)
  next
    case False
    then show ?thesis by (auto simp: info' d_def)
  qed
  moreover have "reward_index info' = reward_index ?i \<longleftrightarrow> d = 0" by (simp add: info' d_def)
  ultimately have "owed (w\<lparr>rw_info := info'\<rparr>) + total_claimed info' * D18
      \<le> balance_accounted info' * D18
        + (rw_slack w + (if reward_index info' = reward_index ?i then 0 else ?n * D9)) + rw_unearned w"
    using books(3) owed' by (simp add: info')
  then show ?thesis using stakers' accounted
    by (simp add: reward_books_ok_def owed_def info')
qed

text \<open>A claim pays what it takes off the books of the staker and writes down as claimed.\<close>

lemma claim_amounts_Ok:
  assumes "claim_amounts info u = Ok (info', u', raw)"
  shows "0 < raw" "raw = min (accrued_rewards u div D9) U64_MAX" "raw * D9 \<le> accrued_rewards u"
    "info' = info\<lparr>total_claimed := total_claimed info + raw * D9\<rparr>"
    "u' = u\<lparr>accrued_rewards := accrued_rewards u - raw * D9\<rparr>"
  using assms by (auto simp: claim_amounts_def from_scaled_def mult.commute)

text \<open>Replacing one staker by one who is due no more.\<close>

lemma staker_update:
  assumes "i < length (rw_stakers w)" "reward_books_ok w"
    "staker_ok (reward_index (rw_info w)) s"
    "due (reward_index (rw_info w)) s \<le> due (reward_index (rw_info w)) (rw_stakers w ! i)"
  shows "reward_books_ok (w\<lparr>rw_stakers := (rw_stakers w)[i := s]\<rparr>)"
proof -
  have "owed (w\<lparr>rw_stakers := (rw_stakers w)[i := s]\<rparr>) \<le> owed w"
    using sum_list_update_nat [OF assms(1), of "due (reward_index (rw_info w))" s] assms(4)
    by (simp add: owed_def)
  moreover have "\<forall>x\<in>set ((rw_stakers w)[i := s]). staker_ok (reward_index (rw_info w)) x"
    using assms(2,3) set_update_subset_insert [of "rw_stakers w" i s] by (auto simp: reward_books_ok_def)
  ultimately show ?thesis using assms(2) by (simp add: reward_books_ok_def)
qed

text \<open>An accrual of a staker turns what the index has grown by into accrued rewards.\<close>

lemma user_accrue_due:
  assumes "user_accrue u info stake = Ok u'" "last_reward_index u \<le> reward_index info"
  shows "last_reward_index u' \<le> reward_index info"
    "accrued_rewards u' * D18 + stake * D9 * (reward_index info - last_reward_index u')
       \<le> accrued_rewards u * D18 + stake * D9 * (reward_index info - last_reward_index u)"
proof -
  note u' = user_accrue_Ok [OF assms(1)]
  show "last_reward_index u' \<le> reward_index info" using assms(2) u' by simp
  show "accrued_rewards u' * D18 + stake * D9 * (reward_index info - last_reward_index u')
       \<le> accrued_rewards u * D18 + stake * D9 * (reward_index info - last_reward_index u)"
  proof (cases "last_reward_index u < reward_index info")
    case True
    define x where "x = stake * D9 * (reward_index info - last_reward_index u)"
    have "min (x div D18) U128_MAX * D18 \<le> x div D18 * D18" by (rule mult_right_mono) simp_all
    also have "\<dots> \<le> x" by (rule div_times_less_eq_dividend)
    finally show ?thesis using u' True by (simp add: x_def add_mult_distrib)
  qed (use u' in simp)
qed

lemma process_init_due:
  assumes "user_process_init_if_needed (st_info s) bump realm token info (st_stake s) = Ok u"
    and "staker_ok (reward_index info) s"
  shows "staker_ok (reward_index info) (s\<lparr>st_info := Some u\<rparr>)"
    "due (reward_index info) (s\<lparr>st_info := Some u\<rparr>) \<le> due (reward_index info) s"
  using assms user_accrue_due
  by (auto simp: user_process_init_if_needed_def staker_ok_def due_def split: option.splits)
    fastforce+

lemma claim_keeps_books:
  assumes i: "i < length (rw_stakers w)" and u: "st_info (rw_stakers w ! i) = Some u"
    and claim: "claim_amounts (rw_info w) u = Ok (info', u', raw)" and pay: "raw \<le> rw_balance w"
    and ok: "reward_books_ok w"
  shows "reward_books_ok (w\<lparr>rw_info := info', rw_balance := rw_balance w - raw,
      rw_stakers := (rw_stakers w)[i := (rw_stakers w ! i)\<lparr>st_info := Some u'\<rparr>]\<rparr>)"
proof -
  let ?I = "reward_index (rw_info w)" and ?s = "(rw_stakers w ! i)\<lparr>st_info := Some u'\<rparr>"
  note c = claim_amounts_Ok [OF claim]
  have "staker_ok ?I ?s"
    using ok nth_mem [OF i] u by (auto simp: reward_books_ok_def staker_ok_def c(5) split: option.splits)
  then have "\<forall>x\<in>set ((rw_stakers w)[i := ?s]). staker_ok ?I x"
    using ok set_update_subset_insert [of "rw_stakers w" i ?s] by (auto simp: reward_books_ok_def)
  moreover have "due ?I ?s + raw * D9 * D18 = due ?I (rw_stakers w ! i)"
    using u c(3) by (simp add: due_def c(5) add_mult_distrib [symmetric])
  then have "sum_list (map (due ?I) ((rw_stakers w)[i := ?s])) + raw * D9 * D18
      = sum_list (map (due ?I) (rw_stakers w))"
    using sum_list_update_nat [OF i, of "due ?I" ?s] by simp
  moreover have kept: "(rw_balance w - raw) * D9 + (total_claimed (rw_info w) + raw * D9)
      = rw_balance w * D9 + total_claimed (rw_info w)"
    using pay by (simp add: diff_mult_distrib mult_le_mono1)
  have "balance_last_known (rw_info w)
      \<le> scaled_up ((rw_balance w - raw) * D9 + (total_claimed (rw_info w) + raw * D9))"
    unfolding kept using ok by (simp add: reward_books_ok_def)
  ultimately show ?thesis using ok by (simp add: reward_books_ok_def owed_def c(4) add_mult_distrib)
qed

text \<open>A change of stake adds what was not earned, and nothing for a staker who has just accrued.\<close>

lemma restake_due:
  assumes "staker_ok index s"
  shows "due index (s\<lparr>st_stake := x\<rparr>) \<le> due index s + unearned index s x"
proof -
  have "x * g \<le> st_stake s * g + (x - st_stake s) * g" for g :: nat
  proof -
    have "x \<le> st_stake s + (x - st_stake s)" by simp
    then show ?thesis by (metis add_mult_distrib mult_le_mono1)
  qed
  from this [of "D9 * unaccrued_growth index s"] show ?thesis
    by (simp add: due_def unearned_def unaccrued_growth_def mult.assoc split: option.splits)
qed

lemma nothing_unearned:
  "st_info s = Some u \<Longrightarrow> last_reward_index u = index \<Longrightarrow> unearned index s x = 0"
  "x \<le> st_stake s \<Longrightarrow> unearned index s x = 0"
  by (simp_all add: unearned_def unaccrued_growth_def)

lemma restake_keeps_books:
  assumes i: "i < length (rw_stakers w)" and ok: "reward_books_ok w"
    and s: "staker_ok (reward_index (rw_info w)) (rw_stakers w ! i)"
  shows "reward_books_ok (w\<lparr>rw_stakers := (rw_stakers w)[i := (rw_stakers w ! i)\<lparr>st_stake := x\<rparr>],
    rw_unearned := rw_unearned w + unearned (reward_index (rw_info w)) (rw_stakers w ! i) x\<rparr>)"
proof -
  let ?I = "reward_index (rw_info w)" and ?s = "(rw_stakers w ! i)\<lparr>st_stake := x\<rparr>"
  have "sum_list (map (due ?I) ((rw_stakers w)[i := ?s]))
      \<le> sum_list (map (due ?I) (rw_stakers w)) + unearned ?I (rw_stakers w ! i) x"
    using sum_list_update_nat [OF i, of "due ?I" ?s] restake_due [OF s, of x] by simp
  moreover have "staker_ok ?I ?s" using s by (simp add: staker_ok_def)
  then have "\<forall>x\<in>set ((rw_stakers w)[i := ?s]). staker_ok ?I x"
    using ok set_update_subset_insert [of "rw_stakers w" i ?s] by (auto simp: reward_books_ok_def)
  ultimately show ?thesis using ok by (simp add: reward_books_ok_def owed_def)
qed

lemma reward_step_keeps_books:
  assumes "decimals \<le> 9" "reward_step decimals w w'" "reward_books_ok w"
  shows "reward_books_ok w' \<and> reward_index (rw_info w) \<le> reward_index (rw_info w')
    \<and> total_claimed (rw_info w) \<le> total_claimed (rw_info w')"
  using assms(2)
proof cases
  case (accrues t info')
  then show ?thesis using accrual_keeps_books [OF assms(3,1) accrues(2)] by simp
next
  case (user_accrues i bump realm token u)
  have "staker_ok (reward_index (rw_info w)) (rw_stakers w ! i)"
    using assms(3) nth_mem [OF user_accrues(2)] by (simp add: reward_books_ok_def)
  from process_init_due [OF user_accrues(3) this] show ?thesis
    using staker_update [OF user_accrues(2) assms(3)] by (simp add: user_accrues(1))
next
  case (claims i u info' u' raw)
  then show ?thesis
    using claim_keeps_books [OF claims(2,3,4,5) assms(3)] claim_amounts_Ok(4) [OF claims(4)] by simp
next
  case (funds x)
  have "scaled_up (rw_balance w * D9 + total_claimed (rw_info w))
      \<le> scaled_up ((rw_balance w + x) * D9 + total_claimed (rw_info w))"
    by (rule scaled_up_mono) (simp add: add_mult_distrib)
  then show ?thesis using assms(3) by (auto simp: reward_books_ok_def owed_def funds intro: order_trans)
next
  case (restakes i x)
  have "staker_ok (reward_index (rw_info w)) (rw_stakers w ! i)"
    using assms(3) nth_mem [OF restakes(2)] by (simp add: reward_books_ok_def)
  from restake_keeps_books [OF restakes(2) assms(3) this] show ?thesis by (simp add: restakes(1))
next
  case joins
  then show ?thesis using assms(3) by (auto simp: reward_books_ok_def owed_def due_def staker_ok_def)
next
  case (sets_ratio rt half_life rt')
  then show ?thesis using assms(3) by (simp add: reward_books_ok_def owed_def)
qed

section \<open>Every history\<close>

text \<open>The contract of monotone state machines, for the books of a token.\<close>

definition rewards_rise :: "reward_world \<Rightarrow> reward_world \<Rightarrow> bool" where
  "rewards_rise w w' \<longleftrightarrow> reward_index (rw_info w) \<le> reward_index (rw_info w')
     \<and> total_claimed (rw_info w) \<le> total_claimed (rw_info w')"

interpretation reward_books: monotone_system "reward_step (min 9 decimals)" reward_books_ok rewards_rise
  for decimals
  using reward_step_keeps_books [OF min.cobounded1] by unfold_locales (auto simp: rewards_rise_def)

lemma new_world_ok:
  "new_reward_world bump realm token balance t stakes = Ok w \<Longrightarrow> balance \<le> U64_MAX \<Longrightarrow> reward_books_ok w"
proof -
  assume new: "new_reward_world bump realm token balance t stakes = Ok w" and "balance \<le> U64_MAX"
  then have "balance \<le> scaled_up (balance * D9)"
    using scaled_up_ge [of "balance * D9"] by (simp add: D9_def U64_MAX_def U128_MAX_def)
  moreover have "sum_list (map (due 0 \<circ> (\<lambda>x. \<lparr>st_stake = x, st_info = None\<rparr>)) stakes) = 0"
    by (simp add: due_def comp_def)
  ultimately show ?thesis using new
    by (auto simp: new_reward_world_def reward_info_process_init_if_needed_def default_reward_info_def
        reward_books_ok_def owed_def staker_ok_def)
qed


text \<open>A history that runs through an accrual, a user's accrual and a claim.\<close>

definition sample_rt :: reward_tokens where
  "sample_rt = \<lparr>rt_bump = 255, rt_realm = PK 1, rewards_admin = PK 2, reward_ratio = 0,
     rt_tokens = replicate 4 default_pubkey\<rparr>"

lemma sample_ratio: "set_reward_ratio sample_rt 86400 = Ok (sample_rt\<lparr>reward_ratio := 8022536812036\<rparr>)"
  by (simp add: set_reward_ratio_def sample_rt_def const_defs from_scaled_def to_scaled_def U128_MAX_def
      dec_div_def checked_div_def)

definition sample_info :: "nat \<Rightarrow> nat \<Rightarrow> nat \<Rightarrow> nat \<Rightarrow> nat \<Rightarrow> reward_info" where
  "sample_info t index accounted known claimed =
     \<lparr>ri_bump = 1, ri_realm = PK 1, ri_reward_token = PK 3, payout_last_paid = t, reward_index = index,
      balance_accounted = accounted, balance_last_known = known, total_claimed = claimed,
      is_disallowed = False\<rparr>"

definition sample_user :: "nat \<Rightarrow> nat \<Rightarrow> user_reward_info" where
  "sample_user index accrued = \<lparr>ur_bump = 2, ur_realm = PK 1, ur_reward_token = PK 3,
     last_reward_index = index, accrued_rewards = accrued\<rparr>"

definition sample_world :: "reward_info \<Rightarrow> nat \<Rightarrow> nat \<Rightarrow> user_reward_info option \<Rightarrow> nat \<Rightarrow> reward_world" where
  "sample_world info ratio balance user slack =
     \<lparr>rw_info = info, rw_ratio = ratio, rw_balance = balance,
      rw_stakers = [\<lparr>st_stake = 10 ^ 9, st_info = user\<rparr>], rw_slack = slack, rw_unearned = 0\<rparr>"

lemmas reward_eval = reward_info_accrue_def sample_info_def calculate_delta_index_def const_defs
  from_scaled_def to_scaled_def U64_MAX_def U128_MAX_def from_token_amount_def dec_div_def dec_mul_def
  dec_add_def dec_sub_def mul_div_def checked_div_def checked_pow_def checked_mul_def checked_add_def
  checked_sub_def pow_dec_def claim_amounts_def to_token_amount_def user_process_init_if_needed_def
  user_accrue_def calculate_and_update_accrued_rewards_def sample_user_def

lemma sample_accruals:
  "reward_info_accrue (sample_info 100 0 0 (10 ^ 10) 0) 8022536812036 (10 ^ 10) (10 ^ 9) 9 101
     = Ok (sample_info 101 80226 80226 (10 ^ 19) 0)"
  "reward_info_accrue (sample_info 101 80226 80226 (10 ^ 19) 0) 8022536812036 (10 ^ 10) (10 ^ 9) 9 102
     = Ok (sample_info 102 80225368200576 80225368200576 (10 ^ 19) 0)"
  by (simp_all add: reward_eval)

lemma sample_user_accrual:
  "user_process_init_if_needed None 2 (PK 1) (PK 3) (sample_info 102 80225368200576 80225368200576 (10 ^ 19) 0)
     (10 ^ 9) = Ok (sample_user 80225368200576 80225368200576)"
  by (simp add: reward_eval)

lemma sample_claim:
  "claim_amounts (sample_info 102 80225368200576 80225368200576 (10 ^ 19) 0)
       (sample_user 80225368200576 80225368200576)
     = Ok (sample_info 102 80225368200576 80225368200576 (10 ^ 19) 80225000000000,
         sample_user 80225368200576 368200576, 80225)"
  by (simp add: reward_eval)

lemma sample_reward_start:
  "new_reward_world 1 (PK 1) (PK 3) (10 ^ 10) 100 [10 ^ 9]
     = Ok (sample_world (sample_info 100 0 0 (10 ^ 10) 0) 0 (10 ^ 10) None 0)"
  by (simp add: new_reward_world_def reward_info_process_init_if_needed_def default_reward_info_def
      sample_world_def sample_info_def as_u64_def)

lemma sample_reward_history:
  "(reward_step 9)\<^sup>*\<^sup>* (sample_world (sample_info 100 0 0 (10 ^ 10) 0) 0 (10 ^ 10) None 0)
     (sample_world (sample_info 102 80225368200576 80225368200576 (10 ^ 19) 0) 8022536812036 (10 ^ 10)
       (Some (sample_user 80225368200576 80225368200576)) (2 * 10 ^ 18))"
  and sample_claim_step:
  "(reward_step 9)\<^sup>*\<^sup>*
     (sample_world (sample_info 102 80225368200576 80225368200576 (10 ^ 19) 0) 8022536812036 (10 ^ 10)
       (Some (sample_user 80225368200576 80225368200576)) (2 * 10 ^ 18))
     (sample_world (sample_info 102 80225368200576 80225368200576 (10 ^ 19) 80225000000000) 8022536812036
       9999919775 (Some (sample_user 80225368200576 368200576)) (2 * 10 ^ 18))"
proof -
  let ?a = "sample_world (sample_info 100 0 0 (10 ^ 10) 0) 0 (10 ^ 10) None 0"
  let ?e = "sample_world (sample_info 102 80225368200576 80225368200576 (10 ^ 19) 0) 8022536812036 (10 ^ 10)
       (Some (sample_user 80225368200576 80225368200576)) (2 * 10 ^ 18)"
  let ?w = "\<lambda>info r. sample_world info r (10 ^ 10) None"
  let ?i = "sample_info 102 80225368200576 80225368200576 (10 ^ 19) 0"
  have "reward_step 9 ?a (?w (sample_info 100 0 0 (10 ^ 10) 0) 8022536812036 0)"
    using sets_ratio [OF sample_ratio, of 9 ?a] by (simp add: sample_world_def)
  moreover have "reward_step 9 (?w (sample_info 100 0 0 (10 ^ 10) 0) 8022536812036 0)
      (?w (sample_info 101 80226 80226 (10 ^ 19) 0) 8022536812036 (10 ^ 18))"
    using accrues [of "?w (sample_info 100 0 0 (10 ^ 10) 0) 8022536812036 0" 9 101
        "sample_info 101 80226 80226 (10 ^ 19) 0"] sample_accruals(1)
    by (simp add: sample_world_def total_staked_def sample_info_def D9_def)
  moreover have "reward_step 9 (?w (sample_info 101 80226 80226 (10 ^ 19) 0) 8022536812036 (10 ^ 18))
      (?w ?i 8022536812036 (2 * 10 ^ 18))"
    using accrues [of "?w (sample_info 101 80226 80226 (10 ^ 19) 0) 8022536812036 (10 ^ 18)" 9 102 ?i]
      sample_accruals(2)
    by (simp add: sample_world_def total_staked_def sample_info_def D9_def)
  moreover have "reward_step 9 (?w ?i 8022536812036 (2 * 10 ^ 18)) ?e"
    using user_accrues [of 0 "?w ?i 8022536812036 (2 * 10 ^ 18)" 2 "PK 1" "PK 3"] sample_user_accrual
    by (simp add: sample_world_def)
  ultimately show "(reward_step 9)\<^sup>*\<^sup>* ?a ?e" by (meson rtranclp.rtrancl_into_rtrancl rtranclp.rtrancl_refl)
  have "reward_step 9 ?e (sample_world (sample_info 102 80225368200576 80225368200576 (10 ^ 19) 80225000000000)
      8022536812036 9999919775 (Some (sample_user 80225368200576 368200576)) (2 * 10 ^ 18))"
    using claims [where i = 0 and w = ?e and u = "sample_user 80225368200576 80225368200576" and
        info' = "sample_info 102 80225368200576 80225368200576 (10 ^ 19) 80225000000000" and
        u' = "sample_user 80225368200576 368200576" and raw = 80225 and decimals = 9] sample_claim
    by (simp add: sample_world_def)
  then show "(reward_step 9)\<^sup>*\<^sup>* ?e (sample_world (sample_info 102 80225368200576 80225368200576 (10 ^ 19)
      80225000000000) 8022536812036 9999919775 (Some (sample_user 80225368200576 368200576)) (2 * 10 ^ 18))"
    by (rule r_into_rtranclp)
qed


end
