(* ===== verification/RewardClaims.thy ===== *)
theory RewardClaims
  imports RewardSolvency
begin

text \<open>
  What an accrual and a claim do at the level of the instructions: which accounts they read, what
  they leave in the store and which transfers they send; and what happens to a stake that is
  deposited without the accounts of a reward token.
\<close>

section \<open>Accruing for one token\<close>

text \<open>An accrual with the four accounts of one token, for a caller who is also the user.\<close>

lemma one_group [simp]:
  "length [a, b, c, d] mod 4 = 0" "length [a, b, c, d] div 4 = 1"
  "length [a, b, c, d, e] mod 5 = 0" "length [a, b, c, d, e] div 5 = 1"
  "repeat_result 1 f s = f s"
proof -
  have "length [a, b, c, d] = 4" "length [a, b, c, d, e] = 5" by simp_all
  then show "length [a, b, c, d] mod 4 = 0" "length [a, b, c, d] div 4 = 1"
    "length [a, b, c, d, e] mod 5 = 0" "length [a, b, c, d, e] div 5 = 1" by presburger+
  show "repeat_result 1 f s = f s" by (cases "f s") simp_all
qed

lemma accrue_round_Ok:
  assumes "accrue_round sdk a wr now staked amount_of (mint # info_acc # rewards_acc # user_acc # others, store)
      = Ok (rest, store')"
    and user: "ac_user a = ac_caller a"
  shows "\<exists>amount info info' bal u.
    ai_key info_acc = fst (reward_info_pda sdk (ga_key (ac_realm a)) (ai_key mint))
    \<and> ai_key user_acc = fst (user_reward_info_pda sdk (ga_key (ac_realm a)) (ai_key mint) (ac_caller a))
    \<and> ai_key rewards_acc = associated_token_address sdk (ac_reward_tokens_key a) (ai_key mint)
       (ac_token_program a)
    \<and> amount_of (ai_key rewards_acc) = Some amount \<and> infos store (ai_key info_acc) = Some info
    \<and> reward_info_accrue info (reward_ratio (ac_reward_tokens a)) amount (fst staked) (snd staked) now = Ok info'
    \<and> get_governance_account_balance sdk (ac_caller_governance_token_account a) (ac_realm a)
       (fst (ac_governance_token_mint a)) (ac_caller a) = Ok bal
    \<and> user_process_init_if_needed (users store (ai_key user_acc))
       (snd (user_reward_info_pda sdk (ga_key (ac_realm a)) (ai_key mint) (ac_caller a)))
       (ga_key (ac_realm a)) (ai_key mint) info' bal = Ok u
    \<and> store' = store\<lparr>infos := (infos store)(ai_key info_acc := Some info'),
       users := (users store)(ai_key user_acc := Some u)\<rparr>
    \<and> rest = others"
proof -
  from assms obtain amount info info' store1 where
    1: "ai_key info_acc = fst (reward_info_pda sdk (ga_key (ac_realm a)) (ai_key mint))"
      "ai_key user_acc = fst (user_reward_info_pda sdk (ga_key (ac_realm a)) (ai_key mint) (ac_caller a))"
      "ai_key rewards_acc = associated_token_address sdk (ac_reward_tokens_key a) (ai_key mint)
      (ac_token_program a)"
      "amount_of (ai_key rewards_acc) = Some amount" "infos store (ai_key info_acc) = Some info"
      "reward_info_accrue info (reward_ratio (ac_reward_tokens a)) amount (fst staked) (snd staked) now
        = Ok info'"
    and 2: "accrue_user sdk a (ac_caller a) (ac_caller_governance_token_account a) (ai_key user_acc)
      (ai_key mint) info' store = Ok store1"
    and 3: "store' = store1\<lparr>infos := (infos store1)(ai_key info_acc := Some info')\<rparr>" "rest = others"
    unfolding accrue_round_def by (auto simp: next_account_Ok Let_def)
  from 2 obtain bal u where
    "get_governance_account_balance sdk (ac_caller_governance_token_account a) (ac_realm a)
       (fst (ac_governance_token_mint a)) (ac_caller a) = Ok bal"
    "user_process_init_if_needed (users store (ai_key user_acc))
       (snd (user_reward_info_pda sdk (ga_key (ac_realm a)) (ai_key mint) (ac_caller a)))
       (ga_key (ac_realm a)) (ai_key mint) info' bal = Ok u"
    "store1 = store\<lparr>users := (users store)(ai_key user_acc := Some u)\<rparr>"
    unfolding accrue_user_def by auto
  with 1 3 show ?thesis by auto
qed

lemma accrue_rewards_one:
  assumes acc: "accrue_rewards sdk a [mint, info_acc, rewards_acc, user_acc] wr t amount_of store = Ok store'"
    and user: "ac_user a = ac_caller a"
  shows "\<exists>staked decimals amount info info' bal u.
    get_realm_staked_balance_and_mint_decimals sdk (ga_key (ac_realm a)) (ac_governance_token_mint a)
       (ac_governance_staked_token_account a) = Ok (staked, decimals)
    \<and> ai_key rewards_acc = associated_token_address sdk (ac_reward_tokens_key a) (ai_key mint)
       (ac_token_program a)
    \<and> amount_of (ai_key rewards_acc) = Some amount \<and> infos store (ai_key info_acc) = Some info
    \<and> reward_info_accrue info (reward_ratio (ac_reward_tokens a)) amount staked decimals (as_u64 t) = Ok info'
    \<and> get_governance_account_balance sdk (ac_caller_governance_token_account a) (ac_realm a)
       (fst (ac_governance_token_mint a)) (ac_caller a) = Ok bal
    \<and> user_process_init_if_needed (users store (ai_key user_acc))
       (snd (user_reward_info_pda sdk (ga_key (ac_realm a)) (ai_key mint) (ac_caller a)))
       (ga_key (ac_realm a)) (ai_key mint) info' bal = Ok u
    \<and> store' = store\<lparr>infos := (infos store)(ai_key info_acc := Some info'),
       users := (users store)(ai_key user_acc := Some u)\<rparr>"
proof -
  from acc obtain staked rest where staked: "get_realm_staked_balance_and_mint_decimals sdk
        (ga_key (ac_realm a)) (ac_governance_token_mint a) (ac_governance_staked_token_account a) = Ok staked"
    and round: "accrue_round sdk a wr (as_u64 t) staked amount_of
      ([mint, info_acc, rewards_acc, user_acc], store) = Ok (rest, store')"
    unfolding accrue_rewards_def user if_True Let_def one_group by auto
  show ?thesis
    using accrue_round_Ok [OF round user] staked by (cases staked) auto
qed

section \<open>A claim\<close>

text \<open>
  C17: A claim of one reward token first accrues the token's index and the user up to the present,
  then pays the user the accrued rewards in whole units, which is not nothing, from the
  associated account of the reward tokens; the fraction stays accrued, the payment is added to
  what was claimed, and nothing else in the store changes.
\<close>
theorem claim_rewards_spec:
  assumes "claim_rewards sdk a [mint, info_acc, rewards_acc, user_acc, receiver] t amount_after store
      = Ok (store', cpis)"
  shows "\<exists>staked decimals amount info info' bal u raw.
      get_realm_staked_balance_and_mint_decimals sdk (ga_key (ac_realm a)) (ac_governance_token_mint a)
        (ac_governance_staked_token_account a) = Ok (staked, decimals)
    \<and> get_governance_account_balance sdk (ac_caller_governance_token_account a) (ac_realm a)
        (fst (ac_governance_token_mint a)) (ac_user a) = Ok bal
    \<and> amount_after [] (ai_key rewards_acc) = Some amount
    \<and> ai_key rewards_acc = associated_token_address sdk (ac_reward_tokens_key a) (ai_key mint)
        (ac_token_program a)
    \<and> infos store (fst (reward_info_pda sdk (ga_key (ac_realm a)) (ai_key mint))) = Some info
    \<and> reward_info_accrue info (reward_ratio (ac_reward_tokens a)) amount staked decimals (as_u64 t) = Ok info'
    \<and> user_process_init_if_needed
        (users store (fst (user_reward_info_pda sdk (ga_key (ac_realm a)) (ai_key mint) (ac_user a))))
        (snd (user_reward_info_pda sdk (ga_key (ac_realm a)) (ai_key mint) (ac_user a)))
        (ga_key (ac_realm a)) (ai_key mint) info' bal = Ok u
    \<and> raw = min (accrued_rewards u div D9) U64_MAX \<and> 0 < raw
    \<and> store' = store
        \<lparr>infos := (infos store)(fst (reward_info_pda sdk (ga_key (ac_realm a)) (ai_key mint))
             := Some (info'\<lparr>total_claimed := total_claimed info' + raw * D9\<rparr>)),
         users := (users store)(fst (user_reward_info_pda sdk (ga_key (ac_realm a)) (ai_key mint) (ac_user a))
             := Some (u\<lparr>accrued_rewards := accrued_rewards u - raw * D9\<rparr>))\<rparr>
    \<and> cpis = [TransferChecked (ai_key rewards_acc) (ai_key receiver) (ac_reward_tokens_key a)
        (ai_key mint) raw]"
proof -
  let ?a = "a\<lparr>ac_caller := ac_user a,
      ac_user_governance_token_account := ac_caller_governance_token_account a\<rparr>"
  from assms have claim_round: "\<exists>st. claim_round sdk ?a [mint, info_acc, rewards_acc, user_acc, receiver] t
      amount_after \<lparr>cl_iter = [mint, info_acc, rewards_acc, user_acc, receiver], cl_index = 0,
        cl_store = store, cl_cpis = []\<rparr> = Ok st \<and> store' = cl_store st \<and> cpis = cl_cpis st"
    unfolding claim_rewards_def one_group by auto
  then obtain store1 info u info' u' raw where
    acc: "accrue_rewards sdk ?a [mint, info_acc, rewards_acc, user_acc] True t (amount_after []) store = Ok store1"
    and keys: "ai_key info_acc = fst (reward_info_pda sdk (ga_key (ac_realm a)) (ai_key mint))"
      "ai_key user_acc = fst (user_reward_info_pda sdk (ga_key (ac_realm a)) (ai_key mint) (ac_user a))"
    and old: "infos store1 (ai_key info_acc) = Some info" "users store1 (ai_key user_acc) = Some u"
    and claim: "claim_amounts info u = Ok (info', u', raw)"
    and store': "store' = store1\<lparr>infos := (infos store1)(ai_key info_acc := Some info'),
      users := (users store1)(ai_key user_acc := Some u')\<rparr>"
    and cpis: "cpis = [TransferChecked (ai_key rewards_acc) (ai_key receiver) (ac_reward_tokens_key a)
      (ai_key mint) raw]"
    unfolding claim_round_def by (auto simp: next_account_Ok Let_def)
  note c = claim_amounts_Ok [OF claim]
  from accrue_rewards_one [OF acc] obtain staked decimals amount info0 info1 bal u1 where
    a: "get_realm_staked_balance_and_mint_decimals sdk (ga_key (ac_realm a)) (ac_governance_token_mint a)
        (ac_governance_staked_token_account a) = Ok (staked, decimals)"
      "ai_key rewards_acc = associated_token_address sdk (ac_reward_tokens_key a) (ai_key mint)
        (ac_token_program a)"
      "amount_after [] (ai_key rewards_acc) = Some amount" "infos store (ai_key info_acc) = Some info0"
      "reward_info_accrue info0 (reward_ratio (ac_reward_tokens a)) amount staked decimals (as_u64 t) = Ok info1"
      "get_governance_account_balance sdk (ac_caller_governance_token_account a) (ac_realm a)
        (fst (ac_governance_token_mint a)) (ac_user a) = Ok bal"
      "user_process_init_if_needed (users store (ai_key user_acc))
        (snd (user_reward_info_pda sdk (ga_key (ac_realm a)) (ai_key mint) (ac_user a)))
        (ga_key (ac_realm a)) (ai_key mint) info1 bal = Ok u1"
      "store1 = store\<lparr>infos := (infos store)(ai_key info_acc := Some info1),
        users := (users store)(ai_key user_acc := Some u1)\<rparr>"
    by auto
  have same: "info = info1" "u = u1" using old a(8) by simp_all
  show ?thesis
    by (intro exI conjI, fact a(1), fact a(6), fact a(3), fact a(2), fact a(4) [unfolded keys], fact a(5),
        fact a(7) [unfolded keys], fact c(2) [unfolded same], fact c(1))
      (simp_all add: store' a(8) c keys same cpis)
qed

text \<open>A claim of a staker of a billion raw units.\<close>

definition sample_record :: governance_account where
  "sample_record = \<lparr>ga_key = PK 1004, ga_owner = default_pubkey,
     ga_data = replicate 97 0 @ [0, 202, 154, 59, 0, 0, 0, 0]\<rparr>"

definition sample_accrue_accounts :: accrue_accounts where
  "sample_accrue_accounts = \<lparr>ac_token_program = PK 1, ac_caller = PK 4,
     ac_realm = \<lparr>ga_key = PK 1, ga_owner = default_pubkey, ga_data = replicate 32 0 @ [5]\<rparr>,
     ac_reward_tokens_key = PK 6,
     ac_reward_tokens = \<lparr>rt_bump = 255, rt_realm = PK 1, rewards_admin = PK 2,
       reward_ratio = 8022536812036, rt_tokens = replicate 4 default_pubkey\<rparr>,
     ac_governance_token_mint = (PK 5, Some \<lparr>md_decimals = 9, md_supply = 10 ^ 9,
       md_extension_types = [], md_default_account_state = None, md_transfer_hook = None\<rparr>),
     ac_governance_staked_token_account = (PK 1003, Some \<lparr>td_mint = PK 5, td_owner = PK 1,
       td_amount = 10 ^ 9, td_extension_types = []\<rparr>),
     ac_caller_governance_token_account = sample_record, ac_user = PK 4,
     ac_user_governance_token_account = sample_record\<rparr>"

definition sample_stake_account :: "pubkey \<Rightarrow> bool \<Rightarrow> account_info" where
  "sample_stake_account k program = \<lparr>ai_key = k, ai_is_signer = False, ai_is_writable = k \<noteq> PK 3,
     ai_data_is_empty = True, ai_owner = PK 0, ai_executable = program,
     ai_mint = snd (ac_governance_token_mint sample_accrue_accounts), ai_token = None\<rparr>"

definition sample_store :: reward_store where
  "sample_store = \<lparr>infos = (\<lambda>_. None)(PK 1003 := Some (sample_info 101 80226 80226 (10 ^ 19) 0)),
     users = (\<lambda>_. None)\<rparr>"

lemma sample_staked:
  "get_realm_staked_balance_and_mint_decimals sample_sdk (ga_key (ac_realm sample_accrue_accounts))
     (ac_governance_token_mint sample_accrue_accounts)
     (ac_governance_staked_token_account sample_accrue_accounts) = Ok (10 ^ 9, 9)"
  by (simp add: get_realm_staked_balance_and_mint_decimals_def sample_sdk_def sample_accrue_accounts_def)

lemma sample_stake:
  "get_governance_account_balance sample_sdk sample_record (ac_realm sample_accrue_accounts) (PK 5) (PK 4)
     = Ok (10 ^ 9)"
proof -
  have "slice 97 8 (ga_data sample_record) = Ok [0, 202, 154, 59, 0, 0, 0, 0]"
    "length (ga_data sample_record) = 105"
    by (simp_all add: slice_def sample_record_def)
  moreover have "slice 1 32 (ga_data (ac_realm sample_accrue_accounts)) = Ok (replicate 31 0 @ [5])"
    by (simp add: slice_def sample_accrue_accounts_def)
  moreover have "pubkey_from_bytes (replicate 31 0 @ [5]) = PK 5"
    by (simp add: pubkey_from_bytes_def numeral_eq_Suc)
  ultimately show ?thesis
    by (simp add: get_governance_account_balance_def u64_from_le_bytes_def sample_sdk_def sample_record_def)
qed

abbreviation "sample_claim_accounts \<equiv>
  [sample_stake_account (PK 3) False, sample_stake_account (PK 1003) False,
   sample_stake_account (PK 506) False, sample_stake_account (PK 1004) False]"

definition sample_accrued_store :: reward_store where
  "sample_accrued_store =
     \<lparr>infos = (\<lambda>_. None)(PK 1003 := Some (sample_info 102 80225368200576 80225368200576 (10 ^ 19) 0)),
      users = (\<lambda>_. None)(PK 1004 := Some ((sample_user 80225368200576 80225368200576)\<lparr>ur_bump := 255\<rparr>))\<rparr>"

lemma sample_user_accrual_255:
  "user_process_init_if_needed None 255 (PK 1) (PK 3) (sample_info 102 80225368200576 80225368200576 (10 ^ 19) 0)
     (10 ^ 9) = Ok ((sample_user 80225368200576 80225368200576)\<lparr>ur_bump := 255\<rparr>)"
  by (simp add: reward_eval)

lemma sample_accessors:
  "ga_key (ac_realm sample_accrue_accounts) = PK 1" "ac_caller sample_accrue_accounts = PK 4"
  "ac_user sample_accrue_accounts = PK 4" "ac_reward_tokens_key sample_accrue_accounts = PK 6"
  "ac_token_program sample_accrue_accounts = PK 1"
  "ac_caller_governance_token_account sample_accrue_accounts = sample_record"
  "find_program_address sample_sdk [a, b, c] p = (PK 1003, 255)"
  "find_program_address sample_sdk [a, b, c, d] p = (PK 1004, 255)"
  "associated_token_address sample_sdk (PK 6) m q = PK 506"
  by (simp_all add: sample_accrue_accounts_def sample_sdk_def)

lemma sample_accrue_run:
  "accrue_round sample_sdk sample_accrue_accounts True 102 (10 ^ 9, 9) [PK 506 \<mapsto> 10 ^ 10]
     (sample_claim_accounts, sample_store) = Ok ([], sample_accrued_store)"
proof -
  have accrual: "reward_info_accrue (sample_info 101 80226 80226 (10 ^ 19) 0)
      (reward_ratio (ac_reward_tokens sample_accrue_accounts)) (10 ^ 10) (10 ^ 9) 9 102
     = Ok (sample_info 102 80225368200576 80225368200576 (10 ^ 19) 0)"
    using sample_accruals(2) by (simp add: sample_accrue_accounts_def)
  have user: "accrue_user sample_sdk sample_accrue_accounts (PK 4) sample_record (PK 1004) (PK 3)
      (sample_info 102 80225368200576 80225368200576 (10 ^ 19) 0) sample_store
    = Ok (sample_store\<lparr>users := [PK 1004 \<mapsto> (sample_user 80225368200576 80225368200576)\<lparr>ur_bump := 255\<rparr>]\<rparr>)"
  proof -
    have "fst (ac_governance_token_mint sample_accrue_accounts) = PK 5"
      "ga_key (ac_realm sample_accrue_accounts) = PK 1" "users sample_store = (\<lambda>_. None)"
      "snd (user_reward_info_pda sample_sdk (PK 1) (PK 3) (PK 4)) = 255"
      by (simp_all add: sample_accrue_accounts_def sample_store_def user_reward_info_pda_def sample_sdk_def)
    then show ?thesis
      unfolding accrue_user_def by (simp only: sample_stake sample_user_accrual_255 and_then_simps)
  qed
  note accs = sample_accessors
  show ?thesis
    unfolding accrue_round_def Let_def
    by (simp add: next_account_def sample_stake_account_def reward_info_pda_def user_reward_info_pda_def accs
        accrual [simplified] user [unfolded sample_store_def, simplified] sample_store_def
        sample_accrued_store_def)
qed

lemma sample_accrue_rewards_run:
  "accrue_rewards sample_sdk (sample_accrue_accounts\<lparr>ac_caller := PK 4,
       ac_user_governance_token_account := sample_record\<rparr>) sample_claim_accounts True 102
     [PK 506 \<mapsto> 10 ^ 10] sample_store = Ok sample_accrued_store"
proof -
  have same: "sample_accrue_accounts\<lparr>ac_caller := PK 4, ac_user_governance_token_account := sample_record\<rparr>
      = sample_accrue_accounts"
    by (simp add: sample_accrue_accounts_def)
  have now: "as_u64 102 = 102" by (simp add: as_u64_def)
  show ?thesis
    unfolding accrue_rewards_def same sample_staked [unfolded sample_accessors] sample_accessors now and_then_simps if_True Let_def
      one_group check_condition_simps prod.case
    by (simp add: sample_accrue_run [simplified])
qed

lemma sample_claim_255:
  "claim_amounts (sample_info 102 80225368200576 80225368200576 (10 ^ 19) 0)
       ((sample_user 80225368200576 80225368200576)\<lparr>ur_bump := 255\<rparr>)
     = Ok (sample_info 102 80225368200576 80225368200576 (10 ^ 19) 80225000000000,
         (sample_user 80225368200576 368200576)\<lparr>ur_bump := 255\<rparr>, 80225)"
  by (simp add: reward_eval)

definition sample_claimed_store :: reward_store where
  "sample_claimed_store =
     \<lparr>infos = (\<lambda>_. None)(PK 1003 := Some (sample_info 102 80225368200576 80225368200576 (10 ^ 19) 80225000000000)),
      users = (\<lambda>_. None)(PK 1004 := Some ((sample_user 80225368200576 368200576)\<lparr>ur_bump := 255\<rparr>))\<rparr>"

lemma sample_claim_run:
  "claim_rewards sample_sdk sample_accrue_accounts
     [sample_stake_account (PK 3) False, sample_stake_account (PK 1003) False,
      sample_stake_account (PK 506) False, sample_stake_account (PK 1004) False,
      sample_stake_account (PK 9) False] 102 (\<lambda>_. [PK 506 \<mapsto> 10 ^ 10]) sample_store
     = Ok (sample_claimed_store, [TransferChecked (PK 506) (PK 9) (PK 6) (PK 3) 80225])"
proof -
  have mint: "ai_mint (sample_stake_account (PK 3) False) = Some (\<lparr>md_decimals = 9, md_supply = 10 ^ 9,
       md_extension_types = [], md_default_account_state = None, md_transfer_hook = None\<rparr>)"
    by (simp add: sample_stake_account_def sample_accrue_accounts_def)
  have store: "infos sample_accrued_store (PK 1003) = Some (sample_info 102 80225368200576 80225368200576 (10 ^ 19) 0)"
    "users sample_accrued_store (PK 1004) = Some ((sample_user 80225368200576 80225368200576)\<lparr>ur_bump := 255\<rparr>)"
    by (simp_all add: sample_accrued_store_def)
  have nxt: "next_account (sample_stake_account k False # rest) False (k \<noteq> PK 3) q
      = Ok (sample_stake_account k False, rest)" "ai_key (sample_stake_account k b) = k" for k b q rest
    by (simp_all add: next_account_def sample_stake_account_def)
  note nxt' = nxt(1) [of "PK 3", simplified] nxt(1) [of "PK 1003", simplified]
    nxt(1) [of "PK 506", simplified] nxt(1) [of "PK 1004", simplified] nxt(1) [of "PK 9", simplified]
  show ?thesis
    unfolding claim_rewards_def one_group claim_round_def Let_def
    by (simp add: sample_accessors sample_accrue_rewards_run [simplified] nxt' nxt(2) reward_info_pda_def
        user_reward_info_pda_def mint store sample_claim_255 [simplified])
      (simp add: sample_claimed_store_def sample_accrued_store_def)
qed

theorem claim_rewards_spec_witness:
  "\<exists>u. min (accrued_rewards u div D9) U64_MAX = 80225
     \<and> users sample_claimed_store (PK 1004) = Some (u\<lparr>accrued_rewards := accrued_rewards u - 80225 * D9\<rparr>)"
proof -
  from claim_rewards_spec [OF sample_claim_run] obtain info' u raw where
    raw: "raw = min (accrued_rewards u div D9) U64_MAX"
    and store: "sample_claimed_store = sample_store
       \<lparr>infos := (infos sample_store)(fst (reward_info_pda sample_sdk (ga_key (ac_realm sample_accrue_accounts))
            (ai_key (sample_stake_account (PK 3) False))) := Some (info'\<lparr>total_claimed := total_claimed info' + raw * D9\<rparr>)),
        users := (users sample_store)(fst (user_reward_info_pda sample_sdk (ga_key (ac_realm sample_accrue_accounts))
            (ai_key (sample_stake_account (PK 3) False)) (ac_user sample_accrue_accounts))
          := Some (u\<lparr>accrued_rewards := accrued_rewards u - raw * D9\<rparr>))\<rparr>"
    and sent: "[TransferChecked (PK 506) (PK 9) (PK 6) (PK 3) 80225] = [TransferChecked
       (ai_key (sample_stake_account (PK 506) False)) (ai_key (sample_stake_account (PK 9) False))
       (ac_reward_tokens_key sample_accrue_accounts) (ai_key (sample_stake_account (PK 3) False)) raw]"
    by blast
  have "raw = 80225" using sent by simp
  moreover have "users sample_claimed_store (PK 1004) = Some (u\<lparr>accrued_rewards := accrued_rewards u - raw * D9\<rparr>)"
    by (subst store) (simp add: user_reward_info_pda_def sample_accessors sample_stake_account_def)
  ultimately show ?thesis using raw by metis
qed

section \<open>Stake deposited without the accounts of a token\<close>

text \<open>
  C39: The call that the governance program makes before a deposit succeeds without accruing
  anything when the depositor passes no accounts of reward tokens; a depositor who has no reward
  account yet is then credited, at the first accrual after the deposit, with the full index of the
  token since it was added, for the whole new stake.
\<close>
theorem unaccrued_deposit_earns_history:
  assumes "ai_key rewards_program = REWARDS_PROGRAM_ID" "ai_executable rewards_program"
    and "get_realm_staked_balance_and_mint_decimals sdk (ga_key (ac_realm a)) (ac_governance_token_mint a)
      (ac_governance_staked_token_account a) = Ok staked"
    and "user_process_init_if_needed None bump realm token info stake = Ok u"
  shows "governance_accrue_rewards sdk rewards_program a owner [] t amount_of store = Ok store
    \<and> accrued_rewards u = min (stake * D9 * reward_index info div D18) U128_MAX
    \<and> last_reward_index u = reward_index info"
proof -
  have "governance_accrue_rewards sdk rewards_program a owner [] t amount_of store = Ok store"
    using assms(1-3) by (simp add: governance_accrue_rewards_def accrue_rewards_def)
  moreover have "accrued_rewards u = min (stake * D9 * reward_index info div D18) U128_MAX
    \<and> last_reward_index u = reward_index info"
    using assms(4) by (auto simp: user_process_init_if_needed_def dest!: user_accrue_Ok)
  ultimately show ?thesis by simp
qed

text \<open>A stake of a billion raw units, deposited when the index is \<open>80225368200576\<close>.\<close>

theorem unaccrued_deposit_earns_history_witness:
  "accrued_rewards (sample_user 80225368200576 80225368200576)
     = min (10 ^ 9 * D9 * 80225368200576 div D18) U128_MAX
   \<and> governance_accrue_rewards sample_sdk (sample_stake_account REWARDS_PROGRAM_ID True)
       sample_accrue_accounts sample_record [] 102 (\<lambda>_. None) sample_store = Ok sample_store"
  using unaccrued_deposit_earns_history [OF _ _ sample_staked sample_user_accrual,
      of "sample_stake_account REWARDS_PROGRAM_ID True" sample_record 102 "\<lambda>_. None" sample_store]
  by (simp add: sample_stake_account_def sample_info_def)

end
