(* ===== verification/RewardRegistry.thy ===== *)
theory RewardRegistry
  imports RewardInstructions Transitions
begin

text \<open>
  The reward tokens of a realm over time: setting the administrator, adding and removing tokens,
  setting the ratio, and the accruals in between. The four slots never hold a token twice, and a
  removed token is disallowed for good.
\<close>

section \<open>The state machine\<close>

record registry =
  rg_tokens :: "reward_tokens option"
  rg_infos :: "pubkey \<Rightarrow> reward_info option"

text \<open>
  The reward info of an instruction lives at the address derived from the realm and the mint of
  the reward token, so it is found by the mint; no mint lives at the default key. The bump of a
  derived address is not zero.
\<close>

inductive registry_step :: "registry \<Rightarrow> registry \<Rightarrow> bool" where
  set_admin: "set_rewards_admin sdk realm admin (rg_tokens r) bump = Ok rt
    \<Longrightarrow> registry_step r (r\<lparr>rg_tokens := Some rt\<rparr>)"
| add: "rg_tokens r = Some rt \<Longrightarrow> token \<noteq> default_pubkey \<Longrightarrow>
    add_reward_token admin realm key rt token mint token_account (rg_infos r token) bump t = Ok (rt', info)
    \<Longrightarrow> registry_step r (r\<lparr>rg_tokens := Some rt', rg_infos := (rg_infos r)(token := Some info)\<rparr>)"
| remove: "rg_tokens r = Some rt \<Longrightarrow> token \<noteq> default_pubkey \<Longrightarrow> rg_infos r token = Some info \<Longrightarrow>
    remove_reward_token sdk admin realm rt token mint staked info balance t = Ok (rt', info')
    \<Longrightarrow> registry_step r (r\<lparr>rg_tokens := Some rt', rg_infos := (rg_infos r)(token := Some info')\<rparr>)"
| set_ratio: "rg_tokens r = Some rt \<Longrightarrow> check_rewards_admin admin realm rt = Ok () \<Longrightarrow>
    set_reward_ratio rt half_life = Ok rt'
    \<Longrightarrow> registry_step r (r\<lparr>rg_tokens := Some rt'\<rparr>)"
| accrue: "rg_tokens r = Some rt \<Longrightarrow> rg_infos r token = Some info \<Longrightarrow>
    reward_info_accrue info (reward_ratio rt) balance staked_balance decimals now = Ok info'
    \<Longrightarrow> registry_step r (r\<lparr>rg_infos := (rg_infos r)(token := Some info')\<rparr>)"

definition empty_registry :: registry where
  "empty_registry = \<lparr>rg_tokens = None, rg_infos = (\<lambda>_. None)\<rparr>"

definition listed :: "registry \<Rightarrow> pubkey list" where
  "listed r = (case rg_tokens r of None \<Rightarrow> [] | Some rt \<Rightarrow> filter (\<lambda>t. t \<noteq> default_pubkey) (rt_tokens rt))"

text \<open>A token that was removed: its reward info forbids it.\<close>

definition barred :: "registry \<Rightarrow> pubkey \<Rightarrow> bool" where
  "barred r token = (case rg_infos r token of None \<Rightarrow> False | Some info \<Rightarrow> is_disallowed info)"

section \<open>The invariant\<close>

definition registry_ok :: "registry \<Rightarrow> bool" where
  "registry_ok r \<longleftrightarrow>
     (case rg_tokens r of None \<Rightarrow> True | Some rt \<Rightarrow> length (rt_tokens rt) = MAX_REWARD_TOKENS)
   \<and> distinct (listed r) \<and> (\<forall>token\<in>set (listed r). \<not> barred r token)"

definition bars_more :: "registry \<Rightarrow> registry \<Rightarrow> bool" where
  "bars_more r r' \<longleftrightarrow> (\<forall>token. barred r token \<longrightarrow> barred r' token)"

lemma reward_info_accrue_disallowed:
  assumes "reward_info_accrue info ratio B staked dec t = Ok info'"
  shows "is_disallowed info' = is_disallowed info"
proof (cases "is_disallowed info \<or> t \<le> payout_last_paid info")
  case True
  then show ?thesis using assms by (simp add: reward_info_accrue_skip)
next
  case False
  then have "\<not> is_disallowed info" "payout_last_paid info < t" by simp_all
  with assms show ?thesis by (rule reward_info_accrue_Ok) simp
qed

text \<open>The slot that \<open>add_reward_token\<close> takes is free, and the token is nowhere.\<close>

lemma find_reward_slot_Ok:
  assumes "find_reward_slot new n next tokens = Ok (Some i)"
  shows "new \<notin> set tokens
    \<and> (next = None \<longrightarrow> n \<le> i \<and> i < n + length tokens \<and> tokens ! (i - n) = default_pubkey)
    \<and> (next \<noteq> None \<longrightarrow> next = Some i)"
  using assms
proof (induction tokens arbitrary: n "next")
  case (Cons token tokens)
  then show ?case
    by (cases "next = None \<and> token = default_pubkey")
      (auto simp: nth_Cons' Suc_diff_Suc dest!: Cons.IH)
qed simp

lemma filter_update_free:
  assumes "i < length xs" "xs ! i = d" "new \<noteq> d"
  shows "set (filter (\<lambda>t. t \<noteq> d) (xs[i := new])) = insert new (set (filter (\<lambda>t. t \<noteq> d) xs))"
    "new \<notin> set xs \<Longrightarrow> distinct (filter (\<lambda>t. t \<noteq> d) xs) \<Longrightarrow> distinct (filter (\<lambda>t. t \<noteq> d) (xs[i := new]))"
proof -
  have xs: "xs = take i xs @ d # drop (Suc i) xs" using assms(1,2) id_take_nth_drop by metis
  have up: "xs[i := new] = take i xs @ new # drop (Suc i) xs" using assms(1) upd_conv_take_nth_drop by metis
  show "set (filter (\<lambda>t. t \<noteq> d) (xs[i := new])) = insert new (set (filter (\<lambda>t. t \<noteq> d) xs))"
    by (subst (2) xs, subst up) (use assms(3) in auto)
  assume "new \<notin> set xs" "distinct (filter (\<lambda>t. t \<noteq> d) xs)"
  then show "distinct (filter (\<lambda>t. t \<noteq> d) (xs[i := new]))"
    by (subst up) (subst (asm) (1 2) xs, auto)
qed

lemma filter_clear_slot:
  assumes "i < length xs" "distinct (filter (\<lambda>t. t \<noteq> d) xs)" "xs ! i \<noteq> d"
  shows "distinct (filter (\<lambda>t. t \<noteq> d) (xs[i := d]))"
    "set (filter (\<lambda>t. t \<noteq> d) (xs[i := d])) = set (filter (\<lambda>t. t \<noteq> d) xs) - {xs ! i}"
proof -
  have xs: "xs = take i xs @ xs ! i # drop (Suc i) xs" using assms(1) id_take_nth_drop by metis
  have up: "xs[i := d] = take i xs @ d # drop (Suc i) xs" using assms(1) upd_conv_take_nth_drop by metis
  have dis: "distinct (filter (\<lambda>t. t \<noteq> d) (take i xs @ xs ! i # drop (Suc i) xs))"
    using assms(2) xs by simp
  show "distinct (filter (\<lambda>t. t \<noteq> d) (xs[i := d]))" using dis assms(3) by (auto simp: up)
  have "set (filter (\<lambda>t. t \<noteq> d) (xs[i := d]))
      = set (filter (\<lambda>t. t \<noteq> d) (take i xs @ xs ! i # drop (Suc i) xs)) - {xs ! i}"
    using dis assms(3) by (auto simp: up)
  then show "set (filter (\<lambda>t. t \<noteq> d) (xs[i := d])) = set (filter (\<lambda>t. t \<noteq> d) xs) - {xs ! i}"
    using xs by simp
qed

lemma position_Some:
  "position p xs = Some i \<Longrightarrow> i < length xs \<and> p (xs ! i) \<and> (\<forall>j<i. \<not> p (xs ! j))"
proof (induction xs arbitrary: i)
  case (Cons x xs)
  then show ?case by (auto split: if_splits simp: nth_Cons' less_Suc_eq_0_disj)
qed simp

lemma add_reward_token_Ok:
  assumes "add_reward_token admin realm key rt token mint token_account old bump t = Ok (rt', info)"
  obtains i where "i < length (rt_tokens rt)" "rt_tokens rt ! i = default_pubkey"
    "token \<notin> set (rt_tokens rt)" "rt' = rt\<lparr>rt_tokens := (rt_tokens rt)[i := token]\<rparr>"
    "\<not> is_disallowed info" "case old of None \<Rightarrow> True | Some x \<Rightarrow> \<not> is_disallowed x"
    "admin = rewards_admin rt" "rt_realm rt = realm"
proof -
  from assms obtain i where slot: "find_reward_slot token 0 None (rt_tokens rt) = Ok (Some i)"
    and rt': "rt' = rt\<lparr>rt_tokens := (rt_tokens rt)[i := token]\<rparr>" and info: "\<not> is_disallowed info"
    and init: "reward_info_process_init_if_needed (case old of None \<Rightarrow> default_reward_info | Some x \<Rightarrow> x) bump
      realm token (td_amount token_account) t = Ok info"
    and admin: "admin = rewards_admin rt" "rt_realm rt = realm"
    by (auto simp: add_reward_token_def rt_add_reward_token_def validate_add_reward_token_def
        check_rewards_admin_def split: option.splits)
  have "case old of None \<Rightarrow> True | Some x \<Rightarrow> \<not> is_disallowed x"
    using init info by (auto simp: reward_info_process_init_if_needed_def split: option.splits if_splits)
  with find_reward_slot_Ok [OF slot] rt' info admin show thesis by (intro that) auto
qed

lemma remove_reward_token_Ok:
  assumes "remove_reward_token sdk admin realm rt token mint staked info balance t = Ok (rt', info')"
  obtains i where "i < length (rt_tokens rt)" "rt_tokens rt ! i = token"
    "rt' = rt\<lparr>rt_tokens := (rt_tokens rt)[i := default_pubkey]\<rparr>" "is_disallowed info'"
proof (cases "position (\<lambda>t. t = token) (rt_tokens rt)")
  case None
  then show thesis using assms by (auto simp: remove_reward_token_def rt_remove_reward_token_def)
next
  case (Some i)
  then have "rt' = rt\<lparr>rt_tokens := (rt_tokens rt)[i := default_pubkey]\<rparr>" "is_disallowed info'"
    using assms by (auto simp: remove_reward_token_def rt_remove_reward_token_def)
  then show thesis using that position_Some [OF Some] by blast
qed

lemma set_rewards_admin_tokens:
  assumes "set_rewards_admin sdk realm admin account bump = Ok rt"
  shows "rt_tokens rt = (case account of None \<Rightarrow> replicate MAX_REWARD_TOKENS default_pubkey
    | Some old \<Rightarrow> rt_tokens old)"
  using assms
  by (auto simp: set_rewards_admin_def reward_tokens_process_init_if_needed_def split: option.splits)

lemma registry_step_keeps:
  assumes "registry_step r r'" "registry_ok r"
  shows "registry_ok r' \<and> bars_more r r'"
  using assms(1)
proof cases
  case (set_admin sdk realm admin bump rt)
  then show ?thesis using set_rewards_admin_tokens [OF set_admin(2)] assms(2)
    by (auto simp: registry_ok_def bars_more_def barred_def listed_def split: option.splits)
next
  case (add rt token admin realm key mint token_account bump t rt' info)
  from add(4) obtain i where i: "i < length (rt_tokens rt)" "rt_tokens rt ! i = default_pubkey"
    "token \<notin> set (rt_tokens rt)" "rt' = rt\<lparr>rt_tokens := (rt_tokens rt)[i := token]\<rparr>"
    "\<not> is_disallowed info" "case rg_infos r token of None \<Rightarrow> True | Some x \<Rightarrow> \<not> is_disallowed x"
    by (rule add_reward_token_Ok)
  show ?thesis
    using assms(2) add(2,3) i(4-6) filter_update_free(1) [OF i(1,2) add(3)]
      filter_update_free(2) [OF i(1,2) add(3) i(3)]
    by (auto simp: add(1) registry_ok_def bars_more_def barred_def listed_def split: option.splits)
next
  case (remove rt token info sdk admin realm mint staked balance t rt' info')
  from remove(5) obtain i where i: "i < length (rt_tokens rt)" "rt_tokens rt ! i = token"
    "rt' = rt\<lparr>rt_tokens := (rt_tokens rt)[i := default_pubkey]\<rparr>" "is_disallowed info'"
    by (rule remove_reward_token_Ok)
  have dis: "distinct (filter (\<lambda>t. t \<noteq> default_pubkey) (rt_tokens rt))"
    using assms(2) remove(2) by (simp add: registry_ok_def listed_def)
  have "rt_tokens rt ! i \<noteq> default_pubkey" using i(2) remove(3) by simp
  note cleared = filter_clear_slot [OF i(1) dis this]
  show ?thesis
    using assms(2) remove(2) i(2-4) cleared
    by (auto simp: remove(1) registry_ok_def bars_more_def barred_def listed_def split: option.splits)
next
  case (set_ratio rt admin realm half_life rt')
  then show ?thesis using assms(2)
    by (auto simp: registry_ok_def bars_more_def barred_def listed_def set_reward_ratio_def)
next
  case (accrue rt token info balance staked_balance decimals now info')
  then show ?thesis using assms(2) reward_info_accrue_disallowed [OF accrue(4)]
    by (auto simp: registry_ok_def bars_more_def barred_def listed_def split: option.splits if_splits)
qed

section \<open>Every history\<close>

interpretation registries: monotone_system registry_step registry_ok bars_more
  using registry_step_keeps by unfold_locales (auto simp: bars_more_def)

lemma empty_registry_ok: "registry_ok empty_registry"
  by (simp add: registry_ok_def empty_registry_def listed_def)

lemma removed_is_barred:
  assumes "registry_step r r'" "token \<in> set (listed r)" "token \<notin> set (listed r')" "registry_ok r"
  shows "barred r' token"
  using assms(1)
proof cases
  case (remove rt token' info sdk admin realm mint staked balance t rt' info')
  from remove(5) obtain i where i: "i < length (rt_tokens rt)" "rt_tokens rt ! i = token'"
    "rt' = rt\<lparr>rt_tokens := (rt_tokens rt)[i := default_pubkey]\<rparr>" "is_disallowed info'"
    by (rule remove_reward_token_Ok)
  have dis: "distinct (filter (\<lambda>t. t \<noteq> default_pubkey) (rt_tokens rt))"
    using assms(4) remove(2) by (simp add: registry_ok_def listed_def)
  have "rt_tokens rt ! i \<noteq> default_pubkey" using i(2) remove(3) by simp
  from filter_clear_slot(2) [OF i(1) dis this] have "token = token'"
    using assms(2,3) remove(2) i(2,3) by (auto simp: remove(1) listed_def)
  then show ?thesis using i(4) by (simp add: remove(1) barred_def)
next
  case (add rt token' admin realm key mint token_account bump t rt' info)
  from add(4) obtain i where i: "i < length (rt_tokens rt)" "rt_tokens rt ! i = default_pubkey"
    "rt' = rt\<lparr>rt_tokens := (rt_tokens rt)[i := token']\<rparr>"
    by (rule add_reward_token_Ok)
  show ?thesis
    using assms(2,3) add(2) i(3) filter_update_free(1) [OF i(1,2) add(3)] by (auto simp: add(1) listed_def)
next
  case (set_admin sdk realm admin bump rt)
  then show ?thesis using assms(2,3) set_rewards_admin_tokens [OF set_admin(2)]
    by (auto simp: listed_def split: option.splits)
qed (use assms(2,3) in \<open>auto simp: listed_def set_reward_ratio_def\<close>)

text \<open>
  C18: In every history of a realm its reward tokens are at most four and distinct, and a token that
  was on the list and is not any more never comes back: from then on its reward info is disallowed,
  every attempt to add it fails, and it is on no later list.
\<close>
theorem removed_reward_token_stays_out:
  assumes "registry_step\<^sup>*\<^sup>* empty_registry r" "registry_step r r'"
    and "token \<in> set (listed r)" "token \<notin> set (listed r')" "registry_step\<^sup>*\<^sup>* r' s"
  shows "length (listed s) \<le> MAX_REWARD_TOKENS \<and> distinct (listed s) \<and> token \<notin> set (listed s)
    \<and> (\<forall>admin realm key rt mint token_account bump t x.
         add_reward_token admin realm key rt token mint token_account (rg_infos s token) bump t \<noteq> Ok x)"
proof -
  have r: "registry_ok r" using registries.reachable [OF assms(1) empty_registry_ok] .
  have r': "registry_ok r'" using registry_step_keeps [OF assms(2) r] by blast
  have s: "registry_ok s" using registries.reachable [OF assms(5) r'] .
  have bar: "barred s token"
    using removed_is_barred [OF assms(2-4) r] registries.reachable_below [OF assms(5) r']
    by (simp add: bars_more_def)
  have "length (listed s) \<le> MAX_REWARD_TOKENS"
    using s by (auto simp: registry_ok_def listed_def split: option.splits intro: order_trans [OF length_filter_le])
  moreover have "add_reward_token admin realm key rt token mint token_account (rg_infos s token) bump t \<noteq> Ok x"
    for admin realm key rt mint token_account bump t x
  proof
    assume add: "add_reward_token admin realm key rt token mint token_account (rg_infos s token) bump t = Ok x"
    obtain rt' info where "x = (rt', info)" by (cases x)
    with add show False
      using bar by (auto elim!: add_reward_token_Ok simp: barred_def split: option.splits)
  qed
  ultimately show ?thesis using s bar by (auto simp: registry_ok_def)
qed

text \<open>A realm that adds a token and removes it again.\<close>

definition sample_realm :: "nat \<Rightarrow> governance_account" where
  "sample_realm key = \<lparr>ga_key = PK key, ga_owner = default_pubkey, ga_data = replicate 65 0\<rparr>"

definition sample_reward_tokens :: "pubkey list \<Rightarrow> reward_tokens" where
  "sample_reward_tokens tokens =
     \<lparr>rt_bump = 255, rt_realm = PK 10, rewards_admin = PK 1003, reward_ratio = 0, rt_tokens = tokens\<rparr>"

definition sample_reward_mint :: mint_data where
  "sample_reward_mint = \<lparr>md_decimals = 9, md_supply = 10 ^ 9, md_extension_types = [],
     md_default_account_state = None, md_transfer_hook = None\<rparr>"

definition sample_reward_account :: token_data where
  "sample_reward_account =
     \<lparr>td_mint = PK 7, td_owner = PK 8, td_amount = 1000, td_extension_types = []\<rparr>"

definition sample_reward_info :: "bool \<Rightarrow> reward_info" where
  "sample_reward_info removed = default_reward_info\<lparr>ri_bump := 254, ri_realm := PK 10,
     ri_reward_token := PK 7, payout_last_paid := 100, balance_last_known := 1000,
     is_disallowed := removed\<rparr>"

definition sample_registry :: "pubkey list \<Rightarrow> bool option \<Rightarrow> registry" where
  "sample_registry tokens removed =
     \<lparr>rg_tokens = Some (sample_reward_tokens tokens),
      rg_infos = (\<lambda>_. None)(PK 7 := map_option sample_reward_info removed)\<rparr>"

abbreviation "no_reward_tokens \<equiv> [default_pubkey, default_pubkey, default_pubkey, default_pubkey]"
abbreviation "one_reward_token \<equiv> [PK 7, default_pubkey, default_pubkey, default_pubkey]"

lemma sample_set_admin:
  "set_rewards_admin sample_sdk (sample_realm 10) (sample_realm 1003) None 255
     = Ok (sample_reward_tokens no_reward_tokens)"
  by (simp add: set_rewards_admin_def sample_realm_def SPL_GOVERNANCE_PROGRAM_ID_def slice_def
      validate_realm_is_valid_def sample_sdk_def reward_tokens_process_init_if_needed_def
      sample_reward_tokens_def MAX_REWARD_TOKENS_def numeral_eq_Suc)

lemma sample_add_token:
  "add_reward_token (PK 1003) (PK 10) (PK 8) (sample_reward_tokens no_reward_tokens) (PK 7)
     sample_reward_mint sample_reward_account None 254 100
     = Ok (sample_reward_tokens one_reward_token, sample_reward_info False)"
  by (simp add: add_reward_token_def validate_add_reward_token_def check_rewards_admin_def
      sample_reward_tokens_def sample_reward_account_def sample_reward_mint_def sample_reward_info_def
      is_supported_spl_token_def mint_has_extensions_def token_has_extensions_def as_u64_def
      rt_add_reward_token_def reward_info_process_init_if_needed_def default_reward_info_def
      default_pubkey_def)

lemma sample_remove_token:
  "remove_reward_token sample_sdk (PK 1003) (PK 10) (sample_reward_tokens one_reward_token) (PK 7)
     (PK 9, Some sample_reward_mint) (PK 1003, Some sample_reward_account) (sample_reward_info False) 1000 100
     = Ok (sample_reward_tokens no_reward_tokens, sample_reward_info True)"
  by (simp add: remove_reward_token_def check_rewards_admin_def sample_reward_tokens_def
      rt_remove_reward_token_def get_realm_staked_balance_and_mint_decimals_def sample_sdk_def
      sample_reward_mint_def sample_reward_account_def reward_info_accrue_def sample_reward_info_def
      as_u64_def)

lemma no_infos: "(\<lambda>_. None)(k := None) = (\<lambda>_. None)"
  by (rule fun_upd_idem) simp

lemma sample_registry_steps:
  "registry_step\<^sup>*\<^sup>* empty_registry (sample_registry one_reward_token (Some False))"
  "registry_step (sample_registry one_reward_token (Some False))
     (sample_registry no_reward_tokens (Some True))"
proof -
  have "registry_step empty_registry (sample_registry no_reward_tokens None)"
    using set_admin [of sample_sdk "sample_realm 10" "sample_realm 1003" empty_registry 255] sample_set_admin
    by (simp add: empty_registry_def sample_registry_def no_infos)
  moreover have "registry_step (sample_registry no_reward_tokens None)
      (sample_registry one_reward_token (Some False))"
    using add [of "sample_registry no_reward_tokens None" "sample_reward_tokens no_reward_tokens" "PK 7" "PK 1003"
        "PK 10" "PK 8" sample_reward_mint sample_reward_account 254 100] sample_add_token
    by (simp add: sample_registry_def default_pubkey_def)
  ultimately show "registry_step\<^sup>*\<^sup>* empty_registry (sample_registry one_reward_token (Some False))"
    by (meson rtranclp.rtrancl_into_rtrancl rtranclp.rtrancl_refl)
  show "registry_step (sample_registry one_reward_token (Some False))
     (sample_registry no_reward_tokens (Some True))"
    using remove [of "sample_registry one_reward_token (Some False)" _ "PK 7" _ sample_sdk "PK 1003" "PK 10"
        "(PK 9, Some sample_reward_mint)" "(PK 1003, Some sample_reward_account)" 1000 100]
      sample_remove_token
    by (simp add: sample_registry_def default_pubkey_def)
qed

theorem removed_reward_token_stays_out_witness:
  "PK 7 \<notin> set (listed (sample_registry no_reward_tokens (Some True)))"
  using removed_reward_token_stays_out [OF sample_registry_steps, of "PK 7"]
  by (simp add: listed_def sample_registry_def sample_reward_tokens_def default_pubkey_def)

end
