(* ===== verification/GovernanceState.thy ===== *)
theory GovernanceState
  imports Accounts
begin

text \<open>
  The governance program is a fork of the SPL governance program in which stakes earn rewards
  (\<open>governance/program/src\<close>). This theory has its data (\<open>state/enums.rs\<close>, the structs of \<open>state\<close>,
  \<open>error.rs\<close>), the checks that need nothing but the data of the accounts they are methods of, and the
  records that the voter weight plugins provide. Accounts have the current layout: the layouts of
  older versions (\<open>state/legacy.rs\<close>), reserved bytes and the account type, which the type of the record
  stands for, are left out.
\<close>

section \<open>Errors\<close>

text \<open>The errors of the program are numbered from 500, those of its account tools from 1100.\<close>

abbreviation "RealmAlreadyExists \<equiv> ErrorCode 501"
abbreviation "InvalidGoverningTokenMint \<equiv> ErrorCode 503"
abbreviation "GoverningTokenOwnerMustSign \<equiv> ErrorCode 504"
abbreviation "GoverningTokenOwnerOrDelegateMustSign \<equiv> ErrorCode 505"
abbreviation "AllVotesMustBeRelinquishedToWithdrawGoverningTokens \<equiv> ErrorCode 506"
abbreviation "InvalidTokenOwnerRecordAccountAddress \<equiv> ErrorCode 507"
abbreviation "InvalidGoverningMintForTokenOwnerRecord \<equiv> ErrorCode 508"
abbreviation "InvalidRealmForTokenOwnerRecord \<equiv> ErrorCode 509"
abbreviation "InvalidProposalForProposalTransaction \<equiv> ErrorCode 510"
abbreviation "InvalidSignatoryAddress \<equiv> ErrorCode 511"
abbreviation "SignatoryAlreadySignedOff \<equiv> ErrorCode 512"
abbreviation "SignatoryMustSign \<equiv> ErrorCode 513"
abbreviation "InvalidProposalOwnerAccount \<equiv> ErrorCode 514"
abbreviation "InvalidProposalForVoterRecord \<equiv> ErrorCode 515"
abbreviation "InvalidGoverningTokenOwnerForVoteRecord \<equiv> ErrorCode 516"
abbreviation "InvalidVoteThresholdPercentage \<equiv> ErrorCode 517"
abbreviation "ProposalAlreadyExists \<equiv> ErrorCode 518"
abbreviation "VoteAlreadyExists \<equiv> ErrorCode 519"
abbreviation "NotEnoughTokensToCreateProposal \<equiv> ErrorCode 520"
abbreviation "InvalidStateCannotEditSignatories \<equiv> ErrorCode 521"
abbreviation "InvalidProposalState \<equiv> ErrorCode 522"
abbreviation "InvalidStateCannotEditTransactions \<equiv> ErrorCode 523"
abbreviation "InvalidStateCannotExecuteTransaction \<equiv> ErrorCode 524"
abbreviation "CannotExecuteTransactionWithinHoldUpTime \<equiv> ErrorCode 525"
abbreviation "TransactionAlreadyExecuted \<equiv> ErrorCode 526"
abbreviation "InvalidTransactionIndex \<equiv> ErrorCode 527"
abbreviation "TransactionAlreadyExists \<equiv> ErrorCode 529"
abbreviation "InvalidStateCannotSignOff \<equiv> ErrorCode 530"
abbreviation "InvalidStateCannotVote \<equiv> ErrorCode 531"
abbreviation "InvalidStateCannotFinalize \<equiv> ErrorCode 532"
abbreviation "InvalidStateCannotCancelProposal \<equiv> ErrorCode 533"
abbreviation "VoteAlreadyRelinquished \<equiv> ErrorCode 534"
abbreviation "CannotFinalizeVotingInProgress \<equiv> ErrorCode 535"
abbreviation "ProposalVotingTimeExpired \<equiv> ErrorCode 536"
abbreviation "InvalidGovernanceForProposal \<equiv> ErrorCode 538"
abbreviation "InvalidGoverningMintForProposal \<equiv> ErrorCode 539"
abbreviation "MintAuthorityMustSign \<equiv> ErrorCode 540"
abbreviation "InvalidMintAuthority \<equiv> ErrorCode 541"
abbreviation "MintHasNoAuthority \<equiv> ErrorCode 542"
abbreviation "VoteThresholdTypeNotSupported \<equiv> ErrorCode 558"
abbreviation "GovernancePdaMustSign \<equiv> ErrorCode 561"
abbreviation "InvalidRealmForGovernance \<equiv> ErrorCode 563"
abbreviation "InvalidAuthorityForRealm \<equiv> ErrorCode 564"
abbreviation "RealmHasNoAuthority \<equiv> ErrorCode 565"
abbreviation "RealmAuthorityMustSign \<equiv> ErrorCode 566"
abbreviation "InvalidGoverningTokenHoldingAccount \<equiv> ErrorCode 567"
abbreviation "RealmCouncilMintChangeIsNotSupported \<equiv> ErrorCode 568"
abbreviation "InvalidMaxVoterWeightAbsoluteValue \<equiv> ErrorCode 569"
abbreviation "InvalidMaxVoterWeightSupplyFraction \<equiv> ErrorCode 570"
abbreviation "NotEnoughTokensToCreateGovernance \<equiv> ErrorCode 571"
abbreviation "TooManyOutstandingProposals \<equiv> ErrorCode 572"
abbreviation "AllProposalsMustBeFinalisedToWithdrawGoverningTokens \<equiv> ErrorCode 573"
abbreviation "InvalidVoterWeightRecordForRealm \<equiv> ErrorCode 574"
abbreviation "InvalidVoterWeightRecordForGoverningTokenMint \<equiv> ErrorCode 575"
abbreviation "InvalidVoterWeightRecordForTokenOwner \<equiv> ErrorCode 576"
abbreviation "VoterWeightRecordExpired \<equiv> ErrorCode 577"
abbreviation "InvalidRealmConfigForRealm \<equiv> ErrorCode 578"
abbreviation "TokenOwnerRecordAlreadyExists \<equiv> ErrorCode 579"
abbreviation "InvalidVoteChoiceWeightPercentage \<equiv> ErrorCode 581"
abbreviation "InvalidProposalOptions \<equiv> ErrorCode 583"
abbreviation "ProposalIsNotExecutable \<equiv> ErrorCode 584"
abbreviation "DenyVoteIsNotAllowed \<equiv> ErrorCode 585"
abbreviation "CannotExecuteDefeatedOption \<equiv> ErrorCode 586"
abbreviation "VoterWeightRecordInvalidAction \<equiv> ErrorCode 587"
abbreviation "VoterWeightRecordInvalidActionTarget \<equiv> ErrorCode 588"
abbreviation "InvalidMaxVoterWeightRecordForRealm \<equiv> ErrorCode 589"
abbreviation "InvalidMaxVoterWeightRecordForGoverningTokenMint \<equiv> ErrorCode 590"
abbreviation "MaxVoterWeightRecordExpired \<equiv> ErrorCode 591"
abbreviation "NotSupportedVoteType \<equiv> ErrorCode 592"
abbreviation "AtLeastOneVoteThresholdRequired \<equiv> ErrorCode 595"
abbreviation "CannotRelinquishInFinalizingState \<equiv> ErrorCode 597"
abbreviation "InvalidRealmConfigAddress \<equiv> ErrorCode 598"
abbreviation "CannotDepositDormantTokens \<equiv> ErrorCode 599"
abbreviation "CannotWithdrawMembershipTokens \<equiv> ErrorCode 600"
abbreviation "CannotRevokeGoverningTokens \<equiv> ErrorCode 601"
abbreviation "InvalidRevokeAmount \<equiv> ErrorCode 602"
abbreviation "InvalidGoverningTokenSource \<equiv> ErrorCode 603"
abbreviation "CannotChangeCommunityTokenTypeToMembership \<equiv> ErrorCode 604"
abbreviation "VoterWeightThresholdDisabled \<equiv> ErrorCode 605"
abbreviation "VoteNotAllowedInCoolOffTime \<equiv> ErrorCode 606"
abbreviation "CannotRefundProposalDeposit \<equiv> ErrorCode 607"
abbreviation "InvalidProposalForProposalDeposit \<equiv> ErrorCode 608"
abbreviation "InvalidDepositExemptProposalCount \<equiv> ErrorCode 609"
abbreviation "GoverningTokenMintNotAllowedToVote \<equiv> ErrorCode 610"
abbreviation "InvalidDepositPayerForProposalDeposit \<equiv> ErrorCode 611"
abbreviation "InvalidStateToCompleteProposal \<equiv> ErrorCode 613"
abbreviation "InvalidNumberOfVoteChoices \<equiv> ErrorCode 614"
abbreviation "RankedVoteIsNotSupported \<equiv> ErrorCode 615"
abbreviation "ChoiceWeightMustBe100Percent \<equiv> ErrorCode 616"
abbreviation "SingleChoiceOnlyIsAllowed \<equiv> ErrorCode 617"
abbreviation "AtLeastSingleChoiceIsRequired \<equiv> ErrorCode 618"
abbreviation "TotalVoteWeightMustBe100Percent \<equiv> ErrorCode 619"
abbreviation "InvalidMultiChoiceProposalParameters \<equiv> ErrorCode 620"
abbreviation "InvalidGovernanceForRequiredSignatory \<equiv> ErrorCode 621"
abbreviation "SignatoryRecordAlreadyExists \<equiv> ErrorCode 622"
abbreviation "MissingRequiredSignatories \<equiv> ErrorCode 624"
abbreviation "TokenOwnerRecordLockAuthorityMustSign \<equiv> ErrorCode 625"
abbreviation "ExpiredTokenOwnerRecordLock \<equiv> ErrorCode 626"
abbreviation "TokenOwnerRecordLocked \<equiv> ErrorCode 627"
abbreviation "InvalidTokenOwnerRecordLockAuthority \<equiv> ErrorCode 628"
abbreviation "TokenOwnerRecordLockAuthorityAlreadyExists \<equiv> ErrorCode 629"
abbreviation "TokenOwnerRecordLockNotFound \<equiv> ErrorCode 630"
abbreviation "TokenOwnerRecordLockAuthorityNotFound \<equiv> ErrorCode 631"

abbreviation "AccountDoesNotExist \<equiv> ErrorCode 1101"
abbreviation "ToolsInvalidAccountType \<equiv> ErrorCode 1103"

section \<open>Realms\<close>

datatype governing_token_type = Liquid | Membership | Dormant

record governing_token_config =
  voter_weight_addin :: "pubkey option"
  max_voter_weight_addin :: "pubkey option"
  token_type :: governing_token_type
  lock_authorities :: "pubkey list"

definition default_token_config :: governing_token_config where
  "default_token_config = \<lparr>voter_weight_addin = None, max_voter_weight_addin = None,
     token_type = Liquid, lock_authorities = []\<rparr>"

record realm_config_account =
  rc_realm :: pubkey
  community_token_config :: governing_token_config
  council_token_config :: governing_token_config

datatype mint_max_voter_weight_source = SupplyFraction nat | AbsoluteWeight nat

definition SUPPLY_FRACTION_BASE :: nat where
  "SUPPLY_FRACTION_BASE = 10000000000"

record realm_config =
  min_community_weight_to_create_governance :: nat
  community_mint_max_voter_weight_source :: mint_max_voter_weight_source
  council_mint :: "pubkey option"

record gov_realm =
  community_mint :: pubkey
  rm_config :: realm_config
  realm_authority :: "pubkey option"
  realm_name :: string

text \<open>\<open>?\<close> after a check: what follows runs only if it is passed.\<close>

definition assert_is_valid_governing_token_mint :: "gov_realm \<Rightarrow> pubkey \<Rightarrow> unit result" where
  "assert_is_valid_governing_token_mint self governing_token_mint =
     (if community_mint self = governing_token_mint then Ok ()
      else if council_mint (rm_config self) = Some governing_token_mint then Ok ()
      else Err InvalidGoverningTokenMint)"

definition get_token_config ::
  "realm_config_account \<Rightarrow> gov_realm \<Rightarrow> pubkey \<Rightarrow> governing_token_config result" where
  "get_token_config self realm_data governing_token_mint =
     (if governing_token_mint = community_mint realm_data then Ok (community_token_config self)
      else if Some governing_token_mint = council_mint (rm_config realm_data)
        then Ok (council_token_config self)
      else Err InvalidGoverningTokenMint)"

definition assert_can_revoke_governing_token ::
  "realm_config_account \<Rightarrow> gov_realm \<Rightarrow> pubkey \<Rightarrow> unit result" where
  "assert_can_revoke_governing_token self realm_data governing_token_mint =
     and_then (get_token_config self realm_data governing_token_mint) (\<lambda>token_config.
     case token_type token_config of
       Membership \<Rightarrow> Ok ()
     | Liquid \<Rightarrow> Err CannotRevokeGoverningTokens
     | Dormant \<Rightarrow> Err CannotRevokeGoverningTokens)"

definition assert_can_deposit_governing_token ::
  "realm_config_account \<Rightarrow> gov_realm \<Rightarrow> pubkey \<Rightarrow> unit result" where
  "assert_can_deposit_governing_token self realm_data governing_token_mint =
     and_then (get_token_config self realm_data governing_token_mint) (\<lambda>token_config.
     case token_type token_config of
       Membership \<Rightarrow> Ok ()
     | Liquid \<Rightarrow> Ok ()
     | Dormant \<Rightarrow> Err CannotDepositDormantTokens)"

definition assert_can_withdraw_governing_token ::
  "realm_config_account \<Rightarrow> gov_realm \<Rightarrow> pubkey \<Rightarrow> unit result" where
  "assert_can_withdraw_governing_token self realm_data governing_token_mint =
     and_then (get_token_config self realm_data governing_token_mint) (\<lambda>token_config.
     case token_type token_config of
       Dormant \<Rightarrow> Ok ()
     | Liquid \<Rightarrow> Ok ()
     | Membership \<Rightarrow> Err CannotWithdrawMembershipTokens)"

section \<open>Votes\<close>

record vote_choice =
  rank :: nat
  weight_percentage :: nat

datatype vote = Approve "vote_choice list" | Deny | Abstain | Veto

datatype vote_kind = ElectorateKind | VetoKind

fun get_vote_kind :: "vote \<Rightarrow> vote_kind" where
  "get_vote_kind Veto = VetoKind"
| "get_vote_kind (Approve _) = ElectorateKind"
| "get_vote_kind Deny = ElectorateKind"
| "get_vote_kind Abstain = ElectorateKind"

definition get_choice_weight :: "vote_choice \<Rightarrow> nat \<Rightarrow> nat result" where
  "get_choice_weight self voter_weight =
     (if weight_percentage self = 100 then Ok voter_weight
      else if weight_percentage self \<le> 99 then
        and_then (unwrap (checked_mul 128 voter_weight (weight_percentage self))) (\<lambda>product.
        Ok (product div 100 mod 2 ^ 64))
      else Err InvalidVoteChoiceWeightPercentage)"

record vote_record =
  vr_proposal :: pubkey
  vr_governing_token_owner :: pubkey
  is_relinquished :: bool
  voter_weight :: nat
  vr_vote :: vote

definition assert_can_relinquish_vote :: "vote_record \<Rightarrow> unit result" where
  "assert_can_relinquish_vote self =
     (if is_relinquished self then Err VoteAlreadyRelinquished else Ok ())"

text \<open>A veto is cast by the other voting population than the one the proposal is put to.\<close>

definition get_proposal_governing_token_mint_for_vote ::
  "gov_realm \<Rightarrow> pubkey \<Rightarrow> vote_kind \<Rightarrow> pubkey result" where
  "get_proposal_governing_token_mint_for_vote self vote_governing_token_mint kind =
     (case kind of
        ElectorateKind \<Rightarrow> Ok vote_governing_token_mint
      | VetoKind \<Rightarrow>
          if community_mint self = vote_governing_token_mint
            then unwrap (council_mint (rm_config self))
          else if council_mint (rm_config self) = Some vote_governing_token_mint
            then Ok (community_mint self)
          else Err InvalidGoverningTokenMint)"

section \<open>Governances\<close>

datatype vote_threshold = YesVotePercentage nat | QuorumPercentage nat | ThresholdDisabled

datatype vote_tipping = StrictTipping | EarlyTipping | TippingDisabled

record governance_config =
  community_vote_threshold :: vote_threshold
  min_community_weight_to_create_proposal :: nat
  transactions_hold_up_time :: nat
  voting_base_time :: nat
  community_vote_tipping :: vote_tipping
  council_vote_threshold :: vote_threshold
  council_veto_vote_threshold :: vote_threshold
  min_council_weight_to_create_proposal :: nat
  council_vote_tipping :: vote_tipping
  community_veto_vote_threshold :: vote_threshold
  voting_cool_off_time :: nat
  deposit_exempt_proposal_count :: nat

datatype governance_account_type =
  GovernanceV2 | ProgramGovernanceV2 | MintGovernanceV2 | TokenGovernanceV2

record governance =
  gv_account_type :: governance_account_type
  gv_realm :: pubkey
  governance_seed :: pubkey
  gv_config :: governance_config
  required_signatories_count :: nat
  active_proposal_count :: nat

definition SECURITY_DEPOSIT_BASE_LAMPORTS :: nat where
  "SECURITY_DEPOSIT_BASE_LAMPORTS = 100000000"

definition get_governance_address_seeds :: "governance \<Rightarrow> seed list" where
  "get_governance_address_seeds self =
     [Bytes (case gv_account_type self of
        GovernanceV2 \<Rightarrow> ''account-governance''
      | ProgramGovernanceV2 \<Rightarrow> ''program-governance''
      | MintGovernanceV2 \<Rightarrow> ''mint-governance''
      | TokenGovernanceV2 \<Rightarrow> ''token-governance''),
      Key (gv_realm self), Key (governance_seed self)]"

definition resolve_vote_threshold ::
  "governance \<Rightarrow> gov_realm \<Rightarrow> pubkey \<Rightarrow> vote_kind \<Rightarrow> vote_threshold result" where
  "resolve_vote_threshold self realm_data vote_governing_token_mint kind =
     and_then
       (if community_mint realm_data = vote_governing_token_mint then
          Ok (case kind of
                ElectorateKind \<Rightarrow> community_vote_threshold (gv_config self)
              | VetoKind \<Rightarrow> community_veto_vote_threshold (gv_config self))
        else if council_mint (rm_config realm_data) = Some vote_governing_token_mint then
          Ok (case kind of
                ElectorateKind \<Rightarrow> council_vote_threshold (gv_config self)
              | VetoKind \<Rightarrow> council_veto_vote_threshold (gv_config self))
        else Err InvalidGoverningTokenMint) (\<lambda>threshold.
     if threshold = ThresholdDisabled then Err GoverningTokenMintNotAllowedToVote else Ok threshold)"

definition assert_governing_token_mint_can_vote ::
  "governance \<Rightarrow> gov_realm \<Rightarrow> pubkey \<Rightarrow> vote_kind \<Rightarrow> unit result" where
  "assert_governing_token_mint_can_vote self realm_data vote_governing_token_mint kind =
     and_then (resolve_vote_threshold self realm_data vote_governing_token_mint kind) (\<lambda>_. Ok ())"

definition get_vote_tipping :: "governance \<Rightarrow> gov_realm \<Rightarrow> pubkey \<Rightarrow> vote_tipping result" where
  "get_vote_tipping self realm_data governing_token_mint =
     (if governing_token_mint = community_mint realm_data
        then Ok (community_vote_tipping (gv_config self))
      else if Some governing_token_mint = council_mint (rm_config realm_data)
        then Ok (council_vote_tipping (gv_config self))
      else Err InvalidGoverningTokenMint)"

definition saturating_mul :: "nat \<Rightarrow> nat \<Rightarrow> nat \<Rightarrow> nat" where
  "saturating_mul w a b = min (a * b) (2 ^ w - 1)"

definition get_proposal_deposit_amount :: "governance \<Rightarrow> nat" where
  "get_proposal_deposit_amount self =
     saturating_mul 64
       (saturating_sub (active_proposal_count self) (deposit_exempt_proposal_count (gv_config self)))
       SECURITY_DEPOSIT_BASE_LAMPORTS"

definition assert_is_valid_vote_threshold :: "vote_threshold \<Rightarrow> unit result" where
  "assert_is_valid_vote_threshold threshold =
     (case threshold of
        YesVotePercentage p \<Rightarrow> if \<not> (1 \<le> p \<and> p \<le> 100) then Err InvalidVoteThresholdPercentage else Ok ()
      | QuorumPercentage _ \<Rightarrow> Err VoteThresholdTypeNotSupported
      | ThresholdDisabled \<Rightarrow> Ok ())"

definition assert_is_valid_governance_config :: "governance_config \<Rightarrow> unit result" where
  "assert_is_valid_governance_config c =
     and_then (assert_is_valid_vote_threshold (community_vote_threshold c)) (\<lambda>_.
     and_then (assert_is_valid_vote_threshold (community_veto_vote_threshold c)) (\<lambda>_.
     and_then (assert_is_valid_vote_threshold (council_vote_threshold c)) (\<lambda>_.
     and_then (assert_is_valid_vote_threshold (council_veto_vote_threshold c)) (\<lambda>_.
     if community_vote_threshold c = ThresholdDisabled \<and> council_vote_threshold c = ThresholdDisabled
       then Err AtLeastOneVoteThresholdRequired
     else if deposit_exempt_proposal_count c = 255 then Err InvalidDepositExemptProposalCount
     else Ok ()))))"

section \<open>Token owner records\<close>

record token_owner_record_lock =
  lock_id :: nat
  lock_authority :: pubkey
  lock_expiry :: "int option"

definition is_expired :: "token_owner_record_lock \<Rightarrow> int \<Rightarrow> bool" where
  "is_expired self current_unix_timestamp =
     (case lock_expiry self of None \<Rightarrow> False | Some expiry \<Rightarrow> current_unix_timestamp > expiry)"

record token_owner_record =
  tor_realm :: pubkey
  tor_governing_token_mint :: pubkey
  tor_governing_token_owner :: pubkey
  governing_token_deposit_amount :: nat
  unrelinquished_votes_count :: nat
  outstanding_proposal_count :: nat
  governance_delegate :: "pubkey option"
  tor_locks :: "token_owner_record_lock list"

text \<open>An account given to an instruction, with whether it signed.\<close>

type_synonym signer = "pubkey \<times> bool"

definition assert_token_owner_or_delegate_is_signer :: "token_owner_record \<Rightarrow> signer \<Rightarrow> unit result" where
  "assert_token_owner_or_delegate_is_signer self governance_authority =
     (if snd governance_authority
         \<and> (tor_governing_token_owner self = fst governance_authority
            \<or> governance_delegate self = Some (fst governance_authority))
      then Ok () else Err GoverningTokenOwnerOrDelegateMustSign)"

definition assert_can_create_proposal ::
  "token_owner_record \<Rightarrow> gov_realm \<Rightarrow> governance_config \<Rightarrow> nat \<Rightarrow> unit result" where
  "assert_can_create_proposal self realm_data config weight =
     and_then
       (if tor_governing_token_mint self = community_mint realm_data
          then Ok (min_community_weight_to_create_proposal config)
        else if Some (tor_governing_token_mint self) = council_mint (rm_config realm_data)
          then Ok (min_council_weight_to_create_proposal config)
        else Err InvalidGoverningTokenMint) (\<lambda>min_weight.
     if min_weight = U64_MAX then Err VoterWeightThresholdDisabled
     else if weight < min_weight then Err NotEnoughTokensToCreateProposal
     else if outstanding_proposal_count self \<ge> 10 then Err TooManyOutstandingProposals
     else Ok ())"

definition assert_can_create_governance ::
  "token_owner_record \<Rightarrow> gov_realm \<Rightarrow> nat \<Rightarrow> unit result" where
  "assert_can_create_governance self realm_data weight =
     and_then
       (if tor_governing_token_mint self = community_mint realm_data
          then Ok (min_community_weight_to_create_governance (rm_config realm_data))
        else if Some (tor_governing_token_mint self) = council_mint (rm_config realm_data)
          then Ok 1
        else Err InvalidGoverningTokenMint) (\<lambda>min_weight.
     if min_weight = U64_MAX then Err VoterWeightThresholdDisabled
     else if weight < min_weight then Err NotEnoughTokensToCreateGovernance
     else Ok ())"

definition assert_can_withdraw_governing_tokens :: "token_owner_record \<Rightarrow> int \<Rightarrow> unit result" where
  "assert_can_withdraw_governing_tokens self current_unix_timestamp =
     (if unrelinquished_votes_count self > 0
        then Err AllVotesMustBeRelinquishedToWithdrawGoverningTokens
      else if outstanding_proposal_count self > 0
        then Err AllProposalsMustBeFinalisedToWithdrawGoverningTokens
      else if list_ex (\<lambda>lock. \<not> is_expired lock current_unix_timestamp) (tor_locks self)
        then Err TokenOwnerRecordLocked
      else Ok ())"

definition decrease_outstanding_proposal_count :: "token_owner_record \<Rightarrow> token_owner_record" where
  "decrease_outstanding_proposal_count self =
     (if outstanding_proposal_count self \<noteq> 0
      then self\<lparr>outstanding_proposal_count := outstanding_proposal_count self - 1\<rparr> else self)"

definition remove_expired_locks :: "token_owner_record \<Rightarrow> int \<Rightarrow> token_owner_record" where
  "remove_expired_locks self current_unix_timestamp =
     self\<lparr>tor_locks := filter (\<lambda>lock. \<not> is_expired lock current_unix_timestamp) (tor_locks self)\<rparr>"

text \<open>\<open>position\<close> and \<open>remove\<close>: the first lock with the id and authority goes.\<close>

fun remove_first :: "('a \<Rightarrow> bool) \<Rightarrow> 'a list \<Rightarrow> 'a list option" where
  "remove_first p [] = None"
| "remove_first p (x # xs) = (if p x then Some xs else map_option (Cons x) (remove_first p xs))"

definition remove_lock :: "token_owner_record \<Rightarrow> nat \<Rightarrow> pubkey \<Rightarrow> token_owner_record result" where
  "remove_lock self i authority =
     (case remove_first (\<lambda>l. lock_id l = i \<and> lock_authority l = authority) (tor_locks self) of
        Some locks \<Rightarrow> Ok (self\<lparr>tor_locks := locks\<rparr>)
      | None \<Rightarrow> Err TokenOwnerRecordLockNotFound)"

definition upsert_lock :: "token_owner_record \<Rightarrow> token_owner_record_lock \<Rightarrow> token_owner_record" where
  "upsert_lock self lock =
     (let same = (\<lambda>l. lock_id l = lock_id lock \<and> lock_authority l = lock_authority lock) in
      if list_ex same (tor_locks self)
      then self\<lparr>tor_locks := update_first same (\<lambda>_. lock) (tor_locks self)\<rparr>
      else self\<lparr>tor_locks := tor_locks self @ [lock]\<rparr>)"

section \<open>Signatories\<close>

record signatory_record =
  sr_proposal :: pubkey
  sr_signatory :: pubkey
  signed_off :: bool

definition assert_can_sign_off_record :: "signatory_record \<Rightarrow> signer \<Rightarrow> unit result" where
  "assert_can_sign_off_record self signatory =
     (if signed_off self then Err SignatoryAlreadySignedOff
      else if \<not> snd signatory then Err SignatoryMustSign
      else Ok ())"

record required_signatory =
  rs_governance :: pubkey
  rs_signatory :: pubkey

section \<open>What the instructions read of other programs\<close>

datatype voter_weight_action =
  CastVote | CommentProposal | CreateGovernance | CreateProposal | SignOffProposal

record voter_weight_record =
  vw_realm :: pubkey
  vw_governing_token_mint :: pubkey
  vw_governing_token_owner :: pubkey
  vw_voter_weight :: nat
  voter_weight_expiry :: "nat option"
  weight_action :: "voter_weight_action option"
  weight_action_target :: "pubkey option"

record max_voter_weight_record =
  mw_realm :: pubkey
  mw_governing_token_mint :: pubkey
  mw_max_voter_weight :: nat
  max_voter_weight_expiry :: "nat option"

text \<open>
  The derivation of addresses, the id of the program itself, the clock; the token account or mint at an address, or the error of the check that it is one
  (\<open>tools/spl_token.rs\<close>); the authority of a mint; and the weight records that a plugin program (first
  argument) has written to an address (second argument).
\<close>

record gov_env =
  gov_sdk :: sdk
  gov_program_id :: pubkey
  unix_timestamp :: int
  slot :: nat
  spl_tokens :: "pubkey \<Rightarrow> token_data result"
  spl_mints :: "pubkey \<Rightarrow> mint_data result"
  mint_authority :: "pubkey \<Rightarrow> pubkey option"
  voter_weight_records :: "pubkey \<Rightarrow> pubkey \<Rightarrow> voter_weight_record option"
  max_voter_weight_records :: "pubkey \<Rightarrow> pubkey \<Rightarrow> max_voter_weight_record option"

definition NotEnoughAccountKeys :: error_code where
  "NotEnoughAccountKeys = ErrorCode (11 * 2 ^ 32)"

definition next_account_info :: "signer list \<Rightarrow> (signer \<times> signer list) result" where
  "next_account_info iter = (case iter of [] \<Rightarrow> Err NotEnoughAccountKeys | a # rest \<Rightarrow> Ok (a, rest))"

definition assert_is_valid_voter_weight ::
  "gov_env \<Rightarrow> voter_weight_record \<Rightarrow> voter_weight_action \<Rightarrow> pubkey \<Rightarrow> unit result" where
  "assert_is_valid_voter_weight env r action target =
     (if (case voter_weight_expiry r of Some e \<Rightarrow> slot env > e | None \<Rightarrow> False)
        then Err VoterWeightRecordExpired
      else if (case weight_action r of Some x \<Rightarrow> x \<noteq> action | None \<Rightarrow> False)
        then Err VoterWeightRecordInvalidAction
      else if (case weight_action_target r of Some x \<Rightarrow> x \<noteq> target | None \<Rightarrow> False)
        then Err VoterWeightRecordInvalidActionTarget
      else Ok ())"

definition get_voter_weight_record_data_for_token_owner_record ::
  "gov_env \<Rightarrow> pubkey \<Rightarrow> pubkey \<Rightarrow> token_owner_record \<Rightarrow> voter_weight_record result" where
  "get_voter_weight_record_data_for_token_owner_record env program_id info tor =
     and_then (ok_or (voter_weight_records env program_id info) AccountDoesNotExist) (\<lambda>r.
     if vw_realm r \<noteq> tor_realm tor then Err InvalidVoterWeightRecordForRealm
     else if vw_governing_token_mint r \<noteq> tor_governing_token_mint tor
       then Err InvalidVoterWeightRecordForGoverningTokenMint
     else if vw_governing_token_owner r \<noteq> tor_governing_token_owner tor
       then Err InvalidVoterWeightRecordForTokenOwner
     else Ok r)"

definition resolve_voter_weight ::
  "gov_env \<Rightarrow> token_owner_record \<Rightarrow> signer list \<Rightarrow> gov_realm \<Rightarrow> realm_config_account
   \<Rightarrow> voter_weight_action \<Rightarrow> pubkey \<Rightarrow> (nat \<times> signer list) result" where
  "resolve_voter_weight env self iter realm_data realm_config_data action target =
     and_then (get_token_config realm_config_data realm_data (tor_governing_token_mint self)) (\<lambda>config.
     case voter_weight_addin config of
       Some addin \<Rightarrow>
         and_then (next_account_info iter) (\<lambda>(info, rest).
         and_then (get_voter_weight_record_data_for_token_owner_record env addin (fst info) self) (\<lambda>r.
         and_then (assert_is_valid_voter_weight env r action target) (\<lambda>_.
         Ok (vw_voter_weight r, rest))))
     | None \<Rightarrow> Ok (governing_token_deposit_amount self, iter))"

definition assert_is_valid_max_voter_weight :: "gov_env \<Rightarrow> max_voter_weight_record \<Rightarrow> unit result" where
  "assert_is_valid_max_voter_weight env r =
     (if (case max_voter_weight_expiry r of Some e \<Rightarrow> slot env > e | None \<Rightarrow> False)
      then Err MaxVoterWeightRecordExpired else Ok ())"

definition get_max_voter_weight_record_data_for_realm_and_governing_token_mint ::
  "gov_env \<Rightarrow> pubkey \<Rightarrow> pubkey \<Rightarrow> pubkey \<Rightarrow> pubkey \<Rightarrow> max_voter_weight_record result" where
  "get_max_voter_weight_record_data_for_realm_and_governing_token_mint env program_id info realm mint =
     and_then (ok_or (max_voter_weight_records env program_id info) AccountDoesNotExist) (\<lambda>r.
     if mw_realm r \<noteq> realm then Err InvalidMaxVoterWeightRecordForRealm
     else if mw_governing_token_mint r \<noteq> mint
       then Err InvalidMaxVoterWeightRecordForGoverningTokenMint
     else Ok r)"

end
