(* ===== verification/ProposalVotes.thy ===== *)
theory ProposalVotes
  imports GovernanceState
begin

text \<open>
  A proposal and the operations on it (\<open>governance/program/src/state/proposal.rs\<close>): which votes it
  accepts, how a vote is decided at the end (\<open>finalize_vote\<close>) or before (\<open>try_tip_vote\<close>), when it may be
  cancelled, executed and completed. What is shown: the decision is what the votes say, and a decision
  taken early is the one that the remaining votes could not have changed.
\<close>

section \<open>Data\<close>

datatype proposal_state =
    Draft | SigningOff | Voting | ProposalSucceeded | Executing | Completed | Cancelled
  | ProposalDefeated | ExecutingWithErrors | Vetoed

datatype option_vote_result = OptionUndecided | OptionSucceeded | OptionDefeated

record proposal_option =
  label :: string
  vote_weight :: nat
  vote_result :: option_vote_result
  transactions_executed_count :: nat
  transactions_count :: nat
  transactions_next_index :: nat

datatype multi_choice_type = FullWeight | Weighted

text \<open>The four fields of \<open>MultiChoice\<close>: its type, the least and most options of a voter, the most winners.\<close>

datatype vote_type = SingleChoice | MultiChoice multi_choice_type nat nat nat

record proposal =
  pr_governance :: pubkey
  pr_governing_token_mint :: pubkey
  pr_state :: proposal_state
  pr_token_owner_record :: pubkey
  signatories_count :: nat
  signatories_signed_off_count :: nat
  pr_vote_type :: vote_type
  pr_options :: "proposal_option list"
  deny_vote_weight :: "nat option"
  abstain_vote_weight :: "nat option"
  start_voting_at :: "int option"
  draft_at :: int
  signing_off_at :: "int option"
  voting_at :: "int option"
  voting_at_slot :: "nat option"
  voting_completed_at :: "int option"
  executing_at :: "int option"
  closed_at :: "int option"
  max_vote_weight :: "nat option"
  max_voting_time :: "nat option"
  pr_vote_threshold :: "vote_threshold option"
  pr_name :: string
  description_link :: string
  veto_vote_weight :: nat

record instruction_data =
  id_program_id :: pubkey
  id_accounts :: "(pubkey \<times> bool \<times> bool) list"
  id_data :: "nat list"

datatype transaction_execution_status = NotExecuted | ExecutionSuccess | ExecutionError

record proposal_transaction =
  pt_proposal :: pubkey
  option_index :: nat
  transaction_index :: nat
  pt_instructions :: "instruction_data list"
  executed_at :: "int option"
  execution_status :: transaction_execution_status

section \<open>States\<close>

definition assert_is_draft_state :: "proposal \<Rightarrow> unit result" where
  "assert_is_draft_state self = (if pr_state self \<noteq> Draft then Err InvalidProposalState else Ok ())"

definition assert_is_voting_state :: "proposal \<Rightarrow> unit result" where
  "assert_is_voting_state self = (if pr_state self \<noteq> Voting then Err InvalidProposalState else Ok ())"

definition map_err :: "'a result \<Rightarrow> error_code \<Rightarrow> 'a result" where
  "map_err r e = (case r of Err _ \<Rightarrow> Err e | _ \<Rightarrow> r)"

definition assert_can_edit_signatories :: "proposal \<Rightarrow> unit result" where
  "assert_can_edit_signatories self = map_err (assert_is_draft_state self) InvalidStateCannotEditSignatories"

definition assert_can_sign_off :: "proposal \<Rightarrow> unit result" where
  "assert_can_sign_off self =
     (if pr_state self \<in> {Draft, SigningOff} then Ok () else Err InvalidStateCannotSignOff)"

text \<open>The end of the voting time; the arithmetic on time stamps is that of \<open>i64\<close>.\<close>

definition i64_add :: "int \<Rightarrow> int \<Rightarrow> int option" where
  "i64_add a b = (if - (2 ^ 63) \<le> a + b \<and> a + b < 2 ^ 63 then Some (a + b) else None)"

definition voting_base_time_end :: "proposal \<Rightarrow> governance_config \<Rightarrow> int result" where
  "voting_base_time_end self config =
     and_then (unwrap (voting_at self)) (\<lambda>t. unwrap (i64_add t (int (voting_base_time config))))"

definition has_voting_base_time_ended :: "proposal \<Rightarrow> governance_config \<Rightarrow> int \<Rightarrow> bool result" where
  "has_voting_base_time_ended self config now =
     and_then (voting_base_time_end self config) (\<lambda>end_time. Ok (end_time < now))"

definition voting_max_time_end :: "proposal \<Rightarrow> governance_config \<Rightarrow> int result" where
  "voting_max_time_end self config =
     and_then (voting_base_time_end self config) (\<lambda>t.
     unwrap (i64_add t (int (voting_cool_off_time config))))"

definition has_voting_max_time_ended :: "proposal \<Rightarrow> governance_config \<Rightarrow> int \<Rightarrow> bool result" where
  "has_voting_max_time_ended self config now =
     and_then (voting_max_time_end self config) (\<lambda>end_time. Ok (end_time < now))"

definition assert_can_cast_vote :: "proposal \<Rightarrow> governance_config \<Rightarrow> vote \<Rightarrow> int \<Rightarrow> unit result" where
  "assert_can_cast_vote self config v now =
     and_then (map_err (assert_is_voting_state self) InvalidStateCannotVote) (\<lambda>_.
     and_then (has_voting_max_time_ended self config now) (\<lambda>max_ended.
     if max_ended then Err ProposalVotingTimeExpired
     else case v of
       Approve _ \<Rightarrow> and_then (has_voting_base_time_ended self config now) (\<lambda>base_ended.
         if base_ended then Err VoteNotAllowedInCoolOffTime else Ok ())
     | Abstain \<Rightarrow> and_then (has_voting_base_time_ended self config now) (\<lambda>base_ended.
         if base_ended then Err VoteNotAllowedInCoolOffTime else Ok ())
     | Deny \<Rightarrow> Ok ()
     | Veto \<Rightarrow> Ok ()))"

definition assert_can_refund_proposal_deposit :: "proposal \<Rightarrow> unit result" where
  "assert_can_refund_proposal_deposit self =
     (if pr_state self \<in> {Draft, SigningOff, Voting} then Err CannotRefundProposalDeposit else Ok ())"

definition assert_can_finalize_vote :: "proposal \<Rightarrow> governance_config \<Rightarrow> int \<Rightarrow> unit result" where
  "assert_can_finalize_vote self config now =
     and_then (map_err (assert_is_voting_state self) InvalidStateCannotFinalize) (\<lambda>_.
     and_then (has_voting_max_time_ended self config now) (\<lambda>max_ended.
     if \<not> max_ended then Err CannotFinalizeVotingInProgress else Ok ()))"

definition assert_can_cancel :: "proposal \<Rightarrow> governance_config \<Rightarrow> int \<Rightarrow> unit result" where
  "assert_can_cancel self config now =
     (if pr_state self \<in> {Draft, SigningOff} then Ok ()
      else if pr_state self = Voting then
        and_then (has_voting_max_time_ended self config now) (\<lambda>max_ended.
        if max_ended then Err ProposalVotingTimeExpired else Ok ())
      else Err InvalidStateCannotCancelProposal)"

definition assert_can_edit_instructions :: "proposal \<Rightarrow> unit result" where
  "assert_can_edit_instructions self =
     (if \<not> is_ok (assert_is_draft_state self) then Err InvalidStateCannotEditTransactions
      else if deny_vote_weight self = None then Err ProposalIsNotExecutable
      else Ok ())"

definition nth_option :: "proposal \<Rightarrow> nat \<Rightarrow> proposal_option result" where
  "nth_option self i = (if i < length (pr_options self) then Ok (pr_options self ! i) else Panic)"

definition assert_can_execute_transaction ::
  "proposal \<Rightarrow> proposal_transaction \<Rightarrow> governance_config \<Rightarrow> int \<Rightarrow> unit result" where
  "assert_can_execute_transaction self transaction config now =
     (if pr_state self \<notin> {ProposalSucceeded, Executing, ExecutingWithErrors}
        then Err InvalidStateCannotExecuteTransaction
      else and_then (nth_option self (option_index transaction)) (\<lambda>opt.
      if vote_result opt \<noteq> OptionSucceeded then Err CannotExecuteDefeatedOption
      else and_then (unwrap (voting_completed_at self)) (\<lambda>completed.
      and_then (unwrap (i64_add completed (int (transactions_hold_up_time config)))) (\<lambda>executable_from.
      if executable_from \<ge> now then Err CannotExecuteTransactionWithinHoldUpTime
      else if executed_at transaction \<noteq> None then Err TransactionAlreadyExecuted
      else Ok ()))))"

definition assert_can_complete :: "proposal \<Rightarrow> unit result" where
  "assert_can_complete self =
     (if pr_state self \<noteq> ProposalSucceeded then Err InvalidStateToCompleteProposal
      else if list_ex (\<lambda>opt. transactions_count opt \<noteq> 0) (pr_options self)
        then Err InvalidStateToCompleteProposal
      else Ok ())"

section \<open>The vote\<close>

text \<open>The least weight for a percentage: rounded up, and the cast of the \<open>u128\<close> quotient to \<open>u64\<close>.\<close>

definition get_min_vote_threshold_weight :: "vote_threshold \<Rightarrow> nat \<Rightarrow> nat result" where
  "get_min_vote_threshold_weight threshold max_voter_weight =
     (case threshold of
        YesVotePercentage percentage \<Rightarrow>
          and_then (unwrap (checked_mul 128 percentage max_voter_weight)) (\<lambda>numerator.
          let t = numerator div 100 in
          and_then (unwrap (checked_mul 128 t 100)) (\<lambda>back.
          and_then (if back < numerator then unwrap (checked_add 128 t 1) else Ok t) (\<lambda>t'.
          Ok (t' mod 2 ^ 64))))
      | _ \<Rightarrow> Err VoteThresholdTypeNotSupported)"

text \<open>\<open>unwrap\<close> of a \<open>Result\<close>.\<close>

definition unwrap_result :: "'a result \<Rightarrow> 'a result" where
  "unwrap_result r = (case r of Ok x \<Rightarrow> Ok x | _ \<Rightarrow> Panic)"

text \<open>
  The loop over the options: each succeeds that reaches the threshold and beats the deny votes; kept
  are the best weight of these and how many have it.
\<close>

fun resolve_options ::
  "nat \<Rightarrow> nat \<Rightarrow> proposal_option list \<Rightarrow> nat \<Rightarrow> nat \<Rightarrow> (proposal_option list \<times> nat \<times> nat) result" where
  "resolve_options min_weight deny [] best_weight best_count = Ok ([], best_weight, best_count)"
| "resolve_options min_weight deny (opt # opts) best_weight best_count =
     (if vote_weight opt \<ge> min_weight \<and> vote_weight opt > deny then
        and_then
          (if vote_weight opt > best_weight then Ok (vote_weight opt, 1)
           else if vote_weight opt = best_weight
             then and_then (unwrap (checked_add 16 best_count 1)) (\<lambda>n. Ok (best_weight, n))
           else Ok (best_weight, best_count)) (\<lambda>(weight, count).
        and_then (resolve_options min_weight deny opts weight count) (\<lambda>(opts', best).
        Ok (opt\<lparr>vote_result := OptionSucceeded\<rparr> # opts', best)))
      else
        and_then (resolve_options min_weight deny opts best_weight best_count) (\<lambda>(opts', best).
        Ok (opt\<lparr>vote_result := OptionDefeated\<rparr> # opts', best)))"

definition coerce_vote_results :: "nat \<Rightarrow> proposal_option list \<Rightarrow> proposal_option list" where
  "coerce_vote_results winning_weight =
     map (\<lambda>opt. opt\<lparr>vote_result :=
       if vote_weight opt = winning_weight then OptionSucceeded else OptionDefeated\<rparr>)"

definition resolve_final_vote_state ::
  "proposal \<Rightarrow> nat \<Rightarrow> vote_threshold \<Rightarrow> (proposal \<times> proposal_state) result" where
  "resolve_final_vote_state self max_weight threshold =
     and_then (unwrap_result (get_min_vote_threshold_weight threshold max_weight)) (\<lambda>min_weight.
     let deny = (case deny_vote_weight self of Some d \<Rightarrow> d | None \<Rightarrow> 0) in
     and_then (resolve_options min_weight deny (pr_options self) 0 0) (\<lambda>(opts, best_weight, best_count).
     let (opts', final_state) =
       (if best_count = 0 then (opts, ProposalDefeated)
        else case pr_vote_type self of
          SingleChoice \<Rightarrow>
            if best_count > 1 then (coerce_vote_results U64_MAX opts, ProposalDefeated)
            else (coerce_vote_results best_weight opts, ProposalSucceeded)
        | MultiChoice _ _ _ _ \<Rightarrow> (opts, ProposalSucceeded)) in
     Ok (self\<lparr>pr_options := opts'\<rparr>,
         if deny_vote_weight self = None then Completed else final_state)))"

definition finalize_vote ::
  "proposal \<Rightarrow> nat \<Rightarrow> governance_config \<Rightarrow> int \<Rightarrow> vote_threshold \<Rightarrow> proposal result" where
  "finalize_vote self max_voter_weight config now threshold =
     and_then (assert_can_finalize_vote self config now) (\<lambda>_.
     and_then (resolve_final_vote_state self max_voter_weight threshold) (\<lambda>(p, final_state).
     and_then (voting_max_time_end p config) (\<lambda>end_time.
     Ok (p\<lparr>pr_state := final_state, voting_completed_at := Some end_time,
           max_vote_weight := Some max_voter_weight, pr_vote_threshold := Some threshold\<rparr>))))"

definition coerce_max_voter_weight :: "proposal \<Rightarrow> nat \<Rightarrow> vote_kind \<Rightarrow> nat result" where
  "coerce_max_voter_weight self max_voter_weight kind =
     and_then
       (case kind of
          ElectorateKind \<Rightarrow>
            (case map vote_weight (pr_options self) of
               [] \<Rightarrow> Panic
             | w # ws \<Rightarrow> unwrap (checked_add 64 (fold max ws w)
                 (case deny_vote_weight self of Some d \<Rightarrow> d | None \<Rightarrow> 0)))
        | VetoKind \<Rightarrow> Ok (veto_vote_weight self)) (\<lambda>total. Ok (max max_voter_weight total))"

definition get_max_voter_weight_from_mint_supply ::
  "proposal \<Rightarrow> gov_realm \<Rightarrow> pubkey \<Rightarrow> nat \<Rightarrow> vote_kind \<Rightarrow> nat result" where
  "get_max_voter_weight_from_mint_supply self realm_data mint supply kind =
     (if Some mint = council_mint (rm_config realm_data) then Ok supply
      else case community_mint_max_voter_weight_source (rm_config realm_data) of
        SupplyFraction fraction \<Rightarrow>
          if fraction = SUPPLY_FRACTION_BASE then Ok supply
          else and_then (unwrap (checked_mul 128 supply fraction)) (\<lambda>product.
            coerce_max_voter_weight self (product div SUPPLY_FRACTION_BASE mod 2 ^ 64) kind)
      | AbsoluteWeight w \<Rightarrow> coerce_max_voter_weight self w kind)"

definition resolve_max_voter_weight ::
  "gov_env \<Rightarrow> proposal \<Rightarrow> signer list \<Rightarrow> pubkey \<Rightarrow> gov_realm \<Rightarrow> realm_config_account \<Rightarrow> pubkey \<Rightarrow> vote_kind
   \<Rightarrow> nat result" where
  "resolve_max_voter_weight env self iter realm realm_data realm_config_data mint kind =
     and_then (get_token_config realm_config_data realm_data mint) (\<lambda>config.
     case max_voter_weight_addin config of
       Some addin \<Rightarrow>
         and_then (next_account_info iter) (\<lambda>(info, _).
         and_then (get_max_voter_weight_record_data_for_realm_and_governing_token_mint
             env addin (fst info) realm mint) (\<lambda>r.
         and_then (assert_is_valid_max_voter_weight env r) (\<lambda>_.
         coerce_max_voter_weight self (mw_max_voter_weight r) kind)))
     | None \<Rightarrow>
         and_then (spl_mints env mint) (\<lambda>m.
         get_max_voter_weight_from_mint_supply self realm_data mint (md_supply m) kind))"

text \<open>Deciding before the end of the voting time.\<close>

definition try_get_tipped_electorate_vote_state ::
  "proposal \<Rightarrow> nat \<Rightarrow> vote_tipping \<Rightarrow> nat \<Rightarrow> proposal \<times> proposal_state option" where
  "try_get_tipped_electorate_vote_state self max_voter_weight tipping min_weight =
     (case (pr_vote_type self, deny_vote_weight self, pr_options self) of
        (SingleChoice, Some deny, [yes_option]) \<Rightarrow>
          let yes = vote_weight yes_option;
              decide = (\<lambda>result. self\<lparr>pr_options := [yes_option\<lparr>vote_result := result\<rparr>]\<rparr>) in
          if (case tipping of
                TippingDisabled \<Rightarrow> False
              | StrictTipping \<Rightarrow> yes \<ge> min_weight \<and> yes > saturating_sub max_voter_weight yes
              | EarlyTipping \<Rightarrow> yes \<ge> min_weight \<and> yes > deny)
            then (decide OptionSucceeded, Some ProposalSucceeded)
          else if tipping \<noteq> TippingDisabled
              \<and> (deny > saturating_sub max_voter_weight min_weight
                 \<or> deny \<ge> saturating_sub max_voter_weight deny)
            then (decide OptionDefeated, Some ProposalDefeated)
          else (self, None)
      | _ \<Rightarrow> (self, None))"

definition try_get_tipped_veto_vote_state :: "proposal \<Rightarrow> nat \<Rightarrow> proposal_state option" where
  "try_get_tipped_veto_vote_state self min_weight =
     (if veto_vote_weight self \<ge> min_weight then Some Vetoed else None)"

definition try_get_tipped_vote_state ::
  "proposal \<Rightarrow> nat \<Rightarrow> vote_tipping \<Rightarrow> vote_threshold \<Rightarrow> vote_kind
   \<Rightarrow> (proposal \<times> proposal_state option) result" where
  "try_get_tipped_vote_state self max_voter_weight tipping threshold kind =
     and_then (unwrap_result (get_min_vote_threshold_weight threshold max_voter_weight)) (\<lambda>min_weight.
     case kind of
       ElectorateKind \<Rightarrow> Ok (try_get_tipped_electorate_vote_state self max_voter_weight tipping min_weight)
     | VetoKind \<Rightarrow> Ok (self, try_get_tipped_veto_vote_state self min_weight))"

definition try_tip_vote ::
  "proposal \<Rightarrow> nat \<Rightarrow> vote_tipping \<Rightarrow> int \<Rightarrow> vote_threshold \<Rightarrow> vote_kind \<Rightarrow> (proposal \<times> bool) result" where
  "try_tip_vote self max_voter_weight tipping now threshold kind =
     and_then (try_get_tipped_vote_state self max_voter_weight tipping threshold kind) (\<lambda>(p, tipped).
     case tipped of
       Some tipped_state \<Rightarrow>
         Ok (p\<lparr>pr_state := tipped_state, voting_completed_at := Some now,
               max_vote_weight := Some max_voter_weight, pr_vote_threshold := Some threshold\<rparr>, True)
     | None \<Rightarrow> Ok (p, False))"

text \<open>The choices of a vote: their number and, in a weighted vote, the sum of their percentages.\<close>

definition is_weighted :: "vote_type \<Rightarrow> bool" where
  "is_weighted t = (case t of MultiChoice Weighted _ _ _ \<Rightarrow> True | _ \<Rightarrow> False)"

definition count_choice :: "vote_type \<Rightarrow> nat \<times> nat \<Rightarrow> vote_choice \<Rightarrow> (nat \<times> nat) result" where
  "count_choice t st choice =
     (let (count, total) = st in
      if rank choice > 0 then Err RankedVoteIsNotSupported
      else if weight_percentage choice > 0 then
        and_then (unwrap (checked_add 16 count 1)) (\<lambda>count'.
        if is_weighted t then
          and_then (ok_or (checked_add 8 total (weight_percentage choice)) TotalVoteWeightMustBe100Percent)
            (\<lambda>total'. Ok (count', total'))
        else if weight_percentage choice \<noteq> 100 then Err ChoiceWeightMustBe100Percent
        else Ok (count', total))
      else Ok (count, total))"

definition assert_valid_vote :: "proposal \<Rightarrow> vote \<Rightarrow> unit result" where
  "assert_valid_vote self v =
     (case v of
        Approve choices \<Rightarrow>
          if length (pr_options self) \<noteq> length choices then Err InvalidNumberOfVoteChoices
          else and_then (fold_result (count_choice (pr_vote_type self)) (0, 0) choices) (\<lambda>(count, total).
            case pr_vote_type self of
              SingleChoice \<Rightarrow> if count \<noteq> 1 then Err SingleChoiceOnlyIsAllowed else Ok ()
            | MultiChoice FullWeight _ _ _ \<Rightarrow> if count = 0 then Err AtLeastSingleChoiceIsRequired else Ok ()
            | MultiChoice Weighted _ _ _ \<Rightarrow>
                if count = 0 then Err AtLeastSingleChoiceIsRequired
                else if total \<noteq> 100 then Err TotalVoteWeightMustBe100Percent
                else Ok ())
      | Deny \<Rightarrow> if deny_vote_weight self = None then Err DenyVoteIsNotAllowed else Ok ()
      | Abstain \<Rightarrow> Err NotSupportedVoteType
      | Veto \<Rightarrow> Ok ())"

definition assert_valid_proposal_options :: "string list \<Rightarrow> vote_type \<Rightarrow> unit result" where
  "assert_valid_proposal_options opts t =
     (if opts = [] \<or> length opts > 10 then Err InvalidProposalOptions
      else if (case t of
            MultiChoice _ min_voter max_voter max_winning \<Rightarrow>
              length opts = 1 \<or> max_voter \<noteq> length opts \<or> max_winning \<noteq> length opts \<or> min_voter \<noteq> 1
          | SingleChoice \<Rightarrow> False)
        then Err InvalidMultiChoiceProposalParameters
      else if list_ex (\<lambda>s. s = []) opts then Err InvalidProposalOptions
      else Ok ())"

section \<open>The threshold\<close>

lemma div_up_eq: "(if n div 100 * 100 < n then n div 100 + 1 else n div 100) = ((n::nat) + 99) div 100"
proof (cases "n mod 100 = 0")
  case True
  then obtain q where "n = 100 * q" by (metis mod_0_imp_dvd dvdE)
  then show ?thesis by (auto intro: div_nat_eqI)
next
  case False
  define q where "q = n div 100"
  have "n mod 100 < 100" by simp
  with False have q: "q * 100 < n" "n < q * 100 + 100"
    using div_mult_mod_eq [of n 100] unfolding q_def by linarith+
  then have "(n + 99) div 100 = q + 1" by (intro div_nat_eqI) simp_all
  then show ?thesis using q unfolding q_def by simp
qed

text \<open>It is the least weight whose share of all votes reaches the percentage.\<close>

lemma div_up_le_iff: "(n + 99) div 100 \<le> (w :: nat) \<longleftrightarrow> n \<le> w * 100"
proof -
  have "(n + 99) div 100 < w + 1 \<longleftrightarrow> n + 99 < (w + 1) * 100"
    by (rule div_less_iff_less_mult) simp
  then show ?thesis by linarith
qed

lemma get_min_vote_threshold_weight_Ok:
  assumes "percentage \<le> 100" "max_weight < 2 ^ 64"
  shows "get_min_vote_threshold_weight (YesVotePercentage percentage) max_weight
    = Ok ((percentage * max_weight + 99) div 100)"
proof -
  let ?n = "percentage * max_weight"
  have n: "?n \<le> max_weight * 100" using assms(1) by simp
  then have small: "(?n + 99) div 100 \<le> max_weight" by (simp add: div_up_le_iff)
  then have "((?n + 99) div 100) mod 2 ^ 64 = (?n + 99) div 100" using assms(2) by simp
  moreover have "?n < 2 ^ 128" by (rule le_less_trans [OF n]) (use assms(2) in simp)
  moreover have "?n div 100 * 100 \<le> ?n" by simp
  ultimately have "get_min_vote_threshold_weight (YesVotePercentage percentage) max_weight
      = Ok ((if ?n div 100 * 100 < ?n then ?n div 100 + 1 else ?n div 100) mod 2 ^ 64)"
    by (auto simp: get_min_vote_threshold_weight_def Let_def checked_mul_def checked_add_def)
  also have "\<dots> = Ok ((?n + 99) div 100)"
    using \<open>((?n + 99) div 100) mod 2 ^ 64 = _\<close> by (simp only: div_up_eq)
  finally show ?thesis .
qed

lemma min_weight_le_max: "percentage \<le> 100 \<Longrightarrow> (percentage * max_weight + 99) div 100 \<le> (max_weight :: nat)"
  by (simp add: div_up_le_iff)

section \<open>The decision at the end\<close>

text \<open>
  What the decision should be: an option passes with its share of all votes and more votes than there
  are against the proposal; where one option only may win, it also has more than any other that passes.
\<close>

definition passes :: "proposal \<Rightarrow> nat \<Rightarrow> nat \<Rightarrow> nat \<Rightarrow> bool" where
  "passes p percentage max_weight w \<longleftrightarrow> percentage * max_weight \<le> w * 100
     \<and> (case deny_vote_weight p of Some d \<Rightarrow> d | None \<Rightarrow> 0) < w"

definition wins :: "proposal \<Rightarrow> nat \<Rightarrow> nat \<Rightarrow> nat \<Rightarrow> bool" where
  "wins p percentage max_weight i \<longleftrightarrow>
     (let w = (\<lambda>j. vote_weight (pr_options p ! j)) in
      passes p percentage max_weight (w i)
      \<and> (pr_vote_type p = SingleChoice \<longrightarrow>
          list_all (\<lambda>j. j \<noteq> i \<and> passes p percentage max_weight (w j) \<longrightarrow> w j < w i)
            [0..<length (pr_options p)]))"

text \<open>The loop marks the options that pass, and finds the best weight of these and how many have it.\<close>

lemma le_fold_max: "(b :: nat) \<le> fold max xs b"
  by (induction xs arbitrary: b) (auto intro: order_trans [OF max.cobounded2])

lemma resolve_options_spec:
  assumes "resolve_options m d opts bw bc = Ok (opts', w, c)"
  shows "opts' = map (\<lambda>opt. opt\<lparr>vote_result :=
      if m \<le> vote_weight opt \<and> d < vote_weight opt then OptionSucceeded else OptionDefeated\<rparr>) opts
    \<and> w = fold max (filter (\<lambda>x. m \<le> x \<and> d < x) (map vote_weight opts)) bw
    \<and> c = (if w = bw then bc else 0)
        + length (filter (\<lambda>x. x = w) (filter (\<lambda>x. m \<le> x \<and> d < x) (map vote_weight opts)))"
  using assms
proof (induction opts arbitrary: bw bc opts')
  case (Cons opt opts)
  let ?good = "filter (\<lambda>x. m \<le> x \<and> d < x) (map vote_weight opts)"
  show ?case
  proof (cases "m \<le> vote_weight opt \<and> d < vote_weight opt")
    case True
    with Cons.prems obtain weight count os where
      next_best: "(if vote_weight opt > bw then Ok (vote_weight opt, 1)
           else if vote_weight opt = bw then and_then (unwrap (checked_add 16 bc 1)) (\<lambda>n. Ok (bw, n))
           else Ok (bw, bc)) = Ok (weight, count)"
      and rest: "resolve_options m d opts weight count = Ok (os, w, c)"
      and opts': "opts' = opt\<lparr>vote_result := OptionSucceeded\<rparr> # os"
      by auto
    have weight: "weight = max (vote_weight opt) bw" using next_best by (auto split: if_splits)
    have count: "count = (if weight = bw then bc else 0) + (if weight = vote_weight opt then 1 else 0)"
      using next_best by (auto split: if_splits)
    have os: "os = map (\<lambda>opt. opt\<lparr>vote_result :=
        if m \<le> vote_weight opt \<and> d < vote_weight opt then OptionSucceeded else OptionDefeated\<rparr>) opts"
      and w: "w = fold max ?good weight"
      and c: "c = (if w = weight then count else 0) + length (filter (\<lambda>x. x = w) ?good)"
      using Cons.IH [OF rest] by blast+
    have "weight \<le> w" unfolding w by (rule le_fold_max)
    then have "c = (if w = bw then bc else 0) + (if vote_weight opt = w then 1 else 0)
        + length (filter (\<lambda>x. x = w) ?good)"
      using c count weight by (cases "w = weight") auto
    then show ?thesis using os w weight opts' True by simp
  next
    case False
    with Cons.prems obtain os where
      "resolve_options m d opts bw bc = Ok (os, w, c)" "opts' = opt\<lparr>vote_result := OptionDefeated\<rparr> # os"
      by auto
    with Cons.IH [OF this(1)] False show ?thesis by auto
  qed
qed simp


lemma resolve_options_returns:
  "bc + length opts < 2 ^ 16 \<Longrightarrow> \<exists>r. resolve_options m d opts bw bc = Ok r"
proof (induction opts arbitrary: bw bc)
  case (Cons opt opts)
  have "1 + length opts < 2 ^ 16" "bc + length opts < 2 ^ 16" "bc + 1 + length opts < 2 ^ 16"
    using Cons.prems by simp_all
  then have "\<exists>r. resolve_options m d opts (vote_weight opt) 1 = Ok r"
    "\<exists>r. resolve_options m d opts bw bc = Ok r" "\<exists>r. resolve_options m d opts bw (bc + 1) = Ok r"
    using Cons.IH by blast+
  then show ?case using Cons.prems by (auto simp: checked_add_def)
qed simp

lemma fold_max_eq_Max: "fold max xs (b :: nat) = Max (insert b (set xs))"
  using Max.set_eq_fold [of b xs] by simp

text \<open>How many of the options have the best weight tells whether one of them is alone with it.\<close>

lemma count_best:
  fixes ws :: "nat list"
  assumes "P W" "W \<in> set ws"
  shows "length (filter (\<lambda>x. x = W) (filter P ws)) = card {i. i < length ws \<and> ws ! i = W}"
proof -
  have "filter (\<lambda>x. x = W) (filter P ws) = filter (\<lambda>x. x = W) ws"
    using assms(1) by (auto intro: filter_cong simp: filter_filter)
  then show ?thesis by (simp add: length_filter_conv_card)
qed


lemma best_of_passing:
  assumes "\<forall>w \<in> set (filter P ws). (0 :: nat) < w" "filter P ws \<noteq> []"
  defines "W \<equiv> fold max (filter P ws) 0"
  shows "W \<in> set (filter P ws)" "\<forall>w \<in> set (filter P ws). w \<le> W"
proof -
  have W: "W = Max (insert 0 (set (filter P ws)))" unfolding W_def by (rule fold_max_eq_Max)
  then show "\<forall>w \<in> set (filter P ws). w \<le> W" by auto
  have "W \<in> insert 0 (set (filter P ws))" unfolding W by (rule Max_in) auto
  moreover obtain w where "w \<in> set (filter P ws)" using assms(2) by (metis list.set_intros(1) neq_Nil_conv)
  then have "0 < W" using assms(1) \<open>\<forall>w \<in> set (filter P ws). w \<le> W\<close> by force
  ultimately show "W \<in> set (filter P ws)" by auto
qed

lemma alone_iff:
  fixes ws :: "nat list"
  assumes W: "P W" "W \<in> set ws" and best: "\<And>w. w \<in> set ws \<Longrightarrow> P w \<Longrightarrow> w \<le> W"
    and i: "i < length ws"
  shows "P (ws ! i) \<and> (\<forall>j < length ws. j \<noteq> i \<and> P (ws ! j) \<longrightarrow> ws ! j < ws ! i)
    \<longleftrightarrow> ws ! i = W \<and> card {j. j < length ws \<and> ws ! j = W} = 1"
proof
  assume l: "P (ws ! i) \<and> (\<forall>j < length ws. j \<noteq> i \<and> P (ws ! j) \<longrightarrow> ws ! j < ws ! i)"
  obtain k where k: "k < length ws" "ws ! k = W" using W(2) by (metis in_set_conv_nth)
  have "ws ! i \<le> W" using best l i by simp
  then have ki: "j = i" if "j < length ws" "ws ! j = W" for j
    using l that W(1) by (metis leD)
  have "k = i" by (rule ki [OF k])
  then have "{j. j < length ws \<and> ws ! j = W} = {i}" using k ki by auto
  then show "ws ! i = W \<and> card {j. j < length ws \<and> ws ! j = W} = 1" using k \<open>k = i\<close> by simp
next
  assume r: "ws ! i = W \<and> card {j. j < length ws \<and> ws ! j = W} = 1"
  then obtain k where k: "{j. j < length ws \<and> ws ! j = W} = {k}" by (auto simp: card_1_singleton_iff)
  have "i \<in> {j. j < length ws \<and> ws ! j = W}" using r i by simp
  then have alone: "ws ! j \<noteq> W" if "j < length ws" "j \<noteq> i" for j
    using that k by auto
  have "ws ! j < W" if "j < length ws" "j \<noteq> i" "P (ws ! j)" for j
    using best [OF nth_mem [OF that(1)] that(3)] alone [OF that(1,2)] by simp
  then show "P (ws ! i) \<and> (\<forall>j < length ws. j \<noteq> i \<and> P (ws ! j) \<longrightarrow> ws ! j < ws ! i)"
    using r W(1) by simp
qed

lemma marked_options:
  assumes "\<And>i. i < length (pr_options p) \<Longrightarrow> R (vote_weight (pr_options p ! i))
      = (if wins p percentage max_weight i then OptionSucceeded else OptionDefeated)"
  shows "map (\<lambda>opt. opt\<lparr>vote_result := R (vote_weight opt)\<rparr>) (pr_options p)
    = map (\<lambda>i. (pr_options p ! i)\<lparr>vote_result :=
        if wins p percentage max_weight i then OptionSucceeded else OptionDefeated\<rparr>) [0..<length (pr_options p)]"
  using assms by (intro nth_equalityI) auto

lemma wins_iff:
  assumes "i < length (pr_options p)"
  shows "wins p percentage max_weight i \<longleftrightarrow>
    passes p percentage max_weight (map vote_weight (pr_options p) ! i) \<and> (pr_vote_type p = SingleChoice \<longrightarrow>
      (\<forall>j < length (map vote_weight (pr_options p)). j \<noteq> i
        \<and> passes p percentage max_weight (map vote_weight (pr_options p) ! j)
        \<longrightarrow> map vote_weight (pr_options p) ! j < map vote_weight (pr_options p) ! i))"
  using assms by (auto simp: wins_def Let_def list_all_iff)

text \<open>
  What the end of a vote makes of the marked options: \<open>c\<close> of those that pass have the highest weight
  \<open>W\<close>.
\<close>

lemma decided_options:
  fixes p percentage max_weight
  defines "P \<equiv> passes p percentage max_weight" and "opts \<equiv> pr_options p" and "n \<equiv> length (pr_options p)"
  defines "ws \<equiv> map vote_weight opts"
  assumes small: "list_all (\<lambda>opt. vote_weight opt < U64_MAX) opts"
    and opts': "opts' = map (\<lambda>opt. opt\<lparr>vote_result :=
      if P (vote_weight opt) then OptionSucceeded else OptionDefeated\<rparr>) opts"
    and W: "W = fold max (filter P ws) 0" and c: "c = length (filter (\<lambda>x. x = W) (filter P ws))"
  shows "(if c = 0 then (opts', ProposalDefeated)
      else case pr_vote_type p of
        SingleChoice \<Rightarrow>
          if c > 1 then (coerce_vote_results U64_MAX opts', ProposalDefeated)
          else (coerce_vote_results W opts', ProposalSucceeded)
      | MultiChoice _ _ _ _ \<Rightarrow> (opts', ProposalSucceeded))
    = (map (\<lambda>i. (opts ! i)\<lparr>vote_result :=
          if wins p percentage max_weight i then OptionSucceeded else OptionDefeated\<rparr>) [0..<n],
       if list_ex (wins p percentage max_weight) [0..<n] then ProposalSucceeded else ProposalDefeated)"
    (is "_ = ?asked")
proof (cases "filter P ws = []")
  case True
  then have none: "\<not> P (ws ! i)" if "i < n" for i
    using that by (auto simp: filter_empty_conv ws_def n_def opts_def)
  then have "\<not> wins p percentage max_weight i" if "i < n" for i
    using that wins_iff [of i p] by (auto simp: P_def ws_def n_def opts_def)
  moreover from this have "opts' = fst ?asked"
    unfolding opts' fst_conv opts_def n_def
    by (intro marked_options) (use none in \<open>auto simp: ws_def n_def opts_def\<close>)
  ultimately show ?thesis using c True by (auto simp: list_ex_iff)
next
  case False
  have pos: "\<forall>w \<in> set (filter P ws). 0 < w" by (auto simp: P_def passes_def)
  have WP: "P W" "W \<in> set ws" and best: "\<And>w. w \<in> set ws \<Longrightarrow> P w \<Longrightarrow> w \<le> W"
    using best_of_passing [OF pos False] unfolding W by auto
  have card: "c = card {i. i < length ws \<and> ws ! i = W}" unfolding c by (rule count_best) (use WP in auto)
  obtain k where k: "k < n" "ws ! k = W" using WP(2) by (auto simp: in_set_conv_nth ws_def n_def opts_def)
  have "c > 0" unfolding card using k by (auto simp: card_gt_0_iff ws_def n_def opts_def)
  show ?thesis
  proof (cases "pr_vote_type p")
    case SingleChoice
    have small': "ws ! i \<noteq> U64_MAX" if "i < n" for i
      using small that by (auto simp: list_all_length ws_def n_def opts_def)
    have win: "wins p percentage max_weight i \<longleftrightarrow> ws ! i = W \<and> c = 1" if "i < n" for i
      using that SingleChoice wins_iff [of i p] alone_iff [of P W ws i, OF WP best]
      unfolding card by (simp add: P_def ws_def n_def opts_def)
    have "coerce_vote_results w opts' = map (\<lambda>opt. opt\<lparr>vote_result :=
        if vote_weight opt = w then OptionSucceeded else OptionDefeated\<rparr>) opts" for w
      by (simp add: coerce_vote_results_def opts')
    then have "coerce_vote_results (if c > 1 then U64_MAX else W) opts' = fst ?asked"
      unfolding fst_conv opts_def n_def
      by (simp only:) (intro marked_options, use win small' \<open>c > 0\<close> in \<open>auto simp: ws_def n_def opts_def\<close>)
    moreover have "list_ex (wins p percentage max_weight) [0..<n] \<longleftrightarrow> c = 1"
      using win k by (auto simp: list_ex_iff)
    ultimately show ?thesis using SingleChoice \<open>c > 0\<close> by auto
  next
    case (MultiChoice a b c' e)
    then have win: "wins p percentage max_weight i \<longleftrightarrow> P (ws ! i)" if "i < n" for i
      using that wins_iff [of i p] by (simp add: P_def ws_def n_def opts_def)
    have "opts' = fst ?asked"
      unfolding opts' fst_conv opts_def n_def
      by (intro marked_options) (use win in \<open>simp add: ws_def n_def opts_def\<close>)
    moreover have "list_ex (wins p percentage max_weight) [0..<n]" using win k WP(1) by (auto simp: list_ex_iff)
    ultimately show ?thesis using MultiChoice \<open>c > 0\<close> by simp
  qed
qed

text \<open>
  C20: The decision on a proposal at the end of the vote is the one the votes ask for.
\<close>
theorem final_decision:
  assumes "percentage \<le> 100" "max_weight < 2 ^ 64" "length (pr_options p) < 2 ^ 16"
    and "list_all (\<lambda>opt. vote_weight opt < U64_MAX) (pr_options p)"
  shows "resolve_final_vote_state p max_weight (YesVotePercentage percentage)
    = Ok (p\<lparr>pr_options := map (\<lambda>i. (pr_options p ! i)\<lparr>vote_result :=
              if wins p percentage max_weight i then OptionSucceeded else OptionDefeated\<rparr>)
            [0..<length (pr_options p)]\<rparr>,
          if deny_vote_weight p = None then Completed
          else if list_ex (wins p percentage max_weight) [0..<length (pr_options p)] then ProposalSucceeded
          else ProposalDefeated)"
proof -
  let ?opts = "pr_options p" and ?m = "(percentage * max_weight + 99) div 100"
  let ?d = "case deny_vote_weight p of Some d \<Rightarrow> d | None \<Rightarrow> 0"
  let ?ws = "map vote_weight ?opts" and ?P = "passes p percentage max_weight"
  have P: "(?m \<le> x \<and> ?d < x) = ?P x" for x by (simp add: passes_def div_up_le_iff)
  obtain opts' W c where run: "resolve_options ?m ?d ?opts 0 0 = Ok (opts', W, c)"
    using resolve_options_returns [of 0 ?opts ?m ?d 0] assms(3) by auto
  have "opts' = map (\<lambda>opt. opt\<lparr>vote_result :=
      if ?P (vote_weight opt) then OptionSucceeded else OptionDefeated\<rparr>) ?opts"
    "W = fold max (filter ?P ?ws) 0" "c = length (filter (\<lambda>x. x = W) (filter ?P ?ws))"
    using resolve_options_spec [OF run] by (simp_all add: P)
  from decided_options [OF assms(4) this] show ?thesis
    using run get_min_vote_threshold_weight_Ok [OF assms(1,2)]
    by (auto simp: resolve_final_vote_state_def unwrap_result_def Let_def split: prod.splits)
qed

definition sample_option :: "nat \<Rightarrow> proposal_option" where
  "sample_option w = \<lparr>label = ''yes'', vote_weight = w, vote_result = OptionUndecided,
     transactions_executed_count = 0, transactions_count = 0, transactions_next_index = 0\<rparr>"

definition sample_proposal :: "nat list \<Rightarrow> proposal" where
  "sample_proposal ws = \<lparr>pr_governance = PK 10, pr_governing_token_mint = PK 5, pr_state = Voting,
     pr_token_owner_record = PK 30, signatories_count = 0, signatories_signed_off_count = 0,
     pr_vote_type = SingleChoice, pr_options = map sample_option ws, deny_vote_weight = Some 20,
     abstain_vote_weight = None, start_voting_at = None, draft_at = 50, signing_off_at = Some 60,
     voting_at = Some 100, voting_at_slot = Some 7, voting_completed_at = None, executing_at = None,
     closed_at = None, max_vote_weight = None, max_voting_time = None, pr_vote_threshold = None,
     pr_name = ''p'', description_link = [], veto_vote_weight = 0\<rparr>"

theorem final_decision_witness:
  "map_result (\<lambda>(p, st). (map vote_result (pr_options p), st))
     (resolve_final_vote_state (sample_proposal [30, 40, 10]) 100 (YesVotePercentage 25))
   = Ok ([OptionDefeated, OptionSucceeded, OptionDefeated], ProposalSucceeded)
   \<and> map_result (\<lambda>(p, st). (map vote_result (pr_options p), st))
     (resolve_final_vote_state (sample_proposal [40, 40, 10]) 100 (YesVotePercentage 25))
   = Ok ([OptionDefeated, OptionDefeated, OptionDefeated], ProposalDefeated)"
  using final_decision [of 25 100 "sample_proposal [30, 40, 10]"]
    final_decision [of 25 100 "sample_proposal [40, 40, 10]"]
  by (simp add: sample_proposal_def sample_option_def wins_def passes_def Let_def U64_MAX_def upt_rec)

section \<open>Deciding early\<close>

text \<open>With one option the decision at the end is whether it passes.\<close>

lemma resolve_one_option:
  assumes "pr_vote_type q = SingleChoice" "pr_options q = [opt]" "deny_vote_weight q = Some d"
    and "percentage \<le> 100" "max_weight < 2 ^ 64"
  shows "resolve_final_vote_state q max_weight (YesVotePercentage percentage)
    = (if passes q percentage max_weight (vote_weight opt)
       then Ok (q\<lparr>pr_options := [opt\<lparr>vote_result := OptionSucceeded\<rparr>]\<rparr>, ProposalSucceeded)
       else Ok (q\<lparr>pr_options := [opt\<lparr>vote_result := OptionDefeated\<rparr>]\<rparr>, ProposalDefeated))"
  using assms get_min_vote_threshold_weight_Ok [OF assms(4,5)]
  by (simp add: resolve_final_vote_state_def unwrap_result_def passes_def div_up_le_iff
      coerce_vote_results_def)

text \<open>
  C19: A vote that is decided before its end is decided as the rest of the votes would have it.
\<close>
theorem tipped_vote_is_final:
  assumes tip: "try_tip_vote p max_weight tipping now (YesVotePercentage percentage) ElectorateKind
      = Ok (p', True)"
    and p: "pr_options p = [opt]" "deny_vote_weight p = Some d"
    and bounds: "percentage \<le> 100" "max_weight < 2 ^ 64"
    and kind: "tipping = StrictTipping \<or> pr_state p' = ProposalDefeated"
    and later: "vote_weight opt \<le> yes" "d \<le> no" "yes + no \<le> max_weight"
  shows "\<exists>q. resolve_final_vote_state
      (p\<lparr>pr_options := [opt\<lparr>vote_weight := yes\<rparr>], deny_vote_weight := Some no\<rparr>) max_weight
      (YesVotePercentage percentage) = Ok (q, pr_state p')
    \<and> map vote_result (pr_options q) = map vote_result (pr_options p')"
proof -
  let ?m = "(percentage * max_weight + 99) div 100" and ?w = "vote_weight opt"
  let ?q = "p\<lparr>pr_options := [opt\<lparr>vote_weight := yes\<rparr>], deny_vote_weight := Some no\<rparr>"
  have m: "?m \<le> max_weight" by (rule min_weight_le_max [OF bounds(1)])
  have tipped: "pr_vote_type p = SingleChoice
      \<and> (map vote_result (pr_options p') = [OptionSucceeded] \<and> pr_state p' = ProposalSucceeded
          \<and> ?m \<le> ?w \<and> (tipping = StrictTipping \<longrightarrow> max_weight - ?w < ?w)
        \<or> map vote_result (pr_options p') = [OptionDefeated] \<and> pr_state p' = ProposalDefeated
          \<and> (d > max_weight - ?m \<or> d \<ge> max_weight - d))"
    using tip p m later get_min_vote_threshold_weight_Ok [OF bounds]
    by (auto simp: try_tip_vote_def try_get_tipped_vote_state_def unwrap_result_def Let_def
        try_get_tipped_electorate_vote_state_def saturating_sub_def
        split: vote_type.splits vote_tipping.splits if_splits)
  then have "passes ?q percentage max_weight yes \<longleftrightarrow> pr_state p' = ProposalSucceeded"
    using kind later m unfolding passes_def div_up_le_iff [symmetric] by auto
  then show ?thesis
    using tipped resolve_one_option [of ?q "opt\<lparr>vote_weight := yes\<rparr>" no, OF _ _ _ bounds] by auto
qed

text \<open>Early tipping decides for the option as soon as it is ahead; votes against it may still follow.\<close>

theorem tipped_vote_is_final_witness:
  "map_result (\<lambda>(p, _). pr_state p)
     (try_tip_vote (sample_proposal [51]) 100 StrictTipping 200 (YesVotePercentage 50) ElectorateKind)
     = Ok ProposalSucceeded
   \<and> (\<exists>q. resolve_final_vote_state
       ((sample_proposal [51])\<lparr>pr_options := [(sample_option 51)\<lparr>vote_weight := 55\<rparr>],
         deny_vote_weight := Some 45\<rparr>) 100 (YesVotePercentage 50) = Ok (q, ProposalSucceeded))"
proof -
  let ?p = "(sample_proposal [51])\<lparr>pr_options := [(sample_option 51)\<lparr>vote_result := OptionSucceeded\<rparr>],
    pr_state := ProposalSucceeded, voting_completed_at := Some 200, max_vote_weight := Some 100,
    pr_vote_threshold := Some (YesVotePercentage 50)\<rparr>"
  have run: "try_tip_vote (sample_proposal [51]) 100 StrictTipping 200 (YesVotePercentage 50) ElectorateKind
      = Ok (?p, True)"
    by (simp add: try_tip_vote_def try_get_tipped_vote_state_def unwrap_result_def Let_def
        get_min_vote_threshold_weight_Ok try_get_tipped_electorate_vote_state_def saturating_sub_def
        sample_proposal_def sample_option_def)
  have "\<exists>q. resolve_final_vote_state
      ((sample_proposal [51])\<lparr>pr_options := [(sample_option 51)\<lparr>vote_weight := 55\<rparr>],
        deny_vote_weight := Some 45\<rparr>) 100 (YesVotePercentage 50) = Ok (q, pr_state ?p)
      \<and> map vote_result (pr_options q) = map vote_result (pr_options ?p)"
    by (rule tipped_vote_is_final [where d = 20, OF run]) (simp_all add: sample_proposal_def sample_option_def)
  then show ?thesis using run by auto
qed

end
