(* ===== verification/GovernanceAccounts.thy ===== *)
theory GovernanceAccounts
  imports ProposalVotes
begin

text \<open>
  The accounts of the governance program by their address, how an instruction loads, creates and
  disposes of them (\<open>governance/tools/src/account.rs\<close> and the loaders of
  \<open>governance/program/src/state\<close>), and the instructions on token owner records that move no tokens:
  creating one, its delegate and its locks. An address without an entry is an account without data; an
  account that another program owns is refused by every loader and has no entry either. Rent and the
  lamports of accounts are left out.
\<close>

section \<open>The store\<close>

record proposal_deposit =
  dp_proposal :: pubkey
  deposit_payer :: pubkey

datatype gov_account =
    RealmAccount gov_realm
  | RealmConfigAccount realm_config_account
  | GovernanceAccount governance
  | TokenOwnerRecordAccount token_owner_record
  | ProposalAccount proposal
  | VoteRecordAccount vote_record
  | SignatoryRecordAccount signatory_record
  | RequiredSignatoryAccount required_signatory
  | ProposalTransactionAccount proposal_transaction
  | ProposalDepositAccount proposal_deposit

type_synonym gov_store = "pubkey \<Rightarrow> gov_account option"

fun realm_of :: "gov_account \<Rightarrow> gov_realm option" where
  "realm_of (RealmAccount x) = Some x" | "realm_of _ = None"

fun realm_config_of :: "gov_account \<Rightarrow> realm_config_account option" where
  "realm_config_of (RealmConfigAccount x) = Some x" | "realm_config_of _ = None"

fun governance_of :: "gov_account \<Rightarrow> governance option" where
  "governance_of (GovernanceAccount x) = Some x" | "governance_of _ = None"

fun token_owner_record_of :: "gov_account \<Rightarrow> token_owner_record option" where
  "token_owner_record_of (TokenOwnerRecordAccount x) = Some x" | "token_owner_record_of _ = None"

fun proposal_of :: "gov_account \<Rightarrow> proposal option" where
  "proposal_of (ProposalAccount x) = Some x" | "proposal_of _ = None"

fun vote_record_of :: "gov_account \<Rightarrow> vote_record option" where
  "vote_record_of (VoteRecordAccount x) = Some x" | "vote_record_of _ = None"

fun signatory_record_of :: "gov_account \<Rightarrow> signatory_record option" where
  "signatory_record_of (SignatoryRecordAccount x) = Some x" | "signatory_record_of _ = None"

fun required_signatory_of :: "gov_account \<Rightarrow> required_signatory option" where
  "required_signatory_of (RequiredSignatoryAccount x) = Some x" | "required_signatory_of _ = None"

fun proposal_transaction_of :: "gov_account \<Rightarrow> proposal_transaction option" where
  "proposal_transaction_of (ProposalTransactionAccount x) = Some x" | "proposal_transaction_of _ = None"

fun proposal_deposit_of :: "gov_account \<Rightarrow> proposal_deposit option" where
  "proposal_deposit_of (ProposalDepositAccount x) = Some x" | "proposal_deposit_of _ = None"

text \<open>
  Loading: an account of another type does not deserialize, or deserializes as one that is not
  initialized (\<open>UninitializedAccount\<close>; the errors of the deserializer are not told apart from it).
\<close>

definition UninitializedAccount :: error_code where
  "UninitializedAccount = ErrorCode (10 * 2 ^ 32)"

definition InvalidSeeds :: error_code where
  "InvalidSeeds = ErrorCode (14 * 2 ^ 32)"

text \<open>The error of the system program when the account to create has data.\<close>

definition AccountAlreadyInUse :: error_code where
  "AccountAlreadyInUse = ErrorCode 0"

definition get_account_data :: "(gov_account \<Rightarrow> 'a option) \<Rightarrow> gov_store \<Rightarrow> pubkey \<Rightarrow> 'a result" where
  "get_account_data decode st key =
     (case st key of
        None \<Rightarrow> Err AccountDoesNotExist
      | Some account \<Rightarrow> ok_or (decode account) UninitializedAccount)"

definition assert_is_valid_account_of_types ::
  "(gov_account \<Rightarrow> bool) \<Rightarrow> gov_store \<Rightarrow> pubkey \<Rightarrow> unit result" where
  "assert_is_valid_account_of_types is_type st key =
     (case st key of
        None \<Rightarrow> Err AccountDoesNotExist
      | Some account \<Rightarrow> if \<not> is_type account then Err ToolsInvalidAccountType else Ok ())"

definition gov_address :: "gov_env \<Rightarrow> seed list \<Rightarrow> pubkey" where
  "gov_address env seeds = fst (find_program_address (gov_sdk env) seeds (gov_program_id env))"

definition create_and_serialize_account_signed ::
  "gov_env \<Rightarrow> gov_store \<Rightarrow> pubkey \<Rightarrow> gov_account \<Rightarrow> seed list \<Rightarrow> gov_store result" where
  "create_and_serialize_account_signed env st key account seeds =
     (if gov_address env seeds \<noteq> key then Err InvalidSeeds
      else case st key of
        Some _ \<Rightarrow> Err AccountAlreadyInUse
      | None \<Rightarrow> Ok (st(key \<mapsto> account)))"

definition dispose_account :: "gov_store \<Rightarrow> pubkey \<Rightarrow> gov_store" where
  "dispose_account st key = st(key := None)"

lemma get_account_data_Ok [simp]:
  "get_account_data decode st key = Ok x \<longleftrightarrow> (\<exists>a. st key = Some a \<and> decode a = Some x)"
  by (auto simp: get_account_data_def split: option.splits)

lemma create_Ok [simp]:
  "create_and_serialize_account_signed env st key account seeds = Ok st' \<longleftrightarrow>
     gov_address env seeds = key \<and> st key = None \<and> st' = st(key \<mapsto> account)"
  by (auto simp: create_and_serialize_account_signed_def split: option.splits)

lemma decoders [simp]:
  "realm_of a = Some r \<longleftrightarrow> a = RealmAccount r"
  "realm_config_of a = Some c \<longleftrightarrow> a = RealmConfigAccount c"
  "governance_of a = Some g \<longleftrightarrow> a = GovernanceAccount g"
  "token_owner_record_of a = Some t \<longleftrightarrow> a = TokenOwnerRecordAccount t"
  "proposal_of a = Some p \<longleftrightarrow> a = ProposalAccount p"
  "vote_record_of a = Some v \<longleftrightarrow> a = VoteRecordAccount v"
  "signatory_record_of a = Some s \<longleftrightarrow> a = SignatoryRecordAccount s"
  "required_signatory_of a = Some rs \<longleftrightarrow> a = RequiredSignatoryAccount rs"
  "proposal_transaction_of a = Some pt \<longleftrightarrow> a = ProposalTransactionAccount pt"
  "proposal_deposit_of a = Some dp \<longleftrightarrow> a = ProposalDepositAccount dp"
  by (cases a; simp)+

section \<open>Loaders\<close>

definition get_realm_data :: "gov_store \<Rightarrow> pubkey \<Rightarrow> gov_realm result" where
  "get_realm_data = get_account_data realm_of"

definition get_realm_data_for_authority :: "gov_store \<Rightarrow> pubkey \<Rightarrow> pubkey \<Rightarrow> gov_realm result" where
  "get_realm_data_for_authority st realm authority =
     and_then (get_realm_data st realm) (\<lambda>r.
     case realm_authority r of
       None \<Rightarrow> Err RealmHasNoAuthority
     | Some a \<Rightarrow> if a \<noteq> authority then Err InvalidAuthorityForRealm else Ok r)"

definition get_realm_data_for_governing_token_mint ::
  "gov_store \<Rightarrow> pubkey \<Rightarrow> pubkey \<Rightarrow> gov_realm result" where
  "get_realm_data_for_governing_token_mint st realm mint =
     and_then (get_realm_data st realm) (\<lambda>r.
     and_then (assert_is_valid_governing_token_mint r mint) (\<lambda>_. Ok r))"

definition assert_is_valid_realm :: "gov_store \<Rightarrow> pubkey \<Rightarrow> unit result" where
  "assert_is_valid_realm st realm =
     assert_is_valid_account_of_types (\<lambda>a. realm_of a \<noteq> None) st realm"

definition get_realm_config_address_seeds :: "pubkey \<Rightarrow> seed list" where
  "get_realm_config_address_seeds realm = [Bytes ''realm-config'', Key realm]"

definition get_realm_config_data_for_realm ::
  "gov_env \<Rightarrow> gov_store \<Rightarrow> pubkey \<Rightarrow> pubkey \<Rightarrow> realm_config_account result" where
  "get_realm_config_data_for_realm env st key realm =
     (if st key = None then
        if gov_address env (get_realm_config_address_seeds realm) \<noteq> key then Err InvalidRealmConfigAddress
        else Ok \<lparr>rc_realm = realm, community_token_config = default_token_config,
                 council_token_config = default_token_config\<rparr>
      else
        and_then (get_account_data realm_config_of st key) (\<lambda>c.
        if rc_realm c \<noteq> realm then Err InvalidRealmConfigForRealm else Ok c))"

text \<open>
  Accounts written before there were thresholds of the council have 0 there, which no later instruction
  sets; their configuration is completed when they are read.
\<close>

definition DEFAULT_DEPOSIT_EXEMPT_PROPOSAL_COUNT :: nat where
  "DEFAULT_DEPOSIT_EXEMPT_PROPOSAL_COUNT = 10"

definition current_config :: "governance_config \<Rightarrow> governance_config" where
  "current_config c =
     (if council_vote_threshold c = YesVotePercentage 0 then
        c\<lparr>council_vote_threshold := community_vote_threshold c,
          council_veto_vote_threshold := community_vote_threshold c,
          council_vote_tipping := community_vote_tipping c,
          community_veto_vote_threshold := ThresholdDisabled,
          voting_cool_off_time := 0,
          deposit_exempt_proposal_count := DEFAULT_DEPOSIT_EXEMPT_PROPOSAL_COUNT\<rparr>
      else c)"

definition current_governance :: "governance \<Rightarrow> governance" where
  "current_governance g = g\<lparr>gv_config := current_config (gv_config g)\<rparr>"

definition get_governance_data :: "gov_store \<Rightarrow> pubkey \<Rightarrow> governance result" where
  "get_governance_data st key =
     and_then (get_account_data governance_of st key) (\<lambda>g. Ok (current_governance g))"

definition get_governance_data_for_realm :: "gov_store \<Rightarrow> pubkey \<Rightarrow> pubkey \<Rightarrow> governance result" where
  "get_governance_data_for_realm st key realm =
     and_then (get_governance_data st key) (\<lambda>g.
     if gv_realm g \<noteq> realm then Err InvalidRealmForGovernance else Ok g)"

definition get_token_owner_record_address_seeds :: "pubkey \<Rightarrow> pubkey \<Rightarrow> pubkey \<Rightarrow> seed list" where
  "get_token_owner_record_address_seeds realm mint owner =
     [Bytes ''governance'', Key realm, Key mint, Key owner]"

definition get_token_owner_record_data :: "gov_store \<Rightarrow> pubkey \<Rightarrow> token_owner_record result" where
  "get_token_owner_record_data = get_account_data token_owner_record_of"

definition get_token_owner_record_data_for_seeds ::
  "gov_env \<Rightarrow> gov_store \<Rightarrow> pubkey \<Rightarrow> seed list \<Rightarrow> token_owner_record result" where
  "get_token_owner_record_data_for_seeds env st key seeds =
     (if gov_address env seeds \<noteq> key then Err InvalidTokenOwnerRecordAccountAddress
      else get_token_owner_record_data st key)"

definition get_token_owner_record_data_for_realm ::
  "gov_store \<Rightarrow> pubkey \<Rightarrow> pubkey \<Rightarrow> token_owner_record result" where
  "get_token_owner_record_data_for_realm st key realm =
     and_then (get_token_owner_record_data st key) (\<lambda>t.
     if tor_realm t \<noteq> realm then Err InvalidRealmForTokenOwnerRecord else Ok t)"

definition get_token_owner_record_data_for_realm_and_governing_mint ::
  "gov_store \<Rightarrow> pubkey \<Rightarrow> pubkey \<Rightarrow> pubkey \<Rightarrow> token_owner_record result" where
  "get_token_owner_record_data_for_realm_and_governing_mint st key realm mint =
     and_then (get_token_owner_record_data_for_realm st key realm) (\<lambda>t.
     if tor_governing_token_mint t \<noteq> mint then Err InvalidGoverningMintForTokenOwnerRecord else Ok t)"

definition get_token_owner_record_data_for_proposal_owner ::
  "gov_store \<Rightarrow> pubkey \<Rightarrow> pubkey \<Rightarrow> token_owner_record result" where
  "get_token_owner_record_data_for_proposal_owner st key proposal_owner =
     (if key \<noteq> proposal_owner then Err InvalidProposalOwnerAccount
      else get_token_owner_record_data st key)"

definition get_proposal_data :: "gov_store \<Rightarrow> pubkey \<Rightarrow> proposal result" where
  "get_proposal_data = get_account_data proposal_of"

definition get_proposal_data_for_governance :: "gov_store \<Rightarrow> pubkey \<Rightarrow> pubkey \<Rightarrow> proposal result" where
  "get_proposal_data_for_governance st key governance =
     and_then (get_proposal_data st key) (\<lambda>p.
     if pr_governance p \<noteq> governance then Err InvalidGovernanceForProposal else Ok p)"

definition get_proposal_data_for_governance_and_governing_mint ::
  "gov_store \<Rightarrow> pubkey \<Rightarrow> pubkey \<Rightarrow> pubkey \<Rightarrow> proposal result" where
  "get_proposal_data_for_governance_and_governing_mint st key governance mint =
     and_then (get_proposal_data_for_governance st key governance) (\<lambda>p.
     if pr_governing_token_mint p \<noteq> mint then Err InvalidGoverningMintForProposal else Ok p)"

definition get_vote_record_address_seeds :: "pubkey \<Rightarrow> pubkey \<Rightarrow> seed list" where
  "get_vote_record_address_seeds proposal token_owner_record =
     [Bytes ''governance'', Key proposal, Key token_owner_record]"

definition get_vote_record_data_for_proposal_and_token_owner_record ::
  "gov_store \<Rightarrow> pubkey \<Rightarrow> gov_realm \<Rightarrow> pubkey \<Rightarrow> proposal \<Rightarrow> token_owner_record \<Rightarrow> vote_record result" where
  "get_vote_record_data_for_proposal_and_token_owner_record st key realm_data proposal p t =
     and_then (get_account_data vote_record_of st key) (\<lambda>v.
     if vr_proposal v \<noteq> proposal then Err InvalidProposalForVoterRecord
     else if vr_governing_token_owner v \<noteq> tor_governing_token_owner t
       then Err InvalidGoverningTokenOwnerForVoteRecord
     else
       and_then (get_proposal_governing_token_mint_for_vote realm_data (tor_governing_token_mint t)
           (get_vote_kind (vr_vote v))) (\<lambda>mint.
       if pr_governing_token_mint p \<noteq> mint then Err InvalidGoverningMintForProposal else Ok v))"

definition get_signatory_record_address_seeds :: "pubkey \<Rightarrow> pubkey \<Rightarrow> seed list" where
  "get_signatory_record_address_seeds proposal signatory =
     [Bytes ''governance'', Key proposal, Key signatory]"

definition get_signatory_record_data_for_seeds ::
  "gov_env \<Rightarrow> gov_store \<Rightarrow> pubkey \<Rightarrow> pubkey \<Rightarrow> pubkey \<Rightarrow> signatory_record result" where
  "get_signatory_record_data_for_seeds env st key proposal signatory =
     (if gov_address env (get_signatory_record_address_seeds proposal signatory) \<noteq> key
        then Err InvalidSignatoryAddress
      else get_account_data signatory_record_of st key)"

definition get_required_signatory_address_seeds :: "pubkey \<Rightarrow> pubkey \<Rightarrow> seed list" where
  "get_required_signatory_address_seeds governance signatory =
     [Bytes ''required-signatory'', Key governance, Key signatory]"

definition get_required_signatory_data_for_governance ::
  "gov_store \<Rightarrow> pubkey \<Rightarrow> pubkey \<Rightarrow> required_signatory result" where
  "get_required_signatory_data_for_governance st key governance =
     and_then (get_account_data required_signatory_of st key) (\<lambda>r.
     if rs_governance r \<noteq> governance then Err InvalidGovernanceForRequiredSignatory else Ok r)"

definition get_proposal_address_seeds :: "pubkey \<Rightarrow> pubkey \<Rightarrow> pubkey \<Rightarrow> seed list" where
  "get_proposal_address_seeds governance mint proposal_seed =
     [Bytes ''governance'', Key governance, Key mint, Key proposal_seed]"

text \<open>The index of an option is one byte, that of a transaction two, the low one first.\<close>

definition get_proposal_transaction_address_seeds :: "pubkey \<Rightarrow> nat \<Rightarrow> nat \<Rightarrow> seed list" where
  "get_proposal_transaction_address_seeds proposal option_i instruction_i =
     [Bytes ''governance'', Key proposal, Bytes [char_of option_i],
      Bytes [char_of (instruction_i mod 256), char_of (instruction_i div 256)]]"

definition get_proposal_transaction_data_for_proposal ::
  "gov_store \<Rightarrow> pubkey \<Rightarrow> pubkey \<Rightarrow> proposal_transaction result" where
  "get_proposal_transaction_data_for_proposal st key proposal =
     and_then (get_account_data proposal_transaction_of st key) (\<lambda>t.
     if pt_proposal t \<noteq> proposal then Err InvalidProposalForProposalTransaction else Ok t)"

definition get_proposal_deposit_address_seeds :: "pubkey \<Rightarrow> pubkey \<Rightarrow> seed list" where
  "get_proposal_deposit_address_seeds proposal payer =
     [Bytes ''proposal-deposit'', Key proposal, Key payer]"

definition get_proposal_deposit_data_for_proposal_and_deposit_payer ::
  "gov_store \<Rightarrow> pubkey \<Rightarrow> pubkey \<Rightarrow> pubkey \<Rightarrow> proposal_deposit result" where
  "get_proposal_deposit_data_for_proposal_and_deposit_payer st key proposal payer =
     and_then (get_account_data proposal_deposit_of st key) (\<lambda>d.
     if dp_proposal d \<noteq> proposal then Err InvalidProposalForProposalDeposit
     else if deposit_payer d \<noteq> payer then Err InvalidDepositPayerForProposalDeposit
     else Ok d)"

lemma current_governance [simp]:
  "gv_realm (current_governance g) = gv_realm g"
  "active_proposal_count (current_governance g) = active_proposal_count g"
  by (simp_all add: current_governance_def)

text \<open>What a loader that succeeds has found in the store.\<close>

lemma loaders_Ok [simp]:
  "get_realm_data st k = Ok r \<longleftrightarrow> st k = Some (RealmAccount r)"
  "get_realm_data_for_governing_token_mint st k m = Ok r \<longleftrightarrow> st k = Some (RealmAccount r)
     \<and> assert_is_valid_governing_token_mint r m = Ok ()"
  "get_governance_data st k = Ok g \<longleftrightarrow> (\<exists>g0. st k = Some (GovernanceAccount g0) \<and> g = current_governance g0)"
  "get_governance_data_for_realm st k realm = Ok g \<longleftrightarrow>
     (\<exists>g0. st k = Some (GovernanceAccount g0) \<and> g = current_governance g0 \<and> gv_realm g0 = realm)"
  "get_token_owner_record_data st k = Ok t \<longleftrightarrow> st k = Some (TokenOwnerRecordAccount t)"
  "get_token_owner_record_data_for_realm st k realm = Ok t \<longleftrightarrow>
     st k = Some (TokenOwnerRecordAccount t) \<and> tor_realm t = realm"
  "get_token_owner_record_data_for_realm_and_governing_mint st k realm m = Ok t \<longleftrightarrow>
     st k = Some (TokenOwnerRecordAccount t) \<and> tor_realm t = realm \<and> tor_governing_token_mint t = m"
  "get_token_owner_record_data_for_proposal_owner st k owner = Ok t \<longleftrightarrow>
     k = owner \<and> st k = Some (TokenOwnerRecordAccount t)"
  "get_token_owner_record_data_for_seeds env st k seeds = Ok t \<longleftrightarrow>
     gov_address env seeds = k \<and> st k = Some (TokenOwnerRecordAccount t)"
  "get_proposal_data st k = Ok p \<longleftrightarrow> st k = Some (ProposalAccount p)"
  "get_proposal_data_for_governance st k governance = Ok p \<longleftrightarrow>
     st k = Some (ProposalAccount p) \<and> pr_governance p = governance"
  "get_proposal_data_for_governance_and_governing_mint st k governance m = Ok p \<longleftrightarrow>
     st k = Some (ProposalAccount p) \<and> pr_governance p = governance \<and> pr_governing_token_mint p = m"
  by (auto simp: get_realm_data_def get_realm_data_for_governing_token_mint_def get_governance_data_def
      get_governance_data_for_realm_def get_token_owner_record_data_def
      get_token_owner_record_data_for_realm_def get_token_owner_record_data_for_realm_and_governing_mint_def
      get_token_owner_record_data_for_proposal_owner_def get_token_owner_record_data_for_seeds_def
      get_proposal_data_def get_proposal_data_for_governance_def
      get_proposal_data_for_governance_and_governing_mint_def intro: exI [of _ "current_governance _"])

section \<open>Token owner records\<close>

definition new_token_owner_record :: "pubkey \<Rightarrow> pubkey \<Rightarrow> pubkey \<Rightarrow> token_owner_record" where
  "new_token_owner_record realm mint owner =
     \<lparr>tor_realm = realm, tor_governing_token_mint = mint, tor_governing_token_owner = owner,
      governing_token_deposit_amount = 0, unrelinquished_votes_count = 0, outstanding_proposal_count = 0,
      governance_delegate = None, tor_locks = []\<rparr>"

definition process_create_token_owner_record ::
  "gov_env \<Rightarrow> pubkey \<Rightarrow> pubkey \<Rightarrow> pubkey \<Rightarrow> pubkey \<Rightarrow> gov_store \<Rightarrow> gov_store result" where
  "process_create_token_owner_record env realm governing_token_owner token_owner_record mint st =
     and_then (get_realm_data st realm) (\<lambda>r.
     and_then (assert_is_valid_governing_token_mint r mint) (\<lambda>_.
     if st token_owner_record \<noteq> None then Err TokenOwnerRecordAlreadyExists
     else create_and_serialize_account_signed env st token_owner_record
       (TokenOwnerRecordAccount (new_token_owner_record realm mint governing_token_owner))
       (get_token_owner_record_address_seeds realm mint governing_token_owner)))"

definition process_set_governance_delegate ::
  "signer \<Rightarrow> pubkey \<Rightarrow> pubkey option \<Rightarrow> gov_store \<Rightarrow> gov_store result" where
  "process_set_governance_delegate governance_authority token_owner_record new_governance_delegate st =
     and_then (get_token_owner_record_data st token_owner_record) (\<lambda>t.
     and_then (assert_token_owner_or_delegate_is_signer t governance_authority) (\<lambda>_.
     Ok (st(token_owner_record \<mapsto>
       TokenOwnerRecordAccount (t\<lparr>governance_delegate := new_governance_delegate\<rparr>)))))"

definition process_set_token_owner_record_lock ::
  "gov_env \<Rightarrow> pubkey \<Rightarrow> pubkey \<Rightarrow> pubkey \<Rightarrow> signer \<Rightarrow> nat \<Rightarrow> int option \<Rightarrow> gov_store \<Rightarrow> gov_store result" where
  "process_set_token_owner_record_lock env realm realm_config token_owner_record authority id' expiry st =
     (if \<not> snd authority then Err TokenOwnerRecordLockAuthorityMustSign
      else
      let lock = \<lparr>lock_id = id', lock_authority = fst authority, lock_expiry = expiry\<rparr> in
      if is_expired lock (unix_timestamp env) then Err ExpiredTokenOwnerRecordLock
      else
      and_then (get_realm_data st realm) (\<lambda>r.
      and_then (get_realm_config_data_for_realm env st realm_config realm) (\<lambda>c.
      and_then (get_token_owner_record_data_for_realm st token_owner_record (rc_realm c)) (\<lambda>t.
      and_then (get_token_config c r (tor_governing_token_mint t)) (\<lambda>tc.
      if fst authority \<notin> set (lock_authorities tc) then Err InvalidTokenOwnerRecordLockAuthority
      else Ok (st(token_owner_record \<mapsto>
        TokenOwnerRecordAccount (upsert_lock (remove_expired_locks t (unix_timestamp env)) lock))))))))"

definition process_relinquish_token_owner_record_locks ::
  "gov_env \<Rightarrow> pubkey \<Rightarrow> pubkey \<Rightarrow> pubkey \<Rightarrow> signer list \<Rightarrow> nat list option \<Rightarrow> gov_store \<Rightarrow> gov_store result" where
  "process_relinquish_token_owner_record_locks env realm realm_config token_owner_record rest lock_ids st =
     and_then (get_realm_data st realm) (\<lambda>r.
     and_then (get_realm_config_data_for_realm env st realm_config realm) (\<lambda>c.
     and_then (get_token_owner_record_data_for_realm st token_owner_record (rc_realm c)) (\<lambda>t.
     and_then
       (case lock_ids of
          None \<Rightarrow> Ok t
        | Some ids \<Rightarrow>
            and_then (next_account_info rest) (\<lambda>(authority, _).
            and_then (get_token_config c r (tor_governing_token_mint t)) (\<lambda>tc.
            if fst authority \<in> set (lock_authorities tc) \<and> \<not> snd authority
              then Err TokenOwnerRecordLockAuthorityMustSign
            else fold_result (\<lambda>t i. remove_lock t i (fst authority)) t ids))) (\<lambda>t'.
     Ok (st(token_owner_record \<mapsto>
       TokenOwnerRecordAccount (remove_expired_locks t' (unix_timestamp env))))))))"

end
