(* ===== verification/GovernanceProposals.thy ===== *)
theory GovernanceProposals
  imports GovernanceAccounts
begin

text \<open>
  The instructions on proposals (\<open>governance/program/src/processor\<close>): from a draft with its signatories
  and transactions over the votes to the execution. A handler takes the addresses of its accounts, those
  that must sign with whether they did, and the accounts that it reads on demand as the list \<open>rest\<close>;
  it returns the store with every account that it writes, in the order of the code.
\<close>

section \<open>Drafts\<close>

record create_proposal_accounts =
  cp_realm :: pubkey
  cp_proposal :: pubkey
  cp_governance :: pubkey
  cp_proposal_owner_record :: pubkey
  cp_governing_token_mint :: pubkey
  cp_governance_authority :: signer
  cp_payer :: pubkey

definition new_proposal ::
  "pubkey \<Rightarrow> pubkey \<Rightarrow> pubkey \<Rightarrow> string \<Rightarrow> string \<Rightarrow> vote_type \<Rightarrow> string list \<Rightarrow> bool \<Rightarrow> int \<Rightarrow> proposal" where
  "new_proposal governance mint owner_record name link t opts use_deny_option now =
     \<lparr>pr_governance = governance, pr_governing_token_mint = mint, pr_state = Draft,
      pr_token_owner_record = owner_record, signatories_count = 0, signatories_signed_off_count = 0,
      pr_vote_type = t,
      pr_options = map (\<lambda>o'. \<lparr>label = o', vote_weight = 0, vote_result = OptionUndecided,
        transactions_executed_count = 0, transactions_count = 0, transactions_next_index = 0\<rparr>) opts,
      deny_vote_weight = (if use_deny_option then Some 0 else None),
      abstain_vote_weight = None, start_voting_at = None, draft_at = now, signing_off_at = None,
      voting_at = None, voting_at_slot = None, voting_completed_at = None, executing_at = None,
      closed_at = None, max_vote_weight = None, max_voting_time = None, pr_vote_threshold = None,
      pr_name = name, description_link = link, veto_vote_weight = 0\<rparr>"

definition take_proposal_deposit ::
  "gov_env \<Rightarrow> create_proposal_accounts \<Rightarrow> governance \<Rightarrow> signer list \<Rightarrow> gov_store \<Rightarrow> gov_store result" where
  "take_proposal_deposit env a g rest st =
     (if get_proposal_deposit_amount g > 0 then
        and_then (next_account_info rest) (\<lambda>(deposit, _).
        create_and_serialize_account_signed env st (fst deposit)
          (ProposalDepositAccount \<lparr>dp_proposal = cp_proposal a, deposit_payer = cp_payer a\<rparr>)
          (get_proposal_deposit_address_seeds (cp_proposal a) (cp_payer a)))
      else Ok st)"

definition process_create_proposal ::
  "gov_env \<Rightarrow> create_proposal_accounts \<Rightarrow> signer list \<Rightarrow> string \<Rightarrow> string \<Rightarrow> vote_type \<Rightarrow> string list
   \<Rightarrow> bool \<Rightarrow> pubkey \<Rightarrow> gov_store \<Rightarrow> gov_store result" where
  "process_create_proposal env a rest name link t opts use_deny_option proposal_seed st =
     (if st (cp_proposal a) \<noteq> None then Err ProposalAlreadyExists
      else
      and_then (get_realm_data_for_governing_token_mint st (cp_realm a) (cp_governing_token_mint a)) (\<lambda>r.
      and_then (get_governance_data_for_realm st (cp_governance a) (cp_realm a)) (\<lambda>g.
      and_then (assert_governing_token_mint_can_vote g r (cp_governing_token_mint a) ElectorateKind) (\<lambda>_.
      and_then (get_token_owner_record_data_for_realm st (cp_proposal_owner_record a) (cp_realm a)) (\<lambda>owner.
      and_then (assert_token_owner_or_delegate_is_signer owner (cp_governance_authority a)) (\<lambda>_.
      and_then (next_account_info rest) (\<lambda>(realm_config, rest1).
      and_then (get_realm_config_data_for_realm env st (fst realm_config) (cp_realm a)) (\<lambda>c.
      and_then (resolve_voter_weight env owner rest1 r c CreateProposal (cp_governance a)) (\<lambda>(weight, rest2).
      and_then (assert_can_create_proposal owner r (gv_config g) weight) (\<lambda>_.
      and_then (unwrap (checked_add 8 (outstanding_proposal_count owner) 1)) (\<lambda>outstanding.
      let st1 = st(cp_proposal_owner_record a \<mapsto>
        TokenOwnerRecordAccount (owner\<lparr>outstanding_proposal_count := outstanding\<rparr>)) in
      and_then (assert_valid_proposal_options opts t) (\<lambda>_.
      and_then (create_and_serialize_account_signed env st1 (cp_proposal a)
          (ProposalAccount (new_proposal (cp_governance a) (cp_governing_token_mint a)
            (cp_proposal_owner_record a) name link t opts use_deny_option (unix_timestamp env)))
          (get_proposal_address_seeds (cp_governance a) (cp_governing_token_mint a) proposal_seed)) (\<lambda>st2.
      and_then (unwrap (checked_add 64 (active_proposal_count g) 1)) (\<lambda>active.
      let g' = g\<lparr>active_proposal_count := active\<rparr> in
      and_then (take_proposal_deposit env a g' rest2 st2) (\<lambda>st3.
      Ok (st3(cp_governance a \<mapsto> GovernanceAccount g')))))))))))))))))"

definition process_add_signatory ::
  "gov_env \<Rightarrow> pubkey \<Rightarrow> pubkey \<Rightarrow> pubkey \<Rightarrow> signer list \<Rightarrow> pubkey \<Rightarrow> gov_store \<Rightarrow> gov_store result" where
  "process_add_signatory env governance proposal signatory_record rest signatory st =
     and_then (get_governance_data st governance) (\<lambda>g.
     and_then (get_proposal_data_for_governance st proposal governance) (\<lambda>p.
     and_then (assert_can_edit_signatories p) (\<lambda>_.
     if st signatory_record \<noteq> None then Err SignatoryRecordAlreadyExists
     else
     and_then
       (if signatories_count p < required_signatories_count g then
          and_then (next_account_info rest) (\<lambda>(required, _).
          and_then (get_required_signatory_data_for_governance st (fst required) governance) (\<lambda>rs.
          if rs_signatory rs \<noteq> signatory then Err InvalidSignatoryAddress else Ok ()))
        else
          and_then (next_account_info rest) (\<lambda>(owner_record, rest1).
          and_then (next_account_info rest1) (\<lambda>(authority, _).
          and_then (get_token_owner_record_data_for_proposal_owner st (fst owner_record)
              (pr_token_owner_record p)) (\<lambda>t.
          assert_token_owner_or_delegate_is_signer t authority)))) (\<lambda>_.
     and_then (create_and_serialize_account_signed env st signatory_record
         (SignatoryRecordAccount \<lparr>sr_proposal = proposal, sr_signatory = signatory, signed_off = False\<rparr>)
         (get_signatory_record_address_seeds proposal signatory)) (\<lambda>st1.
     and_then (unwrap (checked_add 8 (signatories_count p) 1)) (\<lambda>count.
     Ok (st1(proposal \<mapsto> ProposalAccount (p\<lparr>signatories_count := count\<rparr>)))))))))"

definition process_insert_transaction ::
  "gov_env \<Rightarrow> pubkey \<Rightarrow> pubkey \<Rightarrow> pubkey \<Rightarrow> signer \<Rightarrow> pubkey \<Rightarrow> nat \<Rightarrow> nat \<Rightarrow> instruction_data list
   \<Rightarrow> gov_store \<Rightarrow> gov_store result" where
  "process_insert_transaction env governance proposal token_owner_record authority proposal_transaction
       option_i instruction_i instructions st =
     (if st proposal_transaction \<noteq> None then Err TransactionAlreadyExists
      else
      and_then (get_governance_data st governance) (\<lambda>_.
      and_then (get_proposal_data_for_governance st proposal governance) (\<lambda>p.
      and_then (assert_can_edit_instructions p) (\<lambda>_.
      and_then (get_token_owner_record_data_for_proposal_owner st token_owner_record
          (pr_token_owner_record p)) (\<lambda>t.
      and_then (assert_token_owner_or_delegate_is_signer t authority) (\<lambda>_.
      and_then (nth_option p option_i) (\<lambda>opt.
      and_then
        (if instruction_i > transactions_next_index opt then Err InvalidTransactionIndex
         else if instruction_i = transactions_next_index opt then
           unwrap (checked_add 16 (transactions_next_index opt) 1)
         else Ok (transactions_next_index opt)) (\<lambda>next_index.
      and_then (unwrap (checked_add 16 (transactions_count opt) 1)) (\<lambda>count.
      let opt' = opt\<lparr>transactions_next_index := next_index, transactions_count := count\<rparr> in
      create_and_serialize_account_signed env
        (st(proposal \<mapsto> ProposalAccount (p\<lparr>pr_options := (pr_options p)[option_i := opt']\<rparr>)))
        proposal_transaction
        (ProposalTransactionAccount \<lparr>pt_proposal = proposal, option_index = option_i,
           transaction_index = instruction_i, pt_instructions = instructions, executed_at = None,
           execution_status = NotExecuted\<rparr>)
        (get_proposal_transaction_address_seeds proposal option_i instruction_i))))))))))"

definition process_remove_transaction ::
  "pubkey \<Rightarrow> pubkey \<Rightarrow> signer \<Rightarrow> pubkey \<Rightarrow> gov_store \<Rightarrow> gov_store result" where
  "process_remove_transaction proposal token_owner_record authority proposal_transaction st =
     and_then (get_proposal_data st proposal) (\<lambda>p.
     and_then (assert_can_edit_instructions p) (\<lambda>_.
     and_then (get_token_owner_record_data_for_proposal_owner st token_owner_record
         (pr_token_owner_record p)) (\<lambda>t.
     and_then (assert_token_owner_or_delegate_is_signer t authority) (\<lambda>_.
     and_then (get_proposal_transaction_data_for_proposal st proposal_transaction proposal) (\<lambda>pt.
     let st1 = dispose_account st proposal_transaction in
     and_then (nth_option p (option_index pt)) (\<lambda>opt.
     and_then (unwrap (checked_sub (transactions_count opt) 1)) (\<lambda>count.
     Ok (st1(proposal \<mapsto> ProposalAccount
       (p\<lparr>pr_options := (pr_options p)[option_index pt := opt\<lparr>transactions_count := count\<rparr>]\<rparr>))))))))))"

text \<open>
  Without signatories the owner of the proposal signs it off, otherwise a signatory signs with its
  record.
\<close>

definition sign_off_by ::
  "gov_env \<Rightarrow> pubkey \<Rightarrow> proposal \<Rightarrow> signer \<Rightarrow> signer list \<Rightarrow> gov_store \<Rightarrow> (gov_store \<times> proposal) result" where
  "sign_off_by env proposal p signatory rest st =
     (let now = Some (unix_timestamp env) in
      if signatories_count p = 0 then
        and_then (next_account_info rest) (\<lambda>(owner_record, _).
        and_then (get_token_owner_record_data_for_proposal_owner st (fst owner_record)
            (pr_token_owner_record p)) (\<lambda>t.
        and_then (assert_token_owner_or_delegate_is_signer t signatory) (\<lambda>_.
        Ok (st, p\<lparr>signing_off_at := now\<rparr>))))
      else
        and_then (next_account_info rest) (\<lambda>(signatory_record, _).
        and_then (get_signatory_record_data_for_seeds env st (fst signatory_record) proposal
            (fst signatory)) (\<lambda>sr.
        and_then (assert_can_sign_off_record sr signatory) (\<lambda>_.
        let st1 = st(fst signatory_record \<mapsto> SignatoryRecordAccount (sr\<lparr>signed_off := True\<rparr>));
            p1 = (if signatories_signed_off_count p = 0
                  then p\<lparr>signing_off_at := now, pr_state := SigningOff\<rparr> else p) in
        and_then (unwrap (checked_add 8 (signatories_signed_off_count p1) 1)) (\<lambda>count.
        Ok (st1, p1\<lparr>signatories_signed_off_count := count\<rparr>))))))"

definition process_sign_off_proposal ::
  "gov_env \<Rightarrow> pubkey \<Rightarrow> pubkey \<Rightarrow> pubkey \<Rightarrow> signer \<Rightarrow> signer list \<Rightarrow> gov_store \<Rightarrow> gov_store result" where
  "process_sign_off_proposal env realm governance proposal signatory rest st =
     and_then (assert_is_valid_realm st realm) (\<lambda>_.
     and_then (get_governance_data_for_realm st governance realm) (\<lambda>g.
     and_then (get_proposal_data_for_governance st proposal governance) (\<lambda>p.
     and_then (assert_can_sign_off p) (\<lambda>_.
     if required_signatories_count g > 0 \<and> signatories_count p < required_signatories_count g
       then Err MissingRequiredSignatories
     else
     and_then (sign_off_by env proposal p signatory rest st) (\<lambda>(st1, p1).
     let p2 = (if signatories_signed_off_count p1 = signatories_count p1
       then p1\<lparr>voting_at := Some (unix_timestamp env), voting_at_slot := Some (slot env), pr_state := Voting\<rparr>
       else p1) in
     Ok (st1(proposal \<mapsto> ProposalAccount p2)))))))"

section \<open>Voting\<close>

record vote_accounts =
  va_realm :: pubkey
  va_governance :: pubkey
  va_proposal :: pubkey
  va_proposal_owner_record :: pubkey
  va_token_owner_record :: pubkey
  va_governance_authority :: signer
  va_vote_record :: pubkey
  va_governing_token_mint :: pubkey

text \<open>
  The weight of a vote goes to the options it chooses, to the votes against or to the vetoes; \<open>apply\<close>
  is addition when the vote is cast and subtraction when it is taken back.
\<close>

fun choose_options ::
  "(nat \<Rightarrow> nat \<Rightarrow> nat option) \<Rightarrow> nat \<Rightarrow> proposal_option list \<Rightarrow> vote_choice list \<Rightarrow> proposal_option list result" where
  "choose_options apply weight (opt # opts) (choice # choices) =
     and_then (get_choice_weight choice weight) (\<lambda>w.
     and_then (unwrap (apply (vote_weight opt) w)) (\<lambda>total.
     and_then (choose_options apply weight opts choices) (\<lambda>opts'.
     Ok (opt\<lparr>vote_weight := total\<rparr> # opts'))))"
| "choose_options apply weight opts choices = Ok opts"

definition count_vote ::
  "(nat \<Rightarrow> nat \<Rightarrow> nat option) \<Rightarrow> vote \<Rightarrow> nat \<Rightarrow> proposal \<Rightarrow> proposal result" where
  "count_vote apply v weight p =
     (case v of
        Approve choices \<Rightarrow>
          and_then (choose_options apply weight (pr_options p) choices) (\<lambda>opts. Ok (p\<lparr>pr_options := opts\<rparr>))
      | Deny \<Rightarrow>
          and_then (unwrap (deny_vote_weight p)) (\<lambda>d.
          and_then (unwrap (apply d weight)) (\<lambda>d'. Ok (p\<lparr>deny_vote_weight := Some d'\<rparr>)))
      | Veto \<Rightarrow>
          and_then (unwrap (apply (veto_vote_weight p) weight)) (\<lambda>w. Ok (p\<lparr>veto_vote_weight := w\<rparr>))
      | Abstain \<Rightarrow> Err NotSupportedVoteType)"

text \<open>
  When the vote is decided early the proposal is no longer outstanding for its owner, whose record may
  be the voter's own, nor active for its governance.
\<close>

definition proposal_ends ::
  "vote_accounts \<Rightarrow> governance \<Rightarrow> proposal \<Rightarrow> token_owner_record \<Rightarrow> gov_store
   \<Rightarrow> (token_owner_record \<times> gov_store) result" where
  "proposal_ends a g p voter st =
     and_then (get_token_owner_record_data_for_proposal_owner st (va_proposal_owner_record a)
         (pr_token_owner_record p)) (\<lambda>owner.
     let (voter', st1) =
       (if va_proposal_owner_record a = va_token_owner_record a
        then (decrease_outstanding_proposal_count voter, st)
        else (voter, st(va_proposal_owner_record a \<mapsto>
          TokenOwnerRecordAccount (decrease_outstanding_proposal_count owner)))) in
     Ok (voter', st1(va_governance a \<mapsto>
       GovernanceAccount (g\<lparr>active_proposal_count := saturating_sub (active_proposal_count g) 1\<rparr>))))"

definition process_cast_vote ::
  "gov_env \<Rightarrow> vote_accounts \<Rightarrow> signer list \<Rightarrow> vote \<Rightarrow> gov_store \<Rightarrow> gov_store result" where
  "process_cast_vote env a rest v st =
     (if st (va_vote_record a) \<noteq> None then Err VoteAlreadyExists
      else
      let kind = get_vote_kind v; mint = va_governing_token_mint a in
      and_then (get_realm_data_for_governing_token_mint st (va_realm a) mint) (\<lambda>r.
      and_then (get_governance_data_for_realm st (va_governance a) (va_realm a)) (\<lambda>g.
      and_then (get_proposal_governing_token_mint_for_vote r mint kind) (\<lambda>proposal_mint.
      and_then (get_proposal_data_for_governance_and_governing_mint st (va_proposal a) (va_governance a)
          proposal_mint) (\<lambda>p.
      and_then (assert_can_cast_vote p (gv_config g) v (unix_timestamp env)) (\<lambda>_.
      and_then (get_token_owner_record_data_for_realm_and_governing_mint st (va_token_owner_record a)
          (gv_realm g) mint) (\<lambda>t.
      and_then (assert_token_owner_or_delegate_is_signer t (va_governance_authority a)) (\<lambda>_.
      and_then (unwrap (checked_add 64 (unrelinquished_votes_count t) 1)) (\<lambda>count.
      let voter = t\<lparr>unrelinquished_votes_count := count\<rparr> in
      and_then (next_account_info rest) (\<lambda>(realm_config, rest1).
      and_then (get_realm_config_data_for_realm env st (fst realm_config) (va_realm a)) (\<lambda>c.
      and_then (resolve_voter_weight env voter rest1 r c CastVote (va_proposal a)) (\<lambda>(weight, rest2).
      and_then (assert_valid_vote p v) (\<lambda>_.
      and_then (count_vote (checked_add 64) v weight p) (\<lambda>p1.
      and_then (resolve_max_voter_weight env p1 rest2 (va_realm a) r c mint kind) (\<lambda>max_weight.
      and_then (resolve_vote_threshold g r mint kind) (\<lambda>threshold.
      and_then (get_vote_tipping g r mint) (\<lambda>tipping.
      and_then (try_tip_vote p1 max_weight tipping (unix_timestamp env) threshold kind) (\<lambda>(p2, tipped).
      and_then (if tipped then proposal_ends a g p2 voter st else Ok (voter, st)) (\<lambda>(voter', st1).
      create_and_serialize_account_signed env
        (st1(va_token_owner_record a \<mapsto> TokenOwnerRecordAccount voter',
             va_proposal a \<mapsto> ProposalAccount p2))
        (va_vote_record a)
        (VoteRecordAccount \<lparr>vr_proposal = va_proposal a,
           vr_governing_token_owner = tor_governing_token_owner voter', is_relinquished = False,
           voter_weight = weight, vr_vote = v\<rparr>)
        (get_vote_record_address_seeds (va_proposal a) (va_token_owner_record a)))))))))))))))))))))"

definition process_relinquish_vote ::
  "gov_env \<Rightarrow> pubkey \<Rightarrow> pubkey \<Rightarrow> pubkey \<Rightarrow> pubkey \<Rightarrow> pubkey \<Rightarrow> pubkey \<Rightarrow> signer list
   \<Rightarrow> gov_store \<Rightarrow> gov_store result" where
  "process_relinquish_vote env realm governance proposal token_owner_record vote_record mint rest st =
     and_then (get_realm_data_for_governing_token_mint st realm mint) (\<lambda>r.
     and_then (get_governance_data_for_realm st governance realm) (\<lambda>g.
     and_then (get_proposal_data_for_governance st proposal governance) (\<lambda>p.
     and_then (get_token_owner_record_data_for_realm_and_governing_mint st token_owner_record
         (gv_realm g) mint) (\<lambda>t.
     and_then (get_vote_record_data_for_proposal_and_token_owner_record st vote_record r proposal p t) (\<lambda>v.
     and_then (assert_can_relinquish_vote v) (\<lambda>_.
     and_then
       (if pr_state p = Voting then
          and_then (has_voting_max_time_ended p (gv_config g) (unix_timestamp env)) (\<lambda>ended. Ok (\<not> ended))
        else Ok False) (\<lambda>still_voting.
     and_then
       (if still_voting then
          and_then (next_account_info rest) (\<lambda>(authority, rest1).
          and_then (next_account_info rest1) (\<lambda>_.
          and_then (assert_token_owner_or_delegate_is_signer t authority) (\<lambda>_.
          and_then (count_vote checked_sub (vr_vote v) (voter_weight v) p) (\<lambda>p'.
          Ok (dispose_account (st(proposal \<mapsto> ProposalAccount p')) vote_record)))))
        else if pr_state p = Voting then Err CannotRelinquishInFinalizingState
        else Ok (st(vote_record \<mapsto> VoteRecordAccount (v\<lparr>is_relinquished := True\<rparr>)))) (\<lambda>st1.
     and_then (unwrap (checked_sub (unrelinquished_votes_count t) 1)) (\<lambda>count.
     Ok (st1(token_owner_record \<mapsto>
       TokenOwnerRecordAccount (t\<lparr>unrelinquished_votes_count := count\<rparr>))))))))))))"

definition process_finalize_vote ::
  "gov_env \<Rightarrow> pubkey \<Rightarrow> pubkey \<Rightarrow> pubkey \<Rightarrow> pubkey \<Rightarrow> pubkey \<Rightarrow> signer list \<Rightarrow> gov_store \<Rightarrow> gov_store result" where
  "process_finalize_vote env realm governance proposal proposal_owner_record mint rest st =
     and_then (get_realm_data_for_governing_token_mint st realm mint) (\<lambda>r.
     and_then (get_governance_data_for_realm st governance realm) (\<lambda>g.
     and_then (get_proposal_data_for_governance_and_governing_mint st proposal governance mint) (\<lambda>p.
     and_then (next_account_info rest) (\<lambda>(realm_config, rest1).
     and_then (get_realm_config_data_for_realm env st (fst realm_config) realm) (\<lambda>c.
     and_then (resolve_max_voter_weight env p rest1 realm r c mint ElectorateKind) (\<lambda>max_weight.
     and_then (resolve_vote_threshold g r mint ElectorateKind) (\<lambda>threshold.
     and_then (finalize_vote p max_weight (gv_config g) (unix_timestamp env) threshold) (\<lambda>p'.
     and_then (get_token_owner_record_data_for_proposal_owner st proposal_owner_record
         (pr_token_owner_record p')) (\<lambda>owner.
     Ok (st(proposal_owner_record \<mapsto> TokenOwnerRecordAccount (decrease_outstanding_proposal_count owner),
            proposal \<mapsto> ProposalAccount p',
            governance \<mapsto> GovernanceAccount
              (g\<lparr>active_proposal_count := saturating_sub (active_proposal_count g) 1\<rparr>))))))))))))"

definition process_cancel_proposal ::
  "gov_env \<Rightarrow> pubkey \<Rightarrow> pubkey \<Rightarrow> pubkey \<Rightarrow> pubkey \<Rightarrow> signer \<Rightarrow> gov_store \<Rightarrow> gov_store result" where
  "process_cancel_proposal env realm governance proposal proposal_owner_record authority st =
     and_then (assert_is_valid_realm st realm) (\<lambda>_.
     and_then (get_governance_data_for_realm st governance realm) (\<lambda>g.
     and_then (get_proposal_data_for_governance st proposal governance) (\<lambda>p.
     and_then (assert_can_cancel p (gv_config g) (unix_timestamp env)) (\<lambda>_.
     and_then (get_token_owner_record_data_for_proposal_owner st proposal_owner_record
         (pr_token_owner_record p)) (\<lambda>owner.
     and_then (assert_token_owner_or_delegate_is_signer owner authority) (\<lambda>_.
     Ok (st(proposal_owner_record \<mapsto> TokenOwnerRecordAccount (decrease_outstanding_proposal_count owner),
            proposal \<mapsto> ProposalAccount (p\<lparr>pr_state := Cancelled, closed_at := Some (unix_timestamp env)\<rparr>),
            governance \<mapsto> GovernanceAccount
              (g\<lparr>active_proposal_count := saturating_sub (active_proposal_count g) 1\<rparr>)))))))))"

section \<open>After the vote\<close>

definition process_complete_proposal ::
  "gov_env \<Rightarrow> pubkey \<Rightarrow> pubkey \<Rightarrow> signer \<Rightarrow> gov_store \<Rightarrow> gov_store result" where
  "process_complete_proposal env proposal token_owner_record authority st =
     and_then (get_proposal_data st proposal) (\<lambda>p.
     and_then (assert_can_complete p) (\<lambda>_.
     and_then (get_token_owner_record_data_for_proposal_owner st token_owner_record
         (pr_token_owner_record p)) (\<lambda>t.
     and_then (assert_token_owner_or_delegate_is_signer t authority) (\<lambda>_.
     Ok (st(proposal \<mapsto> ProposalAccount
       (p\<lparr>closed_at := Some (unix_timestamp env), pr_state := Completed\<rparr>)))))))"

text \<open>
  The instructions of a transaction run with the signatures of the governance and, if it is among the
  accounts, of its treasury; what they do (to this program's accounts too) is the argument \<open>invoke\<close>.
\<close>

definition execution_signers :: "gov_env \<Rightarrow> pubkey \<Rightarrow> governance \<Rightarrow> signer list \<Rightarrow> pubkey list" where
  "execution_signers env governance g accounts =
     (let treasury = gov_address env [Bytes ''native-treasury'', Key governance] in
      gov_address env (get_governance_address_seeds g)
      # (if treasury \<in> fst ` set accounts then [treasury] else []))"

definition all_executed :: "proposal \<Rightarrow> bool" where
  "all_executed p = list_all (\<lambda>opt. transactions_executed_count opt = transactions_count opt)
     (filter (\<lambda>opt. vote_result opt = OptionSucceeded) (pr_options p))"

definition process_execute_transaction ::
  "gov_env \<Rightarrow> (instruction_data \<Rightarrow> pubkey list \<Rightarrow> gov_store \<Rightarrow> gov_store result) \<Rightarrow> pubkey \<Rightarrow> pubkey
   \<Rightarrow> pubkey \<Rightarrow> signer list \<Rightarrow> gov_store \<Rightarrow> gov_store result" where
  "process_execute_transaction env invoke governance proposal proposal_transaction rest st =
     and_then (get_governance_data st governance) (\<lambda>g.
     and_then (get_proposal_data_for_governance st proposal governance) (\<lambda>p.
     and_then (get_proposal_transaction_data_for_proposal st proposal_transaction proposal) (\<lambda>pt.
     and_then (assert_can_execute_transaction p pt (gv_config g) (unix_timestamp env)) (\<lambda>_.
     and_then (fold_result (\<lambda>s i. invoke i (execution_signers env governance g rest) s) st
         (pt_instructions pt)) (\<lambda>st1.
     let now = Some (unix_timestamp env);
         p1 = (if pr_state p = ProposalSucceeded then p\<lparr>executing_at := now, pr_state := Executing\<rparr> else p) in
     and_then (nth_option p1 (option_index pt)) (\<lambda>opt.
     and_then (unwrap (checked_add 16 (transactions_executed_count opt) 1)) (\<lambda>count.
     let p2 = p1\<lparr>pr_options :=
           (pr_options p1)[option_index pt := opt\<lparr>transactions_executed_count := count\<rparr>]\<rparr>;
         p3 = (if (pr_state p2 = Executing \<or> pr_state p2 = ExecutingWithErrors) \<and> all_executed p2
               then p2\<lparr>closed_at := now, pr_state := Completed\<rparr> else p2) in
     Ok (st1(proposal \<mapsto> ProposalAccount p3,
             proposal_transaction \<mapsto> ProposalTransactionAccount
               (pt\<lparr>executed_at := now, execution_status := ExecutionSuccess\<rparr>))))))))))"

definition process_refund_proposal_deposit ::
  "pubkey \<Rightarrow> pubkey \<Rightarrow> pubkey \<Rightarrow> gov_store \<Rightarrow> gov_store result" where
  "process_refund_proposal_deposit proposal deposit payer st =
     and_then (get_proposal_data st proposal) (\<lambda>p.
     and_then (assert_can_refund_proposal_deposit p) (\<lambda>_.
     and_then (get_proposal_deposit_data_for_proposal_and_deposit_payer st deposit proposal payer) (\<lambda>_.
     Ok (dispose_account st deposit))))"

end
