(* ===== verification/VotingBooks.thy ===== *)
theory VotingBooks
  imports GovernanceProposals
begin

text \<open>
  The books of a vote, read off the accounts: which votes are counted in a proposal, which votes hold
  back a stake, which proposals are open for an owner and a governance. \<open>books_ok\<close> says that the numbers
  kept in the accounts are these, and the lemmas of this theory say what each kind of change to the
  accounts does to them: a change that does not concern the books, a new proposal, a vote that is cast,
  taken back or released, a proposal that is closed.
\<close>

section \<open>The accounts of each type\<close>

definition entry :: "(gov_account \<Rightarrow> 'a option) \<Rightarrow> gov_store \<Rightarrow> pubkey \<Rightarrow> 'a option" where
  "entry decode st k = (case st k of Some a \<Rightarrow> decode a | None \<Rightarrow> None)"

abbreviation "realms \<equiv> entry realm_of"
abbreviation "governances \<equiv> entry governance_of"
abbreviation "records \<equiv> entry token_owner_record_of"
abbreviation "proposals \<equiv> entry proposal_of"
abbreviation "votes \<equiv> entry vote_record_of"
abbreviation "transactions \<equiv> entry proposal_transaction_of"
abbreviation "configs \<equiv> entry realm_config_of"

lemma entry_Some:
  "realms st k = Some r \<longleftrightarrow> st k = Some (RealmAccount r)"
  "governances st k = Some g \<longleftrightarrow> st k = Some (GovernanceAccount g)"
  "records st k = Some t \<longleftrightarrow> st k = Some (TokenOwnerRecordAccount t)"
  "proposals st k = Some p \<longleftrightarrow> st k = Some (ProposalAccount p)"
  "votes st k = Some v \<longleftrightarrow> st k = Some (VoteRecordAccount v)"
  "transactions st k = Some pt \<longleftrightarrow> st k = Some (ProposalTransactionAccount pt)"
  "configs st k = Some c \<longleftrightarrow> st k = Some (RealmConfigAccount c)"
  by (auto simp: entry_def split: option.splits)

lemma entry_upd [simp]:
  "entry decode (st(k \<mapsto> a)) = (entry decode st)(k := decode a)"
  "entry decode (st(k := None)) = (entry decode st)(k := None)"
  by (auto simp: entry_def)

lemma entry_same [simp]: "st k = Some a \<Longrightarrow> entry decode st k = decode a"
  "st k = None \<Longrightarrow> entry decode st k = None"
  by (simp_all add: entry_def)

lemma finite_dom_entry: "finite (dom st) \<Longrightarrow> finite (dom (entry decode st))"
  by (rule finite_subset [of _ "dom st"]) (auto simp: entry_def split: option.splits)

section \<open>The books\<close>

definition vote_address :: "gov_env \<Rightarrow> pubkey \<Rightarrow> pubkey \<Rightarrow> pubkey" where
  "vote_address env proposal t = gov_address env (get_vote_record_address_seeds proposal t)"

definition record_address :: "gov_env \<Rightarrow> token_owner_record \<Rightarrow> pubkey" where
  "record_address env t = gov_address env (get_token_owner_record_address_seeds (tor_realm t)
     (tor_governing_token_mint t) (tor_governing_token_owner t))"

text \<open>Addresses derived from different proposals or token owner records are different.\<close>

definition vote_addresses_distinct :: "gov_env \<Rightarrow> bool" where
  "vote_addresses_distinct env \<longleftrightarrow>
     (\<forall>p t p' t'. vote_address env p t = vote_address env p' t' \<longrightarrow> p = p' \<and> t = t')"

definition votes_on :: "(pubkey \<Rightarrow> vote_record option) \<Rightarrow> pubkey \<Rightarrow> pubkey set" where
  "votes_on V proposal = {k. \<exists>v. V k = Some v \<and> vr_proposal v = proposal}"

text \<open>The weight that a vote gives to the option \<open>i\<close>, to the votes against and to the vetoes.\<close>

definition choice_weight :: "vote_choice \<Rightarrow> nat \<Rightarrow> nat" where
  "choice_weight c w = (case get_choice_weight c w of Ok x \<Rightarrow> x | _ \<Rightarrow> 0)"

definition option_part :: "nat \<Rightarrow> vote_record \<Rightarrow> nat" where
  "option_part i v = (case vr_vote v of
     Approve cs \<Rightarrow> if i < length cs then choice_weight (cs ! i) (voter_weight v) else 0 | _ \<Rightarrow> 0)"

definition deny_part :: "vote_record \<Rightarrow> nat" where
  "deny_part v = (case vr_vote v of Deny \<Rightarrow> voter_weight v | _ \<Rightarrow> 0)"

definition veto_part :: "vote_record \<Rightarrow> nat" where
  "veto_part v = (case vr_vote v of Veto \<Rightarrow> voter_weight v | _ \<Rightarrow> 0)"

definition total_of :: "(pubkey \<Rightarrow> vote_record option) \<Rightarrow> pubkey \<Rightarrow> (vote_record \<Rightarrow> nat) \<Rightarrow> nat" where
  "total_of V proposal f = (\<Sum>k \<in> votes_on V proposal. f (the (V k)))"

definition deny_weight :: "proposal \<Rightarrow> nat" where
  "deny_weight p = (case deny_vote_weight p of Some d \<Rightarrow> d | None \<Rightarrow> 0)"

definition tallied :: "(pubkey \<Rightarrow> vote_record option) \<Rightarrow> pubkey \<Rightarrow> proposal \<Rightarrow> bool" where
  "tallied V k p \<longleftrightarrow>
     (\<forall>i < length (pr_options p). vote_weight (pr_options p ! i) = total_of V k (option_part i))
     \<and> deny_weight p = total_of V k deny_part \<and> veto_vote_weight p = total_of V k veto_part"

text \<open>Votes that hold back a stake, and open proposals.\<close>

definition active_votes :: "gov_env \<Rightarrow> (pubkey \<Rightarrow> vote_record option) \<Rightarrow> pubkey \<Rightarrow> pubkey set" where
  "active_votes env V t = {k. \<exists>v. V k = Some v \<and> \<not> is_relinquished v
     \<and> k = vote_address env (vr_proposal v) t}"

text \<open>The phases of a proposal: 0 before the vote, 1 during it, 2 accepted or without effect, 3 rejected.\<close>

fun phase :: "proposal_state \<Rightarrow> nat" where
  "phase Draft = 0" | "phase SigningOff = 0" | "phase Voting = 1" | "phase ProposalSucceeded = 2"
| "phase Executing = 2" | "phase ExecutingWithErrors = 2" | "phase Completed = 2"
| "phase Cancelled = 3" | "phase ProposalDefeated = 3" | "phase Vetoed = 3"

definition open_proposal :: "proposal \<Rightarrow> bool" where
  "open_proposal p \<longleftrightarrow> phase (pr_state p) < 2"

definition open_proposals :: "(pubkey \<Rightarrow> proposal option) \<Rightarrow> (proposal \<Rightarrow> bool) \<Rightarrow> pubkey set" where
  "open_proposals P Q = {k. \<exists>p. P k = Some p \<and> open_proposal p \<and> Q p}"

text \<open>
  The population that casts a vote: the one the proposal is put to, or for a veto the other one. The
  council may have been removed from the realm since.
\<close>

definition votes_with :: "gov_realm \<Rightarrow> pubkey \<Rightarrow> pubkey \<Rightarrow> vote_kind \<Rightarrow> bool" where
  "votes_with r mint proposal_mint kind \<longleftrightarrow>
     (case kind of
        ElectorateKind \<Rightarrow> mint = proposal_mint
      | VetoKind \<Rightarrow>
          mint = community_mint r \<and> proposal_mint \<noteq> mint
            \<and> council_mint (rm_config r) \<in> {None, Some proposal_mint}
          \<or> proposal_mint = community_mint r \<and> mint \<noteq> proposal_mint
            \<and> council_mint (rm_config r) \<in> {None, Some mint})"

text \<open>A vote belongs to the token owner record whose address its own address is derived from.\<close>

definition cast_by ::
  "gov_env \<Rightarrow> gov_store \<Rightarrow> pubkey \<Rightarrow> vote_record \<Rightarrow> pubkey \<Rightarrow> token_owner_record \<Rightarrow> bool" where
  "cast_by env st k v kt t \<longleftrightarrow>
     k = vote_address env (vr_proposal v) kt \<and> records st kt = Some t
     \<and> tor_governing_token_owner t = vr_governing_token_owner v
     \<and> (\<exists>p g r. proposals st (vr_proposal v) = Some p \<and> governances st (pr_governance p) = Some g
          \<and> realms st (gv_realm g) = Some r \<and> tor_realm t = gv_realm g
          \<and> votes_with r (tor_governing_token_mint t) (pr_governing_token_mint p)
              (get_vote_kind (vr_vote v)))"

definition accounts_ok :: "gov_env \<Rightarrow> gov_store \<Rightarrow> bool" where
  "accounts_ok env st \<longleftrightarrow> finite (dom st)
     \<and> (\<forall>k t. records st k = Some t \<longrightarrow> k = record_address env t)
     \<and> (\<forall>k r. realms st k = Some r \<longrightarrow> council_mint (rm_config r) \<noteq> Some (community_mint r))
     \<and> (\<forall>k p. proposals st k = Some p \<longrightarrow>
          (\<exists>g r t. governances st (pr_governance p) = Some g \<and> realms st (gv_realm g) = Some r
             \<and> records st (pr_token_owner_record p) = Some t))
     \<and> (\<forall>k v. votes st k = Some v \<longrightarrow> (\<exists>kt t. cast_by env st k v kt t))"

definition votes_ok ::
  "(pubkey \<Rightarrow> proposal option) \<Rightarrow> (pubkey \<Rightarrow> vote_record option) \<Rightarrow> bool" where
  "votes_ok P V \<longleftrightarrow> (\<forall>k p. P k = Some p \<longrightarrow> tallied V k p
     \<and> (phase (pr_state p) = 0 \<longrightarrow> votes_on V k = {})
     \<and> (phase (pr_state p) = 1 \<longrightarrow> (\<forall>kv v. V kv = Some v \<and> vr_proposal v = k \<longrightarrow> \<not> is_relinquished v)))"

definition records_ok ::
  "gov_env \<Rightarrow> (pubkey \<Rightarrow> token_owner_record option) \<Rightarrow> (pubkey \<Rightarrow> proposal option)
   \<Rightarrow> (pubkey \<Rightarrow> vote_record option) \<Rightarrow> bool" where
  "records_ok env T P V \<longleftrightarrow> (\<forall>k t. T k = Some t \<longrightarrow>
     unrelinquished_votes_count t = card (active_votes env V k)
     \<and> outstanding_proposal_count t = card (open_proposals P (\<lambda>p. pr_token_owner_record p = k)))"

definition governances_ok ::
  "(pubkey \<Rightarrow> governance option) \<Rightarrow> (pubkey \<Rightarrow> proposal option) \<Rightarrow> bool" where
  "governances_ok G P \<longleftrightarrow> (\<forall>k g. G k = Some g \<longrightarrow>
     active_proposal_count g = card (open_proposals P (\<lambda>p. pr_governance p = k)))"

definition books_ok :: "gov_env \<Rightarrow> gov_store \<Rightarrow> bool" where
  "books_ok env st \<longleftrightarrow> accounts_ok env st \<and> votes_ok (proposals st) (votes st)
     \<and> records_ok env (records st) (proposals st) (votes st) \<and> governances_ok (governances st) (proposals st)"

section \<open>Sets and sums under a change at one address\<close>

lemma finite_votes_on: "finite (dom V) \<Longrightarrow> finite (votes_on V k)"
  by (rule finite_subset [of _ "dom V"]) (auto simp: votes_on_def)

lemma finite_active_votes: "finite (dom V) \<Longrightarrow> finite (active_votes env V k)"
  by (rule finite_subset [of _ "dom V"]) (auto simp: active_votes_def)

lemma finite_open_proposals: "finite (dom P) \<Longrightarrow> finite (open_proposals P Q)"
  by (rule finite_subset [of _ "dom P"]) (auto simp: open_proposals_def)

lemma votes_on_upd:
  "votes_on (V(k \<mapsto> v)) p = (if vr_proposal v = p then insert k (votes_on V p) else votes_on V p - {k})"
  "votes_on (V(k := None)) p = votes_on V p - {k}"
  by (auto simp: votes_on_def)

lemma active_votes_upd:
  "active_votes env (V(k \<mapsto> v)) t
     = (if \<not> is_relinquished v \<and> k = vote_address env (vr_proposal v) t
        then insert k (active_votes env V t) else active_votes env V t - {k})"
  "active_votes env (V(k := None)) t = active_votes env V t - {k}"
  by (auto simp: active_votes_def)

lemma open_proposals_upd:
  "open_proposals (P(k \<mapsto> p)) Q
     = (if open_proposal p \<and> Q p then insert k (open_proposals P Q) else open_proposals P Q - {k})"
  by (auto simp: open_proposals_def)

lemma in_votes_on [simp]: "k \<in> votes_on V p \<longleftrightarrow> (\<exists>v. V k = Some v \<and> vr_proposal v = p)"
  by (simp add: votes_on_def)

lemma in_active_votes [simp]:
  "k \<in> active_votes env V t \<longleftrightarrow>
     (\<exists>v. V k = Some v \<and> \<not> is_relinquished v \<and> k = vote_address env (vr_proposal v) t)"
  by (simp add: active_votes_def)

lemma in_open_proposals [simp]:
  "k \<in> open_proposals P Q \<longleftrightarrow> (\<exists>p. P k = Some p \<and> open_proposal p \<and> Q p)"
  by (simp add: open_proposals_def)

lemma total_of_cong:
  "(\<And>k. k \<in> votes_on V p \<Longrightarrow> f (the (V k)) = g (the (V k))) \<Longrightarrow> total_of V p f = total_of V p g"
  unfolding total_of_def by (rule sum.cong) simp_all

lemma total_of_fresh:
  assumes "finite (dom V)" "V k = None"
  shows "total_of (V(k \<mapsto> v)) p f = total_of V p f + (if vr_proposal v = p then f v else 0)"
proof -
  have "k \<notin> votes_on V p" using assms(2) by simp
  moreover have "(\<Sum>x \<in> votes_on V p. f (the ((V(k \<mapsto> v)) x))) = (\<Sum>x \<in> votes_on V p. f (the (V x)))"
    using calculation by (intro sum.cong) auto
  ultimately show ?thesis
    using finite_votes_on [OF assms(1), of p] by (auto simp: total_of_def votes_on_upd)
qed

lemma total_of_gone:
  assumes "finite (dom V)" "V k = Some v"
  shows "total_of V p f = total_of (V(k := None)) p f + (if vr_proposal v = p then f v else 0)"
proof -
  have "finite (dom (V(k := None)))" using assms(1) by simp
  from total_of_fresh [OF this, of k v p f] assms(2) show ?thesis by (simp add: fun_upd_idem)
qed

lemma total_of_same:
  assumes "finite (dom V)" "V k = Some v" "vr_proposal v' = vr_proposal v" "f v' = f v"
  shows "total_of (V(k \<mapsto> v')) p f = total_of V p f"
proof -
  have "finite (dom (V(k := None)))" using assms(1) by simp
  from total_of_fresh [OF this, of k v' p f] total_of_gone [OF assms(1,2), of p f] assms(3,4)
  show ?thesis by simp
qed

section \<open>Changes that do not concern the books\<close>

definition ballot ::
  "proposal \<Rightarrow> pubkey \<times> pubkey \<times> pubkey \<times> nat list \<times> nat option \<times> nat" where
  "ballot p = (pr_governance p, pr_governing_token_mint p, pr_token_owner_record p,
     map vote_weight (pr_options p), deny_vote_weight p, veto_vote_weight p)"

definition realm_kept :: "gov_realm option \<Rightarrow> gov_realm option \<Rightarrow> bool" where
  "realm_kept old new = (case (old, new) of
     (None, None) \<Rightarrow> True
   | (None, Some r) \<Rightarrow> council_mint (rm_config r) \<noteq> Some (community_mint r)
   | (Some r, None) \<Rightarrow> False
   | (Some r, Some r') \<Rightarrow> community_mint r' = community_mint r
       \<and> council_mint (rm_config r') \<in> {None, council_mint (rm_config r)})"

definition governance_kept :: "governance option \<Rightarrow> governance option \<Rightarrow> bool" where
  "governance_kept old new = (case (old, new) of
     (None, None) \<Rightarrow> True
   | (None, Some g) \<Rightarrow> active_proposal_count g = 0
   | (Some g, None) \<Rightarrow> False
   | (Some g, Some g') \<Rightarrow> gv_realm g' = gv_realm g \<and> active_proposal_count g' = active_proposal_count g)"

definition same_holder :: "token_owner_record \<Rightarrow> token_owner_record \<Rightarrow> bool" where
  "same_holder t t' \<longleftrightarrow> tor_realm t' = tor_realm t \<and> tor_governing_token_mint t' = tor_governing_token_mint t
     \<and> tor_governing_token_owner t' = tor_governing_token_owner t"

definition record_kept ::
  "gov_env \<Rightarrow> pubkey \<Rightarrow> token_owner_record option \<Rightarrow> token_owner_record option \<Rightarrow> bool" where
  "record_kept env k old new = (case (old, new) of
     (None, None) \<Rightarrow> True
   | (None, Some t) \<Rightarrow> k = record_address env t
       \<and> unrelinquished_votes_count t = 0 \<and> outstanding_proposal_count t = 0
   | (Some t, None) \<Rightarrow> False
   | (Some t, Some t') \<Rightarrow> same_holder t t' \<and> unrelinquished_votes_count t' = unrelinquished_votes_count t
       \<and> outstanding_proposal_count t' = outstanding_proposal_count t)"

text \<open>
  A proposal moves forward: it never returns to the draft, and once decided its votes and results stay
  as they are, those that were rejected altogether.
\<close>

definition results :: "proposal \<Rightarrow> option_vote_result list" where
  "results p = map vote_result (pr_options p)"

definition forward :: "proposal \<Rightarrow> proposal \<Rightarrow> bool" where
  "forward p p' \<longleftrightarrow> pr_governance p' = pr_governance p
     \<and> pr_governing_token_mint p' = pr_governing_token_mint p \<and> pr_token_owner_record p' = pr_token_owner_record p
     \<and> phase (pr_state p) \<le> phase (pr_state p') \<and> (pr_state p \<noteq> Draft \<longrightarrow> pr_state p' \<noteq> Draft)
     \<and> (2 \<le> phase (pr_state p) \<longrightarrow> phase (pr_state p') = phase (pr_state p) \<and> ballot p' = ballot p \<and> results p' = results p)
     \<and> (phase (pr_state p) = 3 \<longrightarrow> pr_state p' = pr_state p)"

definition proposal_kept :: "proposal option \<Rightarrow> proposal option \<Rightarrow> bool" where
  "proposal_kept old new = (case (old, new) of
     (None, None) \<Rightarrow> True
   | (None, Some p) \<Rightarrow> False
   | (Some p, None) \<Rightarrow> False
   | (Some p, Some p') \<Rightarrow> ballot p' = ballot p \<and> forward p p'
       \<and> (phase (pr_state p') = phase (pr_state p) \<or> phase (pr_state p) = 0 \<and> phase (pr_state p') = 1))"

definition quiet :: "gov_env \<Rightarrow> gov_store \<Rightarrow> gov_store \<Rightarrow> bool" where
  "quiet env st st' \<longleftrightarrow> (finite (dom st) \<longrightarrow> finite (dom st')) \<and> votes st' = votes st
     \<and> (\<forall>k. realm_kept (realms st k) (realms st' k) \<and> governance_kept (governances st k) (governances st' k)
          \<and> record_kept env k (records st k) (records st' k)
          \<and> proposal_kept (proposals st k) (proposals st' k))"

lemmas kept_defs = realm_kept_def governance_kept_def record_kept_def proposal_kept_def same_holder_def

lemma kept_refl [simp]:
  "realm_kept r r" "governance_kept g g" "record_kept env k t t" "proposal_kept pp pp"
  by (auto simp: kept_defs forward_def split: option.splits)

lemma kept_Some:
  "realm_kept (Some r) r' \<Longrightarrow> \<exists>x. r' = Some x \<and> community_mint x = community_mint r
     \<and> council_mint (rm_config x) \<in> {None, council_mint (rm_config r)}"
  "governance_kept (Some g) g' \<Longrightarrow> \<exists>x. g' = Some x \<and> gv_realm x = gv_realm g"
  "record_kept env k (Some t) t' \<Longrightarrow> \<exists>x. t' = Some x \<and> same_holder t x"
  "proposal_kept (Some p) p' \<Longrightarrow> \<exists>x. p' = Some x \<and> ballot x = ballot p"
  "proposal_kept old (Some x) \<Longrightarrow> \<exists>y. old = Some y \<and> ballot y = ballot x
     \<and> (phase (pr_state x) = phase (pr_state y) \<or> phase (pr_state y) = 0 \<and> phase (pr_state x) = 1)"
  by (auto simp: kept_defs split: option.splits)

lemma ballot_tallied: "ballot p' = ballot p \<Longrightarrow> tallied V k p' \<longleftrightarrow> tallied V k p"
proof -
  assume b: "ballot p' = ballot p"
  then have "map vote_weight (pr_options p') = map vote_weight (pr_options p)"
    "deny_weight p' = deny_weight p" "veto_vote_weight p' = veto_vote_weight p"
    by (simp_all add: ballot_def deny_weight_def)
  moreover from this(1) have "length (pr_options p') = length (pr_options p)"
    by (metis length_map)
  ultimately show ?thesis unfolding tallied_def by (metis nth_map)
qed

lemma ballot_fields:
  "ballot p' = ballot p \<Longrightarrow> pr_governance p' = pr_governance p
     \<and> pr_governing_token_mint p' = pr_governing_token_mint p \<and> pr_token_owner_record p' = pr_token_owner_record p"
  by (simp add: ballot_def)

lemma votes_with_kept:
  "votes_with r m pm kind \<Longrightarrow> community_mint r' = community_mint r
    \<Longrightarrow> council_mint (rm_config r') \<in> {None, council_mint (rm_config r)} \<Longrightarrow> votes_with r' m pm kind"
  by (auto simp: votes_with_def split: vote_kind.splits)

text \<open>What the accounts of a vote and of a proposal must still be for it to belong to them.\<close>

definition linked :: "gov_store \<Rightarrow> gov_store \<Rightarrow> bool" where
  "linked st st' \<longleftrightarrow>
     (\<forall>k r. realms st k = Some r \<longrightarrow> (\<exists>r'. realms st' k = Some r' \<and> community_mint r' = community_mint r
        \<and> council_mint (rm_config r') \<in> {None, council_mint (rm_config r)}))
     \<and> (\<forall>k g. governances st k = Some g \<longrightarrow> (\<exists>g'. governances st' k = Some g' \<and> gv_realm g' = gv_realm g))
     \<and> (\<forall>k t. records st k = Some t \<longrightarrow> (\<exists>t'. records st' k = Some t' \<and> same_holder t t'))
     \<and> (\<forall>k p. proposals st k = Some p \<longrightarrow> (\<exists>p'. proposals st' k = Some p' \<and> pr_governance p' = pr_governance p
          \<and> pr_governing_token_mint p' = pr_governing_token_mint p
          \<and> pr_token_owner_record p' = pr_token_owner_record p))"

lemma linkedD:
  assumes "linked st st'"
  shows "realms st k = Some r \<Longrightarrow> \<exists>r'. realms st' k = Some r' \<and> community_mint r' = community_mint r
      \<and> council_mint (rm_config r') \<in> {None, council_mint (rm_config r)}"
    "governances st k = Some g \<Longrightarrow> \<exists>g'. governances st' k = Some g' \<and> gv_realm g' = gv_realm g"
    "records st k = Some t \<Longrightarrow> \<exists>t'. records st' k = Some t' \<and> same_holder t t'"
    "proposals st k = Some p \<Longrightarrow> \<exists>p'. proposals st' k = Some p' \<and> pr_governance p' = pr_governance p
       \<and> pr_governing_token_mint p' = pr_governing_token_mint p
       \<and> pr_token_owner_record p' = pr_token_owner_record p"
  using assms unfolding linked_def by blast+

lemma linked_cast_by:
  assumes "linked st st'" "cast_by env st k v kt t"
  shows "\<exists>t'. cast_by env st' k v kt t'"
proof -
  obtain p g r where c: "k = vote_address env (vr_proposal v) kt" "records st kt = Some t"
      "tor_governing_token_owner t = vr_governing_token_owner v"
      "proposals st (vr_proposal v) = Some p" "governances st (pr_governance p) = Some g"
      "realms st (gv_realm g) = Some r" "tor_realm t = gv_realm g"
      "votes_with r (tor_governing_token_mint t) (pr_governing_token_mint p) (get_vote_kind (vr_vote v))"
    using assms(2) unfolding cast_by_def by blast
  obtain t' where t': "records st' kt = Some t'" "same_holder t t'" using linkedD(3) [OF assms(1) c(2)] by blast
  obtain p' where p': "proposals st' (vr_proposal v) = Some p'" "pr_governance p' = pr_governance p"
      "pr_governing_token_mint p' = pr_governing_token_mint p" using linkedD(4) [OF assms(1) c(4)] by blast
  obtain g' where g': "governances st' (pr_governance p') = Some g'" "gv_realm g' = gv_realm g"
    using linkedD(2) [OF assms(1) c(5)] p'(2) by auto
  obtain r' where r': "realms st' (gv_realm g') = Some r'" "community_mint r' = community_mint r"
      "council_mint (rm_config r') \<in> {None, council_mint (rm_config r)}"
    using linkedD(1) [OF assms(1) c(6)] g'(2) by auto
  have "votes_with r' (tor_governing_token_mint t') (pr_governing_token_mint p') (get_vote_kind (vr_vote v))"
    using votes_with_kept [OF c(8) r'(2,3)] t'(2) p'(3) by (simp add: same_holder_def)
  then show ?thesis
    unfolding cast_by_def using c t' p' g' r' by (intro exI [of _ t']) (auto simp: same_holder_def)
qed

lemma linked_proposal:
  assumes "linked st st'" "proposals st k = Some p" "accounts_ok env st"
    and "pr_governance p' = pr_governance p" "pr_token_owner_record p' = pr_token_owner_record p"
  shows "\<exists>g r t. governances st' (pr_governance p') = Some g \<and> realms st' (gv_realm g) = Some r
    \<and> records st' (pr_token_owner_record p') = Some t"
proof -
  obtain g r t where "governances st (pr_governance p) = Some g" "realms st (gv_realm g) = Some r"
      "records st (pr_token_owner_record p) = Some t"
    using assms(2,3) unfolding accounts_ok_def by blast
  then show ?thesis using linkedD [OF assms(1)] assms(4,5) by metis
qed

lemma quietD:
  assumes "quiet env st st'"
  shows "votes st' = votes st" "finite (dom st) \<Longrightarrow> finite (dom st')"
    "realm_kept (realms st k) (realms st' k)" "governance_kept (governances st k) (governances st' k)"
    "record_kept env k (records st k) (records st' k)" "proposal_kept (proposals st k) (proposals st' k)"
  using assms unfolding quiet_def by blast+

lemma quiet_linked: "quiet env st st' \<Longrightarrow> linked st st'"
  unfolding quiet_def linked_def
  by (intro conjI allI impI) (metis kept_Some(1-4) ballot_fields)+

lemma accounts_okD:
  assumes "accounts_ok env st"
  shows "finite (dom st)" "records st k = Some t \<Longrightarrow> k = record_address env t"
    "realms st k = Some r \<Longrightarrow> council_mint (rm_config r) \<noteq> Some (community_mint r)"
    "proposals st k = Some p \<Longrightarrow> \<exists>g r t. governances st (pr_governance p) = Some g
       \<and> realms st (gv_realm g) = Some r \<and> records st (pr_token_owner_record p) = Some t"
    "votes st k = Some v \<Longrightarrow> \<exists>kt t. cast_by env st k v kt t"
  using assms unfolding accounts_ok_def by blast+

lemma quiet_proposals:
  assumes "quiet env st st'"
  shows "proposals st' k = Some p' \<Longrightarrow> \<exists>p. proposals st k = Some p \<and> ballot p = ballot p'
    \<and> (phase (pr_state p') = phase (pr_state p) \<or> phase (pr_state p) = 0 \<and> phase (pr_state p') = 1)"
  using kept_Some(5) [of "proposals st k" p'] quietD(6) [OF assms, of k] by auto

lemma quiet_open:
  assumes "quiet env st st'" and Q: "\<And>p p'. ballot p' = ballot p \<Longrightarrow> Q p' \<longleftrightarrow> Q p"
  shows "open_proposals (proposals st') Q = open_proposals (proposals st) Q"
proof -
  have "(\<exists>p'. proposals st' k = Some p' \<and> open_proposal p' \<and> Q p')
      \<longleftrightarrow> (\<exists>p. proposals st k = Some p \<and> open_proposal p \<and> Q p)" for k
  proof (cases "proposals st k")
    case None
    then show ?thesis using quiet_proposals [OF assms(1), of k] by auto
  next
    case (Some p)
    then obtain p' where p': "proposals st' k = Some p'" "ballot p' = ballot p"
      using kept_Some(4) [of p "proposals st' k"] quietD(6) [OF assms(1), of k] by auto
    moreover have "open_proposal p' \<longleftrightarrow> open_proposal p"
      using quiet_proposals [OF assms(1) p'(1)] Some by (auto simp: open_proposal_def)
    ultimately show ?thesis using Some Q [OF p'(2)] by auto
  qed
  then show ?thesis by (simp add: open_proposals_def)
qed

lemma same_holder_address: "same_holder t t' \<Longrightarrow> record_address env t' = record_address env t"
  by (simp add: same_holder_def record_address_def)

lemma quiet_accounts_ok:
  assumes "quiet env st st'" "accounts_ok env st"
  shows "accounts_ok env st'"
proof -
  note ok = accounts_okD [OF assms(2)] and l = quiet_linked [OF assms(1)]
  note kept = quietD(3,5) [OF assms(1)]
  have "finite (dom st')" using quietD(2) [OF assms(1)] ok(1) by blast
  moreover have "k = record_address env t'" if "records st' k = Some t'" for k t'
  proof (cases "records st k")
    case None
    then show ?thesis using kept(2) [of k] that by (simp add: record_kept_def)
  next
    case (Some t)
    then have "same_holder t t'" using kept(2) [of k] that by (simp add: record_kept_def)
    then show ?thesis using ok(2) [OF Some] by (simp add: same_holder_address)
  qed
  moreover have "council_mint (rm_config r') \<noteq> Some (community_mint r')" if "realms st' k = Some r'" for k r'
    using kept(1) [of k] that ok(3) [of k] by (cases "realms st k") (auto simp: realm_kept_def)
  moreover have "\<exists>g r t. governances st' (pr_governance p') = Some g \<and> realms st' (gv_realm g) = Some r
      \<and> records st' (pr_token_owner_record p') = Some t" if p': "proposals st' k = Some p'" for k p'
  proof -
    obtain p where p: "proposals st k = Some p" "ballot p' = ballot p"
      using quiet_proposals [OF assms(1) p'] by auto
    show ?thesis by (rule linked_proposal [OF l p(1) assms(2)]) (use ballot_fields [OF p(2)] in simp_all)
  qed
  moreover have "\<exists>kt t. cast_by env st' k v kt t" if v: "votes st' k = Some v" for k v
  proof -
    have "votes st k = Some v" using v quietD(1) [OF assms(1)] by simp
    then obtain kt t where "cast_by env st k v kt t" using ok(5) by blast
    then show ?thesis using linked_cast_by [OF l] by blast
  qed
  ultimately show ?thesis unfolding accounts_ok_def by blast
qed

lemma no_votes_of_new_record:
  assumes "vote_addresses_distinct env" "accounts_ok env st" "records st k = None"
  shows "active_votes env (votes st) k = {}"
proof -
  have False if v: "votes st kv = Some v" "kv = vote_address env (vr_proposal v) k" for kv v
  proof -
    obtain kt t where "cast_by env st kv v kt t" using accounts_okD(5) [OF assms(2) v(1)] by blast
    then have kt: "kv = vote_address env (vr_proposal v) kt" "records st kt = Some t"
      by (simp_all add: cast_by_def)
    then have "k = kt" using assms(1) v(2) unfolding vote_addresses_distinct_def by metis
    with kt(2) assms(3) show False by simp
  qed
  then show ?thesis by (auto simp: active_votes_def)
qed

lemma quiet_books:
  assumes distinct: "vote_addresses_distinct env" and "quiet env st st'" and ok: "books_ok env st"
  shows "books_ok env st'"
proof -
  have acc: "accounts_ok env st" and v: "votes_ok (proposals st) (votes st)"
    and r: "records_ok env (records st) (proposals st) (votes st)"
    and g: "governances_ok (governances st) (proposals st)"
    using ok by (simp_all add: books_ok_def)
  note V = quietD(1) [OF assms(2)]
  have owner: "open_proposals (proposals st') (\<lambda>p. pr_token_owner_record p = k)
      = open_proposals (proposals st) (\<lambda>p. pr_token_owner_record p = k)"
    and governance: "open_proposals (proposals st') (\<lambda>p. pr_governance p = k)
      = open_proposals (proposals st) (\<lambda>p. pr_governance p = k)" for k
    by (intro quiet_open [OF assms(2)]; simp add: ballot_def)+
  have "votes_ok (proposals st') (votes st)"
    unfolding votes_ok_def
  proof (intro allI impI)
    fix k p' assume "proposals st' k = Some p'"
    then obtain p where p: "proposals st k = Some p" "ballot p = ballot p'"
      "phase (pr_state p') = phase (pr_state p) \<or> phase (pr_state p) = 0 \<and> phase (pr_state p') = 1"
      using quiet_proposals [OF assms(2)] by blast
    then have "tallied (votes st) k p" "phase (pr_state p) = 0 \<longrightarrow> votes_on (votes st) k = {}"
      "phase (pr_state p) = 1 \<longrightarrow> (\<forall>kv v. votes st kv = Some v \<and> vr_proposal v = k \<longrightarrow> \<not> is_relinquished v)"
      using v unfolding votes_ok_def by blast+
    then show "tallied (votes st) k p' \<and> (phase (pr_state p') = 0 \<longrightarrow> votes_on (votes st) k = {})
      \<and> (phase (pr_state p') = 1 \<longrightarrow> (\<forall>kv v. votes st kv = Some v \<and> vr_proposal v = k \<longrightarrow> \<not> is_relinquished v))"
      using p ballot_tallied [OF p(2)] by (auto simp: votes_on_def)
  qed
  moreover have "records_ok env (records st') (proposals st') (votes st)"
    unfolding records_ok_def
  proof (intro allI impI)
    fix k t' assume t': "records st' k = Some t'"
    have kept: "record_kept env k (records st k) (Some t')" using quietD(5) [OF assms(2), of k] t' by simp
    show "unrelinquished_votes_count t' = card (active_votes env (votes st) k)
      \<and> outstanding_proposal_count t' = card (open_proposals (proposals st') (\<lambda>p. pr_token_owner_record p = k))"
    proof (cases "records st k")
      case None
      then have "open_proposals (proposals st) (\<lambda>p. pr_token_owner_record p = k) = {}"
        using accounts_okD(4) [OF acc] by (fastforce simp: open_proposals_def)
      then show ?thesis
        using None kept owner no_votes_of_new_record [OF distinct acc None] by (simp add: record_kept_def)
    next
      case (Some t)
      then show ?thesis using kept owner r by (simp add: record_kept_def records_ok_def)
    qed
  qed
  moreover have "governances_ok (governances st') (proposals st')"
    unfolding governances_ok_def
  proof (intro allI impI)
    fix k g' assume g': "governances st' k = Some g'"
    have kept: "governance_kept (governances st k) (Some g')" using quietD(4) [OF assms(2), of k] g' by simp
    show "active_proposal_count g' = card (open_proposals (proposals st') (\<lambda>p. pr_governance p = k))"
    proof (cases "governances st k")
      case None
      then have "open_proposals (proposals st) (\<lambda>p. pr_governance p = k) = {}"
        using accounts_okD(4) [OF acc] by (fastforce simp: open_proposals_def)
      then show ?thesis using None kept governance by (simp add: governance_kept_def)
    next
      case (Some x)
      then show ?thesis using kept governance g by (simp add: governance_kept_def governances_ok_def)
    qed
  qed
  ultimately show ?thesis
    unfolding books_ok_def using quiet_accounts_ok [OF assms(2) acc] V by simp
qed

section \<open>Changes of the books\<close>

text \<open>Whatever changes, the accounts stay linked if the old ones do and the new ones are.\<close>

lemma linked_accounts_ok:
  assumes ok: "accounts_ok env st" and l: "linked st st'" and "finite (dom st')" and "realms st' = realms st"
    and t: "\<And>k t'. records st' k = Some t' \<Longrightarrow> \<exists>t. records st k = Some t \<and> same_holder t t'"
    and p: "\<And>k p'. proposals st' k = Some p' \<Longrightarrow> proposals st k = None \<Longrightarrow>
      \<exists>g r t. governances st' (pr_governance p') = Some g \<and> realms st' (gv_realm g) = Some r
        \<and> records st' (pr_token_owner_record p') = Some t"
    and v: "\<And>k v'. votes st' k = Some v' \<Longrightarrow>
      (\<exists>v. votes st k = Some v \<and> vr_proposal v' = vr_proposal v \<and> vr_vote v' = vr_vote v
         \<and> vr_governing_token_owner v' = vr_governing_token_owner v) \<or> (\<exists>kt t. cast_by env st' k v' kt t)"
  shows "accounts_ok env st'"
proof -
  have "k = record_address env t'" if t': "records st' k = Some t'" for k t'
  proof -
    obtain t0 where t0: "records st k = Some t0" "same_holder t0 t'" using t [OF t'] by blast
    then show ?thesis using accounts_okD(2) [OF ok t0(1)] by (simp add: same_holder_address)
  qed
  moreover have "\<exists>g r t. governances st' (pr_governance p') = Some g \<and> realms st' (gv_realm g) = Some r
      \<and> records st' (pr_token_owner_record p') = Some t" if p': "proposals st' k = Some p'" for k p'
  proof (cases "proposals st k")
    case None
    then show ?thesis using p [OF p'] by blast
  next
    case (Some p0)
    then have "pr_governance p' = pr_governance p0" "pr_token_owner_record p' = pr_token_owner_record p0"
      using linkedD(4) [OF l Some] p' by auto
    then show ?thesis by (rule linked_proposal [OF l Some ok])
  qed
  moreover have "\<exists>kt t. cast_by env st' k v' kt t" if v': "votes st' k = Some v'" for k v'
    using v [OF v']
  proof
    assume "\<exists>v. votes st k = Some v \<and> vr_proposal v' = vr_proposal v \<and> vr_vote v' = vr_vote v
         \<and> vr_governing_token_owner v' = vr_governing_token_owner v"
    then obtain v0 where v0: "votes st k = Some v0" "vr_proposal v' = vr_proposal v0" "vr_vote v' = vr_vote v0"
        "vr_governing_token_owner v' = vr_governing_token_owner v0" by blast
    obtain kt t where "cast_by env st k v0 kt t" using accounts_okD(5) [OF ok v0(1)] by blast
    then obtain t' where "cast_by env st' k v0 kt t'" using linked_cast_by [OF l] by blast
    then have "cast_by env st' k v' kt t'" using v0 by (simp add: cast_by_def)
    then show ?thesis by blast
  qed
  ultimately show ?thesis
    unfolding accounts_ok_def using assms(3,4) accounts_okD(3) [OF ok] by metis
qed

lemma same_holder_refl [simp]: "same_holder t t"
  by (simp add: same_holder_def)

lemma finite_dom_entries:
  assumes "accounts_ok env st"
  shows "finite (dom (votes st))" "finite (dom (proposals st))"
  using assms finite_dom_entry by (auto simp: accounts_ok_def)

text \<open>The accounts that play no part in it, and the stake of a record.\<close>

definition same_rest :: "gov_store \<Rightarrow> gov_store \<Rightarrow> bool" where
  "same_rest st st' \<longleftrightarrow> transactions st' = transactions st \<and> configs st' = configs st \<and> realms st' = realms st
     \<and> (finite (dom st) \<longrightarrow> finite (dom st'))"

definition same_stake :: "token_owner_record \<Rightarrow> token_owner_record \<Rightarrow> bool" where
  "same_stake t t' \<longleftrightarrow> same_holder t t' \<and> governing_token_deposit_amount t' = governing_token_deposit_amount t"

lemma same_stake_holder: "same_stake t t' \<Longrightarrow> same_holder t t'"
  by (simp add: same_stake_def)

text \<open>An open proposal is closed: it is no longer outstanding for its owner nor active for its governance.\<close>

definition closes ::
  "gov_store \<Rightarrow> pubkey \<Rightarrow> proposal \<Rightarrow> proposal \<Rightarrow> gov_store \<Rightarrow> bool" where
  "closes st k p p' st' \<longleftrightarrow> proposals st k = Some p \<and> open_proposal p \<and> ballot p' = ballot p
     \<and> 2 \<le> phase (pr_state p') \<and> same_rest st st' \<and> votes st' = votes st
     \<and> proposals st' = (proposals st)(k \<mapsto> p')
     \<and> (\<exists>t t'. records st (pr_token_owner_record p) = Some t \<and> same_stake t t'
          \<and> unrelinquished_votes_count t' = unrelinquished_votes_count t
          \<and> outstanding_proposal_count t' = outstanding_proposal_count t - 1
          \<and> records st' = (records st)(pr_token_owner_record p \<mapsto> t'))
     \<and> (\<exists>g g'. governances st (pr_governance p) = Some g \<and> gv_realm g' = gv_realm g
          \<and> active_proposal_count g' = active_proposal_count g - 1
          \<and> governances st' = (governances st)(pr_governance p \<mapsto> g'))"

lemma card_closed:
  assumes "finite (dom P)" "P k = Some p" "open_proposal p" "\<not> open_proposal p'" "Q p' = Q p"
  shows "card (open_proposals (P(k \<mapsto> p')) Q) = card (open_proposals P Q) - (if Q p then 1 else 0)"
  using assms finite_open_proposals [OF assms(1), of Q] by (auto simp: open_proposals_upd)

lemma closes_books:
  assumes ok: "books_ok env st" and c: "closes st k p p' st'"
  shows "books_ok env st'"
proof -
  have acc: "accounts_ok env st" and v: "votes_ok (proposals st) (votes st)"
    and r: "records_ok env (records st) (proposals st) (votes st)"
    and g: "governances_ok (governances st) (proposals st)"
    using ok by (simp_all add: books_ok_def)
  obtain t t' g0 g' where p: "proposals st k = Some p" "open_proposal p" "ballot p' = ballot p"
      "2 \<le> phase (pr_state p')" "proposals st' = (proposals st)(k \<mapsto> p')"
    and same: "realms st' = realms st" "votes st' = votes st" "finite (dom st')"
    and t: "records st (pr_token_owner_record p) = Some t" "same_holder t t'"
      "unrelinquished_votes_count t' = unrelinquished_votes_count t"
      "outstanding_proposal_count t' = outstanding_proposal_count t - 1"
      "records st' = (records st)(pr_token_owner_record p \<mapsto> t')"
    and g': "governances st (pr_governance p) = Some g0" "gv_realm g' = gv_realm g0"
      "active_proposal_count g' = active_proposal_count g0 - 1"
      "governances st' = (governances st)(pr_governance p \<mapsto> g')"
    using c accounts_okD(1) [OF acc] same_stake_holder unfolding closes_def same_rest_def by blast
  note ids = ballot_fields [OF p(3)]
  have l: "linked st st'"
    using same p t g' ids unfolding linked_def by auto
  have "accounts_ok env st'"
    by (rule linked_accounts_ok [OF acc l same(3,1)]) (use p t same(2) in \<open>auto split: if_splits\<close>)
  moreover have "votes_ok (proposals st') (votes st')"
    using v p ballot_tallied [OF p(3)] unfolding votes_ok_def same(2) p(5) by auto
  moreover note P = finite_dom_entries(2) [OF acc]
  have "\<not> open_proposal p'" using p(4) by (simp add: open_proposal_def)
  note card = card_closed [OF P p(1,2) this]
  have "records_ok env (records st') (proposals st') (votes st')"
    unfolding records_ok_def same(2) p(5) t(5)
  proof (intro allI impI)
    fix k' x assume "((records st)(pr_token_owner_record p \<mapsto> t')) k' = Some x"
    then show "unrelinquished_votes_count x = card (active_votes env (votes st) k')
      \<and> outstanding_proposal_count x
        = card (open_proposals ((proposals st)(k \<mapsto> p')) (\<lambda>p. pr_token_owner_record p = k'))"
      using r t card [of "\<lambda>p. pr_token_owner_record p = k'"] ids by (auto simp: records_ok_def split: if_splits)
  qed
  moreover have "governances_ok (governances st') (proposals st')"
    unfolding governances_ok_def p(5) g'(4)
  proof (intro allI impI)
    fix k' x assume "((governances st)(pr_governance p \<mapsto> g')) k' = Some x"
    then show "active_proposal_count x = card (open_proposals ((proposals st)(k \<mapsto> p')) (\<lambda>p. pr_governance p = k'))"
      using g g' card [of "\<lambda>p. pr_governance p = k'"] ids by (auto simp: governances_ok_def split: if_splits)
  qed
  ultimately show ?thesis by (simp add: books_ok_def)
qed

text \<open>What one vote adds to the weights of a proposal; nothing else changes.\<close>

definition adds :: "vote_record \<Rightarrow> proposal \<Rightarrow> proposal \<Rightarrow> bool" where
  "adds v p p' \<longleftrightarrow> length (pr_options p') = length (pr_options p)
     \<and> (\<forall>i < length (pr_options p). vote_weight (pr_options p' ! i) = vote_weight (pr_options p ! i) + option_part i v)
     \<and> deny_weight p' = deny_weight p + deny_part v \<and> veto_vote_weight p' = veto_vote_weight p + veto_part v
     \<and> pr_governance p' = pr_governance p \<and> pr_governing_token_mint p' = pr_governing_token_mint p
     \<and> pr_token_owner_record p' = pr_token_owner_record p \<and> pr_state p' = pr_state p"

lemma tallied_added:
  assumes "\<And>f. total_of V' k f = total_of V k f + f v" "adds v p p'"
  shows "tallied V k p \<longleftrightarrow> tallied V' k p'"
  using assms unfolding tallied_def adds_def by auto

lemma tallied_other:
  assumes "\<And>f. total_of V' k f = total_of V k f"
  shows "tallied V k p \<longleftrightarrow> tallied V' k p"
  using assms unfolding tallied_def by auto

definition casts ::
  "gov_env \<Rightarrow> gov_store \<Rightarrow> pubkey \<Rightarrow> vote_record \<Rightarrow> pubkey \<Rightarrow> proposal \<Rightarrow> proposal \<Rightarrow> gov_store \<Rightarrow> bool" where
  "casts env st kv v kt p p' st' \<longleftrightarrow> proposals st (vr_proposal v) = Some p \<and> phase (pr_state p) = 1
     \<and> adds v p p' \<and> votes st kv = None \<and> kv = vote_address env (vr_proposal v) kt \<and> \<not> is_relinquished v
     \<and> same_rest st st' \<and> governances st' = governances st
     \<and> votes st' = (votes st)(kv \<mapsto> v) \<and> proposals st' = (proposals st)(vr_proposal v \<mapsto> p')
     \<and> (\<exists>t t'. records st kt = Some t \<and> same_stake t t'
          \<and> unrelinquished_votes_count t' = unrelinquished_votes_count t + 1
          \<and> outstanding_proposal_count t' = outstanding_proposal_count t
          \<and> records st' = (records st)(kt \<mapsto> t') \<and> cast_by env st' kv v kt t')"

text \<open>Opposite to it: the vote is taken back, or released after the vote.\<close>

definition retracts ::
  "gov_env \<Rightarrow> gov_store \<Rightarrow> pubkey \<Rightarrow> vote_record \<Rightarrow> pubkey \<Rightarrow> proposal \<Rightarrow> proposal \<Rightarrow> gov_store \<Rightarrow> bool" where
  "retracts env st kv v kt p p' st' \<longleftrightarrow> proposals st (vr_proposal v) = Some p \<and> phase (pr_state p) = 1
     \<and> adds v p' p \<and> votes st kv = Some v \<and> kv = vote_address env (vr_proposal v) kt \<and> \<not> is_relinquished v
     \<and> same_rest st st' \<and> governances st' = governances st
     \<and> votes st' = (votes st)(kv := None) \<and> proposals st' = (proposals st)(vr_proposal v \<mapsto> p')
     \<and> (\<exists>t t'. records st kt = Some t \<and> same_stake t t'
          \<and> unrelinquished_votes_count t' = unrelinquished_votes_count t - 1
          \<and> outstanding_proposal_count t' = outstanding_proposal_count t
          \<and> records st' = (records st)(kt \<mapsto> t'))"

definition releases ::
  "gov_env \<Rightarrow> gov_store \<Rightarrow> pubkey \<Rightarrow> vote_record \<Rightarrow> pubkey \<Rightarrow> gov_store \<Rightarrow> bool" where
  "releases env st kv v kt st' \<longleftrightarrow> votes st kv = Some v \<and> \<not> is_relinquished v
     \<and> (\<exists>p. proposals st (vr_proposal v) = Some p \<and> phase (pr_state p) \<noteq> 1)
     \<and> kv = vote_address env (vr_proposal v) kt
     \<and> same_rest st st' \<and> governances st' = governances st \<and> proposals st' = proposals st
     \<and> votes st' = (votes st)(kv \<mapsto> v\<lparr>is_relinquished := True\<rparr>)
     \<and> (\<exists>t t'. records st kt = Some t \<and> same_stake t t'
          \<and> unrelinquished_votes_count t' = unrelinquished_votes_count t - 1
          \<and> outstanding_proposal_count t' = outstanding_proposal_count t
          \<and> records st' = (records st)(kt \<mapsto> t'))"

lemma same_open_proposals:
  assumes "P k = Some p" "open_proposal p' = open_proposal p" "Q p' = Q p"
  shows "open_proposals (P(k \<mapsto> p')) Q = open_proposals P Q"
  using assms by (auto simp: open_proposals_def)

text \<open>The counts of token owner records when the votes of one of them change.\<close>

lemma records_ok_votes:
  assumes r: "records_ok env T P V" and "T kt = Some t"
    and kt: "unrelinquished_votes_count t' = card (active_votes env V' kt)"
      "outstanding_proposal_count t' = outstanding_proposal_count t"
    and others: "\<And>k. k \<noteq> kt \<Longrightarrow> active_votes env V' k = active_votes env V k"
    and opens: "\<And>k. open_proposals P' (\<lambda>p. pr_token_owner_record p = k)
      = open_proposals P (\<lambda>p. pr_token_owner_record p = k)"
  shows "records_ok env (T(kt \<mapsto> t')) P' V'"
  using assms by (auto simp: records_ok_def)

lemma active_votes_other:
  assumes "vote_addresses_distinct env" "kv = vote_address env (vr_proposal v) kt" "k \<noteq> kt"
    and "V kv = None \<or> V kv = Some v" "vr_proposal v' = vr_proposal v"
  shows "active_votes env (V(kv \<mapsto> v')) k = active_votes env V k"
    "active_votes env (V(kv := None)) k = active_votes env V k"
proof -
  have "kv \<noteq> vote_address env (vr_proposal v) k"
    using assms(1-3) unfolding vote_addresses_distinct_def by blast
  moreover from this have "kv \<notin> active_votes env V k" using assms(4) by auto
  ultimately show "active_votes env (V(kv \<mapsto> v')) k = active_votes env V k"
    "active_votes env (V(kv := None)) k = active_votes env V k"
    using assms(5) by (simp_all add: active_votes_upd)
qed

lemma casts_books:
  assumes distinct: "vote_addresses_distinct env" and ok: "books_ok env st" and c: "casts env st kv v kt p p' st'"
  shows "books_ok env st'"
proof -
  have acc: "accounts_ok env st" and vs: "votes_ok (proposals st) (votes st)"
    and r: "records_ok env (records st) (proposals st) (votes st)"
    and g: "governances_ok (governances st) (proposals st)"
    using ok by (simp_all add: books_ok_def)
  obtain t t' where p: "proposals st (vr_proposal v) = Some p" "phase (pr_state p) = 1" "adds v p p'"
      "proposals st' = (proposals st)(vr_proposal v \<mapsto> p')"
    and v: "votes st kv = None" "kv = vote_address env (vr_proposal v) kt" "\<not> is_relinquished v"
      "votes st' = (votes st)(kv \<mapsto> v)"
    and same: "realms st' = realms st" "governances st' = governances st" "finite (dom st')"
    and t: "records st kt = Some t" "same_holder t t'"
      "unrelinquished_votes_count t' = unrelinquished_votes_count t + 1"
      "outstanding_proposal_count t' = outstanding_proposal_count t"
      "records st' = (records st)(kt \<mapsto> t')" "cast_by env st' kv v kt t'"
    using c accounts_okD(1) [OF acc] same_stake_holder unfolding casts_def same_rest_def by blast
  have ids: "pr_governance p' = pr_governance p" "pr_governing_token_mint p' = pr_governing_token_mint p"
      "pr_token_owner_record p' = pr_token_owner_record p" "pr_state p' = pr_state p"
    using p(3) by (simp_all add: adds_def)
  note V = finite_dom_entries(1) [OF acc]
  have l: "linked st st'" using same p t ids unfolding linked_def by auto
  have "accounts_ok env st'"
    by (rule linked_accounts_ok [OF acc l same(3,1)]) (use p t v in \<open>auto split: if_splits\<close>)
  moreover have "votes_ok (proposals st') (votes st')"
    unfolding votes_ok_def p(4) v(4)
  proof (intro allI impI)
    fix k q assume q: "((proposals st)(vr_proposal v \<mapsto> p')) k = Some q"
    note total = total_of_fresh [OF V v(1), of v k]
    show "tallied ((votes st)(kv \<mapsto> v)) k q \<and> (phase (pr_state q) = 0 \<longrightarrow> votes_on ((votes st)(kv \<mapsto> v)) k = {})
      \<and> (phase (pr_state q) = 1 \<longrightarrow>
          (\<forall>kv' v'. ((votes st)(kv \<mapsto> v)) kv' = Some v' \<and> vr_proposal v' = k \<longrightarrow> \<not> is_relinquished v'))"
    proof (cases "k = vr_proposal v")
      case True
      have before: "tallied (votes st) k p"
          "\<And>kv' v'. votes st kv' = Some v' \<Longrightarrow> vr_proposal v' = k \<Longrightarrow> \<not> is_relinquished v'"
        using vs p(1,2) True unfolding votes_ok_def by blast+
      have "tallied (votes st) k p \<longleftrightarrow> tallied ((votes st)(kv \<mapsto> v)) k p'"
        by (rule tallied_added [OF _ p(3)]) (use total True in simp)
      then show ?thesis using True q p(2) ids(4) v(3) before by (auto split: if_splits)
    next
      case False
      then have "tallied (votes st) k q = tallied ((votes st)(kv \<mapsto> v)) k q"
        by (intro tallied_other) (use total in auto)
      then show ?thesis using False q vs v(1) by (auto simp: votes_ok_def votes_on_upd)
    qed
  qed
  moreover have "records_ok env (records st') (proposals st') (votes st')"
    unfolding p(4) v(4) t(5)
  proof (rule records_ok_votes [OF r t(1) _ t(4)])
    have "kv \<notin> active_votes env (votes st) kt" using v(1) by simp
    then show "unrelinquished_votes_count t' = card (active_votes env ((votes st)(kv \<mapsto> v)) kt)"
      using r t(1,3) v(2,3) finite_active_votes [OF V, of env kt] by (simp add: records_ok_def active_votes_upd)
    show "active_votes env ((votes st)(kv \<mapsto> v)) k = active_votes env (votes st) k" if "k \<noteq> kt" for k
      by (rule active_votes_other(1) [OF distinct v(2) that]) (simp_all add: v(1))
  qed (rule same_open_proposals [where P = "proposals st", OF p(1)], simp_all add: open_proposal_def ids)
  moreover have "governances_ok (governances st') (proposals st')"
    using g unfolding same(2) p(4) governances_ok_def
    by (simp add: same_open_proposals [where P = "proposals st", OF p(1)] open_proposal_def ids)
  ultimately show ?thesis by (simp add: books_ok_def)
qed

lemma retracts_books:
  assumes distinct: "vote_addresses_distinct env" and ok: "books_ok env st" and c: "retracts env st kv v kt p p' st'"
  shows "books_ok env st'"
proof -
  have acc: "accounts_ok env st" and vs: "votes_ok (proposals st) (votes st)"
    and r: "records_ok env (records st) (proposals st) (votes st)"
    and g: "governances_ok (governances st) (proposals st)"
    using ok by (simp_all add: books_ok_def)
  obtain t t' where p: "proposals st (vr_proposal v) = Some p" "phase (pr_state p) = 1" "adds v p' p"
      "proposals st' = (proposals st)(vr_proposal v \<mapsto> p')"
    and v: "votes st kv = Some v" "kv = vote_address env (vr_proposal v) kt" "\<not> is_relinquished v"
      "votes st' = (votes st)(kv := None)"
    and same: "realms st' = realms st" "governances st' = governances st" "finite (dom st')"
    and t: "records st kt = Some t" "same_holder t t'"
      "unrelinquished_votes_count t' = unrelinquished_votes_count t - 1"
      "outstanding_proposal_count t' = outstanding_proposal_count t"
      "records st' = (records st)(kt \<mapsto> t')"
    using c accounts_okD(1) [OF acc] same_stake_holder unfolding retracts_def same_rest_def by blast
  have ids: "pr_governance p' = pr_governance p" "pr_governing_token_mint p' = pr_governing_token_mint p"
      "pr_token_owner_record p' = pr_token_owner_record p" "pr_state p' = pr_state p"
    using p(3) by (simp_all add: adds_def)
  note V = finite_dom_entries(1) [OF acc]
  have l: "linked st st'" using same p t ids unfolding linked_def by auto
  have "accounts_ok env st'"
    by (rule linked_accounts_ok [OF acc l same(3,1)]) (use p t v(4) in \<open>auto split: if_splits\<close>)
  moreover have "votes_ok (proposals st') (votes st')"
    unfolding votes_ok_def p(4) v(4)
  proof (intro allI impI)
    fix k q assume q: "((proposals st)(vr_proposal v \<mapsto> p')) k = Some q"
    note total = total_of_gone [OF V v(1), of k]
    show "tallied ((votes st)(kv := None)) k q \<and> (phase (pr_state q) = 0 \<longrightarrow> votes_on ((votes st)(kv := None)) k = {})
      \<and> (phase (pr_state q) = 1 \<longrightarrow>
          (\<forall>kv' v'. ((votes st)(kv := None)) kv' = Some v' \<and> vr_proposal v' = k \<longrightarrow> \<not> is_relinquished v'))"
    proof (cases "k = vr_proposal v")
      case True
      have before: "tallied (votes st) k p"
          "\<And>kv' v'. votes st kv' = Some v' \<Longrightarrow> vr_proposal v' = k \<Longrightarrow> \<not> is_relinquished v'"
        using vs p(1,2) True unfolding votes_ok_def by blast+
      have "tallied ((votes st)(kv := None)) k p' \<longleftrightarrow> tallied (votes st) k p"
        by (rule tallied_added [OF _ p(3)]) (use total True in simp)
      then show ?thesis using True q p(2) ids(4) before by (auto split: if_splits)
    next
      case False
      then have "tallied ((votes st)(kv := None)) k q = tallied (votes st) k q"
        by (intro tallied_other) (use total in auto)
      then show ?thesis using False q vs by (auto simp: votes_ok_def votes_on_upd)
    qed
  qed
  moreover have "records_ok env (records st') (proposals st') (votes st')"
    unfolding p(4) v(4) t(5)
  proof (rule records_ok_votes [OF r t(1) _ t(4)])
    have "kv \<in> active_votes env (votes st) kt" using v(1-3) by simp
    then show "unrelinquished_votes_count t' = card (active_votes env ((votes st)(kv := None)) kt)"
      using r t(1,3) finite_active_votes [OF V, of env kt] by (simp add: records_ok_def active_votes_upd)
    show "active_votes env ((votes st)(kv := None)) k = active_votes env (votes st) k" if "k \<noteq> kt" for k
      by (rule active_votes_other(2) [OF distinct v(2) that]) (simp_all add: v(1))
  qed (rule same_open_proposals [where P = "proposals st", OF p(1)], simp_all add: open_proposal_def ids)
  moreover have "governances_ok (governances st') (proposals st')"
    using g unfolding same(2) p(4) governances_ok_def
    by (simp add: same_open_proposals [where P = "proposals st", OF p(1)] open_proposal_def ids)
  ultimately show ?thesis by (simp add: books_ok_def)
qed

lemma parts_released [simp]:
  "option_part i (v\<lparr>is_relinquished := x\<rparr>) = option_part i v" "deny_part (v\<lparr>is_relinquished := x\<rparr>) = deny_part v"
  "veto_part (v\<lparr>is_relinquished := x\<rparr>) = veto_part v"
  by (cases "vr_vote v"; simp add: option_part_def deny_part_def veto_part_def)+

lemma releases_books:
  assumes distinct: "vote_addresses_distinct env" and ok: "books_ok env st" and c: "releases env st kv v kt st'"
  shows "books_ok env st'"
proof -
  let ?v = "v\<lparr>is_relinquished := True\<rparr>"
  have acc: "accounts_ok env st" and vs: "votes_ok (proposals st) (votes st)"
    and r: "records_ok env (records st) (proposals st) (votes st)"
    and g: "governances_ok (governances st) (proposals st)"
    using ok by (simp_all add: books_ok_def)
  obtain p t t' where p: "proposals st (vr_proposal v) = Some p" "phase (pr_state p) \<noteq> 1"
    and v: "votes st kv = Some v" "kv = vote_address env (vr_proposal v) kt" "\<not> is_relinquished v"
      "votes st' = (votes st)(kv \<mapsto> ?v)"
    and same: "realms st' = realms st" "governances st' = governances st" "proposals st' = proposals st"
      "finite (dom st')"
    and t: "records st kt = Some t" "same_holder t t'"
      "unrelinquished_votes_count t' = unrelinquished_votes_count t - 1"
      "outstanding_proposal_count t' = outstanding_proposal_count t"
      "records st' = (records st)(kt \<mapsto> t')"
    using c accounts_okD(1) [OF acc] same_stake_holder unfolding releases_def same_rest_def by blast
  note V = finite_dom_entries(1) [OF acc]
  have l: "linked st st'" using same t unfolding linked_def by auto
  have "accounts_ok env st'"
    by (rule linked_accounts_ok [OF acc l same(4,1)]) (use same t v(1,4) in \<open>auto split: if_splits\<close>)
  moreover have "votes_ok (proposals st') (votes st')"
    unfolding votes_ok_def same(3) v(4)
  proof (intro allI impI)
    fix k q assume q: "proposals st k = Some q"
    note total = total_of_same [OF V v(1), of ?v _ k, simplified]
    have before: "tallied (votes st) k q" "phase (pr_state q) = 0 \<longrightarrow> votes_on (votes st) k = {}"
        "phase (pr_state q) = 1 \<longrightarrow> (\<forall>kv' v'. votes st kv' = Some v' \<and> vr_proposal v' = k \<longrightarrow> \<not> is_relinquished v')"
      using vs q unfolding votes_ok_def by blast+
    have "tallied ((votes st)(kv \<mapsto> ?v)) k q"
      using before(1) unfolding tallied_def by (simp add: total)
    moreover have "votes_on ((votes st)(kv \<mapsto> ?v)) k = votes_on (votes st) k" using v(1) by (auto simp: votes_on_def)
    ultimately show "tallied ((votes st)(kv \<mapsto> ?v)) k q
      \<and> (phase (pr_state q) = 0 \<longrightarrow> votes_on ((votes st)(kv \<mapsto> ?v)) k = {})
      \<and> (phase (pr_state q) = 1 \<longrightarrow>
          (\<forall>kv' v'. ((votes st)(kv \<mapsto> ?v)) kv' = Some v' \<and> vr_proposal v' = k \<longrightarrow> \<not> is_relinquished v'))"
      using before(2,3) p q by (auto split: if_splits)
  qed
  moreover have "records_ok env (records st') (proposals st') (votes st')"
    unfolding same(3) v(4) t(5)
  proof (rule records_ok_votes [OF r t(1) _ t(4)])
    have "kv \<in> active_votes env (votes st) kt" using v(1-3) by simp
    then show "unrelinquished_votes_count t' = card (active_votes env ((votes st)(kv \<mapsto> ?v)) kt)"
      using r t(1,3) finite_active_votes [OF V, of env kt] by (simp add: records_ok_def active_votes_upd)
    show "active_votes env ((votes st)(kv \<mapsto> ?v)) k = active_votes env (votes st) k" if "k \<noteq> kt" for k
      by (rule active_votes_other(1) [OF distinct v(2) that]) (simp_all add: v(1))
  qed simp
  moreover have "governances_ok (governances st') (proposals st')" using g same by simp
  ultimately show ?thesis by (simp add: books_ok_def)
qed

text \<open>A new proposal is outstanding for its owner and active for its governance.\<close>

definition opens :: "gov_store \<Rightarrow> pubkey \<Rightarrow> proposal \<Rightarrow> gov_store \<Rightarrow> bool" where
  "opens st k p st' \<longleftrightarrow> proposals st k = None \<and> pr_state p = Draft \<and> deny_weight p = 0 \<and> veto_vote_weight p = 0
     \<and> (\<forall>i < length (pr_options p). vote_weight (pr_options p ! i) = 0)
     \<and> same_rest st st' \<and> votes st' = votes st
     \<and> proposals st' = (proposals st)(k \<mapsto> p)
     \<and> (\<exists>t t'. records st (pr_token_owner_record p) = Some t \<and> same_stake t t'
          \<and> unrelinquished_votes_count t' = unrelinquished_votes_count t
          \<and> outstanding_proposal_count t' = outstanding_proposal_count t + 1
          \<and> records st' = (records st)(pr_token_owner_record p \<mapsto> t'))
     \<and> (\<exists>g g' r. governances st (pr_governance p) = Some g \<and> gv_realm g' = gv_realm g
          \<and> realms st (gv_realm g) = Some r \<and> active_proposal_count g' = active_proposal_count g + 1
          \<and> governances st' = (governances st)(pr_governance p \<mapsto> g'))"

lemma card_opened:
  assumes "finite (dom P)" "P k = None" "open_proposal p"
  shows "card (open_proposals (P(k \<mapsto> p)) Q) = card (open_proposals P Q) + (if Q p then 1 else 0)"
  using assms finite_open_proposals [OF assms(1), of Q] by (auto simp: open_proposals_upd card_insert_if)

lemma opens_books:
  assumes ok: "books_ok env st" and c: "opens st k p st'"
  shows "books_ok env st'"
proof -
  have acc: "accounts_ok env st" and vs: "votes_ok (proposals st) (votes st)"
    and rs: "records_ok env (records st) (proposals st) (votes st)"
    and gs: "governances_ok (governances st) (proposals st)"
    using ok by (simp_all add: books_ok_def)
  obtain t t' g g' r where p: "proposals st k = None" "pr_state p = Draft" "deny_weight p = 0"
      "veto_vote_weight p = 0" "\<forall>i < length (pr_options p). vote_weight (pr_options p ! i) = 0"
      "proposals st' = (proposals st)(k \<mapsto> p)"
    and same: "realms st' = realms st" "votes st' = votes st" "finite (dom st')"
    and t: "records st (pr_token_owner_record p) = Some t" "same_holder t t'"
      "unrelinquished_votes_count t' = unrelinquished_votes_count t"
      "outstanding_proposal_count t' = outstanding_proposal_count t + 1"
      "records st' = (records st)(pr_token_owner_record p \<mapsto> t')"
    and g: "governances st (pr_governance p) = Some g" "gv_realm g' = gv_realm g"
      "realms st (gv_realm g) = Some r" "active_proposal_count g' = active_proposal_count g + 1"
      "governances st' = (governances st)(pr_governance p \<mapsto> g')"
    using c accounts_okD(1) [OF acc] same_stake_holder unfolding opens_def same_rest_def by blast
  have l: "linked st st'" using same p(1,6) t g unfolding linked_def by auto
  have none: "vr_proposal v \<noteq> k" if "votes st kv = Some v" for kv v
    using accounts_okD(5) [OF acc that] p(1) by (auto simp: cast_by_def)
  then have empty: "votes_on (votes st) k = {}" by (auto simp: votes_on_def)
  have "accounts_ok env st'"
    by (rule linked_accounts_ok [OF acc l same(3,1)]) (use p t g same in \<open>auto split: if_splits\<close>)
  moreover have "votes_ok (proposals st') (votes st')"
    unfolding votes_ok_def same(2) p(6)
  proof (intro allI impI)
    fix k' q assume q: "((proposals st)(k \<mapsto> p)) k' = Some q"
    show "tallied (votes st) k' q \<and> (phase (pr_state q) = 0 \<longrightarrow> votes_on (votes st) k' = {})
      \<and> (phase (pr_state q) = 1 \<longrightarrow>
          (\<forall>kv v. votes st kv = Some v \<and> vr_proposal v = k' \<longrightarrow> \<not> is_relinquished v))"
    proof (cases "k' = k")
      case True
      then have "tallied (votes st) k' q" using q p empty by (simp add: tallied_def total_of_def)
      then show ?thesis using True q p empty by simp
    next
      case False
      then have "proposals st k' = Some q" using q by simp
      then show ?thesis using vs unfolding votes_ok_def by blast
    qed
  qed
  moreover note P = finite_dom_entries(2) [OF acc]
  have "open_proposal p" using p(2) by (simp add: open_proposal_def)
  note card = card_opened [OF P p(1) this]
  have "records_ok env (records st') (proposals st') (votes st')"
    using rs t card unfolding records_ok_def same(2) p(6) t(5) by auto
  moreover have "governances_ok (governances st') (proposals st')"
    using gs g card unfolding governances_ok_def p(6) g(5) by auto
  ultimately show ?thesis by (simp add: books_ok_def)
qed

end
