(* ===== verification/GovernanceRealms.thy ===== *)
theory GovernanceRealms
  imports GovernanceAccounts
begin

text \<open>
  Realms and governances: their creation and configuration (\<open>process_create_realm\<close>,
  \<open>process_create_governance\<close>, the \<open>process_set_*\<close> instructions and those on required signatories, with
  the methods of \<open>state/realm.rs\<close> and \<open>state/realm_config.rs\<close> they use). The token accounts that hold the
  deposits of a realm belong to the token program: creating them is a list of the accounts created.
\<close>

section \<open>Arguments\<close>

record governing_token_config_args =
  use_voter_weight_addin :: bool
  use_max_voter_weight_addin :: bool
  arg_token_type :: governing_token_type

record realm_config_args =
  use_council_mint :: bool
  arg_min_community_weight_to_create_governance :: nat
  arg_community_mint_max_voter_weight_source :: mint_max_voter_weight_source
  community_token_config_args :: governing_token_config_args
  council_token_config_args :: governing_token_config_args

definition assert_valid_realm_config_args :: "realm_config_args \<Rightarrow> unit result" where
  "assert_valid_realm_config_args args =
     (case arg_community_mint_max_voter_weight_source args of
        SupplyFraction fraction \<Rightarrow>
          if \<not> (1 \<le> fraction \<and> fraction \<le> SUPPLY_FRACTION_BASE)
          then Err InvalidMaxVoterWeightSupplyFraction else Ok ()
      | AbsoluteWeight w \<Rightarrow> if w = 0 then Err InvalidMaxVoterWeightAbsoluteValue else Ok ())"

definition optional_account :: "bool \<Rightarrow> signer list \<Rightarrow> (pubkey option \<times> signer list) result" where
  "optional_account wanted iter =
     (if wanted then and_then (next_account_info iter) (\<lambda>(info, rest). Ok (Some (fst info), rest))
      else Ok (None, iter))"

definition resolve_governing_token_config ::
  "signer list \<Rightarrow> governing_token_config_args \<Rightarrow> governing_token_config option
   \<Rightarrow> (governing_token_config \<times> signer list) result" where
  "resolve_governing_token_config iter args existing =
     and_then (optional_account (use_voter_weight_addin args) iter) (\<lambda>(weight_addin, rest1).
     and_then (optional_account (use_max_voter_weight_addin args) rest1) (\<lambda>(max_addin, rest2).
     Ok (\<lparr>voter_weight_addin = weight_addin, max_voter_weight_addin = max_addin,
          token_type = arg_token_type args,
          lock_authorities = (case existing of Some c \<Rightarrow> lock_authorities c | None \<Rightarrow> [])\<rparr>, rest2)))"

definition assert_can_change_config :: "realm_config_account \<Rightarrow> realm_config_args \<Rightarrow> unit result" where
  "assert_can_change_config self args =
     (if token_type (community_token_config self) \<noteq> Membership
         \<and> arg_token_type (community_token_config_args args) = Membership
      then Err CannotChangeCommunityTokenTypeToMembership else Ok ())"

section \<open>Realms\<close>

definition get_governing_token_holding_address_seeds :: "pubkey \<Rightarrow> pubkey \<Rightarrow> seed list" where
  "get_governing_token_holding_address_seeds realm mint = [Bytes ''governance'', Key realm, Key mint]"

definition get_realm_address_seeds :: "string \<Rightarrow> seed list" where
  "get_realm_address_seeds name = [Bytes ''governance'', Bytes name]"

text \<open>A token account (address, mint, owner) that is created at a derived address.\<close>

definition create_spl_token_account_signed ::
  "gov_env \<Rightarrow> pubkey \<Rightarrow> seed list \<Rightarrow> pubkey \<Rightarrow> pubkey \<Rightarrow> (pubkey \<times> pubkey \<times> pubkey) result" where
  "create_spl_token_account_signed env token_account seeds mint owner =
     (if gov_address env seeds \<noteq> token_account then Err InvalidSeeds
      else if is_ok (spl_tokens env token_account) then Err AccountAlreadyInUse
      else Ok (token_account, mint, owner))"

definition process_create_realm ::
  "gov_env \<Rightarrow> pubkey \<Rightarrow> pubkey \<Rightarrow> pubkey \<Rightarrow> pubkey \<Rightarrow> signer list \<Rightarrow> string \<Rightarrow> realm_config_args
   \<Rightarrow> gov_store \<Rightarrow> (gov_store \<times> (pubkey \<times> pubkey \<times> pubkey) list) result" where
  "process_create_realm env realm authority mint holding rest name args st =
     (if st realm \<noteq> None then Err RealmAlreadyExists
      else
      and_then (assert_valid_realm_config_args args) (\<lambda>_.
      and_then (create_spl_token_account_signed env holding
          (get_governing_token_holding_address_seeds realm mint) mint realm) (\<lambda>community_holding.
      and_then
        (if use_council_mint args then
           and_then (next_account_info rest) (\<lambda>(council, rest1).
           and_then (next_account_info rest1) (\<lambda>(council_holding, rest2).
           and_then (create_spl_token_account_signed env (fst council_holding)
               (get_governing_token_holding_address_seeds realm (fst council)) (fst council) realm) (\<lambda>h.
           if fst h = fst community_holding then Err AccountAlreadyInUse
           else Ok (Some (fst council), [community_holding, h], rest2))))
         else Ok (None, [community_holding], rest)) (\<lambda>(council_mint', holdings, rest3).
      and_then (next_account_info rest3) (\<lambda>(realm_config, rest4).
      and_then (resolve_governing_token_config rest4 (community_token_config_args args) None)
        (\<lambda>(community_config, rest5).
      and_then (resolve_governing_token_config rest5 (council_token_config_args args) None)
        (\<lambda>(council_config, _).
      and_then (create_and_serialize_account_signed env st (fst realm_config)
          (RealmConfigAccount \<lparr>rc_realm = realm, community_token_config = community_config,
             council_token_config = council_config\<rparr>)
          (get_realm_config_address_seeds realm)) (\<lambda>st1.
      and_then (create_and_serialize_account_signed env st1 realm
          (RealmAccount \<lparr>community_mint = mint,
             rm_config = \<lparr>min_community_weight_to_create_governance
                 = arg_min_community_weight_to_create_governance args,
               community_mint_max_voter_weight_source = arg_community_mint_max_voter_weight_source args,
               council_mint = council_mint'\<rparr>,
             realm_authority = Some authority, realm_name = name\<rparr>)
          (get_realm_address_seeds name)) (\<lambda>st2.
      Ok (st2, holdings))))))))))"

datatype set_realm_authority_action = SetUnchecked | SetChecked | RemoveAuthority

definition process_set_realm_authority ::
  "pubkey \<Rightarrow> signer \<Rightarrow> signer list \<Rightarrow> set_realm_authority_action \<Rightarrow> gov_store \<Rightarrow> gov_store result" where
  "process_set_realm_authority realm authority rest action st =
     and_then (get_realm_data_for_authority st realm (fst authority)) (\<lambda>r.
     if \<not> snd authority then Err RealmAuthorityMustSign
     else
     and_then
       (if action = RemoveAuthority then Ok None
        else
        and_then (next_account_info rest) (\<lambda>(new_authority, _).
        and_then
          (if action = SetChecked
           then and_then (get_governance_data_for_realm st (fst new_authority) realm) (\<lambda>_. Ok ())
           else Ok ()) (\<lambda>_.
        Ok (Some (fst new_authority))))) (\<lambda>new_authority.
     Ok (st(realm \<mapsto> RealmAccount (r\<lparr>realm_authority := new_authority\<rparr>)))))"

text \<open>Writing the realm config account, which realms of older versions may not have yet.\<close>

definition serialize_realm_config ::
  "gov_env \<Rightarrow> gov_store \<Rightarrow> pubkey \<Rightarrow> realm_config_account \<Rightarrow> gov_store result" where
  "serialize_realm_config env st key c =
     (if st key = None then
        create_and_serialize_account_signed env st key (RealmConfigAccount c)
          (get_realm_config_address_seeds (rc_realm c))
      else Ok (st(key \<mapsto> RealmConfigAccount c)))"

definition process_set_realm_config ::
  "gov_env \<Rightarrow> pubkey \<Rightarrow> signer \<Rightarrow> signer list \<Rightarrow> realm_config_args \<Rightarrow> gov_store \<Rightarrow> gov_store result" where
  "process_set_realm_config env realm authority rest args st =
     and_then (get_realm_data_for_authority st realm (fst authority)) (\<lambda>r.
     if \<not> snd authority then Err RealmAuthorityMustSign
     else
     and_then (assert_valid_realm_config_args args) (\<lambda>_.
     and_then
       (if use_council_mint args then
          and_then (next_account_info rest) (\<lambda>(council, rest1).
          and_then (next_account_info rest1) (\<lambda>(_, rest2).
          if council_mint (rm_config r) \<noteq> Some (fst council) then Err RealmCouncilMintChangeIsNotSupported
          else Ok (council_mint (rm_config r), rest2)))
        else Ok (None, rest)) (\<lambda>(council_mint', rest3).
     and_then (next_account_info rest3) (\<lambda>(_, rest4).
     and_then (next_account_info rest4) (\<lambda>(realm_config, rest5).
     and_then (get_realm_config_data_for_realm env st (fst realm_config) realm) (\<lambda>c.
     and_then (assert_can_change_config c args) (\<lambda>_.
     and_then (resolve_governing_token_config rest5 (community_token_config_args args)
         (Some (community_token_config c))) (\<lambda>(community_config, rest6).
     and_then (resolve_governing_token_config rest6 (council_token_config_args args)
         (Some (council_token_config c))) (\<lambda>(council_config, rest7).
     and_then (next_account_info rest7) (\<lambda>_.
     and_then (serialize_realm_config env st (fst realm_config)
         (c\<lparr>community_token_config := community_config, council_token_config := council_config\<rparr>)) (\<lambda>st1.
     Ok (st1(realm \<mapsto> RealmAccount
       (r\<lparr>rm_config := \<lparr>min_community_weight_to_create_governance
              = arg_min_community_weight_to_create_governance args,
            community_mint_max_voter_weight_source = arg_community_mint_max_voter_weight_source args,
            council_mint = council_mint'\<rparr>\<rparr>))))))))))))))"

datatype set_config_item_action = AddItem | RemoveItem

text \<open>The one configuration item there is: an authority that may lock token owner records.\<close>

definition change_lock_authority ::
  "set_config_item_action \<Rightarrow> pubkey \<Rightarrow> governing_token_config \<Rightarrow> governing_token_config result" where
  "change_lock_authority action authority tc =
     (case action of
        AddItem \<Rightarrow>
          if authority \<in> set (lock_authorities tc) then Err TokenOwnerRecordLockAuthorityAlreadyExists
          else Ok (tc\<lparr>lock_authorities := lock_authorities tc @ [authority]\<rparr>)
      | RemoveItem \<Rightarrow>
          (case remove_first (\<lambda>a. a = authority) (lock_authorities tc) of
             Some authorities \<Rightarrow> Ok (tc\<lparr>lock_authorities := authorities\<rparr>)
           | None \<Rightarrow> Err TokenOwnerRecordLockAuthorityNotFound))"

definition process_set_realm_config_item ::
  "gov_env \<Rightarrow> pubkey \<Rightarrow> pubkey \<Rightarrow> signer \<Rightarrow> set_config_item_action \<Rightarrow> pubkey \<Rightarrow> pubkey
   \<Rightarrow> gov_store \<Rightarrow> gov_store result" where
  "process_set_realm_config_item env realm realm_config authority action mint lock_authority' st =
     and_then (get_realm_data_for_authority st realm (fst authority)) (\<lambda>r.
     if \<not> snd authority then Err RealmAuthorityMustSign
     else
     and_then (get_realm_config_data_for_realm env st realm_config realm) (\<lambda>c.
     and_then
       (if mint = community_mint r then
          and_then (change_lock_authority action lock_authority' (community_token_config c)) (\<lambda>tc.
          Ok (c\<lparr>community_token_config := tc\<rparr>))
        else if Some mint = council_mint (rm_config r) then
          and_then (change_lock_authority action lock_authority' (council_token_config c)) (\<lambda>tc.
          Ok (c\<lparr>council_token_config := tc\<rparr>))
        else Err InvalidGoverningTokenMint) (\<lambda>c'.
     serialize_realm_config env st realm_config c')))"

section \<open>Governances\<close>

definition assert_create_authority_can_create_governance ::
  "gov_env \<Rightarrow> gov_store \<Rightarrow> gov_realm \<Rightarrow> pubkey \<Rightarrow> pubkey \<Rightarrow> signer \<Rightarrow> signer list \<Rightarrow> unit result" where
  "assert_create_authority_can_create_governance env st self realm token_owner_record authority iter =
     (if realm_authority self = Some (fst authority) then
        (if \<not> snd authority then Err RealmAuthorityMustSign else Ok ())
      else
        and_then (get_token_owner_record_data_for_realm st token_owner_record realm) (\<lambda>t.
        and_then (assert_token_owner_or_delegate_is_signer t authority) (\<lambda>_.
        and_then (next_account_info iter) (\<lambda>(realm_config, rest).
        and_then (get_realm_config_data_for_realm env st (fst realm_config) realm) (\<lambda>c.
        and_then (resolve_voter_weight env t rest self c CreateGovernance realm) (\<lambda>(weight, _).
        assert_can_create_governance t self weight))))))"

definition process_create_governance ::
  "gov_env \<Rightarrow> pubkey \<Rightarrow> pubkey \<Rightarrow> pubkey \<Rightarrow> pubkey \<Rightarrow> signer \<Rightarrow> signer list \<Rightarrow> governance_config
   \<Rightarrow> gov_store \<Rightarrow> gov_store result" where
  "process_create_governance env realm governance seed token_owner_record authority rest config st =
     and_then (assert_is_valid_realm st realm) (\<lambda>_.
     and_then (assert_is_valid_governance_config config) (\<lambda>_.
     and_then (get_realm_data st realm) (\<lambda>r.
     and_then (assert_create_authority_can_create_governance env st r realm token_owner_record authority
         rest) (\<lambda>_.
     let g = \<lparr>gv_account_type = GovernanceV2, gv_realm = realm, governance_seed = seed,
       gv_config = config, required_signatories_count = 0, active_proposal_count = 0\<rparr> in
     create_and_serialize_account_signed env st governance (GovernanceAccount g)
       (get_governance_address_seeds g)))))"

text \<open>A governance is configured by itself: its own address signs in the execution of a proposal.\<close>

definition process_set_governance_config ::
  "signer \<Rightarrow> governance_config \<Rightarrow> gov_store \<Rightarrow> gov_store result" where
  "process_set_governance_config governance config st =
     (if \<not> snd governance then Err GovernancePdaMustSign
      else
      and_then (assert_is_valid_governance_config config) (\<lambda>_.
      and_then (get_governance_data st (fst governance)) (\<lambda>g.
      Ok (st(fst governance \<mapsto> GovernanceAccount (g\<lparr>gv_config := config\<rparr>))))))"

definition process_add_required_signatory ::
  "gov_env \<Rightarrow> signer \<Rightarrow> pubkey \<Rightarrow> pubkey \<Rightarrow> gov_store \<Rightarrow> gov_store result" where
  "process_add_required_signatory env governance required_signatory signatory st =
     (if \<not> snd governance then Err GovernancePdaMustSign
      else
      and_then (get_governance_data st (fst governance)) (\<lambda>g.
      and_then (unwrap (checked_add 8 (required_signatories_count g) 1)) (\<lambda>count.
      create_and_serialize_account_signed env
        (st(fst governance \<mapsto> GovernanceAccount (g\<lparr>required_signatories_count := count\<rparr>)))
        required_signatory
        (RequiredSignatoryAccount \<lparr>rs_governance = fst governance, rs_signatory = signatory\<rparr>)
        (get_required_signatory_address_seeds (fst governance) signatory))))"

definition process_remove_required_signatory ::
  "signer \<Rightarrow> pubkey \<Rightarrow> gov_store \<Rightarrow> gov_store result" where
  "process_remove_required_signatory governance required_signatory st =
     (if \<not> snd governance then Err GovernancePdaMustSign
      else
      and_then (get_governance_data st (fst governance)) (\<lambda>g.
      and_then (get_required_signatory_data_for_governance st required_signatory (fst governance)) (\<lambda>_.
      and_then (unwrap (checked_sub (required_signatories_count g) 1)) (\<lambda>count.
      Ok (dispose_account
        (st(fst governance \<mapsto> GovernanceAccount (g\<lparr>required_signatories_count := count\<rparr>)))
        required_signatory)))))"

end
