(* ===== verification/GovernanceStakes.thy ===== *)
theory GovernanceStakes
  imports GovernanceRealms RewardClaims
begin

text \<open>
  Staking: deposits into a realm, withdrawals and revocations of membership tokens
  (\<open>process_deposit_governing_tokens\<close>, \<open>process_withdraw_governing_tokens\<close>,
  \<open>process_revoke_governing_tokens\<close>), with the call to the rewards program that this fork adds. The
  rewards program reads the accounts of this program by their bytes, so the layout that
  \<open>borsh\<close> gives them is written out, and the two sides are shown to agree on it.
\<close>

section \<open>The layout of accounts\<close>

fun le_bytes :: "nat \<Rightarrow> nat \<Rightarrow> nat list" where
  "le_bytes 0 n = []"
| "le_bytes (Suc k) n = n mod 256 # le_bytes k (n div 256)"

definition pubkey_bytes :: "pubkey \<Rightarrow> nat list" where
  "pubkey_bytes k = rev (le_bytes 32 (pk_bytes k))"

definition option_bytes :: "('a \<Rightarrow> nat list) \<Rightarrow> 'a option \<Rightarrow> nat list" where
  "option_bytes f x = (case x of None \<Rightarrow> [0] | Some y \<Rightarrow> 1 # f y)"

text \<open>\<open>GovernanceAccountType\<close> numbers the account types in the order of the enum.\<close>

definition RealmV2_tag :: nat where "RealmV2_tag = 16"
definition TokenOwnerRecordV2_tag :: nat where "TokenOwnerRecordV2_tag = 17"

fun governance_tag :: "governance_account_type \<Rightarrow> nat" where
  "governance_tag GovernanceV2 = 18"
| "governance_tag ProgramGovernanceV2 = 19"
| "governance_tag MintGovernanceV2 = 20"
| "governance_tag TokenGovernanceV2 = 21"

definition max_weight_source_bytes :: "mint_max_voter_weight_source \<Rightarrow> nat list" where
  "max_weight_source_bytes s =
     (case s of SupplyFraction n \<Rightarrow> 0 # le_bytes 8 n | AbsoluteWeight n \<Rightarrow> 1 # le_bytes 8 n)"

definition realm_bytes :: "gov_realm \<Rightarrow> nat list" where
  "realm_bytes r =
     RealmV2_tag # pubkey_bytes (community_mint r)
     @ replicate 8 0 @ le_bytes 8 (min_community_weight_to_create_governance (rm_config r))
     @ max_weight_source_bytes (community_mint_max_voter_weight_source (rm_config r))
     @ option_bytes pubkey_bytes (council_mint (rm_config r))
     @ replicate 8 0 @ option_bytes pubkey_bytes (realm_authority r)
     @ le_bytes 4 (length (realm_name r)) @ map of_char (realm_name r) @ replicate 128 0"

definition lock_bytes :: "token_owner_record_lock \<Rightarrow> nat list" where
  "lock_bytes l = lock_id l # pubkey_bytes (lock_authority l)
     @ option_bytes (\<lambda>t. le_bytes 8 (as_u64 t)) (lock_expiry l)"

definition token_owner_record_bytes :: "token_owner_record \<Rightarrow> nat list" where
  "token_owner_record_bytes t =
     TokenOwnerRecordV2_tag # pubkey_bytes (tor_realm t) @ pubkey_bytes (tor_governing_token_mint t)
     @ pubkey_bytes (tor_governing_token_owner t) @ le_bytes 8 (governing_token_deposit_amount t)
     @ le_bytes 8 (unrelinquished_votes_count t) @ [outstanding_proposal_count t, 1] @ replicate 6 0
     @ option_bytes pubkey_bytes (governance_delegate t) @ replicate 124 0
     @ le_bytes 4 (length (tor_locks t)) @ concat (map lock_bytes (tor_locks t))"

definition vote_threshold_bytes :: "vote_threshold \<Rightarrow> nat list" where
  "vote_threshold_bytes t =
     (case t of YesVotePercentage p \<Rightarrow> [0, p] | QuorumPercentage p \<Rightarrow> [1, p] | ThresholdDisabled \<Rightarrow> [2])"

definition vote_tipping_bytes :: "vote_tipping \<Rightarrow> nat list" where
  "vote_tipping_bytes t =
     (case t of StrictTipping \<Rightarrow> [0] | EarlyTipping \<Rightarrow> [1] | TippingDisabled \<Rightarrow> [2])"

definition governance_config_bytes :: "governance_config \<Rightarrow> nat list" where
  "governance_config_bytes c =
     vote_threshold_bytes (community_vote_threshold c)
     @ le_bytes 8 (min_community_weight_to_create_proposal c)
     @ le_bytes 4 (transactions_hold_up_time c) @ le_bytes 4 (voting_base_time c)
     @ vote_tipping_bytes (community_vote_tipping c)
     @ vote_threshold_bytes (council_vote_threshold c)
     @ vote_threshold_bytes (council_veto_vote_threshold c)
     @ le_bytes 8 (min_council_weight_to_create_proposal c)
     @ vote_tipping_bytes (council_vote_tipping c)
     @ vote_threshold_bytes (community_veto_vote_threshold c)
     @ le_bytes 4 (voting_cool_off_time c) @ [deposit_exempt_proposal_count c]"

definition governance_bytes :: "governance \<Rightarrow> nat list" where
  "governance_bytes g =
     governance_tag (gv_account_type g) # pubkey_bytes (gv_realm g) @ pubkey_bytes (governance_seed g)
     @ replicate 4 0 @ governance_config_bytes (gv_config g) @ replicate 119 0
     @ [required_signatories_count g] @ le_bytes 8 (active_proposal_count g)"

section \<open>Stakes\<close>

datatype spl_instruction =
    SplTransfer pubkey pubkey pubkey nat
  | SplMintTo pubkey pubkey pubkey nat
  | SplBurn pubkey pubkey pubkey nat

record stake_accounts =
  sk_realm :: pubkey
  sk_holding :: pubkey
  sk_owner :: signer
  sk_token_owner_record :: pubkey
  sk_spl_token :: pubkey
  sk_realm_config :: pubkey

definition assert_is_valid_governing_token_mint_and_holding ::
  "gov_env \<Rightarrow> gov_realm \<Rightarrow> pubkey \<Rightarrow> pubkey \<Rightarrow> pubkey \<Rightarrow> unit result" where
  "assert_is_valid_governing_token_mint_and_holding env self realm mint holding =
     and_then (assert_is_valid_governing_token_mint self mint) (\<lambda>_.
     if gov_address env (get_governing_token_holding_address_seeds realm mint) \<noteq> holding
       then Err InvalidGoverningTokenHoldingAccount
     else Ok ())"

definition get_spl_token_mint :: "gov_env \<Rightarrow> pubkey \<Rightarrow> pubkey result" where
  "get_spl_token_mint env token_account =
     and_then (spl_tokens env token_account) (\<lambda>t. Ok (td_mint t))"

definition ok_option :: "'a result \<Rightarrow> 'a option" where
  "ok_option r = (case r of Ok x \<Rightarrow> Some x | _ \<Rightarrow> None)"

text \<open>
  The accounts that come after those of the instruction go to the rewards program: the program, its
  list of reward tokens, the governing mint and the accounts of the reward tokens. Slicing them off
  panics when there are too few; the runtime aborts a call that claims a signature that was not given.
\<close>

definition token_owner_record_data_at :: "gov_store \<Rightarrow> pubkey \<Rightarrow> nat list" where
  "token_owner_record_data_at st key =
     (case st key of Some (TokenOwnerRecordAccount t) \<Rightarrow> token_owner_record_bytes t | _ \<Rightarrow> [])"

definition accrue_stake_rewards ::
  "gov_env \<Rightarrow> stake_accounts \<Rightarrow> gov_realm \<Rightarrow> account_info list \<Rightarrow> (pubkey \<Rightarrow> reward_tokens option)
   \<Rightarrow> (pubkey \<Rightarrow> nat option) \<Rightarrow> gov_store \<Rightarrow> reward_store \<Rightarrow> reward_store result" where
  "accrue_stake_rewards env a r rest reward_tokens_at amount_of st store =
     (case rest of
        rewards_program # reward_tokens_info # mint_info # reward_accounts \<Rightarrow>
          if \<not> (ai_key rewards_program = REWARDS_PROGRAM_ID \<and> ai_executable rewards_program)
            then Err InvalidRewardsProgram
          else if \<not> snd (sk_owner a) then Panic
          else
          and_then (ok_or (reward_tokens_at (ai_key reward_tokens_info)) AccountNotInitialized) (\<lambda>rt.
          let owner_record = \<lparr>ga_key = sk_token_owner_record a, ga_owner = gov_program_id env,
                ga_data = token_owner_record_data_at st (sk_token_owner_record a)\<rparr>;
              owner_account = \<lparr>ga_key = fst (sk_owner a), ga_owner = default_pubkey, ga_data = []\<rparr> in
          governance_accrue_rewards (gov_sdk env) rewards_program
            \<lparr>ac_token_program = sk_spl_token a, ac_caller = fst (sk_owner a),
             ac_realm = \<lparr>ga_key = sk_realm a, ga_owner = gov_program_id env, ga_data = realm_bytes r\<rparr>,
             ac_reward_tokens_key = ai_key reward_tokens_info, ac_reward_tokens = rt,
             ac_governance_token_mint = (ai_key mint_info, ok_option (spl_mints env (ai_key mint_info))),
             ac_governance_staked_token_account = (sk_holding a, ok_option (spl_tokens env (sk_holding a))),
             ac_caller_governance_token_account = owner_record, ac_user = fst (sk_owner a),
             ac_user_governance_token_account = owner_account\<rparr>
            owner_account reward_accounts (unix_timestamp env) amount_of store)
      | _ \<Rightarrow> Panic)"

definition process_deposit_governing_tokens ::
  "gov_env \<Rightarrow> stake_accounts \<Rightarrow> pubkey \<Rightarrow> pubkey \<Rightarrow> account_info list \<Rightarrow> (pubkey \<Rightarrow> reward_tokens option)
   \<Rightarrow> (pubkey \<Rightarrow> nat option) \<Rightarrow> nat \<Rightarrow> gov_store \<times> reward_store
   \<Rightarrow> (gov_store \<times> reward_store \<times> spl_instruction) result" where
  "process_deposit_governing_tokens env a source source_authority rest reward_tokens_at amount_of amount w =
     (let (st, store) = w in
     and_then (get_realm_data st (sk_realm a)) (\<lambda>r.
     and_then (get_spl_token_mint env (sk_holding a)) (\<lambda>mint.
     and_then (assert_is_valid_governing_token_mint_and_holding env r (sk_realm a) mint (sk_holding a)) (\<lambda>_.
     and_then (get_realm_config_data_for_realm env st (sk_realm_config a) (sk_realm a)) (\<lambda>c.
     and_then (assert_can_deposit_governing_token c r mint) (\<lambda>_.
     let seeds = get_token_owner_record_address_seeds (sk_realm a) mint (fst (sk_owner a)) in
     and_then
       (if st (sk_token_owner_record a) = None then
          (if \<not> snd (sk_owner a) then Err GoverningTokenOwnerMustSign
           else create_and_serialize_account_signed env st (sk_token_owner_record a)
             (TokenOwnerRecordAccount (new_token_owner_record (sk_realm a) mint (fst (sk_owner a)))) seeds)
        else Ok st) (\<lambda>st1.
     and_then (accrue_stake_rewards env a r rest reward_tokens_at amount_of st1 store) (\<lambda>store'.
     and_then
       (if is_ok (spl_tokens env source)
          then Ok (SplTransfer source (sk_holding a) source_authority amount)
        else if is_ok (spl_mints env source)
          then Ok (SplMintTo source (sk_holding a) source_authority amount)
        else Err InvalidGoverningTokenSource) (\<lambda>instruction.
     and_then (get_token_owner_record_data_for_seeds env st1 (sk_token_owner_record a) seeds) (\<lambda>t.
     and_then (unwrap (checked_add 64 (governing_token_deposit_amount t) amount)) (\<lambda>total.
     Ok (st1(sk_token_owner_record a \<mapsto>
           TokenOwnerRecordAccount (t\<lparr>governing_token_deposit_amount := total\<rparr>)),
         store', instruction))))))))))))"

definition process_withdraw_governing_tokens ::
  "gov_env \<Rightarrow> stake_accounts \<Rightarrow> pubkey \<Rightarrow> account_info list \<Rightarrow> (pubkey \<Rightarrow> reward_tokens option)
   \<Rightarrow> (pubkey \<Rightarrow> nat option) \<Rightarrow> gov_store \<times> reward_store
   \<Rightarrow> (gov_store \<times> reward_store \<times> spl_instruction) result" where
  "process_withdraw_governing_tokens env a destination rest reward_tokens_at amount_of w =
     (let (st, store) = w in
     if \<not> snd (sk_owner a) then Err GoverningTokenOwnerMustSign
     else
     and_then (get_realm_data st (sk_realm a)) (\<lambda>r.
     and_then (get_spl_token_mint env (sk_holding a)) (\<lambda>mint.
     and_then (assert_is_valid_governing_token_mint_and_holding env r (sk_realm a) mint (sk_holding a)) (\<lambda>_.
     and_then (get_realm_config_data_for_realm env st (sk_realm_config a) (sk_realm a)) (\<lambda>c.
     and_then (assert_can_withdraw_governing_token c r mint) (\<lambda>_.
     let seeds = get_token_owner_record_address_seeds (sk_realm a) mint (fst (sk_owner a)) in
     and_then (get_token_owner_record_data_for_seeds env st (sk_token_owner_record a) seeds) (\<lambda>t.
     and_then (assert_can_withdraw_governing_tokens t (unix_timestamp env)) (\<lambda>_.
     case rest of
       [] \<Rightarrow> Err NotEnoughAccountKeys
     | _ # rest1 \<Rightarrow>
         and_then (accrue_stake_rewards env a r rest1 reward_tokens_at amount_of st store) (\<lambda>store'.
         if gov_address env (get_realm_address_seeds (realm_name r)) \<noteq> sk_realm a then Err InvalidSeeds
         else Ok (st(sk_token_owner_record a \<mapsto>
                TokenOwnerRecordAccount (t\<lparr>governing_token_deposit_amount := 0\<rparr>)),
              store',
              SplTransfer (sk_holding a) destination (sk_realm a) (governing_token_deposit_amount t)))))))))))"

text \<open>
  A member gives up tokens, or the authority of the mint takes them. The rewards program is not called.
\<close>

definition assert_spl_token_mint_authority_is_signer :: "gov_env \<Rightarrow> pubkey \<Rightarrow> signer \<Rightarrow> unit result" where
  "assert_spl_token_mint_authority_is_signer env mint authority =
     and_then (spl_mints env mint) (\<lambda>_.
     case mint_authority env mint of
       None \<Rightarrow> Err MintHasNoAuthority
     | Some a \<Rightarrow>
         if a \<noteq> fst authority then Err InvalidMintAuthority
         else if \<not> snd authority then Err MintAuthorityMustSign
         else Ok ())"

definition process_revoke_governing_tokens ::
  "gov_env \<Rightarrow> pubkey \<Rightarrow> pubkey \<Rightarrow> pubkey \<Rightarrow> pubkey \<Rightarrow> signer \<Rightarrow> pubkey \<Rightarrow> nat \<Rightarrow> gov_store
   \<Rightarrow> (gov_store \<times> spl_instruction) result" where
  "process_revoke_governing_tokens env realm holding token_owner_record mint revoke_authority realm_config
       amount st =
     and_then (get_realm_data st realm) (\<lambda>r.
     and_then (assert_is_valid_governing_token_mint_and_holding env r realm mint holding) (\<lambda>_.
     and_then (get_realm_config_data_for_realm env st realm_config realm) (\<lambda>c.
     and_then (assert_can_revoke_governing_token c r mint) (\<lambda>_.
     and_then (get_token_owner_record_data_for_realm_and_governing_mint st token_owner_record realm mint) (\<lambda>t.
     and_then
       (if fst revoke_authority = tor_governing_token_owner t then
          (if \<not> snd revoke_authority then Err GoverningTokenOwnerMustSign else Ok ())
        else assert_spl_token_mint_authority_is_signer env mint revoke_authority) (\<lambda>_.
     and_then (ok_or (checked_sub (governing_token_deposit_amount t) amount) InvalidRevokeAmount) (\<lambda>total.
     if gov_address env (get_realm_address_seeds (realm_name r)) \<noteq> realm then Err InvalidSeeds
     else Ok (st(token_owner_record \<mapsto>
            TokenOwnerRecordAccount (t\<lparr>governing_token_deposit_amount := total\<rparr>)),
          SplBurn holding mint realm amount))))))))"

section \<open>The two programs agree on the layout\<close>

lemma length_le_bytes [simp]: "length (le_bytes k n) = k"
  by (induction k arbitrary: n) simp_all

lemma length_pubkey_bytes [simp]: "length (pubkey_bytes k) = 32"
  by (simp add: pubkey_bytes_def)

lemma u64_le_bytes: "n < 256 ^ k \<Longrightarrow> u64_from_le_bytes (le_bytes k n) = n"
proof (induction k arbitrary: n)
  case (Suc k)
  then have "n div 256 < 256 ^ k" by (simp add: less_mult_imp_div_less mult.commute)
  with Suc.IH show ?case by (simp add: u64_from_le_bytes_def)
qed (simp add: u64_from_le_bytes_def)

lemma pubkey_bytes_inverse:
  assumes "pk_bytes k < 256 ^ 32"
  shows "pubkey_from_bytes (pubkey_bytes k) = k"
proof -
  have "foldl (\<lambda>a b. a * 256 + b) 0 (rev xs) = u64_from_le_bytes xs" for xs :: "nat list"
    by (simp add: u64_from_le_bytes_def foldl_conv_foldr)
  then show ?thesis
    using u64_le_bytes [OF assms] by (cases k) (simp add: pubkey_from_bytes_def pubkey_bytes_def)
qed

lemma slice_append:
  "length pre = start \<Longrightarrow> length xs = len \<Longrightarrow> slice start len (pre @ xs @ post) = Ok xs"
  by (simp add: slice_def)

lemma stake_bytes:
  assumes "governing_token_deposit_amount t < 256 ^ 8"
  shows "slice 97 8 (token_owner_record_bytes t) = Ok (le_bytes 8 (governing_token_deposit_amount t))"
    "\<not> length (token_owner_record_bytes t) < 97 + 8"
proof -
  let ?pre = "TokenOwnerRecordV2_tag # pubkey_bytes (tor_realm t) @ pubkey_bytes (tor_governing_token_mint t)
     @ pubkey_bytes (tor_governing_token_owner t)"
  obtain post where layout: "token_owner_record_bytes t
      = ?pre @ le_bytes 8 (governing_token_deposit_amount t) @ post"
    by (simp add: token_owner_record_bytes_def)
  show "slice 97 8 (token_owner_record_bytes t) = Ok (le_bytes 8 (governing_token_deposit_amount t))"
    unfolding layout by (rule slice_append) simp_all
  show "\<not> length (token_owner_record_bytes t) < 97 + 8" unfolding layout by simp
qed

lemma balance_is_stake:
  assumes "get_governance_account_balance sdk
      \<lparr>ga_key = k, ga_owner = ow, ga_data = token_owner_record_bytes t\<rparr> realm mint user = Ok b"
    and "governing_token_deposit_amount t < 256 ^ 8"
  shows "b = governing_token_deposit_amount t"
  using assms(1) stake_bytes [OF assms(2)] u64_le_bytes [OF assms(2)]
  by (auto simp: get_governance_account_balance_def)

lemma balance_of_record:
  assumes "pk_bytes (community_mint r) < 256 ^ 32" "governing_token_deposit_amount t < 256 ^ 8"
  shows "get_governance_account_balance sdk
      \<lparr>ga_key = record_key, ga_owner = o1, ga_data = token_owner_record_bytes t\<rparr>
      \<lparr>ga_key = realm_key, ga_owner = o2, ga_data = realm_bytes r\<rparr> mint user
    = (if record_key \<noteq> fst (find_program_address sdk
            (get_token_owner_record_address_seeds realm_key mint user) SPL_GOVERNANCE_PROGRAM_ID)
         then Err InvalidGovernanceAccount
       else if community_mint r \<noteq> mint then Err InvalidCommunityMint
       else Ok (governing_token_deposit_amount t))"
proof -
  have "slice 1 32 (realm_bytes r) = Ok (pubkey_bytes (community_mint r))"
    unfolding realm_bytes_def by (rule slice_append [where pre = "[RealmV2_tag]", simplified]) simp_all
  then show ?thesis
    using stake_bytes [OF assms(2)] u64_le_bytes [OF assms(2)] pubkey_bytes_inverse [OF assms(1)]
    by (simp add: get_governance_account_balance_def get_token_owner_record_address_seeds_def)
qed

text \<open>
  C21: The rewards program reads from the bytes of governance accounts what the governance program
  has put there.
\<close>
theorem stake_layout_agrees:
  assumes "pk_bytes (community_mint r) < 256 ^ 32" "governing_token_deposit_amount t < 256 ^ 8"
    and "pk_bytes (governance_seed g) < 256 ^ 32"
  shows "get_governance_account_balance sdk
      \<lparr>ga_key = record_key, ga_owner = o1, ga_data = token_owner_record_bytes t\<rparr>
      \<lparr>ga_key = realm_key, ga_owner = o2, ga_data = realm_bytes r\<rparr> mint user
    = (if record_key \<noteq> fst (find_program_address sdk
            (get_token_owner_record_address_seeds realm_key mint user) SPL_GOVERNANCE_PROGRAM_ID)
         then Err InvalidGovernanceAccount
       else if community_mint r \<noteq> mint then Err InvalidCommunityMint
       else Ok (governing_token_deposit_amount t))
    \<and> validate_realm_is_valid sdk (gv_realm g)
      \<lparr>ga_key = governance_key, ga_owner = o3, ga_data = governance_bytes g\<rparr>
    = (if governance_key = fst (find_program_address sdk
            (get_governance_address_seeds (g\<lparr>gv_account_type := GovernanceV2\<rparr>)) SPL_GOVERNANCE_PROGRAM_ID)
       then Ok () else Err InvalidGovernanceAccount)"
proof -
  obtain gpost where gov: "governance_bytes g
      = (governance_tag (gv_account_type g) # pubkey_bytes (gv_realm g)) @ pubkey_bytes (governance_seed g) @ gpost"
    by (simp add: governance_bytes_def)
  have seed: "slice 33 32 (governance_bytes g) = Ok (pubkey_bytes (governance_seed g))"
    unfolding gov by (rule slice_append) simp_all
  have "\<not> length (governance_bytes g) < 33 + 32" unfolding gov by simp
  then have "validate_realm_is_valid sdk (gv_realm g)
      \<lparr>ga_key = governance_key, ga_owner = o3, ga_data = governance_bytes g\<rparr>
    = (if governance_key = fst (find_program_address sdk
            (get_governance_address_seeds (g\<lparr>gv_account_type := GovernanceV2\<rparr>)) SPL_GOVERNANCE_PROGRAM_ID)
       then Ok () else Err InvalidGovernanceAccount)"
    using seed pubkey_bytes_inverse [OF assms(3)]
    by (simp add: validate_realm_is_valid_def get_governance_address_seeds_def)
  with balance_of_record [OF assms(1,2)] show ?thesis by blast
qed

text \<open>A realm with a stake of 700 tokens of the key 4.\<close>

definition sample_gov_realm :: gov_realm where
  "sample_gov_realm = \<lparr>community_mint = PK 5,
     rm_config = \<lparr>min_community_weight_to_create_governance = 10,
       community_mint_max_voter_weight_source = SupplyFraction SUPPLY_FRACTION_BASE, council_mint = Some (PK 6)\<rparr>,
     realm_authority = Some (PK 9), realm_name = ''dao''\<rparr>"

definition sample_governance :: governance where
  "sample_governance = \<lparr>gv_account_type = GovernanceV2, gv_realm = PK 1002, governance_seed = PK 8,
     gv_config = \<lparr>community_vote_threshold = YesVotePercentage 60,
       min_community_weight_to_create_proposal = 10, transactions_hold_up_time = 10, voting_base_time = 3600,
       community_vote_tipping = StrictTipping, council_vote_threshold = YesVotePercentage 60,
       council_veto_vote_threshold = YesVotePercentage 50, min_council_weight_to_create_proposal = 1,
       council_vote_tipping = StrictTipping, community_veto_vote_threshold = ThresholdDisabled,
       voting_cool_off_time = 600, deposit_exempt_proposal_count = 10\<rparr>,
     required_signatories_count = 0, active_proposal_count = 0\<rparr>"

definition sample_stake :: "nat \<Rightarrow> token_owner_record" where
  "sample_stake n = (new_token_owner_record (PK 1002) (PK 5) (PK 4))\<lparr>governing_token_deposit_amount := n\<rparr>"

lemmas sample_governance_defs =
  sample_gov_realm_def sample_governance_def sample_stake_def new_token_owner_record_def

theorem stake_layout_agrees_witness:
  "get_governance_account_balance sample_sdk
      \<lparr>ga_key = PK 1004, ga_owner = PK 0, ga_data = token_owner_record_bytes (sample_stake 700)\<rparr>
      \<lparr>ga_key = PK 1002, ga_owner = PK 0, ga_data = realm_bytes sample_gov_realm\<rparr> (PK 5) (PK 4) = Ok 700
   \<and> validate_realm_is_valid sample_sdk (PK 1002)
      \<lparr>ga_key = PK 1003, ga_owner = PK 0, ga_data = governance_bytes sample_governance\<rparr> = Ok ()"
  using stake_layout_agrees [of sample_gov_realm "sample_stake 700" sample_governance sample_sdk "PK 1004"
      "PK 0" "PK 1002" "PK 0" "PK 5" "PK 4" "PK 1003" "PK 0"]
  by (simp add: sample_governance_defs get_token_owner_record_address_seeds_def
      get_governance_address_seeds_def sample_sdk_def)

section \<open>What deposits and withdrawals do\<close>

text \<open>
  The rewards program goes through the groups of four accounts that came with the instruction, in
  their order: the index of the group's token is brought up to the present, over all that is staked,
  and the reward account of the owner is credited for the stake of the record \<open>t\<close>. When the
  instruction came with no such group, as it may, nothing is accrued.
\<close>

definition token_accrued ::
  "gov_env \<Rightarrow> stake_accounts \<Rightarrow> token_owner_record \<Rightarrow> reward_tokens \<Rightarrow> nat \<times> nat \<Rightarrow> (pubkey \<Rightarrow> nat option)
   \<Rightarrow> account_info \<Rightarrow> account_info \<Rightarrow> account_info \<Rightarrow> account_info \<Rightarrow> reward_store \<Rightarrow> reward_store \<Rightarrow> bool" where
  "token_accrued env a t rt staked amount_of mint info_acc rewards_acc user_acc store store' \<longleftrightarrow>
     (\<exists>amount info info' u.
        ai_key info_acc = fst (reward_info_pda (gov_sdk env) (sk_realm a) (ai_key mint))
        \<and> ai_key user_acc = fst (user_reward_info_pda (gov_sdk env) (sk_realm a) (ai_key mint) (fst (sk_owner a)))
        \<and> amount_of (ai_key rewards_acc) = Some amount \<and> infos store (ai_key info_acc) = Some info
        \<and> reward_info_accrue info (reward_ratio rt) amount (fst staked) (snd staked)
            (as_u64 (unix_timestamp env)) = Ok info'
        \<and> user_process_init_if_needed (users store (ai_key user_acc))
            (snd (user_reward_info_pda (gov_sdk env) (sk_realm a) (ai_key mint) (fst (sk_owner a))))
            (sk_realm a) (ai_key mint) info' (governing_token_deposit_amount t) = Ok u
        \<and> store' = store\<lparr>infos := (infos store)(ai_key info_acc := Some info'),
            users := (users store)(ai_key user_acc := Some u)\<rparr>)"

fun each_token_accrued ::
  "gov_env \<Rightarrow> stake_accounts \<Rightarrow> token_owner_record \<Rightarrow> reward_tokens \<Rightarrow> nat \<times> nat \<Rightarrow> (pubkey \<Rightarrow> nat option)
   \<Rightarrow> account_info list \<Rightarrow> reward_store \<Rightarrow> reward_store \<Rightarrow> bool" where
  "each_token_accrued env a t rt staked amount_of (mint # info_acc # rewards_acc # user_acc # others) store store'
     \<longleftrightarrow> (\<exists>s. token_accrued env a t rt staked amount_of mint info_acc rewards_acc user_acc store s
            \<and> each_token_accrued env a t rt staked amount_of others s store')"
| "each_token_accrued env a t rt staked amount_of _ store store' \<longleftrightarrow> store' = store"

definition accrues_on ::
  "gov_env \<Rightarrow> stake_accounts \<Rightarrow> token_owner_record \<Rightarrow> account_info list
   \<Rightarrow> (pubkey \<Rightarrow> reward_tokens option) \<Rightarrow> (pubkey \<Rightarrow> nat option) \<Rightarrow> reward_store \<Rightarrow> reward_store \<Rightarrow> bool" where
  "accrues_on env a t rest reward_tokens_at amount_of store store' \<longleftrightarrow>
     (\<exists>program tokens mint groups rt held m. rest = program # tokens # mint # groups
        \<and> ai_key program = REWARDS_PROGRAM_ID \<and> reward_tokens_at (ai_key tokens) = Some rt
        \<and> spl_tokens env (sk_holding a) = Ok held \<and> spl_mints env (ai_key mint) = Ok m
        \<and> each_token_accrued env a t rt (td_amount held, md_decimals m) amount_of groups store store')"

lemma reward_account_metas_length:
  "reward_account_metas accounts = Ok metas \<Longrightarrow> length metas = 4 * (length accounts div 4)"
  by (induction accounts arbitrary: metas rule: reward_account_metas.induct) (auto split: if_splits)

text \<open>The rounds of the rewards program, one for each group.\<close>

lemma accrue_rounds_each:
  assumes "reward_account_metas groups = Ok metas"
    and "repeat_result (length metas div 4) (accrue_round (gov_sdk env) acc False (as_u64 (unix_timestamp env)) staked
      amount_of) (metas, store) = Ok (left, store')"
    and acc: "ac_user acc = ac_caller acc" "ac_caller acc = fst (sk_owner a)"
      "ga_key (ac_realm acc) = sk_realm a" "ac_reward_tokens acc = rt"
    and balance: "\<And>mint user b. get_governance_account_balance (gov_sdk env)
        (ac_caller_governance_token_account acc) (ac_realm acc) mint user = Ok b
      \<Longrightarrow> b = governing_token_deposit_amount t"
  shows "each_token_accrued env a t rt staked amount_of groups store store'"
  using assms(1,2)
proof (induction groups arbitrary: metas store rule: reward_account_metas.induct)
  case (1 mint info_acc rewards_acc user_acc others)
  let ?fixed = "\<lambda>x. x\<lparr>ai_is_signer := False, ai_is_writable := False\<rparr>"
    and ?changed = "\<lambda>x. x\<lparr>ai_is_signer := False, ai_is_writable := True\<rparr>"
  have keys: "ai_key (?fixed x) = ai_key x" "ai_key (?changed x) = ai_key x" for x :: account_info by simp_all
  from "1.prems"(1) obtain metas' where
    tail: "\<not> \<not> (ai_is_writable info_acc \<and> ai_is_writable user_acc)" "reward_account_metas others = Ok metas'"
    and metas: "metas = ?fixed mint # ?changed info_acc # ?fixed rewards_acc # ?changed user_acc # metas'"
    by (auto split: if_splits)
  have "length metas div 4 = Suc (length metas' div 4)" using metas by simp
  with "1.prems"(2) metas obtain left1 store1 where
    first: "accrue_round (gov_sdk env) acc False (as_u64 (unix_timestamp env)) staked amount_of
      (?fixed mint # ?changed info_acc # ?fixed rewards_acc # ?changed user_acc # metas', store) = Ok (left1, store1)"
    and rounds: "repeat_result (length metas' div 4) (accrue_round (gov_sdk env) acc False
      (as_u64 (unix_timestamp env)) staked amount_of) (left1, store1) = Ok (left, store')"
    by auto
  from accrue_round_Ok [OF first acc(1)] have "left1 = metas'" by blast
  with "1.IH" [OF tail] rounds have "each_token_accrued env a t rt staked amount_of others store1 store'" by simp
  moreover have "token_accrued env a t rt staked amount_of mint info_acc rewards_acc user_acc store store1"
    using accrue_round_Ok [OF first acc(1), unfolded keys acc(2-4)] balance unfolding token_accrued_def by blast
  ultimately show ?case by auto
qed auto

lemma accrue_stake_rewards_accrues_on:
  assumes "accrue_stake_rewards env a r rest reward_tokens_at amount_of st store = Ok store'"
    and "st (sk_token_owner_record a) = Some (TokenOwnerRecordAccount t)"
    and "governing_token_deposit_amount t < 256 ^ 8"
  shows "accrues_on env a t rest reward_tokens_at amount_of store store'"
proof -
  obtain prog tokens mint groups metas rt where run: "rest = prog # tokens # mint # groups"
      "ai_key prog = REWARDS_PROGRAM_ID" "reward_tokens_at (ai_key tokens) = Some rt"
      "reward_account_metas groups = Ok metas"
      "accrue_rewards (gov_sdk env)
        \<lparr>ac_token_program = sk_spl_token a, ac_caller = fst (sk_owner a),
         ac_realm = \<lparr>ga_key = sk_realm a, ga_owner = gov_program_id env, ga_data = realm_bytes r\<rparr>,
         ac_reward_tokens_key = ai_key tokens, ac_reward_tokens = rt,
         ac_governance_token_mint = (ai_key mint, ok_option (spl_mints env (ai_key mint))),
         ac_governance_staked_token_account = (sk_holding a, ok_option (spl_tokens env (sk_holding a))),
         ac_caller_governance_token_account = \<lparr>ga_key = sk_token_owner_record a,
           ga_owner = gov_program_id env, ga_data = token_owner_record_bytes t\<rparr>, ac_user = fst (sk_owner a),
         ac_user_governance_token_account = \<lparr>ga_key = fst (sk_owner a), ga_owner = default_pubkey, ga_data = []\<rparr>\<rparr>
        metas False (unix_timestamp env) amount_of store = Ok store'"
    (is "accrue_rewards _ ?acc _ _ _ _ _ = _")
    using assms(1,2)
    by (auto simp: accrue_stake_rewards_def governance_accrue_rewards_def Let_def token_owner_record_data_at_def
        split: list.splits if_splits)
  from run(5) obtain held m left where staked: "spl_tokens env (sk_holding a) = Ok held"
      "spl_mints env (ai_key mint) = Ok m"
    and rounds: "repeat_result (length metas div 4) (accrue_round (gov_sdk env) ?acc False
        (as_u64 (unix_timestamp env)) (td_amount held, md_decimals m) amount_of) (metas, store) = Ok (left, store')"
    by (auto simp: accrue_rewards_def get_realm_staked_balance_and_mint_decimals_def ok_option_def Let_def
        split: result.splits)
  have "each_token_accrued env a t rt (td_amount held, md_decimals m) amount_of groups store store'"
    by (rule accrue_rounds_each [OF run(4) rounds]) (use balance_is_stake [OF _ assms(3)] in \<open>auto\<close>)
  then show ?thesis unfolding accrues_on_def using run(1-3) staked by blast
qed

lemma valid_mint_and_holding:
  assumes "assert_is_valid_governing_token_mint_and_holding env r realm mint holding = Ok ()"
  shows "mint \<in> insert (community_mint r) (set_option (council_mint (rm_config r)))"
    "gov_address env (get_governing_token_holding_address_seeds realm mint) = holding"
  using assms by (auto simp: assert_is_valid_governing_token_mint_and_holding_def
      assert_is_valid_governing_token_mint_def split: if_splits)

text \<open>What the stores of a deposit, a withdrawal and a revocation that succeed have become.\<close>

lemma deposit_Ok:
  assumes "process_deposit_governing_tokens env a source authority rest reward_tokens_at amount_of amount (st, store)
      = Ok (st', store', i)"
  shows "\<exists>r mint st1 t. st (sk_realm a) = Some (RealmAccount r)
    \<and> assert_is_valid_governing_token_mint_and_holding env r (sk_realm a) mint (sk_holding a) = Ok ()
    \<and> gov_address env (get_token_owner_record_address_seeds (sk_realm a) mint (fst (sk_owner a)))
        = sk_token_owner_record a
    \<and> (if st (sk_token_owner_record a) = None
        then snd (sk_owner a) \<and> t = new_token_owner_record (sk_realm a) mint (fst (sk_owner a))
          \<and> st1 = st(sk_token_owner_record a \<mapsto> TokenOwnerRecordAccount t)
        else st (sk_token_owner_record a) = Some (TokenOwnerRecordAccount t) \<and> st1 = st)
    \<and> accrue_stake_rewards env a r rest reward_tokens_at amount_of st1 store = Ok store'
    \<and> governing_token_deposit_amount t + amount < 2 ^ 64
    \<and> st' = st(sk_token_owner_record a \<mapsto> TokenOwnerRecordAccount
        (t\<lparr>governing_token_deposit_amount := governing_token_deposit_amount t + amount\<rparr>))
    \<and> i \<in> {SplTransfer source (sk_holding a) authority amount, SplMintTo source (sk_holding a) authority amount}"
proof -
  let ?seeds = "\<lambda>mint. get_token_owner_record_address_seeds (sk_realm a) mint (fst (sk_owner a))"
  obtain r mint st1 t where run: "st (sk_realm a) = Some (RealmAccount r)"
      "assert_is_valid_governing_token_mint_and_holding env r (sk_realm a) mint (sk_holding a) = Ok ()"
      "(if st (sk_token_owner_record a) = None then
          (if \<not> snd (sk_owner a) then Err GoverningTokenOwnerMustSign
           else create_and_serialize_account_signed env st (sk_token_owner_record a)
             (TokenOwnerRecordAccount (new_token_owner_record (sk_realm a) mint (fst (sk_owner a)))) (?seeds mint))
        else Ok st) = Ok st1"
      "accrue_stake_rewards env a r rest reward_tokens_at amount_of st1 store = Ok store'"
      "gov_address env (?seeds mint) = sk_token_owner_record a"
      "st1 (sk_token_owner_record a) = Some (TokenOwnerRecordAccount t)"
      "governing_token_deposit_amount t + amount < 2 ^ 64"
      "st' = st1(sk_token_owner_record a \<mapsto> TokenOwnerRecordAccount
        (t\<lparr>governing_token_deposit_amount := governing_token_deposit_amount t + amount\<rparr>))"
      "i \<in> {SplTransfer source (sk_holding a) authority amount, SplMintTo source (sk_holding a) authority amount}"
    using assms unfolding process_deposit_governing_tokens_def Let_def prod.case
    by (fastforce simp: checked_add_def split: if_splits)
  show ?thesis
    by (rule exI [of _ r], rule exI [of _ mint], rule exI [of _ st1], rule exI [of _ t])
      (use run in \<open>auto split: if_splits\<close>)
qed

lemma withdraw_Ok:
  assumes "process_withdraw_governing_tokens env a destination rest reward_tokens_at amount_of (st, store)
      = Ok (st', store', i)"
  shows "\<exists>r mint t x rest1. st (sk_realm a) = Some (RealmAccount r) \<and> snd (sk_owner a)
      \<and> assert_is_valid_governing_token_mint_and_holding env r (sk_realm a) mint (sk_holding a) = Ok ()
      \<and> gov_address env (get_token_owner_record_address_seeds (sk_realm a) mint (fst (sk_owner a)))
        = sk_token_owner_record a
      \<and> st (sk_token_owner_record a) = Some (TokenOwnerRecordAccount t)
      \<and> assert_can_withdraw_governing_tokens t (unix_timestamp env) = Ok () \<and> rest = x # rest1
      \<and> accrue_stake_rewards env a r rest1 reward_tokens_at amount_of st store = Ok store'
      \<and> st' = st(sk_token_owner_record a \<mapsto> TokenOwnerRecordAccount (t\<lparr>governing_token_deposit_amount := 0\<rparr>))
      \<and> i = SplTransfer (sk_holding a) destination (sk_realm a) (governing_token_deposit_amount t)"
  using assms unfolding process_withdraw_governing_tokens_def Let_def prod.case
  by (cases rest) (auto split: if_splits)

lemma revoke_Ok:
  assumes "process_revoke_governing_tokens env realm holding k mint authority config amount st = Ok (st', i)"
  shows "\<exists>r c t. get_realm_config_data_for_realm env st config realm = Ok c
    \<and> assert_can_revoke_governing_token c r mint = Ok () \<and> st k = Some (TokenOwnerRecordAccount t)
    \<and> amount \<le> governing_token_deposit_amount t \<and> st' = st(k \<mapsto> TokenOwnerRecordAccount
        (t\<lparr>governing_token_deposit_amount := governing_token_deposit_amount t - amount\<rparr>))"
  using assms by (auto simp: process_revoke_governing_tokens_def split: if_splits)

text \<open>
  C23: A deposit puts the tokens into the account that holds the realm's tokens of its mint and adds
  exactly their amount to the stake. Before that, on the stake as it was, the rewards are accrued of
  the reward tokens whose groups of accounts came with the instruction: one group after the other, the
  token's index is brought up to the present and the owner's reward account is credited. A deposit may
  leave the groups of some tokens, or of all of them, out; of those nothing is accrued, and
  \<open>unaccrued_deposit_earns_history\<close> shows what the depositor makes of it.
\<close>
theorem deposit_spec:
  assumes "process_deposit_governing_tokens env a source authority rest reward_tokens_at amount_of amount (st, store)
      = Ok (st', store', i)"
  shows "\<exists>r t mint. st (sk_realm a) = Some (RealmAccount r)
    \<and> mint \<in> insert (community_mint r) (set_option (council_mint (rm_config r)))
    \<and> gov_address env (get_governing_token_holding_address_seeds (sk_realm a) mint) = sk_holding a
    \<and> gov_address env (get_token_owner_record_address_seeds (sk_realm a) mint (fst (sk_owner a)))
        = sk_token_owner_record a
    \<and> (if st (sk_token_owner_record a) = None
        then snd (sk_owner a) \<and> t = new_token_owner_record (sk_realm a) mint (fst (sk_owner a))
        else st (sk_token_owner_record a) = Some (TokenOwnerRecordAccount t))
    \<and> accrues_on env a t rest reward_tokens_at amount_of store store'
    \<and> governing_token_deposit_amount t + amount < 2 ^ 64
    \<and> st' = st(sk_token_owner_record a \<mapsto> TokenOwnerRecordAccount
        (t\<lparr>governing_token_deposit_amount := governing_token_deposit_amount t + amount\<rparr>))
    \<and> i \<in> {SplTransfer source (sk_holding a) authority amount, SplMintTo source (sk_holding a) authority amount}"
proof -
  obtain r mint st1 t where run: "st (sk_realm a) = Some (RealmAccount r)"
      "assert_is_valid_governing_token_mint_and_holding env r (sk_realm a) mint (sk_holding a) = Ok ()"
      "gov_address env (get_token_owner_record_address_seeds (sk_realm a) mint (fst (sk_owner a)))
        = sk_token_owner_record a"
      "if st (sk_token_owner_record a) = None
        then snd (sk_owner a) \<and> t = new_token_owner_record (sk_realm a) mint (fst (sk_owner a))
          \<and> st1 = st(sk_token_owner_record a \<mapsto> TokenOwnerRecordAccount t)
        else st (sk_token_owner_record a) = Some (TokenOwnerRecordAccount t) \<and> st1 = st"
      "accrue_stake_rewards env a r rest reward_tokens_at amount_of st1 store = Ok store'"
      "governing_token_deposit_amount t + amount < 2 ^ 64"
      "st' = st(sk_token_owner_record a \<mapsto> TokenOwnerRecordAccount
        (t\<lparr>governing_token_deposit_amount := governing_token_deposit_amount t + amount\<rparr>))"
      "i \<in> {SplTransfer source (sk_holding a) authority amount, SplMintTo source (sk_holding a) authority amount}"
    using deposit_Ok [OF assms] by blast
  have "accrues_on env a t rest reward_tokens_at amount_of store store'"
    by (rule accrue_stake_rewards_accrues_on [OF run(5)]) (use run(4,6) in \<open>auto split: if_splits\<close>)
  then show ?thesis
    using run valid_mint_and_holding [OF run(2)]
    by (intro exI [of _ r] exI [of _ t] exI [of _ mint]) simp
qed

text \<open>A stake of a billion raw units, all that is staked, and one reward token.\<close>

definition sample_gov_env :: gov_env where
  "sample_gov_env = \<lparr>gov_sdk = sample_sdk, gov_program_id = default_pubkey, unix_timestamp = 102, slot = 7,
     spl_tokens = (\<lambda>k. if k \<in> {PK 1003, PK 40}
       then Ok \<lparr>td_mint = PK 5, td_owner = PK 1002, td_amount = 10 ^ 9, td_extension_types = []\<rparr> else Err InvalidAccountData),
     spl_mints = (\<lambda>k. if k = PK 5
       then Ok \<lparr>md_decimals = 9, md_supply = 10 ^ 9, md_extension_types = [], md_default_account_state = None,
         md_transfer_hook = None\<rparr> else Err InvalidAccountData),
     mint_authority = (\<lambda>_. None), voter_weight_records = (\<lambda>_ _. None),
     max_voter_weight_records = (\<lambda>_ _. None)\<rparr>"

definition sample_stakes_store :: "nat \<Rightarrow> gov_store" where
  "sample_stakes_store n = [PK 1002 \<mapsto> RealmAccount sample_gov_realm,
     PK 7 \<mapsto> RealmConfigAccount \<lparr>rc_realm = PK 1002, community_token_config = default_token_config,
       council_token_config = default_token_config\<rparr>,
     PK 1004 \<mapsto> TokenOwnerRecordAccount (sample_stake n)]"

definition sample_stake_accounts :: stake_accounts where
  "sample_stake_accounts = \<lparr>sk_realm = PK 1002, sk_holding = PK 1003, sk_owner = (PK 4, True),
     sk_token_owner_record = PK 1004, sk_spl_token = PK 1, sk_realm_config = PK 7\<rparr>"

definition sample_reward_accounts :: "account_info list" where
  "sample_reward_accounts = sample_stake_account REWARDS_PROGRAM_ID True # sample_stake_account (PK 6) False
     # sample_stake_account (PK 5) False # sample_claim_accounts"

definition sample_reward_tokens :: "pubkey \<Rightarrow> reward_tokens option" where
  "sample_reward_tokens = [PK 6 \<mapsto> (ac_reward_tokens sample_accrue_accounts)\<lparr>rt_realm := PK 1002\<rparr>]"

definition sample_stake_accrued :: reward_store where
  "sample_stake_accrued =
     \<lparr>infos = [PK 1003 \<mapsto> sample_info 102 80225368200576 80225368200576 (10 ^ 19) 0],
      users = [PK 1004 \<mapsto> (sample_user 80225368200576 80225368200576)\<lparr>ur_bump := 255, ur_realm := PK 1002\<rparr>]\<rparr>"

lemmas sample_stake_defs = sample_governance_defs sample_gov_env_def sample_stakes_store_def
  sample_stake_accounts_def default_token_config_def

lemmas sample_seed_defs = get_token_owner_record_address_seeds_def get_governing_token_holding_address_seeds_def

lemma sample_stake_env:
  "gov_sdk sample_gov_env = sample_sdk" "unix_timestamp sample_gov_env = 102"
  "gov_program_id sample_gov_env = default_pubkey" "as_u64 102 = 102"
  "sk_owner sample_stake_accounts = (PK 4, True)" "sk_realm sample_stake_accounts = PK 1002"
  "sk_holding sample_stake_accounts = PK 1003" "sk_token_owner_record sample_stake_accounts = PK 1004"
  "sk_spl_token sample_stake_accounts = PK 1" "sk_realm_config sample_stake_accounts = PK 7"
  by (simp_all add: sample_gov_env_def sample_stake_accounts_def as_u64_def)

lemma sample_stake_checks:
  "get_realm_data (sample_stakes_store n) (PK 1002) = Ok sample_gov_realm"
  "get_spl_token_mint sample_gov_env (PK 1003) = Ok (PK 5)"
  "assert_is_valid_governing_token_mint_and_holding sample_gov_env sample_gov_realm (PK 1002) (PK 5) (PK 1003) = Ok ()"
  "\<exists>c. get_realm_config_data_for_realm sample_gov_env (sample_stakes_store n) (PK 7) (PK 1002) = Ok c
    \<and> assert_can_deposit_governing_token c sample_gov_realm (PK 5) = Ok ()
    \<and> assert_can_withdraw_governing_token c sample_gov_realm (PK 5) = Ok ()"
  "sample_stakes_store n (PK 1004) = Some (TokenOwnerRecordAccount (sample_stake n))"
  "get_token_owner_record_data_for_seeds sample_gov_env (sample_stakes_store n) (PK 1004)
    (get_token_owner_record_address_seeds (PK 1002) (PK 5) (PK 4)) = Ok (sample_stake n)"
  "is_ok (spl_tokens sample_gov_env (PK 40))"
  "gov_address sample_gov_env (get_realm_address_seeds (realm_name sample_gov_realm)) = PK 1002"
  "assert_can_withdraw_governing_tokens (sample_stake n) now = Ok ()"
  "(sample_stakes_store n)(PK 1004 \<mapsto>
    TokenOwnerRecordAccount ((sample_stake n)\<lparr>governing_token_deposit_amount := m\<rparr>)) = sample_stakes_store m"
  "governing_token_deposit_amount (sample_stake n) = n"
  by (simp_all add: sample_stake_defs gov_address_def sample_sdk_def is_ok_def
      get_spl_token_mint_def assert_is_valid_governing_token_mint_and_holding_def
      assert_is_valid_governing_token_mint_def get_realm_config_data_for_realm_def get_account_data_def
      assert_can_deposit_governing_token_def assert_can_withdraw_governing_token_def get_token_config_def
      get_realm_data_def get_token_owner_record_data_for_seeds_def get_token_owner_record_data_def
      assert_can_withdraw_governing_tokens_def get_realm_address_seeds_def sample_seed_defs)

lemma sample_stake_accrual:
  assumes "st (PK 1004) = Some (TokenOwnerRecordAccount (sample_stake (10 ^ 9)))"
  shows "accrue_stake_rewards sample_gov_env sample_stake_accounts sample_gov_realm sample_reward_accounts
    sample_reward_tokens [PK 506 \<mapsto> 10 ^ 10] st sample_store = Ok sample_stake_accrued"
proof -
  have accrual: "reward_info_accrue (sample_info 101 80226 80226 (10 ^ 19) 0)
      (reward_ratio (ac_reward_tokens sample_accrue_accounts)) (10 ^ 10) (10 ^ 9) 9 102
     = Ok (sample_info 102 80225368200576 80225368200576 (10 ^ 19) 0)"
    using sample_accruals(2) by (simp add: sample_accrue_accounts_def)
  have balance: "get_governance_account_balance sample_sdk
      \<lparr>ga_key = PK 1004, ga_owner = default_pubkey, ga_data = token_owner_record_bytes (sample_stake (10 ^ 9))\<rparr>
      \<lparr>ga_key = PK 1002, ga_owner = default_pubkey, ga_data = realm_bytes sample_gov_realm\<rparr> (PK 5) (PK 4)
    = Ok (10 ^ 9)"
    by (subst balance_of_record)
      (simp_all add: sample_governance_defs get_token_owner_record_address_seeds_def sample_sdk_def)
  have user: "user_process_init_if_needed None 255 (PK 1002) (PK 3)
      (sample_info 102 80225368200576 80225368200576 (10 ^ 19) 0) (10 ^ 9)
    = Ok ((sample_user 80225368200576 80225368200576)\<lparr>ur_bump := 255, ur_realm := PK 1002\<rparr>)"
    by (simp add: reward_eval sample_user_def)
  let ?metas = "map (\<lambda>(k, w). (sample_stake_account k False)\<lparr>ai_is_writable := w\<rparr>)
        [(PK 3, False), (PK 1003, True), (PK 506, False), (PK 1004, True)]"
  have metas: "reward_account_metas sample_claim_accounts = Ok ?metas"
    by (simp add: sample_stake_account_def)
  have round: "accrue_round sample_sdk acc False 102 (10 ^ 9, 9) [PK 506 \<mapsto> 10 ^ 10] (?metas, sample_store)
      = Ok ([], sample_stake_accrued)"
    if acc: "ac_token_program acc = PK 1" "ac_caller acc = PK 4" "ac_user acc = PK 4" "ac_reward_tokens_key acc = PK 6"
        "ac_reward_tokens acc = (ac_reward_tokens sample_accrue_accounts)\<lparr>rt_realm := PK 1002\<rparr>"
        "fst (ac_governance_token_mint acc) = PK 5"
        "ac_realm acc = \<lparr>ga_key = PK 1002, ga_owner = default_pubkey, ga_data = realm_bytes sample_gov_realm\<rparr>"
        "ac_caller_governance_token_account acc = \<lparr>ga_key = PK 1004, ga_owner = default_pubkey,
          ga_data = token_owner_record_bytes (sample_stake (10 ^ 9))\<rparr>" for acc
  proof -
    have "accrue_user sample_sdk acc (PK 4) (ac_caller_governance_token_account acc) (PK 1004) (PK 3)
      (sample_info 102 80225368200576 80225368200576 (10 ^ 19) 0) sample_store
    = Ok (sample_store\<lparr>users := users sample_stake_accrued\<rparr>)"
      unfolding accrue_user_def acc balance and_then_simps
      by (simp add: user [simplified] user_reward_info_pda_def sample_accessors sample_store_def sample_stake_accrued_def)
    then show ?thesis
      unfolding accrue_round_def Let_def
      by (simp add: next_account_def sample_stake_account_def reward_info_pda_def user_reward_info_pda_def acc
          sample_accessors accrual [simplified] sample_store_def sample_stake_accrued_def)
  qed
  have staked: "get_realm_staked_balance_and_mint_decimals sample_sdk (PK 1002)
      (PK 5, ok_option (spl_mints sample_gov_env (PK 5))) (PK 1003, ok_option (spl_tokens sample_gov_env (PK 1003)))
    = Ok (10 ^ 9, 9)"
    by (simp add: get_realm_staked_balance_and_mint_decimals_def sample_accessors sample_gov_env_def ok_option_def)
  have size: "length ?metas = 4" by simp
  have keys: "ai_key (sample_stake_account k p) = k" "ai_executable (sample_stake_account k p) = p" for k p
    by (simp_all add: sample_stake_account_def)
  show ?thesis
    unfolding accrue_stake_rewards_def sample_reward_accounts_def list.case keys sample_stake_env token_owner_record_data_at_def assms
      governance_accrue_rewards_def metas accrue_rewards_def
    by (simp add: sample_reward_tokens_def staked [simplified] size [simplified] round [simplified])
qed

theorem deposit_spec_witness:
  "\<exists>i t. process_deposit_governing_tokens sample_gov_env sample_stake_accounts (PK 40) (PK 4) sample_reward_accounts
     sample_reward_tokens [PK 506 \<mapsto> 10 ^ 10] 300 (sample_stakes_store (10 ^ 9), sample_store)
       = Ok (sample_stakes_store (10 ^ 9 + 300), sample_stake_accrued, i)
   \<and> sample_stakes_store (10 ^ 9) (PK 1004) = Some (TokenOwnerRecordAccount t)
   \<and> accrues_on sample_gov_env sample_stake_accounts t sample_reward_accounts
      sample_reward_tokens [PK 506 \<mapsto> 10 ^ 10] sample_store sample_stake_accrued
   \<and> i \<in> {SplTransfer (PK 40) (PK 1003) (PK 4) 300, SplMintTo (PK 40) (PK 1003) (PK 4) 300}"
proof -
  have run: "process_deposit_governing_tokens sample_gov_env sample_stake_accounts (PK 40) (PK 4) sample_reward_accounts
     sample_reward_tokens [PK 506 \<mapsto> 10 ^ 10] 300 (sample_stakes_store (10 ^ 9), sample_store)
       = Ok (sample_stakes_store (10 ^ 9 + 300), sample_stake_accrued, SplTransfer (PK 40) (PK 1003) (PK 4) 300)"
    using sample_stake_checks(4) [of 1000000000]
    by (auto simp: process_deposit_governing_tokens_def Let_def sample_stake_env sample_stake_checks(1-3,5-) checked_add_def
        sample_stake_accrual [where st = "sample_stakes_store (10 ^ 9)", simplified sample_stake_checks, simplified] simp del: fun_upd_apply)
  show ?thesis
    using deposit_spec [OF run] run by (auto simp: sample_stakes_store_def sample_stake_accounts_def)
qed

text \<open>
  C22: Only the owner withdraws a stake, only once no vote, no proposal and no lock holds it back, and
  gets all of it, from the account that holds the realm's tokens of the mint that was staked. Before
  that, on the stake as it was, the rewards are accrued of the reward tokens whose groups of accounts
  came with the instruction, which may leave out some of them or all.
\<close>
theorem withdraw_spec:
  assumes "process_withdraw_governing_tokens env a destination rest reward_tokens_at amount_of (st, store)
      = Ok (st', store', i)"
    and "\<forall>t. st (sk_token_owner_record a) = Some (TokenOwnerRecordAccount t) \<longrightarrow>
      governing_token_deposit_amount t < 2 ^ 64"
  shows "\<exists>r t mint. st (sk_realm a) = Some (RealmAccount r) \<and> snd (sk_owner a)
    \<and> mint \<in> insert (community_mint r) (set_option (council_mint (rm_config r)))
    \<and> gov_address env (get_governing_token_holding_address_seeds (sk_realm a) mint) = sk_holding a
    \<and> gov_address env (get_token_owner_record_address_seeds (sk_realm a) mint (fst (sk_owner a)))
        = sk_token_owner_record a
    \<and> st (sk_token_owner_record a) = Some (TokenOwnerRecordAccount t)
    \<and> unrelinquished_votes_count t = 0 \<and> outstanding_proposal_count t = 0
    \<and> list_all (\<lambda>lock. is_expired lock (unix_timestamp env)) (tor_locks t)
    \<and> accrues_on env a t (tl rest) reward_tokens_at amount_of store store'
    \<and> st' = st(sk_token_owner_record a \<mapsto>
        TokenOwnerRecordAccount (t\<lparr>governing_token_deposit_amount := 0\<rparr>))
    \<and> i = SplTransfer (sk_holding a) destination (sk_realm a) (governing_token_deposit_amount t)"
proof -
  obtain r mint t x rest1 where run: "st (sk_realm a) = Some (RealmAccount r)" "snd (sk_owner a)"
      "assert_is_valid_governing_token_mint_and_holding env r (sk_realm a) mint (sk_holding a) = Ok ()"
      "gov_address env (get_token_owner_record_address_seeds (sk_realm a) mint (fst (sk_owner a)))
        = sk_token_owner_record a"
      "st (sk_token_owner_record a) = Some (TokenOwnerRecordAccount t)"
      "assert_can_withdraw_governing_tokens t (unix_timestamp env) = Ok ()" "rest = x # rest1"
      "accrue_stake_rewards env a r rest1 reward_tokens_at amount_of st store = Ok store'"
      "st' = st(sk_token_owner_record a \<mapsto>
        TokenOwnerRecordAccount (t\<lparr>governing_token_deposit_amount := 0\<rparr>))"
      "i = SplTransfer (sk_holding a) destination (sk_realm a) (governing_token_deposit_amount t)"
    using withdraw_Ok [OF assms(1)] by blast
  have "accrues_on env a t rest1 reward_tokens_at amount_of store store'"
    by (rule accrue_stake_rewards_accrues_on [OF run(8,5)]) (use assms(2) run(5) in simp)
  then show ?thesis
    using run valid_mint_and_holding [OF run(3)]
    by (intro exI [of _ r] exI [of _ t] exI [of _ mint])
      (auto simp: assert_can_withdraw_governing_tokens_def list_ex_iff list_all_iff split: if_splits)
qed

theorem withdraw_spec_witness:
  "\<exists>t. process_withdraw_governing_tokens sample_gov_env sample_stake_accounts (PK 40)
     (sample_stake_account (PK 0) False # sample_reward_accounts) sample_reward_tokens [PK 506 \<mapsto> 10 ^ 10]
     (sample_stakes_store (10 ^ 9), sample_store)
       = Ok (sample_stakes_store 0, sample_stake_accrued, SplTransfer (PK 1003) (PK 40) (PK 1002) (10 ^ 9))
   \<and> sample_stakes_store (10 ^ 9) (PK 1004) = Some (TokenOwnerRecordAccount t) \<and> unrelinquished_votes_count t = 0
   \<and> accrues_on sample_gov_env sample_stake_accounts t sample_reward_accounts
      sample_reward_tokens [PK 506 \<mapsto> 10 ^ 10] sample_store sample_stake_accrued"
proof -
  have run: "process_withdraw_governing_tokens sample_gov_env sample_stake_accounts (PK 40)
     (sample_stake_account (PK 0) False # sample_reward_accounts) sample_reward_tokens [PK 506 \<mapsto> 10 ^ 10]
     (sample_stakes_store (10 ^ 9), sample_store)
       = Ok (sample_stakes_store 0, sample_stake_accrued, SplTransfer (PK 1003) (PK 40) (PK 1002) (10 ^ 9))"
    using sample_stake_checks(4) [of 1000000000]
    by (auto simp: process_withdraw_governing_tokens_def Let_def sample_stake_env sample_stake_checks(1-3,5-)
        sample_stake_accrual [where st = "sample_stakes_store (10 ^ 9)", simplified sample_stake_checks, simplified] simp del: fun_upd_apply)
  have small: "\<forall>t. sample_stakes_store (10 ^ 9) (sk_token_owner_record sample_stake_accounts)
      = Some (TokenOwnerRecordAccount t) \<longrightarrow> governing_token_deposit_amount t < 2 ^ 64"
    by (simp add: sample_stake_defs)
  show ?thesis
    using withdraw_spec [OF run small] run by (auto simp: sample_stake_accounts_def)
qed

end
