(* ===== verification/GovernanceSteps.thy ===== *)
theory GovernanceSteps
  imports VotingBooks GovernanceStakes GovernanceRealms
begin

text \<open>
  What each instruction of the governance program does to the books of \<open>VotingBooks\<close>: most leave them
  alone (\<open>tidy\<close>), the others open or close a proposal or cast, retract or release a vote.
\<close>

section \<open>Changes that leave the books alone\<close>

text \<open>What a transaction account has for its proposal, and whether it has been executed.\<close>

definition content :: "gov_store \<Rightarrow> pubkey \<Rightarrow> pubkey \<Rightarrow> (nat \<times> nat \<times> instruction_data list) option" where
  "content st kp k = (case transactions st k of
     Some pt \<Rightarrow> if pt_proposal pt = kp then Some (option_index pt, transaction_index pt, pt_instructions pt) else None
   | None \<Rightarrow> None)"

definition executed :: "gov_store \<Rightarrow> pubkey \<Rightarrow> bool" where
  "executed st k = (case transactions st k of Some pt \<Rightarrow> executed_at pt \<noteq> None | None \<Rightarrow> False)"

definition settled_transactions :: "gov_store \<Rightarrow> gov_store \<Rightarrow> pubkey \<Rightarrow> bool" where
  "settled_transactions st st' kp \<longleftrightarrow> (\<forall>k. content st' kp k = content st kp k
     \<and> (content st kp k \<noteq> None \<and> executed st k \<longrightarrow> executed st' k))"

text \<open>Every proposal moves forward, with the transactions it had when it left the draft.\<close>

definition advances :: "gov_store \<Rightarrow> gov_store \<Rightarrow> bool" where
  "advances st st' \<longleftrightarrow> (\<forall>k p. proposals st k = Some p \<longrightarrow> (\<exists>p'. proposals st' k = Some p' \<and> forward p p'
     \<and> (pr_state p \<noteq> Draft \<longrightarrow> settled_transactions st st' k)))"

definition calm :: "gov_env \<Rightarrow> gov_store \<Rightarrow> gov_store \<Rightarrow> bool" where
  "calm env st st' \<longleftrightarrow> quiet env st st' \<and> advances st st'"

text \<open>
  Without plugins and membership tokens a weight is a stake, and a stake is only withdrawn once no vote
  holds it back.
\<close>

definition plain_config :: "governing_token_config \<Rightarrow> bool" where
  "plain_config c \<longleftrightarrow> voter_weight_addin c = None \<and> token_type c \<noteq> Membership"

definition plain :: "gov_store \<Rightarrow> bool" where
  "plain st \<longleftrightarrow> (\<forall>k c. configs st k = Some c \<longrightarrow>
     plain_config (community_token_config c) \<and> plain_config (council_token_config c))"

definition stakes_kept :: "gov_store \<Rightarrow> gov_store \<Rightarrow> bool" where
  "stakes_kept st st' \<longleftrightarrow> (\<forall>k t. records st k = Some t \<longrightarrow> (\<exists>t'. records st' k = Some t'
     \<and> (governing_token_deposit_amount t \<le> governing_token_deposit_amount t' \<or> unrelinquished_votes_count t = 0)))"

definition tidy :: "gov_env \<Rightarrow> gov_store \<Rightarrow> gov_store \<Rightarrow> bool" where
  "tidy env st st' \<longleftrightarrow> calm env st st' \<and> stakes_kept st st' \<and> (plain st \<longrightarrow> plain st')"

lemma settled_refl [simp]: "settled_transactions st st k"
  by (simp add: settled_transactions_def)

lemma settled_trans:
  "settled_transactions st st1 k \<Longrightarrow> settled_transactions st1 st2 k \<Longrightarrow> settled_transactions st st2 k"
  by (simp add: settled_transactions_def)

lemma forward_refl [simp]: "forward p p"
  by (simp add: forward_def)

lemma forward_trans: "forward p q \<Longrightarrow> forward q r \<Longrightarrow> forward p r"
  by (auto simp: forward_def)

lemma advances_refl: "advances st st"
  by (simp add: advances_def)

lemma advances_trans:
  assumes "advances st st1" "advances st1 st2"
  shows "advances st st2"
  unfolding advances_def
proof (intro allI impI)
  fix k p assume "proposals st k = Some p"
  then obtain p1 where p1: "proposals st1 k = Some p1" "forward p p1"
      "pr_state p \<noteq> Draft \<longrightarrow> settled_transactions st st1 k"
    using assms(1) unfolding advances_def by blast
  then obtain p2 where p2: "proposals st2 k = Some p2" "forward p1 p2"
      "pr_state p1 \<noteq> Draft \<longrightarrow> settled_transactions st1 st2 k"
    using assms(2) unfolding advances_def by blast
  have "pr_state p \<noteq> Draft \<longrightarrow> pr_state p1 \<noteq> Draft" using p1(2) by (simp add: forward_def)
  then show "\<exists>p'. proposals st2 k = Some p' \<and> forward p p' \<and> (pr_state p \<noteq> Draft \<longrightarrow> settled_transactions st st2 k)"
    using p1 p2 forward_trans [OF p1(2) p2(2)] settled_trans by blast
qed

lemma kept_trans:
  "realm_kept r r1 \<Longrightarrow> realm_kept r1 r2 \<Longrightarrow> realm_kept r r2"
  "governance_kept g g1 \<Longrightarrow> governance_kept g1 g2 \<Longrightarrow> governance_kept g g2"
  "record_kept env k t t1 \<Longrightarrow> record_kept env k t1 t2 \<Longrightarrow> record_kept env k t t2"
  "proposal_kept p p1 \<Longrightarrow> proposal_kept p1 p2 \<Longrightarrow> proposal_kept p p2"
     apply (auto simp: realm_kept_def split: option.splits)[1]
    apply (auto simp: governance_kept_def split: option.splits)[1]
   apply (auto simp: record_kept_def same_holder_def record_address_def split: option.splits)[1]
  apply (auto simp: proposal_kept_def intro: forward_trans split: option.splits)[1]
  done

lemma quiet_trans:
  assumes a: "quiet env st st1" and b: "quiet env st1 st2"
  shows "quiet env st st2"
  unfolding quiet_def
  using quietD(1,2) [OF a] quietD(1,2) [OF b] kept_trans(1) [OF quietD(3) [OF a] quietD(3) [OF b]]
    kept_trans(2) [OF quietD(4) [OF a] quietD(4) [OF b]] kept_trans(3) [OF quietD(5) [OF a] quietD(5) [OF b]]
    kept_trans(4) [OF quietD(6) [OF a] quietD(6) [OF b]] by simp

lemma quiet_refl: "quiet env st st"
  by (simp add: quiet_def)

lemma calm_trans: "calm env st st1 \<Longrightarrow> calm env st1 st2 \<Longrightarrow> calm env st st2"
  unfolding calm_def using quiet_trans advances_trans by blast

lemma tidy_refl [simp]: "tidy env st st"
  by (simp add: tidy_def calm_def quiet_refl advances_refl stakes_kept_def)

lemma tidy_trans:
  assumes "tidy env st st1" "tidy env st1 st2"
  shows "tidy env st st2"
proof -
  have "stakes_kept st st2"
    unfolding stakes_kept_def
  proof (intro allI impI)
    fix k t assume t: "records st k = Some t"
    then obtain t1 where t1: "records st1 k = Some t1"
        "governing_token_deposit_amount t \<le> governing_token_deposit_amount t1 \<or> unrelinquished_votes_count t = 0"
      using assms(1) unfolding tidy_def stakes_kept_def by blast
    then obtain t2 where t2: "records st2 k = Some t2"
        "governing_token_deposit_amount t1 \<le> governing_token_deposit_amount t2 \<or> unrelinquished_votes_count t1 = 0"
      using assms(2) unfolding tidy_def stakes_kept_def by blast
    have "record_kept env k (Some t) (Some t1)"
      using quietD(5) [of env st st1 k] assms(1) t t1(1) by (simp add: tidy_def calm_def)
    then have "unrelinquished_votes_count t1 = unrelinquished_votes_count t" by (simp add: record_kept_def)
    then show "\<exists>t'. records st2 k = Some t' \<and> (governing_token_deposit_amount t \<le> governing_token_deposit_amount t'
        \<or> unrelinquished_votes_count t = 0)"
      using t1 t2 by auto
  qed
  then show ?thesis using assms calm_trans by (auto simp: tidy_def)
qed

section \<open>A change at one address\<close>

definition decoded :: "(gov_account \<Rightarrow> 'a option) \<Rightarrow> gov_account option \<Rightarrow> 'a option" where
  "decoded decode a = (case a of Some x \<Rightarrow> decode x | None \<Rightarrow> None)"

lemma decoded_simps [simp]: "decoded decode None = None" "decoded decode (Some a) = decode a"
  by (simp_all add: decoded_def)

lemma entry_decoded: "entry decode st k = decoded decode (st k)"
  by (simp add: entry_def decoded_def)

lemma entry_fun_upd: "entry decode (st(k := a)) = (entry decode st)(k := decoded decode a)"
  by (auto simp: entry_decoded)

lemma settled_upd:
  assumes "decoded proposal_transaction_of (st k) = None" "decoded proposal_transaction_of a = None"
  shows "settled_transactions st (st(k := a)) kp"
  using assms by (simp add: settled_transactions_def content_def executed_def entry_fun_upd entry_decoded)

lemma calm_upd:
  assumes "decoded vote_record_of (st k) = None" "decoded vote_record_of a = None"
    and "realm_kept (decoded realm_of (st k)) (decoded realm_of a)"
    and "governance_kept (decoded governance_of (st k)) (decoded governance_of a)"
    and "record_kept env k (decoded token_owner_record_of (st k)) (decoded token_owner_record_of a)"
    and "proposal_kept (decoded proposal_of (st k)) (decoded proposal_of a)"
    and tx: "\<And>kp p. proposals st kp = Some p \<Longrightarrow> pr_state p \<noteq> Draft \<Longrightarrow> settled_transactions st (st(k := a)) kp"
  shows "calm env st (st(k := a))"
proof -
  have "finite (dom st) \<longrightarrow> finite (dom (st(k := a)))" by simp
  moreover have "votes (st(k := a)) = votes st"
    unfolding entry_fun_upd using assms(1,2) by (simp add: fun_upd_idem entry_decoded)
  ultimately have "quiet env st (st(k := a))"
    using assms(3-6) by (simp add: quiet_def entry_fun_upd) (simp add: entry_decoded)
  moreover have "advances st (st(k := a))"
    unfolding advances_def
  proof (intro allI impI)
    fix k' p assume p: "proposals st k' = Some p"
    have "proposal_kept (proposals st k') (proposals (st(k := a)) k')"
      using assms(6) by (simp add: entry_fun_upd) (simp add: entry_decoded)
    then obtain p' where "proposals (st(k := a)) k' = Some p'" "forward p p'"
      using p by (auto simp: proposal_kept_def split: option.splits)
    then show "\<exists>p'. proposals (st(k := a)) k' = Some p' \<and> forward p p'
        \<and> (pr_state p \<noteq> Draft \<longrightarrow> settled_transactions st (st(k := a)) k')"
      using tx [OF p] by blast
  qed
  ultimately show ?thesis by (simp add: calm_def)
qed

text \<open>The forms in which the instructions make such changes.\<close>

lemma calm_record:
  assumes "st k = Some (TokenOwnerRecordAccount t)" "same_holder t t'"
    and "unrelinquished_votes_count t' = unrelinquished_votes_count t"
    and "outstanding_proposal_count t' = outstanding_proposal_count t"
  shows "calm env st (st(k \<mapsto> TokenOwnerRecordAccount t'))"
  by (rule calm_upd) (use assms in \<open>auto simp: record_kept_def intro: settled_upd\<close>)

lemma tidy_record:
  assumes "st k = Some (TokenOwnerRecordAccount t)" "same_holder t t'"
    and "unrelinquished_votes_count t' = unrelinquished_votes_count t"
    and "outstanding_proposal_count t' = outstanding_proposal_count t"
    and "governing_token_deposit_amount t \<le> governing_token_deposit_amount t' \<or> unrelinquished_votes_count t = 0"
  shows "tidy env st (st(k \<mapsto> TokenOwnerRecordAccount t'))"
proof -
  have "stakes_kept st (st(k \<mapsto> TokenOwnerRecordAccount t'))"
    using assms by (auto simp: stakes_kept_def entry_fun_upd)
  moreover have "plain st \<longrightarrow> plain (st(k \<mapsto> TokenOwnerRecordAccount t'))"
    by (auto simp: plain_def entry_fun_upd)
  ultimately show ?thesis using calm_record [where st = st and k = k, OF assms(1-4)] by (simp add: tidy_def)
qed

lemma tidy_calm:
  assumes "calm env st (st(k := a))" "decoded token_owner_record_of (st k) = None"
    and "\<And>c. a = Some (RealmConfigAccount c) \<Longrightarrow> plain st \<Longrightarrow>
      plain_config (community_token_config c) \<and> plain_config (council_token_config c)"
  shows "tidy env st (st(k := a))"
proof -
  have "stakes_kept st (st(k := a))"
    using assms(2) by (auto simp: stakes_kept_def entry_fun_upd) (simp add: entry_decoded)
  moreover have "plain (st(k := a))" if "plain st"
    unfolding plain_def
  proof (intro allI impI)
    fix k' c assume "configs (st(k := a)) k' = Some c"
    then have "k' = k \<and> a = Some (RealmConfigAccount c) \<or> configs st k' = Some c"
      by (auto simp: entry_fun_upd decoded_def split: if_splits option.splits)
    then show "plain_config (community_token_config c) \<and> plain_config (council_token_config c)"
      using assms(3) that unfolding plain_def by blast
  qed
  ultimately show ?thesis using assms(1) by (simp add: tidy_def)
qed

lemma tidy_new_record:
  assumes "st k = None" "k = record_address env t" "unrelinquished_votes_count t = 0"
    "outstanding_proposal_count t = 0"
  shows "tidy env st (st(k \<mapsto> TokenOwnerRecordAccount t))"
  by (intro tidy_calm calm_upd settled_upd) (use assms in \<open>auto simp: record_kept_def\<close>)

lemma tidy_governance:
  assumes "st k = Some (GovernanceAccount g)" "gv_realm g' = gv_realm g"
    "active_proposal_count g' = active_proposal_count g"
  shows "tidy env st (st(k \<mapsto> GovernanceAccount g'))"
  by (intro tidy_calm calm_upd settled_upd) (use assms in \<open>auto simp: governance_kept_def\<close>)

lemma tidy_new_governance:
  assumes "st k = None" "active_proposal_count g = 0"
  shows "tidy env st (st(k \<mapsto> GovernanceAccount g))"
  by (intro tidy_calm calm_upd settled_upd) (use assms in \<open>auto simp: governance_kept_def\<close>)

lemma tidy_realm:
  assumes "st k = Some (RealmAccount r)" "community_mint r' = community_mint r"
    "council_mint (rm_config r') \<in> {None, council_mint (rm_config r)}"
  shows "tidy env st (st(k \<mapsto> RealmAccount r'))"
  by (intro tidy_calm calm_upd settled_upd) (use assms in \<open>auto simp: realm_kept_def\<close>)

lemma tidy_new_realm:
  assumes "st k = None" "council_mint (rm_config r) \<noteq> Some (community_mint r)"
  shows "tidy env st (st(k \<mapsto> RealmAccount r))"
  by (intro tidy_calm calm_upd settled_upd) (use assms in \<open>auto simp: realm_kept_def\<close>)

lemma tidy_proposal:
  assumes "st k = Some (ProposalAccount p)" "ballot p' = ballot p" "forward p p'"
    "phase (pr_state p') = phase (pr_state p) \<or> phase (pr_state p) = 0 \<and> phase (pr_state p') = 1"
  shows "tidy env st (st(k \<mapsto> ProposalAccount p'))"
  by (intro tidy_calm calm_upd settled_upd) (use assms in \<open>auto simp: proposal_kept_def\<close>)

text \<open>Accounts that no book is kept of.\<close>

fun besides :: "gov_account \<Rightarrow> bool" where
  "besides (RealmConfigAccount _) = True"
| "besides (SignatoryRecordAccount _) = True"
| "besides (RequiredSignatoryAccount _) = True"
| "besides (ProposalDepositAccount _) = True"
| "besides _ = False"

lemma besides_decode [simp]:
  "besides a \<Longrightarrow> vote_record_of a = None" "besides a \<Longrightarrow> realm_of a = None"
  "besides a \<Longrightarrow> governance_of a = None" "besides a \<Longrightarrow> token_owner_record_of a = None"
  "besides a \<Longrightarrow> proposal_of a = None" "besides a \<Longrightarrow> proposal_transaction_of a = None"
  by (cases a; simp)+

lemma tidy_besides:
  assumes "pred_option besides (st k)" "pred_option besides a"
    and "\<And>c. a = Some (RealmConfigAccount c) \<Longrightarrow> plain st \<Longrightarrow>
      plain_config (community_token_config c) \<and> plain_config (council_token_config c)"
  shows "tidy env st (st(k := a))"
  by (intro tidy_calm calm_upd settled_upd)
    (use assms in \<open>auto simp: decoded_def realm_kept_def governance_kept_def record_kept_def proposal_kept_def
       split: option.splits\<close>)

text \<open>Transactions come and go with a draft, and are executed after the vote.\<close>

lemma tidy_draft_transaction:
  assumes "st k = None \<and> a = Some (ProposalTransactionAccount pt)
      \<or> st k = Some (ProposalTransactionAccount pt) \<and> a = None"
    and "proposals st (pt_proposal pt) = Some p" "pr_state p = Draft"
  shows "tidy env st (st(k := a))"
proof (intro tidy_calm calm_upd)
  fix kp q assume "proposals st kp = Some q" "pr_state q \<noteq> Draft"
  then have "kp \<noteq> pt_proposal pt" using assms(2,3) by auto
  then show "settled_transactions st (st(k := a)) kp"
    using assms(1) by (auto simp: settled_transactions_def content_def executed_def entry_fun_upd entry_decoded)
qed (use assms(1) in auto)

lemma tidy_executed_transaction:
  assumes "st k = Some (ProposalTransactionAccount pt)" "pt_proposal pt' = pt_proposal pt"
    and "option_index pt' = option_index pt" "transaction_index pt' = transaction_index pt"
    and "pt_instructions pt' = pt_instructions pt" "executed_at pt' \<noteq> None"
  shows "tidy env st (st(k \<mapsto> ProposalTransactionAccount pt'))"
  by (intro tidy_calm calm_upd)
    (use assms in \<open>auto simp: settled_transactions_def content_def executed_def entry_fun_upd entry_decoded\<close>)

lemma calm_besides:
  assumes "pred_option besides (st k)" "pred_option besides a"
  shows "calm env st (st(k := a))"
  by (intro calm_upd settled_upd)
    (use assms in \<open>auto simp: decoded_def realm_kept_def governance_kept_def record_kept_def proposal_kept_def
       split: option.splits\<close>)

lemma tidyD: "tidy env st st' \<Longrightarrow> calm env st st'"
  by (simp add: tidy_def)

section \<open>Instructions on token owner records\<close>

lemma create_token_owner_record_tidy:
  "process_create_token_owner_record env realm owner k mint st = Ok st' \<Longrightarrow> tidy env st st'"
  by (auto simp: process_create_token_owner_record_def new_token_owner_record_def record_address_def
      intro!: tidy_new_record split: if_splits)

lemma set_governance_delegate_tidy:
  "process_set_governance_delegate authority k new_delegate st = Ok st' \<Longrightarrow> tidy env st st'"
  by (auto simp: process_set_governance_delegate_def same_holder_def intro!: tidy_record)

text \<open>Locks play no part in the books.\<close>

lemma locks_kept:
  "\<exists>ls. upsert_lock t l = t\<lparr>tor_locks := ls\<rparr>" "\<exists>ls. remove_expired_locks t now = t\<lparr>tor_locks := ls\<rparr>"
  "remove_lock t i authority = Ok t' \<Longrightarrow> \<exists>ls. t' = t\<lparr>tor_locks := ls\<rparr>"
  by (auto simp: upsert_lock_def remove_expired_locks_def remove_lock_def Let_def split: option.splits)

lemma tidy_locks:
  assumes "st k = Some (TokenOwnerRecordAccount t)" "t' = t\<lparr>tor_locks := ls\<rparr>"
  shows "tidy env st (st(k \<mapsto> TokenOwnerRecordAccount t'))"
  by (rule tidy_record [of st k t]) (use assms in \<open>simp_all add: same_holder_def\<close>)

lemma set_token_owner_record_lock_tidy:
  assumes "process_set_token_owner_record_lock env' realm config k authority i expiry st = Ok st'"
  shows "tidy env st st'"
proof -
  obtain t lock where t: "st k = Some (TokenOwnerRecordAccount t)" "st' = st(k \<mapsto> TokenOwnerRecordAccount
      (upsert_lock (remove_expired_locks t (unix_timestamp env')) lock))"
    using assms by (auto simp: process_set_token_owner_record_lock_def Let_def split: if_splits)
  obtain l1 where l1: "remove_expired_locks t (unix_timestamp env') = t\<lparr>tor_locks := l1\<rparr>" using locks_kept(2) by blast
  obtain ls where "upsert_lock (t\<lparr>tor_locks := l1\<rparr>) lock = t\<lparr>tor_locks := l1\<rparr>\<lparr>tor_locks := ls\<rparr>"
    using locks_kept(1) by blast
  then have "upsert_lock (remove_expired_locks t (unix_timestamp env')) lock = t\<lparr>tor_locks := ls\<rparr>" by (simp add: l1)
  then show ?thesis unfolding t(2) by (rule tidy_locks [where st = st and k = k, OF t(1)])
qed

lemma relinquish_locks_tidy:
  assumes "process_relinquish_token_owner_record_locks env' realm config k rest ids st = Ok st'"
  shows "tidy env st st'"
proof -
  obtain t c r t' where t: "st k = Some (TokenOwnerRecordAccount t)"
      "(case ids of None \<Rightarrow> Ok t
        | Some ids \<Rightarrow>
            and_then (next_account_info rest) (\<lambda>(authority, _).
            and_then (get_token_config c r (tor_governing_token_mint t)) (\<lambda>tc.
            if fst authority \<in> set (lock_authorities tc) \<and> \<not> snd authority
              then Err TokenOwnerRecordLockAuthorityMustSign
            else fold_result (\<lambda>t i. remove_lock t i (fst authority)) t ids))) = Ok t'"
      "st' = st(k \<mapsto> TokenOwnerRecordAccount (remove_expired_locks t' (unix_timestamp env')))"
    using assms by (auto simp: process_relinquish_token_owner_record_locks_def)
  have "\<exists>ls. t' = t\<lparr>tor_locks := ls\<rparr>"
  proof (cases ids)
    case None
    then have "t' = t\<lparr>tor_locks := tor_locks t\<rparr>" using t(2) by simp
    then show ?thesis by blast
  next
    case (Some xs)
    then obtain authority where run: "fold_result (\<lambda>t i. remove_lock t i authority) t xs = Ok t'"
      using t(2) by (auto split: if_splits prod.splits)
    show ?thesis
    proof (rule fold_result_invariant [OF _ _ run, where I = "\<lambda>u. \<exists>ls. u = t\<lparr>tor_locks := ls\<rparr>"])
      show "\<exists>ls. t = t\<lparr>tor_locks := ls\<rparr>" by (rule exI [of _ "tor_locks t"]) simp
    next
      fix u x u' assume u: "\<exists>ls. u = t\<lparr>tor_locks := ls\<rparr>" "remove_lock u x authority = Ok u'"
      then obtain ls where "u' = u\<lparr>tor_locks := ls\<rparr>" using locks_kept(3) by blast
      then show "\<exists>ls. u' = t\<lparr>tor_locks := ls\<rparr>" using u(1) by auto
    qed
  qed
  then obtain l1 where l1: "t' = t\<lparr>tor_locks := l1\<rparr>" by blast
  obtain ls where "remove_expired_locks t' (unix_timestamp env') = t'\<lparr>tor_locks := ls\<rparr>"
    using locks_kept(2) by blast
  then have "remove_expired_locks t' (unix_timestamp env') = t\<lparr>tor_locks := ls\<rparr>" by (simp add: l1)
  then show ?thesis unfolding t(3) by (rule tidy_locks [where st = st and k = k, OF t(1)])
qed

section \<open>Instructions on realms and governances\<close>

lemma tidy_two: "tidy env st (st(k := a)) \<Longrightarrow> tidy env (st(k := a)) (st(k := a, k' := b))
  \<Longrightarrow> tidy env st (st(k := a, k' := b))"
  by (rule tidy_trans)

definition plain_args :: "realm_config_args \<Rightarrow> bool" where
  "plain_args args \<longleftrightarrow> (\<forall>c \<in> {community_token_config_args args, council_token_config_args args}.
     \<not> use_voter_weight_addin c \<and> arg_token_type c \<noteq> Membership)"

lemma resolve_config_plain:
  "resolve_governing_token_config iter args old = Ok (c, rest) \<Longrightarrow> \<not> use_voter_weight_addin args
    \<Longrightarrow> arg_token_type args \<noteq> Membership \<Longrightarrow> plain_config c"
  by (auto simp: resolve_governing_token_config_def optional_account_def plain_config_def)

lemma set_realm_authority_tidy:
  "process_set_realm_authority realm authority rest action st = Ok st' \<Longrightarrow> tidy env st st'"
  by (auto simp: process_set_realm_authority_def get_realm_data_for_authority_def
      intro!: tidy_realm split: if_splits option.splits)

lemma create_governance_tidy:
  "process_create_governance env' realm k seed record authority rest config st = Ok st' \<Longrightarrow> tidy env st st'"
  by (auto simp: process_create_governance_def Let_def intro!: tidy_new_governance)

lemma set_governance_config_tidy:
  "process_set_governance_config k config st = Ok st' \<Longrightarrow> tidy env st st'"
  by (auto simp: process_set_governance_config_def intro!: tidy_governance split: if_splits)

lemma add_required_signatory_tidy:
  "process_add_required_signatory env' governance k signatory st = Ok st' \<Longrightarrow> tidy env st st'"
  by (auto simp: process_add_required_signatory_def
      intro!: tidy_two [OF tidy_governance tidy_besides] split: if_splits)

lemma remove_required_signatory_tidy:
  "process_remove_required_signatory governance k st = Ok st' \<Longrightarrow> tidy env st st'"
  by (auto simp: process_remove_required_signatory_def dispose_account_def get_required_signatory_data_for_governance_def
      intro!: tidy_two [OF tidy_governance tidy_besides] split: if_splits)

text \<open>A realm whose council were its community would need the same holding account twice.\<close>

lemma create_realm_calm:
  assumes "process_create_realm env' realm authority mint holding rest name args st = Ok (st', hs)"
  shows "calm env st st' \<and> (plain_args args \<longrightarrow> tidy env st st')"
proof -
  obtain k cc oc m i1 i2 i3 st1 where run:
      "create_and_serialize_account_signed env' st k (RealmConfigAccount
        \<lparr>rc_realm = realm, community_token_config = cc, council_token_config = oc\<rparr>)
        (get_realm_config_address_seeds realm) = Ok st1"
      "create_and_serialize_account_signed env' st1 realm (RealmAccount \<lparr>community_mint = mint,
             rm_config = \<lparr>min_community_weight_to_create_governance
                 = arg_min_community_weight_to_create_governance args,
               community_mint_max_voter_weight_source = arg_community_mint_max_voter_weight_source args,
               council_mint = m\<rparr>,
             realm_authority = Some authority, realm_name = name\<rparr>) (get_realm_address_seeds name) = Ok st'"
      "resolve_governing_token_config i1 (community_token_config_args args) None = Ok (cc, i2)"
      "resolve_governing_token_config i2 (council_token_config_args args) None = Ok (oc, i3)"
      "\<forall>x. m = Some x \<longrightarrow> gov_address env' (get_governing_token_holding_address_seeds realm x)
         \<noteq> gov_address env' (get_governing_token_holding_address_seeds realm mint)"
    using assms
    by (auto simp: process_create_realm_def create_spl_token_account_signed_def simp del: create_Ok split: if_splits)
  then have c0: "st k = None" "(st(k \<mapsto> RealmConfigAccount
        \<lparr>rc_realm = realm, community_token_config = cc, council_token_config = oc\<rparr>)) realm = None"
      "st' = st(k \<mapsto> RealmConfigAccount \<lparr>rc_realm = realm, community_token_config = cc, council_token_config = oc\<rparr>,
        realm \<mapsto> RealmAccount \<lparr>community_mint = mint,
             rm_config = \<lparr>min_community_weight_to_create_governance
                 = arg_min_community_weight_to_create_governance args,
               community_mint_max_voter_weight_source = arg_community_mint_max_voter_weight_source args,
               council_mint = m\<rparr>,
             realm_authority = Some authority, realm_name = name\<rparr>)"
    by (metis create_Ok)+
  define c where "c = \<lparr>rc_realm = realm, community_token_config = cc, council_token_config = oc\<rparr>"
  define r where "r = \<lparr>community_mint = mint, rm_config = \<lparr>min_community_weight_to_create_governance
                 = arg_min_community_weight_to_create_governance args,
               community_mint_max_voter_weight_source = arg_community_mint_max_voter_weight_source args,
               council_mint = m\<rparr>, realm_authority = Some authority, realm_name = name\<rparr>"
  have c: "st k = None" "(st(k \<mapsto> RealmConfigAccount c)) realm = None"
      "resolve_governing_token_config i1 (community_token_config_args args) None = Ok (community_token_config c, i2)"
      "resolve_governing_token_config i2 (council_token_config_args args) None = Ok (council_token_config c, i3)"
      "st' = st(k \<mapsto> RealmConfigAccount c, realm \<mapsto> RealmAccount r)"
      "council_mint (rm_config r) \<noteq> Some (community_mint r)"
    using c0 run(3-5) by (auto simp: c_def r_def)
  have r: "tidy env (st(k \<mapsto> RealmConfigAccount c)) st'"
    unfolding c(5) by (rule tidy_new_realm) (use c(2,6) in simp_all)
  have k: "calm env st (st(k \<mapsto> RealmConfigAccount c))" by (rule calm_besides) (use c(1) in simp_all)
  have "tidy env st (st(k \<mapsto> RealmConfigAccount c))" if "plain_args args"
    by (rule tidy_besides) (use c(1) resolve_config_plain [OF c(3)] resolve_config_plain [OF c(4)] that
        in \<open>simp_all add: plain_args_def\<close>)
  then show ?thesis using calm_trans [OF k tidyD [OF r]] tidy_trans [OF _ r] by blast
qed

lemma realm_config_loaded:
  assumes "get_realm_config_data_for_realm env' st k realm = Ok c"
  shows "st k = None \<or> st k = Some (RealmConfigAccount c)"
    "plain st \<Longrightarrow> plain_config (community_token_config c) \<and> plain_config (council_token_config c)"
  using assms
  by (auto simp: get_realm_config_data_for_realm_def plain_def entry_Some plain_config_def
      default_token_config_def split: if_splits)

lemma serialize_realm_config_Ok:
  "serialize_realm_config env' st k c = Ok st' \<Longrightarrow> st' = st(k \<mapsto> RealmConfigAccount c)"
  by (auto simp: serialize_realm_config_def split: if_splits)

lemma set_realm_config_calm:
  assumes "process_set_realm_config env' realm authority rest args st = Ok st'"
  shows "calm env st st' \<and> (plain_args args \<longrightarrow> tidy env st st')"
proof -
  obtain k cc oc c0 r m i1 i2 i3 where r: "st realm = Some (RealmAccount r)"
      "get_realm_config_data_for_realm env' st k realm = Ok c0"
      "resolve_governing_token_config i1 (community_token_config_args args)
        (Some (community_token_config c0)) = Ok (cc, i2)"
      "resolve_governing_token_config i2 (council_token_config_args args)
        (Some (council_token_config c0)) = Ok (oc, i3)"
      "st' = st(k \<mapsto> RealmConfigAccount (c0\<lparr>community_token_config := cc, council_token_config := oc\<rparr>),
        realm \<mapsto> RealmAccount (r\<lparr>rm_config := \<lparr>min_community_weight_to_create_governance
              = arg_min_community_weight_to_create_governance args,
            community_mint_max_voter_weight_source = arg_community_mint_max_voter_weight_source args,
            council_mint = m\<rparr>\<rparr>))" "m \<in> {None, council_mint (rm_config r)}"
    using assms
    by (auto simp: process_set_realm_config_def get_realm_data_for_authority_def
        dest!: serialize_realm_config_Ok split: if_splits option.splits)
  define c where "c = c0\<lparr>community_token_config := cc, council_token_config := oc\<rparr>"
  define r' where "r' = r\<lparr>rm_config := \<lparr>min_community_weight_to_create_governance
              = arg_min_community_weight_to_create_governance args,
            community_mint_max_voter_weight_source = arg_community_mint_max_voter_weight_source args,
            council_mint = m\<rparr>\<rparr>"
  have c: "st realm = Some (RealmAccount r)" "get_realm_config_data_for_realm env' st k realm = Ok c0"
      "resolve_governing_token_config i1 (community_token_config_args args)
        (Some (community_token_config c0)) = Ok (community_token_config c, i2)"
      "resolve_governing_token_config i2 (council_token_config_args args)
        (Some (council_token_config c0)) = Ok (council_token_config c, i3)"
      "st' = st(k \<mapsto> RealmConfigAccount c, realm \<mapsto> RealmAccount r')"
      "community_mint r' = community_mint r" "council_mint (rm_config r') \<in> {None, council_mint (rm_config r)}"
    using r by (simp_all add: c_def r'_def)
  have kr: "k \<noteq> realm" using realm_config_loaded(1) [OF c(2)] c(1) by auto
  have r: "tidy env (st(k \<mapsto> RealmConfigAccount c)) st'"
    unfolding c(5) by (rule tidy_realm [of _ _ r]) (use c(1,6,7) kr in auto)
  have old: "pred_option besides (st k)" using realm_config_loaded(1) [OF c(2)] by auto
  then have k: "calm env st (st(k \<mapsto> RealmConfigAccount c))" by (rule calm_besides) simp
  have "tidy env st (st(k \<mapsto> RealmConfigAccount c))" if "plain_args args"
    by (rule tidy_besides) (use old resolve_config_plain [OF c(3)] resolve_config_plain [OF c(4)] that
        in \<open>simp_all add: plain_args_def\<close>)
  then show ?thesis using calm_trans [OF k tidyD [OF r]] tidy_trans [OF _ r] by blast
qed

lemma change_lock_authority_plain:
  "change_lock_authority action authority tc = Ok tc' \<Longrightarrow> plain_config tc' \<longleftrightarrow> plain_config tc"
  by (auto simp: change_lock_authority_def plain_config_def split: set_config_item_action.splits if_splits option.splits)

lemma set_realm_config_item_tidy:
  assumes "process_set_realm_config_item env' realm k authority action mint la st = Ok st'"
  shows "tidy env st st'"
proof -
  obtain c0 c where c: "get_realm_config_data_for_realm env' st k realm = Ok c0"
      "st' = st(k \<mapsto> RealmConfigAccount c)"
      "plain_config (community_token_config c) \<longleftrightarrow> plain_config (community_token_config c0)"
      "plain_config (council_token_config c) \<longleftrightarrow> plain_config (council_token_config c0)"
    using assms
    by (fastforce simp: process_set_realm_config_item_def dest: serialize_realm_config_Ok
        change_lock_authority_plain split: if_splits)
  show ?thesis
    unfolding c(2) by (rule tidy_besides) (use realm_config_loaded [OF c(1)] c(3,4) in auto)
qed

section \<open>Instructions on stakes\<close>

lemma deposit_tidy:
  assumes "process_deposit_governing_tokens env' a source authority rest reward_tokens_at amount_of amount (st, store)
      = Ok (st', store', i)" "gov_address env' = gov_address env"
  shows "tidy env st st'"
proof -
  let ?k = "sk_token_owner_record a"
  obtain mint st1 t where t: "gov_address env (get_token_owner_record_address_seeds (sk_realm a) mint (fst (sk_owner a))) = ?k"
      "if st ?k = None then t = new_token_owner_record (sk_realm a) mint (fst (sk_owner a))
          \<and> st1 = st(?k \<mapsto> TokenOwnerRecordAccount t)
       else st ?k = Some (TokenOwnerRecordAccount t) \<and> st1 = st"
      "st' = st(?k \<mapsto> TokenOwnerRecordAccount
        (t\<lparr>governing_token_deposit_amount := governing_token_deposit_amount t + amount\<rparr>))"
    using deposit_Ok [OF assms(1)] assms(2) by metis
  let ?t = "t\<lparr>governing_token_deposit_amount := governing_token_deposit_amount t + amount\<rparr>"
  show ?thesis
  proof (cases "st ?k")
    case None
    then have "k = record_address env ?t \<longleftrightarrow> k = ?k" for k
      using t(1,2) by (auto simp: record_address_def new_token_owner_record_def)
    then show ?thesis
      unfolding t(3) using None t(2) by (intro tidy_new_record) (auto simp: new_token_owner_record_def)
  next
    case (Some x)
    then show ?thesis unfolding t(3) using t(2) by (intro tidy_record) (auto simp: same_holder_def)
  qed
qed

lemma withdraw_tidy:
  assumes "process_withdraw_governing_tokens env' a destination rest reward_tokens_at amount_of (st, store)
      = Ok (st', store', i)"
  shows "tidy env st st'"
proof -
  obtain t where "st (sk_token_owner_record a) = Some (TokenOwnerRecordAccount t)"
      "assert_can_withdraw_governing_tokens t (unix_timestamp env') = Ok ()"
      "st' = st(sk_token_owner_record a \<mapsto> TokenOwnerRecordAccount (t\<lparr>governing_token_deposit_amount := 0\<rparr>))"
    using withdraw_Ok [OF assms] by blast
  then show ?thesis
    by (auto simp: same_holder_def assert_can_withdraw_governing_tokens_def intro!: tidy_record split: if_splits)
qed

text \<open>Only membership tokens are revoked.\<close>

lemma revoke_calm:
  assumes "process_revoke_governing_tokens env' realm holding k mint authority config amount st = Ok (st', i)"
  shows "calm env st st' \<and> (plain st \<longrightarrow> tidy env st st')"
proof -
  obtain r c t where t: "get_realm_config_data_for_realm env' st config realm = Ok c"
      "assert_can_revoke_governing_token c r mint = Ok ()" "st k = Some (TokenOwnerRecordAccount t)"
      "st' = st(k \<mapsto> TokenOwnerRecordAccount
        (t\<lparr>governing_token_deposit_amount := governing_token_deposit_amount t - amount\<rparr>))"
    using revoke_Ok [OF assms] by blast
  have "\<not> plain st"
    using realm_config_loaded(2) [OF t(1)] t(2)
    by (auto simp: assert_can_revoke_governing_token_def get_token_config_def plain_config_def
        split: if_splits governing_token_type.splits)
  moreover have "calm env st st'"
    unfolding t(4) by (rule calm_record [where st = st and k = k, OF t(3)]) (simp_all add: same_holder_def)
  ultimately show ?thesis by blast
qed

section \<open>Instructions on proposals before and after the vote\<close>

lemma tidy_proposal_same:
  assumes "st k = Some (ProposalAccount p)" "ballot p' = ballot p" "results p' = results p" "pr_state p' = pr_state p"
  shows "tidy env st (st(k \<mapsto> ProposalAccount p'))"
  by (rule tidy_proposal [of st k p]) (use assms in \<open>auto simp: forward_def dest: ballot_fields\<close>)

lemma option_updated:
  assumes "i < length opts" "vote_weight x = vote_weight (opts ! i)" "vote_result x = vote_result (opts ! i)"
  shows "map vote_weight (opts[i := x]) = map vote_weight opts" "map vote_result (opts[i := x]) = map vote_result opts"
  using assms by (simp_all add: map_update list_update_same_conv)

lemma add_signatory_tidy:
  assumes "process_add_signatory env' governance k sk rest signatory st = Ok st'"
  shows "tidy env st st'"
proof -
  obtain p st1 n where p: "st k = Some (ProposalAccount p)"
      "create_and_serialize_account_signed env' st sk
         (SignatoryRecordAccount \<lparr>sr_proposal = k, sr_signatory = signatory, signed_off = False\<rparr>)
         (get_signatory_record_address_seeds k signatory) = Ok st1"
      "st' = st1(k \<mapsto> ProposalAccount (p\<lparr>signatories_count := n\<rparr>))"
    using assms by (auto simp: process_add_signatory_def simp del: create_Ok split: if_splits)
  have st1: "st sk = None"
      "st1 = st(sk \<mapsto> SignatoryRecordAccount \<lparr>sr_proposal = k, sr_signatory = signatory, signed_off = False\<rparr>)"
    using p(2) by auto
  have "tidy env st st1" unfolding st1(2) by (rule tidy_besides) (use st1(1) in simp_all)
  moreover have "st1 k = Some (ProposalAccount p)" using st1 p(1) by auto
  then have "tidy env st1 st'" unfolding p(3) by (rule tidy_proposal_same) (simp_all add: ballot_def results_def)
  ultimately show ?thesis by (rule tidy_trans)
qed

lemma assert_draft:
  "assert_can_edit_instructions p = Ok x \<Longrightarrow> pr_state p = Draft"
  by (auto simp: assert_can_edit_instructions_def assert_is_draft_state_def is_ok_def split: if_splits)

lemma insert_transaction_tidy:
  assumes "process_insert_transaction env' governance k record authority kt oi ii instrs st = Ok st'"
  shows "tidy env st st'"
proof -
  obtain p opt where p: "st k = Some (ProposalAccount p)"
    and run: "create_and_serialize_account_signed env'
          (st(k \<mapsto> ProposalAccount (p\<lparr>pr_options := (pr_options p)[oi := opt]\<rparr>))) kt
        (ProposalTransactionAccount \<lparr>pt_proposal = k, option_index = oi,
           transaction_index = ii, pt_instructions = instrs, executed_at = None,
           execution_status = NotExecuted\<rparr>)
        (get_proposal_transaction_address_seeds k oi ii) = Ok st'"
    and draft: "pr_state p = Draft" "oi < length (pr_options p)" "st kt = None"
      "vote_weight opt = vote_weight (pr_options p ! oi)" "vote_result opt = vote_result (pr_options p ! oi)"
    using assms by (auto simp: process_insert_transaction_def nth_option_def Let_def dest: assert_draft
        simp del: create_Ok split: if_splits)
  let ?p = "p\<lparr>pr_options := (pr_options p)[oi := opt]\<rparr>"
  have "tidy env st (st(k \<mapsto> ProposalAccount ?p))"
    by (rule tidy_proposal_same [where st = st and k = k, OF p])
      (use option_updated [OF draft(2,4,5)] in \<open>simp_all add: ballot_def results_def\<close>)
  moreover have "tidy env (st(k \<mapsto> ProposalAccount ?p)) st'"
  proof -
    have "st' = st(k \<mapsto> ProposalAccount ?p, kt \<mapsto> ProposalTransactionAccount \<lparr>pt_proposal = k, option_index = oi,
           transaction_index = ii, pt_instructions = instrs, executed_at = None, execution_status = NotExecuted\<rparr>)"
      using run by simp
    moreover have "(st(k \<mapsto> ProposalAccount ?p)) kt = None" using p draft(3) by auto
    ultimately show ?thesis by (auto intro!: tidy_draft_transaction simp: draft(1))
  qed
  ultimately show ?thesis by (rule tidy_trans)
qed

lemma remove_transaction_tidy:
  assumes "process_remove_transaction k record authority kt st = Ok st'"
  shows "tidy env st st'"
proof -
  obtain p pt opt n where p: "st k = Some (ProposalAccount p)" "pr_state p = Draft"
      "st kt = Some (ProposalTransactionAccount pt)" "pt_proposal pt = k" "option_index pt < length (pr_options p)"
      "opt = (pr_options p ! option_index pt)\<lparr>transactions_count := n\<rparr>"
      "st' = (st(kt := None))(k \<mapsto> ProposalAccount (p\<lparr>pr_options := (pr_options p)[option_index pt := opt]\<rparr>))"
    using assms
    by (auto simp: process_remove_transaction_def get_proposal_transaction_data_for_proposal_def nth_option_def
        Let_def dispose_account_def dest: assert_draft split: if_splits)
  have "tidy env st (st(kt := None))"
    by (rule tidy_draft_transaction [of st kt _ pt p]) (use p in \<open>auto simp: entry_Some\<close>)
  moreover have "(st(kt := None)) k = Some (ProposalAccount p)" using p(1,3) by auto
  then have "tidy env (st(kt := None)) st'"
    unfolding p(7)
    by (rule tidy_proposal_same) (use option_updated [OF p(5)] p(6) in \<open>simp_all add: ballot_def results_def\<close>)
  ultimately show ?thesis by (rule tidy_trans)
qed

lemma sign_off_by_Ok:
  assumes "sign_off_by env' k p signatory rest st = Ok (st1, p1)"
  shows "ballot p1 = ballot p" "results p1 = results p" "pr_state p1 \<in> {pr_state p, SigningOff}"
    "st1 = st \<or> (\<exists>ks sr sr'. st ks = Some (SignatoryRecordAccount sr) \<and> st1 = st(ks \<mapsto> SignatoryRecordAccount sr'))"
  using assms
  by (auto simp: sign_off_by_def get_signatory_record_data_for_seeds_def ballot_def results_def Let_def split: if_splits)

lemma sign_off_proposal_tidy:
  assumes "process_sign_off_proposal env' realm governance k signatory rest st = Ok st'"
  shows "tidy env st st'"
proof -
  obtain p st1 p1 where p: "st k = Some (ProposalAccount p)" "pr_state p \<in> {Draft, SigningOff}"
      "sign_off_by env' k p signatory rest st = Ok (st1, p1)"
    and st': "st' = st1(k \<mapsto> ProposalAccount (if signatories_signed_off_count p1 = signatories_count p1
       then p1\<lparr>voting_at := Some (unix_timestamp env'), voting_at_slot := Some (slot env'), pr_state := Voting\<rparr>
       else p1))"
    using assms unfolding process_sign_off_proposal_def
    by (auto simp: Let_def assert_can_sign_off_def split: if_split_asm)
  note signed = sign_off_by_Ok [OF p(3)]
  have "tidy env st st1" using signed(4) by (auto intro!: tidy_besides)
  moreover have "st1 k = Some (ProposalAccount p)" using p(1) signed(4) by auto
  then have "tidy env st1 st'"
    unfolding st'
    by (rule tidy_proposal) (use p(2) signed(1-3) in \<open>auto simp: forward_def ballot_def results_def\<close>)
  ultimately show ?thesis by (rule tidy_trans)
qed

lemma complete_proposal_tidy:
  "process_complete_proposal env' k record authority st = Ok st' \<Longrightarrow> tidy env st st'"
  by (auto simp: process_complete_proposal_def assert_can_complete_def forward_def ballot_def results_def
      intro!: tidy_proposal split: if_splits)

lemma refund_proposal_deposit_tidy:
  "process_refund_proposal_deposit k deposit payer st = Ok st' \<Longrightarrow> tidy env st st'"
  by (auto simp: process_refund_proposal_deposit_def get_proposal_deposit_data_for_proposal_and_deposit_payer_def
      dispose_account_def intro!: tidy_besides split: if_splits)

section \<open>A new proposal\<close>

lemma take_proposal_deposit_Ok:
  "take_proposal_deposit env' a g rest st = Ok st' \<Longrightarrow>
     st' = st \<or> (\<exists>k d. st k = None \<and> st' = st(k \<mapsto> ProposalDepositAccount d))"
  by (auto simp: take_proposal_deposit_def split: if_splits)

lemma entry_idem:
  "decoded decode (st k) = None \<Longrightarrow> decoded decode a = None \<Longrightarrow> entry decode (st(k := a)) = entry decode st"
  by (simp add: entry_fun_upd fun_upd_idem entry_decoded)

lemma create_proposal_opens:
  assumes "process_create_proposal env' a rest name link t opts deny seed st = Ok st'"
  shows "\<exists>p mid. opens st (cp_proposal a) p mid \<and> tidy env mid st'"
proof -
  let ?p = "new_proposal (cp_governance a) (cp_governing_token_mint a) (cp_proposal_owner_record a) name link t opts
      deny (unix_timestamp env')"
  let ?ko = "cp_proposal_owner_record a" and ?kg = "cp_governance a" and ?k = "cp_proposal a"
  obtain r g g' owner owner' rest2 st3 where o: "st (cp_realm a) = Some (RealmAccount r)"
      "st ?kg = Some (GovernanceAccount g)" "gv_realm g = cp_realm a"
      "st ?ko = Some (TokenOwnerRecordAccount owner)" "st ?k = None"
    and st3: "take_proposal_deposit env' a g' rest2
        (st(?ko \<mapsto> TokenOwnerRecordAccount owner', ?k \<mapsto> ProposalAccount ?p)) = Ok st3"
      "st' = st3(?kg \<mapsto> GovernanceAccount g')"
    and new: "owner' = owner\<lparr>outstanding_proposal_count := outstanding_proposal_count owner + 1\<rparr>"
      "g' = (current_governance g)\<lparr>active_proposal_count := active_proposal_count g + 1\<rparr>"
    using assms by (auto simp: process_create_proposal_def Let_def split: if_split_asm)
  let ?st2 = "st(?ko \<mapsto> TokenOwnerRecordAccount owner', ?k \<mapsto> ProposalAccount ?p)"
  let ?mid = "?st2(?kg \<mapsto> GovernanceAccount g')"
  have keys: "?ko \<noteq> ?k" "?kg \<noteq> ?k" "?ko \<noteq> ?kg" using o by auto
  have maps: "same_rest st ?mid" "votes ?mid = votes st" "proposals ?mid = (proposals st)(?k \<mapsto> ?p)"
      "records ?mid = (records st)(?ko \<mapsto> owner')" "governances ?mid = (governances st)(?kg \<mapsto> g')"
    using o keys by (auto simp: same_rest_def entry_decoded fun_eq_iff)
  have "\<exists>t t'. records st ?ko = Some t \<and> same_stake t t'
      \<and> unrelinquished_votes_count t' = unrelinquished_votes_count t
      \<and> outstanding_proposal_count t' = outstanding_proposal_count t + 1
      \<and> (records st)(?ko \<mapsto> owner') = (records st)(?ko \<mapsto> t')"
    by (rule exI [of _ owner], rule exI [of _ owner'])
      (use o in \<open>simp add: new(1) same_stake_def same_holder_def\<close>)
  moreover have "\<exists>x x' r. governances st ?kg = Some x \<and> gv_realm x' = gv_realm x
      \<and> realms st (gv_realm x) = Some r \<and> active_proposal_count x' = active_proposal_count x + 1
      \<and> (governances st)(?kg \<mapsto> g') = (governances st)(?kg \<mapsto> x')"
    by (rule exI [of _ g], rule exI [of _ g'], rule exI [of _ r])
      (use o in \<open>simp add: new(2) current_governance_def\<close>)
  ultimately have "opens st ?k ?p ?mid"
    unfolding opens_def maps using o maps(1)
    by (simp add: new_proposal_def deny_weight_def)
  moreover have "tidy env ?mid st'"
    using take_proposal_deposit_Ok [OF st3(1)]
  proof
    assume "st3 = ?st2"
    then show ?thesis by (simp add: st3(2))
  next
    assume "\<exists>k d. ?st2 k = None \<and> st3 = ?st2(k \<mapsto> ProposalDepositAccount d)"
    then obtain k d where d: "?st2 k = None" "st3 = ?st2(k \<mapsto> ProposalDepositAccount d)" by blast
    have "?st2 ?kg \<noteq> None" using o(2) by simp
    then have kg: "k \<noteq> ?kg" using d(1) by metis
    have "st' = ?mid(k \<mapsto> ProposalDepositAccount d)" unfolding st3(2) d(2) using kg by (rule fun_upd_twist)
    moreover have "tidy env ?mid (?mid(k \<mapsto> ProposalDepositAccount d))"
      by (rule tidy_besides) (use d(1) kg in simp_all)
    ultimately show ?thesis by simp
  qed
  ultimately show ?thesis by blast
qed

end
