(* ===== verification/BallotSteps.thy ===== *)
theory BallotSteps
  imports GovernanceSteps
begin

text \<open>
  What the instructions that vote do to the books: casting a vote counts it, and may close the proposal
  at once; relinquishing takes it back while the vote goes on and releases it afterwards; finalizing and
  cancelling close the proposal; executing a transaction marks it.
\<close>

section \<open>Counting a vote\<close>

text \<open>\<open>R a b c\<close> holds of a weight \<open>a\<close>, a vote \<open>b\<close> and the weight \<open>c\<close> after it.\<close>

lemma choose_options_related:
  assumes R: "\<And>a b c. f a b = Some c \<Longrightarrow> R a b c" "\<And>a. R a 0 a"
  shows "choose_options f w opts cs = Ok opts' \<Longrightarrow> length opts' = length opts
    \<and> map vote_result opts' = map vote_result opts
    \<and> (\<forall>i < length opts. R (vote_weight (opts ! i)) (if i < length cs then choice_weight (cs ! i) w else 0)
         (vote_weight (opts' ! i)))"
proof (induction opts arbitrary: cs opts')
  case Nil
  then show ?case by simp
next
  case (Cons opt opts)
  show ?case
  proof (cases cs)
    case Nil
    then show ?thesis using Cons.prems R(2) by simp
  next
    case (Cons choice choices)
    obtain x total rest where r: "get_choice_weight choice w = Ok x" "f (vote_weight opt) x = Some total"
        "choose_options f w opts choices = Ok rest" "opts' = opt\<lparr>vote_weight := total\<rparr> # rest"
      using Cons.prems unfolding Cons by auto
    have "choice_weight choice w = x" using r(1) by (simp add: choice_weight_def)
    then have "R (vote_weight opt) (choice_weight choice w) total" using R(1) [OF r(2)] by simp
    then show ?thesis
      using Cons.IH [OF r(3)] unfolding Cons r(4) by (auto simp: nth_Cons split: nat.split)
  qed
qed

lemma count_vote_related:
  assumes R: "\<And>a b c. f a b = Some c \<Longrightarrow> R a b c" "\<And>a. R a 0 a"
    and count: "count_vote f (vr_vote v) (voter_weight v) p = Ok p'"
  shows "length (pr_options p') = length (pr_options p)
    \<and> (\<forall>i < length (pr_options p). R (vote_weight (pr_options p ! i)) (option_part i v) (vote_weight (pr_options p' ! i)))
    \<and> R (deny_weight p) (deny_part v) (deny_weight p') \<and> R (veto_vote_weight p) (veto_part v) (veto_vote_weight p')
    \<and> pr_governance p' = pr_governance p \<and> pr_governing_token_mint p' = pr_governing_token_mint p
    \<and> pr_token_owner_record p' = pr_token_owner_record p \<and> pr_state p' = pr_state p"
proof (cases "vr_vote v")
  case (Approve cs)
  then obtain opts where opts: "choose_options f (voter_weight v) (pr_options p) cs = Ok opts" "p' = p\<lparr>pr_options := opts\<rparr>"
    using count by (auto simp: count_vote_def)
  then show ?thesis
    using choose_options_related [where R = R, OF R opts(1)] Approve R(2)
    by (simp add: option_part_def deny_part_def veto_part_def deny_weight_def)
qed (use count R in \<open>auto simp: count_vote_def option_part_def deny_part_def veto_part_def deny_weight_def\<close>)

lemma checked_eq:
  "checked_add n a b = Some c \<Longrightarrow> c = a + b" "checked_sub a b = Some c \<Longrightarrow> a = c + b"
  by (auto simp: checked_add_def checked_sub_def split: if_splits)

text \<open>Counting adds the vote to the weights, and counting back takes it away.\<close>

lemma count_vote_adds:
  assumes "count_vote (checked_add n) (vr_vote v) (voter_weight v) p = Ok p'"
  shows "adds v p p'"
  using count_vote_related [where R = "\<lambda>a b c. c = a + b", OF checked_eq(1) _ assms] by (simp add: adds_def)

lemma count_vote_removes:
  assumes "count_vote checked_sub (vr_vote v) (voter_weight v) p = Ok p'"
  shows "adds v p' p"
  using count_vote_related [where R = "\<lambda>a b c. a = c + b", OF checked_eq(2) _ assms] by (simp add: adds_def)

section \<open>Deciding a vote\<close>

text \<open>A decision changes the results of the options and the state, never the weights.\<close>

lemma resolve_options_weights:
  "resolve_options m deny opts w n = Ok (opts', best) \<Longrightarrow> map vote_weight opts' = map vote_weight opts"
  by (induction opts arbitrary: opts' w n best) (auto split: if_splits)

lemma coerce_weights [simp]: "map vote_weight (coerce_vote_results w opts) = map vote_weight opts"
  by (simp add: coerce_vote_results_def)

lemma finalize_vote_ballot:
  assumes "finalize_vote p m config now threshold = Ok p'"
  shows "ballot p' = ballot p" "2 \<le> phase (pr_state p')" "pr_state p = Voting"
proof -
  obtain q s where q: "resolve_final_vote_state p m threshold = Ok (q, s)" "pr_state p = Voting"
      "ballot p' = ballot q" "pr_state p' = s"
    using assms by (auto simp: finalize_vote_def assert_can_finalize_vote_def assert_is_voting_state_def
        map_err_def ballot_def split: if_splits)
  have "ballot q = ballot p \<and> 2 \<le> phase s"
    using q(1) by (auto simp: resolve_final_vote_state_def ballot_def Let_def dest: resolve_options_weights
        split: if_split_asm vote_type.splits)
  then show "ballot p' = ballot p" "2 \<le> phase (pr_state p')" "pr_state p = Voting" using q by simp_all
qed

lemma tipped_electorate_ballot:
  assumes "try_get_tipped_electorate_vote_state p m tipping min_weight = (p', tipped)"
  shows "ballot p' = ballot p \<and> (case tipped of Some s \<Rightarrow> 2 \<le> phase s | None \<Rightarrow> p' = p)"
  using assms
  by (cases "pr_vote_type p"; cases "deny_vote_weight p"; cases "pr_options p"; cases "tl (pr_options p)")
    (auto simp: try_get_tipped_electorate_vote_state_def ballot_def Let_def split: if_split_asm)

lemma try_tip_vote_ballot:
  assumes "try_tip_vote p m tipping now threshold kind = Ok (p', tipped)"
  shows "ballot p' = ballot p \<and> (if tipped then 2 \<le> phase (pr_state p') else p' = p)"
proof -
  obtain q s where q: "try_get_tipped_vote_state p m tipping threshold kind = Ok (q, s)"
      "tipped \<longleftrightarrow> s \<noteq> None" "ballot p' = ballot q" "s = None \<Longrightarrow> p' = q" "\<And>x. s = Some x \<Longrightarrow> pr_state p' = x"
    using assms by (auto simp: try_tip_vote_def ballot_def split: option.splits)
  have "ballot q = ballot p \<and> (case s of Some s \<Rightarrow> 2 \<le> phase s | None \<Rightarrow> q = p)"
  proof (cases kind)
    case ElectorateKind
    then obtain n where "try_get_tipped_electorate_vote_state p m tipping n = (q, s)"
      using q(1) by (auto simp: try_get_tipped_vote_state_def)
    then show ?thesis by (rule tipped_electorate_ballot)
  next
    case VetoKind
    then show ?thesis
      using q(1) by (auto simp: try_get_tipped_vote_state_def try_get_tipped_veto_vote_state_def split: if_splits)
  qed
  then show ?thesis using q(2-5) by (cases s) auto
qed

section \<open>Casting a vote\<close>

text \<open>The weight of a vote, where nothing but the stake gives it.\<close>

definition weighs :: "gov_store \<Rightarrow> vote_record \<Rightarrow> pubkey \<Rightarrow> bool" where
  "weighs st v kt \<longleftrightarrow> (\<exists>t. records st kt = Some t \<and> voter_weight v = governing_token_deposit_amount t)"

lemma cast_vote_Ok:
  assumes "process_cast_vote env' a rest w st = Ok st'"
  obtains r g p t weight p1 m tipping now threshold p2 tipped voter' st1
  where "st (va_vote_record a) = None"
    "st (va_realm a) = Some (RealmAccount r)" "assert_is_valid_governing_token_mint r (va_governing_token_mint a) = Ok ()"
    "st (va_governance a) = Some (GovernanceAccount g)" "gv_realm g = va_realm a"
    "get_proposal_governing_token_mint_for_vote r (va_governing_token_mint a) (get_vote_kind w)
       = Ok (pr_governing_token_mint p)"
    "st (va_proposal a) = Some (ProposalAccount p)" "pr_governance p = va_governance a" "pr_state p = Voting"
    "st (va_token_owner_record a) = Some (TokenOwnerRecordAccount t)"
    "tor_realm t = va_realm a" "tor_governing_token_mint t = va_governing_token_mint a"
    "plain st \<Longrightarrow> weight = governing_token_deposit_amount t"
    "count_vote (checked_add 64) w weight p = Ok p1"
    "try_tip_vote p1 m tipping now threshold (get_vote_kind w) = Ok (p2, tipped)"
    "(if tipped then proposal_ends a (current_governance g) p2
         (t\<lparr>unrelinquished_votes_count := unrelinquished_votes_count t + 1\<rparr>) st
       else Ok (t\<lparr>unrelinquished_votes_count := unrelinquished_votes_count t + 1\<rparr>, st)) = Ok (voter', st1)"
    "gov_address env' (get_vote_record_address_seeds (va_proposal a) (va_token_owner_record a)) = va_vote_record a"
    "st' = st1(va_token_owner_record a \<mapsto> TokenOwnerRecordAccount voter', va_proposal a \<mapsto> ProposalAccount p2,
       va_vote_record a \<mapsto> VoteRecordAccount \<lparr>vr_proposal = va_proposal a,
         vr_governing_token_owner = tor_governing_token_owner voter', is_relinquished = False,
         voter_weight = weight, vr_vote = w\<rparr>)"
proof -
  have weight: "weight = governing_token_deposit_amount t"
    if "get_realm_config_data_for_realm env' st k realm = Ok c" "plain st"
      "resolve_voter_weight env' (t\<lparr>unrelinquished_votes_count := n\<rparr>) it r c action target = Ok (weight, it')"
    for c k realm n it r action target weight it' t
    using realm_config_loaded(2) [OF that(1,2)] that(3)
    by (auto simp: resolve_voter_weight_def get_token_config_def plain_config_def split: if_splits)
  obtain r g p t weight p1 m tipping now threshold p2 tipped voter' st1 kc c it action target it'
  where o: "st (va_vote_record a) = None" "st (va_realm a) = Some (RealmAccount r)"
    "assert_is_valid_governing_token_mint r (va_governing_token_mint a) = Ok ()"
    "st (va_governance a) = Some (GovernanceAccount g)" "gv_realm g = va_realm a"
    "get_proposal_governing_token_mint_for_vote r (va_governing_token_mint a) (get_vote_kind w)
       = Ok (pr_governing_token_mint p)"
    "st (va_proposal a) = Some (ProposalAccount p)" "pr_governance p = va_governance a" "pr_state p = Voting"
    "st (va_token_owner_record a) = Some (TokenOwnerRecordAccount t)"
    "tor_realm t = va_realm a" "tor_governing_token_mint t = va_governing_token_mint a"
    "get_realm_config_data_for_realm env' st kc (va_realm a) = Ok c"
    "resolve_voter_weight env' (t\<lparr>unrelinquished_votes_count := unrelinquished_votes_count t + 1\<rparr>) it r c action target
       = Ok (weight, it')"
    "count_vote (checked_add 64) w weight p = Ok p1"
    "try_tip_vote p1 m tipping now threshold (get_vote_kind w) = Ok (p2, tipped)"
    "(if tipped then proposal_ends a (current_governance g) p2
         (t\<lparr>unrelinquished_votes_count := unrelinquished_votes_count t + 1\<rparr>) st
       else Ok (t\<lparr>unrelinquished_votes_count := unrelinquished_votes_count t + 1\<rparr>, st)) = Ok (voter', st1)"
    "create_and_serialize_account_signed env' (st1(va_token_owner_record a \<mapsto> TokenOwnerRecordAccount voter',
         va_proposal a \<mapsto> ProposalAccount p2)) (va_vote_record a)
       (VoteRecordAccount \<lparr>vr_proposal = va_proposal a,
         vr_governing_token_owner = tor_governing_token_owner voter', is_relinquished = False,
         voter_weight = weight, vr_vote = w\<rparr>)
       (get_vote_record_address_seeds (va_proposal a) (va_token_owner_record a)) = Ok st'"
    using assms unfolding process_cast_vote_def Let_def
    by (auto simp: assert_can_cast_vote_def assert_is_voting_state_def map_err_def
        simp del: create_Ok split: if_split_asm)
  show ?thesis
    by (rule that [OF o(1-12) weight [OF o(13) _ o(14)] o(15-17)]) (use o(18) in simp_all)
qed

lemma votes_with_mint:
  assumes "get_proposal_governing_token_mint_for_vote r mint kind = Ok m"
    "council_mint (rm_config r) \<noteq> Some (community_mint r)"
  shows "votes_with r mint m kind"
  using assms
  by (auto simp: get_proposal_governing_token_mint_for_vote_def votes_with_def split: vote_kind.splits if_splits)

text \<open>The two changes that a vote makes: it closes the proposal, and it is counted.\<close>

lemma saturating_sub_diff: "saturating_sub a b = a - b"
  by (simp add: saturating_sub_def)

lemma closed_by:
  assumes "st ko = Some (TokenOwnerRecordAccount owner)" "st k = Some (ProposalAccount p)"
      "st (pr_governance p) = Some (GovernanceAccount g)" "ko = pr_token_owner_record p"
    and "open_proposal p" "ballot p' = ballot p" "2 \<le> phase (pr_state p')"
    and "gv_realm g' = gv_realm g" "active_proposal_count g' = active_proposal_count g - 1"
    and "st' = st(ko \<mapsto> TokenOwnerRecordAccount (decrease_outstanding_proposal_count owner),
      k \<mapsto> ProposalAccount p', pr_governance p \<mapsto> GovernanceAccount g')"
  shows "closes st k p p' st'"
proof -
  have keys: "ko \<noteq> k" "ko \<noteq> pr_governance p" "pr_governance p \<noteq> k" using assms(1-3) by auto
  let ?owner = "decrease_outstanding_proposal_count owner"
  have maps: "same_rest st st'" "votes st' = votes st" "proposals st' = (proposals st)(k \<mapsto> p')"
      "records st' = (records st)(ko \<mapsto> ?owner)" "governances st' = (governances st)(pr_governance p \<mapsto> g')"
    unfolding assms(10) using assms(1-3) keys by (auto simp: same_rest_def entry_decoded fun_eq_iff)
  have "\<exists>t t'. records st (pr_token_owner_record p) = Some t \<and> same_stake t t'
          \<and> unrelinquished_votes_count t' = unrelinquished_votes_count t
          \<and> outstanding_proposal_count t' = outstanding_proposal_count t - 1
          \<and> (records st)(ko \<mapsto> ?owner) = (records st)(pr_token_owner_record p \<mapsto> t')"
    by (rule exI [of _ owner], rule exI [of _ ?owner])
      (use assms(1,4) in \<open>simp add: same_stake_def same_holder_def decrease_outstanding_proposal_count_def
         saturating_sub_diff\<close>)
  moreover have "\<exists>x x'. governances st (pr_governance p) = Some x \<and> gv_realm x' = gv_realm x
      \<and> active_proposal_count x' = active_proposal_count x - 1
      \<and> (governances st)(pr_governance p \<mapsto> g') = (governances st)(pr_governance p \<mapsto> x')"
    by (rule exI [of _ g], rule exI [of _ g']) (use assms(3,8,9) in simp)
  ultimately show ?thesis
    unfolding closes_def maps using assms(2,5-7) maps(1) by simp
qed

lemma proposal_ends_Ok:
  assumes "proposal_ends a g p voter st = Ok (voter', st1)"
  obtains owner where "va_proposal_owner_record a = pr_token_owner_record p"
    "st (va_proposal_owner_record a) = Some (TokenOwnerRecordAccount owner)"
    "voter' = (if va_proposal_owner_record a = va_token_owner_record a
       then decrease_outstanding_proposal_count voter else voter)"
    "st1 = (if va_proposal_owner_record a = va_token_owner_record a then st
       else st(va_proposal_owner_record a \<mapsto> TokenOwnerRecordAccount (decrease_outstanding_proposal_count owner)))
       (va_governance a \<mapsto> GovernanceAccount (g\<lparr>active_proposal_count := saturating_sub (active_proposal_count g) 1\<rparr>))"
  using assms that unfolding proposal_ends_def by (auto simp: Let_def split: if_splits)

lemma counts_casts:
  assumes s: "st kv = None" "st k = Some (ProposalAccount p)" "st kt = Some (TokenOwnerRecordAccount t)"
      "st (pr_governance p) = Some (GovernanceAccount g)" "st (gv_realm g) = Some (RealmAccount r)"
    and v: "kv = vote_address env k kt" "vr_proposal v = k" "\<not> is_relinquished v"
      "vr_governing_token_owner v = tor_governing_token_owner t"
      "votes_with r (tor_governing_token_mint t) (pr_governing_token_mint p) (get_vote_kind (vr_vote v))"
      "tor_realm t = gv_realm g"
    and p: "pr_state p = Voting" "adds v p p1"
    and mid: "mid = st(kt \<mapsto> TokenOwnerRecordAccount
        (t\<lparr>unrelinquished_votes_count := unrelinquished_votes_count t + 1\<rparr>),
      k \<mapsto> ProposalAccount p1, kv \<mapsto> VoteRecordAccount v)"
  shows "casts env st kv v kt p p1 mid"
proof -
  let ?t = "t\<lparr>unrelinquished_votes_count := unrelinquished_votes_count t + 1\<rparr>"
  have keys: "kt \<noteq> k" "kv \<noteq> k" "kv \<noteq> kt" "pr_governance p \<noteq> k" "pr_governance p \<noteq> kt" "pr_governance p \<noteq> kv"
    "gv_realm g \<noteq> k" "gv_realm g \<noteq> kt" "gv_realm g \<noteq> kv" using s by auto
  have maps: "same_rest st mid" "governances mid = governances st" "votes mid = (votes st)(kv \<mapsto> v)"
      "proposals mid = (proposals st)(k \<mapsto> p1)" "records mid = (records st)(kt \<mapsto> ?t)" "realms mid = realms st"
    unfolding mid using s keys by (auto simp: same_rest_def entry_decoded fun_eq_iff)
  have p1: "pr_governance p1 = pr_governance p" "pr_governing_token_mint p1 = pr_governing_token_mint p"
    using p(2) by (simp_all add: adds_def)
  have "cast_by env mid kv v kt ?t"
    unfolding cast_by_def maps using v s p1
    by (auto intro!: exI [of _ p1] exI [of _ g] exI [of _ r])
  then have "\<exists>x x'. records st kt = Some x \<and> same_stake x x'
          \<and> unrelinquished_votes_count x' = unrelinquished_votes_count x + 1
          \<and> outstanding_proposal_count x' = outstanding_proposal_count x
          \<and> (records st)(kt \<mapsto> ?t) = (records st)(kt \<mapsto> x') \<and> cast_by env mid kv v kt x'"
    by (intro exI [of _ t] exI [of _ ?t]) (use s(3) in \<open>simp add: same_stake_def same_holder_def\<close>)
  then show ?thesis
    unfolding casts_def v(2) maps(2-5) using s(1,2) v(1,3) p maps(1) by simp
qed

lemma cast_vote_casts:
  assumes run: "process_cast_vote env' a rest w st = Ok st'" and ok: "accounts_ok env st"
    and same: "gov_address env' = gov_address env"
  shows "\<exists>v p p1 mid. casts env st (va_vote_record a) v (va_token_owner_record a) p p1 mid
    \<and> (plain st \<longrightarrow> weighs st v (va_token_owner_record a))
    \<and> (st' = mid \<or> (\<exists>p2. closes mid (va_proposal a) p1 p2 st'))"
proof -
  let ?k = "va_proposal a" and ?kt = "va_token_owner_record a" and ?kv = "va_vote_record a"
    and ?ko = "va_proposal_owner_record a" and ?kg = "va_governance a"
  show ?thesis
    using run
  proof (rule cast_vote_Ok)
    fix r g p t weight p1 m tipping now threshold p2 tipped voter' st1
    assume s: "st ?kv = None" "st (va_realm a) = Some (RealmAccount r)"
        "st ?kg = Some (GovernanceAccount g)" "gv_realm g = va_realm a"
        "st ?k = Some (ProposalAccount p)" "pr_governance p = ?kg" "pr_state p = Voting"
        "st ?kt = Some (TokenOwnerRecordAccount t)"
        "tor_realm t = va_realm a" "tor_governing_token_mint t = va_governing_token_mint a"
      and mint: "get_proposal_governing_token_mint_for_vote r (va_governing_token_mint a) (get_vote_kind w)
         = Ok (pr_governing_token_mint p)"
      and weight: "plain st \<Longrightarrow> weight = governing_token_deposit_amount t"
      and count: "count_vote (checked_add 64) w weight p = Ok p1"
      and tip: "try_tip_vote p1 m tipping now threshold (get_vote_kind w) = Ok (p2, tipped)"
      and ends: "(if tipped then proposal_ends a (current_governance g) p2
           (t\<lparr>unrelinquished_votes_count := unrelinquished_votes_count t + 1\<rparr>) st
         else Ok (t\<lparr>unrelinquished_votes_count := unrelinquished_votes_count t + 1\<rparr>, st)) = Ok (voter', st1)"
      and kv: "gov_address env' (get_vote_record_address_seeds ?k ?kt) = ?kv"
      and st': "st' = st1(?kt \<mapsto> TokenOwnerRecordAccount voter', ?k \<mapsto> ProposalAccount p2,
         ?kv \<mapsto> VoteRecordAccount \<lparr>vr_proposal = ?k,
           vr_governing_token_owner = tor_governing_token_owner voter', is_relinquished = False,
           voter_weight = weight, vr_vote = w\<rparr>)"
    define voter where "voter = t\<lparr>unrelinquished_votes_count := unrelinquished_votes_count t + 1\<rparr>"
    define v where "v = \<lparr>vr_proposal = ?k, vr_governing_token_owner = tor_governing_token_owner t,
      is_relinquished = False, voter_weight = weight, vr_vote = w\<rparr>"
    define mid where "mid = st(?kt \<mapsto> TokenOwnerRecordAccount voter, ?k \<mapsto> ProposalAccount p1,
      ?kv \<mapsto> VoteRecordAccount v)"
    have keys: "?kt \<noteq> ?k" "?kv \<noteq> ?k" "?kv \<noteq> ?kt" "?kg \<noteq> ?k" "?kg \<noteq> ?kt" "?kg \<noteq> ?kv" using s by auto
    have "adds v p p1" using count by (intro count_vote_adds) (simp add: v_def)
    have "realms st (va_realm a) = Some r" using s(2) by simp
    then have council: "council_mint (rm_config r) \<noteq> Some (community_mint r)" by (rule accounts_okD(3) [OF ok])
    have casts: "casts env st ?kv v ?kt p p1 mid"
    proof (rule counts_casts [where g = g and r = r])
      show "votes_with r (tor_governing_token_mint t) (pr_governing_token_mint p) (get_vote_kind (vr_vote v))"
        using votes_with_mint [OF mint council] s(10) by (simp add: v_def)
      show "?kv = vote_address env ?k ?kt" using kv same by (simp add: vote_address_def)
      show "mid = st(?kt \<mapsto> TokenOwnerRecordAccount
          (t\<lparr>unrelinquished_votes_count := unrelinquished_votes_count t + 1\<rparr>),
        ?k \<mapsto> ProposalAccount p1, ?kv \<mapsto> VoteRecordAccount v)" by (simp add: mid_def voter_def)
    qed (use s \<open>adds v p p1\<close> in \<open>simp_all add: v_def\<close>)
    have p1: "pr_state p1 = Voting" "pr_governance p1 = ?kg" "pr_token_owner_record p1 = pr_token_owner_record p"
      using \<open>adds v p p1\<close> s(6,7) by (simp_all add: adds_def)
    note tip = try_tip_vote_ballot [OF tip]
    have "st' = mid \<or> (\<exists>p2. closes mid ?k p1 p2 st')"
    proof (cases tipped)
      case False
      then have "st' = mid" using ends tip st' by (auto simp: mid_def voter_def v_def)
      then show ?thesis by blast
    next
      case True
      then have "proposal_ends a (current_governance g) p2 voter st = Ok (voter', st1)"
        using ends by (simp add: voter_def)
      then obtain owner where o: "?ko = pr_token_owner_record p2" "st ?ko = Some (TokenOwnerRecordAccount owner)"
        "voter' = (if ?ko = ?kt then decrease_outstanding_proposal_count voter else voter)"
        "st1 = (if ?ko = ?kt then st
           else st(?ko \<mapsto> TokenOwnerRecordAccount (decrease_outstanding_proposal_count owner)))
           (?kg \<mapsto> GovernanceAccount ((current_governance g)\<lparr>active_proposal_count :=
             saturating_sub (active_proposal_count (current_governance g)) 1\<rparr>))"
        by (rule proposal_ends_Ok)
      have owner: "tor_governing_token_owner voter' = tor_governing_token_owner t"
        using o(3) by (simp add: voter_def decrease_outstanding_proposal_count_def)
      have ko: "?ko \<noteq> ?k" "?ko \<noteq> ?kv" "?ko \<noteq> ?kg" using o(2) s by auto
      have "closes mid ?k p1 p2 st'"
      proof (rule closed_by)
        show "mid ?ko = Some (TokenOwnerRecordAccount (if ?ko = ?kt then voter else owner))"
          using o(2) ko keys by (simp add: mid_def)
        show "st' = mid(?ko \<mapsto> TokenOwnerRecordAccount
            (decrease_outstanding_proposal_count (if ?ko = ?kt then voter else owner)),
          ?k \<mapsto> ProposalAccount p2, pr_governance p1 \<mapsto> GovernanceAccount
            ((current_governance g)\<lparr>active_proposal_count := saturating_sub (active_proposal_count g) 1\<rparr>))"
          unfolding st' o(4) mid_def p1(2) using ko keys owner o(3)
          by (auto simp: fun_eq_iff v_def)
      qed (use o(1) tip True p1 s keys in \<open>simp_all add: mid_def open_proposal_def ballot_def saturating_sub_diff
          current_governance_def\<close>)
      then show ?thesis by blast
    qed
    moreover have "plain st \<longrightarrow> weighs st v ?kt" using weight s(8) by (simp add: weighs_def v_def)
    ultimately show ?thesis using casts by blast
  qed
qed

section \<open>Closing a proposal\<close>

lemma finalize_vote_closes:
  assumes "process_finalize_vote env' realm governance k ko mint rest st = Ok st'"
  shows "\<exists>p p'. closes st k p p' st'"
proof -
  obtain p g m threshold p' owner where s: "st k = Some (ProposalAccount p)" "pr_governance p = governance"
      "st governance = Some (GovernanceAccount g)"
      "finalize_vote p m (gv_config (current_governance g)) (unix_timestamp env') threshold = Ok p'"
      "ko = pr_token_owner_record p'" "st ko = Some (TokenOwnerRecordAccount owner)"
      "st' = st(ko \<mapsto> TokenOwnerRecordAccount (decrease_outstanding_proposal_count owner),
        k \<mapsto> ProposalAccount p', governance \<mapsto> GovernanceAccount
          ((current_governance g)\<lparr>active_proposal_count := saturating_sub (active_proposal_count g) 1\<rparr>))"
    using assms by (auto simp: process_finalize_vote_def split: prod.splits)
  note final = finalize_vote_ballot [OF s(4)]
  have "closes st k p p' st'"
    by (rule closed_by [OF s(6,1) _ _ _ final(1,2) _ _ s(7) [folded s(2)]])
      (use s final ballot_fields [OF final(1)] in \<open>simp_all add: open_proposal_def saturating_sub_diff current_governance_def\<close>)
  then show ?thesis by blast
qed

lemma cancel_proposal_closes:
  assumes "process_cancel_proposal env' realm governance k ko authority st = Ok st'"
  shows "\<exists>p p'. closes st k p p' st'"
proof -
  obtain p g owner where s: "st k = Some (ProposalAccount p)" "pr_governance p = governance"
      "st governance = Some (GovernanceAccount g)" "open_proposal p"
      "ko = pr_token_owner_record p" "st ko = Some (TokenOwnerRecordAccount owner)"
      "st' = st(ko \<mapsto> TokenOwnerRecordAccount (decrease_outstanding_proposal_count owner),
        k \<mapsto> ProposalAccount (p\<lparr>pr_state := Cancelled, closed_at := Some (unix_timestamp env')\<rparr>),
        governance \<mapsto> GovernanceAccount
          ((current_governance g)\<lparr>active_proposal_count := saturating_sub (active_proposal_count g) 1\<rparr>))"
    using assms by (auto simp: process_cancel_proposal_def assert_can_cancel_def open_proposal_def split: if_split_asm)
  have "closes st k p (p\<lparr>pr_state := Cancelled, closed_at := Some (unix_timestamp env')\<rparr>) st'"
    by (rule closed_by [OF s(6,1) _ _ s(4) _ _ _ _ s(7) [folded s(2)]])
      (use s in \<open>simp_all add: ballot_def saturating_sub_diff current_governance_def\<close>)
  then show ?thesis by blast
qed

section \<open>Relinquishing a vote\<close>

lemma votes_with_unique:
  assumes "votes_with r mint m kind" "get_proposal_governing_token_mint_for_vote r mint' kind = Ok m"
    "council_mint (rm_config r) \<noteq> Some (community_mint r)"
  shows "mint = mint'"
  using assms
  by (auto simp: get_proposal_governing_token_mint_for_vote_def votes_with_def split: vote_kind.splits if_splits)

text \<open>The record that relinquishes a vote is the one that cast it.\<close>

lemma relinquished_by_caster:
  assumes ok: "accounts_ok env st"
    and s: "st realm = Some (RealmAccount r)" "st governance = Some (GovernanceAccount g)" "gv_realm g = realm"
      "st k = Some (ProposalAccount p)" "pr_governance p = governance" "st kt = Some (TokenOwnerRecordAccount t)"
      "tor_realm t = realm"
    and v: "get_vote_record_data_for_proposal_and_token_owner_record st kv r k p t = Ok v"
  shows "st kv = Some (VoteRecordAccount v)" "vr_proposal v = k" "kv = vote_address env k kt"
proof -
  have v: "st kv = Some (VoteRecordAccount v)" "vr_proposal v = k"
      "vr_governing_token_owner v = tor_governing_token_owner t"
      "get_proposal_governing_token_mint_for_vote r (tor_governing_token_mint t) (get_vote_kind (vr_vote v))
        = Ok (pr_governing_token_mint p)"
    using v by (auto simp: get_vote_record_data_for_proposal_and_token_owner_record_def split: if_split_asm)
  then obtain kt0 t0 where c: "cast_by env st kv v kt0 t0"
    using accounts_okD(5) [OF ok, of kv v] by (auto simp: entry_Some)
  have t0: "kv = vote_address env k kt0" "records st kt0 = Some t0"
      "tor_governing_token_owner t0 = tor_governing_token_owner t" "tor_realm t0 = realm"
      "votes_with r (tor_governing_token_mint t0) (pr_governing_token_mint p) (get_vote_kind (vr_vote v))"
    using c s v(2,3) by (auto simp: cast_by_def)
  have "council_mint (rm_config r) \<noteq> Some (community_mint r)"
    by (rule accounts_okD(3) [OF ok, of realm]) (simp add: s(1))
  then have "tor_governing_token_mint t0 = tor_governing_token_mint t"
    by (rule votes_with_unique [OF t0(5) v(4)])
  moreover have "kt0 = record_address env t0" "kt = record_address env t"
    using accounts_okD(2) [OF ok] t0(2) s(6) by (auto simp: entry_Some)
  ultimately have "kt0 = kt" using t0(3,4) s(7) by (simp add: record_address_def)
  then show "st kv = Some (VoteRecordAccount v)" "vr_proposal v = k" "kv = vote_address env k kt"
    using v t0(1) by simp_all
qed

lemma relinquish_vote_cases:
  assumes run: "process_relinquish_vote env' realm governance k kt kv mint rest st = Ok st'"
    and ok: "accounts_ok env st"
  shows "\<exists>v p p'. retracts env st kv v kt p p' st' \<or> releases env st kv v kt st'"
proof -
  obtain r g p t v u still_voting st1 n where raw: "get_realm_data_for_governing_token_mint st realm mint = Ok r"
      "get_governance_data_for_realm st governance realm = Ok g"
      "get_proposal_data_for_governance st k governance = Ok p"
      "get_token_owner_record_data_for_realm_and_governing_mint st kt (gv_realm g) mint = Ok t"
    and v: "get_vote_record_data_for_proposal_and_token_owner_record st kv r k p t = Ok v"
      "assert_can_relinquish_vote v = Ok u"
      "(if pr_state p = Voting then
          and_then (has_voting_max_time_ended p (gv_config g) (unix_timestamp env')) (\<lambda>ended. Ok (\<not> ended))
        else Ok False) = Ok still_voting"
    and st1: "(if still_voting then
          and_then (next_account_info rest) (\<lambda>(authority, rest1).
          and_then (next_account_info rest1) (\<lambda>_.
          and_then (assert_token_owner_or_delegate_is_signer t authority) (\<lambda>_.
          and_then (count_vote checked_sub (vr_vote v) (voter_weight v) p) (\<lambda>p'.
          Ok (dispose_account (st(k \<mapsto> ProposalAccount p')) kv)))))
        else if pr_state p = Voting then Err CannotRelinquishInFinalizingState
        else Ok (st(kv \<mapsto> VoteRecordAccount (v\<lparr>is_relinquished := True\<rparr>)))) = Ok st1"
      "unwrap (checked_sub (unrelinquished_votes_count t) 1) = Ok n"
      "Ok (st1(kt \<mapsto> TokenOwnerRecordAccount (t\<lparr>unrelinquished_votes_count := n\<rparr>))) = Ok st'"
    using run unfolding process_relinquish_vote_def and_then_Ok_iff by blast
  obtain g0 where s: "st realm = Some (RealmAccount r)" "st governance = Some (GovernanceAccount g0)" "gv_realm g0 = realm"
      "st k = Some (ProposalAccount p)" "pr_governance p = governance" "st kt = Some (TokenOwnerRecordAccount t)"
      "tor_realm t = realm"
    using raw by auto
  have voting: "still_voting \<Longrightarrow> pr_state p = Voting" using v(3) by (simp split: if_splits)
  have st': "st' = st1(kt \<mapsto>
       TokenOwnerRecordAccount (t\<lparr>unrelinquished_votes_count := unrelinquished_votes_count t - 1\<rparr>))"
    using st1(2,3) by (auto simp: checked_sub_def split: if_splits)
  note found = relinquished_by_caster [OF ok s v(1)]
  let ?t = "t\<lparr>unrelinquished_votes_count := unrelinquished_votes_count t - 1\<rparr>"
  have live: "\<not> is_relinquished v" using v(2) by (auto simp: assert_can_relinquish_vote_def split: if_splits)
  have keys: "kv \<noteq> k" "kv \<noteq> kt" "kt \<noteq> k" using s found(1) by auto
  have stake: "\<exists>x x'. records st kt = Some x \<and> same_stake x x'
      \<and> unrelinquished_votes_count x' = unrelinquished_votes_count x - 1
      \<and> outstanding_proposal_count x' = outstanding_proposal_count x
      \<and> (records st)(kt \<mapsto> ?t) = (records st)(kt \<mapsto> x')"
    by (rule exI [of _ t], rule exI [of _ ?t]) (use s(6) in \<open>simp add: same_stake_def same_holder_def\<close>)
  show ?thesis
  proof (cases still_voting)
    case True
    then obtain p' where p': "count_vote checked_sub (vr_vote v) (voter_weight v) p = Ok p'"
        "st1 = (st(k \<mapsto> ProposalAccount p'))(kv := None)"
      using st1(1) by (auto simp: dispose_account_def)
    have maps: "same_rest st st'" "governances st' = governances st" "votes st' = (votes st)(kv := None)"
        "proposals st' = (proposals st)(k \<mapsto> p')" "records st' = (records st)(kt \<mapsto> ?t)"
      unfolding st' p'(2) using s found(1) keys by (auto simp: same_rest_def entry_decoded fun_eq_iff)
    have "retracts env st kv v kt p p' st'"
      unfolding retracts_def found(2) maps(2-5)
      using s(4) voting [OF True] count_vote_removes [OF p'(1)] found(1,3) live maps(1) stake by simp
    then show ?thesis by blast
  next
    case False
    then have st1: "pr_state p \<noteq> Voting" "st1 = st(kv \<mapsto> VoteRecordAccount (v\<lparr>is_relinquished := True\<rparr>))"
      using st1(1) by (auto split: if_splits)
    have maps: "same_rest st st'" "governances st' = governances st"
        "votes st' = (votes st)(kv \<mapsto> v\<lparr>is_relinquished := True\<rparr>)"
        "proposals st' = proposals st" "records st' = (records st)(kt \<mapsto> ?t)"
      unfolding st' st1(2) using s found(1) keys by (auto simp: same_rest_def entry_decoded fun_eq_iff)
    have "phase (pr_state p) \<noteq> 1" using st1(1) by (cases "pr_state p") simp_all
    then have "releases env st kv v kt st'"
      unfolding releases_def found(2) maps(2-5)
      using s(4) found(1,3) live maps(1) stake by simp
    then show ?thesis by blast
  qed
qed

section \<open>Executing a transaction\<close>

text \<open>
  The handler writes the proposal and the transaction that it read before the instructions ran. They
  may have changed these accounts, but not what has been decided.
\<close>

lemma execute_transaction_Ok:
  assumes run: "process_execute_transaction env' invoke governance k kt rest st = Ok st'"
  obtains g p pt st1 p' now where
    "st governance = Some (GovernanceAccount g)"
    "st k = Some (ProposalAccount p)" "pr_governance p = governance"
    "st kt = Some (ProposalTransactionAccount pt)" "pt_proposal pt = k"
    "assert_can_execute_transaction p pt (gv_config (current_governance g)) (unix_timestamp env') = Ok ()"
    "fold_result (\<lambda>s i. invoke i (execution_signers env' governance (current_governance g) rest) s) st
       (pt_instructions pt) = Ok st1"
    "ballot p' = ballot p" "results p' = results p" "pr_state p' \<in> {Executing, ExecutingWithErrors, Completed}"
    "st' = st1(k \<mapsto> ProposalAccount p',
       kt \<mapsto> ProposalTransactionAccount (pt\<lparr>executed_at := Some now, execution_status := ExecutionSuccess\<rparr>))"
proof -
  obtain g0 p pt u st1 where o: "get_governance_data st governance = Ok g0"
      "get_proposal_data_for_governance st k governance = Ok p"
      "get_proposal_transaction_data_for_proposal st kt k = Ok pt"
      "assert_can_execute_transaction p pt (gv_config g0) (unix_timestamp env') = Ok u"
      "fold_result (\<lambda>s i. invoke i (execution_signers env' governance g0 rest) s) st (pt_instructions pt) = Ok st1"
    and final: "(let now = Some (unix_timestamp env');
         p1 = (if pr_state p = ProposalSucceeded then p\<lparr>executing_at := now, pr_state := Executing\<rparr> else p) in
     and_then (nth_option p1 (option_index pt)) (\<lambda>opt.
     and_then (unwrap (checked_add 16 (transactions_executed_count opt) 1)) (\<lambda>count.
     let p2 = p1\<lparr>pr_options :=
           (pr_options p1)[option_index pt := opt\<lparr>transactions_executed_count := count\<rparr>]\<rparr>;
         p3 = (if (pr_state p2 = Executing \<or> pr_state p2 = ExecutingWithErrors) \<and> all_executed p2
               then p2\<lparr>closed_at := now, pr_state := Completed\<rparr> else p2) in
     Ok (st1(k \<mapsto> ProposalAccount p3,
             kt \<mapsto> ProposalTransactionAccount
               (pt\<lparr>executed_at := now, execution_status := ExecutionSuccess\<rparr>)))))) = Ok st'"
    using run unfolding process_execute_transaction_def and_then_Ok_iff by blast
  obtain opt n where opt: "nth_option (if pr_state p = ProposalSucceeded
         then p\<lparr>executing_at := Some (unix_timestamp env'), pr_state := Executing\<rparr> else p) (option_index pt) = Ok opt"
    and st': "st' = (let now = Some (unix_timestamp env');
         p1 = (if pr_state p = ProposalSucceeded then p\<lparr>executing_at := now, pr_state := Executing\<rparr> else p);
         p2 = p1\<lparr>pr_options := (pr_options p1)[option_index pt := opt\<lparr>transactions_executed_count := n\<rparr>]\<rparr>;
         p3 = (if (pr_state p2 = Executing \<or> pr_state p2 = ExecutingWithErrors) \<and> all_executed p2
               then p2\<lparr>closed_at := now, pr_state := Completed\<rparr> else p2)
       in st1(k \<mapsto> ProposalAccount p3, kt \<mapsto> ProposalTransactionAccount
            (pt\<lparr>executed_at := now, execution_status := ExecutionSuccess\<rparr>)))"
    using final unfolding Let_def and_then_Ok_iff result.inject by blast
  let ?p1 = "if pr_state p = ProposalSucceeded
    then p\<lparr>executing_at := Some (unix_timestamp env'), pr_state := Executing\<rparr> else p"
  let ?p2 = "?p1\<lparr>pr_options := (pr_options ?p1)[option_index pt := opt\<lparr>transactions_executed_count := n\<rparr>]\<rparr>"
  let ?p3 = "if (pr_state ?p2 = Executing \<or> pr_state ?p2 = ExecutingWithErrors) \<and> all_executed ?p2
               then ?p2\<lparr>closed_at := Some (unix_timestamp env'), pr_state := Completed\<rparr> else ?p2"
  have state: "pr_state p \<in> {ProposalSucceeded, Executing, ExecutingWithErrors}"
    using o(4) by (auto simp: assert_can_execute_transaction_def split: if_splits)
  have opt': "option_index pt < length (pr_options p)" "opt = pr_options p ! option_index pt"
    using opt by (auto simp: nth_option_def split: if_splits)
  note same = option_updated [of "option_index pt" "pr_options p" "opt\<lparr>transactions_executed_count := n\<rparr>"]
  obtain g where g: "st governance = Some (GovernanceAccount g)" "g0 = current_governance g" using o(1) by auto
  show ?thesis
  proof (rule that [where g = g and p = p and pt = pt and ?st1.0 = st1 and p' = ?p3 and now = "unix_timestamp env'"])
    show "st' = st1(k \<mapsto> ProposalAccount ?p3, kt \<mapsto> ProposalTransactionAccount
        (pt\<lparr>executed_at := Some (unix_timestamp env'), execution_status := ExecutionSuccess\<rparr>))"
      unfolding st' Let_def by (rule refl)
    show "ballot ?p3 = ballot p" "results ?p3 = results p"
      using same opt' by (simp_all add: ballot_def results_def)
    show "pr_state ?p3 \<in> {Executing, ExecutingWithErrors, Completed}" using state by auto
  qed (use o g in \<open>auto simp: get_proposal_transaction_data_for_proposal_def split: if_splits\<close>)
qed

lemma execute_transaction_tidy:
  assumes run: "process_execute_transaction env' invoke governance k kt rest st = Ok st'"
    and calls: "\<And>signers is s s'. fold_result (\<lambda>s i. invoke i signers s) s is = Ok s' \<Longrightarrow> R s s'"
    and R: "\<And>s. R st s \<Longrightarrow> advances st s"
  shows "\<exists>st1. R st st1 \<and> tidy env st1 st'"
  using run
proof (rule execute_transaction_Ok)
  fix g p p' now and pt :: proposal_transaction and st1
  let ?pt = "pt\<lparr>executed_at := Some now, execution_status := ExecutionSuccess\<rparr>"
  assume s: "st k = Some (ProposalAccount p)" "st kt = Some (ProposalTransactionAccount pt)" "pt_proposal pt = k"
      "assert_can_execute_transaction p pt (gv_config (current_governance g)) (unix_timestamp env') = Ok ()"
    and invoked: "fold_result (\<lambda>s i. invoke i (execution_signers env' governance (current_governance g) rest) s) st
       (pt_instructions pt) = Ok st1"
    and p': "ballot p' = ballot p" "results p' = results p" "pr_state p' \<in> {Executing, ExecutingWithErrors, Completed}"
    and st': "st' = st1(k \<mapsto> ProposalAccount p', kt \<mapsto> ProposalTransactionAccount ?pt)"
  have R1: "R st st1" by (rule calls [OF invoked])
  have state: "pr_state p \<in> {ProposalSucceeded, Executing, ExecutingWithErrors}"
    using s(4) by (auto simp: assert_can_execute_transaction_def split: if_splits)
  then have decided: "phase (pr_state p) = 2" "pr_state p \<noteq> Draft" by auto
  have "proposals st k = Some p" using s(1) by simp
  then obtain q where q: "proposals st1 k = Some q" "forward p q" "settled_transactions st st1 k"
    using R [OF R1] decided(2) unfolding advances_def by blast
  have q': "phase (pr_state q) = 2" "ballot q = ballot p" "results q = results p"
    using q(2) decided(1) by (simp_all add: forward_def)
  have "content st k kt = Some (option_index pt, transaction_index pt, pt_instructions pt)"
    using s(2,3) by (simp add: content_def)
  then have "content st1 k kt = Some (option_index pt, transaction_index pt, pt_instructions pt)"
    using q(3) by (simp add: settled_transactions_def)
  then obtain pt1 where pt1: "transactions st1 kt = Some pt1" "pt_proposal pt1 = k" "option_index pt1 = option_index pt"
      "transaction_index pt1 = transaction_index pt" "pt_instructions pt1 = pt_instructions pt"
    by (auto simp: content_def split: option.splits if_splits)
  let ?mid = "st1(k \<mapsto> ProposalAccount p')"
  have "tidy env st1 ?mid"
    by (rule tidy_proposal [where p = q])
      (use q(1) q' p' decided ballot_fields [of p' q] in \<open>auto simp: entry_Some forward_def\<close>)
  moreover have "tidy env ?mid st'"
    unfolding st'
    by (rule tidy_executed_transaction [where pt = pt1]) (use pt1 q(1) s(3) in \<open>auto simp: entry_Some\<close>)
  ultimately show ?thesis using R1 tidy_trans by blast
qed

end
