(* ===== verification/RealmHistory.thy ===== *)
theory RealmHistory
  imports GovernanceProposals GovernanceStakes
begin

text \<open>
  A concrete history of the governance program, from a store without accounts: a realm, a stake of 700 of
  1000 tokens, a governance, a proposal, its only vote, the end of the vote, and the release of the vote.
\<close>

section \<open>Addresses and accounts\<close>

text \<open>Derived addresses that differ when the keys they are derived from do.\<close>

definition paired :: "nat \<Rightarrow> nat \<Rightarrow> nat" where
  "paired x y = (x + y) * (x + y) + x"

definition history_address :: "seed list \<Rightarrow> pubkey" where
  "history_address seeds = (case seeds of
     [Bytes a, Bytes b] \<Rightarrow> PK 11
   | [Bytes a, Key x] \<Rightarrow> PK 12
   | [Bytes a, Key x, Key y] \<Rightarrow> PK (1000 + paired (pk_bytes x) (pk_bytes y))
   | [a, b, c, Key x] \<Rightarrow> PK (20 + pk_bytes x)
   | _ \<Rightarrow> PK 13)"

definition history_env :: "bool \<Rightarrow> int \<Rightarrow> gov_env" where
  "history_env held now = sample_gov_env\<lparr>gov_sdk := sample_sdk\<lparr>find_program_address := (\<lambda>seeds p. (history_address seeds, 255))\<rparr>,
     unix_timestamp := now,
     spl_tokens := (\<lambda>k. if held \<and> k \<in> {PK 1267, PK 40}
       then Ok \<lparr>td_mint = PK 5, td_owner = PK 11, td_amount = 700, td_extension_types = []\<rparr> else Err InvalidAccountData),
     spl_mints := (\<lambda>k. if k = PK 5
       then Ok \<lparr>md_decimals = 9, md_supply = 1000, md_extension_types = [], md_default_account_state = None,
         md_transfer_hook = None\<rparr> else Err InvalidAccountData)\<rparr>"

lemma history_address_simps [simp]:
  "history_address [Bytes a, Bytes b] = PK 11" "history_address [Bytes a, Key x] = PK 12"
  "history_address [Bytes a, Key x, Key y] = PK (1000 + paired (pk_bytes x) (pk_bytes y))"
  "history_address [Bytes a, Key x, Key y, Key z] = PK (20 + pk_bytes z)"
  by (simp_all add: history_address_def)

lemma history_env_simps [simp]:
  "gov_address (history_env h t) seeds = history_address seeds" "unix_timestamp (history_env h t) = t"
  "spl_tokens (history_env h t) k = (if h \<and> k \<in> {PK 1267, PK 40}
       then Ok \<lparr>td_mint = PK 5, td_owner = PK 11, td_amount = 700, td_extension_types = []\<rparr> else Err InvalidAccountData)"
  "spl_mints (history_env h t) (PK 5) = Ok \<lparr>md_decimals = 9, md_supply = 1000, md_extension_types = [],
     md_default_account_state = None, md_transfer_hook = None\<rparr>"
  "slot (history_env h t) = 7" "gov_program_id (history_env h t) = default_pubkey"
  "find_program_address (gov_sdk (history_env h t)) seeds p = (history_address seeds, 255)"
  by (simp_all add: history_env_def gov_address_def sample_gov_env_def)

lemma codes [simp]: "paired 11 5 = 267" "paired 11 8 = 372" "paired 29 24 = 2838"
  by (simp_all add: paired_def)

lemma paired_eq:
  assumes "paired x y = paired x' y'"
  shows "x = x' \<and> y = y'"
proof -
  have less: "paired a b < paired c d" if "a + b < c + d" for a b c d
  proof -
    have "(a + b + 1) * (a + b + 1) \<le> (c + d) * (c + d)" using that by (intro mult_le_mono) simp_all
    then show ?thesis by (simp add: paired_def algebra_simps)
  qed
  then have "x + y = x' + y'" using assms less_irrefl by (metis linorder_neqE_nat)
  then show ?thesis using assms by (simp add: paired_def)
qed

definition history_args :: realm_config_args where
  "history_args = (let plain = \<lparr>use_voter_weight_addin = False, use_max_voter_weight_addin = False, arg_token_type = Liquid\<rparr> in
     \<lparr>use_council_mint = False, arg_min_community_weight_to_create_governance = 10,
      arg_community_mint_max_voter_weight_source = SupplyFraction SUPPLY_FRACTION_BASE,
      community_token_config_args = plain, council_token_config_args = plain\<rparr>)"

definition history_realm :: gov_realm where
  "history_realm = \<lparr>community_mint = PK 5,
     rm_config = \<lparr>min_community_weight_to_create_governance = 10,
       community_mint_max_voter_weight_source = SupplyFraction SUPPLY_FRACTION_BASE, council_mint = None\<rparr>,
     realm_authority = Some (PK 9), realm_name = ''dao''\<rparr>"

definition history_governance :: "nat \<Rightarrow> governance" where
  "history_governance n = \<lparr>gv_account_type = GovernanceV2, gv_realm = PK 11, governance_seed = PK 8,
     gv_config = (gv_config sample_governance)\<lparr>community_vote_tipping := TippingDisabled\<rparr>,
     required_signatories_count = 0, active_proposal_count = n\<rparr>"

definition history_stake :: "nat \<Rightarrow> nat \<Rightarrow> token_owner_record" where
  "history_stake votes open_ones = (new_token_owner_record (PK 11) (PK 5) (PK 4))\<lparr>governing_token_deposit_amount := 700,
     unrelinquished_votes_count := votes, outstanding_proposal_count := open_ones\<rparr>"

definition history_vote :: "bool \<Rightarrow> vote_record" where
  "history_vote gone = \<lparr>vr_proposal = PK 29, vr_governing_token_owner = PK 4, is_relinquished = gone, voter_weight = 700,
     vr_vote = Approve [\<lparr>rank = 0, weight_percentage = 100\<rparr>]\<rparr>"

definition drafted :: proposal where
  "drafted = new_proposal (PK 1372) (PK 5) (PK 24) ''pay'' '''' SingleChoice [''yes''] True 100"

definition on_vote :: "nat \<Rightarrow> proposal" where
  "on_vote n = drafted\<lparr>signing_off_at := Some 100, voting_at := Some 100, voting_at_slot := Some 7, pr_state := Voting,
     pr_options := [(hd (pr_options drafted))\<lparr>vote_weight := n\<rparr>]\<rparr>"

definition accepted :: proposal where
  "accepted = (on_vote 700)\<lparr>pr_options := [(hd (pr_options drafted))\<lparr>vote_weight := 700, vote_result := OptionSucceeded\<rparr>],
     pr_state := ProposalSucceeded, voting_completed_at := Some 4300, max_vote_weight := Some 1000,
     pr_vote_threshold := Some (YesVotePercentage 60)\<rparr>"

definition realm_store :: gov_store where
  "realm_store = [PK 12 \<mapsto> RealmConfigAccount \<lparr>rc_realm = PK 11, community_token_config = default_token_config,
       council_token_config = default_token_config\<rparr>, PK 11 \<mapsto> RealmAccount history_realm]"

definition staked_store :: gov_store where
  "staked_store = realm_store(PK 24 \<mapsto> TokenOwnerRecordAccount (history_stake 0 0))"

definition proposal_store :: "nat \<Rightarrow> nat \<Rightarrow> proposal \<Rightarrow> gov_store" where
  "proposal_store votes open_ones p = realm_store(PK 24 \<mapsto> TokenOwnerRecordAccount (history_stake votes open_ones),
     PK 1372 \<mapsto> GovernanceAccount (history_governance open_ones), PK 29 \<mapsto> ProposalAccount p)"

definition vote_store :: "nat \<Rightarrow> nat \<Rightarrow> proposal \<Rightarrow> bool \<Rightarrow> gov_store" where
  "vote_store votes open_ones p gone =
     (proposal_store votes open_ones p)(PK 3838 \<mapsto> VoteRecordAccount (history_vote gone))"

definition history_accounts :: vote_accounts where
  "history_accounts = \<lparr>va_realm = PK 11, va_governance = PK 1372, va_proposal = PK 29, va_proposal_owner_record = PK 24,
     va_token_owner_record = PK 24, va_governance_authority = (PK 4, True), va_vote_record = PK 3838,
     va_governing_token_mint = PK 5\<rparr>"

section \<open>The runs\<close>

lemmas history_defs = realm_store_def staked_store_def proposal_store_def vote_store_def history_realm_def
  history_governance_def sample_governance_def history_stake_def new_token_owner_record_def history_vote_def
  history_accounts_def default_token_config_def drafted_def on_vote_def accepted_def new_proposal_def

lemmas history_loaders = get_realm_data_def get_account_data_def get_realm_data_for_governing_token_mint_def
  assert_is_valid_realm_def assert_is_valid_account_of_types_def get_governance_data_for_realm_def get_governance_data_def current_governance_def current_config_def
  get_proposal_data_def get_proposal_data_for_governance_def get_proposal_data_for_governance_and_governing_mint_def
  get_token_owner_record_data_def get_token_owner_record_data_for_realm_def
  get_token_owner_record_data_for_realm_and_governing_mint_def get_token_owner_record_data_for_seeds_def
  get_token_owner_record_data_for_proposal_owner_def get_realm_config_data_for_realm_def get_token_config_def
  assert_is_valid_governing_token_mint_def next_account_info_def assert_token_owner_or_delegate_is_signer_def
  create_and_serialize_account_signed_def get_token_owner_record_address_seeds_def
  get_governing_token_holding_address_seeds_def resolve_voter_weight_def checked_add_def

lemma run_create_realm:
  "process_create_realm (history_env False 0) (PK 11) (PK 9) (PK 5) (PK 1267) [(PK 12, False)] ''dao'' history_args
     (\<lambda>_. None) = Ok (realm_store, [(PK 1267, PK 5, PK 11)])"
  by (simp add: process_create_realm_def assert_valid_realm_config_args_def history_args_def Let_def
      SUPPLY_FRACTION_BASE_def create_spl_token_account_signed_def get_governing_token_holding_address_seeds_def
      is_ok_def next_account_info_def resolve_governing_token_config_def optional_account_def
      create_and_serialize_account_signed_def get_realm_config_address_seeds_def get_realm_address_seeds_def
      realm_store_def history_realm_def default_token_config_def)

definition history_stake_accounts :: stake_accounts where
  "history_stake_accounts = \<lparr>sk_realm = PK 11, sk_holding = PK 1267, sk_owner = (PK 4, True),
     sk_token_owner_record = PK 24, sk_spl_token = PK 1, sk_realm_config = PK 12\<rparr>"

lemma run_deposit:
  "process_deposit_governing_tokens (history_env True 10) history_stake_accounts (PK 40) (PK 4)
     (take 3 sample_reward_accounts) sample_reward_tokens (\<lambda>_. None) 700 (realm_store, sample_store)
   = Ok (staked_store, sample_store, SplTransfer (PK 40) (PK 1267) (PK 4) 700)"
  by (simp add: process_deposit_governing_tokens_def history_stake_accounts_def get_spl_token_mint_def
      assert_is_valid_governing_token_mint_and_holding_def assert_can_deposit_governing_token_def is_ok_def
      accrue_stake_rewards_def sample_reward_accounts_def sample_stake_account_def sample_reward_tokens_def
      governance_accrue_rewards_def accrue_rewards_def get_realm_staked_balance_and_mint_decimals_def ok_option_def
      history_defs history_loaders Let_def fun_eq_iff)

lemma run_create_governance:
  "process_create_governance (history_env True 20) (PK 11) (PK 1372) (PK 8) (PK 24) (PK 9, True) []
     (gv_config (history_governance 0)) staked_store
   = Ok (staked_store(PK 1372 \<mapsto> GovernanceAccount (history_governance 0)))"
  by (simp add: process_create_governance_def assert_is_valid_governance_config_def assert_is_valid_vote_threshold_def
      assert_create_authority_can_create_governance_def get_governance_address_seeds_def
      history_defs history_loaders Let_def fun_eq_iff)

lemma run_create_proposal:
  "process_create_proposal (history_env True 100) \<lparr>cp_realm = PK 11, cp_proposal = PK 29, cp_governance = PK 1372,
       cp_proposal_owner_record = PK 24, cp_governing_token_mint = PK 5, cp_governance_authority = (PK 4, True),
       cp_payer = PK 4\<rparr> [(PK 12, False)] ''pay'' '''' SingleChoice [''yes''] True (PK 9)
     (staked_store(PK 1372 \<mapsto> GovernanceAccount (history_governance 0))) = Ok (proposal_store 0 1 drafted)"
  by (simp add: process_create_proposal_def assert_governing_token_mint_can_vote_def resolve_vote_threshold_def
      assert_can_create_proposal_def assert_valid_proposal_options_def get_proposal_address_seeds_def take_proposal_deposit_def
      get_proposal_deposit_amount_def saturating_mul_def saturating_sub_def U64_MAX_def
      history_defs history_loaders Let_def fun_eq_iff)

lemma run_sign_off:
  "process_sign_off_proposal (history_env True 100) (PK 11) (PK 1372) (PK 29) (PK 4, True) [(PK 24, False)]
     (proposal_store 0 1 drafted) = Ok (proposal_store 0 1 (on_vote 0))"
  by (simp add: process_sign_off_proposal_def assert_can_sign_off_def sign_off_by_def
      history_defs history_loaders Let_def fun_eq_iff)

lemma run_cast_vote:
  "process_cast_vote (history_env True 200) history_accounts [(PK 12, False)]
     (Approve [\<lparr>rank = 0, weight_percentage = 100\<rparr>]) (proposal_store 0 1 (on_vote 0))
   = Ok (vote_store 1 1 (on_vote 700) False)"
  by (simp add: process_cast_vote_def get_proposal_governing_token_mint_for_vote_def assert_can_cast_vote_def
      map_err_def assert_is_voting_state_def has_voting_max_time_ended_def voting_max_time_end_def voting_base_time_end_def
      has_voting_base_time_ended_def i64_add_def assert_valid_vote_def count_choice_def is_weighted_def count_vote_def
      get_choice_weight_def resolve_max_voter_weight_def get_max_voter_weight_from_mint_supply_def
      resolve_vote_threshold_def get_vote_tipping_def try_tip_vote_def try_get_tipped_vote_state_def
      try_get_tipped_electorate_vote_state_def get_min_vote_threshold_weight_def unwrap_result_def checked_mul_def
      get_vote_record_address_seeds_def
      history_defs history_loaders Let_def fun_eq_iff)

lemma run_finalize:
  "process_finalize_vote (history_env True 5000) (PK 11) (PK 1372) (PK 29) (PK 24) (PK 5) [(PK 12, False)]
     (vote_store 1 1 (on_vote 700) False) = Ok (vote_store 1 0 accepted False)"
  by (simp add: process_finalize_vote_def finalize_vote_def assert_can_finalize_vote_def map_err_def assert_is_voting_state_def
      has_voting_max_time_ended_def voting_max_time_end_def voting_base_time_end_def i64_add_def
      resolve_max_voter_weight_def get_max_voter_weight_from_mint_supply_def resolve_vote_threshold_def
      resolve_final_vote_state_def get_min_vote_threshold_weight_def coerce_vote_results_def
      decrease_outstanding_proposal_count_def saturating_sub_def unwrap_result_def checked_mul_def
      history_defs history_loaders Let_def fun_eq_iff)

lemma run_relinquish:
  "process_relinquish_vote (history_env True 6000) (PK 11) (PK 1372) (PK 29) (PK 24) (PK 3838) (PK 5) []
     (vote_store 1 0 accepted False) = Ok (vote_store 0 0 accepted True)"
  by (simp add: process_relinquish_vote_def get_vote_record_data_for_proposal_and_token_owner_record_def
      get_proposal_governing_token_mint_for_vote_def assert_can_relinquish_vote_def checked_sub_def
      history_defs history_loaders Let_def fun_eq_iff)

end
