(* ===== verification/GovernanceVoting.thy ===== *)
theory GovernanceVoting
  imports BallotSteps RealmHistory Transitions
begin

text \<open>
  Histories of the governance program: every instruction at any time, and the instructions that an
  executed proposal sends, which may call the program again. The books of \<open>VotingBooks\<close> are kept, every
  proposal moves forward, and without plugins and membership tokens each vote is backed by the stake of
  its voter.
\<close>

section \<open>Histories\<close>

text \<open>The clock and the accounts of other programs vary, the derivation of addresses does not.\<close>

definition same_program :: "gov_env \<Rightarrow> gov_env \<Rightarrow> bool" where
  "same_program env env' \<longleftrightarrow> gov_address env' = gov_address env"

inductive gov_step :: "gov_env \<Rightarrow> bool \<Rightarrow> gov_store \<Rightarrow> gov_store \<Rightarrow> bool" for env plugins where
  create_realm: "process_create_realm env' realm authority mint holding rest name args st = Ok (st', hs) \<Longrightarrow>
    same_program env env' \<Longrightarrow> plugins \<or> plain_args args \<Longrightarrow> gov_step env plugins st st'"
| set_realm_authority: "process_set_realm_authority realm authority rest action st = Ok st' \<Longrightarrow>
    gov_step env plugins st st'"
| set_realm_config: "process_set_realm_config env' realm authority rest args st = Ok st' \<Longrightarrow>
    same_program env env' \<Longrightarrow> plugins \<or> plain_args args \<Longrightarrow> gov_step env plugins st st'"
| set_realm_config_item: "process_set_realm_config_item env' realm k authority action mint la st = Ok st' \<Longrightarrow>
    same_program env env' \<Longrightarrow> gov_step env plugins st st'"
| create_governance: "process_create_governance env' realm k seed owner_record authority rest config st = Ok st' \<Longrightarrow>
    same_program env env' \<Longrightarrow> gov_step env plugins st st'"
| set_governance_config: "process_set_governance_config governance_signer config st = Ok st' \<Longrightarrow>
    gov_step env plugins st st'"
| add_required_signatory: "process_add_required_signatory env' governance_signer k signatory st = Ok st' \<Longrightarrow>
    same_program env env' \<Longrightarrow> gov_step env plugins st st'"
| remove_required_signatory: "process_remove_required_signatory governance_signer k st = Ok st' \<Longrightarrow>
    gov_step env plugins st st'"
| create_record: "process_create_token_owner_record env' realm owner k mint st = Ok st' \<Longrightarrow>
    same_program env env' \<Longrightarrow> gov_step env plugins st st'"
| set_delegate: "process_set_governance_delegate authority k new_delegate st = Ok st' \<Longrightarrow>
    gov_step env plugins st st'"
| set_lock: "process_set_token_owner_record_lock env' realm config k authority i expiry st = Ok st' \<Longrightarrow>
    same_program env env' \<Longrightarrow> gov_step env plugins st st'"
| relinquish_locks: "process_relinquish_token_owner_record_locks env' realm config k rest ids st = Ok st' \<Longrightarrow>
    same_program env env' \<Longrightarrow> gov_step env plugins st st'"
| deposit: "process_deposit_governing_tokens env' a source authority rest reward_tokens_at amount_of amount
      (st, store) = Ok (st', store', i) \<Longrightarrow> same_program env env' \<Longrightarrow> gov_step env plugins st st'"
| withdraw: "process_withdraw_governing_tokens env' a destination rest reward_tokens_at amount_of (st, store)
      = Ok (st', store', i) \<Longrightarrow> same_program env env' \<Longrightarrow> gov_step env plugins st st'"
| revoke: "process_revoke_governing_tokens env' realm holding k mint authority config amount st = Ok (st', i) \<Longrightarrow>
    same_program env env' \<Longrightarrow> gov_step env plugins st st'"
| create_proposal: "process_create_proposal env' cp rest name link vt opts deny seed st = Ok st' \<Longrightarrow>
    same_program env env' \<Longrightarrow> gov_step env plugins st st'"
| add_signatory: "process_add_signatory env' governance k sk rest signatory st = Ok st' \<Longrightarrow>
    same_program env env' \<Longrightarrow> gov_step env plugins st st'"
| insert_transaction: "process_insert_transaction env' governance k owner_record authority kt oi ii instrs st = Ok st' \<Longrightarrow>
    same_program env env' \<Longrightarrow> gov_step env plugins st st'"
| remove_transaction: "process_remove_transaction k owner_record authority kt st = Ok st' \<Longrightarrow>
    gov_step env plugins st st'"
| sign_off: "process_sign_off_proposal env' realm governance k signer' rest st = Ok st' \<Longrightarrow>
    same_program env env' \<Longrightarrow> gov_step env plugins st st'"
| cast_vote: "process_cast_vote env' va rest w st = Ok st' \<Longrightarrow> same_program env env' \<Longrightarrow>
    gov_step env plugins st st'"
| relinquish_vote: "process_relinquish_vote env' realm governance k kt kv mint rest st = Ok st' \<Longrightarrow>
    same_program env env' \<Longrightarrow> gov_step env plugins st st'"
| finalize: "process_finalize_vote env' realm governance k ko mint rest st = Ok st' \<Longrightarrow>
    same_program env env' \<Longrightarrow> gov_step env plugins st st'"
| cancel: "process_cancel_proposal env' realm governance k ko authority st = Ok st' \<Longrightarrow>
    same_program env env' \<Longrightarrow> gov_step env plugins st st'"
| complete: "process_complete_proposal env' k owner_record authority st = Ok st' \<Longrightarrow>
    same_program env env' \<Longrightarrow> gov_step env plugins st st'"
| refund_deposit: "process_refund_proposal_deposit k deposit payer st = Ok st' \<Longrightarrow> gov_step env plugins st st'"
| execute: "process_execute_transaction env' invoke governance k kt rest st = Ok st' \<Longrightarrow> same_program env env' \<Longrightarrow>
    \<forall>i signers s s'. invoke i signers s = Ok s' \<longrightarrow> (gov_step env plugins)\<^sup>*\<^sup>* s s' \<Longrightarrow> gov_step env plugins st st'"

section \<open>Stakes behind the votes\<close>

definition backed :: "gov_env \<Rightarrow> gov_store \<Rightarrow> bool" where
  "backed env st \<longleftrightarrow> (\<forall>k v kt t. votes st k = Some v \<and> \<not> is_relinquished v \<and> k = vote_address env (vr_proposal v) kt
     \<and> records st kt = Some t \<longrightarrow> voter_weight v \<le> governing_token_deposit_amount t)"

text \<open>What a step keeps: the books and the order; without plugins also the stakes behind the votes.\<close>

definition keeps :: "gov_env \<Rightarrow> bool \<Rightarrow> gov_store \<Rightarrow> gov_store \<Rightarrow> bool" where
  "keeps env plugins st st' \<longleftrightarrow> (books_ok env st \<longrightarrow> books_ok env st' \<and> advances st st'
     \<and> (\<not> plugins \<and> plain st \<and> backed env st \<longrightarrow> plain st' \<and> backed env st'))"

lemma keeps_refl [simp]: "keeps env plugins st st"
  by (simp add: keeps_def advances_refl)

lemma keeps_trans: "keeps env plugins st st1 \<Longrightarrow> keeps env plugins st1 st2 \<Longrightarrow> keeps env plugins st st2"
  unfolding keeps_def using advances_trans by blast

text \<open>The voter of a vote has a record, and only that one.\<close>

lemma voter_record:
  assumes "vote_addresses_distinct env" "accounts_ok env st" "votes st k = Some v" "k = vote_address env (vr_proposal v) kt"
  obtains t where "records st kt = Some t" "cast_by env st k v kt t"
proof -
  obtain kt0 t where "cast_by env st k v kt0 t" using accounts_okD(5) [OF assms(2,3)] by blast
  moreover from this have "kt0 = kt"
    using assms(1,4) unfolding vote_addresses_distinct_def cast_by_def by blast
  ultimately show thesis using that by (auto simp: cast_by_def)
qed

lemma tidy_backed:
  assumes distinct: "vote_addresses_distinct env" and t: "tidy env st st'" and ok: "books_ok env st" "backed env st"
  shows "backed env st'"
  unfolding backed_def
proof (intro allI impI, elim conjE)
  fix k v kt t' assume v: "votes st' k = Some v" "\<not> is_relinquished v" "k = vote_address env (vr_proposal v) kt"
    and t': "records st' kt = Some t'"
  have acc: "accounts_ok env st" and r: "records_ok env (records st) (proposals st) (votes st)"
    using ok(1) by (simp_all add: books_ok_def)
  have v0: "votes st k = Some v" using v(1) t by (simp add: tidy_def calm_def quiet_def)
  obtain t0 where t0: "records st kt = Some t0" by (rule voter_record [OF distinct acc v0 v(3)])
  have "k \<in> active_votes env (votes st) kt" using v0 v(2,3) by simp
  moreover have "finite (active_votes env (votes st) kt)"
    by (rule finite_active_votes [OF finite_dom_entries(1) [OF acc]])
  moreover have "unrelinquished_votes_count t0 = card (active_votes env (votes st) kt)"
    using r t0 by (simp add: records_ok_def)
  ultimately have "unrelinquished_votes_count t0 \<noteq> 0" by (metis card_0_eq empty_iff)
  moreover obtain t1 where "records st' kt = Some t1"
      "governing_token_deposit_amount t0 \<le> governing_token_deposit_amount t1 \<or> unrelinquished_votes_count t0 = 0"
    using t t0 unfolding tidy_def stakes_kept_def by blast
  ultimately have "governing_token_deposit_amount t0 \<le> governing_token_deposit_amount t'" using t' by simp
  moreover have "voter_weight v \<le> governing_token_deposit_amount t0"
    using ok(2) v0 v(2,3) t0 by (auto simp: backed_def)
  ultimately show "voter_weight v \<le> governing_token_deposit_amount t'" by simp
qed

lemma calm_keeps:
  assumes "vote_addresses_distinct env" "calm env st st'" "\<not> plugins \<Longrightarrow> plain st \<Longrightarrow> tidy env st st'"
  shows "keeps env plugins st st'"
  using assms quiet_books [OF assms(1)] tidy_backed [OF assms(1)]
  unfolding keeps_def calm_def tidy_def by blast

lemma tidy_keeps: "vote_addresses_distinct env \<Longrightarrow> tidy env st st' \<Longrightarrow> keeps env plugins st st'"
  by (rule calm_keeps) (auto simp: tidy_def)

section \<open>Steps that change the books\<close>

text \<open>Votes and stakes as they were, but for the vote at one address.\<close>

lemma backed_upd:
  assumes "backed env st" and "\<And>k t'. records st' k = Some t' \<Longrightarrow> \<exists>t. records st k = Some t
      \<and> governing_token_deposit_amount t' = governing_token_deposit_amount t"
    and "\<And>k v. votes st' k = Some v \<Longrightarrow> \<not> is_relinquished v \<Longrightarrow> votes st k = Some v \<or>
      (\<forall>kt t. k = vote_address env (vr_proposal v) kt \<longrightarrow> records st kt = Some t
        \<longrightarrow> voter_weight v \<le> governing_token_deposit_amount t)"
  shows "backed env st'"
  unfolding backed_def
proof (intro allI impI, elim conjE)
  fix k v kt t' assume v: "votes st' k = Some v" "\<not> is_relinquished v" "k = vote_address env (vr_proposal v) kt"
    and t': "records st' kt = Some t'"
  obtain t where t: "records st kt = Some t" "governing_token_deposit_amount t' = governing_token_deposit_amount t"
    using assms(2) [OF t'] by blast
  show "voter_weight v \<le> governing_token_deposit_amount t'"
    using assms(1) assms(3) [OF v(1,2)] v(2,3) t unfolding backed_def by auto
qed

lemma stake_upd:
  assumes "R k = Some t" "same_stake t t'" "(R(k \<mapsto> t')) k' = Some x"
  shows "\<exists>t. R k' = Some t \<and> governing_token_deposit_amount x = governing_token_deposit_amount t"
  using assms by (auto simp: same_stake_def split: if_splits)

lemma advances_upd:
  assumes "P k = None \<or> (\<exists>p. P k = Some p \<and> forward p p')" "P = proposals st" "proposals st' = P(k \<mapsto> p')"
    and "transactions st' = transactions st"
  shows "advances st st'"
proof -
  have "settled_transactions st st' kp" for kp
    using assms(4) by (simp add: settled_transactions_def content_def executed_def)
  then show ?thesis using assms(1-3) by (auto simp: advances_def split: if_splits)
qed

lemma plain_rest: "same_rest st st' \<Longrightarrow> plain st' \<longleftrightarrow> plain st"
  by (simp add: same_rest_def plain_def)

lemma opens_keeps:
  assumes "opens st k p st'"
  shows "keeps env plugins st st'"
proof -
  obtain t t' where o: "proposals st k = None" "proposals st' = (proposals st)(k \<mapsto> p)" "votes st' = votes st"
      "same_rest st st'" "records st (pr_token_owner_record p) = Some t" "same_stake t t'"
      "records st' = (records st)(pr_token_owner_record p \<mapsto> t')"
    using assms unfolding opens_def by blast
  have "advances st st'"
    by (rule advances_upd [OF _ refl o(2)]) (use o(1,4) in \<open>simp_all add: same_rest_def\<close>)
  moreover have "backed env st'" if "backed env st"
    by (rule backed_upd [OF that]) (use stake_upd [where R = "records st", OF o(5,6)] o(3,7) in simp_all)
  ultimately show ?thesis
    using opens_books [OF _ assms] plain_rest [OF o(4)] unfolding keeps_def by blast
qed

lemma closes_keeps:
  assumes "closes st k p p' st'"
  shows "keeps env plugins st st'"
proof -
  obtain t t' where o: "proposals st k = Some p" "open_proposal p" "ballot p' = ballot p" "2 \<le> phase (pr_state p')"
      "proposals st' = (proposals st)(k \<mapsto> p')" "votes st' = votes st" "same_rest st st'"
      "records st (pr_token_owner_record p) = Some t" "same_stake t t'"
      "records st' = (records st)(pr_token_owner_record p \<mapsto> t')"
    using assms unfolding closes_def by blast
  have "pr_state p' \<noteq> Draft" using o(4) by auto
  then have "forward p p'"
    using o(2-4) ballot_fields [OF o(3)] by (simp add: forward_def open_proposal_def)
  then have "advances st st'"
    by (intro advances_upd [OF _ refl o(5)]) (use o(1,7) in \<open>simp_all add: same_rest_def\<close>)
  moreover have "backed env st'" if "backed env st"
    by (rule backed_upd [OF that]) (use stake_upd [where R = "records st", OF o(8,9)] o(6,10) in simp_all)
  ultimately show ?thesis
    using closes_books [OF _ assms] plain_rest [OF o(7)] unfolding keeps_def by blast
qed

lemma adds_forward: "adds v p p' \<or> adds v p' p \<Longrightarrow> phase (pr_state p) = 1 \<Longrightarrow> forward p p'"
  by (auto simp: adds_def forward_def)

lemma casts_keeps:
  assumes distinct: "vote_addresses_distinct env" and "casts env st kv v kt p p' st'"
    and weight: "plain st \<Longrightarrow> weighs st v kt"
  shows "keeps env plugins st st'"
proof -
  obtain t t' where o: "proposals st (vr_proposal v) = Some p" "phase (pr_state p) = 1" "adds v p p'"
      "kv = vote_address env (vr_proposal v) kt" "votes st' = (votes st)(kv \<mapsto> v)" "same_rest st st'"
      "proposals st' = (proposals st)(vr_proposal v \<mapsto> p')"
      "records st kt = Some t" "same_stake t t'" "records st' = (records st)(kt \<mapsto> t')"
    using assms(2) unfolding casts_def by blast
  have "advances st st'"
    by (rule advances_upd [OF _ refl o(7)])
      (use o(1,6) adds_forward [OF disjI1 [OF o(3)] o(2)] in \<open>simp_all add: same_rest_def\<close>)
  moreover have "backed env st'" if "plain st" "backed env st"
  proof (rule backed_upd [OF that(2)])
    show "\<exists>t. records st k = Some t \<and> governing_token_deposit_amount x = governing_token_deposit_amount t"
      if "records st' k = Some x" for k x
      using stake_upd [where R = "records st", OF o(8,9)] that o(10) by simp
    fix k w assume w: "votes st' k = Some w"
    have "kt' = kt" if "kv = vote_address env (vr_proposal v) kt'" for kt'
      using distinct that o(4) unfolding vote_addresses_distinct_def by blast
    then show "votes st k = Some w \<or> (\<forall>kt t. k = vote_address env (vr_proposal w) kt \<longrightarrow> records st kt = Some t
        \<longrightarrow> voter_weight w \<le> governing_token_deposit_amount t)"
      using w o(5) weight [OF \<open>plain st\<close>] unfolding weighs_def by (fastforce split: if_splits)
  qed
  ultimately show ?thesis
    using casts_books [OF distinct _ assms(2)] plain_rest [OF o(6)] unfolding keeps_def by blast
qed

lemma retracts_keeps:
  assumes distinct: "vote_addresses_distinct env" and "retracts env st kv v kt p p' st'"
  shows "keeps env plugins st st'"
proof -
  obtain t t' where o: "proposals st (vr_proposal v) = Some p" "phase (pr_state p) = 1" "adds v p' p"
      "votes st' = (votes st)(kv := None)" "same_rest st st'"
      "proposals st' = (proposals st)(vr_proposal v \<mapsto> p')"
      "records st kt = Some t" "same_stake t t'" "records st' = (records st)(kt \<mapsto> t')"
    using assms(2) unfolding retracts_def by blast
  have "advances st st'"
    by (rule advances_upd [OF _ refl o(6)])
      (use o(1,5) adds_forward [OF disjI2 [OF o(3)] o(2)] in \<open>simp_all add: same_rest_def\<close>)
  moreover have "backed env st'" if "backed env st"
    by (rule backed_upd [OF that]) (use stake_upd [where R = "records st", OF o(7,8)] o(4,9) in \<open>simp_all split: if_splits\<close>)
  ultimately show ?thesis
    using retracts_books [OF distinct _ assms(2)] plain_rest [OF o(5)] unfolding keeps_def by blast
qed

lemma releases_keeps:
  assumes distinct: "vote_addresses_distinct env" and "releases env st kv v kt st'"
  shows "keeps env plugins st st'"
proof -
  obtain t t' where o: "proposals st' = proposals st" "same_rest st st'"
      "votes st' = (votes st)(kv \<mapsto> v\<lparr>is_relinquished := True\<rparr>)"
      "records st kt = Some t" "same_stake t t'" "records st' = (records st)(kt \<mapsto> t')"
    using assms(2) unfolding releases_def by blast
  have "settled_transactions st st' kp" for kp
    using o(2) by (simp add: settled_transactions_def content_def executed_def same_rest_def)
  then have "advances st st'" by (simp add: advances_def o(1))
  moreover have "backed env st'" if "backed env st"
    by (rule backed_upd [OF that]) (use stake_upd [where R = "records st", OF o(4,5)] o(3,6) in \<open>auto split: if_splits\<close>)
  ultimately show ?thesis
    using releases_books [OF distinct _ assms(2)] plain_rest [OF o(2)] unfolding keeps_def by blast
qed

section \<open>Every step keeps the books\<close>

lemma tidy_same_program:
  assumes "same_program env env'" "tidy env' st st'"
  shows "tidy env st st'"
proof -
  have "record_kept env' = record_kept env"
    using assms(1) by (simp add: fun_eq_iff record_kept_def record_address_def same_program_def cong: option.case_cong)
  then show ?thesis using assms(2) by (simp add: tidy_def calm_def quiet_def)
qed

lemma calls_keep:
  assumes "\<forall>i signers s s'. invoke i signers s = Ok s' \<longrightarrow> (\<lambda>x y. gov_step env plugins x y \<and> keeps env plugins x y)\<^sup>*\<^sup>* s s'"
    and "fold_result (\<lambda>s i. invoke i signers s) s is = Ok s'"
  shows "keeps env plugins s s'"
  using assms(2)
proof (induction "is" arbitrary: s)
  case (Cons i calls)
  then obtain s1 where s1: "invoke i signers s = Ok s1" "fold_result (\<lambda>s i. invoke i signers s) s1 calls = Ok s'"
    by auto
  have "keeps env plugins x y" if "(\<lambda>x y. gov_step env plugins x y \<and> keeps env plugins x y)\<^sup>*\<^sup>* x y" for x y
    using that by induction (auto intro: keeps_trans)
  then have "keeps env plugins s s1" using assms(1) s1(1) by blast
  then show ?case using Cons.IH [OF s1(2)] keeps_trans by blast
qed simp

lemma gov_step_keeps:
  assumes distinct: "vote_addresses_distinct env" and "gov_step env plugins st st'"
  shows "keeps env plugins st st'"
  using assms(2)
proof induction
  case (create_realm env' realm authority mint holding rest name args st st' hs)
  show ?case by (rule calm_keeps [OF distinct]) (use create_realm_calm [OF create_realm(1)] create_realm(3) in auto)
next
  case (set_realm_config env' realm authority rest args st st')
  show ?case by (rule calm_keeps [OF distinct]) (use set_realm_config_calm [OF set_realm_config(1)] set_realm_config(3) in auto)
next
  case (create_record env' realm owner k mint st st')
  show ?case by (rule tidy_keeps [OF distinct tidy_same_program [OF create_record(2)
    create_token_owner_record_tidy [OF create_record(1)]]])
next
  case (deposit env' a source authority rest reward_tokens_at amount_of amount st store st' store' i)
  show ?case by (rule tidy_keeps [OF distinct deposit_tidy [OF deposit(1)]]) (use deposit(2) in \<open>simp add: same_program_def\<close>)
next
  case (revoke env' realm holding k mint authority config amount st st' i)
  show ?case by (rule calm_keeps [OF distinct]) (use revoke_calm [OF revoke(1)] in auto)
next
  case (create_proposal env' cp rest name link vt opts deny seed st st')
  then obtain p mid where "opens st (cp_proposal cp) p mid" "tidy env mid st'"
    using create_proposal_opens by blast
  then show ?case using opens_keeps tidy_keeps [OF distinct] keeps_trans by blast
next
  case (cast_vote env' va rest w st st')
  show ?case
  proof (cases "accounts_ok env st")
    case True
    obtain v p p1 mid where c: "casts env st (va_vote_record va) v (va_token_owner_record va) p p1 mid"
      "plain st \<longrightarrow> weighs st v (va_token_owner_record va)"
      "st' = mid \<or> (\<exists>p2. closes mid (va_proposal va) p1 p2 st')"
      using cast_vote_casts [OF cast_vote(1) True cast_vote(2) [unfolded same_program_def]] by blast
    have "keeps env plugins st mid" using casts_keeps [OF distinct c(1)] c(2) by blast
    then show ?thesis using c(3) closes_keeps keeps_trans by blast
  qed (simp add: keeps_def books_ok_def)
next
  case (relinquish_vote env' realm governance k kt kv mint rest st st')
  show ?case
  proof (cases "accounts_ok env st")
    case True
    then obtain v p p' where "retracts env st kv v kt p p' st' \<or> releases env st kv v kt st'"
      using relinquish_vote_cases [OF relinquish_vote(1)] by blast
    then show ?thesis
      by (elim disjE) (rule retracts_keeps [OF distinct], assumption, rule releases_keeps [OF distinct], assumption)
  qed (simp add: keeps_def books_ok_def)
next
  case (finalize env' realm governance k ko mint rest st st')
  then show ?case using finalize_vote_closes closes_keeps by blast
next
  case (cancel env' realm governance k ko authority st st')
  then show ?case using cancel_proposal_closes closes_keeps by blast
next
  case (execute env' invoke governance k kt rest st st')
  show ?case
  proof (cases "books_ok env st")
    case True
    have "\<exists>st1. keeps env plugins st st1 \<and> tidy env st1 st'"
    proof (rule execute_transaction_tidy [OF execute(1)])
      show "keeps env plugins s s'" if "fold_result (\<lambda>s i. invoke i signers s) s is = Ok s'" for signers "is" s s'
        by (rule calls_keep [OF execute(3) that])
      show "advances st s" if "keeps env plugins st s" for s
        using that True by (simp add: keeps_def)
    qed
    then show ?thesis using tidy_keeps [OF distinct] keeps_trans by blast
  qed (simp add: keeps_def)
next
  case set_realm_authority
  show ?case by (rule tidy_keeps [OF distinct set_realm_authority_tidy [OF set_realm_authority(1)]])
next
  case set_realm_config_item
  show ?case by (rule tidy_keeps [OF distinct set_realm_config_item_tidy [OF set_realm_config_item(1)]])
next
  case create_governance
  show ?case by (rule tidy_keeps [OF distinct create_governance_tidy [OF create_governance(1)]])
next
  case set_governance_config
  show ?case by (rule tidy_keeps [OF distinct set_governance_config_tidy [OF set_governance_config(1)]])
next
  case add_required_signatory
  show ?case by (rule tidy_keeps [OF distinct add_required_signatory_tidy [OF add_required_signatory(1)]])
next
  case remove_required_signatory
  show ?case by (rule tidy_keeps [OF distinct remove_required_signatory_tidy [OF remove_required_signatory(1)]])
next
  case set_delegate
  show ?case by (rule tidy_keeps [OF distinct set_governance_delegate_tidy [OF set_delegate(1)]])
next
  case set_lock
  show ?case by (rule tidy_keeps [OF distinct set_token_owner_record_lock_tidy [OF set_lock(1)]])
next
  case relinquish_locks
  show ?case by (rule tidy_keeps [OF distinct relinquish_locks_tidy [OF relinquish_locks(1)]])
next
  case withdraw
  show ?case by (rule tidy_keeps [OF distinct withdraw_tidy [OF withdraw(1)]])
next
  case add_signatory
  show ?case by (rule tidy_keeps [OF distinct add_signatory_tidy [OF add_signatory(1)]])
next
  case insert_transaction
  show ?case by (rule tidy_keeps [OF distinct insert_transaction_tidy [OF insert_transaction(1)]])
next
  case remove_transaction
  show ?case by (rule tidy_keeps [OF distinct remove_transaction_tidy [OF remove_transaction(1)]])
next
  case sign_off
  show ?case by (rule tidy_keeps [OF distinct sign_off_proposal_tidy [OF sign_off(1)]])
next
  case complete
  show ?case by (rule tidy_keeps [OF distinct complete_proposal_tidy [OF complete(1)]])
next
  case refund_deposit
  show ?case by (rule tidy_keeps [OF distinct refund_proposal_deposit_tidy [OF refund_deposit(1)]])
qed

section \<open>What holds in every history\<close>

definition no_accounts :: gov_store where
  "no_accounts = (\<lambda>_. None)"

lemma no_accounts_ok: "books_ok env no_accounts" "plain no_accounts" "backed env no_accounts"
  by (simp_all add: books_ok_def accounts_ok_def votes_ok_def records_ok_def governances_ok_def plain_def backed_def
      entry_def no_accounts_def)

definition voting_ok :: "gov_env \<Rightarrow> bool \<Rightarrow> gov_store \<Rightarrow> bool" where
  "voting_ok env plugins st \<longleftrightarrow> vote_addresses_distinct env
     \<and> books_ok env st \<and> (\<not> plugins \<longrightarrow> plain st \<and> backed env st)"

definition later :: "gov_store \<Rightarrow> gov_store \<Rightarrow> bool" where
  "later st st' \<longleftrightarrow> advances st st'"

interpretation voting: monotone_system "gov_step env plugins" "voting_ok env plugins" later for env plugins
proof unfold_locales
  fix st st' assume "gov_step env plugins st st'" "voting_ok env plugins st"
  then show "voting_ok env plugins st'" "later st st'"
    using gov_step_keeps [of env plugins st st'] by (auto simp: voting_ok_def keeps_def later_def)
qed (auto simp: later_def advances_refl intro: advances_trans)

lemma reachable_voting_ok:
  assumes "vote_addresses_distinct env" "(gov_step env plugins)\<^sup>*\<^sup>* no_accounts st"
  shows "voting_ok env plugins st"
  using voting.reachable [OF assms(2)] assms(1) no_accounts_ok by (simp add: voting_ok_def)

text \<open>The votes of a population are at the addresses of its records.\<close>

definition population :: "gov_store \<Rightarrow> pubkey \<Rightarrow> (pubkey \<Rightarrow> bool) \<Rightarrow> pubkey set" where
  "population st realm mint_ok = {k. \<exists>t. records st k = Some t \<and> tor_realm t = realm \<and> mint_ok (tor_governing_token_mint t)}"

definition staked :: "gov_store \<Rightarrow> pubkey set \<Rightarrow> nat" where
  "staked st ks = (\<Sum>k \<in> ks. case records st k of Some t \<Rightarrow> governing_token_deposit_amount t | None \<Rightarrow> 0)"

lemma choice_weight_le: "choice_weight c w \<le> w"
proof -
  have "w * weight_percentage c div 100 mod 2 ^ 64 \<le> w" if "weight_percentage c \<le> 99"
  proof -
    have "w * weight_percentage c div 100 \<le> w * 100 div 100" using that by (intro div_le_mono mult_le_mono) simp_all
    then show ?thesis using mod_less_eq_dividend [of "w * weight_percentage c div 100" "2 ^ 64"] by simp
  qed
  then show ?thesis
    by (auto simp: choice_weight_def get_choice_weight_def checked_mul_def split: result.splits if_splits)
qed

lemma parts_le: "option_part i v + deny_part v \<le> voter_weight v" "veto_part v \<le> voter_weight v"
  "option_part i v + deny_part v \<noteq> 0 \<Longrightarrow> get_vote_kind (vr_vote v) = ElectorateKind"
  "veto_part v \<noteq> 0 \<Longrightarrow> get_vote_kind (vr_vote v) = VetoKind"
  using choice_weight_le
  by (cases "vr_vote v"; simp add: option_part_def deny_part_def veto_part_def)+

lemma sum_within_stakes:
  assumes distinct: "vote_addresses_distinct env" and acc: "accounts_ok env st" and b: "backed env st"
    and live: "\<And>kv v. votes st kv = Some v \<Longrightarrow> vr_proposal v = k \<Longrightarrow> \<not> is_relinquished v"
    and f: "\<And>v. f v \<le> voter_weight v"
    and who: "\<And>kv v kt t. votes st kv = Some v \<Longrightarrow> vr_proposal v = k \<Longrightarrow> f v \<noteq> 0 \<Longrightarrow> cast_by env st kv v kt t
      \<Longrightarrow> tor_realm t = realm \<and> mint_ok (tor_governing_token_mint t)"
  shows "total_of (votes st) k f \<le> staked st (population st realm mint_ok)"
proof -
  let ?V = "{kv \<in> votes_on (votes st) k. f (the (votes st kv)) \<noteq> 0}" and ?T = "population st realm mint_ok"
  let ?stake = "\<lambda>kt. case records st kt of Some t \<Rightarrow> governing_token_deposit_amount t | None \<Rightarrow> 0"
  have fin: "finite ?T"
    by (rule finite_subset [of _ "dom (records st)"])
      (use finite_dom_entry [OF accounts_okD(1) [OF acc]] in \<open>auto simp: population_def\<close>)
  have at: "\<exists>kt \<in> ?T. kv = vote_address env k kt \<and> f (the (votes st kv)) \<le> ?stake kt" if "kv \<in> ?V" for kv
  proof -
    from that obtain v where v: "votes st kv = Some v" "vr_proposal v = k" "f v \<noteq> 0" by auto
    obtain kt t where c: "cast_by env st kv v kt t" using accounts_okD(5) [OF acc v(1)] by blast
    then have kt: "records st kt = Some t" "kv = vote_address env (vr_proposal v) kt" by (simp_all add: cast_by_def)
    have "kt \<in> ?T" using kt(1) who [OF v c] by (simp add: population_def)
    moreover have "voter_weight v \<le> governing_token_deposit_amount t"
      using b live [OF v(1,2)] v(1) kt unfolding backed_def by blast
    ultimately show ?thesis using kt v f [of v] by (intro bexI [of _ kt]) auto
  qed
  have V: "finite (votes_on (votes st) k)" by (rule finite_votes_on [OF finite_dom_entries(1) [OF acc]])
  have "total_of (votes st) k f = (\<Sum>kv \<in> ?V. f (the (votes st kv)))"
    unfolding total_of_def
    by (rule sum.mono_neutral_right [OF V]) auto
  also have "\<dots> \<le> (\<Sum>kt \<in> ?T. ?stake kt)"
  proof (rule sum_le_included [where i = "vote_address env k"])
    show "finite ?V" by (rule finite_subset [OF _ V]) auto
    show "\<forall>kv \<in> ?V. \<exists>kt \<in> ?T. vote_address env k kt = kv \<and> f (the (votes st kv)) \<le> ?stake kt"
    proof
      fix kv assume "kv \<in> ?V"
      then obtain kt where "kt \<in> ?T" "kv = vote_address env k kt" "f (the (votes st kv)) \<le> ?stake kt" using at by blast
      then show "\<exists>kt \<in> ?T. vote_address env k kt = kv \<and> f (the (votes st kv)) \<le> ?stake kt" by blast
    qed
  qed (use fin in simp_all)
  finally show ?thesis by (simp add: staked_def)
qed

section \<open>A concrete history\<close>

lemma history_distinct: "vote_addresses_distinct (history_env h now)"
  unfolding vote_addresses_distinct_def
proof (intro allI impI)
  fix p t p' t' assume "vote_address (history_env h now) p t = vote_address (history_env h now) p' t'"
  then have "paired (pk_bytes p) (pk_bytes t) = paired (pk_bytes p') (pk_bytes t')"
    by (simp add: vote_address_def get_vote_record_address_seeds_def)
  from paired_eq [OF this] show "p = p' \<and> t = t'" by (cases p; cases p'; cases t; cases t') simp
qed

lemma history_program: "same_program (history_env h t) (history_env h' t')"
  by (simp add: same_program_def fun_eq_iff)

lemma voted_reached: "(gov_step (history_env True 0) False)\<^sup>*\<^sup>* no_accounts (vote_store 1 1 (on_vote 700) False)"
proof -
  have plain: "False \<or> plain_args history_args"
    by (simp add: plain_args_def history_args_def Let_def)
  note step = rtranclp.rtrancl_into_rtrancl
  show ?thesis
    unfolding no_accounts_def
    by (rule step, rule step, rule step, rule step, rule step, rule step, rule rtranclp.rtrancl_refl,
        rule gov_step.create_realm [OF run_create_realm history_program plain],
        rule gov_step.deposit [OF run_deposit history_program],
        rule gov_step.create_governance [OF run_create_governance history_program],
        rule gov_step.create_proposal [OF run_create_proposal history_program],
        rule gov_step.sign_off [OF run_sign_off history_program],
        rule gov_step.cast_vote [OF run_cast_vote history_program])
qed

lemma accepted_reached: "(gov_step (history_env True 0) False)\<^sup>*\<^sup>* no_accounts (vote_store 1 0 accepted False)"
  by (rule rtranclp.rtrancl_into_rtrancl [OF voted_reached]) (rule gov_step.finalize [OF run_finalize history_program])

lemma released_step: "gov_step (history_env True 0) False (vote_store 1 0 accepted False) (vote_store 0 0 accepted True)"
  by (rule gov_step.relinquish_vote [OF run_relinquish history_program])

section \<open>Properties\<close>

text \<open>
  C7: In every history of the governance program, plugins and executed proposals included, the weights of a
  proposal are exactly the sums over the votes that were cast on it and not taken back; a token owner
  record counts exactly its votes that are not relinquished and its proposals that are not decided, and
  a governance its proposals that are not decided. So no vote is counted twice or lost.
\<close>
theorem votes_counted:
  assumes "vote_addresses_distinct env" "(gov_step env plugins)\<^sup>*\<^sup>* no_accounts st"
  shows "(\<forall>k p. proposals st k = Some p \<longrightarrow>
        (\<forall>i < length (pr_options p). vote_weight (pr_options p ! i) = total_of (votes st) k (option_part i))
        \<and> (case deny_vote_weight p of Some d \<Rightarrow> d | None \<Rightarrow> 0) = total_of (votes st) k deny_part
        \<and> veto_vote_weight p = total_of (votes st) k veto_part)
    \<and> (\<forall>k t. records st k = Some t \<longrightarrow> unrelinquished_votes_count t = card (active_votes env (votes st) k)
        \<and> outstanding_proposal_count t = card (open_proposals (proposals st) (\<lambda>p. pr_token_owner_record p = k)))
    \<and> (\<forall>k g. governances st k = Some g \<longrightarrow>
        active_proposal_count g = card (open_proposals (proposals st) (\<lambda>p. pr_governance p = k)))"
  using reachable_voting_ok [OF assms]
  by (simp add: voting_ok_def books_ok_def votes_ok_def records_ok_def governances_ok_def tallied_def deny_weight_def)

theorem votes_counted_witness:
  "total_of (votes (vote_store 1 1 (on_vote 700) False)) (PK 29) (option_part 0) = 700
   \<and> card (active_votes (history_env True 0) (votes (vote_store 1 1 (on_vote 700) False)) (PK 24)) = 1
   \<and> card (open_proposals (proposals (vote_store 1 1 (on_vote 700) False)) (\<lambda>p. pr_governance p = PK 1372)) = 1"
proof -
  let ?st = "vote_store 1 1 (on_vote 700) False"
  have st: "proposals ?st (PK 29) = Some (on_vote 700)" "records ?st (PK 24) = Some (history_stake 1 1)"
      "governances ?st (PK 1372) = Some (history_governance 1)"
    by (simp_all add: vote_store_def proposal_store_def)
  have vals: "length (pr_options (on_vote 700)) = 1" "vote_weight (pr_options (on_vote 700) ! 0) = 700"
      "unrelinquished_votes_count (history_stake 1 1) = 1" "active_proposal_count (history_governance 1) = 1"
    by (simp_all add: on_vote_def drafted_def new_proposal_def history_stake_def history_governance_def)
  note counted = votes_counted [OF history_distinct voted_reached]
  show ?thesis
    using counted [THEN conjunct1, rule_format, OF st(1)] counted [THEN conjunct2, THEN conjunct1, rule_format, OF st(2)]
      counted [THEN conjunct2, THEN conjunct2, rule_format, OF st(3)] vals
    by (metis One_nat_def less_Suc0)
qed

text \<open>
  C8: Without plugins and membership tokens no stake counts twice. While a proposal is voted on, what an
  option has together with the votes against is at most what is staked in the realm of the proposal's
  mint, and the vetoes are at most what is staked of the realm's other mints: a stake cannot be withdrawn
  or moved to another owner to vote again while a vote of it counts.
\<close>
theorem votes_within_stakes:
  assumes "vote_addresses_distinct env" "(gov_step env False)\<^sup>*\<^sup>* no_accounts st"
    and "proposals st k = Some p" "pr_state p = Voting" "i < length (pr_options p)"
  shows "\<exists>g. governances st (pr_governance p) = Some g
    \<and> vote_weight (pr_options p ! i) + (case deny_vote_weight p of Some d \<Rightarrow> d | None \<Rightarrow> 0)
        \<le> staked st (population st (gv_realm g) (\<lambda>mint. mint = pr_governing_token_mint p))
    \<and> veto_vote_weight p \<le> staked st (population st (gv_realm g) (\<lambda>mint. mint \<noteq> pr_governing_token_mint p))"
proof -
  have ok: "accounts_ok env st" "backed env st" "votes_ok (proposals st) (votes st)"
    using reachable_voting_ok [OF assms(1,2)] by (simp_all add: voting_ok_def books_ok_def)
  obtain g where g: "governances st (pr_governance p) = Some g"
    using accounts_okD(4) [OF ok(1) assms(3)] by blast
  have live: "\<not> is_relinquished v" if "votes st kv = Some v" "vr_proposal v = k" for kv v
    using ok(3) assms(3,4) that by (auto simp: votes_ok_def)
  have tally: "tallied (votes st) k p" using ok(3) assms(3) by (simp add: votes_ok_def)
  have voter: "tor_realm t = gv_realm g \<and> (get_vote_kind (vr_vote v) = ElectorateKind \<longleftrightarrow>
      tor_governing_token_mint t = pr_governing_token_mint p)"
    if "vr_proposal v = k" "cast_by env st kv v kt t" for kv v kt t
    using that g assms(3) by (cases "get_vote_kind (vr_vote v)") (auto simp: cast_by_def votes_with_def)
  have "total_of (votes st) k (\<lambda>v. option_part i v + deny_part v)
      \<le> staked st (population st (gv_realm g) (\<lambda>mint. mint = pr_governing_token_mint p))"
  proof (rule sum_within_stakes [OF assms(1) ok(1,2) live parts_le(1)])
    show "tor_realm t = gv_realm g \<and> tor_governing_token_mint t = pr_governing_token_mint p"
      if "vr_proposal v = k" "option_part i v + deny_part v \<noteq> 0" "cast_by env st kv v kt t" for kv v kt t
      using voter [OF that(1,3)] parts_le(3) [OF that(2)] by simp
  qed
  moreover have "total_of (votes st) k veto_part
      \<le> staked st (population st (gv_realm g) (\<lambda>mint. mint \<noteq> pr_governing_token_mint p))"
  proof (rule sum_within_stakes [OF assms(1) ok(1,2) live parts_le(2)])
    show "tor_realm t = gv_realm g \<and> tor_governing_token_mint t \<noteq> pr_governing_token_mint p"
      if "vr_proposal v = k" "veto_part v \<noteq> 0" "cast_by env st kv v kt t" for kv v kt t
      using voter [OF that(1,3)] parts_le(4) [OF that(2)] by simp
  qed
  ultimately show ?thesis
    using g tally assms(5) by (simp add: tallied_def deny_weight_def total_of_def sum.distrib)
qed

theorem votes_within_stakes_witness:
  "700 \<le> staked (vote_store 1 1 (on_vote 700) False)
     (population (vote_store 1 1 (on_vote 700) False) (PK 11) (\<lambda>mint. mint = PK 5))"
proof -
  let ?st = "vote_store 1 1 (on_vote 700) False"
  have st: "proposals ?st (PK 29) = Some (on_vote 700)" "governances ?st (PK 1372) = Some (history_governance 1)"
    by (simp_all add: vote_store_def proposal_store_def)
  have vals: "length (pr_options (on_vote 700)) = 1" "vote_weight (pr_options (on_vote 700) ! 0) = 700"
      "pr_state (on_vote 700) = Voting" "pr_governance (on_vote 700) = PK 1372"
      "pr_governing_token_mint (on_vote 700) = PK 5" "gv_realm (history_governance 1) = PK 11"
    by (simp_all add: on_vote_def drafted_def new_proposal_def history_governance_def)
  show ?thesis
    using votes_within_stakes [OF history_distinct voted_reached st(1) vals(3), of 0] vals st(2) by auto
qed

text \<open>
  C9: A decision stands. Once a proposal is decided, later instructions, votes that are relinquished and
  executed transactions included, leave its weights and the results of its options as they are; a
  cancelled, defeated or vetoed proposal stays what it is, one that succeeded is executed or completed;
  its transactions stay exactly those it had, and one that has been executed is never executed again.
\<close>
theorem decision_stands:
  assumes "vote_addresses_distinct env" "(gov_step env plugins)\<^sup>*\<^sup>* no_accounts st" "(gov_step env plugins)\<^sup>*\<^sup>* st st'"
    and "proposals st k = Some p" "pr_state p \<notin> {Draft, SigningOff, Voting}"
  shows "\<exists>p'. proposals st' k = Some p'
    \<and> map vote_weight (pr_options p') = map vote_weight (pr_options p)
    \<and> map vote_result (pr_options p') = map vote_result (pr_options p)
    \<and> deny_vote_weight p' = deny_vote_weight p \<and> veto_vote_weight p' = veto_vote_weight p
    \<and> (if pr_state p \<in> {Cancelled, ProposalDefeated, Vetoed} then pr_state p' = pr_state p
       else pr_state p' \<in> {ProposalSucceeded, Executing, ExecutingWithErrors, Completed})
    \<and> (\<forall>kt. content st' k kt = content st k kt)
    \<and> (\<forall>kt pt env' invoke rest x. transactions st kt = Some pt \<and> pt_proposal pt = k \<and> executed_at pt \<noteq> None
         \<longrightarrow> process_execute_transaction env' invoke (pr_governance p) k kt rest st' \<noteq> Ok x)"
proof -
  have "advances st st'"
    using voting.reachable_below [OF assms(3) reachable_voting_ok [OF assms(1,2)]] by (simp add: later_def)
  then obtain p' where p': "proposals st' k = Some p'" "forward p p'"
    and s: "settled_transactions st st' k"
    using assms(4,5) unfolding advances_def by blast
  have decided: "2 \<le> phase (pr_state p)" using assms(5) by (cases "pr_state p") simp_all
  then have same: "ballot p' = ballot p" "results p' = results p" "phase (pr_state p') = phase (pr_state p)"
      "phase (pr_state p) = 3 \<Longrightarrow> pr_state p' = pr_state p"
    using p'(2) by (simp_all add: forward_def)
  have "process_execute_transaction env' invoke (pr_governance p) k kt rest st' \<noteq> Ok x"
    if pt: "transactions st kt = Some pt" "pt_proposal pt = k" "executed_at pt \<noteq> None" for kt pt env' invoke rest x
  proof
    assume "process_execute_transaction env' invoke (pr_governance p) k kt rest st' = Ok x"
    then show False
    proof (rule execute_transaction_Ok)
      fix g q pt' st1 p2 now
      assume q: "st' kt = Some (ProposalTransactionAccount pt')"
        "assert_can_execute_transaction q pt' (gv_config (current_governance g)) (unix_timestamp env') = Ok ()"
      have "executed st' kt"
        using s pt by (simp add: settled_transactions_def content_def executed_def)
      then have "executed_at pt' \<noteq> None" using q(1) by (simp add: executed_def)
      then show False using q(2) by (auto simp: assert_can_execute_transaction_def split: if_splits)
    qed
  qed
  moreover have "if pr_state p \<in> {Cancelled, ProposalDefeated, Vetoed} then pr_state p' = pr_state p
       else pr_state p' \<in> {ProposalSucceeded, Executing, ExecutingWithErrors, Completed}"
    using same(3,4) decided by (cases "pr_state p"; cases "pr_state p'") simp_all
  ultimately show ?thesis
    using p'(1) same(1,2) s by (auto simp: ballot_def results_def settled_transactions_def)
qed

theorem decision_stands_witness:
  "\<exists>p'. proposals (vote_store 0 0 accepted True) (PK 29) = Some p'
     \<and> map vote_weight (pr_options p') = [700] \<and> map vote_result (pr_options p') = [OptionSucceeded]
     \<and> pr_state p' \<in> {ProposalSucceeded, Executing, ExecutingWithErrors, Completed}"
proof -
  have p: "proposals (vote_store 1 0 accepted False) (PK 29) = Some accepted"
    by (simp add: vote_store_def proposal_store_def)
  have vals: "pr_state accepted = ProposalSucceeded" "map vote_weight (pr_options accepted) = [700]"
      "map vote_result (pr_options accepted) = [OptionSucceeded]"
    by (simp_all add: accepted_def)
  show ?thesis
    using decision_stands [OF history_distinct accepted_reached r_into_rtranclp [where r = "gov_step (history_env True 0) False",
        OF released_step] p] vals by auto
qed

end
