(* ===== verification/Spec2Isabelle.thy ===== *)
theory Spec2Isabelle
  imports FolioLifecycle RewardClaims RewardRegistry GovernanceVoting
begin

text \<open>
  The index DTFs of Reserve on Solana, modelled and verified.

  A folio (DTF) is a basket of tokens held by a program account. Users deposit tokens into a pending
  basket and mint shares of the folio for them, or burn shares and take their part of the basket out.
  An owner, a rebalance manager and auction launchers trade the basket in dutch auctions. A fee on the
  value (TVL) and one on minting accrue as pending shares, of which a DAO gets its part, and are minted
  to the recipients later. A second program stores the fees of the DAO and the programs that a folio may
  migrate to; a third one hands out reward tokens to those who stake in a realm of the governance
  program.

  \<^bold>\<open>Parts of the program and theories\<close>

  \<^item> \<open>shared/src\<close>: \<open>Errors\<close> (the error codes of \<open>errors.rs\<close>, the result type \<open>Ok | Err e | Panic\<close> and its
    monad), \<open>Prelude\<close> (unsigned arithmetic of Rust with its widths written out, public keys, arrays of
    slots), \<open>MathUtil\<close> (\<open>utils/math_util.rs\<close>: \<open>Decimal\<close> on 256 bits with \<open>pow\<close>, \<open>nth_root\<close>, \<open>ln\<close>,
    \<open>exp\<close>), \<open>Accounts\<close> (\<open>utils/account_util.rs\<close>, \<open>utils/token_util.rs\<close>).
  \<^item> \<open>programs/folio/src\<close>, data and accounts: \<open>State\<close> (\<open>state.rs\<close>, \<open>utils/structs\<close>), \<open>FolioFees\<close>
    (\<open>utils/accounts/folio.rs\<close>, \<open>actor.rs\<close>), \<open>Basket\<close> (\<open>folio_basket.rs\<close>), \<open>PendingBasket\<close>
    (\<open>user_pending_basket.rs\<close>), \<open>RebalanceModel\<close> (\<open>rebalance.rs\<close> and its two instructions), \<open>Auctions\<close>
    (\<open>auction.rs\<close>, \<open>auction_ends.rs\<close>).
  \<^item> \<open>programs/folio/src/instructions\<close>: \<open>FeeDistribution\<close> (\<open>crank\<close> and the accounts it works on),
    \<open>AuctionInstructions\<close> (\<open>auction\<close>), \<open>UserInstructions\<close> (\<open>user\<close>), \<open>OwnerInstructions\<close> (\<open>owner\<close>),
    \<open>Migration\<close> (\<open>owner/migration\<close> and the call to the new program). One definition per handler, with its
    validation, its loop over the accounts it is given and its calls in the order of the code.
  \<^item> \<open>programs/folio-admin/src\<close>: \<open>FolioAdmin\<close>. \<open>programs/rewards/src\<close>: \<open>RewardAccounts\<close>
    (\<open>state.rs\<close>, \<open>utils/accounts\<close>), \<open>RewardInstructions\<close> (\<open>instructions\<close>, \<open>utils/external/governance.rs\<close>
    and the hook \<open>governance/program/src/tools/rewards_program.rs\<close>).
  \<^item> \<open>governance/program/src\<close>: \<open>GovernanceState\<close> (the structs of \<open>state\<close> with the checks on them,
    \<open>addins\<close>, the errors), \<open>ProposalVotes\<close> (\<open>state/proposal.rs\<close>), \<open>GovernanceAccounts\<close> (the accounts by
    address, the loaders of \<open>state\<close>, the instructions on token owner records), \<open>GovernanceRealms\<close> (realms
    and governances), \<open>GovernanceProposals\<close> (proposals, votes and execution), \<open>GovernanceStakes\<close> (deposits,
    withdrawals and revocations, and the layout that the rewards program reads). \<open>GovernanceVoting\<close> has the
    step relation over all its instructions, on the books of \<open>VotingBooks\<close>; what each instruction does to
    them is in \<open>GovernanceSteps\<close> and \<open>BallotSteps\<close>, and \<open>RealmHistory\<close> runs a vote from its beginning.

  \<^bold>\<open>How state and operations are modelled\<close>

  A Rust struct or account is a record (without padding), an account that does not exist yet is \<open>None\<close>.
  An operation takes the accounts it reads and returns those it changes, in a result: every \<open>Err\<close> of the
  code is a branch with its error code, a plain operation that overflows, an index out of range or an
  \<open>unwrap\<close> of \<open>None\<close> is \<open>Panic\<close> (the programs are built with overflow checks). Unsigned integers are
  naturals whose bound is checked at every operation that can exceed it, with the width as an argument
  (\<open>checked_add 64\<close>); a time stamp is an integer and \<open>as_u64\<close> is its cast; roles are an \<open>8 word\<close>. An
  instruction sent to a token program is a value of type \<open>cpi\<close> in the list that a handler returns. What is
  not in the repository is a parameter: the derivation of addresses and the ids of the token programs
  (the record \<open>sdk\<close>), the program that a bidder calls back, the program that a folio migrates to, whether
  the metadata could be written. The constraints that Anchor checks on the accounts of an instruction
  (seeds, signers, the mint and owner of associated token accounts) are not repeated; a theorem that rests
  on one of them has it as a premise.

  \<^bold>\<open>Interfaces\<close>

  \<^item> \<open>Ledger.token_ledger\<close> (credit and debit of amounts by mint), interpreted on the basket and on both
    sides of a pending basket; \<open>dual_ledger\<close> adds that the two sides do not interfere. They give the
    conservation of tokens by whole vectors of amounts, in the handlers and in \<open>Custody\<close>.
  \<^item> \<open>Transitions.invariant_system\<close> and \<open>monotone_system\<close> (a step relation, an invariant, an order that
    no step goes down), interpreted on the fee distributions, the openings of a rebalance, the auctions of
    a folio, the reward books, the registry of reward tokens, the custody of a folio, its life cycle and the governance program.

  \<^bold>\<open>What is shown\<close>

  \<^item> \<open>Custody\<close>: over all instructions of users, owner, bidders and of a migration, a folio's token account
    covers its basket and all pending amounts; pending amounts can always be taken back.
  \<^item> \<open>PendingBasket\<close>, \<open>Basket\<close>: minting and burning conserve tokens, round against the user, never
    dilute the other holders and admit no profitable round trip; the basket refines a finite map.
  \<^item> \<open>FolioFees\<close>, \<open>FeeDistribution\<close>, \<open>FolioAdmin\<close>: what the two fees add to the supply and who gets it;
    distributing and cranking conserve the supply, pay nobody twice and are always covered; the fee
    parameters stay in their bounds.
  \<^item> \<open>AuctionOpening\<close>, \<open>Bidding\<close>, \<open>PriceCurve\<close>, \<open>AuctionLifecycle\<close>: which auctions can be opened and
    how they narrow the limits of the rebalance, what a bid trades, that the price stays in its band,
    never rises and can always be computed, that no pair is auctioned twice at a time. The histories of
    \<open>AuctionLifecycle\<close> include bids that name another folio's auction, which the code accepts; the flag
    \<open>aw_foreign_end\<close> marks those that end a pair before its time, after which it can be auctioned twice.
  \<^item> \<open>FolioLifecycle\<close>: over every instruction that writes a folio its status moves forward only, its terms
    change as the owner asks within their bounds, after the fees under the old terms are distributed.
    \<open>Migration\<close>: nothing is lost between the two programs. The side of the new program is an example that
    is compiled in only with the feature \<open>test\<close>: it is an argument of \<open>new_program\<close>, both builds are
    covered, and \<open>FolioLifecycle\<close> is about builds without it.
  \<^item> \<open>RewardSolvency\<close>, \<open>RewardClaims\<close>, \<open>RewardRegistry\<close>: what stakers are owed is covered, claims pay what
    has accrued, a removed token stays out. A stake may change without an accrual; what it is then credited
    for the time before is counted apart (\<open>rw_unearned\<close>), for nothing need cover it.
  \<^item> \<open>ProposalVotes\<close>: the decision on a proposal is the one its votes ask for, and a decision before the
    end is the one that further votes could not change. \<open>GovernanceVoting\<close>: in every history the weights of
    a proposal are the votes cast on it, without plugins no more than what is staked, a decision stands and
    no transaction is executed twice; the instructions that an executed proposal sends may call the
    program again. Votes are found at derived addresses, which are assumed to differ for different
    proposals and voters. \<open>GovernanceStakes\<close>: what deposits and withdrawals
    do, that the rewards of the tokens whose accounts come along are accrued on the stake before it changes,
    and that the two programs agree on the bytes of the accounts.
  \<^item> Some theorems state what the code does where it may surprise: a bid does not look at the folio of its
    auction and can so reopen the pair of the folio it trades with, a deposit without the accounts of a reward token earns its history, a full rebalance ignores
    further details, a flat auction is priced one unit above its start, an auction closed in its last
    second stays open, a folio without any fee rate cannot be poked.

  \<^bold>\<open>Loops and bounds\<close>

  No definition uses fuel. The loops over accounts and slots are folds or structural recursion over the
  list; those of \<open>pow\<close>, \<open>ln\<close> and \<open>exp\<close> are functions with a termination proof (the exponent is halved, the
  argument moves towards one, the series stop at \<open>MAX_ITERATIONS\<close> = 100 terms), the bisection of \<open>nth_root\<close>
  runs 15 rounds. The arrays have their lengths from \<open>constants/common.rs\<close>: 100 tokens in
  a basket, 110 in a pending basket, 30 in a rebalance, 64 fee recipients, 4 reward tokens.

  \<^bold>\<open>Not modelled\<close>

  Of the governance program, a fork of the SPL governance program: accounts in the layouts of its first
  version (\<open>state/legacy.rs\<close>, the first branches of the loaders), lamports (rent and the deposit of a
  proposal are an account that exists or not), the account with the version of the program, the treasury
  of a governance (an account without data), comments on proposals. The instructions that an executed
  proposal sends are an argument of the handler. Entry points dispatch to the handlers,
  events are log output (the event of a crank is kept, for it names the wrong recipient), the builders of
  instructions for the metadata program and for the new folio program only pack arguments, rent is moved
  by the system program.
\<close>

end
